(* ===== verification/Exec_Prelude.thy ===== *)
theory Exec_Prelude
  imports Main "HOL-Library.AList" "HOL-Library.Char_ord" "HOL-Library.List_Lexorder"
begin

text \<open>
  Shared vocabulary of the development: exceptions as values of a sum type with a bind and
  a sequenced map, Python dictionaries as association lists in insertion order, the string
  methods the sources call, and the lemmas about them that carry the component proofs.
  A Python \<open>str\<close> is a \<open>string\<close> whose characters are the code points 0 to 255 (Latin-1);
  \<open>strip\<close>, \<open>lower\<close>, \<open>isidentifier\<close> and \<open>repr\<close> are written out for exactly that range.
\<close>

named_theorems res_simps \<open>evaluation of sequenced fallible computations\<close>
named_theorems dict_simps \<open>reading back what was written to a dictionary\<close>

section \<open>Exceptions as values\<close>

datatype py_error =
    ProjectExecutionError string
  | ProjectExecutionNotFoundError string
  | ProjectExecutionConflictError string
  | KeyError string
  | ValueError string
  | TypeError string
  | AdapterError string
  | RoadmapError string
  | RoadmapNotFoundError string
  | RoadmapConflictError string
  | RoadmapCoordinationError string
  | RoadmapCoordinationConflictError string
  | ProjectError string
  | AttributeError string

type_synonym 'a res = "py_error + 'a"

definition rbind :: "'e + 'a \<Rightarrow> ('a \<Rightarrow> 'e + 'b) \<Rightarrow> 'e + 'b" where
  "rbind m f = (case m of Inl e \<Rightarrow> Inl e | Inr x \<Rightarrow> f x)"

lemma rbind_Inl [simp, res_simps]: "rbind (Inl e) f = Inl e"
  by (simp add: rbind_def)

lemma rbind_Inr [simp, res_simps]: "rbind (Inr x) f = f x"
  by (simp add: rbind_def)

lemma rbind_cong [fundef_cong]:
  "m = m' \<Longrightarrow> (\<And>x. m' = Inr x \<Longrightarrow> f x = f' x) \<Longrightarrow> rbind m f = rbind m' f'"
  by (auto simp: rbind_def split: sum.splits)

lemma rbind_Inr_iff [res_simps]: "rbind m f = Inr y \<longleftrightarrow> (\<exists>x. m = Inr x \<and> f x = Inr y)"
  by (cases m) auto

lemma rbind_InrE [elim!]:
  assumes "rbind m f = Inr y"
  obtains x where "m = Inr x" and "f x = Inr y"
  using assms by (cases m) auto

lemma rbind_Inl_iff: "rbind m f = Inl e \<longleftrightarrow> m = Inl e \<or> (\<exists>x. m = Inr x \<and> f x = Inl e)"
  by (cases m) auto

definition require :: "bool \<Rightarrow> 'e \<Rightarrow> 'e + unit" where
  "require ok e = (if ok then Inr () else Inl e)"

lemma require_simps [simp, res_simps]:
  "require True e = Inr ()" "require False e = Inl e"
  "require ok e = Inr u \<longleftrightarrow> ok" "require ok e = Inl e' \<longleftrightarrow> \<not> ok \<and> e' = e"
  by (auto simp: require_def)

fun mapr :: "('a \<Rightarrow> 'e + 'b) \<Rightarrow> 'a list \<Rightarrow> 'e + 'b list" where
  "mapr f [] = Inr []"
| "mapr f (x # xs) = rbind (f x) (\<lambda>y. rbind (mapr f xs) (\<lambda>ys. Inr (y # ys)))"

lemma mapr_cong [fundef_cong]:
  "xs = ys \<Longrightarrow> (\<And>x. x \<in> set ys \<Longrightarrow> f x = g x) \<Longrightarrow> mapr f xs = mapr g ys"
proof (induction xs arbitrary: ys)
  case (Cons a xs)
  then show ?case by (cases ys) auto
qed simp

lemma mapr_Inr_iff: "mapr f xs = Inr ys \<longleftrightarrow> list_all2 (\<lambda>x y. f x = Inr y) xs ys"
proof (induction xs arbitrary: ys)
  case (Cons a xs)
  then show ?case by (cases ys) (auto simp: rbind_Inr_iff)
qed auto

lemma mapr_Inr_map: "(\<And>x. x \<in> set xs \<Longrightarrow> f x = Inr (g x)) \<Longrightarrow> mapr f xs = Inr (map g xs)"
  by (induction xs) auto

lemma mapr_total: "(\<And>x. x \<in> set xs \<Longrightarrow> \<exists>y. f x = Inr y) \<Longrightarrow> \<exists>ys. mapr f xs = Inr ys"
  by (induction xs) fastforce+

lemma mapr_map: "mapr f (map g xs) = mapr (f \<circ> g) xs"
  by (induction xs) simp_all

text \<open>Run a check on each element, stopping at the first failure, as a loop of \<open>raise\<close>s does.\<close>

fun eachr :: "('a \<Rightarrow> 'e + unit) \<Rightarrow> 'a list \<Rightarrow> 'e + unit" where
  "eachr f [] = Inr ()"
| "eachr f (x # xs) = rbind (f x) (\<lambda>_. eachr f xs)"

lemma eachr_Inr_iff [res_simps]: "eachr f xs = Inr u \<longleftrightarrow> (\<forall>x \<in> set xs. f x = Inr ())"
  by (induction xs) (auto simp: rbind_Inr_iff)

lemma eachr_Inl: "eachr f xs = Inl e \<Longrightarrow> \<exists>x \<in> set xs. f x = Inl e"
  by (induction xs) (auto simp: rbind_Inl_iff)

text \<open>A left fold whose step can raise.\<close>

fun foldr_res :: "('s \<Rightarrow> 'a \<Rightarrow> 'e + 's) \<Rightarrow> 's \<Rightarrow> 'a list \<Rightarrow> 'e + 's" where
  "foldr_res f s [] = Inr s"
| "foldr_res f s (x # xs) = rbind (f s x) (\<lambda>s'. foldr_res f s' xs)"

lemma foldr_res_invariant:
  assumes "foldr_res f s xs = Inr s'" and "P s"
    and "\<And>t x t'. P t \<Longrightarrow> x \<in> set xs \<Longrightarrow> f t x = Inr t' \<Longrightarrow> P t'"
  shows "P s'"
  using assms
proof (induction xs arbitrary: s)
  case (Cons x xs)
  from Cons.prems(1) obtain t where t: "f s x = Inr t" "foldr_res f t xs = Inr s'" by auto
  from Cons.prems(2,3) t(1) have "P t" by (meson list.set_intros(1))
  with Cons.IH [OF t(2)] Cons.prems(3) show ?case by (meson list.set_intros(2))
qed simp

section \<open>Dictionaries in insertion order\<close>

text \<open>
  \<open>d[k] = v\<close> keeps the position of a key that is present and appends a new one, which is
  what \<open>AList.update\<close> does; \<open>d.get(k)\<close> is \<open>map_of d k\<close>.
\<close>

type_synonym 'v pydict = "(string \<times> 'v) list"

definition dset :: "'k \<Rightarrow> 'v \<Rightarrow> ('k \<times> 'v) list \<Rightarrow> ('k \<times> 'v) list" where
  "dset k v d = AList.update k v d"

definition dget :: "('k \<times> 'v) list \<Rightarrow> 'k \<Rightarrow> 'v \<Rightarrow> 'v" where
  "dget d k dflt = (case map_of d k of None \<Rightarrow> dflt | Some v \<Rightarrow> v)"

definition py_dict :: "('k \<times> 'v) list \<Rightarrow> ('k \<times> 'v) list" where
  "py_dict xs = foldl (\<lambda>d (k, v). dset k v d) [] xs"

abbreviation keys :: "('k \<times> 'v) list \<Rightarrow> 'k list" where
  "keys d \<equiv> map fst d"

lemma map_of_dset [simp, dict_simps]:
  "map_of (dset k v d) k' = (if k' = k then Some v else map_of d k')"
  by (simp add: dset_def update_conv')

lemma dget_dset [simp, dict_simps]:
  "dget (dset k v d) k' x = (if k' = k then v else dget d k' x)"
  by (simp add: dget_def)

lemma dget_Nil [simp, dict_simps]: "dget [] k x = x"
  by (simp add: dget_def)

lemma dget_Cons [simp, dict_simps]: "dget ((k, v) # d) k' x = (if k' = k then v else dget d k' x)"
  by (simp add: dget_def)

lemma distinct_keys_dset [simp, intro]: "distinct (keys d) \<Longrightarrow> distinct (keys (dset k v d))"
  by (simp add: dset_def distinct_update)

lemma set_keys_dset [simp]: "set (keys (dset k v d)) = insert k (set (keys d))"
  by (induction d) (auto simp: dset_def)

lemma keys_dset_mem: "k \<in> set (keys d) \<Longrightarrow> keys (dset k v d) = keys d"
  by (induction d) (auto simp: dset_def)

lemma dset_append_new: "k \<notin> set (keys d) \<Longrightarrow> dset k v d = d @ [(k, v)]"
  by (induction d) (auto simp: dset_def)

lemma dset_same: "map_of d k = Some v \<Longrightarrow> dset k v d = d"
  by (induction d) (auto simp: dset_def)

lemma dset_dset [simp]: "dset k v (dset k w d) = dset k v d"
  by (induction d) (auto simp: dset_def)

lemma foldl_dset_distinct:
  assumes "distinct (keys xs)" and "set (keys xs) \<inter> set (keys d) = {}"
  shows "foldl (\<lambda>d (k, v). dset k v d) d xs = d @ xs"
  using assms
proof (induction xs arbitrary: d)
  case (Cons p xs)
  obtain k v where p: "p = (k, v)" by (cases p)
  from Cons.prems p have "dset k v d = d @ [(k, v)]" by (intro dset_append_new) auto
  moreover from Cons.prems p
  have "foldl (\<lambda>d (k, v). dset k v d) (d @ [(k, v)]) xs = (d @ [(k, v)]) @ xs"
    by (intro Cons.IH) auto
  ultimately show ?case using p by simp
qed simp

lemma py_dict_distinct [simp]: "distinct (keys xs) \<Longrightarrow> py_dict xs = xs"
  by (simp add: py_dict_def foldl_dset_distinct)

lemma map_of_foldl_dset:
  "map_of (foldl (\<lambda>d (k, v). dset k v d) d xs) k
     = (case map_of (rev xs) k of None \<Rightarrow> map_of d k | Some v \<Rightarrow> Some v)"
  by (induction xs arbitrary: d) (auto simp: map_add_def split: option.splits)

lemma map_of_py_dict: "map_of (py_dict xs) k = map_of (rev xs) k"
  by (simp add: py_dict_def map_of_foldl_dset split: option.splits)

lemma set_dset_subset: "set (dset k v d) \<subseteq> insert (k, v) (set d)"
  by (induction d) (auto simp: dset_def split: if_splits)

lemma set_py_dict_subset: "set (py_dict xs) \<subseteq> set xs"
proof -
  have "set (foldl (\<lambda>d (k, v). dset k v d) d xs) \<subseteq> set d \<union> set xs" for d
  proof (induction xs arbitrary: d)
    case (Cons x xs)
    obtain k v where x: "x = (k, v)" by (cases x)
    show ?case using Cons.IH [of "dset k v d"] set_dset_subset [of k v d] by (auto simp: x)
  qed simp
  from this [of "[]"] show ?thesis by (simp add: py_dict_def)
qed

text \<open>
  The interface of a keyed store, as the runtime's records use it: what is read after a
  write. Clients reason from these laws only.
\<close>

locale keyed_store =
  fixes lookup :: "'s \<Rightarrow> 'k \<Rightarrow> 'v option"
    and store :: "'k \<Rightarrow> 'v \<Rightarrow> 's \<Rightarrow> 's"
  assumes lookup_store: "lookup (store k v s) k' = (if k' = k then Some v else lookup s k')"
begin

definition store_all :: "('k \<times> 'v) list \<Rightarrow> 's \<Rightarrow> 's" where
  "store_all kvs s = foldl (\<lambda>t (k, v). store k v t) s kvs"

lemma lookup_store_same: "lookup (store k v s) k = Some v"
  by (simp add: lookup_store)

lemma lookup_store_other: "k' \<noteq> k \<Longrightarrow> lookup (store k v s) k' = lookup s k'"
  by (simp add: lookup_store)

lemma lookup_store_all_other: "k \<notin> fst ` set kvs \<Longrightarrow> lookup (store_all kvs s) k = lookup s k"
  unfolding store_all_def by (induction kvs arbitrary: s) (auto simp: lookup_store)

lemma domain_store: "{k'. lookup (store k v s) k' \<noteq> None} = insert k {k'. lookup s k' \<noteq> None}"
  by (auto simp: lookup_store)

end

interpretation dict_store: keyed_store map_of dset
  by unfold_locales simp

end
