(* ===== verification/Py_Strings.thy ===== *)
theory Py_Strings
  imports Exec_Prelude
begin

text \<open>
  The Python string methods the sources call, on code points 0 to 255, and the identifier
  and date validators of the program that are built from them
  (\<open>project.validate_project_id\<close>, \<open>workspace.task_git.validate_task_id\<close>,
  \<open>project_execution.models.validate_asset_id\<close>, \<open>_date\<close>).
\<close>

section \<open>Character classes and methods of str\<close>

definition py_isspace :: "char \<Rightarrow> bool" where
  "py_isspace c = (let n = (of_char c :: nat) in
     (9 \<le> n \<and> n \<le> 13) \<or> (28 \<le> n \<and> n \<le> 32) \<or> n = 133 \<or> n = 160)"

definition py_isdecimal :: "char \<Rightarrow> bool" where
  "py_isdecimal c = (let n = (of_char c :: nat) in 48 \<le> n \<and> n \<le> 57)"

definition py_lstrip :: "string \<Rightarrow> string" where
  "py_lstrip s = dropWhile py_isspace s"

definition py_strip :: "string \<Rightarrow> string" where
  "py_strip s = rev (dropWhile py_isspace (rev (py_lstrip s)))"

definition py_lower_char :: "char \<Rightarrow> char" where
  "py_lower_char c = (let n = (of_char c :: nat) in
     if (65 \<le> n \<and> n \<le> 90) \<or> (192 \<le> n \<and> n \<le> 222 \<and> n \<noteq> 215) then char_of (n + 32) else c)"

definition py_lower :: "string \<Rightarrow> string" where
  "py_lower s = map py_lower_char s"

definition py_replace_char :: "char \<Rightarrow> char \<Rightarrow> string \<Rightarrow> string" where
  "py_replace_char a b s = map (\<lambda>c. if c = a then b else c) s"

definition py_xid_start :: "char \<Rightarrow> bool" where
  "py_xid_start c = (let n = (of_char c :: nat) in
     (65 \<le> n \<and> n \<le> 90) \<or> n = 95 \<or> (97 \<le> n \<and> n \<le> 122) \<or> n = 170 \<or> n = 181 \<or> n = 186
     \<or> (192 \<le> n \<and> n \<le> 255 \<and> n \<noteq> 215 \<and> n \<noteq> 247))"

definition py_xid_continue :: "char \<Rightarrow> bool" where
  "py_xid_continue c = (py_xid_start c \<or> py_isdecimal c \<or> (of_char c :: nat) = 183)"

fun py_isidentifier :: "string \<Rightarrow> bool" where
  "py_isidentifier [] = False"
| "py_isidentifier (c # cs) = (py_xid_start c \<and> list_all py_xid_continue cs)"

fun py_join :: "string \<Rightarrow> string list \<Rightarrow> string" where
  "py_join sep [] = []"
| "py_join sep [s] = s"
| "py_join sep (s # t # ss) = s @ sep @ py_join sep (t # ss)"

definition py_digit :: "nat \<Rightarrow> char" where
  "py_digit d = char_of (48 + d)"

fun py_str_nat :: "nat \<Rightarrow> string" where
  "py_str_nat n = (if n < 10 then [py_digit n] else py_str_nat (n div 10) @ [py_digit (n mod 10)])"

declare py_str_nat.simps [simp del]

definition py_str_int :: "int \<Rightarrow> string" where
  "py_str_int i = (if i < 0 then ''-'' @ py_str_nat (nat (- i)) else py_str_nat (nat i))"

text \<open>The decimal digits of an \<open>int(...)\<close> argument; single underscores may separate digits.\<close>

fun py_digits_value :: "nat \<Rightarrow> string \<Rightarrow> nat option" where
  "py_digits_value acc [] = Some acc"
| "py_digits_value acc (c # cs) =
     (if py_isdecimal c then py_digits_value (10 * acc + (of_char c - 48)) cs
      else if c = CHR ''_'' \<and> cs \<noteq> [] \<and> py_isdecimal (hd cs) then py_digits_value acc cs
      else None)"

definition py_parse_nat :: "string \<Rightarrow> nat option" where
  "py_parse_nat s =
     (case s of [] \<Rightarrow> None | c # _ \<Rightarrow> if py_isdecimal c then py_digits_value 0 s else None)"

definition py_int_of_str :: "string \<Rightarrow> int option" where
  "py_int_of_str s =
     (case py_strip s of
        [] \<Rightarrow> None
      | c # cs \<Rightarrow>
          if c = CHR ''-'' then map_option (\<lambda>n. - int n) (py_parse_nat cs)
          else if c = CHR ''+'' then map_option int (py_parse_nat cs)
          else map_option int (py_parse_nat (c # cs)))"

text \<open>\<open>repr\<close> of a string, as \<open>{x!r}\<close> in an f-string prints it.\<close>

definition py_hex_digit :: "nat \<Rightarrow> char" where
  "py_hex_digit d = (if d < 10 then char_of (48 + d) else char_of (87 + d))"

definition py_repr_char :: "char \<Rightarrow> char \<Rightarrow> string" where
  "py_repr_char q c = (let n = (of_char c :: nat) in
     if c = q \<or> n = 92 then [char_of (92 :: nat), c]
     else if n = 9 then [char_of (92 :: nat), CHR ''t'']
     else if n = 10 then [char_of (92 :: nat), CHR ''n'']
     else if n = 13 then [char_of (92 :: nat), CHR ''r'']
     else if n < 32 \<or> (127 \<le> n \<and> n \<le> 160) \<or> n = 173
       then [char_of (92 :: nat), CHR ''x'', py_hex_digit (n div 16), py_hex_digit (n mod 16)]
     else [c])"

definition py_repr_str :: "string \<Rightarrow> string" where
  "py_repr_str s =
     (let squote = char_of (39 :: nat); dquote = char_of (34 :: nat);
          q = (if squote \<in> set s \<and> dquote \<notin> set s then dquote else squote)
      in [q] @ List.concat (map (py_repr_char q) s) @ [q])"

section \<open>Facts about the string methods\<close>

lemma dropWhile_idem [simp]: "dropWhile P (dropWhile P xs) = dropWhile P xs"
  by (induction xs) auto

lemma dropWhile_id_iff: "dropWhile P xs = xs \<longleftrightarrow> xs = [] \<or> \<not> P (hd xs)"
proof (cases xs)
  case (Cons a as)
  have "length (dropWhile P as) \<le> length as" by (rule length_dropWhile_le)
  with Cons show ?thesis by (auto dest: arg_cong [where f = length])
qed simp

lemma py_strip_id_iff:
  "py_strip s = s \<longleftrightarrow> s = [] \<or> (\<not> py_isspace (hd s) \<and> \<not> py_isspace (last s))"
proof
  assume eq: "py_strip s = s"
  have len: "length (py_strip s) \<le> length (py_lstrip s)"
    unfolding py_strip_def by (metis length_dropWhile_le length_rev)
  have "length (py_lstrip s) \<le> length s" by (simp add: py_lstrip_def length_dropWhile_le)
  with len eq have l: "length (py_lstrip s) = length s" by simp
  have "py_lstrip s = s"
    using l unfolding py_lstrip_def
    by (metis append.left_neutral append_eq_conv_conj length_append add_cancel_left_left
        length_0_conv takeWhile_dropWhile_id)
  then have "dropWhile py_isspace (rev s) = rev s" and "dropWhile py_isspace s = s"
    using eq by (auto simp: py_strip_def py_lstrip_def rev_swap)
  then show "s = [] \<or> (\<not> py_isspace (hd s) \<and> \<not> py_isspace (last s))"
    by (auto simp: dropWhile_id_iff hd_rev)
next
  assume "s = [] \<or> (\<not> py_isspace (hd s) \<and> \<not> py_isspace (last s))"
  then have "dropWhile py_isspace s = s" and "dropWhile py_isspace (rev s) = rev s"
    by (auto simp: dropWhile_id_iff hd_rev)
  then show "py_strip s = s" by (simp add: py_strip_def py_lstrip_def)
qed

lemma last_dropWhile: "dropWhile P xs \<noteq> [] \<Longrightarrow> last (dropWhile P xs) = last xs"
  by (induction xs) (auto split: if_splits)

lemma py_strip_ends:
  "py_strip s = [] \<or> (\<not> py_isspace (hd (py_strip s)) \<and> \<not> py_isspace (last (py_strip s)))"
proof (cases "py_strip s = []")
  case False
  let ?l = "py_lstrip s"
  have ne: "dropWhile py_isspace (rev ?l) \<noteq> []" using False by (simp add: py_strip_def)
  have "\<not> py_isspace (hd (dropWhile py_isspace (rev ?l)))" by (rule hd_dropWhile [OF ne])
  then have e1: "\<not> py_isspace (last (py_strip s))" by (simp add: py_strip_def last_rev)
  have l: "?l \<noteq> []" using ne by auto
  have "hd (py_strip s) = last (dropWhile py_isspace (rev ?l))"
    by (simp add: py_strip_def hd_rev)
  also have "\<dots> = last (rev ?l)" by (rule last_dropWhile [OF ne])
  also have "\<dots> = hd ?l" by (simp add: last_rev)
  finally have "hd (py_strip s) = hd ?l" .
  moreover have "\<not> py_isspace (hd ?l)" using l unfolding py_lstrip_def by (rule hd_dropWhile)
  ultimately show ?thesis using e1 by simp
qed simp

lemma py_strip_idem [simp]: "py_strip (py_strip s) = py_strip s"
  by (subst py_strip_id_iff) (rule py_strip_ends)

lemma py_strip_Nil [simp]: "py_strip [] = []"
  by (simp add: py_strip_def py_lstrip_def)

lemma length_py_strip: "length (py_strip s) \<le> length s"
proof -
  have "length (py_strip s) \<le> length (py_lstrip s)"
    unfolding py_strip_def by (metis length_dropWhile_le length_rev)
  also have "\<dots> \<le> length s" by (simp add: py_lstrip_def length_dropWhile_le)
  finally show ?thesis .
qed

lemma of_char_less_256 [simp]: "(of_char c :: nat) < 256"
  using of_char_mod_256 [of c] by (metis mod_less_divisor zero_less_numeral)

lemma of_char_py_lower:
  "(of_char (py_lower_char c) :: nat) =
     (let n = of_char c in if (65 \<le> n \<and> n \<le> 90) \<or> (192 \<le> n \<and> n \<le> 222 \<and> n \<noteq> 215)
                            then n + 32 else n)"
  by (auto simp: py_lower_char_def Let_def)

lemma py_lower_char_idem [simp]: "py_lower_char (py_lower_char c) = py_lower_char c"
proof -
  have "(of_char (py_lower_char (py_lower_char c)) :: nat) = of_char (py_lower_char c)"
    unfolding of_char_py_lower by (auto simp: Let_def)
  then show ?thesis by (simp add: of_char_eq_iff)
qed

lemma py_lower_idem [simp]: "py_lower (py_lower s) = py_lower s"
  by (simp add: py_lower_def)

lemma py_isspace_lower [simp]: "py_isspace (py_lower_char c) = py_isspace c"
  using of_char_less_256 [of c] unfolding py_isspace_def of_char_py_lower
  by (auto simp: Let_def split: if_splits)

lemma py_lower_Nil_iff [simp]: "py_lower s = [] \<longleftrightarrow> s = []"
  by (simp add: py_lower_def)

lemma py_strip_lower_strip [simp]: "py_strip (py_lower (py_strip s)) = py_lower (py_strip s)"
proof (subst py_strip_id_iff)
  show "py_lower (py_strip s) = [] \<or>
      \<not> py_isspace (hd (py_lower (py_strip s))) \<and> \<not> py_isspace (last (py_lower (py_strip s)))"
    using py_strip_ends [of s] by (auto simp: py_lower_def hd_map last_map)
qed

lemma py_lower_lower_strip [simp]:
  "py_lower (py_strip (py_lower (py_strip s))) = py_lower (py_strip s)"
  by simp

lemma py_isidentifier_not_Nil: "py_isidentifier s \<Longrightarrow> s \<noteq> []"
  by (cases s) auto

end
