(* ===== verification/Py_Value.thy ===== *)
theory Py_Value
  imports Py_Strings
begin

text \<open>
  The values the sources read from YAML and JSON documents and keep in \<open>dict[str, Any]\<close>
  rows, with the operations of the language on them: truth, \<open>str\<close>, \<open>int\<close>, \<open>==\<close>, and the
  compact key-sorted \<open>json.dumps\<close> that the fingerprints and digests hash. Dictionaries keep
  insertion order. Floats, dates as YAML objects and non-string keys are not values here.
\<close>

datatype pyval =
    PNone
  | PBool bool
  | PInt int
  | PStr string
  | PList "pyval list"
  | PDict "(string \<times> pyval) list"

type_synonym row = "pyval pydict"

section \<open>Truth, str, int and equality\<close>

fun py_truthy :: "pyval \<Rightarrow> bool" where
  "py_truthy PNone = False"
| "py_truthy (PBool b) = b"
| "py_truthy (PInt i) = (i \<noteq> 0)"
| "py_truthy (PStr s) = (s \<noteq> [])"
| "py_truthy (PList xs) = (xs \<noteq> [])"
| "py_truthy (PDict d) = (d \<noteq> [])"

fun py_repr :: "pyval \<Rightarrow> string" where
  "py_repr PNone = ''None''"
| "py_repr (PBool b) = (if b then ''True'' else ''False'')"
| "py_repr (PInt i) = py_str_int i"
| "py_repr (PStr s) = py_repr_str s"
| "py_repr (PList xs) = ''['' @ py_join '', '' (map py_repr xs) @ '']''"
| "py_repr (PDict d) =
     ''{'' @ py_join '', '' (map (\<lambda>(k, v). py_repr_str k @ '': '' @ py_repr v) d) @ ''}''"

definition py_str :: "pyval \<Rightarrow> string" where
  "py_str v = (case v of PStr s \<Rightarrow> s | _ \<Rightarrow> py_repr v)"

definition py_int :: "pyval \<Rightarrow> int res" where
  "py_int v = (case v of
      PInt i \<Rightarrow> Inr i
    | PBool b \<Rightarrow> Inr (if b then 1 else 0)
    | PStr s \<Rightarrow> (case py_int_of_str s of
          None \<Rightarrow> Inl (ValueError (''invalid literal for int() with base 10: '' @ py_repr_str s))
        | Some i \<Rightarrow> Inr i)
    | _ \<Rightarrow> Inl (TypeError ''int() argument must be a string, a bytes-like object or a real number''))"

text \<open>
  \<open>==\<close>: booleans compare with integers by value, dictionaries without regard to order.
\<close>

fun py_eq :: "pyval \<Rightarrow> pyval \<Rightarrow> bool"
  and py_eq_list :: "pyval list \<Rightarrow> pyval list \<Rightarrow> bool"
  and py_eq_items :: "(string \<times> pyval) list \<Rightarrow> (string \<times> pyval) list \<Rightarrow> bool" where
  "py_eq PNone w = (w = PNone)"
| "py_eq (PBool b) w = (case w of PBool c \<Rightarrow> b = c | PInt i \<Rightarrow> i = (if b then 1 else 0) | _ \<Rightarrow> False)"
| "py_eq (PInt i) w = (case w of PInt j \<Rightarrow> i = j | PBool b \<Rightarrow> i = (if b then 1 else 0) | _ \<Rightarrow> False)"
| "py_eq (PStr s) w = (w = PStr s)"
| "py_eq (PList xs) w = (case w of PList ys \<Rightarrow> py_eq_list xs ys | _ \<Rightarrow> False)"
| "py_eq (PDict d) w = (case w of PDict e \<Rightarrow> length d = length e \<and> py_eq_items d e | _ \<Rightarrow> False)"
| "py_eq_list [] ys = (ys = [])"
| "py_eq_list (x # xs) ys = (case ys of [] \<Rightarrow> False | y # zs \<Rightarrow> py_eq x y \<and> py_eq_list xs zs)"
| "py_eq_items [] e = True"
| "py_eq_items ((k, v) # d) e =
     (case map_of e k of None \<Rightarrow> False | Some w \<Rightarrow> py_eq v w \<and> py_eq_items d e)"

text \<open>Values as Python can hold them: no dictionary has a key twice.\<close>

fun py_wf :: "pyval \<Rightarrow> bool" where
  "py_wf (PList xs) = list_all py_wf xs"
| "py_wf (PDict d) = (distinct (keys d) \<and> list_all (\<lambda>(k, v). py_wf v) d)"
| "py_wf _ = True"

abbreviation row_wf :: "row \<Rightarrow> bool" where
  "row_wf r \<equiv> py_wf (PDict r)"

section \<open>Reading rows\<close>

text \<open>
  \<open>row.get(key, default)\<close> and the two shapes the sources put around it: \<open>str(...)\<close>, and
  \<open>... or {}\<close> followed by an \<open>isinstance\<close> check.
\<close>

definition row_get :: "row \<Rightarrow> string \<Rightarrow> pyval \<Rightarrow> pyval" where
  "row_get r k d = dget r k d"

definition row_get_str :: "row \<Rightarrow> string \<Rightarrow> string \<Rightarrow> string" where
  "row_get_str r k d = py_str (row_get r k (PStr d))"

definition or_empty_dict :: "pyval \<Rightarrow> pyval" where
  "or_empty_dict v = (if py_truthy v then v else PDict [])"

definition as_dict :: "pyval \<Rightarrow> row option" where
  "as_dict v = (case v of PDict d \<Rightarrow> Some d | _ \<Rightarrow> None)"

section \<open>Canonical JSON\<close>

definition json_escape :: "char \<Rightarrow> string" where
  "json_escape c = (let n = (of_char c :: nat); bs = char_of (92 :: nat) in
     if n = 34 \<or> n = 92 then [bs, c]
     else if n = 10 then [bs, CHR ''n'']
     else if n = 13 then [bs, CHR ''r'']
     else if n = 9 then [bs, CHR ''t'']
     else if n = 12 then [bs, CHR ''f'']
     else if n = 8 then [bs, CHR ''b'']
     else if n < 32 then [bs] @ ''u00'' @ [py_hex_digit (n div 16), py_hex_digit (n mod 16)]
     else [c])"

definition json_string :: "string \<Rightarrow> string" where
  "json_string s = [char_of (34 :: nat)] @ List.concat (map json_escape s) @ [char_of (34 :: nat)]"

text \<open>
  \<open>json.dumps(v, sort_keys=True, separators=(",", ":"), ensure_ascii=False)\<close>.
\<close>

fun json_dumps :: "pyval \<Rightarrow> string" where
  "json_dumps PNone = ''null''"
| "json_dumps (PBool b) = (if b then ''true'' else ''false'')"
| "json_dumps (PInt i) = py_str_int i"
| "json_dumps (PStr s) = json_string s"
| "json_dumps (PList xs) = ''['' @ py_join '','' (map json_dumps xs) @ '']''"
| "json_dumps (PDict d) =
     ''{'' @ py_join '',''
       (map (\<lambda>(k, s). json_string k @ '':'' @ s)
         (sort_key fst (map (\<lambda>(k, v). (k, json_dumps v)) d))) @ ''}''"

section \<open>Facts\<close>

lemma py_str_simps [simp]:
  "py_str (PStr s) = s" "py_str PNone = ''None''" "py_str (PInt i) = py_str_int i"
  by (simp_all add: py_str_def)

lemma py_int_PInt [simp]: "py_int (PInt i) = Inr i"
  by (simp add: py_int_def)

lemma as_dict_simps [simp]:
  "as_dict (PDict d) = Some d" "as_dict PNone = None" "as_dict (PStr s) = None"
  "as_dict (PList xs) = None" "as_dict (PBool b) = None" "as_dict (PInt i) = None"
  by (simp_all add: as_dict_def)

lemma as_dict_Some_iff: "as_dict v = Some d \<longleftrightarrow> v = PDict d"
  by (cases v) auto

lemma as_dict_or_empty_PDict [simp]: "as_dict (or_empty_dict (PDict d)) = Some d"
  by (auto simp: or_empty_dict_def)

lemma row_get_Nil [simp, dict_simps]: "row_get [] k d = d"
  by (simp add: row_get_def)

lemma row_get_Cons [simp, dict_simps]:
  "row_get ((k, v) # r) k' d = (if k' = k then v else row_get r k' d)"
  by (simp add: row_get_def)

lemma row_get_dset [simp, dict_simps]:
  "row_get (dset k v r) k' d = (if k' = k then v else row_get r k' d)"
  by (simp add: row_get_def)

lemma row_get_str_dset [simp, dict_simps]:
  "row_get_str (dset k v r) k' d = (if k' = k then py_str v else row_get_str r k' d)"
  by (simp add: row_get_str_def)

lemma row_get_str_Nil [simp, dict_simps]: "row_get_str [] k d = d"
  by (simp add: row_get_str_def)

lemma row_get_str_Cons [simp, dict_simps]:
  "row_get_str ((k, v) # r) k' d = (if k' = k then py_str v else row_get_str r k' d)"
  by (simp add: row_get_str_def)

lemma row_wf_dset [intro, simp]: "row_wf r \<Longrightarrow> py_wf v \<Longrightarrow> row_wf (dset k v r)"
proof -
  assume r: "row_wf r" and v: "py_wf v"
  have "list_all (\<lambda>(k, v). py_wf v) (dset k v r)"
    using r v by (induction r) (auto simp: dset_def)
  with r show ?thesis by simp
qed

lemma row_wf_map_of: "row_wf r \<Longrightarrow> map_of r k = Some v \<Longrightarrow> py_wf v"
  by (auto simp: list_all_iff dest!: map_of_SomeD)

lemma row_wf_get: "row_wf r \<Longrightarrow> py_wf d \<Longrightarrow> py_wf (row_get r k d)"
  unfolding row_get_def dget_def by (cases "map_of r k") (simp_all only: option.case row_wf_map_of)

lemma py_eq_items_refl:
  assumes "\<And>k v. (k, v) \<in> set d \<Longrightarrow> py_eq v v"
    and "\<And>k v. (k, v) \<in> set d \<Longrightarrow> map_of e k = Some v"
  shows "py_eq_items d e"
  using assms
proof (induction d)
  case (Cons p d)
  obtain k v where p: "p = (k, v)" by (cases p)
  have "py_eq_items d e" by (rule Cons.IH) (use Cons.prems in auto)
  moreover have "map_of e k = Some v" and "py_eq v v" using Cons.prems p by auto
  ultimately show ?case using p by simp
qed simp

lemma py_eq_refl_aux:
  "py_wf v \<Longrightarrow> py_eq v v"
  "list_all py_wf xs \<Longrightarrow> py_eq_list xs xs"
proof -
  have "(py_wf v \<longrightarrow> py_eq v v)" for v
  proof (induction v)
    case (PList xs)
    have "list_all py_wf xs \<longrightarrow> py_eq_list xs xs" using PList by (induction xs) auto
    then show ?case by simp
  next
    case (PDict d)
    show ?case
    proof
      assume wf: "py_wf (PDict d)"
      have "py_eq_items d d"
      proof (rule py_eq_items_refl)
        fix k v assume mem: "(k, v) \<in> set d"
        with wf have "py_wf v" by (auto simp: list_all_iff)
        then show "py_eq v v" using PDict.IH [OF mem, of v] by simp
        show "map_of d k = Some v" using wf mem by simp
      qed
      then show "py_eq (PDict d) (PDict d)" by simp
    qed
  qed auto
  then show *: "py_wf v \<Longrightarrow> py_eq v v" for v by blast
  show "list_all py_wf xs \<Longrightarrow> py_eq_list xs xs" by (induction xs) (auto simp: *)
qed

lemma py_eq_refl [simp]: "py_wf v \<Longrightarrow> py_eq v v"
  by (rule py_eq_refl_aux)

lemma py_eq_PStr_iff [simp]: "py_eq v (PStr s) \<longleftrightarrow> v = PStr s"
  by (cases v) auto

lemma py_eq_PNone_iff [simp]: "py_eq v PNone \<longleftrightarrow> v = PNone"
  by (cases v) auto

end
