(* ===== verification/Exec_Identity.thy ===== *)
theory Exec_Identity
  imports Py_Value
begin

text \<open>
  Validation of identifiers, free text, dates, lists and references: \<open>validate_project_id\<close>
  (\<open>project.py\<close>), \<open>validate_task_id\<close> (\<open>workspace/task_git.py\<close>) and the private helpers of
  \<open>project_execution/models.py\<close>. Each takes an arbitrary value, as the code does, and
  returns the normalised one. Dates follow \<open>date.fromisoformat\<close> of Python 3.10 (the floor
  of \<open>pyproject.toml\<close>): exactly YYYY-MM-DD of a day that exists.
\<close>

section \<open>Identifiers\<close>

definition str_or_empty :: "pyval \<Rightarrow> string" where
  "str_or_empty v = (if py_truthy v then py_str v else [])"

definition is_identifier_slug :: "string \<Rightarrow> bool" where
  "is_identifier_slug s = py_isidentifier (py_replace_char (CHR ''-'') (CHR ''_'') s)"

definition validate_project_id :: "pyval \<Rightarrow> string + string" where
  "validate_project_id v =
     (let value = py_strip (py_str v)
      in if value = [] \<or> \<not> is_identifier_slug value
         then Inl (''invalid project id: '' @ py_repr_str value) else Inr value)"

definition task_id_start :: "char \<Rightarrow> bool" where
  "task_id_start c = (let n = (of_char c :: nat) in (97 \<le> n \<and> n \<le> 122) \<or> (48 \<le> n \<and> n \<le> 57))"

definition task_id_char :: "char \<Rightarrow> bool" where
  "task_id_char c = (task_id_start c \<or> c = CHR ''.'' \<or> c = CHR ''_'' \<or> c = CHR ''-'')"

fun task_id_matches :: "string \<Rightarrow> bool" where
  "task_id_matches [] = False"
| "task_id_matches (c # cs) = (task_id_start c \<and> list_all task_id_char cs)"

definition validate_task_id :: "string \<Rightarrow> string + string" where
  "validate_task_id t =
     (let value = py_strip t
      in if \<not> task_id_matches value
         then Inl (''task_id must start with a lowercase letter or digit and contain only ''
                   @ ''lowercase letters, digits, '' @ py_repr_str ''.'' @ '', ''
                   @ py_repr_str ''_'' @ '' or '' @ py_repr_str ''-'')
         else Inr value)"

definition max_asset_id_length :: nat where "max_asset_id_length = 96"
definition max_title_length :: nat where "max_title_length = 500"
definition max_text_length :: nat where "max_text_length = 20000"

definition validate_asset_id :: "pyval \<Rightarrow> string \<Rightarrow> string res" where
  "validate_asset_id v label =
     (let text = py_strip (str_or_empty v)
      in if text = [] \<or> \<not> length text \<le> max_asset_id_length \<or> \<not> is_identifier_slug text
         then Inl (ProjectExecutionError (''invalid '' @ label @ '': '' @ py_repr_str text))
         else Inr text)"

definition validate_task_reference :: "pyval \<Rightarrow> string res" where
  "validate_task_reference v =
     (case validate_task_id (py_strip (str_or_empty v)) of
        Inl msg \<Rightarrow> Inl (ProjectExecutionError msg) | Inr t \<Rightarrow> Inr t)"

section \<open>Text, dates and lists\<close>

definition model_text :: "pyval \<Rightarrow> string \<Rightarrow> bool \<Rightarrow> nat \<Rightarrow> string res" where
  "model_text v label required limit =
     (let text = py_strip (str_or_empty v)
      in if required \<and> text = [] then Inl (ProjectExecutionError (label @ '' cannot be empty''))
         else if limit < length text
         then Inl (ProjectExecutionError
                (label @ '' exceeds '' @ py_str_nat limit @ '' characters''))
         else Inr text)"

type_synonym date = "nat \<times> nat \<times> nat"

definition is_leap_year :: "nat \<Rightarrow> bool" where
  "is_leap_year y = (y mod 4 = 0 \<and> (y mod 100 \<noteq> 0 \<or> y mod 400 = 0))"

definition days_in_month :: "nat \<Rightarrow> nat \<Rightarrow> nat" where
  "days_in_month y m =
     (if m = 2 then (if is_leap_year y then 29 else 28)
      else if m \<in> {4, 6, 9, 11} then 30 else 31)"

definition days_before_month :: "nat \<Rightarrow> nat \<Rightarrow> nat" where
  "days_before_month y m = sum_list (map (days_in_month y) [1..<m])"

definition date_valid :: "date \<Rightarrow> bool" where
  "date_valid dt = (case dt of (y, m, d) \<Rightarrow>
     1 \<le> y \<and> y \<le> 9999 \<and> 1 \<le> m \<and> m \<le> 12 \<and> 1 \<le> d \<and> d \<le> days_in_month y m)"

text \<open>\<open>date.toordinal\<close>: days in the proleptic Gregorian calendar, used by differences.\<close>

definition date_ordinal :: "date \<Rightarrow> int" where
  "date_ordinal dt = (case dt of (y, m, d) \<Rightarrow>
     int ((y - 1) * 365 + (y - 1) div 4 - (y - 1) div 100 + (y - 1) div 400
          + days_before_month y m + d))"

definition date_after :: "date \<Rightarrow> date \<Rightarrow> bool" where
  "date_after a b = (case (a, b) of ((y, m, d), (y', m', d')) \<Rightarrow>
     y' < y \<or> (y' = y \<and> (m' < m \<or> (m' = m \<and> d' < d))))"

definition digit_value :: "char \<Rightarrow> nat" where
  "digit_value c = of_char c - 48"

definition date_fromisoformat :: "string \<Rightarrow> date option" where
  "date_fromisoformat s = (case s of
     [y1, y2, y3, y4, s1, m1, m2, s2, d1, d2] \<Rightarrow>
       (let y = 1000 * digit_value y1 + 100 * digit_value y2 + 10 * digit_value y3 + digit_value y4;
            m = 10 * digit_value m1 + digit_value m2;
            d = 10 * digit_value d1 + digit_value d2
        in if list_all py_isdecimal [y1, y2, y3, y4, m1, m2, d1, d2]
              \<and> s1 = CHR ''-'' \<and> s2 = CHR ''-'' \<and> date_valid (y, m, d)
           then Some (y, m, d) else None)
   | _ \<Rightarrow> None)"

definition date_isoformat :: "date \<Rightarrow> string" where
  "date_isoformat dt = (case dt of (y, m, d) \<Rightarrow>
     [py_digit (y div 1000), py_digit (y div 100 mod 10), py_digit (y div 10 mod 10),
      py_digit (y mod 10), CHR ''-'', py_digit (m div 10), py_digit (m mod 10), CHR ''-'',
      py_digit (d div 10), py_digit (d mod 10)])"

definition model_date :: "pyval \<Rightarrow> string \<Rightarrow> string res" where
  "model_date v label =
     (let text = py_strip (str_or_empty v)
      in if text = [] then Inr []
         else case date_fromisoformat text of
           None \<Rightarrow> Inl (ProjectExecutionError (label @ '' must be an ISO date (YYYY-MM-DD)''))
         | Some dt \<Rightarrow> Inr (date_isoformat dt))"

definition model_sequence :: "pyval \<Rightarrow> string \<Rightarrow> pyval list res" where
  "model_sequence raw label =
     (if raw = PNone \<or> raw = PStr [] then Inr []
      else case raw of
        PList xs \<Rightarrow> Inr xs
      | _ \<Rightarrow> Inl (ProjectExecutionError (label @ '' must be a list'')))"

definition model_ids :: "pyval \<Rightarrow> bool \<Rightarrow> string \<Rightarrow> string list res" where
  "model_ids raw task label =
     rbind (model_sequence raw label) (\<lambda>values.
     rbind (mapr (\<lambda>v. if task then validate_task_reference v
                      else validate_asset_id v ''project asset id'') values) (\<lambda>result.
     if distinct result then Inr result
     else Inl (ProjectExecutionError (label @ '' cannot contain duplicates''))))"

definition strs :: "string list \<Rightarrow> pyval" where
  "strs xs = PList (map PStr xs)"

section \<open>Normal forms: every validator accepts what it returns, unchanged\<close>

lemma str_or_empty_PStr [simp]: "str_or_empty (PStr s) = s"
  by (simp add: str_or_empty_def)

lemma validate_project_id_fixed:
  "validate_project_id v = Inr p \<Longrightarrow> validate_project_id (PStr p) = Inr p"
  by (auto simp: validate_project_id_def Let_def split: if_splits)

lemma validate_asset_id_fixed:
  "validate_asset_id v l = Inr a \<Longrightarrow> validate_asset_id (PStr a) l' = Inr a"
  by (auto simp: validate_asset_id_def Let_def split: if_splits)

lemma validate_asset_id_Inr:
  "validate_asset_id v l = Inr a \<Longrightarrow>
     a = py_strip (str_or_empty v) \<and> a \<noteq> [] \<and> length a \<le> 96 \<and> is_identifier_slug a"
  by (auto simp: validate_asset_id_def Let_def max_asset_id_length_def split: if_splits)

lemma validate_task_id_fixed: "validate_task_id t = Inr i \<Longrightarrow> validate_task_id i = Inr i"
  by (auto simp: validate_task_id_def Let_def split: if_splits)

lemma validate_task_id_Inr: "validate_task_id t = Inr i \<Longrightarrow> i = py_strip t \<and> task_id_matches i"
  by (auto simp: validate_task_id_def Let_def split: if_splits)

lemma validate_task_reference_fixed:
  "validate_task_reference v = Inr t \<Longrightarrow> validate_task_reference (PStr t) = Inr t"
  by (auto simp: validate_task_reference_def validate_task_id_def Let_def
      split: sum.splits if_splits)

lemma validate_task_reference_ne: "validate_task_reference v = Inr t \<Longrightarrow> t \<noteq> []"
  by (auto simp: validate_task_reference_def validate_task_id_def Let_def
      split: sum.splits if_splits)

lemma model_text_fixed:
  "model_text v l r k = Inr t \<Longrightarrow> model_text (PStr t) l r k = Inr t"
  by (auto simp: model_text_def Let_def split: if_splits)

lemma of_char_py_digit: "d < 10 \<Longrightarrow> (of_char (py_digit d) :: nat) = 48 + d"
  by (simp add: py_digit_def)

lemma py_digit_value: "py_isdecimal c \<Longrightarrow> py_digit (digit_value c) = c"
  by (simp add: py_isdecimal_def py_digit_def digit_value_def Let_def)

lemma digit_value_less: "py_isdecimal c \<Longrightarrow> digit_value c < 10"
  unfolding py_isdecimal_def digit_value_def Let_def by linarith

lemma digits4:
  assumes "a < 10" "b < 10" "c < 10" "d < (10 :: nat)"
  defines "n \<equiv> 1000 * a + 100 * b + 10 * c + d"
  shows "n div 1000 = a" "n div 100 mod 10 = b" "n div 10 mod 10 = c" "n mod 10 = d"
proof -
  have q: "n div 1000 = a" "n div 100 = 10 * a + b" "n div 10 = 100 * a + 10 * b + c"
    unfolding n_def by (rule div_nat_eqI; use assms(1-4) in simp)+
  show "n div 1000 = a" by (rule q)
  have r: "(10 * k + e) mod 10 = e" if "e < 10" for k e :: nat
    using that by simp
  show "n div 100 mod 10 = b" unfolding q(2) by (rule r [OF assms(2)])
  show "n div 10 mod 10 = c" unfolding q(3) using r [OF assms(3), of "10 * a + b"] by simp
  show "n mod 10 = d"
    unfolding n_def using r [OF assms(4), of "100 * a + 10 * b + c"] by (simp add: algebra_simps)
qed

lemma digits2:
  assumes "a < 10" "b < (10 :: nat)"
  shows "(10 * a + b) div 10 = a" "(10 * a + b) mod 10 = b"
  using assms by (simp_all add: div_nat_eqI)

lemma date_isoformat_fromisoformat:
  assumes "date_fromisoformat s = Some dt"
  shows "date_isoformat dt = s"
proof -
  from assms obtain y1 y2 y3 y4 s1 m1 m2 s2 d1 d2 where
    s: "s = [y1, y2, y3, y4, s1, m1, m2, s2, d1, d2]"
    by (auto simp: date_fromisoformat_def split: list.splits)
  let ?v = "digit_value"
  from assms s have dec: "list_all py_isdecimal [y1, y2, y3, y4, m1, m2, d1, d2]"
    and sep: "s1 = CHR ''-''" "s2 = CHR ''-''"
    and dt: "dt = (1000 * ?v y1 + 100 * ?v y2 + 10 * ?v y3 + ?v y4, 10 * ?v m1 + ?v m2,
                   10 * ?v d1 + ?v d2)"
    by (auto simp: date_fromisoformat_def Let_def split: if_splits)
  have lt: "?v y1 < 10" "?v y2 < 10" "?v y3 < 10" "?v y4 < 10" "?v m1 < 10" "?v m2 < 10"
    "?v d1 < 10" "?v d2 < 10" using dec by (simp_all add: digit_value_less)
  have redigit: "py_digit (?v y1) = y1" "py_digit (?v y2) = y2" "py_digit (?v y3) = y3"
    "py_digit (?v y4) = y4" "py_digit (?v m1) = m1" "py_digit (?v m2) = m2"
    "py_digit (?v d1) = d1" "py_digit (?v d2) = d2" using dec by (simp_all add: py_digit_value)
  show ?thesis
    by (simp only: date_isoformat_def dt prod.case digits4 [OF lt(1-4)] digits2 [OF lt(5,6)]
        digits2 [OF lt(7,8)] redigit s sep)
qed

lemma date_fromisoformat_length: "date_fromisoformat s = Some dt \<Longrightarrow> length s = 10"
  by (auto simp: date_fromisoformat_def split: list.splits)

lemma model_date_fixed: "model_date v l = Inr t \<Longrightarrow> model_date (PStr t) l = Inr t"
  by (auto simp: model_date_def Let_def date_isoformat_fromisoformat split: if_splits option.splits)

lemma model_date_Inr:
  "model_date v l = Inr t \<Longrightarrow> t = [] \<or> (\<exists>dt. date_fromisoformat t = Some dt \<and> date_valid dt)"
  by (auto simp: model_date_def Let_def date_isoformat_fromisoformat date_fromisoformat_def
      split: if_splits option.splits list.splits)

lemma model_ids_Inr:
  assumes "model_ids raw task l = Inr xs"
  shows "distinct xs"
    and "\<And>x. x \<in> set xs \<Longrightarrow>
      (if task then validate_task_reference (PStr x) = Inr x
       else validate_asset_id (PStr x) ''project asset id'' = Inr x)"
proof -
  from assms obtain vs where vs: "mapr (\<lambda>v. if task then validate_task_reference v
      else validate_asset_id v ''project asset id'') vs = Inr xs" and d: "distinct xs"
    by (auto simp: model_ids_def split: if_splits)
  show "distinct xs" by (rule d)
  fix x assume "x \<in> set xs"
  with vs obtain v where "(if task then validate_task_reference v
      else validate_asset_id v ''project asset id'') = Inr x"
    by (auto simp: mapr_Inr_iff list_all2_conv_all_nth in_set_conv_nth)
  then show "if task then validate_task_reference (PStr x) = Inr x
       else validate_asset_id (PStr x) ''project asset id'' = Inr x"
    by (auto intro: validate_task_reference_fixed validate_asset_id_fixed split: if_splits)
qed

lemma model_ids_fixed:
  assumes "model_ids raw task l = Inr xs"
  shows "model_ids (strs xs) task l' = Inr xs"
proof -
  let ?f = "\<lambda>v. if task then validate_task_reference v else validate_asset_id v ''project asset id''"
  have "mapr ?f (map PStr xs) = Inr (map (\<lambda>x. x) xs)"
    unfolding mapr_map using model_ids_Inr(2) [OF assms] by (intro mapr_Inr_map) (auto split: if_splits)
  with model_ids_Inr(1) [OF assms] show ?thesis
    by (simp add: model_ids_def model_sequence_def strs_def)
qed

lemma model_ids_Nil [simp]:
  "model_ids PNone task l = Inr []" "model_ids (strs []) task l = Inr []"
  by (simp_all add: model_ids_def model_sequence_def strs_def)

end
