(* ===== verification/Exec_Policy.thy ===== *)
theory Exec_Policy
  imports Py_Value
begin

text \<open>
  \<open>project_execution/policy.py\<close>: the bounded concurrency and failure policy of Automatic
  mode, its serializer and its reader with the legacy \<open>stop_on_task_failure\<close> flag.
\<close>

datatype task_failure_behavior = Failure_STOP_NEW | Failure_HOLD | Failure_CONTINUE

fun failure_value :: "task_failure_behavior \<Rightarrow> string" where
  "failure_value Failure_STOP_NEW = ''stop_new''"
| "failure_value Failure_HOLD = ''hold''"
| "failure_value Failure_CONTINUE = ''continue''"

definition failure_of_value :: "pyval \<Rightarrow> task_failure_behavior option" where
  "failure_of_value v =
     (if v = PStr ''stop_new'' then Some Failure_STOP_NEW
      else if v = PStr ''hold'' then Some Failure_HOLD
      else if v = PStr ''continue'' then Some Failure_CONTINUE
      else None)"

record execution_policy =
  maximum_parallel_tasks :: int
  maximum_parallel_tasks_per_phase :: int
  maximum_active_phases :: int
  failure_behavior :: task_failure_behavior

definition bounded_integer :: "pyval \<Rightarrow> string \<Rightarrow> int res" where
  "bounded_integer v label =
     (case v of
        PInt i \<Rightarrow>
          if 1 \<le> i \<and> i \<le> 128 then Inr i
          else Inl (ProjectExecutionError (label @ '' must be an integer from 1 to 128''))
      | _ \<Rightarrow> Inl (ProjectExecutionError (label @ '' must be an integer from 1 to 128'')))"

definition policy_init :: "pyval \<Rightarrow> pyval \<Rightarrow> pyval \<Rightarrow> pyval \<Rightarrow> execution_policy res" where
  "policy_init parallel per_phase phases behavior =
     rbind (bounded_integer parallel ''maximum_parallel_tasks'') (\<lambda>a.
     rbind (bounded_integer per_phase ''maximum_parallel_tasks_per_phase'') (\<lambda>b.
     rbind (bounded_integer phases ''maximum_active_phases'') (\<lambda>c.
     (case failure_of_value behavior of
        None \<Rightarrow> Inl (ProjectExecutionError
                  ''task_failure_behavior must be stop_new, hold, or continue'')
      | Some f \<Rightarrow> Inr \<lparr>maximum_parallel_tasks = a, maximum_parallel_tasks_per_phase = b,
                       maximum_active_phases = c, failure_behavior = f\<rparr>))))"

definition default_policy :: execution_policy where
  "default_policy = \<lparr>maximum_parallel_tasks = 1, maximum_parallel_tasks_per_phase = 1,
     maximum_active_phases = 1, failure_behavior = Failure_STOP_NEW\<rparr>"

definition policy_as_mapping :: "execution_policy \<Rightarrow> row" where
  "policy_as_mapping p =
     [(''maximum_parallel_tasks'', PInt (maximum_parallel_tasks p)),
      (''maximum_parallel_tasks_per_phase'', PInt (maximum_parallel_tasks_per_phase p)),
      (''maximum_active_phases'', PInt (maximum_active_phases p)),
      (''task_failure_behavior'', PStr (failure_value (failure_behavior p)))]"

definition unknown_fields :: "row \<Rightarrow> string list \<Rightarrow> string list" where
  "unknown_fields d allowed = sort (filter (\<lambda>k. k \<notin> set allowed) (keys d))"

definition policy_failure_behavior :: "row \<Rightarrow> pyval res" where
  "policy_failure_behavior raw =
     (let behavior = row_get raw ''task_failure_behavior'' PNone;
          legacy_stop = row_get raw ''stop_on_task_failure'' PNone;
          expected = PStr (if py_truthy legacy_stop then ''stop_new'' else ''continue'')
      in if legacy_stop \<noteq> PNone \<and> \<not> (\<exists>b. legacy_stop = PBool b)
         then Inl (ProjectExecutionError ''stop_on_task_failure must be a boolean'')
         else if behavior \<noteq> PNone \<and> legacy_stop \<noteq> PNone \<and> behavior \<noteq> expected
         then Inl (ProjectExecutionError
                ''task_failure_behavior conflicts with legacy stop_on_task_failure'')
         else if behavior \<noteq> PNone then Inr behavior
         else if legacy_stop = PNone then Inr (PStr ''stop_new'')
         else Inr expected)"

definition policy_from_mapping :: "pyval \<Rightarrow> execution_policy res" where
  "policy_from_mapping raw =
     (if raw = PNone \<or> raw = PStr [] then Inr default_policy
      else case as_dict raw of
        None \<Rightarrow> Inl (ProjectExecutionError ''policy must be a mapping'')
      | Some d \<Rightarrow>
          (let unknown = unknown_fields d
                 [''maximum_parallel_tasks'', ''maximum_parallel_tasks_per_phase'',
                  ''maximum_active_phases'', ''task_failure_behavior'', ''stop_on_task_failure'']
           in if unknown \<noteq> []
              then Inl (ProjectExecutionError
                     (''unsupported Project Execution policy field(s): '' @ py_join '', '' unknown))
              else rbind (policy_failure_behavior d) (\<lambda>behavior.
                policy_init (row_get d ''maximum_parallel_tasks'' (PInt 1))
                  (row_get d ''maximum_parallel_tasks_per_phase''
                     (row_get d ''maximum_parallel_tasks'' (PInt 1)))
                  (row_get d ''maximum_active_phases'' (PInt 1))
                  behavior)))"

section \<open>Bounds and round trip\<close>

definition policy_ok :: "execution_policy \<Rightarrow> bool" where
  "policy_ok p \<longleftrightarrow>
     1 \<le> maximum_parallel_tasks p \<and> maximum_parallel_tasks p \<le> 128
     \<and> 1 \<le> maximum_parallel_tasks_per_phase p \<and> maximum_parallel_tasks_per_phase p \<le> 128
     \<and> 1 \<le> maximum_active_phases p \<and> maximum_active_phases p \<le> 128"

lemma bounded_integer_Inr_iff:
  "bounded_integer v l = Inr i \<longleftrightarrow> v = PInt i \<and> 1 \<le> i \<and> i \<le> 128"
  by (auto simp: bounded_integer_def split: pyval.splits if_splits)

lemma failure_of_value_iff [simp]: "failure_of_value v = Some f \<longleftrightarrow> v = PStr (failure_value f)"
  by (cases f) (auto simp: failure_of_value_def)

lemma policy_init_ok: "policy_init a b c d = Inr p \<Longrightarrow> policy_ok p"
  by (auto simp: policy_init_def policy_ok_def bounded_integer_Inr_iff split: option.splits)

lemma policy_init_fields:
  "policy_ok p \<Longrightarrow> policy_init (PInt (maximum_parallel_tasks p))
     (PInt (maximum_parallel_tasks_per_phase p)) (PInt (maximum_active_phases p))
     (PStr (failure_value (failure_behavior p))) = Inr p"
  by (cases "failure_behavior p")
    (auto simp: policy_init_def policy_ok_def bounded_integer_def failure_of_value_def)

lemma default_policy_ok [simp]: "policy_ok default_policy"
  by (simp add: policy_ok_def default_policy_def)

lemma policy_from_mapping_ok: "policy_from_mapping raw = Inr p \<Longrightarrow> policy_ok p"
  by (auto simp: policy_from_mapping_def Let_def split: if_splits option.splits
      dest: policy_init_ok)

lemma unknown_fields_Nil_iff: "unknown_fields d allowed = [] \<longleftrightarrow> set (keys d) \<subseteq> set allowed"
  unfolding unknown_fields_def
  by (metis (mono_tags, lifting) filter_empty_conv set_empty set_sort subset_code(1))

lemma policy_failure_behavior_as_mapping:
  "policy_failure_behavior (policy_as_mapping p) = Inr (PStr (failure_value (failure_behavior p)))"
  by (simp add: policy_failure_behavior_def policy_as_mapping_def)

lemma policy_round_trip:
  assumes "policy_ok p"
  shows "policy_from_mapping (PDict (policy_as_mapping p)) = Inr p"
proof -
  have u: "unknown_fields (policy_as_mapping p)
      [''maximum_parallel_tasks'', ''maximum_parallel_tasks_per_phase'',
       ''maximum_active_phases'', ''task_failure_behavior'', ''stop_on_task_failure''] = []"
    by (simp add: unknown_fields_Nil_iff) (simp add: policy_as_mapping_def)
  show ?thesis
    using policy_init_fields [OF assms]
    by (simp add: policy_from_mapping_def u policy_failure_behavior_as_mapping)
      (simp add: policy_as_mapping_def)
qed

end
