(* ===== verification/Exec_Model.thy ===== *)
theory Exec_Model
  imports Exec_Identity Exec_Policy
begin

text \<open>
  \<open>project_execution/models.py\<close>: the canonical value objects of Project Execution. Each
  dataclass is a record; its \<open>__post_init__\<close> is the \<open>_init\<close> function, which takes the
  unvalidated field values and returns the normalised object or the error; \<open>as_mapping\<close>
  and \<open>from_mapping\<close> are the serializer and the reader. Arguments of a constructor call are
  evaluated left to right before its checks run, as in the code.
\<close>

datatype execution_mode = Mode_OBSERVE | Mode_ASSISTED | Mode_AUTOMATIC

fun mode_value :: "execution_mode \<Rightarrow> string" where
  "mode_value Mode_OBSERVE = ''observe''"
| "mode_value Mode_ASSISTED = ''assisted''"
| "mode_value Mode_AUTOMATIC = ''automatic''"

definition mode_of_value :: "pyval \<Rightarrow> execution_mode option" where
  "mode_of_value v =
     (if v = PStr ''observe'' then Some Mode_OBSERVE
      else if v = PStr ''assisted'' then Some Mode_ASSISTED
      else if v = PStr ''automatic'' then Some Mode_AUTOMATIC
      else None)"

datatype phase_state =
  Phase_PLANNED | Phase_READY | Phase_ACTIVE | Phase_COMPLETE | Phase_CANCELLED

fun phase_state_value :: "phase_state \<Rightarrow> string" where
  "phase_state_value Phase_PLANNED = ''planned''"
| "phase_state_value Phase_READY = ''ready''"
| "phase_state_value Phase_ACTIVE = ''active''"
| "phase_state_value Phase_COMPLETE = ''complete''"
| "phase_state_value Phase_CANCELLED = ''cancelled''"

datatype phase_health =
  PhaseHealth_ON_TRACK | PhaseHealth_AT_RISK | PhaseHealth_BLOCKED | PhaseHealth_LATE

fun phase_health_value :: "phase_health \<Rightarrow> string" where
  "phase_health_value PhaseHealth_ON_TRACK = ''on_track''"
| "phase_health_value PhaseHealth_AT_RISK = ''at_risk''"
| "phase_health_value PhaseHealth_BLOCKED = ''blocked''"
| "phase_health_value PhaseHealth_LATE = ''late''"

datatype gate_state =
    Gate_WAITING | Gate_READY | Gate_EVALUATING | Gate_AWAITING_DECISION
  | Gate_PASSED | Gate_FAILED | Gate_WAIVED | Gate_CANCELLED

fun gate_state_value :: "gate_state \<Rightarrow> string" where
  "gate_state_value Gate_WAITING = ''waiting''"
| "gate_state_value Gate_READY = ''ready''"
| "gate_state_value Gate_EVALUATING = ''evaluating''"
| "gate_state_value Gate_AWAITING_DECISION = ''awaiting_decision''"
| "gate_state_value Gate_PASSED = ''passed''"
| "gate_state_value Gate_FAILED = ''failed''"
| "gate_state_value Gate_WAIVED = ''waived''"
| "gate_state_value Gate_CANCELLED = ''cancelled''"

datatype milestone_state = Milestone_PENDING | Milestone_ACHIEVED | Milestone_CANCELLED

datatype milestone_health =
  MilestoneHealth_ON_TRACK | MilestoneHealth_AT_RISK | MilestoneHealth_LATE

datatype delivery_policy = Delivery_NONE | Delivery_CANDIDATE

fun delivery_value :: "delivery_policy \<Rightarrow> string" where
  "delivery_value Delivery_NONE = ''none''"
| "delivery_value Delivery_CANDIDATE = ''candidate''"

definition delivery_of_value :: "pyval \<Rightarrow> delivery_policy option" where
  "delivery_of_value v =
     (if v = PStr ''none'' then Some Delivery_NONE
      else if v = PStr ''candidate'' then Some Delivery_CANDIDATE
      else None)"

text \<open>\<open>{key: value for key, value in (...) if value}\<close> over string fields.\<close>

definition str_fields :: "(string \<times> string) list \<Rightarrow> row" where
  "str_fields kvs = map (\<lambda>(k, v). (k, PStr v)) (filter (\<lambda>(k, v). v \<noteq> []) kvs)"

section \<open>ProjectSchedule\<close>

record project_schedule =
  sched_start :: string
  sched_target :: string

definition empty_schedule :: project_schedule where
  "empty_schedule = \<lparr>sched_start = [], sched_target = []\<rparr>"

definition schedule_init :: "pyval \<Rightarrow> pyval \<Rightarrow> project_schedule res" where
  "schedule_init start0 target0 =
     rbind (model_date start0 ''schedule start'') (\<lambda>start.
     rbind (model_date target0 ''schedule target'') (\<lambda>target.
     if start \<noteq> [] \<and> target \<noteq> [] \<and> start > target
     then Inl (ProjectExecutionError ''schedule start cannot be after target'')
     else Inr \<lparr>sched_start = start, sched_target = target\<rparr>))"

definition schedule_as_mapping :: "project_schedule \<Rightarrow> row" where
  "schedule_as_mapping s =
     str_fields [(''start'', sched_start s), (''target'', sched_target s)]"

definition schedule_from_mapping :: "pyval \<Rightarrow> project_schedule res" where
  "schedule_from_mapping raw =
     (if raw = PNone \<or> raw = PStr [] then Inr empty_schedule
      else case as_dict raw of
        None \<Rightarrow> Inl (ProjectExecutionError ''schedule must be a mapping'')
      | Some d \<Rightarrow> schedule_init (row_get d ''start'' (PStr [])) (row_get d ''target'' (PStr [])))"

section \<open>ProjectPhase\<close>

record project_phase =
  ph_id :: string
  ph_title :: string
  ph_description :: string
  ph_schedule :: project_schedule
  ph_entry_gates :: "string list"
  ph_exit_gates :: "string list"
  ph_tasks :: "string list"
  ph_milestones :: "string list"

definition phase_init ::
    "pyval \<Rightarrow> pyval \<Rightarrow> pyval \<Rightarrow> project_schedule \<Rightarrow> string list \<Rightarrow> string list \<Rightarrow> string list
       \<Rightarrow> string list \<Rightarrow> project_phase res" where
  "phase_init id0 title0 description0 schedule0 entry0 exit0 tasks0 milestones0 =
     rbind (validate_asset_id id0 ''phase id'') (\<lambda>pid.
     rbind (model_text title0 ''phase title'' True max_title_length) (\<lambda>title.
     rbind (model_text description0 ''phase description'' False max_text_length) (\<lambda>description.
     rbind (model_ids (strs entry0) False ''phase entry_gates'') (\<lambda>entry.
     rbind (model_ids (strs exit0) False ''phase exit_gates'') (\<lambda>exits.
     rbind (model_ids (strs tasks0) True ''phase tasks'') (\<lambda>tasks.
     rbind (model_ids (strs milestones0) False ''phase milestones'') (\<lambda>milestones.
     Inr \<lparr>ph_id = pid, ph_title = title, ph_description = description, ph_schedule = schedule0,
          ph_entry_gates = entry, ph_exit_gates = exits, ph_tasks = tasks,
          ph_milestones = milestones\<rparr>)))))))"

definition phase_as_mapping :: "project_phase \<Rightarrow> row" where
  "phase_as_mapping p =
     [(''id'', PStr (ph_id p)), (''title'', PStr (ph_title p)),
      (''entry_gates'', strs (ph_entry_gates p)), (''exit_gates'', strs (ph_exit_gates p)),
      (''tasks'', strs (ph_tasks p)), (''milestones'', strs (ph_milestones p))]
     @ (if ph_description p \<noteq> [] then [(''description'', PStr (ph_description p))] else [])
     @ (let schedule = schedule_as_mapping (ph_schedule p)
        in if schedule \<noteq> [] then [(''schedule'', PDict schedule)] else [])"

definition phase_from_mapping :: "pyval \<Rightarrow> project_phase res" where
  "phase_from_mapping raw =
     (case as_dict raw of
        None \<Rightarrow> Inl (ProjectExecutionError ''each phase must be a mapping'')
      | Some d \<Rightarrow>
          rbind (schedule_from_mapping (row_get d ''schedule'' PNone)) (\<lambda>schedule.
          rbind (model_ids (row_get d ''entry_gates'' PNone) False ''phase entry_gates'') (\<lambda>entry.
          rbind (model_ids (row_get d ''exit_gates'' PNone) False ''phase exit_gates'') (\<lambda>exits.
          rbind (model_ids (row_get d ''tasks'' PNone) True ''phase tasks'') (\<lambda>tasks.
          rbind (model_ids (row_get d ''milestones'' PNone) False ''phase milestones'') (\<lambda>milestones.
          phase_init (row_get d ''id'' (PStr [])) (row_get d ''title'' (PStr []))
            (row_get d ''description'' (PStr [])) schedule entry exits tasks milestones))))))"

section \<open>TaskRequirements and ProjectTask\<close>

record task_requirements =
  treq_tasks :: "string list"
  treq_gates :: "string list"

definition task_requirements_init ::
    "string list \<Rightarrow> string list \<Rightarrow> task_requirements res" where
  "task_requirements_init tasks0 gates0 =
     rbind (model_ids (strs tasks0) True ''task prerequisites'') (\<lambda>tasks.
     rbind (model_ids (strs gates0) False ''task gate prerequisites'') (\<lambda>gates.
     Inr \<lparr>treq_tasks = tasks, treq_gates = gates\<rparr>))"

definition task_requirements_as_mapping :: "task_requirements \<Rightarrow> row" where
  "task_requirements_as_mapping r =
     [(''tasks'', strs (treq_tasks r)), (''gates'', strs (treq_gates r))]"

definition task_requirements_from_mapping :: "pyval \<Rightarrow> task_requirements res" where
  "task_requirements_from_mapping raw =
     (if raw = PNone \<or> raw = PStr [] then Inr \<lparr>treq_tasks = [], treq_gates = []\<rparr>
      else case as_dict raw of
        None \<Rightarrow> Inl (ProjectExecutionError ''task requires must be a mapping'')
      | Some d \<Rightarrow>
          (let unknown = unknown_fields d [''tasks'', ''gates'']
           in if unknown \<noteq> []
              then Inl (ProjectExecutionError
                     (''unsupported task prerequisite kind(s): '' @ py_join '', '' unknown))
              else rbind (model_ids (row_get d ''tasks'' PNone) True ''task prerequisites'') (\<lambda>tasks.
                   rbind (model_ids (row_get d ''gates'' PNone) False
                            ''task gate prerequisites'') (\<lambda>gates.
                   task_requirements_init tasks gates))))"

record project_task =
  pt_task_id :: string
  pt_phase :: string
  pt_required :: bool
  pt_requires :: task_requirements

definition task_init ::
    "pyval \<Rightarrow> pyval \<Rightarrow> pyval \<Rightarrow> task_requirements \<Rightarrow> project_task res" where
  "task_init task_id0 phase0 required0 requires0 =
     rbind (validate_task_reference task_id0) (\<lambda>task_id.
     rbind (validate_asset_id phase0 ''task phase'') (\<lambda>phase.
     (case required0 of
        PBool required \<Rightarrow>
          Inr \<lparr>pt_task_id = task_id, pt_phase = phase, pt_required = required,
               pt_requires = requires0\<rparr>
      | _ \<Rightarrow> Inl (ProjectExecutionError ''task required must be a boolean''))))"

definition task_as_mapping :: "project_task \<Rightarrow> row" where
  "task_as_mapping t =
     [(''phase'', PStr (pt_phase t)), (''required'', PBool (pt_required t)),
      (''requires'', PDict (task_requirements_as_mapping (pt_requires t)))]"

definition task_from_mapping :: "string \<Rightarrow> pyval \<Rightarrow> project_task res" where
  "task_from_mapping task_id raw =
     (case as_dict raw of
        None \<Rightarrow> Inl (ProjectExecutionError
                  (''project task '' @ py_repr_str task_id @ '' must be a mapping''))
      | Some d \<Rightarrow>
          rbind (task_requirements_from_mapping (row_get d ''requires'' PNone)) (\<lambda>requires.
          task_init (PStr task_id) (row_get d ''phase'' (PStr []))
            (row_get d ''required'' (PBool True)) requires))"

section \<open>GateCriterion and ProjectGate\<close>

record gate_criterion =
  gc_type :: string
  gc_task_id :: string
  gc_gate_id :: string
  gc_outcome :: string
  gc_artifact_id :: string

definition task_criterion_types :: "string list" where
  "task_criterion_types = [''task_completion'', ''task_verification'', ''task_artifact'']"

definition criterion_types :: "string list" where
  "criterion_types =
     [''task_completion'', ''task_verification'', ''task_artifact'', ''project_gate'', ''human_approval'']"

definition criterion_init ::
    "pyval \<Rightarrow> pyval \<Rightarrow> pyval \<Rightarrow> pyval \<Rightarrow> pyval \<Rightarrow> gate_criterion res" where
  "criterion_init type0 task0 gate0 outcome0 artifact0 =
     (let criterion_type = py_lower (py_strip (str_or_empty type0));
          bad = (\<lambda>what. Inl (ProjectExecutionError
                   (''criterion '' @ py_repr_str criterion_type @ what)))
      in if criterion_type \<notin> set criterion_types
         then Inl (ProjectExecutionError
                (''unknown project gate evaluator type: '' @ py_repr_str criterion_type))
         else
           rbind (if py_truthy task0 then validate_task_reference task0 else Inr []) (\<lambda>task_id.
           rbind (if py_truthy gate0 then validate_asset_id gate0 ''criterion gate id''
                  else Inr []) (\<lambda>gate_id.
           (let outcome = py_lower (py_strip (str_or_empty outcome0)) in
           rbind (model_text artifact0 ''artifact id'' False 500) (\<lambda>artifact_id.
           if (criterion_type \<in> set task_criterion_types) \<noteq> (task_id \<noteq> [])
           then bad '' has invalid task_id''
           else if (criterion_type = ''project_gate'') \<noteq> (gate_id \<noteq> [])
           then bad '' has invalid gate_id''
           else if criterion_type \<noteq> ''task_verification'' \<and> outcome \<noteq> []
           then bad '' cannot define outcome''
           else if criterion_type = ''task_artifact'' \<and> artifact_id = []
           then Inl (ProjectExecutionError ''task_artifact criterion requires artifact_id'')
           else if criterion_type \<noteq> ''task_artifact'' \<and> artifact_id \<noteq> []
           then bad '' cannot define artifact_id''
           else Inr \<lparr>gc_type = criterion_type, gc_task_id = task_id, gc_gate_id = gate_id,
                     gc_outcome = (if criterion_type = ''task_verification'' \<and> outcome = []
                                   then ''passed'' else outcome),
                     gc_artifact_id = artifact_id\<rparr>)))))"

definition criterion_as_mapping :: "gate_criterion \<Rightarrow> row" where
  "criterion_as_mapping c = str_fields
     [(''type'', gc_type c), (''task_id'', gc_task_id c), (''gate_id'', gc_gate_id c),
      (''outcome'', gc_outcome c), (''artifact_id'', gc_artifact_id c)]"

definition criterion_from_mapping :: "pyval \<Rightarrow> gate_criterion res" where
  "criterion_from_mapping raw =
     (case as_dict raw of
        None \<Rightarrow> Inl (ProjectExecutionError ''each gate criterion must be a mapping'')
      | Some d \<Rightarrow>
          (let unknown = unknown_fields d
                 [''type'', ''task_id'', ''gate_id'', ''outcome'', ''artifact_id'']
           in if unknown \<noteq> []
              then Inl (ProjectExecutionError
                     (''unknown gate criterion fields: '' @ py_join '', '' unknown))
              else criterion_init (row_get d ''type'' (PStr [])) (row_get d ''task_id'' (PStr []))
                     (row_get d ''gate_id'' (PStr [])) (row_get d ''outcome'' (PStr []))
                     (row_get d ''artifact_id'' (PStr []))))"

record project_gate =
  pg_id :: string
  pg_title :: string
  pg_description :: string
  pg_schedule :: project_schedule
  pg_criteria :: "gate_criterion list"

definition gate_init ::
    "pyval \<Rightarrow> pyval \<Rightarrow> pyval \<Rightarrow> project_schedule \<Rightarrow> gate_criterion list \<Rightarrow> project_gate res" where
  "gate_init id0 title0 description0 schedule0 criteria =
     rbind (validate_asset_id id0 ''gate id'') (\<lambda>gid.
     rbind (model_text title0 ''gate title'' True max_title_length) (\<lambda>title.
     rbind (model_text description0 ''gate description'' False max_text_length) (\<lambda>description.
     if criteria = []
     then Inl (ProjectExecutionError
            (''gate '' @ py_repr_str gid @ '' must define at least one criterion''))
     else if length (filter (\<lambda>c. gc_type c = ''human_approval'') criteria) > 1
     then Inl (ProjectExecutionError
            (''gate '' @ py_repr_str gid @ '' may contain at most one human approval criterion''))
     else Inr \<lparr>pg_id = gid, pg_title = title, pg_description = description,
               pg_schedule = schedule0, pg_criteria = criteria\<rparr>)))"

definition gate_as_mapping :: "project_gate \<Rightarrow> row" where
  "gate_as_mapping g =
     [(''id'', PStr (pg_id g)), (''title'', PStr (pg_title g)),
      (''criteria'',
        PDict [(''all'', PList (map (\<lambda>c. PDict (criterion_as_mapping c)) (pg_criteria g)))])]
     @ (if pg_description g \<noteq> [] then [(''description'', PStr (pg_description g))] else [])
     @ (let schedule = schedule_as_mapping (pg_schedule g)
        in if schedule \<noteq> [] then [(''schedule'', PDict schedule)] else [])"

definition gate_criteria_raw :: "pyval \<Rightarrow> pyval res" where
  "gate_criteria_raw criteria_raw =
     (case as_dict criteria_raw of
        None \<Rightarrow> Inr criteria_raw
      | Some d \<Rightarrow>
          if unknown_fields d [''all''] \<noteq> []
          then Inl (ProjectExecutionError ''ProjectGate schema v1 supports only criteria.all'')
          else Inr (row_get d ''all'' PNone))"

definition gate_from_mapping :: "pyval \<Rightarrow> project_gate res" where
  "gate_from_mapping raw =
     (case as_dict raw of
        None \<Rightarrow> Inl (ProjectExecutionError ''each gate must be a mapping'')
      | Some d \<Rightarrow>
          rbind (gate_criteria_raw (row_get d ''criteria'' PNone)) (\<lambda>criteria_raw.
          rbind (model_sequence criteria_raw ''gate criteria'') (\<lambda>items.
          rbind (mapr criterion_from_mapping items) (\<lambda>criteria.
          rbind (schedule_from_mapping (row_get d ''schedule'' PNone)) (\<lambda>schedule.
          gate_init (row_get d ''id'' (PStr [])) (row_get d ''title'' (PStr []))
            (row_get d ''description'' (PStr [])) schedule criteria)))))"

section \<open>MilestoneRequirements and ProjectMilestone\<close>

record milestone_requirements =
  mreq_tasks :: "string list"
  mreq_gates :: "string list"
  mreq_milestones :: "string list"

definition milestone_requirements_init ::
    "string list \<Rightarrow> string list \<Rightarrow> string list \<Rightarrow> milestone_requirements res" where
  "milestone_requirements_init tasks0 gates0 milestones0 =
     rbind (model_ids (strs tasks0) True ''milestone tasks'') (\<lambda>tasks.
     rbind (model_ids (strs gates0) False ''milestone gates'') (\<lambda>gates.
     rbind (model_ids (strs milestones0) False ''milestone prerequisites'') (\<lambda>milestones.
     Inr \<lparr>mreq_tasks = tasks, mreq_gates = gates, mreq_milestones = milestones\<rparr>)))"

definition milestone_requirements_as_mapping :: "milestone_requirements \<Rightarrow> row" where
  "milestone_requirements_as_mapping r =
     [(''tasks'', strs (mreq_tasks r)), (''gates'', strs (mreq_gates r)),
      (''milestones'', strs (mreq_milestones r))]"

definition milestone_requirements_from_mapping :: "pyval \<Rightarrow> milestone_requirements res" where
  "milestone_requirements_from_mapping raw =
     (if raw = PNone \<or> raw = PStr []
      then Inr \<lparr>mreq_tasks = [], mreq_gates = [], mreq_milestones = []\<rparr>
      else case as_dict raw of
        None \<Rightarrow> Inl (ProjectExecutionError ''milestone requires must be a mapping'')
      | Some d \<Rightarrow>
          (let unknown = unknown_fields d [''tasks'', ''gates'', ''milestones'']
           in if unknown \<noteq> []
              then Inl (ProjectExecutionError
                     (''unsupported milestone prerequisite kind(s): '' @ py_join '', '' unknown))
              else rbind (model_ids (row_get d ''tasks'' PNone) True ''milestone tasks'') (\<lambda>tasks.
                   rbind (model_ids (row_get d ''gates'' PNone) False ''milestone gates'') (\<lambda>gates.
                   rbind (model_ids (row_get d ''milestones'' PNone) False
                            ''milestone prerequisites'') (\<lambda>milestones.
                   milestone_requirements_init tasks gates milestones)))))"

record project_milestone =
  pm_id :: string
  pm_title :: string
  pm_description :: string
  pm_start :: string
  pm_target :: string
  pm_requires :: milestone_requirements
  pm_delivery_policy :: delivery_policy

definition milestone_init ::
    "pyval \<Rightarrow> pyval \<Rightarrow> pyval \<Rightarrow> pyval \<Rightarrow> pyval \<Rightarrow> milestone_requirements \<Rightarrow> pyval
       \<Rightarrow> project_milestone res" where
  "milestone_init id0 title0 description0 start0 target0 requires0 policy0 =
     rbind (validate_asset_id id0 ''milestone id'') (\<lambda>mid.
     rbind (model_text title0 ''milestone title'' True max_title_length) (\<lambda>title.
     rbind (model_text description0 ''milestone description'' False max_text_length) (\<lambda>description.
     rbind (model_date start0 ''milestone start'') (\<lambda>start.
     rbind (model_date target0 ''milestone target'') (\<lambda>target.
     if start \<noteq> [] \<and> target \<noteq> [] \<and> start > target
     then Inl (ProjectExecutionError ''milestone start cannot be after target'')
     else (case delivery_of_value policy0 of
        None \<Rightarrow> Inl (ProjectExecutionError ''delivery.policy must be none or candidate'')
      | Some policy \<Rightarrow>
          Inr \<lparr>pm_id = mid, pm_title = title, pm_description = description, pm_start = start,
               pm_target = target, pm_requires = requires0, pm_delivery_policy = policy\<rparr>))))))"

definition milestone_as_mapping :: "project_milestone \<Rightarrow> row" where
  "milestone_as_mapping m =
     [(''id'', PStr (pm_id m)), (''title'', PStr (pm_title m)),
      (''requires'', PDict (milestone_requirements_as_mapping (pm_requires m))),
      (''delivery'', PDict [(''policy'', PStr (delivery_value (pm_delivery_policy m)))])]
     @ (if pm_description m \<noteq> [] then [(''description'', PStr (pm_description m))] else [])
     @ (if pm_start m \<noteq> [] then [(''schedule'', PDict [(''start'', PStr (pm_start m))])] else [])
     @ (if pm_target m \<noteq> [] then [(''target'', PStr (pm_target m))] else [])"

definition milestone_from_mapping :: "pyval \<Rightarrow> project_milestone res" where
  "milestone_from_mapping raw =
     (case as_dict raw of
        None \<Rightarrow> Inl (ProjectExecutionError ''each milestone must be a mapping'')
      | Some d \<Rightarrow>
          (case as_dict (or_empty_dict (row_get d ''delivery'' PNone)) of
             None \<Rightarrow> Inl (ProjectExecutionError ''milestone delivery must be a mapping'')
           | Some delivery \<Rightarrow>
               rbind (schedule_from_mapping (row_get d ''schedule'' PNone)) (\<lambda>schedule.
               rbind (milestone_requirements_from_mapping (row_get d ''requires'' PNone)) (\<lambda>requires.
               milestone_init (row_get d ''id'' (PStr [])) (row_get d ''title'' (PStr []))
                 (row_get d ''description'' (PStr [])) (PStr (sched_start schedule))
                 (row_get d ''target'' (PStr (sched_target schedule))) requires
                 (row_get delivery ''policy'' (PStr ''none''))))))"

section \<open>ProjectExecutionDefinition\<close>

record execution_definition =
  pd_schema_version :: int
  pd_project :: string
  pd_revision :: int
  pd_mode :: execution_mode
  pd_phases :: "project_phase list"
  pd_tasks :: "project_task list"
  pd_gates :: "project_gate list"
  pd_milestones :: "project_milestone list"
  pd_policy :: execution_policy

definition asset_ids :: "execution_definition \<Rightarrow> string list" where
  "asset_ids d = map ph_id (pd_phases d) @ map pg_id (pd_gates d) @ map pm_id (pd_milestones d)"

definition validate_unique_ids :: "execution_definition \<Rightarrow> unit res" where
  "validate_unique_ids d =
     rbind (require (distinct (map ph_id (pd_phases d)))
              (ProjectExecutionError ''duplicate phase IDs'')) (\<lambda>_.
     rbind (require (distinct (map pg_id (pd_gates d)))
              (ProjectExecutionError ''duplicate gate IDs'')) (\<lambda>_.
     rbind (require (distinct (map pm_id (pd_milestones d)))
              (ProjectExecutionError ''duplicate milestone IDs'')) (\<lambda>_.
     rbind (require (distinct (map pt_task_id (pd_tasks d)))
              (ProjectExecutionError ''duplicate project task IDs'')) (\<lambda>_.
     require (distinct (asset_ids d))
       (ProjectExecutionError ''Phase, Gate, and Milestone IDs must be globally unique'')))))"

definition definition_revision_of :: "pyval \<Rightarrow> int res" where
  "definition_revision_of v =
     (case py_int v of
        Inl e \<Rightarrow> Inl (ProjectExecutionError ''Project Execution revision must be an integer'')
      | Inr revision \<Rightarrow>
          if revision < 1
          then Inl (ProjectExecutionError ''Project Execution revision must be at least 1'')
          else Inr revision)"

definition definition_init ::
    "int \<Rightarrow> pyval \<Rightarrow> pyval \<Rightarrow> pyval \<Rightarrow> execution_policy \<Rightarrow> project_phase list \<Rightarrow> project_task list
       \<Rightarrow> project_gate list \<Rightarrow> project_milestone list \<Rightarrow> execution_definition res" where
  "definition_init schema project0 revision0 mode0 policy phases tasks gates milestones =
     (if schema \<noteq> 1
      then Inl (ProjectExecutionError
             (''unsupported Project Execution schema_version: '' @ py_str_int schema))
      else case validate_project_id project0 of
        Inl msg \<Rightarrow> Inl (ProjectExecutionError msg)
      | Inr project \<Rightarrow>
          rbind (definition_revision_of revision0) (\<lambda>revision.
          (case mode_of_value mode0 of
             None \<Rightarrow> Inl (ProjectExecutionError ''mode must be observe, assisted, or automatic'')
           | Some mode \<Rightarrow>
               (let d = \<lparr>pd_schema_version = schema, pd_project = project, pd_revision = revision,
                         pd_mode = mode, pd_phases = phases, pd_tasks = tasks, pd_gates = gates,
                         pd_milestones = milestones, pd_policy = policy\<rparr>
                in rbind (validate_unique_ids d) (\<lambda>_. Inr d)))))"

text \<open>The lookup properties are dictionary comprehensions: a later duplicate would win.\<close>

definition task_index :: "execution_definition \<Rightarrow> project_task pydict" where
  "task_index d = py_dict (map (\<lambda>t. (pt_task_id t, t)) (pd_tasks d))"

definition phase_index :: "execution_definition \<Rightarrow> project_phase pydict" where
  "phase_index d = py_dict (map (\<lambda>p. (ph_id p, p)) (pd_phases d))"

definition gate_index :: "execution_definition \<Rightarrow> project_gate pydict" where
  "gate_index d = py_dict (map (\<lambda>g. (pg_id g, g)) (pd_gates d))"

definition milestone_index :: "execution_definition \<Rightarrow> project_milestone pydict" where
  "milestone_index d = py_dict (map (\<lambda>m. (pm_id m, m)) (pd_milestones d))"

definition definition_as_mapping :: "execution_definition \<Rightarrow> row" where
  "definition_as_mapping d =
     [(''schema_version'', PInt (pd_schema_version d)),
      (''project'', PStr (pd_project d)),
      (''revision'', PInt (pd_revision d)),
      (''mode'', PStr (mode_value (pd_mode d))),
      (''policy'', PDict (policy_as_mapping (pd_policy d))),
      (''phases'', PList (map (\<lambda>p. PDict (phase_as_mapping p)) (pd_phases d))),
      (''tasks'', PDict (py_dict (map (\<lambda>t. (pt_task_id t, PDict (task_as_mapping t)))
                     (sort_key pt_task_id (pd_tasks d))))),
      (''gates'', PList (map (\<lambda>g. PDict (gate_as_mapping g)) (pd_gates d))),
      (''milestones'', PList (map (\<lambda>m. PDict (milestone_as_mapping m)) (pd_milestones d)))]"

text \<open>\<open>from_mapping\<close> up to the semantic validation of the built definition.\<close>

definition definition_parse :: "pyval \<Rightarrow> execution_definition res" where
  "definition_parse raw =
     (case as_dict raw of
        None \<Rightarrow> Inl (ProjectExecutionError ''PROJECT_EXECUTION.yaml must contain a mapping'')
      | Some d \<Rightarrow>
          rbind (model_sequence (row_get d ''phases'' PNone) ''phases'') (\<lambda>phase_rows.
          rbind (mapr phase_from_mapping phase_rows) (\<lambda>phases.
          rbind (model_sequence (row_get d ''gates'' PNone) ''gates'') (\<lambda>gate_rows.
          rbind (mapr gate_from_mapping gate_rows) (\<lambda>gates.
          rbind (model_sequence (row_get d ''milestones'' PNone) ''milestones'') (\<lambda>milestone_rows.
          rbind (mapr milestone_from_mapping milestone_rows) (\<lambda>milestones.
          (case as_dict (or_empty_dict (row_get d ''tasks'' PNone)) of
             None \<Rightarrow> Inl (ProjectExecutionError
                       ''tasks must be a mapping keyed by canonical task ID'')
           | Some task_rows \<Rightarrow>
               rbind (mapr (\<lambda>(k, v). task_from_mapping k v) task_rows) (\<lambda>tasks.
               (case py_int (row_get d ''schema_version'' (PInt 0)) of
                  Inl e \<Rightarrow> Inl (ProjectExecutionError
                            ''Project Execution schema_version must be an integer'')
                | Inr schema \<Rightarrow>
                    rbind (policy_from_mapping (row_get d ''policy'' PNone)) (\<lambda>policy.
                    definition_init schema (row_get d ''project'' (PStr []))
                      (row_get d ''revision'' (PInt 1))
                      (row_get d ''mode'' (PStr ''assisted''))
                      policy phases tasks gates milestones)))))))))))"

end
