(* ===== verification/Exec_RoundTrip.thy ===== *)
theory Exec_RoundTrip
  imports Exec_Model "HOL-Library.Multiset"
begin

text \<open>
  The serializers of \<open>project_execution/models.py\<close> against their readers. An object is
  \<open>_ok\<close> when its constructor accepts its own fields and returns them unchanged; every
  object a reader or constructor returns is \<open>_ok\<close>, and writing an \<open>_ok\<close> object and reading
  it back gives the same object. A definition comes back with its Tasks in identifier
  order, because \<open>as_mapping\<close> sorts them.
\<close>

named_theorems round_trip \<open>reading back what a serializer wrote\<close>
named_theorems read_ok \<open>what a reader returns is in normal form\<close>

section \<open>Generic facts\<close>

lemma row_get_append:
  "row_get (xs @ ys) k d = (if k \<in> set (keys xs) then row_get xs k d else row_get ys k d)"
proof (cases "map_of xs k")
  case None
  then have "k \<notin> set (keys xs)" by (simp add: map_of_eq_None_iff)
  with None show ?thesis by (simp add: row_get_def dget_def map_add_def)
next
  case (Some v)
  then have "k \<in> set (keys xs)" by (metis map_of_eq_None_iff option.distinct(1) set_map)
  with Some show ?thesis by (simp add: row_get_def dget_def map_add_def)
qed

lemma keys_str_fields: "set (keys (str_fields kvs)) \<subseteq> set (keys kvs)"
  by (force simp: str_fields_def)

lemma row_get_absent: "k \<notin> set (keys r) \<Longrightarrow> row_get r k d = d"
proof -
  assume "k \<notin> set (keys r)"
  then have "map_of r k = None" by (simp add: map_of_eq_None_iff)
  then show ?thesis by (simp add: row_get_def dget_def)
qed

lemma row_get_str_fields [dict_simps]:
  "distinct (keys kvs) \<Longrightarrow> row_get (str_fields kvs) k (PStr []) = PStr (dget kvs k [])"
proof (induction kvs)
  case Nil
  then show ?case by (simp add: str_fields_def)
next
  case (Cons p kvs)
  obtain a v where p: "p = (a, v)" by (cases p)
  have absent: "row_get (str_fields kvs) a (PStr []) = PStr []"
    by (rule row_get_absent) (use Cons.prems p keys_str_fields [of kvs] in auto)
  show ?case
  proof (cases "v = []")
    case True
    then have "str_fields (p # kvs) = str_fields kvs" using p by (simp add: str_fields_def)
    moreover have "dget kvs a [] = []"
      using Cons.prems p by (simp add: dget_def map_of_eq_None_iff [THEN iffD2])
    ultimately show ?thesis using True Cons p by simp
  next
    case False
    then have "str_fields (p # kvs) = (a, PStr v) # str_fields kvs" using p by (simp add: str_fields_def)
    with Cons p show ?thesis by simp
  qed
qed

lemma distinct_map_sort_key: "distinct (map f (sort_key g xs)) = distinct (map f xs)"
proof -
  have "mset (map f (sort_key g xs)) = mset (map f xs)" by simp
  then show ?thesis by (rule mset_eq_imp_distinct_iff)
qed

lemma unknown_fields_empty: "set (keys d) \<subseteq> set allowed \<Longrightarrow> unknown_fields d allowed = []"
  by (simp add: unknown_fields_Nil_iff)

section \<open>Schedules\<close>

definition schedule_ok :: "project_schedule \<Rightarrow> bool" where
  "schedule_ok s \<longleftrightarrow> schedule_init (PStr (sched_start s)) (PStr (sched_target s)) = Inr s"

lemma schedule_init_ok [read_ok]: "schedule_init a b = Inr s \<Longrightarrow> schedule_ok s"
  by (auto simp: schedule_init_def schedule_ok_def model_date_fixed rbind_Inr_iff split: if_splits)

lemma empty_schedule_ok [simp]: "schedule_ok empty_schedule"
  by (simp add: schedule_ok_def schedule_init_def model_date_def empty_schedule_def)

lemma schedule_from_mapping_ok [read_ok]: "schedule_from_mapping raw = Inr s \<Longrightarrow> schedule_ok s"
  by (auto simp: schedule_from_mapping_def split: if_splits option.splits intro: schedule_init_ok)

lemma schedule_as_mapping_Nil: "schedule_as_mapping s = [] \<longleftrightarrow> s = empty_schedule"
  by (cases s) (auto simp: schedule_as_mapping_def str_fields_def empty_schedule_def)

lemma schedule_round_trip [round_trip]:
  "schedule_ok s \<Longrightarrow> schedule_from_mapping (PDict (schedule_as_mapping s)) = Inr s"
  unfolding schedule_ok_def
  by (simp add: schedule_from_mapping_def schedule_as_mapping_def row_get_str_fields)

definition schedule_field :: "project_schedule \<Rightarrow> row" where
  "schedule_field s =
     (let schedule = schedule_as_mapping s
      in if schedule \<noteq> [] then [(''schedule'', PDict schedule)] else [])"

lemma schedule_field_round_trip [round_trip]:
  "schedule_ok s \<Longrightarrow> schedule_from_mapping (row_get (schedule_field s) ''schedule'' PNone) = Inr s"
proof (cases "schedule_as_mapping s = []")
  case True
  then have "s = empty_schedule" by (simp add: schedule_as_mapping_Nil)
  with True show ?thesis by (simp add: schedule_field_def schedule_from_mapping_def)
next
  case False
  assume "schedule_ok s"
  then have "schedule_from_mapping (PDict (schedule_as_mapping s)) = Inr s"
    by (rule schedule_round_trip)
  with False show ?thesis by (simp add: schedule_field_def)
qed

lemma keys_schedule_field: "set (keys (schedule_field s)) \<subseteq> {''schedule''}"
  by (cases "schedule_as_mapping s = []") (simp_all add: schedule_field_def)

lemma schedule_field_other: "k \<noteq> ''schedule'' \<Longrightarrow> row_get (schedule_field s) k d = d"
  by (cases "schedule_as_mapping s = []") (simp_all add: schedule_field_def)

section \<open>Phases\<close>

definition phase_ok :: "project_phase \<Rightarrow> bool" where
  "phase_ok p \<longleftrightarrow> schedule_ok (ph_schedule p)
     \<and> phase_init (PStr (ph_id p)) (PStr (ph_title p)) (PStr (ph_description p)) (ph_schedule p)
         (ph_entry_gates p) (ph_exit_gates p) (ph_tasks p) (ph_milestones p) = Inr p"

lemma phase_init_ok [read_ok]:
  "phase_init a b c s e x t m = Inr p \<Longrightarrow> schedule_ok s \<Longrightarrow> phase_ok p"
  by (clarsimp simp: phase_init_def phase_ok_def)
    (simp add: validate_asset_id_fixed model_text_fixed model_ids_fixed)

lemma phase_from_mapping_ok [read_ok]: "phase_from_mapping raw = Inr p \<Longrightarrow> phase_ok p"
  by (auto simp: phase_from_mapping_def split: option.splits
      intro: phase_init_ok schedule_from_mapping_ok)

lemma model_ids_ph:
  assumes "phase_ok p"
  shows "model_ids (strs (ph_entry_gates p)) False l = Inr (ph_entry_gates p)"
    and "model_ids (strs (ph_exit_gates p)) False l = Inr (ph_exit_gates p)"
    and "model_ids (strs (ph_tasks p)) True l = Inr (ph_tasks p)"
    and "model_ids (strs (ph_milestones p)) False l = Inr (ph_milestones p)"
  using assms by (cases p; auto simp: phase_ok_def phase_init_def intro: model_ids_fixed)+

lemma phase_round_trip [round_trip]:
  assumes "phase_ok p"
  shows "phase_from_mapping (PDict (phase_as_mapping p)) = Inr p"
proof -
  let ?m = "phase_as_mapping p"
  have m: "?m = [(''id'', PStr (ph_id p)), (''title'', PStr (ph_title p)),
      (''entry_gates'', strs (ph_entry_gates p)), (''exit_gates'', strs (ph_exit_gates p)),
      (''tasks'', strs (ph_tasks p)), (''milestones'', strs (ph_milestones p))]
     @ (if ph_description p \<noteq> [] then [(''description'', PStr (ph_description p))] else [])
     @ schedule_field (ph_schedule p)"
    by (simp add: phase_as_mapping_def schedule_field_def)
  have sched: "row_get ?m ''schedule'' PNone = row_get (schedule_field (ph_schedule p)) ''schedule'' PNone"
    by (simp add: m row_get_append)
  have descr: "row_get ?m ''description'' (PStr []) = PStr (ph_description p)"
    by (auto simp: m row_get_append schedule_field_other)
  have gets: "row_get ?m ''id'' (PStr []) = PStr (ph_id p)"
    "row_get ?m ''title'' (PStr []) = PStr (ph_title p)"
    "row_get ?m ''entry_gates'' PNone = strs (ph_entry_gates p)"
    "row_get ?m ''exit_gates'' PNone = strs (ph_exit_gates p)"
    "row_get ?m ''tasks'' PNone = strs (ph_tasks p)"
    "row_get ?m ''milestones'' PNone = strs (ph_milestones p)"
    by (simp_all add: m)
  have "schedule_ok (ph_schedule p)" using assms by (simp add: phase_ok_def)
  from schedule_field_round_trip [OF this] show ?thesis
    using assms
    by (simp add: phase_from_mapping_def sched descr gets model_ids_ph [OF assms])
      (simp add: phase_ok_def)
qed

section \<open>Tasks\<close>

definition task_requirements_ok :: "task_requirements \<Rightarrow> bool" where
  "task_requirements_ok r \<longleftrightarrow> task_requirements_init (treq_tasks r) (treq_gates r) = Inr r"

lemma task_requirements_init_ok [read_ok]:
  "task_requirements_init a b = Inr r \<Longrightarrow> task_requirements_ok r"
  by (clarsimp simp: task_requirements_init_def task_requirements_ok_def)
    (simp add: model_ids_fixed)

lemma task_requirements_from_mapping_ok [read_ok]:
  "task_requirements_from_mapping raw = Inr r \<Longrightarrow> task_requirements_ok r"
proof -
  assume read: "task_requirements_from_mapping raw = Inr r"
  have empty: "task_requirements_ok \<lparr>treq_tasks = [], treq_gates = []\<rparr>"
    by (simp add: task_requirements_ok_def task_requirements_init_def)
  show ?thesis
    using read empty
    by (auto simp: task_requirements_from_mapping_def Let_def split: if_splits option.splits
        intro: task_requirements_init_ok)
qed

lemma task_requirements_round_trip [round_trip]:
  assumes "task_requirements_ok r"
  shows "task_requirements_from_mapping (PDict (task_requirements_as_mapping r)) = Inr r"
proof -
  have ids: "model_ids (strs (treq_tasks r)) True l = Inr (treq_tasks r)"
    "model_ids (strs (treq_gates r)) False l = Inr (treq_gates r)" for l
    using assms by (cases r; auto simp: task_requirements_ok_def task_requirements_init_def
        intro: model_ids_fixed)+
  have u: "unknown_fields (task_requirements_as_mapping r) [''tasks'', ''gates''] = []"
    by (rule unknown_fields_empty) (simp add: task_requirements_as_mapping_def)
  show ?thesis
    using assms
    by (simp add: task_requirements_from_mapping_def u)
      (simp add: task_requirements_as_mapping_def ids task_requirements_ok_def)
qed

definition task_ok :: "project_task \<Rightarrow> bool" where
  "task_ok t \<longleftrightarrow> task_requirements_ok (pt_requires t)
     \<and> task_init (PStr (pt_task_id t)) (PStr (pt_phase t)) (PBool (pt_required t))
         (pt_requires t) = Inr t"

lemma task_init_ok [read_ok]:
  "task_init a b c r = Inr t \<Longrightarrow> task_requirements_ok r \<Longrightarrow> task_ok t"
  by (auto simp: task_init_def task_ok_def validate_asset_id_fixed validate_task_reference_fixed
      split: pyval.splits)

lemma task_from_mapping_ok [read_ok]: "task_from_mapping k raw = Inr t \<Longrightarrow> task_ok t"
  by (auto simp: task_from_mapping_def split: option.splits
      intro: task_init_ok task_requirements_from_mapping_ok)

lemma task_round_trip [round_trip]:
  assumes "task_ok t"
  shows "task_from_mapping (pt_task_id t) (PDict (task_as_mapping t)) = Inr t"
proof -
  have "task_requirements_from_mapping (PDict (task_requirements_as_mapping (pt_requires t)))
      = Inr (pt_requires t)"
    by (rule task_requirements_round_trip) (use assms in \<open>simp add: task_ok_def\<close>)
  with assms show ?thesis by (simp add: task_from_mapping_def task_as_mapping_def task_ok_def)
qed

section \<open>Gates\<close>

definition criterion_ok :: "gate_criterion \<Rightarrow> bool" where
  "criterion_ok c \<longleftrightarrow> criterion_init (PStr (gc_type c)) (PStr (gc_task_id c))
     (PStr (gc_gate_id c)) (PStr (gc_outcome c)) (PStr (gc_artifact_id c)) = Inr c"

lemma validate_asset_id_ne: "validate_asset_id v l = Inr a \<Longrightarrow> a \<noteq> []"
  by (auto dest: validate_asset_id_Inr)

lemma criterion_ref_fixed:
  "(if py_truthy v then validate_task_reference v else Inr []) = Inr t \<Longrightarrow>
     (if t \<noteq> [] then validate_task_reference (PStr t) else Inr []) = Inr t"
  "(if py_truthy v then validate_asset_id v l else Inr []) = Inr a \<Longrightarrow>
     (if a \<noteq> [] then validate_asset_id (PStr a) l else Inr []) = Inr a"
  by (auto split: if_splits intro: validate_task_reference_fixed validate_asset_id_fixed)

lemma criterion_init_fields:
  assumes "criterion_init a b c d e = Inr r"
  shows "gc_type r = py_lower (py_strip (str_or_empty a))"
    and "gc_type r \<in> set criterion_types"
    and "(if py_truthy b then validate_task_reference b else Inr []) = Inr (gc_task_id r)"
    and "(if py_truthy c then validate_asset_id c ''criterion gate id'' else Inr [])
           = Inr (gc_gate_id r)"
    and "model_text e ''artifact id'' False 500 = Inr (gc_artifact_id r)"
    and "(gc_type r \<in> set task_criterion_types) = (gc_task_id r \<noteq> [])"
    and "(gc_type r = ''project_gate'') = (gc_gate_id r \<noteq> [])"
    and "(gc_type r = ''task_artifact'') = (gc_artifact_id r \<noteq> [])"
    and "(gc_type r = ''task_verification'') = (gc_outcome r \<noteq> [])"
    and "py_lower (py_strip (gc_outcome r)) = gc_outcome r"
proof -
  have passed: "py_lower (py_strip ''passed'') = ''passed''" by code_simp
  define ct where "ct = py_lower (py_strip (str_or_empty a))"
  define out where "out = py_lower (py_strip (str_or_empty d))"
  have ty: "ct \<in> set criterion_types"
    using assms unfolding criterion_init_def ct_def Let_def by (simp split: if_split_asm)
  with assms obtain tid gid art where parts:
    "(if py_truthy b then validate_task_reference b else Inr []) = Inr tid"
    "(if py_truthy c then validate_asset_id c ''criterion gate id'' else Inr []) = Inr gid"
    "model_text e ''artifact id'' False 500 = Inr art"
    and chain: "(if (ct \<in> set task_criterion_types) \<noteq> (tid \<noteq> [])
        then Inl (ProjectExecutionError
               (''criterion '' @ py_repr_str ct @ '' has invalid task_id''))
        else if (ct = ''project_gate'') \<noteq> (gid \<noteq> [])
        then Inl (ProjectExecutionError
               (''criterion '' @ py_repr_str ct @ '' has invalid gate_id''))
        else if ct \<noteq> ''task_verification'' \<and> out \<noteq> []
        then Inl (ProjectExecutionError
               (''criterion '' @ py_repr_str ct @ '' cannot define outcome''))
        else if ct = ''task_artifact'' \<and> art = []
        then Inl (ProjectExecutionError ''task_artifact criterion requires artifact_id'')
        else if ct \<noteq> ''task_artifact'' \<and> art \<noteq> []
        then Inl (ProjectExecutionError
               (''criterion '' @ py_repr_str ct @ '' cannot define artifact_id''))
        else Inr \<lparr>gc_type = ct, gc_task_id = tid, gc_gate_id = gid,
                  gc_outcome = (if ct = ''task_verification'' \<and> out = [] then ''passed'' else out),
                  gc_artifact_id = art\<rparr>) = Inr r"
    unfolding criterion_init_def Let_def ct_def [symmetric] out_def [symmetric]
    by (simp only: not_True_eq_False if_False) (elim rbind_InrE, blast)
  have body: "(ct \<in> set task_criterion_types) = (tid \<noteq> [])" "(ct = ''project_gate'') = (gid \<noteq> [])"
    "ct \<noteq> ''task_verification'' \<Longrightarrow> out = []" "(ct = ''task_artifact'') = (art \<noteq> [])"
    "r = \<lparr>gc_type = ct, gc_task_id = tid, gc_gate_id = gid,
          gc_outcome = (if ct = ''task_verification'' \<and> out = [] then ''passed'' else out),
          gc_artifact_id = art\<rparr>"
    using chain by (auto split: if_split_asm)
  show "gc_type r = py_lower (py_strip (str_or_empty a))" "gc_type r \<in> set criterion_types"
    "(if py_truthy b then validate_task_reference b else Inr []) = Inr (gc_task_id r)"
    "(if py_truthy c then validate_asset_id c ''criterion gate id'' else Inr [])
       = Inr (gc_gate_id r)"
    "model_text e ''artifact id'' False 500 = Inr (gc_artifact_id r)"
    "(gc_type r \<in> set task_criterion_types) = (gc_task_id r \<noteq> [])"
    "(gc_type r = ''project_gate'') = (gc_gate_id r \<noteq> [])"
    "(gc_type r = ''task_artifact'') = (gc_artifact_id r \<noteq> [])"
    using parts ty body by (simp_all add: ct_def)
  show "(gc_type r = ''task_verification'') = (gc_outcome r \<noteq> [])"
    using body(3) by (auto simp: body(5))
  show "py_lower (py_strip (gc_outcome r)) = gc_outcome r"
    using passed by (auto simp: body(5) out_def)
qed

lemma criterion_init_ok [read_ok]:
  assumes "criterion_init a b c d e = Inr r"
  shows "criterion_ok r"
proof -
  note f = criterion_init_fields [OF assms]
  have ty: "py_lower (py_strip (gc_type r)) = gc_type r" unfolding f(1) by simp
  have art: "model_text (PStr (gc_artifact_id r)) ''artifact id'' False 500 = Inr (gc_artifact_id r)"
    by (rule model_text_fixed [OF f(5)])
  show ?thesis
    unfolding criterion_ok_def criterion_init_def
    using f(2) f(6-10) ty criterion_ref_fixed(1) [OF f(3)] criterion_ref_fixed(2) [OF f(4)] art
    by (simp add: Let_def)
qed

lemma criterion_from_mapping_ok [read_ok]: "criterion_from_mapping raw = Inr c \<Longrightarrow> criterion_ok c"
  by (auto simp: criterion_from_mapping_def Let_def split: if_splits option.splits
      intro: criterion_init_ok)

lemma criterion_round_trip [round_trip]:
  assumes "criterion_ok c"
  shows "criterion_from_mapping (PDict (criterion_as_mapping c)) = Inr c"
proof -
  let ?kvs = "[(''type'', gc_type c), (''task_id'', gc_task_id c), (''gate_id'', gc_gate_id c),
      (''outcome'', gc_outcome c), (''artifact_id'', gc_artifact_id c)]"
  have "distinct (keys ?kvs)" by simp
  note get = row_get_str_fields [OF this]
  have u: "unknown_fields (str_fields ?kvs)
      [''type'', ''task_id'', ''gate_id'', ''outcome'', ''artifact_id''] = []"
    by (rule unknown_fields_empty) (use keys_str_fields [of ?kvs] in auto)
  show ?thesis
    using assms
    by (simp only: criterion_from_mapping_def criterion_as_mapping_def as_dict_simps option.case
        Let_def u get) (simp add: criterion_ok_def)
qed

definition gate_ok :: "project_gate \<Rightarrow> bool" where
  "gate_ok g \<longleftrightarrow> schedule_ok (pg_schedule g) \<and> list_all criterion_ok (pg_criteria g)
     \<and> gate_init (PStr (pg_id g)) (PStr (pg_title g)) (PStr (pg_description g)) (pg_schedule g)
         (pg_criteria g) = Inr g"

lemma gate_init_ok [read_ok]:
  "gate_init a b c s cs = Inr g \<Longrightarrow> schedule_ok s \<Longrightarrow> list_all criterion_ok cs \<Longrightarrow> gate_ok g"
  by (auto simp: gate_init_def gate_ok_def validate_asset_id_fixed model_text_fixed
      split: if_splits)

lemma mapr_ok:
  assumes "mapr f xs = Inr ys" and "\<And>x y. f x = Inr y \<Longrightarrow> P y"
  shows "list_all P ys"
  using assms by (auto simp: mapr_Inr_iff list_all2_conv_all_nth list_all_length)

lemma gate_from_mapping_ok [read_ok]: "gate_from_mapping raw = Inr g \<Longrightarrow> gate_ok g"
  by (auto simp: gate_from_mapping_def split: option.splits
      intro!: gate_init_ok schedule_from_mapping_ok elim!: mapr_ok intro: criterion_from_mapping_ok)

lemma gate_round_trip [round_trip]:
  assumes "gate_ok g"
  shows "gate_from_mapping (PDict (gate_as_mapping g)) = Inr g"
proof -
  let ?m = "gate_as_mapping g"
  let ?rows = "map (\<lambda>c. PDict (criterion_as_mapping c)) (pg_criteria g)"
  have m: "?m = [(''id'', PStr (pg_id g)), (''title'', PStr (pg_title g)),
      (''criteria'', PDict [(''all'', PList ?rows)])]
     @ (if pg_description g \<noteq> [] then [(''description'', PStr (pg_description g))] else [])
     @ schedule_field (pg_schedule g)"
    by (simp add: gate_as_mapping_def schedule_field_def)
  have sched: "row_get ?m ''schedule'' PNone = row_get (schedule_field (pg_schedule g)) ''schedule'' PNone"
    by (simp add: m row_get_append)
  have descr: "row_get ?m ''description'' (PStr []) = PStr (pg_description g)"
    by (auto simp: m row_get_append schedule_field_other)
  have gets: "row_get ?m ''id'' (PStr []) = PStr (pg_id g)"
    "row_get ?m ''title'' (PStr []) = PStr (pg_title g)"
    "row_get ?m ''criteria'' PNone = PDict [(''all'', PList ?rows)]"
    by (simp_all add: m)
  have crit: "gate_criteria_raw (PDict [(''all'', PList ?rows)]) = Inr (PList ?rows)"
    by (simp add: gate_criteria_raw_def unknown_fields_empty)
  have "mapr criterion_from_mapping ?rows = Inr (map (\<lambda>c. c) (pg_criteria g))"
    unfolding mapr_map
    by (rule mapr_Inr_map) (use assms in \<open>auto simp: gate_ok_def list_all_iff criterion_round_trip\<close>)
  moreover have "schedule_ok (pg_schedule g)" using assms by (simp add: gate_ok_def)
  ultimately show ?thesis
    using schedule_field_round_trip [of "pg_schedule g"] assms
    by (simp add: gate_from_mapping_def sched descr gets crit model_sequence_def)
      (simp add: gate_ok_def)
qed

section \<open>Milestones\<close>

definition milestone_requirements_ok :: "milestone_requirements \<Rightarrow> bool" where
  "milestone_requirements_ok r \<longleftrightarrow>
     milestone_requirements_init (mreq_tasks r) (mreq_gates r) (mreq_milestones r) = Inr r"

lemma milestone_requirements_init_ok [read_ok]:
  "milestone_requirements_init a b c = Inr r \<Longrightarrow> milestone_requirements_ok r"
  by (clarsimp simp: milestone_requirements_init_def milestone_requirements_ok_def)
    (simp add: model_ids_fixed)

lemma milestone_requirements_from_mapping_ok [read_ok]:
  "milestone_requirements_from_mapping raw = Inr r \<Longrightarrow> milestone_requirements_ok r"
proof -
  assume read: "milestone_requirements_from_mapping raw = Inr r"
  have empty: "milestone_requirements_ok \<lparr>mreq_tasks = [], mreq_gates = [], mreq_milestones = []\<rparr>"
    by (simp add: milestone_requirements_ok_def milestone_requirements_init_def)
  show ?thesis
    using read empty
    by (auto simp: milestone_requirements_from_mapping_def Let_def split: if_splits option.splits
        intro: milestone_requirements_init_ok)
qed

lemma milestone_requirements_round_trip [round_trip]:
  assumes "milestone_requirements_ok r"
  shows "milestone_requirements_from_mapping (PDict (milestone_requirements_as_mapping r)) = Inr r"
proof -
  have ids: "model_ids (strs (mreq_tasks r)) True l = Inr (mreq_tasks r)"
    "model_ids (strs (mreq_gates r)) False l = Inr (mreq_gates r)"
    "model_ids (strs (mreq_milestones r)) False l = Inr (mreq_milestones r)" for l
    using assms by (cases r; auto simp: milestone_requirements_ok_def
        milestone_requirements_init_def intro: model_ids_fixed)+
  have u: "unknown_fields (milestone_requirements_as_mapping r)
      [''tasks'', ''gates'', ''milestones''] = []"
    by (rule unknown_fields_empty) (simp add: milestone_requirements_as_mapping_def)
  show ?thesis
    using assms
    by (simp add: milestone_requirements_from_mapping_def u)
      (simp add: milestone_requirements_as_mapping_def ids milestone_requirements_ok_def)
qed

definition milestone_ok :: "project_milestone \<Rightarrow> bool" where
  "milestone_ok m \<longleftrightarrow> milestone_requirements_ok (pm_requires m)
     \<and> milestone_init (PStr (pm_id m)) (PStr (pm_title m)) (PStr (pm_description m))
         (PStr (pm_start m)) (PStr (pm_target m)) (pm_requires m)
         (PStr (delivery_value (pm_delivery_policy m))) = Inr m"

lemma delivery_of_value_iff [simp]: "delivery_of_value v = Some p \<longleftrightarrow> v = PStr (delivery_value p)"
  by (cases p) (auto simp: delivery_of_value_def)

lemma delivery_of_delivery_value [simp]: "delivery_of_value (PStr (delivery_value p)) = Some p"
  by simp

lemma mode_of_value_iff [simp]: "mode_of_value v = Some m \<longleftrightarrow> v = PStr (mode_value m)"
  by (cases m) (auto simp: mode_of_value_def)

lemma mode_of_mode_value [simp]: "mode_of_value (PStr (mode_value m)) = Some m"
  by simp

lemma milestone_init_ok [read_ok]:
  "milestone_init a b c s t r p = Inr m \<Longrightarrow> milestone_requirements_ok r \<Longrightarrow> milestone_ok m"
  by (auto simp: milestone_init_def milestone_ok_def validate_asset_id_fixed model_text_fixed
      model_date_fixed split: if_splits option.splits)

lemma milestone_from_mapping_ok [read_ok]: "milestone_from_mapping raw = Inr m \<Longrightarrow> milestone_ok m"
  by (auto simp: milestone_from_mapping_def split: option.splits
      intro: milestone_init_ok milestone_requirements_from_mapping_ok)

lemma model_date_alone: "model_date (PStr s) l = Inr s \<Longrightarrow> model_date (PStr s) l' = Inr s"
  by (auto simp: model_date_def Let_def split: if_splits option.splits)

lemma milestone_ok_dates:
  "milestone_ok m \<Longrightarrow> model_date (PStr (pm_start m)) l = Inr (pm_start m)"
  by (cases m) (auto simp: milestone_ok_def milestone_init_def split: if_splits option.splits
      intro: model_date_alone)

lemma milestone_round_trip [round_trip]:
  assumes "milestone_ok m"
  shows "milestone_from_mapping (PDict (milestone_as_mapping m)) = Inr m"
proof -
  let ?m = "milestone_as_mapping m"
  let ?s = "schedule_from_mapping (row_get ?m ''schedule'' PNone)"
  have sched: "?s = Inr \<lparr>sched_start = pm_start m, sched_target = []\<rparr>"
    using milestone_ok_dates [OF assms]
    by (cases "pm_start m = []")
      (simp_all add: milestone_as_mapping_def row_get_append schedule_from_mapping_def
        empty_schedule_def schedule_init_def, simp add: model_date_def)
  have gets: "row_get ?m ''id'' (PStr []) = PStr (pm_id m)"
    "row_get ?m ''title'' (PStr []) = PStr (pm_title m)"
    "row_get ?m ''requires'' PNone = PDict (milestone_requirements_as_mapping (pm_requires m))"
    "row_get ?m ''delivery'' PNone
       = PDict [(''policy'', PStr (delivery_value (pm_delivery_policy m)))]"
    "row_get ?m ''description'' (PStr []) = PStr (pm_description m)"
    "row_get ?m ''target'' (PStr []) = PStr (pm_target m)"
    by (simp_all add: milestone_as_mapping_def row_get_append)
  have "milestone_requirements_ok (pm_requires m)" using assms by (simp add: milestone_ok_def)
  from milestone_requirements_round_trip [OF this] show ?thesis
    using assms by (simp add: milestone_from_mapping_def sched gets) (simp add: milestone_ok_def)
qed

section \<open>Definitions\<close>

definition definition_ok :: "execution_definition \<Rightarrow> bool" where
  "definition_ok d \<longleftrightarrow>
     policy_ok (pd_policy d) \<and> list_all phase_ok (pd_phases d) \<and> list_all task_ok (pd_tasks d)
     \<and> list_all gate_ok (pd_gates d) \<and> list_all milestone_ok (pd_milestones d)
     \<and> definition_init (pd_schema_version d) (PStr (pd_project d)) (PInt (pd_revision d))
         (PStr (mode_value (pd_mode d))) (pd_policy d) (pd_phases d) (pd_tasks d) (pd_gates d)
         (pd_milestones d) = Inr d"

definition sort_tasks :: "execution_definition \<Rightarrow> execution_definition" where
  "sort_tasks d = d\<lparr>pd_tasks := sort_key pt_task_id (pd_tasks d)\<rparr>"

lemma definition_revision_of_fixed:
  "definition_revision_of v = Inr r \<Longrightarrow> definition_revision_of (PInt r) = Inr r"
  by (auto simp: definition_revision_of_def split: sum.splits if_splits)

lemma definition_init_ok [read_ok]:
  assumes "definition_init s p r m pol ph ts gs ms = Inr d"
    and "policy_ok pol" "list_all phase_ok ph" "list_all task_ok ts" "list_all gate_ok gs"
    "list_all milestone_ok ms"
  shows "definition_ok d"
  using assms
  by (auto simp: definition_init_def definition_ok_def Let_def rbind_Inr_iff
      validate_project_id_fixed definition_revision_of_fixed
      split: if_splits sum.splits option.splits)

lemma definition_parse_ok [read_ok]:
  assumes "definition_parse raw = Inr d"
  shows "definition_ok d"
proof -
  from assms obtain prs ph grs gs mrs ms trs ts s pol a b m c where
    parts: "mapr phase_from_mapping prs = Inr ph" "mapr gate_from_mapping grs = Inr gs"
      "mapr milestone_from_mapping mrs = Inr ms"
      "mapr (\<lambda>(k, v). task_from_mapping k v) trs = Inr ts"
      "policy_from_mapping pol = Inr c" "definition_init s a b m c ph ts gs ms = Inr d"
    by (auto simp: definition_parse_def split: option.splits sum.splits)
  show ?thesis
    by (rule definition_init_ok [OF parts(6)])
      (use parts in \<open>auto elim!: mapr_ok intro: policy_from_mapping_ok phase_from_mapping_ok
         gate_from_mapping_ok milestone_from_mapping_ok task_from_mapping_ok split: prod.splits\<close>)
qed

lemma definition_ok_unique:
  assumes "definition_ok d"
  shows "distinct (map ph_id (pd_phases d))" "distinct (map pg_id (pd_gates d))"
    "distinct (map pm_id (pd_milestones d))" "distinct (map pt_task_id (pd_tasks d))"
    "distinct (asset_ids d)"
  using assms
  by (auto simp: definition_ok_def definition_init_def validate_unique_ids_def Let_def rbind_Inr_iff
      split: if_splits sum.splits option.splits)

lemma definition_ok_sort_tasks:
  assumes "definition_ok d"
  shows "definition_ok (sort_tasks d)"
  using assms
  by (cases d) (auto simp: definition_ok_def sort_tasks_def definition_init_def validate_unique_ids_def
      Let_def rbind_Inr_iff asset_ids_def distinct_map_sort_key list_all_iff
      split: if_splits sum.splits option.splits)

lemma mapr_round_trip:
  assumes "\<And>x. x \<in> set xs \<Longrightarrow> f (g x) = Inr x"
  shows "mapr f (map g xs) = Inr xs"
proof -
  have "mapr (f \<circ> g) xs = Inr (map (\<lambda>x. x) xs)" by (rule mapr_Inr_map) (simp add: assms)
  then show ?thesis by (simp add: mapr_map)
qed

lemma definition_parse_as_mapping [round_trip]:
  assumes "definition_ok d"
  shows "definition_parse (PDict (definition_as_mapping d)) = Inr (sort_tasks d)"
proof -
  let ?ts = "sort_key pt_task_id (pd_tasks d)"
  let ?rows = "map (\<lambda>t. (pt_task_id t, PDict (task_as_mapping t))) ?ts"
  have "distinct (keys ?rows)"
    using definition_ok_unique(4) [OF assms] by (simp add: comp_def distinct_map_sort_key)
  then have rows: "py_dict ?rows = ?rows" by (rule py_dict_distinct)
  have oks: "list_all phase_ok (pd_phases d)" "list_all task_ok (pd_tasks d)"
    "list_all gate_ok (pd_gates d)" "list_all milestone_ok (pd_milestones d)"
    "policy_ok (pd_policy d)" using assms by (simp_all add: definition_ok_def)
  have lists: "mapr phase_from_mapping (map (\<lambda>p. PDict (phase_as_mapping p)) (pd_phases d))
        = Inr (pd_phases d)"
    "mapr gate_from_mapping (map (\<lambda>g. PDict (gate_as_mapping g)) (pd_gates d)) = Inr (pd_gates d)"
    "mapr milestone_from_mapping (map (\<lambda>m. PDict (milestone_as_mapping m)) (pd_milestones d))
        = Inr (pd_milestones d)"
    using oks by (auto intro!: mapr_round_trip round_trip simp: list_all_iff)
  have tasks: "mapr (\<lambda>(k, v). task_from_mapping k v) ?rows = Inr ?ts"
    using oks(2) by (intro mapr_round_trip) (auto simp: list_all_iff task_round_trip)
  have init: "definition_init (pd_schema_version d) (PStr (pd_project d)) (PInt (pd_revision d))
      (PStr (mode_value (pd_mode d))) (pd_policy d) (pd_phases d) ?ts (pd_gates d)
      (pd_milestones d) = Inr (sort_tasks d)"
    using definition_ok_sort_tasks [OF assms] by (simp add: definition_ok_def sort_tasks_def)
  show ?thesis
    by (simp add: definition_parse_def definition_as_mapping_def model_sequence_def lists rows tasks
        policy_round_trip [OF oks(5)] init)
qed

end
