(* ===== verification/Exec_Graph.thy ===== *)
theory Exec_Graph
  imports Py_Strings
begin

text \<open>
  \<open>project_execution/graph.py\<close>: the depth-first dependency order and the acyclicity check
  used for Tasks, Gates and Milestones. The adjacency mapping is a dictionary from a node to
  the nodes it depends on. The lemmas show that the order is dependency first and complete,
  that it fails exactly on cyclic graphs, and that the path it reports is a real cycle.
\<close>

type_synonym adjacency = "string list pydict"

definition deps :: "adjacency \<Rightarrow> string \<Rightarrow> string list" where
  "deps adj n = dget adj n []"

section \<open>The algorithm\<close>

text \<open>
  \<open>visit\<close> threads \<open>visited\<close> and \<open>result\<close>. The set \<open>visiting\<close> gains the node on entry and
  loses it on exit, so it is handed down to the recursive calls and unchanged afterwards.
\<close>

function (sequential)
  visit :: "adjacency \<Rightarrow> string \<Rightarrow> string \<Rightarrow> string list \<Rightarrow> string list
      \<Rightarrow> string list \<times> string list \<Rightarrow> (string list \<times> string list) res"
  and visit_deps :: "adjacency \<Rightarrow> string \<Rightarrow> string list \<Rightarrow> string list \<Rightarrow> string list
      \<Rightarrow> string list \<times> string list \<Rightarrow> (string list \<times> string list) res" where
  "visit adj label node trail visiting (visited, result) =
     (if node \<in> set visited then Inr (visited, result)
      else if node \<in> set visiting then
        Inl (ProjectExecutionError
          (label @ '' must be acyclic: '' @ py_join '' -> '' (trail @ [node])))
      else rbind (visit_deps adj label (deps adj node) (trail @ [node]) (node # visiting)
                    (visited, result))
             (\<lambda>(visited', result'). Inr (node # visited', result' @ [node])))"
| "visit_deps adj label [] trail visiting st = Inr st"
| "visit_deps adj label (d # ds) trail visiting st =
     rbind (visit adj label d trail visiting st) (\<lambda>st'. visit_deps adj label ds trail visiting st')"
  by pat_completeness auto
termination
proof (relation "measures
    [\<lambda>x. case x of Inl (adj, _, _, _, visiting, _) \<Rightarrow> card (set (keys adj) - set visiting)
            | Inr (adj, _, _, _, visiting, _) \<Rightarrow> card (set (keys adj) - set visiting),
     \<lambda>x. case x of Inl _ \<Rightarrow> 1 | Inr (_, _, ds, _, _, _) \<Rightarrow> 2 * length ds]", goal_cases)
  case (2 adj label node trail visiting visited result)
  show ?case
  proof (cases "node \<in> set (keys adj)")
    case True
    with 2 have "set (keys adj) - set (node # visiting) \<subset> set (keys adj) - set visiting" by auto
    then have "card (set (keys adj) - set (node # visiting)) < card (set (keys adj) - set visiting)"
      by (rule psubset_card_mono [rotated]) simp
    then show ?thesis by simp
  next
    case False
    then have "map_of adj node = None" by (simp add: map_of_eq_None_iff)
    then have "deps adj node = []" by (simp add: deps_def dget_def)
    moreover from False have "set (keys adj) - set (node # visiting) = set (keys adj) - set visiting"
      by auto
    ultimately show ?thesis by simp
  qed
qed auto

declare visit.simps [simp del]

definition topological_order :: "adjacency \<Rightarrow> string \<Rightarrow> string list res" where
  "topological_order adj label =
     rbind (visit_deps adj label (keys adj) [] [] ([], [])) (\<lambda>(visited, result). Inr result)"

definition assert_acyclic :: "adjacency \<Rightarrow> string \<Rightarrow> unit res" where
  "assert_acyclic adj label = rbind (topological_order adj label) (\<lambda>_. Inr ())"

section \<open>The graph it works on\<close>

definition edges :: "adjacency \<Rightarrow> (string \<times> string) set" where
  "edges adj = {(n, m). m \<in> set (deps adj n)}"

definition dependency_first :: "adjacency \<Rightarrow> string list \<Rightarrow> bool" where
  "dependency_first adj ns \<longleftrightarrow> (\<forall>i < length ns. set (deps adj (ns ! i)) \<subseteq> set (take i ns))"

fun is_path :: "adjacency \<Rightarrow> string list \<Rightarrow> bool" where
  "is_path adj (a # b # ns) = ((a, b) \<in> edges adj \<and> is_path adj (b # ns))"
| "is_path adj _ = True"

definition mentioned :: "adjacency \<Rightarrow> string set" where
  "mentioned adj = set (keys adj) \<union> (\<Union>n \<in> set (keys adj). set (deps adj n))"

definition closed_graph :: "adjacency \<Rightarrow> bool" where
  "closed_graph adj \<longleftrightarrow> (\<forall>n \<in> set (keys adj). set (deps adj n) \<subseteq> set (keys adj))"

lemma deps_non_key [simp]: "n \<notin> set (keys adj) \<Longrightarrow> deps adj n = []"
  by (simp add: deps_def dget_def map_of_eq_None_iff [THEN iffD2])

lemma edge_source_key: "(n, m) \<in> edges adj \<Longrightarrow> n \<in> set (keys adj)"
  by (rule ccontr) (simp add: edges_def)

lemma closed_mentioned [simp]: "closed_graph adj \<Longrightarrow> mentioned adj = set (keys adj)"
  by (auto simp: closed_graph_def mentioned_def)

lemma dependency_first_Nil [simp]: "dependency_first adj []"
  by (simp add: dependency_first_def)

lemma dependency_first_snoc:
  "dependency_first adj (ns @ [n]) \<longleftrightarrow> dependency_first adj ns \<and> set (deps adj n) \<subseteq> set ns"
  by (auto simp: dependency_first_def nth_append less_Suc_eq)

lemma is_path_snoc:
  "is_path adj (ns @ [n]) \<longleftrightarrow> is_path adj ns \<and> (ns \<noteq> [] \<longrightarrow> (last ns, n) \<in> edges adj)"
  by (induction adj ns rule: is_path.induct) auto

section \<open>Correctness\<close>

text \<open>What holds of the threaded pair between two calls.\<close>

definition visit_inv :: "adjacency \<Rightarrow> string list \<Rightarrow> string list \<times> string list \<Rightarrow> bool" where
  "visit_inv adj visiting st \<longleftrightarrow> (case st of (visited, result) \<Rightarrow>
     set visited = set result \<and> distinct result \<and> dependency_first adj result
     \<and> set visiting \<inter> set visited = {})"

lemma visit_sound:
  "visit adj label n trail visiting st = Inr st' \<Longrightarrow> visit_inv adj visiting st \<Longrightarrow>
     visit_inv adj visiting st' \<and> insert n (set (fst st)) \<subseteq> set (fst st')"
  "visit_deps adj label ds trail visiting st = Inr st' \<Longrightarrow> visit_inv adj visiting st \<Longrightarrow>
     visit_inv adj visiting st' \<and> set ds \<union> set (fst st) \<subseteq> set (fst st')"
proof (induction adj label n trail visiting st and adj label ds trail visiting st
    arbitrary: st' and st' rule: visit_visit_deps.induct)
  case (1 adj label node trail visiting visited result)
  show ?case
  proof (cases "node \<in> set visited")
    case True
    with "1.prems" show ?thesis by (auto simp: visit.simps)
  next
    case new: False
    with "1.prems" have nv: "node \<notin> set visiting" by (auto simp: visit.simps)
    from "1.prems" new nv obtain v r where
      rec: "visit_deps adj label (deps adj node) (trail @ [node]) (node # visiting) (visited, result)
              = Inr (v, r)"
      and st': "st' = (node # v, r @ [node])"
      by (auto simp: visit.simps)
    have "visit_inv adj (node # visiting) (visited, result)"
      using "1.prems"(2) new by (auto simp: visit_inv_def)
    from "1.IH" [OF new nv rec this]
    have "visit_inv adj (node # visiting) (v, r)"
      and "set (deps adj node) \<union> set visited \<subseteq> set v" by auto
    then show ?thesis using st' nv
      by (auto simp: visit_inv_def dependency_first_snoc)
  qed
next
  case (3 adj label d ds trail visiting st)
  from "3.prems"(1) obtain t where
    t: "visit adj label d trail visiting st = Inr t"
      "visit_deps adj label ds trail visiting t = Inr st'" by auto
  from "3.IH"(1) [OF t(1) "3.prems"(2)]
  have i: "visit_inv adj visiting t" "insert d (set (fst st)) \<subseteq> set (fst t)" by auto
  from "3.IH"(2) [OF t(1) t(2) i(1)] i(2) show ?case by auto
qed auto

text \<open>Only mentioned nodes are visited.\<close>

lemma visit_mentioned:
  "visit adj label n trail visiting st = Inr st' \<Longrightarrow> n \<in> mentioned adj \<Longrightarrow>
     set (snd st) \<subseteq> mentioned adj \<Longrightarrow> set (snd st') \<subseteq> mentioned adj"
  "visit_deps adj label ds trail visiting st = Inr st' \<Longrightarrow> set ds \<subseteq> mentioned adj \<Longrightarrow>
     set (snd st) \<subseteq> mentioned adj \<Longrightarrow> set (snd st') \<subseteq> mentioned adj"
proof (induction adj label n trail visiting st and adj label ds trail visiting st
    arbitrary: st' and st' rule: visit_visit_deps.induct)
  case (1 adj label node trail visiting visited result)
  have sub: "set (deps adj node) \<subseteq> mentioned adj"
    by (cases "node \<in> set (keys adj)") (auto simp: mentioned_def)
  show ?case
    using "1.prems" "1.IH" [OF _ _ _ sub]
    by (auto simp: visit.simps split: if_splits)
next
  case (3 adj label d ds trail visiting st)
  from "3.prems"(1) obtain t where
    t: "visit adj label d trail visiting st = Inr t"
      "visit_deps adj label ds trail visiting t = Inr st'" by auto
  have "set (snd t) \<subseteq> mentioned adj" using "3.IH"(1) [OF t(1)] "3.prems" by auto
  then show ?case using "3.IH"(2) [OF t(1) t(2)] "3.prems" by auto
qed auto

text \<open>A failure reports a path of edges whose last node occurs earlier on it.\<close>

definition cycle_report :: "adjacency \<Rightarrow> string \<Rightarrow> py_error \<Rightarrow> bool" where
  "cycle_report adj label e \<longleftrightarrow> (\<exists>p n. n \<in> set p \<and> is_path adj (p @ [n])
     \<and> e = ProjectExecutionError (label @ '' must be acyclic: '' @ py_join '' -> '' (p @ [n])))"

lemma visit_failure:
  "visit adj label n trail visiting st = Inl e \<Longrightarrow> set visiting = set trail \<Longrightarrow>
     is_path adj (trail @ [n]) \<Longrightarrow> cycle_report adj label e"
  "visit_deps adj label ds trail visiting st = Inl e \<Longrightarrow> set visiting = set trail \<Longrightarrow>
     (\<forall>d \<in> set ds. is_path adj (trail @ [d])) \<Longrightarrow> cycle_report adj label e"
proof (induction adj label n trail visiting st and adj label ds trail visiting st
    rule: visit_visit_deps.induct)
  case (1 adj label node trail visiting visited result)
  have next_path: "\<forall>d \<in> set (deps adj node). is_path adj ((trail @ [node]) @ [d])"
  proof
    fix d assume "d \<in> set (deps adj node)"
    then have "(node, d) \<in> edges adj" by (simp add: edges_def)
    with "1.prems"(3) show "is_path adj ((trail @ [node]) @ [d])"
      by (subst is_path_snoc) simp
  qed
  show ?case
  proof (cases "node \<in> set visiting")
    case True
    with "1.prems" show ?thesis
      by (auto simp: visit.simps cycle_report_def split: if_splits)
  next
    case False
    with "1.prems" have "node \<notin> set visited"
      and "visit_deps adj label (deps adj node) (trail @ [node]) (node # visiting) (visited, result)
             = Inl e"
      by (auto simp: visit.simps rbind_Inl_iff split: if_splits)
    with "1.IH" False next_path "1.prems"(2) show ?thesis by simp
  qed
next
  case (3 adj label d ds trail visiting st)
  then show ?case by (auto simp: rbind_Inl_iff)
qed auto

lemma is_path_append_trancl:
  "is_path adj (a # p @ [n]) \<Longrightarrow> (a, n) \<in> (edges adj)\<^sup>+"
proof (induction p arbitrary: a)
  case (Cons b p)
  then have "(a, b) \<in> edges adj" and "(b, n) \<in> (edges adj)\<^sup>+" by auto
  then show ?case by (rule trancl_into_trancl2)
qed auto

lemma is_path_drop: "is_path adj (xs @ ys) \<Longrightarrow> is_path adj ys"
proof (induction xs)
  case (Cons a xs)
  then show ?case by (cases "xs @ ys") auto
qed simp

lemma cycle_report_cyclic:
  assumes "cycle_report adj label e"
  shows "\<not> acyclic (edges adj)"
proof -
  from assms obtain p n where p: "n \<in> set p" "is_path adj (p @ [n])"
    by (auto simp: cycle_report_def)
  then obtain xs ys where "p = xs @ n # ys" by (auto simp: in_set_conv_decomp)
  with p(2) have "is_path adj (n # ys @ [n])" using is_path_drop [of adj xs] by simp
  then have "(n, n) \<in> (edges adj)\<^sup>+" by (rule is_path_append_trancl)
  then show ?thesis by (auto simp: acyclic_def)
qed

text \<open>A complete dependency-first list rules out cycles: edges lead to smaller positions.\<close>

lemma dependency_first_acyclic:
  assumes df: "dependency_first adj ns" and dist: "distinct ns" and all: "set (keys adj) \<subseteq> set ns"
  shows "acyclic (edges adj)"
proof -
  define pos where "pos = (\<lambda>n. length (takeWhile (\<lambda>m. m \<noteq> n) ns))"
  have pos: "pos (ns ! i) = i" if "i < length ns" for i
  proof -
    have "takeWhile (\<lambda>m. m \<noteq> ns ! i) ns = take i ns"
      using that dist by (intro takeWhile_eq_take_P_nth) (auto simp: nth_eq_iff_index_eq)
    with that show ?thesis by (simp add: pos_def)
  qed
  have "(edges adj)\<inverse> \<subseteq> measure pos"
  proof
    fix e assume "e \<in> (edges adj)\<inverse>"
    then obtain m n where e: "e = (m, n)" "(n, m) \<in> edges adj" by auto
    then obtain i where i: "i < length ns" "ns ! i = n"
      using edge_source_key all by (metis in_set_conv_nth subsetD)
    with df e have "m \<in> set (take i ns)" by (auto simp: dependency_first_def edges_def)
    then obtain j where j: "j < i" "ns ! j = m" using i by (auto simp: in_set_conv_nth)
    have "pos n = i" using pos [OF i(1)] i(2) by simp
    moreover have "pos m = j" using pos [of j] j i(1) by simp
    ultimately show "e \<in> measure pos" using e j(1) by simp
  qed
  then have "wf ((edges adj)\<inverse>)" by (rule wf_subset [rotated]) simp
  then have "acyclic ((edges adj)\<inverse>)" by (rule wf_acyclic)
  then show ?thesis by (simp only: acyclic_converse)
qed

section \<open>The contract of a dependency order\<close>

text \<open>
  What Gate evaluation, Milestone evaluation and the automatic planner rely on. The
  functions of the algorithm above provide it.
\<close>

locale dependency_orderer =
  fixes order :: "adjacency \<Rightarrow> string \<Rightarrow> string list res"
  assumes order_dependency_first: "order adj l = Inr ns \<Longrightarrow> dependency_first adj ns"
    and order_distinct: "order adj l = Inr ns \<Longrightarrow> distinct ns"
    and order_complete: "order adj l = Inr ns \<Longrightarrow> set (keys adj) \<subseteq> set ns"
    and order_mentioned: "order adj l = Inr ns \<Longrightarrow> set ns \<subseteq> mentioned adj"
    and order_failure: "order adj l = Inl e \<Longrightarrow> cycle_report adj l e"
begin

lemma order_Inr_iff_acyclic: "(\<exists>ns. order adj l = Inr ns) \<longleftrightarrow> acyclic (edges adj)"
proof
  assume "\<exists>ns. order adj l = Inr ns"
  then show "acyclic (edges adj)"
    using dependency_first_acyclic order_dependency_first order_distinct order_complete by blast
next
  assume "acyclic (edges adj)"
  then show "\<exists>ns. order adj l = Inr ns"
    by (cases "order adj l") (use order_failure cycle_report_cyclic in blast)+
qed

lemma order_keys: "closed_graph adj \<Longrightarrow> order adj l = Inr ns \<Longrightarrow> set ns = set (keys adj)"
  using order_complete order_mentioned closed_mentioned by blast

lemma order_dep_before:
  assumes "order adj l = Inr ns" and "i < length ns" and "m \<in> set (deps adj (ns ! i))"
  obtains j where "j < i" and "ns ! j = m"
proof -
  from order_dependency_first [OF assms(1)] assms(2,3) have "m \<in> set (take i ns)"
    by (auto simp: dependency_first_def)
  then show ?thesis using assms(2) that by (auto simp: in_set_conv_nth)
qed

end

interpretation topo: dependency_orderer topological_order
proof
  fix adj l ns
  {
    assume "topological_order adj l = Inr ns"
    then obtain v where run: "visit_deps adj l (keys adj) [] [] ([], []) = Inr (v, ns)"
      by (auto simp: topological_order_def)
    have "visit_inv adj [] ([], [])" by (simp add: visit_inv_def)
    from visit_sound(2) [OF run this] have inv: "visit_inv adj [] (v, ns)" "set (keys adj) \<subseteq> set v"
      by auto
    then show "dependency_first adj ns" "distinct ns" "set (keys adj) \<subseteq> set ns"
      by (auto simp: visit_inv_def)
    have "set (keys adj) \<subseteq> mentioned adj" by (auto simp: mentioned_def)
    from visit_mentioned(2) [OF run this] show "set ns \<subseteq> mentioned adj" by simp
  }
next
  fix adj l e
  assume "topological_order adj l = Inl e"
  then have "visit_deps adj l (keys adj) [] [] ([], []) = Inl e"
    by (auto simp: topological_order_def rbind_Inl_iff)
  from visit_failure(2) [OF this] show "cycle_report adj l e" by simp
qed

lemma assert_acyclic_iff: "assert_acyclic adj l = Inr () \<longleftrightarrow> acyclic (edges adj)"
  unfolding topo.order_Inr_iff_acyclic [of adj l, symmetric]
  by (auto simp: assert_acyclic_def rbind_Inr_iff)

end
