(* ===== verification/Exec_Validation.thy ===== *)
theory Exec_Validation
  imports Exec_RoundTrip Exec_Graph
begin

text \<open>
  \<open>project_execution/validation.py\<close>: cross-object validation of a definition, as the
  sequence of loops that raise, and the declarative well-formedness it decides. With it the
  reader \<open>ProjectExecutionDefinition.from_mapping\<close> is complete, and its round trip with
  \<open>as_mapping\<close> is stated for validated definitions.
\<close>

section \<open>The checks\<close>

definition task_ids :: "execution_definition \<Rightarrow> string list" where
  "task_ids d = map pt_task_id (pd_tasks d)"

definition gate_ids :: "execution_definition \<Rightarrow> string list" where
  "gate_ids d = map pg_id (pd_gates d)"

definition phase_ids :: "execution_definition \<Rightarrow> string list" where
  "phase_ids d = map ph_id (pd_phases d)"

definition milestone_ids :: "execution_definition \<Rightarrow> string list" where
  "milestone_ids d = map pm_id (pd_milestones d)"

definition criterion_gates :: "project_gate \<Rightarrow> string list" where
  "criterion_gates g = filter (\<lambda>x. x \<noteq> []) (map gc_gate_id (pg_criteria g))"

definition criterion_tasks :: "project_gate \<Rightarrow> string list" where
  "criterion_tasks g = filter (\<lambda>x. x \<noteq> []) (map gc_task_id (pg_criteria g))"

definition task_graph :: "execution_definition \<Rightarrow> adjacency" where
  "task_graph d = py_dict (map (\<lambda>t. (pt_task_id t, treq_tasks (pt_requires t))) (pd_tasks d))"

definition gate_graph :: "execution_definition \<Rightarrow> adjacency" where
  "gate_graph d = py_dict (map (\<lambda>g. (pg_id g, criterion_gates g)) (pd_gates d))"

definition milestone_graph :: "execution_definition \<Rightarrow> adjacency" where
  "milestone_graph d =
     py_dict (map (\<lambda>m. (pm_id m, mreq_milestones (pm_requires m))) (pd_milestones d))"

definition validate_tasks ::
    "execution_definition \<Rightarrow> (string \<Rightarrow> bool) option \<Rightarrow> unit res" where
  "validate_tasks d task_exists =
     eachr (\<lambda>t.
       rbind (require (pt_phase t \<in> set (keys (phase_index d))) (ProjectExecutionError
           (''task '' @ py_repr_str (pt_task_id t) @ '' references missing phase ''
            @ py_repr_str (pt_phase t)))) (\<lambda>_.
       rbind (case task_exists of None \<Rightarrow> Inr () | Some exists \<Rightarrow>
           require (exists (pt_task_id t)) (ProjectExecutionError
             (''missing canonical Task reference: '' @ pt_task_id t))) (\<lambda>_.
       rbind (eachr (\<lambda>predecessor.
           rbind (require (predecessor \<in> set (keys (task_index d))) (ProjectExecutionError
               (''task '' @ py_repr_str (pt_task_id t) @ '' references missing prerequisite Task ''
                @ py_repr_str predecessor))) (\<lambda>_.
           require (predecessor \<noteq> pt_task_id t) (ProjectExecutionError
               (''task '' @ py_repr_str (pt_task_id t) @ '' cannot require itself''))))
         (treq_tasks (pt_requires t))) (\<lambda>_.
       eachr (\<lambda>gate_id.
           require (gate_id \<in> set (keys (gate_index d))) (ProjectExecutionError
             (''task '' @ py_repr_str (pt_task_id t) @ '' references missing Gate ''
              @ py_repr_str gate_id)))
         (treq_gates (pt_requires t))))))
     (pd_tasks d)"

definition canonical_members :: "execution_definition \<Rightarrow> string \<Rightarrow> string list" where
  "canonical_members d phase_id =
     map pt_task_id (filter (\<lambda>t. pt_phase t = phase_id) (pd_tasks d))"

definition validate_phases :: "execution_definition \<Rightarrow> unit res" where
  "validate_phases d =
     eachr (\<lambda>p.
       rbind (eachr (\<lambda>task_id.
           (case map_of (task_index d) task_id of
              None \<Rightarrow> Inl (ProjectExecutionError
                (''phase '' @ py_repr_str (ph_id p) @ '' references missing Task ''
                 @ py_repr_str task_id))
            | Some t \<Rightarrow> require (pt_phase t = ph_id p) (ProjectExecutionError
                (''Task '' @ py_repr_str task_id @ '' Phase ownership disagrees with phase ''
                 @ py_repr_str (ph_id p)))))
         (ph_tasks p)) (\<lambda>_.
       rbind (require (set (canonical_members d (ph_id p)) = set (ph_tasks p)) (ProjectExecutionError
           (''phase '' @ py_repr_str (ph_id p) @ '' task membership must exactly match canonical ''
            @ ''task Phase ownership''))) (\<lambda>_.
       rbind (eachr (\<lambda>gate_id.
           require (gate_id \<in> set (keys (gate_index d))) (ProjectExecutionError
             (''phase '' @ py_repr_str (ph_id p) @ '' references missing Gate ''
              @ py_repr_str gate_id)))
         (ph_entry_gates p @ ph_exit_gates p)) (\<lambda>_.
       eachr (\<lambda>milestone_id.
           require (milestone_id \<in> set (keys (milestone_index d))) (ProjectExecutionError
             (''phase '' @ py_repr_str (ph_id p) @ '' references missing Milestone ''
              @ py_repr_str milestone_id)))
         (ph_milestones p)))))
     (pd_phases d)"

definition validate_gates :: "execution_definition \<Rightarrow> unit res" where
  "validate_gates d =
     eachr (\<lambda>g.
       eachr (\<lambda>c.
         rbind (require (gc_task_id c = [] \<or> gc_task_id c \<in> set (keys (task_index d)))
             (ProjectExecutionError (''Gate '' @ py_repr_str (pg_id g)
                @ '' references missing Task '' @ py_repr_str (gc_task_id c)))) (\<lambda>_.
         if gc_gate_id c = [] then Inr ()
         else
           rbind (require (gc_gate_id c \<in> set (keys (gate_index d)))
               (ProjectExecutionError (''Gate '' @ py_repr_str (pg_id g)
                  @ '' references missing Gate '' @ py_repr_str (gc_gate_id c)))) (\<lambda>_.
           require (gc_gate_id c \<noteq> pg_id g)
               (ProjectExecutionError (''Gate '' @ py_repr_str (pg_id g)
                  @ '' cannot reference itself'')))))
       (pg_criteria g))
     (pd_gates d)"

definition validate_phase_entry_boundaries :: "execution_definition \<Rightarrow> unit res" where
  "validate_phase_entry_boundaries d =
     eachr (\<lambda>p.
       eachr (\<lambda>gate_id.
         (case map_of (gate_index d) gate_id of
            None \<Rightarrow> Inl (KeyError gate_id)
          | Some g \<Rightarrow>
              (let overlap = filter (\<lambda>t. t \<in> set (criterion_tasks g)) (ph_tasks p)
               in require (overlap = []) (ProjectExecutionError
                    (''phase '' @ py_repr_str (ph_id p) @ '' entry Gate '' @ py_repr_str gate_id
                     @ '' depends on contained Task(s): '' @ py_join '', '' (sort (remdups overlap)))))))
       (ph_entry_gates p))
     (pd_phases d)"

definition validate_milestones :: "execution_definition \<Rightarrow> unit res" where
  "validate_milestones d =
     eachr (\<lambda>m.
       rbind (eachr (\<lambda>task_id. require (task_id \<in> set (keys (task_index d))) (ProjectExecutionError
             (''Milestone '' @ py_repr_str (pm_id m) @ '' references missing Task ''
              @ py_repr_str task_id)))
         (mreq_tasks (pm_requires m))) (\<lambda>_.
       rbind (eachr (\<lambda>gate_id. require (gate_id \<in> set (keys (gate_index d))) (ProjectExecutionError
             (''Milestone '' @ py_repr_str (pm_id m) @ '' references missing Gate ''
              @ py_repr_str gate_id)))
         (mreq_gates (pm_requires m))) (\<lambda>_.
       eachr (\<lambda>prerequisite.
           rbind (require (prerequisite \<in> set (keys (milestone_index d))) (ProjectExecutionError
               (''Milestone '' @ py_repr_str (pm_id m) @ '' references missing Milestone ''
                @ py_repr_str prerequisite))) (\<lambda>_.
           require (prerequisite \<noteq> pm_id m) (ProjectExecutionError
               (''Milestone '' @ py_repr_str (pm_id m) @ '' cannot require itself''))))
         (mreq_milestones (pm_requires m)))))
     (pd_milestones d)"

definition validate_dependency_cycles :: "execution_definition \<Rightarrow> unit res" where
  "validate_dependency_cycles d =
     rbind (assert_acyclic (task_graph d) ''Task dependency graph'') (\<lambda>_.
     rbind (assert_acyclic (gate_graph d) ''Gate dependency graph'') (\<lambda>_.
     assert_acyclic (milestone_graph d) ''Milestone dependency graph''))"

definition validate_definition ::
    "execution_definition \<Rightarrow> (string \<Rightarrow> bool) option \<Rightarrow> unit res" where
  "validate_definition d task_exists =
     rbind (validate_tasks d task_exists) (\<lambda>_.
     rbind (validate_phases d) (\<lambda>_.
     rbind (validate_gates d) (\<lambda>_.
     rbind (validate_phase_entry_boundaries d) (\<lambda>_.
     rbind (validate_milestones d) (\<lambda>_.
     validate_dependency_cycles d)))))"

definition definition_from_mapping :: "pyval \<Rightarrow> execution_definition res" where
  "definition_from_mapping raw =
     rbind (definition_parse raw) (\<lambda>d.
     rbind (validate_definition d None) (\<lambda>_. Inr d))"

section \<open>Indexes\<close>

lemma map_of_index:
  "distinct (map f xs) \<Longrightarrow> map_of (py_dict (map (\<lambda>x. (f x, g x)) xs)) k = Some y \<longleftrightarrow>
     (\<exists>x \<in> set xs. f x = k \<and> g x = y)"
  by (induction xs) (auto simp: comp_def)

lemma keys_index: "distinct (map f xs) \<Longrightarrow> keys (py_dict (map (\<lambda>x. (f x, g x)) xs)) = map f xs"
  by (simp add: comp_def)

lemma fst_set_py_dict: "fst ` set (py_dict ys) = fst ` set ys"
proof (rule set_eqI)
  fix k
  have "k \<notin> fst ` set (py_dict ys) \<longleftrightarrow> k \<notin> fst ` set (rev ys)"
    unfolding map_of_eq_None_iff [symmetric] map_of_py_dict ..
  then show "k \<in> fst ` set (py_dict ys) \<longleftrightarrow> k \<in> fst ` set ys" by simp
qed

lemma fst_set_index: "fst ` set (py_dict (map (\<lambda>x. (f x, g x)) xs)) = f ` set xs"
  by (simp add: fst_set_py_dict image_image)

lemma index_fst [simp]:
  "fst ` set (task_index d) = set (task_ids d)" "fst ` set (gate_index d) = set (gate_ids d)"
  "fst ` set (phase_index d) = set (phase_ids d)"
  "fst ` set (milestone_index d) = set (milestone_ids d)"
  "fst ` set (task_graph d) = set (task_ids d)" "fst ` set (gate_graph d) = set (gate_ids d)"
  "fst ` set (milestone_graph d) = set (milestone_ids d)"
  by (simp_all only: task_index_def gate_index_def phase_index_def milestone_index_def
      task_graph_def gate_graph_def milestone_graph_def
      fst_set_index task_ids_def gate_ids_def phase_ids_def milestone_ids_def set_map)

lemma index_keys: "set (keys (task_index d)) = set (task_ids d)"
  "set (keys (gate_index d)) = set (gate_ids d)" "set (keys (phase_index d)) = set (phase_ids d)"
  "set (keys (milestone_index d)) = set (milestone_ids d)"
  by (simp_all only: set_map index_fst)

definition unique_ids :: "execution_definition \<Rightarrow> bool" where
  "unique_ids d \<longleftrightarrow> distinct (task_ids d) \<and> distinct (asset_ids d)"

lemma unique_idsD:
  assumes "unique_ids d"
  shows "distinct (map pt_task_id (pd_tasks d))" "distinct (map ph_id (pd_phases d))"
    "distinct (map pg_id (pd_gates d))" "distinct (map pm_id (pd_milestones d))"
  using assms by (auto simp: unique_ids_def task_ids_def asset_ids_def)

lemma definition_ok_unique_ids: "definition_ok d \<Longrightarrow> unique_ids d"
  using definition_ok_unique by (simp add: unique_ids_def task_ids_def)

lemma task_index_Some:
  "unique_ids d \<Longrightarrow> map_of (task_index d) k = Some t \<longleftrightarrow> t \<in> set (pd_tasks d) \<and> pt_task_id t = k"
  unfolding task_index_def by (subst map_of_index) (auto dest: unique_idsD)

lemma phase_index_Some:
  "unique_ids d \<Longrightarrow> map_of (phase_index d) k = Some p \<longleftrightarrow> p \<in> set (pd_phases d) \<and> ph_id p = k"
  unfolding phase_index_def by (subst map_of_index) (auto dest: unique_idsD)

lemma gate_index_Some:
  "unique_ids d \<Longrightarrow> map_of (gate_index d) k = Some g \<longleftrightarrow> g \<in> set (pd_gates d) \<and> pg_id g = k"
  unfolding gate_index_def by (subst map_of_index) (auto dest: unique_idsD)

lemma milestone_index_Some:
  "unique_ids d \<Longrightarrow>
     map_of (milestone_index d) k = Some m \<longleftrightarrow> m \<in> set (pd_milestones d) \<and> pm_id m = k"
  unfolding milestone_index_def by (subst map_of_index) (auto dest: unique_idsD)

lemma same_id:
  assumes "unique_ids d"
  shows "t \<in> set (pd_tasks d) \<Longrightarrow> t' \<in> set (pd_tasks d) \<Longrightarrow> pt_task_id t = pt_task_id t' \<Longrightarrow> t = t'"
    and "g \<in> set (pd_gates d) \<Longrightarrow> g' \<in> set (pd_gates d) \<Longrightarrow> pg_id g = pg_id g' \<Longrightarrow> g = g'"
    and "p \<in> set (pd_phases d) \<Longrightarrow> p' \<in> set (pd_phases d) \<Longrightarrow> ph_id p = ph_id p' \<Longrightarrow> p = p'"
    and "m \<in> set (pd_milestones d) \<Longrightarrow> m' \<in> set (pd_milestones d) \<Longrightarrow> pm_id m = pm_id m' \<Longrightarrow> m = m'"
  using task_index_Some [OF assms, of "pt_task_id t"] gate_index_Some [OF assms, of "pg_id g"]
    phase_index_Some [OF assms, of "ph_id p"] milestone_index_Some [OF assms, of "pm_id m"]
  by (metis option.inject)+

lemma index_None:
  "map_of (task_index d) k = None \<longleftrightarrow> k \<notin> set (task_ids d)"
  "map_of (gate_index d) k = None \<longleftrightarrow> k \<notin> set (gate_ids d)"
  "map_of (phase_index d) k = None \<longleftrightarrow> k \<notin> set (phase_ids d)"
  "map_of (milestone_index d) k = None \<longleftrightarrow> k \<notin> set (milestone_ids d)"
  by (simp_all add: map_of_eq_None_iff)

lemma deps_index:
  "distinct (map f xs) \<Longrightarrow> x \<in> set xs \<Longrightarrow> deps (py_dict (map (\<lambda>x. (f x, g x)) xs)) (f x) = g x"
proof -
  assume "distinct (map f xs)" and "x \<in> set xs"
  then have "map_of (py_dict (map (\<lambda>x. (f x, g x)) xs)) (f x) = Some (g x)"
    by (subst map_of_index) auto
  then show ?thesis by (simp add: deps_def dget_def)
qed

lemma edges_index:
  assumes "distinct (map f xs)"
  shows "edges (py_dict (map (\<lambda>x. (f x, g x)) xs)) = {(f x, m) | x m. x \<in> set xs \<and> m \<in> set (g x)}"
proof -
  have "(n, m) \<in> edges (py_dict (map (\<lambda>x. (f x, g x)) xs)) \<longleftrightarrow>
      (\<exists>x. x \<in> set xs \<and> n = f x \<and> m \<in> set (g x))" for n m
  proof (cases "n \<in> f ` set xs")
    case True
    then obtain x where x: "x \<in> set xs" "n = f x" by auto
    have "y = x" if "y \<in> set xs" "f y = f x" for y
      using assms that x(1) by (auto simp: distinct_map inj_on_def)
    then have "m \<in> set (g x) \<longleftrightarrow> (\<exists>y. y \<in> set xs \<and> n = f y \<and> m \<in> set (g y))"
      using x by metis
    then show ?thesis
      by (simp only: edges_def mem_Collect_eq prod.case x(2) deps_index [OF assms x(1), of g])
  next
    case False
    then have "deps (py_dict (map (\<lambda>x. (f x, g x)) xs)) n = []"
      by (intro deps_non_key) (simp only: set_map fst_set_index not_False_eq_True)
    with False show ?thesis by (auto simp: edges_def)
  qed
  then show ?thesis by auto
qed

section \<open>What validation decides\<close>

definition task_wf :: "execution_definition \<Rightarrow> (string \<Rightarrow> bool) option \<Rightarrow> project_task \<Rightarrow> bool" where
  "task_wf d task_exists t \<longleftrightarrow>
     pt_phase t \<in> set (phase_ids d)
     \<and> (case task_exists of None \<Rightarrow> True | Some exists \<Rightarrow> exists (pt_task_id t))
     \<and> set (treq_tasks (pt_requires t)) \<subseteq> set (task_ids d) - {pt_task_id t}
     \<and> set (treq_gates (pt_requires t)) \<subseteq> set (gate_ids d)"

definition phase_wf :: "execution_definition \<Rightarrow> project_phase \<Rightarrow> bool" where
  "phase_wf d p \<longleftrightarrow>
     set (ph_tasks p) = {pt_task_id t | t. t \<in> set (pd_tasks d) \<and> pt_phase t = ph_id p}
     \<and> set (ph_entry_gates p) \<union> set (ph_exit_gates p) \<subseteq> set (gate_ids d)
     \<and> set (ph_milestones p) \<subseteq> set (milestone_ids d)"

definition gate_wf :: "execution_definition \<Rightarrow> project_gate \<Rightarrow> bool" where
  "gate_wf d g \<longleftrightarrow> set (criterion_tasks g) \<subseteq> set (task_ids d)
     \<and> set (criterion_gates g) \<subseteq> set (gate_ids d) - {pg_id g}"

definition entry_boundary_wf :: "execution_definition \<Rightarrow> project_phase \<Rightarrow> bool" where
  "entry_boundary_wf d p \<longleftrightarrow> (\<forall>g \<in> set (pd_gates d).
     pg_id g \<in> set (ph_entry_gates p) \<longrightarrow> set (ph_tasks p) \<inter> set (criterion_tasks g) = {})"

definition milestone_wf :: "execution_definition \<Rightarrow> project_milestone \<Rightarrow> bool" where
  "milestone_wf d m \<longleftrightarrow> set (mreq_tasks (pm_requires m)) \<subseteq> set (task_ids d)
     \<and> set (mreq_gates (pm_requires m)) \<subseteq> set (gate_ids d)
     \<and> set (mreq_milestones (pm_requires m)) \<subseteq> set (milestone_ids d) - {pm_id m}"

definition definition_wf :: "execution_definition \<Rightarrow> (string \<Rightarrow> bool) option \<Rightarrow> bool" where
  "definition_wf d task_exists \<longleftrightarrow>
     (\<forall>t \<in> set (pd_tasks d). task_wf d task_exists t)
     \<and> (\<forall>p \<in> set (pd_phases d). phase_wf d p \<and> entry_boundary_wf d p)
     \<and> (\<forall>g \<in> set (pd_gates d). gate_wf d g)
     \<and> (\<forall>m \<in> set (pd_milestones d). milestone_wf d m)
     \<and> acyclic (edges (task_graph d)) \<and> acyclic (edges (gate_graph d))
     \<and> acyclic (edges (milestone_graph d))"

lemma rbind_unit_iff: "rbind m (\<lambda>_ :: unit. n) = Inr y \<longleftrightarrow> m = Inr () \<and> n = Inr y"
  by (auto simp: rbind_Inr_iff)

lemma validate_tasks_iff:
  "validate_tasks d e = Inr () \<longleftrightarrow> (\<forall>t \<in> set (pd_tasks d). task_wf d e t)"
  unfolding validate_tasks_def eachr_Inr_iff rbind_unit_iff task_wf_def index_keys
  by (auto split: option.splits)

lemma validate_gates_iff:
  "validate_gates d = Inr () \<longleftrightarrow> (\<forall>g \<in> set (pd_gates d). gate_wf d g)"
  unfolding validate_gates_def eachr_Inr_iff rbind_unit_iff gate_wf_def index_keys
    criterion_tasks_def criterion_gates_def
  by (fastforce simp: rbind_unit_iff split: if_splits)

lemma validate_milestones_iff:
  "validate_milestones d = Inr () \<longleftrightarrow> (\<forall>m \<in> set (pd_milestones d). milestone_wf d m)"
  unfolding validate_milestones_def eachr_Inr_iff rbind_unit_iff milestone_wf_def index_keys
  by auto

lemma validate_phases_iff:
  assumes "unique_ids d"
  shows "validate_phases d = Inr () \<longleftrightarrow> (\<forall>p \<in> set (pd_phases d). phase_wf d p)"
proof -
  have members: "set (canonical_members d i) = {pt_task_id t | t. t \<in> set (pd_tasks d) \<and> pt_phase t = i}"
    for i by (auto simp: canonical_members_def)
  have own: "(case map_of (task_index d) i of None \<Rightarrow> Inl e | Some t \<Rightarrow> require (pt_phase t = q) e')
        = Inr () \<longleftrightarrow> i \<in> {pt_task_id t | t. t \<in> set (pd_tasks d) \<and> pt_phase t = q}"
    for i q and e e' :: py_error
  proof -
    have "i \<in> {pt_task_id t | t. t \<in> set (pd_tasks d) \<and> pt_phase t = q}
        \<longleftrightarrow> (\<exists>t. map_of (task_index d) i = Some t \<and> pt_phase t = q)"
      unfolding task_index_Some [OF assms] by blast
    then show ?thesis by (cases "map_of (task_index d) i") simp_all
  qed
  have "(\<forall>i \<in> set (ph_tasks p). i \<in> {pt_task_id t | t. t \<in> set (pd_tasks d) \<and> pt_phase t = ph_id p})
      \<and> {pt_task_id t | t. t \<in> set (pd_tasks d) \<and> pt_phase t = ph_id p} = set (ph_tasks p)
      \<and> (\<forall>i \<in> set (ph_entry_gates p @ ph_exit_gates p). i \<in> set (gate_ids d))
      \<and> (\<forall>i \<in> set (ph_milestones p). i \<in> set (milestone_ids d)) \<longleftrightarrow> phase_wf d p" for p
    unfolding phase_wf_def set_append by blast
  note step = this
  show ?thesis
    unfolding validate_phases_def eachr_Inr_iff rbind_unit_iff own members index_keys
      require_simps(3) step ..
qed

lemma validate_boundaries_iff:
  assumes "unique_ids d" and "\<forall>p \<in> set (pd_phases d). set (ph_entry_gates p) \<subseteq> set (gate_ids d)"
  shows "validate_phase_entry_boundaries d = Inr ()
     \<longleftrightarrow> (\<forall>p \<in> set (pd_phases d). entry_boundary_wf d p)"
proof -
  have "(case map_of (gate_index d) i of None \<Rightarrow> Inl (KeyError i)
        | Some g \<Rightarrow> require (filter (\<lambda>t. t \<in> set (criterion_tasks g)) ts = []) (e g)) = Inr ()
      \<longleftrightarrow> (\<forall>g \<in> set (pd_gates d). pg_id g = i \<longrightarrow> set ts \<inter> set (criterion_tasks g) = {})"
    if "i \<in> set (gate_ids d)" for i ts and e :: "project_gate \<Rightarrow> py_error"
  proof (cases "map_of (gate_index d) i")
    case None
    with that show ?thesis by (simp add: index_None)
  next
    case (Some g)
    then have g: "g \<in> set (pd_gates d)" "pg_id g = i" using gate_index_Some [OF assms(1)] by auto
    have "g' = g" if "g' \<in> set (pd_gates d)" "pg_id g' = i" for g'
      using same_id(2) [OF assms(1) that(1) g(1)] that(2) g(2) by simp
    then have "(\<forall>g' \<in> set (pd_gates d). pg_id g' = i \<longrightarrow> set ts \<inter> set (criterion_tasks g') = {})
        \<longleftrightarrow> set ts \<inter> set (criterion_tasks g) = {}" using g by blast
    moreover have "filter (\<lambda>t. t \<in> set (criterion_tasks g)) ts = []
        \<longleftrightarrow> set ts \<inter> set (criterion_tasks g) = {}"
      unfolding filter_empty_conv by blast
    ultimately show ?thesis by (simp only: Some option.case require_simps(3))
  qed
  note decide = this
  have "(\<forall>i \<in> set (ph_entry_gates p). (case map_of (gate_index d) i of None \<Rightarrow> Inl (KeyError i)
          | Some g \<Rightarrow> require (filter (\<lambda>t. t \<in> set (criterion_tasks g)) (ph_tasks p) = []) (e i g)) = Inr ())
      \<longleftrightarrow> entry_boundary_wf d p" if "p \<in> set (pd_phases d)"
    for p and e :: "string \<Rightarrow> project_gate \<Rightarrow> py_error"
  proof -
    have sub: "set (ph_entry_gates p) \<subseteq> set (gate_ids d)" using assms(2) that by blast
    have "(\<forall>i \<in> set (ph_entry_gates p). (case map_of (gate_index d) i of None \<Rightarrow> Inl (KeyError i)
          | Some g \<Rightarrow> require (filter (\<lambda>t. t \<in> set (criterion_tasks g)) (ph_tasks p) = []) (e i g)) = Inr ())
      \<longleftrightarrow> (\<forall>i \<in> set (ph_entry_gates p). \<forall>g \<in> set (pd_gates d). pg_id g = i \<longrightarrow>
            set (ph_tasks p) \<inter> set (criterion_tasks g) = {})"
    proof (rule ball_cong [OF refl])
      fix i assume "i \<in> set (ph_entry_gates p)"
      with sub have "i \<in> set (gate_ids d)" by (rule subsetD)
      then show "(case map_of (gate_index d) i of None \<Rightarrow> Inl (KeyError i)
          | Some g \<Rightarrow> require (filter (\<lambda>t. t \<in> set (criterion_tasks g)) (ph_tasks p) = []) (e i g)) = Inr ()
        \<longleftrightarrow> (\<forall>g \<in> set (pd_gates d). pg_id g = i \<longrightarrow>
            set (ph_tasks p) \<inter> set (criterion_tasks g) = {})"
        by (rule decide)
    qed
    then show ?thesis unfolding entry_boundary_wf_def by blast
  qed
  note step = this
  show ?thesis
    unfolding validate_phase_entry_boundaries_def eachr_Inr_iff Let_def
    by (rule ball_cong [OF refl]) (rule step)
qed

lemma validate_cycles_iff:
  "validate_dependency_cycles d = Inr () \<longleftrightarrow> acyclic (edges (task_graph d))
     \<and> acyclic (edges (gate_graph d)) \<and> acyclic (edges (milestone_graph d))"
  by (simp add: validate_dependency_cycles_def rbind_unit_iff assert_acyclic_iff)

lemma validate_definition_decides:
  assumes "unique_ids d"
  shows "validate_definition d e = Inr () \<longleftrightarrow> definition_wf d e"
proof -
  have "validate_definition d e = Inr () \<longleftrightarrow>
      (\<forall>t \<in> set (pd_tasks d). task_wf d e t) \<and> (\<forall>p \<in> set (pd_phases d). phase_wf d p)
      \<and> (\<forall>g \<in> set (pd_gates d). gate_wf d g) \<and> validate_phase_entry_boundaries d = Inr ()
      \<and> (\<forall>m \<in> set (pd_milestones d). milestone_wf d m) \<and> validate_dependency_cycles d = Inr ()"
    by (simp add: validate_definition_def rbind_unit_iff validate_tasks_iff
        validate_phases_iff [OF assms] validate_gates_iff validate_milestones_iff)
  moreover have "validate_phase_entry_boundaries d = Inr ()
      \<longleftrightarrow> (\<forall>p \<in> set (pd_phases d). entry_boundary_wf d p)"
    if "\<forall>p \<in> set (pd_phases d). phase_wf d p"
    by (rule validate_boundaries_iff [OF assms]) (use that in \<open>auto simp: phase_wf_def\<close>)
  ultimately show ?thesis by (auto simp: definition_wf_def validate_cycles_iff)
qed

section \<open>Validated definitions survive a write and a read\<close>

lemma sort_tasks_simps [simp]:
  "set (pd_tasks (sort_tasks d)) = set (pd_tasks d)" "pd_phases (sort_tasks d) = pd_phases d"
  "pd_gates (sort_tasks d) = pd_gates d" "pd_milestones (sort_tasks d) = pd_milestones d"
  "pd_project (sort_tasks d) = pd_project d" "pd_revision (sort_tasks d) = pd_revision d"
  "pd_mode (sort_tasks d) = pd_mode d" "pd_policy (sort_tasks d) = pd_policy d"
  "set (task_ids (sort_tasks d)) = set (task_ids d)" "gate_ids (sort_tasks d) = gate_ids d"
  "phase_ids (sort_tasks d) = phase_ids d" "milestone_ids (sort_tasks d) = milestone_ids d"
  "gate_graph (sort_tasks d) = gate_graph d" "milestone_graph (sort_tasks d) = milestone_graph d"
  by (simp_all add: sort_tasks_def task_ids_def gate_ids_def phase_ids_def milestone_ids_def
      gate_graph_def milestone_graph_def)

lemma edges_task_graph:
  "unique_ids d \<Longrightarrow> edges (task_graph d)
     = {(pt_task_id t, m) | t m. t \<in> set (pd_tasks d) \<and> m \<in> set (treq_tasks (pt_requires t))}"
  unfolding task_graph_def by (rule edges_index) (rule unique_idsD)

lemma unique_ids_sort_tasks [simp]: "unique_ids (sort_tasks d) = unique_ids d"
  by (simp add: unique_ids_def task_ids_def asset_ids_def sort_tasks_def distinct_map_sort_key)

lemma definition_wf_sort_tasks:
  "unique_ids d \<Longrightarrow> definition_wf (sort_tasks d) e = definition_wf d e"
  by (simp add: definition_wf_def task_wf_def phase_wf_def gate_wf_def entry_boundary_wf_def
      milestone_wf_def edges_task_graph)

lemma definition_from_mapping_wf:
  assumes "definition_from_mapping raw = Inr d"
  shows "definition_ok d" and "definition_wf d None"
proof -
  from assms have p: "definition_parse raw = Inr d" and v: "validate_definition d None = Inr ()"
    by (auto simp: definition_from_mapping_def)
  show "definition_ok d" by (rule definition_parse_ok [OF p])
  then show "definition_wf d None"
    using v validate_definition_decides definition_ok_unique_ids by blast
qed

lemma definition_mapping_round_trip:
  assumes "definition_ok d" and "definition_wf d None"
  shows "definition_from_mapping (PDict (definition_as_mapping d)) = Inr (sort_tasks d)"
proof -
  have u: "unique_ids d" by (rule definition_ok_unique_ids [OF assms(1)])
  then have "validate_definition (sort_tasks d) None = Inr ()"
    using assms(2) by (simp add: validate_definition_decides definition_wf_sort_tasks)
  then show ?thesis
    by (simp add: definition_from_mapping_def definition_parse_as_mapping [OF assms(1)])
qed

lemma closed_graphs:
  assumes "unique_ids d" and "definition_wf d e"
  shows "closed_graph (task_graph d)" "closed_graph (gate_graph d)" "closed_graph (milestone_graph d)"
proof -
  have "closed_graph (py_dict (map (\<lambda>x. (f x, g x)) xs))"
    if "distinct (map f xs)" and "\<And>x. x \<in> set xs \<Longrightarrow> set (g x) \<subseteq> f ` set xs"
    for f :: "'a \<Rightarrow> string" and g xs
    unfolding closed_graph_def set_map fst_set_index using that deps_index [OF that(1), of _ g] by auto
  note closedI = this
  show "closed_graph (task_graph d)" unfolding task_graph_def
    by (rule closedI [OF unique_idsD(1) [OF assms(1)]])
      (use assms(2) in \<open>auto simp: definition_wf_def task_wf_def task_ids_def\<close>)
  show "closed_graph (gate_graph d)" unfolding gate_graph_def
    by (rule closedI [OF unique_idsD(3) [OF assms(1)]])
      (use assms(2) in \<open>auto simp: definition_wf_def gate_wf_def gate_ids_def\<close>)
  show "closed_graph (milestone_graph d)" unfolding milestone_graph_def
    by (rule closedI [OF unique_idsD(4) [OF assms(1)]])
      (use assms(2) in \<open>auto simp: definition_wf_def milestone_wf_def milestone_ids_def\<close>)
qed

end
