(* ===== verification/Exec_Repository.thy ===== *)
theory Exec_Repository
  imports Exec_Validation
begin

text \<open>
  \<open>project_execution/repository.py\<close>: the revisioned store of the definition. The file is its
  parsed YAML content, or \<open>None\<close> where it does not exist; \<open>path\<close> only occurs in a message.
  An operation returns the object and the new content; a raised error leaves the file alone.
\<close>

section \<open>Objects rebuilt by \<open>dataclasses.replace\<close>\<close>

text \<open>\<open>replace\<close> runs \<open>__post_init__\<close> again over the new field values.\<close>

definition replace_definition :: "execution_definition \<Rightarrow> execution_definition res" where
  "replace_definition d = definition_init (pd_schema_version d) (PStr (pd_project d))
     (PInt (pd_revision d)) (PStr (mode_value (pd_mode d))) (pd_policy d) (pd_phases d)
     (pd_tasks d) (pd_gates d) (pd_milestones d)"

definition replace_phase :: "project_phase \<Rightarrow> project_phase res" where
  "replace_phase p = phase_init (PStr (ph_id p)) (PStr (ph_title p)) (PStr (ph_description p))
     (ph_schedule p) (ph_entry_gates p) (ph_exit_gates p) (ph_tasks p) (ph_milestones p)"

definition replace_task :: "project_task \<Rightarrow> project_task res" where
  "replace_task t = task_init (PStr (pt_task_id t)) (PStr (pt_phase t)) (PBool (pt_required t))
     (pt_requires t)"

definition replace_milestone :: "project_milestone \<Rightarrow> project_milestone res" where
  "replace_milestone m = milestone_init (PStr (pm_id m)) (PStr (pm_title m))
     (PStr (pm_description m)) (PStr (pm_start m)) (PStr (pm_target m)) (pm_requires m)
     (PStr (delivery_value (pm_delivery_policy m)))"

section \<open>The repository\<close>

definition repository_load :: "string \<Rightarrow> pyval option \<Rightarrow> execution_definition res" where
  "repository_load path file = (case file of
      None \<Rightarrow> Inl (ProjectExecutionNotFoundError
                (''Project Execution definition not found: '' @ path))
    | Some raw \<Rightarrow> definition_from_mapping (or_empty_dict raw))"

definition repository_load_optional ::
    "string \<Rightarrow> pyval option \<Rightarrow> execution_definition option res" where
  "repository_load_optional path file = (case file of
      None \<Rightarrow> Inr None
    | Some raw \<Rightarrow> rbind (repository_load path file) (\<lambda>d. Inr (Some d)))"

definition repository_create ::
    "execution_definition \<Rightarrow> pyval option \<Rightarrow> (execution_definition \<times> pyval option) res" where
  "repository_create d file =
     rbind (validate_definition d None) (\<lambda>_.
     if file \<noteq> None
     then Inl (ProjectExecutionConflictError ''PROJECT_EXECUTION.yaml already exists'')
     else rbind (replace_definition (d\<lparr>pd_revision := 1\<rparr>)) (\<lambda>created.
          Inr (created, Some (PDict (definition_as_mapping created)))))"

definition repository_save ::
    "string \<Rightarrow> execution_definition \<Rightarrow> int \<Rightarrow> pyval option
       \<Rightarrow> (execution_definition \<times> pyval option) res" where
  "repository_save path d expected_revision file =
     rbind (validate_definition d None) (\<lambda>_.
     rbind (repository_load path file) (\<lambda>current.
     if pd_revision current \<noteq> expected_revision
     then Inl (ProjectExecutionConflictError
            (''Project Execution revision conflict: expected '' @ py_str_int expected_revision
             @ '', current '' @ py_str_int (pd_revision current)))
     else if pd_project d \<noteq> pd_project current
     then Inl (ProjectExecutionError ''Project Execution project identity cannot change'')
     else rbind (replace_definition (d\<lparr>pd_revision := pd_revision current + 1\<rparr>)) (\<lambda>saved.
          Inr (saved, Some (PDict (definition_as_mapping saved))))))"

section \<open>Facts about the store\<close>

lemma replace_definition_ok: "definition_ok d \<Longrightarrow> replace_definition d = Inr d"
  by (simp add: replace_definition_def definition_ok_def)

lemma definition_ok_revision:
  assumes "definition_ok d" and "1 \<le> r"
  shows "definition_ok (d\<lparr>pd_revision := r\<rparr>)"
  using assms
  by (cases d) (auto simp: definition_ok_def definition_init_def definition_revision_of_def
      validate_unique_ids_def asset_ids_def Let_def rbind_Inr_iff
      split: if_splits sum.splits option.splits)

lemma graphs_revision [simp]:
  "task_graph (d\<lparr>pd_revision := r\<rparr>) = task_graph d" "gate_graph (d\<lparr>pd_revision := r\<rparr>) = gate_graph d"
  "milestone_graph (d\<lparr>pd_revision := r\<rparr>) = milestone_graph d"
  "task_ids (d\<lparr>pd_revision := r\<rparr>) = task_ids d" "gate_ids (d\<lparr>pd_revision := r\<rparr>) = gate_ids d"
  "phase_ids (d\<lparr>pd_revision := r\<rparr>) = phase_ids d"
  "milestone_ids (d\<lparr>pd_revision := r\<rparr>) = milestone_ids d"
  by (simp_all add: task_graph_def gate_graph_def milestone_graph_def task_ids_def gate_ids_def
      phase_ids_def milestone_ids_def)

lemma definition_wf_revision [simp]:
  "definition_wf (d\<lparr>pd_revision := r\<rparr>) e = definition_wf d e"
  by (simp add: definition_wf_def task_wf_def phase_wf_def gate_wf_def entry_boundary_wf_def
      milestone_wf_def)

lemma repository_load_facts:
  assumes "repository_load path file = Inr d"
  shows "definition_ok d" and "definition_wf d None" and "1 \<le> pd_revision d"
proof -
  from assms obtain raw where "definition_from_mapping raw = Inr d"
    by (auto simp: repository_load_def split: option.splits)
  then show ok: "definition_ok d" and "definition_wf d None" by (rule definition_from_mapping_wf)+
  from ok show "1 \<le> pd_revision d"
    by (cases d) (auto simp: definition_ok_def definition_init_def definition_revision_of_def Let_def
        split: if_splits sum.splits option.splits)
qed

lemma load_stored:
  assumes "definition_ok d" and "definition_wf d None"
  shows "repository_load path (Some (PDict (definition_as_mapping d))) = Inr (sort_tasks d)"
proof -
  have "or_empty_dict (PDict (definition_as_mapping d)) = PDict (definition_as_mapping d)"
    by (simp add: or_empty_dict_def definition_as_mapping_def)
  then show ?thesis by (simp add: repository_load_def definition_mapping_round_trip [OF assms])
qed

lemma repository_save_Inr:
  assumes "repository_save path d expected file = Inr (saved, file')" and "definition_ok d"
  obtains current where "repository_load path file = Inr current"
    and "pd_revision current = expected" and "pd_project d = pd_project current"
    and "saved = d\<lparr>pd_revision := expected + 1\<rparr>"
    and "file' = Some (PDict (definition_as_mapping saved))"
    and "repository_load path file' = Inr (sort_tasks saved)"
proof -
  from assms(1) obtain current where c: "repository_load path file = Inr current"
    and r: "pd_revision current = expected" and p: "pd_project d = pd_project current"
    and v: "validate_definition d None = Inr ()"
    and s: "replace_definition (d\<lparr>pd_revision := pd_revision current + 1\<rparr>) = Inr saved"
    and f: "file' = Some (PDict (definition_as_mapping saved))"
    by (auto simp: repository_save_def split: if_splits)
  have ok: "definition_ok (d\<lparr>pd_revision := pd_revision current + 1\<rparr>)"
    using definition_ok_revision [OF assms(2)] repository_load_facts(3) [OF c] by simp
  with s have saved: "saved = d\<lparr>pd_revision := expected + 1\<rparr>"
    by (simp add: replace_definition_ok r)
  have "definition_wf d None"
    using v validate_definition_decides definition_ok_unique_ids [OF assms(2)] by blast
  then have "repository_load path file' = Inr (sort_tasks saved)"
    unfolding f using load_stored ok by (simp add: saved r)
  with c r p saved f show ?thesis by (intro that)
qed

section \<open>Revisioned repositories\<close>

text \<open>
  The contract of an optimistically concurrent repository, as its clients use it: a save
  succeeds only against the revision it expects, and is what the next reader sees.
\<close>

locale revisioned_store =
  fixes current :: "'s \<Rightarrow> int option"
    and content :: "'s \<Rightarrow> 'd option"
    and save :: "'d \<Rightarrow> int \<Rightarrow> 's \<Rightarrow> 's option"
    and stored :: "'d \<Rightarrow> int \<Rightarrow> 'd"
  assumes save_expected: "save d r s = Some s' \<Longrightarrow> current s = Some r"
    and save_current: "save d r s = Some s' \<Longrightarrow> current s' = Some (r + 1)"
    and save_content: "save d r s = Some s' \<Longrightarrow> content s' = Some (stored d (r + 1))"
begin

text \<open>A writer is a document and the revision it was derived from.\<close>

fun run_writers :: "('d \<times> int) list \<Rightarrow> 's \<Rightarrow> 's \<times> ('d \<times> int) list" where
  "run_writers [] s = (s, [])"
| "run_writers ((d, r) # ws) s = (case save d r s of
      None \<Rightarrow> run_writers ws s
    | Some s' \<Rightarrow> (case run_writers ws s' of (s'', acc) \<Rightarrow> (s'', (d, r) # acc)))"

lemma stale_save: "save d r s = Some s' \<Longrightarrow> r' \<le> r \<Longrightarrow> save d' r' s' = None"
proof (rule ccontr)
  assume s: "save d r s = Some s'" and le: "r' \<le> r" and "save d' r' s' \<noteq> None"
  then obtain s'' where "save d' r' s' = Some s''" by blast
  from save_expected [OF this] save_current [OF s] le show False by simp
qed

lemma accepted_revisions:
  assumes "run_writers ws s = (s', acc)" and "current s = Some n"
  shows "map snd acc = map (\<lambda>i. n + int i) [0..<length acc]"
    and "current s' = Some (n + int (length acc))"
proof -
  have "map snd acc = map (\<lambda>i. n + int i) [0..<length acc] \<and> current s' = Some (n + int (length acc))"
    using assms
  proof (induction ws s arbitrary: s' acc n rule: run_writers.induct)
    case (2 d r ws s)
    show ?case
    proof (cases "save d r s")
      case None
      then show ?thesis using 2 by simp
    next
      case (Some s1)
      then obtain acc1 where acc: "acc = (d, r) # acc1" and run: "run_writers ws s1 = (s', acc1)"
        using 2(3) by (auto split: prod.splits)
      have r: "r = n" using save_expected [OF Some] 2(4) by simp
      from "2.IH"(2) [OF Some run save_current [OF Some]]
      show ?thesis by (simp add: acc r upt_conv_Cons map_Suc_upt [symmetric] comp_def del: upt_Suc)
    qed
  qed simp
  then show "map snd acc = map (\<lambda>i. n + int i) [0..<length acc]"
    and "current s' = Some (n + int (length acc))" by simp_all
qed

lemma one_winner:
  assumes "run_writers ws s = (s', acc)" and "current s = Some n"
  shows "distinct (map snd acc)"
  by (simp add: accepted_revisions(1) [OF assms] distinct_map inj_on_def)

lemma last_winner_content:
  assumes "run_writers ws s = (s', acc)" and "acc \<noteq> []"
  shows "content s' = Some (stored (fst (last acc)) (snd (last acc) + 1))"
  using assms
proof (induction ws s arbitrary: s' acc rule: run_writers.induct)
  case (2 d r ws s)
  show ?case
  proof (cases "save d r s")
    case (Some s1)
    then obtain acc1 where acc: "acc = (d, r) # acc1" and run: "run_writers ws s1 = (s', acc1)"
      using 2(3) by (auto split: prod.splits)
    show ?thesis
    proof (cases "acc1 = []")
      case True
      have "content s' = content s1" using run True
        by (induction ws s1 rule: run_writers.induct) (auto split: option.splits prod.splits)
      then show ?thesis using save_content [OF Some] acc True by simp
    next
      case False
      then show ?thesis using "2.IH"(2) [OF Some run] acc by simp
    qed
  qed (use 2 in simp)
qed simp

end

definition store_revision :: "string \<Rightarrow> pyval option \<Rightarrow> int option" where
  "store_revision path file = (case repository_load path file of Inl e \<Rightarrow> None | Inr d \<Rightarrow> Some (pd_revision d))"

definition store_content :: "string \<Rightarrow> pyval option \<Rightarrow> execution_definition option" where
  "store_content path file = (case repository_load path file of Inl e \<Rightarrow> None | Inr d \<Rightarrow> Some d)"

definition store_save ::
    "string \<Rightarrow> execution_definition \<Rightarrow> int \<Rightarrow> pyval option \<Rightarrow> pyval option option" where
  "store_save path d r file = (if definition_ok d then (case repository_save path d r file of
      Inl e \<Rightarrow> None | Inr (saved, file') \<Rightarrow> Some file') else None)"

interpretation definitions: revisioned_store "store_revision path" "store_content path"
  "store_save path" "\<lambda>d r. sort_tasks (d\<lparr>pd_revision := r\<rparr>)" for path
proof
  fix d r s s'
  assume "store_save path d r s = Some s'"
  then obtain saved where ok: "definition_ok d" and s: "repository_save path d r s = Inr (saved, s')"
    by (auto simp: store_save_def split: if_splits sum.splits)
  obtain current where "repository_load path s = Inr current" "pd_revision current = r"
    "saved = d\<lparr>pd_revision := r + 1\<rparr>" "repository_load path s' = Inr (sort_tasks saved)"
    by (rule repository_save_Inr [OF s ok])
  then show "store_revision path s = Some r" and "store_revision path s' = Some (r + 1)"
    and "store_content path s' = Some (sort_tasks (d\<lparr>pd_revision := r + 1\<rparr>))"
    by (simp_all add: store_revision_def store_content_def)
qed

end
