(* ===== verification/Exec_Runtime.thy ===== *)
theory Exec_Runtime
  imports Exec_Validation
begin

text \<open>
  The boundary to Task execution (\<open>project_execution/task_port.py\<close>), the durable runtime
  state with its JSON repository (\<open>runtime_repository.py\<close>), and the event journal
  (\<open>events.py\<close>). What the port observes of the Tasks at one instant is a \<open>task_view\<close>; an
  implementation of the port maps its own world to views and changes that world on \<open>start\<close>.
  The repository's file is its parsed content, or \<open>None\<close> where it does not exist.
\<close>

section \<open>The Task port\<close>

datatype task_outcome =
    Outcome_NOT_STARTED | Outcome_RUNNING | Outcome_COMPLETED | Outcome_FAILED
  | Outcome_CANCELLED | Outcome_UNKNOWN

fun outcome_value :: "task_outcome \<Rightarrow> string" where
  "outcome_value Outcome_NOT_STARTED = ''not_started''"
| "outcome_value Outcome_RUNNING = ''running''"
| "outcome_value Outcome_COMPLETED = ''completed''"
| "outcome_value Outcome_FAILED = ''failed''"
| "outcome_value Outcome_CANCELLED = ''cancelled''"
| "outcome_value Outcome_UNKNOWN = ''unknown''"

definition all_outcomes :: "task_outcome list" where
  "all_outcomes = [Outcome_NOT_STARTED, Outcome_RUNNING, Outcome_COMPLETED, Outcome_FAILED,
     Outcome_CANCELLED, Outcome_UNKNOWN]"

definition outcome_of_value :: "string \<Rightarrow> task_outcome option" where
  "outcome_of_value s = List.find (\<lambda>oc. outcome_value oc = s) all_outcomes"

record verification_summary =
  vs_outcome :: string
  vs_passed :: int
  vs_failed :: int
  vs_total :: int

record task_summary =
  ts_task_id :: string
  ts_exists :: bool
  ts_active :: bool
  ts_executable :: bool
  ts_execution_state :: string
  ts_outcome :: task_outcome
  ts_title :: string

record task_evidence =
  te_task_id :: string
  te_outcome :: task_outcome
  te_task_digest :: string
  te_plan_digest :: string
  te_verification :: verification_summary
  te_repository_revisions :: "string pydict"
  te_artifacts :: "string list"
  te_details :: row

record start_result =
  sr_accepted :: bool
  sr_already_started :: bool
  sr_message :: string

record task_view =
  tv_describe :: "string \<Rightarrow> task_summary"
  tv_outcome :: "string \<Rightarrow> task_outcome"
  tv_evidence :: "string \<Rightarrow> task_evidence"

text \<open>\<open>start\<close> returns a result or raises (the message of the exception).\<close>

record 'w task_port =
  port_view :: "'w \<Rightarrow> task_view"
  port_start :: "'w \<Rightarrow> string \<Rightarrow> (string + start_result) \<times> 'w"

lemma outcome_value_inj [simp]: "outcome_value a = outcome_value b \<longleftrightarrow> a = b"
  by (cases a; cases b) simp_all

lemma outcome_of_value_value [simp]: "outcome_of_value (outcome_value oc) = Some oc"
  by (cases oc) (simp_all add: outcome_of_value_def all_outcomes_def)

text \<open>
  The contract of the reading half of the port: one Task state is behind all three
  observations. Project Execution relies on it where it compares an outcome with evidence.
\<close>

locale task_reader =
  fixes view :: task_view
  assumes describe_outcome: "ts_outcome (tv_describe view t) = tv_outcome view t"
    and evidence_outcome: "te_outcome (tv_evidence view t) = tv_outcome view t"
    and evidence_task: "te_task_id (tv_evidence view t) = t"
    and active_exists: "ts_active (tv_describe view t) \<Longrightarrow> ts_exists (tv_describe view t)"
    and executable_exists: "ts_executable (tv_describe view t) \<Longrightarrow> ts_exists (tv_describe view t)"

section \<open>Runtime state\<close>

record runtime_state =
  rt_project_id :: string
  rt_definition_revision :: int
  rt_definition_digest :: string
  rt_mode :: string
  rt_held :: bool
  rt_hold_reason :: string
  rt_gates :: "row pydict"
  rt_milestone_achievements :: "row pydict"
  rt_cancelled_phases :: "string list"
  rt_cancelled_gates :: "string list"
  rt_cancelled_milestones :: "string list"
  rt_observed_tasks :: "row pydict"
  rt_intents :: "row pydict"
  rt_executor :: row
  rt_schema_version :: int

definition initial_runtime :: "string \<Rightarrow> runtime_state" where
  "initial_runtime project_id =
     \<lparr>rt_project_id = project_id, rt_definition_revision = 0, rt_definition_digest = [],
      rt_mode = mode_value Mode_ASSISTED, rt_held = False, rt_hold_reason = [], rt_gates = [],
      rt_milestone_achievements = [], rt_cancelled_phases = [], rt_cancelled_gates = [],
      rt_cancelled_milestones = [], rt_observed_tasks = [], rt_intents = [], rt_executor = [],
      rt_schema_version = 1\<rparr>"

definition rows :: "row pydict \<Rightarrow> pyval" where
  "rows d = PDict (map (\<lambda>(k, r). (k, PDict r)) d)"

definition mapping_dict :: "pyval \<Rightarrow> row pydict" where
  "mapping_dict raw = (case as_dict raw of
      None \<Rightarrow> []
    | Some d \<Rightarrow> List.map_filter (\<lambda>(k, v). map_option (\<lambda>r. (k, r)) (as_dict v)) d)"

definition string_list :: "pyval \<Rightarrow> string list" where
  "string_list raw = (case raw of PList xs \<Rightarrow> map py_str xs | _ \<Rightarrow> [])"

definition runtime_as_mapping :: "runtime_state \<Rightarrow> row" where
  "runtime_as_mapping rt =
     [(''schema_version'', PInt (rt_schema_version rt)),
      (''project_id'', PStr (rt_project_id rt)),
      (''definition_revision'', PInt (rt_definition_revision rt)),
      (''definition_digest'', PStr (rt_definition_digest rt)),
      (''mode'', PStr (rt_mode rt)),
      (''held'', PBool (rt_held rt)),
      (''hold_reason'', PStr (rt_hold_reason rt)),
      (''gates'', rows (rt_gates rt)),
      (''milestone_achievements'', rows (rt_milestone_achievements rt)),
      (''cancelled_phases'', strs (rt_cancelled_phases rt)),
      (''cancelled_gates'', strs (rt_cancelled_gates rt)),
      (''cancelled_milestones'', strs (rt_cancelled_milestones rt)),
      (''observed_tasks'', rows (rt_observed_tasks rt)),
      (''intents'', rows (rt_intents rt)),
      (''executor'', PDict (rt_executor rt))]"

definition runtime_from_mapping :: "pyval \<Rightarrow> runtime_state res" where
  "runtime_from_mapping raw =
     (case as_dict raw of
        None \<Rightarrow> Inl (ProjectExecutionError ''project runtime state must be a mapping'')
      | Some d \<Rightarrow>
          rbind (py_int (row_get d ''schema_version'' (PInt 0))) (\<lambda>schema.
          if schema \<noteq> 1
          then Inl (ProjectExecutionError (''unsupported project runtime schema_version: ''
                 @ py_repr (row_get d ''schema_version'' PNone)))
          else (case as_dict (or_empty_dict (row_get d ''executor'' PNone)) of
              None \<Rightarrow> Inl (ProjectExecutionError ''project runtime executor must be a mapping'')
            | Some executor \<Rightarrow>
                rbind (py_int (row_get d ''definition_revision'' (PInt 0))) (\<lambda>revision.
                Inr \<lparr>rt_project_id = row_get_str d ''project_id'' [],
                     rt_definition_revision = revision,
                     rt_definition_digest = row_get_str d ''definition_digest'' [],
                     rt_mode = row_get_str d ''mode'' (mode_value Mode_ASSISTED),
                     rt_held = py_truthy (row_get d ''held'' (PBool False)),
                     rt_hold_reason = row_get_str d ''hold_reason'' [],
                     rt_gates = mapping_dict (row_get d ''gates'' PNone),
                     rt_milestone_achievements =
                       mapping_dict (row_get d ''milestone_achievements'' PNone),
                     rt_cancelled_phases = string_list (row_get d ''cancelled_phases'' PNone),
                     rt_cancelled_gates = string_list (row_get d ''cancelled_gates'' PNone),
                     rt_cancelled_milestones =
                       string_list (row_get d ''cancelled_milestones'' PNone),
                     rt_observed_tasks = mapping_dict (row_get d ''observed_tasks'' PNone),
                     rt_intents = mapping_dict (row_get d ''intents'' PNone),
                     rt_executor = executor,
                     rt_schema_version = 1\<rparr>))))"

text \<open>
  \<open>ProjectRuntimeRepository\<close>: \<open>dir\<close> is the name of its directory, \<open>file\<close> the content of
  \<open>state.json\<close>. Conversion errors of the reader are wrapped, its own errors are not.
\<close>

definition py_error_text :: "py_error \<Rightarrow> string" where
  "py_error_text e = (case e of
      ProjectExecutionError m \<Rightarrow> m | ProjectExecutionNotFoundError m \<Rightarrow> m
    | ProjectExecutionConflictError m \<Rightarrow> m | KeyError m \<Rightarrow> py_repr_str m
    | ValueError m \<Rightarrow> m | TypeError m \<Rightarrow> m | AdapterError m \<Rightarrow> m)"

definition runtime_load :: "string \<Rightarrow> pyval option \<Rightarrow> runtime_state res" where
  "runtime_load dir file = (case file of
      None \<Rightarrow> Inr (initial_runtime dir)
    | Some raw \<Rightarrow> (case runtime_from_mapping raw of
          Inl (ValueError m) \<Rightarrow> Inl (ProjectExecutionError
            (''cannot read Project Execution runtime state: '' @ m))
        | Inl (TypeError m) \<Rightarrow> Inl (ProjectExecutionError
            (''cannot read Project Execution runtime state: '' @ m))
        | Inl e \<Rightarrow> Inl e
        | Inr rt \<Rightarrow>
            if rt_project_id rt \<noteq> dir
            then Inl (ProjectExecutionError
              (''Project Execution runtime project identity does not match storage path''))
            else Inr rt))"

definition runtime_save :: "string \<Rightarrow> runtime_state \<Rightarrow> pyval res" where
  "runtime_save dir rt =
     (if rt_project_id rt \<noteq> dir
      then Inl (ProjectExecutionError ''Project Execution runtime project identity cannot change'')
      else Inr (PDict (runtime_as_mapping rt)))"

lemma mapping_dict_rows [simp]: "mapping_dict (rows d) = d"
  by (induction d) (auto simp: mapping_dict_def rows_def List.map_filter_def)

lemma string_list_strs [simp]: "string_list (strs xs) = xs"
  by (simp add: string_list_def strs_def comp_def)

lemma runtime_mapping_round_trip:
  "rt_schema_version rt = 1 \<Longrightarrow> runtime_from_mapping (PDict (runtime_as_mapping rt)) = Inr rt"
  by (simp add: runtime_from_mapping_def runtime_as_mapping_def)

lemma runtime_load_save:
  assumes "rt_schema_version rt = 1" and "runtime_save dir rt = Inr doc"
  shows "runtime_load dir (Some doc) = Inr rt"
  using assms by (auto simp: runtime_save_def runtime_load_def runtime_mapping_round_trip
      split: if_splits)

lemma runtime_from_mapping_schema:
  "runtime_from_mapping raw = Inr rt \<Longrightarrow> rt_schema_version rt = 1"
  by (auto simp: runtime_from_mapping_def split: option.splits if_splits)

lemma runtime_load_facts:
  assumes "runtime_load dir file = Inr rt"
  shows "rt_schema_version rt = 1" and "rt_project_id rt = dir"
  using assms
  by (auto simp: runtime_load_def initial_runtime_def runtime_from_mapping_schema
      split: option.splits sum.splits py_error.splits if_splits)

section \<open>The event journal\<close>

type_synonym event = "string \<times> row"

definition project_event_types :: "string list" where
  "project_event_types =
    [''project_execution_started'', ''project_execution_paused'', ''project_task_ready'',
     ''project_task_start_requested'', ''project_task_started'', ''project_task_completed'',
     ''project_task_failed'', ''project_gate_ready'', ''project_gate_evaluation_started'',
     ''project_gate_passed'', ''project_gate_failed'', ''project_gate_decision_required'',
     ''project_gate_approved'', ''project_gate_rejected'', ''project_gate_waived'',
     ''project_phase_ready'', ''project_phase_activated'', ''project_phase_completed'',
     ''project_milestone_achieved'', ''project_definition_changed'',
     ''project_execution_reconciled'', ''project_automatic_cycle_started'',
     ''project_automatic_cycle_completed'', ''project_automatic_task_start_failed'',
     ''project_delivery_candidate_created'', ''project_delivery_started'',
     ''project_delivery_succeeded'', ''project_delivery_failed'', ''project_delivery_uncertain'']"

definition journal_append :: "string \<Rightarrow> row list \<Rightarrow> event \<Rightarrow> row list res" where
  "journal_append now journal e =
     (if fst e \<notin> set project_event_types
      then Inl (ProjectExecutionError (''unsupported project event type: '' @ fst e))
      else Inr (journal @ [foldl (\<lambda>r (k, v). dset k v r)
                  [(''type'', PStr (fst e)), (''timestamp'', PStr now)] (snd e)]))"

end
