(* ===== verification/Exec_Eligibility.thy ===== *)
theory Exec_Eligibility
  imports Exec_Runtime
begin

text \<open>
  \<open>project_execution/eligibility.py\<close>: whether a Gate currently authorizes work, and the
  structured diagnosis of whether a Task may start. Every reason is produced with its
  message; a Task is eligible exactly when there is none.
\<close>

datatype eligibility_reason_kind =
    TASK_MISSING | TASK_ARCHIVED | TASK_NOT_EXECUTABLE | PHASE_ENTRY_GATE_UNSATISFIED
  | PREDECESSOR_UNSATISFIED | GATE_UNSATISFIED | TASK_ALREADY_RUNNING | TASK_TERMINAL
  | PROJECT_HELD | PHASE_CANCELLED | TASK_FAILURE_POLICY

fun reason_kind_value :: "eligibility_reason_kind \<Rightarrow> string" where
  "reason_kind_value TASK_MISSING = ''task_missing''"
| "reason_kind_value TASK_ARCHIVED = ''task_archived''"
| "reason_kind_value TASK_NOT_EXECUTABLE = ''task_not_executable''"
| "reason_kind_value PHASE_ENTRY_GATE_UNSATISFIED = ''phase_entry_gate_unsatisfied''"
| "reason_kind_value PREDECESSOR_UNSATISFIED = ''predecessor_unsatisfied''"
| "reason_kind_value GATE_UNSATISFIED = ''gate_unsatisfied''"
| "reason_kind_value TASK_ALREADY_RUNNING = ''task_already_running''"
| "reason_kind_value TASK_TERMINAL = ''task_terminal''"
| "reason_kind_value PROJECT_HELD = ''project_held''"
| "reason_kind_value PHASE_CANCELLED = ''phase_cancelled''"
| "reason_kind_value TASK_FAILURE_POLICY = ''task_failure_policy''"

record eligibility_reason =
  er_kind :: eligibility_reason_kind
  er_message :: string
  er_task_id :: string
  er_gate_id :: string
  er_phase_id :: string

definition plain_reason :: "eligibility_reason_kind \<Rightarrow> string \<Rightarrow> eligibility_reason" where
  "plain_reason k m = \<lparr>er_kind = k, er_message = m, er_task_id = [], er_gate_id = [], er_phase_id = []\<rparr>"

definition reason_as_mapping :: "eligibility_reason \<Rightarrow> row" where
  "reason_as_mapping r = str_fields
     [(''kind'', reason_kind_value (er_kind r)), (''message'', er_message r),
      (''task_id'', er_task_id r), (''gate_id'', er_gate_id r), (''phase_id'', er_phase_id r)]"

record eligibility_result =
  el_eligible :: bool
  el_reasons :: "eligibility_reason list"

definition eligibility_as_mapping :: "eligibility_result \<Rightarrow> row" where
  "eligibility_as_mapping r =
     [(''eligible'', PBool (el_eligible r)),
      (''reasons'', PList (map (\<lambda>x. PDict (reason_as_mapping x)) (el_reasons r)))]"

section \<open>Gates that authorize\<close>

definition bound_to :: "pyval \<Rightarrow> string \<Rightarrow> bool" where
  "bound_to v fingerprint = (case as_dict (or_empty_dict v) of
      None \<Rightarrow> False
    | Some d \<Rightarrow> row_get d ''input_fingerprint'' PNone = PStr fingerprint)"

definition gate_row_satisfied :: "row \<Rightarrow> bool" where
  "gate_row_satisfied r =
     (let state = row_get_str r ''state'' [];
          current_fingerprint = row_get_str r ''input_fingerprint'' []
      in if current_fingerprint = [] then False
         else if state = gate_state_value Gate_WAIVED
         then bound_to (row_get r ''waiver'' PNone) current_fingerprint
         else as_dict (or_empty_dict (row_get r ''evaluation'' PNone)) \<noteq> None
              \<and> state = gate_state_value Gate_PASSED
              \<and> bound_to (row_get r ''evaluation'' PNone) current_fingerprint)"

definition gate_satisfied :: "runtime_state \<Rightarrow> string \<Rightarrow> bool" where
  "gate_satisfied rt gate_id = gate_row_satisfied (dget (rt_gates rt) gate_id [])"

section \<open>Task eligibility\<close>

definition required_task_failed :: "execution_definition \<Rightarrow> task_view \<Rightarrow> bool" where
  "required_task_failed d view =
     list_ex (\<lambda>t. pt_required t \<and> tv_outcome view (pt_task_id t) = Outcome_FAILED) (pd_tasks d)"

definition availability_reasons :: "string \<Rightarrow> task_summary \<Rightarrow> eligibility_reason list" where
  "availability_reasons task_id summary =
     (if \<not> ts_exists summary
      then [(plain_reason TASK_MISSING (''canonical Task '' @ task_id @ '' does not exist''))
              \<lparr>er_task_id := task_id\<rparr>]
      else if \<not> ts_active summary
      then [(plain_reason TASK_ARCHIVED (''Task '' @ task_id @ '' is archived or inactive''))
              \<lparr>er_task_id := task_id\<rparr>]
      else [])
     @ (if ts_exists summary \<and> \<not> ts_executable summary
        then [(plain_reason TASK_NOT_EXECUTABLE
                (''Task '' @ task_id @ '' has no executable PLAN.graph.yaml''))
                \<lparr>er_task_id := task_id\<rparr>]
        else [])"

definition outcome_reasons :: "string \<Rightarrow> task_outcome \<Rightarrow> eligibility_reason list" where
  "outcome_reasons task_id oc =
     (if oc = Outcome_RUNNING
      then [(plain_reason TASK_ALREADY_RUNNING (''Task '' @ task_id @ '' is already running''))
              \<lparr>er_task_id := task_id\<rparr>]
      else if oc \<in> {Outcome_COMPLETED, Outcome_FAILED, Outcome_CANCELLED}
      then [(plain_reason TASK_TERMINAL
              (''Task '' @ task_id @ '' is terminal ('' @ outcome_value oc @ '')''))
              \<lparr>er_task_id := task_id\<rparr>]
      else [])"

definition evaluate_task_eligibility ::
    "string \<Rightarrow> execution_definition \<Rightarrow> runtime_state \<Rightarrow> task_view \<Rightarrow> eligibility_result res" where
  "evaluate_task_eligibility task_id d rt view =
     (case map_of (task_index d) task_id of
        None \<Rightarrow> Inl (ProjectExecutionError
          (''Task '' @ py_repr_str task_id @ '' is not referenced by Project Execution''))
      | Some task \<Rightarrow>
          (let summary = tv_describe view task_id in
          (case map_of (phase_index d) (pt_phase task) of
             None \<Rightarrow> Inl (KeyError (pt_phase task))
           | Some phase \<Rightarrow>
               (let reasons =
                   availability_reasons task_id summary
                   @ (if rt_held rt
                      then [plain_reason PROJECT_HELD
                             (if rt_hold_reason rt \<noteq> [] then rt_hold_reason rt
                              else ''Project Execution is held'')]
                      else [])
                   @ (if pt_phase task \<in> set (rt_cancelled_phases rt)
                      then [(plain_reason PHASE_CANCELLED (''Phase '' @ pt_phase task @ '' is cancelled''))
                              \<lparr>er_phase_id := pt_phase task\<rparr>]
                      else [])
                   @ map (\<lambda>g. (plain_reason PHASE_ENTRY_GATE_UNSATISFIED
                              (''Phase entry Gate '' @ g @ '' is not satisfied''))
                              \<lparr>er_gate_id := g, er_phase_id := ph_id phase\<rparr>)
                       (filter (\<lambda>g. \<not> gate_satisfied rt g) (ph_entry_gates phase))
                   @ map (\<lambda>p. (plain_reason PREDECESSOR_UNSATISFIED
                              (''predecessor Task '' @ p @ '' has not completed''))
                              \<lparr>er_task_id := p\<rparr>)
                       (filter (\<lambda>p. tv_outcome view p \<noteq> Outcome_COMPLETED)
                         (treq_tasks (pt_requires task)))
                   @ map (\<lambda>g. (plain_reason GATE_UNSATISFIED
                              (''required Gate '' @ g @ '' is not satisfied''))
                              \<lparr>er_gate_id := g\<rparr>)
                       (filter (\<lambda>g. \<not> gate_satisfied rt g) (treq_gates (pt_requires task)))
                   @ outcome_reasons task_id (ts_outcome summary)
                   @ (if failure_behavior (pd_policy d) \<noteq> Failure_CONTINUE
                         \<and> required_task_failed d view
                      then [plain_reason TASK_FAILURE_POLICY
                             (''a required Task failed and Project Execution is configured to ''
                              @ failure_value (failure_behavior (pd_policy d)))]
                      else [])
                in Inr \<lparr>el_eligible = (reasons = []), el_reasons = reasons\<rparr>))))"

section \<open>What eligibility means\<close>

text \<open>The declarative condition under which a Task may start.\<close>

definition may_start ::
    "execution_definition \<Rightarrow> runtime_state \<Rightarrow> task_view \<Rightarrow> project_task \<Rightarrow> project_phase \<Rightarrow> bool" where
  "may_start d rt view task phase \<longleftrightarrow>
     (let summary = tv_describe view (pt_task_id task) in
        ts_exists summary \<and> ts_active summary \<and> ts_executable summary
        \<and> ts_outcome summary \<in> {Outcome_NOT_STARTED, Outcome_UNKNOWN})
     \<and> \<not> rt_held rt \<and> pt_phase task \<notin> set (rt_cancelled_phases rt)
     \<and> (\<forall>g \<in> set (ph_entry_gates phase) \<union> set (treq_gates (pt_requires task)). gate_satisfied rt g)
     \<and> (\<forall>p \<in> set (treq_tasks (pt_requires task)). tv_outcome view p = Outcome_COMPLETED)
     \<and> (failure_behavior (pd_policy d) = Failure_CONTINUE \<or> \<not> required_task_failed d view)"

lemma availability_reasons_Nil:
  "availability_reasons t s = [] \<longleftrightarrow> ts_exists s \<and> ts_active s \<and> ts_executable s"
  by (auto simp: availability_reasons_def)

lemma outcome_reasons_Nil:
  "outcome_reasons t oc = [] \<longleftrightarrow> oc \<in> {Outcome_NOT_STARTED, Outcome_UNKNOWN}"
  by (cases oc) (auto simp: outcome_reasons_def)

lemma eligibility_eligible_iff_no_reason:
  "evaluate_task_eligibility t d rt view = Inr r \<Longrightarrow> el_eligible r \<longleftrightarrow> el_reasons r = []"
  by (auto simp: evaluate_task_eligibility_def Let_def split: option.splits)

lemma eligibility_total:
  assumes "unique_ids d" and "definition_wf d e" and "task \<in> set (pd_tasks d)"
  obtains r phase where "evaluate_task_eligibility (pt_task_id task) d rt view = Inr r"
    and "map_of (task_index d) (pt_task_id task) = Some task"
    and "map_of (phase_index d) (pt_phase task) = Some phase"
proof -
  have t: "map_of (task_index d) (pt_task_id task) = Some task"
    using assms(3) by (simp add: task_index_Some [OF assms(1)])
  have "pt_phase task \<in> set (phase_ids d)"
    using assms(2,3) by (auto simp: definition_wf_def task_wf_def)
  then obtain phase where p: "map_of (phase_index d) (pt_phase task) = Some phase"
    using index_None(3) [of d "pt_phase task"] by fastforce
  show ?thesis
    by (rule that [OF _ t p]) (simp add: evaluate_task_eligibility_def t p Let_def)
qed

lemma eligible_iff_may_start:
  assumes "map_of (task_index d) t = Some task" and "map_of (phase_index d) (pt_phase task) = Some phase"
    and "pt_task_id task = t" and "evaluate_task_eligibility t d rt view = Inr r"
  shows "el_eligible r \<longleftrightarrow> may_start d rt view task phase"
  using assms
  by (auto simp: evaluate_task_eligibility_def may_start_def Let_def availability_reasons_Nil
      outcome_reasons_Nil filter_empty_conv)

lemma gate_row_satisfied_iff:
  "gate_row_satisfied r \<longleftrightarrow>
     (let fp = row_get_str r ''input_fingerprint'' [] in fp \<noteq> [] \<and>
       (row_get_str r ''state'' [] = ''waived'' \<and> bound_to (row_get r ''waiver'' PNone) fp
        \<or> row_get_str r ''state'' [] = ''passed'' \<and> bound_to (row_get r ''evaluation'' PNone) fp))"
  by (auto simp: gate_row_satisfied_def Let_def bound_to_def split: option.splits)

lemma gate_satisfied_unknown [simp]: "map_of (rt_gates rt) g = None \<Longrightarrow> \<not> gate_satisfied rt g"
  by (simp add: gate_satisfied_def dget_def gate_row_satisfied_iff)

end
