(* ===== verification/Exec_Gates.thy ===== *)
theory Exec_Gates
  imports Exec_Eligibility
begin

text \<open>
  \<open>project_execution/gates/\<close>: the typed criterion evaluators, the ALL-composite Gate
  evaluation with its evidence fingerprint, and the evidence-bound human decisions and
  waivers. \<open>sha\<close> is the hash of the UTF-8 encoding of a text (\<open>hashlib.sha256\<close>, not under
  src/); \<open>now\<close> is the clock reading of the call. Functions return the new runtime state and
  the events they append to the journal, in order.
\<close>

record criterion_result =
  cr_satisfied :: bool
  cr_evidence :: row
  cr_reason :: string
  cr_awaiting_decision :: bool

definition canonical_fingerprint :: "(string \<Rightarrow> string) \<Rightarrow> pyval \<Rightarrow> string" where
  "canonical_fingerprint sha v = ''sha256:'' @ sha (json_dumps v)"

section \<open>Criterion evaluators\<close>

definition task_completion_evaluate :: "gate_criterion \<Rightarrow> task_view \<Rightarrow> criterion_result" where
  "task_completion_evaluate c view =
     (let oc = tv_outcome view (gc_task_id c); satisfied = (oc = Outcome_COMPLETED)
      in \<lparr>cr_satisfied = satisfied,
          cr_evidence = [(''task_id'', PStr (gc_task_id c)), (''outcome'', PStr (outcome_value oc))],
          cr_reason = (if satisfied then []
                       else ''Task '' @ gc_task_id c @ '' outcome is '' @ outcome_value oc),
          cr_awaiting_decision = False\<rparr>)"

definition task_verification_evaluate :: "gate_criterion \<Rightarrow> task_view \<Rightarrow> criterion_result" where
  "task_verification_evaluate c view =
     (let v = te_verification (tv_evidence view (gc_task_id c));
          expected = (if gc_outcome c \<noteq> [] then gc_outcome c else ''passed'');
          satisfied = (vs_outcome v = expected)
      in \<lparr>cr_satisfied = satisfied,
          cr_evidence =
            [(''task_id'', PStr (gc_task_id c)),
             (''verification'', PDict
               [(''outcome'', PStr (vs_outcome v)), (''passed'', PInt (vs_passed v)),
                (''failed'', PInt (vs_failed v)), (''total'', PInt (vs_total v))])],
          cr_reason = (if satisfied then []
                       else ''Task '' @ gc_task_id c @ '' verification is '' @ vs_outcome v
                            @ '', expected '' @ expected),
          cr_awaiting_decision = False\<rparr>)"

definition task_artifact_evaluate :: "gate_criterion \<Rightarrow> task_view \<Rightarrow> criterion_result" where
  "task_artifact_evaluate c view =
     (let artifacts = te_artifacts (tv_evidence view (gc_task_id c));
          present = (gc_artifact_id c \<in> set artifacts)
      in \<lparr>cr_satisfied = present,
          cr_evidence = [(''task_id'', PStr (gc_task_id c)),
                         (''artifact_id'', PStr (gc_artifact_id c)),
                         (''artifacts'', strs artifacts)],
          cr_reason = (if present then []
                       else ''Task '' @ gc_task_id c @ '' has not produced artifact ''
                            @ gc_artifact_id c),
          cr_awaiting_decision = False\<rparr>)"

definition gate_reference_satisfied :: "row \<Rightarrow> string \<Rightarrow> string \<Rightarrow> bool" where
  "gate_reference_satisfied r state current =
     (if current = [] then False
      else if state = gate_state_value Gate_WAIVED then bound_to (row_get r ''waiver'' PNone) current
      else if state \<noteq> gate_state_value Gate_PASSED then False
      else bound_to (row_get r ''evaluation'' PNone) current)"

definition gate_reference_evaluate :: "gate_criterion \<Rightarrow> runtime_state \<Rightarrow> criterion_result" where
  "gate_reference_evaluate c rt =
     (let r = dget (rt_gates rt) (gc_gate_id c) [];
          state = row_get_str r ''state'' (gate_state_value Gate_WAITING);
          current = row_get_str r ''input_fingerprint'' [];
          satisfied = gate_reference_satisfied r state current
      in \<lparr>cr_satisfied = satisfied,
          cr_evidence = [(''gate_id'', PStr (gc_gate_id c)), (''state'', PStr state),
                         (''evaluation_revision'', row_get r ''evaluation_revision'' (PInt 0)),
                         (''input_fingerprint'', PStr current)],
          cr_reason = (if satisfied then []
                       else ''Gate '' @ gc_gate_id c @ '' is not currently satisfied''),
          cr_awaiting_decision = False\<rparr>)"

text \<open>Iterating \<open>row.get("decisions", [])\<close>: text and dictionaries yield no mapping, scalars raise.\<close>

definition decision_rows :: "pyval \<Rightarrow> row list res" where
  "decision_rows v = (case v of
      PList xs \<Rightarrow> Inr (List.map_filter as_dict xs)
    | PStr s \<Rightarrow> Inr []
    | PDict d \<Rightarrow> Inr []
    | _ \<Rightarrow> Inl (TypeError ''object is not iterable''))"

definition human_approval_evaluate :: "runtime_state \<Rightarrow> string \<Rightarrow> string \<Rightarrow> criterion_result res" where
  "human_approval_evaluate rt gate_id fingerprint =
     (let r = dget (rt_gates rt) gate_id [] in
      rbind (decision_rows (row_get r ''decisions'' (PList []))) (\<lambda>decisions.
      (let matching = filter (\<lambda>dec. row_get dec ''input_fingerprint'' PNone = PStr fingerprint) decisions;
           latest = (if matching = [] then [] else last matching);
           decision = row_get_str latest ''decision'' [];
           evidence = [(''decision'', PStr (if decision \<noteq> [] then decision else ''pending'')),
                       (''actor'', row_get latest ''actor'' (PStr [])),
                       (''input_fingerprint'', PStr fingerprint)]
       in Inr (if decision = ''approved''
               then \<lparr>cr_satisfied = True, cr_evidence = evidence, cr_reason = [],
                     cr_awaiting_decision = False\<rparr>
               else if decision = ''rejected''
               then \<lparr>cr_satisfied = False, cr_evidence = evidence,
                     cr_reason = ''human approval rejected'', cr_awaiting_decision = False\<rparr>
               else \<lparr>cr_satisfied = False, cr_evidence = evidence,
                     cr_reason = ''human approval required'', cr_awaiting_decision = True\<rparr>))))"

definition evaluate_criterion ::
    "gate_criterion \<Rightarrow> runtime_state \<Rightarrow> task_view \<Rightarrow> string \<Rightarrow> string \<Rightarrow> criterion_result res" where
  "evaluate_criterion c rt view gate_id fingerprint =
     (if gc_type c = ''task_completion'' then Inr (task_completion_evaluate c view)
      else if gc_type c = ''task_verification'' then Inr (task_verification_evaluate c view)
      else if gc_type c = ''task_artifact'' then Inr (task_artifact_evaluate c view)
      else if gc_type c = ''project_gate'' then Inr (gate_reference_evaluate c rt)
      else if gc_type c = ''human_approval'' then human_approval_evaluate rt gate_id fingerprint
      else Inl (ProjectExecutionError (''no evaluator registered for '' @ gc_type c)))"

section \<open>Gate evaluation\<close>

definition is_human :: "gate_criterion \<Rightarrow> bool" where
  "is_human c = (gc_type c = ''human_approval'')"

definition automatic_criteria :: "project_gate \<Rightarrow> gate_criterion list" where
  "automatic_criteria g = filter (\<lambda>c. \<not> is_human c) (pg_criteria g)"

definition evidence_row :: "gate_criterion \<Rightarrow> criterion_result \<Rightarrow> pyval" where
  "evidence_row c r = PDict [(''criterion'', PDict (criterion_as_mapping c)),
                             (''evidence'', PDict (cr_evidence r))]"

definition fingerprint_input :: "project_gate \<Rightarrow> criterion_result list \<Rightarrow> pyval" where
  "fingerprint_input g results = PDict
     [(''gate_id'', PStr (pg_id g)),
      (''criteria'', PList (map (\<lambda>c. PDict (criterion_as_mapping c)) (pg_criteria g))),
      (''automatic_evidence'',
        PList (map (\<lambda>(c, r). evidence_row c r) (zip (automatic_criteria g) results)))]"

definition automatic_evidence ::
    "(string \<Rightarrow> string) \<Rightarrow> project_gate \<Rightarrow> runtime_state \<Rightarrow> task_view
       \<Rightarrow> (criterion_result list \<times> string) res" where
  "automatic_evidence sha g rt view =
     rbind (mapr (\<lambda>c. evaluate_criterion c rt view (pg_id g) []) (automatic_criteria g)) (\<lambda>results.
     Inr (results, canonical_fingerprint sha (fingerprint_input g results)))"

definition evidence_list :: "criterion_result list \<Rightarrow> pyval" where
  "evidence_list results = PList (map (\<lambda>r. PDict (cr_evidence r)) results)"

definition evaluation_unchanged ::
    "row \<Rightarrow> gate_state \<Rightarrow> string \<Rightarrow> criterion_result list \<Rightarrow> string list \<Rightarrow> bool" where
  "evaluation_unchanged r state fingerprint results reasons =
     (let previous = (case as_dict (or_empty_dict (row_get r ''evaluation'' PNone)) of
                        None \<Rightarrow> [] | Some d \<Rightarrow> d)
      in row_get r ''state'' PNone = PStr (gate_state_value state)
         \<and> row_get previous ''input_fingerprint'' PNone = PStr fingerprint
         \<and> py_eq (evidence_list results) (row_get previous ''evidence'' PNone)
         \<and> py_eq (strs reasons) (row_get previous ''reasons'' PNone))"

definition store_evaluation ::
    "string \<Rightarrow> row \<Rightarrow> gate_state \<Rightarrow> string \<Rightarrow> criterion_result list \<Rightarrow> string list
       \<Rightarrow> (row \<times> bool) res" where
  "store_evaluation now r state fingerprint results reasons =
     (if evaluation_unchanged r state fingerprint results reasons then Inr (r, False)
      else rbind (py_int (row_get r ''evaluation_revision'' (PInt 0))) (\<lambda>rev0.
        (let revision = rev0 + 1
         in Inr (dset ''evaluation'' (PDict
                   [(''revision'', PInt revision),
                    (''outcome'', PStr (gate_state_value state)),
                    (''evaluated_at'', PStr now),
                    (''input_fingerprint'', PStr fingerprint),
                    (''evidence'', evidence_list results),
                    (''reasons'', strs reasons)])
                 (dset ''state'' (PStr (gate_state_value state))
                 (dset ''evaluation_revision'' (PInt revision) r)), True))))"

definition set_gate_row :: "string \<Rightarrow> row \<Rightarrow> runtime_state \<Rightarrow> runtime_state" where
  "set_gate_row gate_id r rt = rt\<lparr>rt_gates := dset gate_id r (rt_gates rt)\<rparr>"

definition initial_gate_row :: row where
  "initial_gate_row =
     [(''state'', PStr (gate_state_value Gate_WAITING)), (''evaluation_revision'', PInt 0),
      (''decisions'', PList [])]"

definition gate_event :: "string \<Rightarrow> project_gate \<Rightarrow> string \<Rightarrow> row \<Rightarrow> event" where
  "gate_event ty g fingerprint extra =
     (ty, [(''gate_id'', PStr (pg_id g)), (''input_fingerprint'', PStr fingerprint)] @ extra)"

definition revision_field :: "row \<Rightarrow> row" where
  "revision_field r = [(''evaluation_revision'', row_get r ''evaluation_revision'' PNone)]"

text \<open>The three ends of an evaluation that was neither cancelled nor waived.\<close>

definition failing_evaluation ::
    "string \<Rightarrow> project_gate \<Rightarrow> row \<Rightarrow> string \<Rightarrow> criterion_result list \<Rightarrow> (row \<times> event list) res" where
  "failing_evaluation now g r fingerprint results =
     (let reasons = map cr_reason
            (filter (\<lambda>x. \<not> cr_satisfied x \<and> cr_reason x \<noteq> []) results)
      in rbind (store_evaluation now r Gate_FAILED fingerprint results reasons) (\<lambda>(r', changed).
         Inr (r', if changed
                  then [gate_event ''project_gate_failed'' g fingerprint [(''reasons'', strs reasons)]]
                  else [])))"

definition passing_evaluation ::
    "string \<Rightarrow> project_gate \<Rightarrow> row \<Rightarrow> string \<Rightarrow> criterion_result list \<Rightarrow> (row \<times> event list) res" where
  "passing_evaluation now g r fingerprint results =
     rbind (store_evaluation now r Gate_PASSED fingerprint results []) (\<lambda>(r', changed).
     Inr (r', if changed
              then [gate_event ''project_gate_passed'' g fingerprint (revision_field r')]
              else []))"

definition human_state :: "criterion_result \<Rightarrow> gate_state \<times> string" where
  "human_state h =
     (if cr_awaiting_decision h then (Gate_AWAITING_DECISION, ''project_gate_decision_required'')
      else if cr_satisfied h then (Gate_PASSED, ''project_gate_passed'')
      else (Gate_FAILED, ''project_gate_failed''))"

definition human_evaluation ::
    "string \<Rightarrow> project_gate \<Rightarrow> runtime_state \<Rightarrow> row \<Rightarrow> string \<Rightarrow> criterion_result list
       \<Rightarrow> (row \<times> event list) res" where
  "human_evaluation now g rt r fingerprint automatic_results =
     rbind (human_approval_evaluate rt (pg_id g) fingerprint) (\<lambda>h.
     (let (state, event_type) = human_state h;
          results = automatic_results @ [h];
          reasons = (if cr_reason h \<noteq> [] then [cr_reason h] else [])
      in rbind (store_evaluation now r state fingerprint results reasons) (\<lambda>(r', changed).
         Inr (r', if changed
                  then [gate_event event_type g fingerprint
                          ((if reasons \<noteq> [] then [(''reasons'', strs reasons)] else [])
                           @ (if state = Gate_PASSED then revision_field r' else []))]
                  else []))))"

definition gate_evaluate ::
    "(string \<Rightarrow> string) \<Rightarrow> string \<Rightarrow> project_gate \<Rightarrow> runtime_state \<Rightarrow> task_view
       \<Rightarrow> (runtime_state \<times> event list) res" where
  "gate_evaluate sha now g rt0 view =
     (let gid = pg_id g;
          r0 = dget (rt_gates rt0) gid initial_gate_row;
          rt = set_gate_row gid r0 rt0
      in if gid \<in> set (rt_cancelled_gates rt)
         then Inr (set_gate_row gid (dset ''state'' (PStr (gate_state_value Gate_CANCELLED)) r0) rt, [])
         else rbind (automatic_evidence sha g rt view) (\<lambda>(results, fingerprint).
           (let r = dset ''input_fingerprint'' (PStr fingerprint) r0;
                rt1 = set_gate_row gid r rt
            in if bound_to (row_get r ''waiver'' PNone) fingerprint
               then Inr (set_gate_row gid (dset ''state'' (PStr (gate_state_value Gate_WAIVED)) r) rt1, [])
               else rbind (if list_ex (\<lambda>x. \<not> cr_satisfied x) results
                           then failing_evaluation now g r fingerprint results
                           else if \<not> list_ex is_human (pg_criteria g)
                           then passing_evaluation now g r fingerprint results
                           else human_evaluation now g rt1 r fingerprint results)
                      (\<lambda>(r', events). Inr (set_gate_row gid r' rt1, events)))))"

section \<open>Human decisions and waivers\<close>

definition gate_decide ::
    "string \<Rightarrow> string \<Rightarrow> runtime_state \<Rightarrow> string \<Rightarrow> string \<Rightarrow> string
       \<Rightarrow> (runtime_state \<times> row \<times> event list) res" where
  "gate_decide now gate_id rt actor decision reason =
     (let r = dget (rt_gates rt) gate_id [] in
      if r = []
      then Inl (ProjectExecutionError (''Gate '' @ py_repr_str gate_id @ '' has not been evaluated''))
      else if row_get r ''state'' PNone \<noteq> PStr (gate_state_value Gate_AWAITING_DECISION)
      then Inl (ProjectExecutionError
             (''Gate '' @ py_repr_str gate_id @ '' is not awaiting a human decision''))
      else if row_get_str r ''input_fingerprint'' [] = []
      then Inl (ProjectExecutionError
             (''Gate '' @ py_repr_str gate_id @ '' has no current evidence fingerprint''))
      else
        (let normalized = py_lower (py_strip decision) in
         if normalized \<notin> {''approved'', ''rejected''}
         then Inl (ProjectExecutionError ''Gate decision must be approved or rejected'')
         else if py_strip actor = []
         then Inl (ProjectExecutionError ''Gate decision actor cannot be empty'')
         else
           (let record =
                  [(''actor'', PStr (py_strip actor)), (''decision'', PStr normalized),
                   (''reason'', PStr (py_strip reason)), (''timestamp'', PStr now),
                   (''input_fingerprint'', PStr (row_get_str r ''input_fingerprint'' []))]
            in case row_get r ''decisions'' (PList []) of
                 PList decisions \<Rightarrow>
                   Inr (set_gate_row gate_id
                          (dset ''decisions'' (PList (decisions @ [PDict record])) r) rt,
                        record,
                        [(if normalized = ''approved'' then ''project_gate_approved''
                          else ''project_gate_rejected'',
                          (''gate_id'', PStr gate_id) # record)])
               | _ \<Rightarrow> Inl (ProjectExecutionError ''Gate decision history is invalid''))))"

definition gate_waive ::
    "string \<Rightarrow> string \<Rightarrow> runtime_state \<Rightarrow> string \<Rightarrow> string
       \<Rightarrow> (runtime_state \<times> row \<times> event list) res" where
  "gate_waive now gate_id rt actor reason =
     (let r = dget (rt_gates rt) gate_id [] in
      if r = [] \<or> \<not> py_truthy (row_get r ''input_fingerprint'' PNone)
      then Inl (ProjectExecutionError
             (''Gate '' @ py_repr_str gate_id @ '' must be evaluated before waiver''))
      else if gate_id \<in> set (rt_cancelled_gates rt)
      then Inl (ProjectExecutionError (''Gate '' @ py_repr_str gate_id @ '' is cancelled''))
      else if py_strip actor = [] \<or> py_strip reason = []
      then Inl (ProjectExecutionError ''Gate waiver requires actor and reason'')
      else
        (let waiver =
               [(''actor'', PStr (py_strip actor)), (''reason'', PStr (py_strip reason)),
                (''timestamp'', PStr now),
                (''input_fingerprint'', PStr (py_str (row_get r ''input_fingerprint'' PNone)))]
         in Inr (set_gate_row gate_id
                   (dset ''state'' (PStr (gate_state_value Gate_WAIVED))
                   (dset ''waiver'' (PDict waiver) r)) rt,
                 waiver,
                 [(''project_gate_waived'', (''gate_id'', PStr gate_id) # waiver)])))"


section \<open>The contract of an evaluator\<close>

text \<open>
  What the composite relies on: an evaluator names a reason exactly when its criterion is not
  satisfied, and only a human criterion waits.
\<close>

locale criterion_evaluator =
  fixes run :: "'c \<Rightarrow> criterion_result"
  assumes reason_iff: "cr_reason (run c) = [] \<longleftrightarrow> cr_satisfied (run c)"
    and never_waits: "\<not> cr_awaiting_decision (run c)"
begin

lemma failing_reasons:
  "(\<exists>c \<in> set cs. \<not> cr_satisfied (run c))
     \<Longrightarrow> map cr_reason (filter (\<lambda>x. \<not> cr_satisfied x \<and> cr_reason x \<noteq> []) (map run cs)) \<noteq> []"
  by (auto simp: reason_iff filter_empty_conv)

lemma one_reason_each:
  "length (filter (\<lambda>x. \<not> cr_satisfied x \<and> cr_reason x \<noteq> []) (map run cs))
     = length (filter (\<lambda>c. \<not> cr_satisfied (run c)) cs)"
  by (induction cs) (auto simp: reason_iff)

end

interpretation completion: criterion_evaluator "\<lambda>(c, v). task_completion_evaluate c v"
  by unfold_locales (auto simp: task_completion_evaluate_def Let_def split: if_splits)

interpretation verification: criterion_evaluator "\<lambda>(c, v). task_verification_evaluate c v"
  by unfold_locales (auto simp: task_verification_evaluate_def Let_def split: if_splits)

interpretation artifact: criterion_evaluator "\<lambda>(c, v). task_artifact_evaluate c v"
  by unfold_locales (auto simp: task_artifact_evaluate_def Let_def split: if_splits)

interpretation reference: criterion_evaluator "\<lambda>(c, rt). gate_reference_evaluate c rt"
  by unfold_locales (auto simp: gate_reference_evaluate_def Let_def split: if_splits)

lemma evaluate_criterion_cases:
  assumes "evaluate_criterion c rt view gid fp = Inr r" and "\<not> is_human c"
  obtains "r = task_completion_evaluate c view" | "r = task_verification_evaluate c view"
    | "r = task_artifact_evaluate c view" | "r = gate_reference_evaluate c rt"
  using assms by (auto simp: evaluate_criterion_def is_human_def split: if_splits)

lemma automatic_result_reason:
  assumes "evaluate_criterion c rt view gid fp = Inr r" and "\<not> is_human c"
  shows "cr_reason r = [] \<longleftrightarrow> cr_satisfied r"
  using assms
  by (rule evaluate_criterion_cases)
    (use completion.reason_iff [of "(c, view)"] verification.reason_iff [of "(c, view)"]
      artifact.reason_iff [of "(c, view)"] reference.reason_iff [of "(c, rt)"] in simp_all)

lemma evaluate_criterion_fp:
  "\<not> is_human c \<Longrightarrow> evaluate_criterion c rt view gid fp = evaluate_criterion c rt view gid' fp'"
  by (simp add: evaluate_criterion_def is_human_def)

section \<open>Gate rows\<close>

lemma set_gate_row_simps [simp]:
  "rt_gates (set_gate_row g r rt) = dset g r (rt_gates rt)"
  "set_gate_row g r (set_gate_row g r' rt) = set_gate_row g r rt"
  "rt_cancelled_gates (set_gate_row g r rt) = rt_cancelled_gates rt"
  "rt_cancelled_phases (set_gate_row g r rt) = rt_cancelled_phases rt"
  "rt_cancelled_milestones (set_gate_row g r rt) = rt_cancelled_milestones rt"
  "rt_held (set_gate_row g r rt) = rt_held rt"
  "rt_hold_reason (set_gate_row g r rt) = rt_hold_reason rt"
  "rt_intents (set_gate_row g r rt) = rt_intents rt"
  "rt_mode (set_gate_row g r rt) = rt_mode rt"
  "rt_project_id (set_gate_row g r rt) = rt_project_id rt"
  "rt_schema_version (set_gate_row g r rt) = rt_schema_version rt"
  "rt_milestone_achievements (set_gate_row g r rt) = rt_milestone_achievements rt"
  "rt_observed_tasks (set_gate_row g r rt) = rt_observed_tasks rt"
  "rt_executor (set_gate_row g r rt) = rt_executor rt"
  by (simp_all add: set_gate_row_def)

lemma set_gate_row_same:
  "map_of (rt_gates rt) g = Some r \<Longrightarrow> set_gate_row g r rt = rt"
  by (simp add: set_gate_row_def dset_same)

lemma gate_satisfied_set_gate_row:
  "gate_satisfied (set_gate_row g r rt) h = (if h = g then gate_row_satisfied r else gate_satisfied rt h)"
  by (simp add: gate_satisfied_def)

text \<open>The row an evaluation starts from, and the state with it in place.\<close>

abbreviation opened_row :: "runtime_state \<Rightarrow> string \<Rightarrow> row" where
  "opened_row rt gid \<equiv> dget (rt_gates rt) gid initial_gate_row"

abbreviation opened :: "runtime_state \<Rightarrow> string \<Rightarrow> runtime_state" where
  "opened rt gid \<equiv> set_gate_row gid (opened_row rt gid) rt"

definition evaluation_row ::
    "(string \<Rightarrow> string) \<Rightarrow> string \<Rightarrow> project_gate \<Rightarrow> runtime_state \<Rightarrow> criterion_result list \<Rightarrow> string
       \<Rightarrow> (row \<times> event list) res" where
  "evaluation_row sha now g rt results fp =
     (let r = dset ''input_fingerprint'' (PStr fp) (opened_row rt (pg_id g)) in
      if bound_to (row_get r ''waiver'' PNone) fp
      then Inr (dset ''state'' (PStr (gate_state_value Gate_WAIVED)) r, [])
      else if list_ex (\<lambda>x. \<not> cr_satisfied x) results
      then failing_evaluation now g r fp results
      else if \<not> list_ex is_human (pg_criteria g)
      then passing_evaluation now g r fp results
      else human_evaluation now g (set_gate_row (pg_id g) r rt) r fp results)"

lemma gate_evaluate_open:
  assumes "pg_id g \<notin> set (rt_cancelled_gates rt)"
  shows "gate_evaluate sha now g rt view
    = rbind (automatic_evidence sha g (opened rt (pg_id g)) view) (\<lambda>(results, fp).
      rbind (evaluation_row sha now g rt results fp) (\<lambda>(r', events).
      Inr (set_gate_row (pg_id g) r' rt, events)))"
proof (cases "automatic_evidence sha g (opened rt (pg_id g)) view")
  case (Inr p)
  then show ?thesis
    using assms by (cases p) (simp add: gate_evaluate_def Let_def evaluation_row_def)
qed (use assms in \<open>simp add: gate_evaluate_def Let_def\<close>)

lemma gate_evaluate_Inr:
  assumes "gate_evaluate sha now g rt view = Inr (rt', events)"
    and "pg_id g \<notin> set (rt_cancelled_gates rt)"
  obtains results fp r' where "automatic_evidence sha g (opened rt (pg_id g)) view = Inr (results, fp)"
    and "evaluation_row sha now g rt results fp = Inr (r', events)"
    and "rt' = set_gate_row (pg_id g) r' rt"
  using assms(1) unfolding gate_evaluate_open [OF assms(2)] by auto

lemma gate_evaluate_cancelled:
  "pg_id g \<in> set (rt_cancelled_gates rt) \<Longrightarrow> gate_evaluate sha now g rt view
     = Inr (set_gate_row (pg_id g) (dset ''state'' (PStr ''cancelled'') (opened_row rt (pg_id g))) rt, [])"
  by (simp add: gate_evaluate_def Let_def)

lemma gate_evaluate_frame:
  assumes "gate_evaluate sha now g rt view = Inr (rt', events)"
  shows "\<exists>r'. rt' = set_gate_row (pg_id g) r' rt"
proof (cases "pg_id g \<in> set (rt_cancelled_gates rt)")
  case True
  then show ?thesis using assms by (auto simp: gate_evaluate_cancelled)
next
  case False
  then show ?thesis using gate_evaluate_Inr [OF assms] by metis
qed

lemma gate_evaluate_other:
  assumes "gate_evaluate sha now g rt view = Inr (rt', events)" and "h \<noteq> pg_id g"
  shows "gate_satisfied rt' h = gate_satisfied rt h"
  using gate_evaluate_frame [OF assms(1)] assms(2) by (auto simp: gate_satisfied_set_gate_row)

section \<open>What an evaluation means\<close>

lemma store_evaluation_row:
  assumes "store_evaluation now r state fp results reasons = Inr (r', changed)"
  shows "row_get r' ''state'' PNone = PStr (gate_state_value state)"
    and "bound_to (row_get r' ''evaluation'' PNone) fp"
    and "k \<notin> {''state'', ''evaluation'', ''evaluation_revision''} \<Longrightarrow> row_get r' k x = row_get r k x"
    and "\<not> changed \<Longrightarrow> r' = r"
    and "changed \<Longrightarrow> \<exists>n. py_int (row_get r ''evaluation_revision'' (PInt 0)) = Inr n
           \<and> row_get r' ''evaluation_revision'' PNone = PInt (n + 1)"
  using assms
  by (auto simp: store_evaluation_def evaluation_unchanged_def Let_def bound_to_def
      split: if_splits option.splits)

lemma row_get_state_str:
  "row_get r ''state'' PNone = PStr s \<Longrightarrow> row_get_str r ''state'' x = s"
  by (auto simp: row_get_str_def row_get_def dget_def split: option.splits)

lemma stored_row_satisfied:
  assumes "store_evaluation now r state fp results reasons = Inr (r', changed)"
    and "row_get r ''input_fingerprint'' PNone = PStr fp" and "fp \<noteq> []" and "state \<noteq> Gate_WAIVED"
  shows "gate_row_satisfied r' \<longleftrightarrow> state = Gate_PASSED"
proof -
  have "row_get_str r' ''state'' [] = gate_state_value state"
    using store_evaluation_row(1) [OF assms(1)] by (rule row_get_state_str)
  moreover have "row_get r' ''input_fingerprint'' (PStr []) = PStr fp"
    using store_evaluation_row(3) [OF assms(1), of "''input_fingerprint''"] assms(2)
    by (auto simp: row_get_def dget_def split: option.splits)
  ultimately show ?thesis
    using assms(3,4) store_evaluation_row(2) [OF assms(1)]
    by (cases state) (simp_all add: gate_row_satisfied_iff row_get_str_def Let_def)
qed

lemma human_never_both:
  "human_approval_evaluate rt gid fp = Inr h \<Longrightarrow> \<not> (cr_satisfied h \<and> cr_awaiting_decision h)"
  by (auto simp: human_approval_evaluate_def Let_def split: if_splits)

lemma human_state_passed:
  "human_approval_evaluate rt gid fp = Inr h \<Longrightarrow> fst (human_state h) = Gate_PASSED \<longleftrightarrow> cr_satisfied h"
  "fst (human_state h) \<noteq> Gate_WAIVED"
  using human_never_both by (auto simp: human_state_def)

lemma human_approval_set_row:
  "k \<noteq> ''decisions'' \<Longrightarrow> human_approval_evaluate (set_gate_row gid (dset k v (opened_row rt gid)) rt) gid fp
     = human_approval_evaluate (opened rt gid) gid fp"
  by (simp add: human_approval_evaluate_def)

definition human_satisfied :: "project_gate \<Rightarrow> runtime_state \<Rightarrow> string \<Rightarrow> bool" where
  "human_satisfied g rt fp \<longleftrightarrow> (list_ex is_human (pg_criteria g) \<longrightarrow>
     (\<exists>h. human_approval_evaluate rt (pg_id g) fp = Inr h \<and> cr_satisfied h))"

lemma evaluation_row_satisfied:
  assumes ev: "evaluation_row sha now g rt results fp = Inr (r', events)" and fp: "fp \<noteq> []"
  shows "gate_row_satisfied r' \<longleftrightarrow>
    bound_to (row_get (opened_row rt (pg_id g)) ''waiver'' PNone) fp
    \<or> (\<forall>x \<in> set results. cr_satisfied x) \<and> human_satisfied g (opened rt (pg_id g)) fp"
proof -
  let ?r = "dset ''input_fingerprint'' (PStr fp) (opened_row rt (pg_id g))"
  have fpr: "row_get ?r ''input_fingerprint'' PNone = PStr fp" by simp
  note st = stored_row_satisfied [OF _ fpr fp]
  note human = human_approval_set_row [of "''input_fingerprint''", simplified]
  consider (w) "bound_to (row_get ?r ''waiver'' PNone) fp"
    | (f) "\<not> bound_to (row_get ?r ''waiver'' PNone) fp" "list_ex (\<lambda>x. \<not> cr_satisfied x) results"
    | (p) "\<not> bound_to (row_get ?r ''waiver'' PNone) fp" "\<not> list_ex (\<lambda>x. \<not> cr_satisfied x) results"
        "\<not> list_ex is_human (pg_criteria g)"
    | (h) "\<not> bound_to (row_get ?r ''waiver'' PNone) fp" "\<not> list_ex (\<lambda>x. \<not> cr_satisfied x) results"
        "list_ex is_human (pg_criteria g)"
    by blast
  then show ?thesis
  proof cases
    case w
    then show ?thesis using ev fp by (auto simp: evaluation_row_def Let_def gate_row_satisfied_iff)
  next
    case f
    then show ?thesis using ev st [of now Gate_FAILED results]
      by (auto simp: evaluation_row_def Let_def failing_evaluation_def list_ex_iff)
  next
    case p
    then show ?thesis using ev st [of now Gate_PASSED results]
      by (auto simp: evaluation_row_def Let_def passing_evaluation_def list_ex_iff human_satisfied_def)
  next
    case h
    with ev obtain a changed where a: "human_approval_evaluate (opened rt (pg_id g)) (pg_id g) fp = Inr a"
      and s: "store_evaluation now ?r (fst (human_state a)) fp (results @ [a])
          (if cr_reason a \<noteq> [] then [cr_reason a] else []) = Inr (r', changed)"
      by (auto simp: evaluation_row_def Let_def human_evaluation_def human split: prod.splits)
    show ?thesis
      using st [OF s human_state_passed(2)] human_state_passed(1) [OF a] a h
      by (auto simp: human_satisfied_def list_ex_iff)
  qed
qed

lemma canonical_fingerprint_nonempty [simp]: "canonical_fingerprint sha v \<noteq> []"
  by (simp add: canonical_fingerprint_def)

lemma automatic_evidence_results:
  assumes "automatic_evidence sha g rt view = Inr (results, fp)"
  shows "fp \<noteq> []"
    and "(\<forall>x \<in> set results. cr_satisfied x) \<longleftrightarrow>
      (\<forall>c \<in> set (automatic_criteria g). \<exists>x. evaluate_criterion c rt view (pg_id g) fp = Inr x \<and> cr_satisfied x)"
proof -
  have l: "list_all2 (\<lambda>c x. evaluate_criterion c rt view (pg_id g) [] = Inr x) (automatic_criteria g) results"
    and n: "fp \<noteq> []"
    using assms by (auto simp: automatic_evidence_def mapr_Inr_iff)
  show "fp \<noteq> []" by (rule n)
  have e: "evaluate_criterion c rt view (pg_id g) fp = evaluate_criterion c rt view (pg_id g) []"
    if "c \<in> set (automatic_criteria g)" for c
    using that evaluate_criterion_fp by (auto simp: automatic_criteria_def)
  show "(\<forall>x \<in> set results. cr_satisfied x) \<longleftrightarrow>
      (\<forall>c \<in> set (automatic_criteria g). \<exists>x. evaluate_criterion c rt view (pg_id g) fp = Inr x \<and> cr_satisfied x)"
    using l by (simp add: e list_all2_conv_all_nth all_set_conv_all_nth)
qed

section \<open>When a criterion holds\<close>

text \<open>
  The declarative reading of the criteria, by the fields of the rows alone: a value names
  evidence when it is a mapping with that fingerprint; the approval that counts is the last
  decision that names the evidence; a Gate stands when its waiver or its passing evaluation
  names the row's own fingerprint.
\<close>

definition names_evidence :: "pyval \<Rightarrow> string \<Rightarrow> bool" where
  "names_evidence v fp \<longleftrightarrow> (\<exists>d. v = PDict d \<and> row_get d ''input_fingerprint'' PNone = PStr fp)"

lemma bound_to_names: "bound_to v fp \<longleftrightarrow> names_evidence v fp"
  by (cases v) (auto simp: bound_to_def names_evidence_def or_empty_dict_def split: option.splits)

definition approved_on :: "row \<Rightarrow> string \<Rightarrow> bool" where
  "approved_on r fp \<longleftrightarrow> (\<exists>before d after.
     row_get r ''decisions'' (PList []) = PList (before @ PDict d # after)
     \<and> names_evidence (PDict d) fp \<and> (\<forall>v \<in> set after. \<not> names_evidence v fp)
     \<and> row_get_str d ''decision'' [] = ''approved'')"

abbreviation made_on :: "string \<Rightarrow> row list \<Rightarrow> row list" where
  "made_on fp ds \<equiv> filter (\<lambda>d. row_get d ''input_fingerprint'' PNone = PStr fp) ds"

lemma map_filter_append [simp]: "List.map_filter f (xs @ ys) = List.map_filter f xs @ List.map_filter f ys"
  by (simp add: List.map_filter_def)

lemma latest_made_on:
  "(\<exists>before d after. xs = before @ PDict d # after \<and> names_evidence (PDict d) fp
      \<and> (\<forall>v \<in> set after. \<not> names_evidence v fp) \<and> P d)
   \<longleftrightarrow> made_on fp (List.map_filter as_dict xs) \<noteq> [] \<and> P (last (made_on fp (List.map_filter as_dict xs)))"
proof (induction xs rule: rev_induct)
  case Nil
  then show ?case by (simp add: List.map_filter_def)
next
  case (snoc x xs)
  let ?L = "\<lambda>xs. \<exists>before d after. xs = before @ PDict d # after \<and> names_evidence (PDict d) fp
      \<and> (\<forall>v \<in> set after. \<not> names_evidence v fp) \<and> P d"
  show ?case
  proof (cases "names_evidence x fp")
    case True
    then obtain d where x: "x = PDict d" "row_get d ''input_fingerprint'' PNone = PStr fp"
      unfolding names_evidence_def by blast
    have "?L (xs @ [x]) \<longleftrightarrow> P d"
    proof
      assume "?L (xs @ [x])"
      then obtain b d' a where h: "xs @ [x] = b @ PDict d' # a"
        "\<forall>v \<in> set a. \<not> names_evidence v fp" "P d'" by blast
      with True have "a = []" by (cases a rule: rev_cases) auto
      with h x(1) show "P d" by simp
    next
      assume "P d"
      with True x(1) show "?L (xs @ [x])" by (intro exI [of _ xs] exI [of _ d] exI [of _ "[]"]) simp
    qed
    then show ?thesis by (simp add: x List.map_filter_def)
  next
    case False
    have "?L (xs @ [x]) \<longleftrightarrow> ?L xs"
    proof
      assume "?L (xs @ [x])"
      then obtain b d a where h: "xs @ [x] = b @ PDict d # a" "names_evidence (PDict d) fp"
        "\<forall>v \<in> set a. \<not> names_evidence v fp" "P d" by blast
      with False have "a \<noteq> []" by auto
      then obtain a' where "a = a' @ [x]" "xs = b @ PDict d # a'"
        using h(1) by (cases a rule: rev_cases) auto
      with h show "?L xs" by auto
    next
      assume "?L xs"
      then show "?L (xs @ [x])" using False by fastforce
    qed
    moreover have "made_on fp (List.map_filter as_dict [x]) = []"
      using False by (cases x) (auto simp: List.map_filter_def names_evidence_def)
    ultimately show ?thesis using snoc.IH by simp
  qed
qed

lemma human_approval_iff:
  "(\<exists>h. human_approval_evaluate rt gid fp = Inr h \<and> cr_satisfied h)
     \<longleftrightarrow> approved_on (dget (rt_gates rt) gid []) fp"
proof -
  let ?v = "row_get (dget (rt_gates rt) gid []) ''decisions'' (PList [])"
  have e: "row_get_str [] ''decision'' [] = []" by (simp add: row_get_str_def row_get_def dget_def)
  show ?thesis
  proof (cases ?v)
    case (PList xs)
    then show ?thesis
      using latest_made_on [of xs fp "\<lambda>d. row_get_str d ''decision'' [] = ''approved''"]
      by (simp add: approved_on_def human_approval_evaluate_def decision_rows_def Let_def e)
  qed (simp_all add: approved_on_def human_approval_evaluate_def decision_rows_def Let_def e)
qed

definition row_stands :: "row \<Rightarrow> bool" where
  "row_stands r \<longleftrightarrow> (\<exists>fp. fp \<noteq> [] \<and> fp = row_get_str r ''input_fingerprint'' []
     \<and> (row_get_str r ''state'' [] = ''waived'' \<and> names_evidence (row_get r ''waiver'' PNone) fp
        \<or> row_get_str r ''state'' [] = ''passed'' \<and> names_evidence (row_get r ''evaluation'' PNone) fp))"

lemma gate_row_satisfied_stands: "gate_row_satisfied r \<longleftrightarrow> row_stands r"
  by (simp add: gate_row_satisfied_iff row_stands_def Let_def bound_to_names)

text \<open>What each criterion asks for.\<close>

definition criterion_holds :: "project_gate \<Rightarrow> runtime_state \<Rightarrow> task_view \<Rightarrow> string \<Rightarrow> gate_criterion \<Rightarrow> bool" where
  "criterion_holds g rt view fp c \<longleftrightarrow>
     gc_type c = ''task_completion'' \<and> tv_outcome view (gc_task_id c) = Outcome_COMPLETED
     \<or> gc_type c = ''task_verification''
       \<and> vs_outcome (te_verification (tv_evidence view (gc_task_id c)))
         = (if gc_outcome c = [] then ''passed'' else gc_outcome c)
     \<or> gc_type c = ''task_artifact''
       \<and> gc_artifact_id c \<in> set (te_artifacts (tv_evidence view (gc_task_id c)))
     \<or> gc_type c = ''project_gate'' \<and> row_stands (dget (rt_gates rt) (gc_gate_id c) [])
     \<or> gc_type c = ''human_approval'' \<and> approved_on (dget (rt_gates rt) (pg_id g) []) fp"

lemma reference_stands:
  "cr_satisfied (gate_reference_evaluate c rt) \<longleftrightarrow> row_stands (dget (rt_gates rt) (gc_gate_id c) [])"
proof -
  let ?r = "dget (rt_gates rt) (gc_gate_id c) []"
  have w: "row_get_str ?r ''state'' ''waiting'' = s \<longleftrightarrow> row_get_str ?r ''state'' [] = s"
    if "s \<noteq> []" "s \<noteq> ''waiting''" for s
    using that by (simp add: row_get_str_def row_get_def dget_def split: option.split)
  show ?thesis
    by (auto simp: gate_reference_evaluate_def gate_reference_satisfied_def Let_def row_stands_def bound_to_names w)
qed

lemma criterion_holds_iff:
  "criterion_holds g rt view fp c
     \<longleftrightarrow> (\<exists>x. evaluate_criterion c rt view (pg_id g) fp = Inr x \<and> cr_satisfied x)"
proof (cases "gc_type c = ''human_approval''")
  case True
  then show ?thesis by (simp add: criterion_holds_def evaluate_criterion_def human_approval_iff)
next
  case False
  then show ?thesis
    by (auto simp: criterion_holds_def evaluate_criterion_def reference_stands
        task_completion_evaluate_def task_verification_evaluate_def task_artifact_evaluate_def Let_def)
qed

definition all_criteria_hold :: "project_gate \<Rightarrow> runtime_state \<Rightarrow> task_view \<Rightarrow> string \<Rightarrow> bool" where
  "all_criteria_hold g rt view fp \<longleftrightarrow> (\<forall>c \<in> set (pg_criteria g). criterion_holds g rt view fp c)"

lemma evaluate_criterion_human:
  "is_human c \<Longrightarrow> evaluate_criterion c rt view gid fp = human_approval_evaluate rt gid fp"
  by (simp add: is_human_def evaluate_criterion_def)

lemma all_criteria_hold_split:
  "all_criteria_hold g rt view fp \<longleftrightarrow>
     (\<forall>c \<in> set (automatic_criteria g). \<exists>x. evaluate_criterion c rt view (pg_id g) fp = Inr x \<and> cr_satisfied x)
     \<and> human_satisfied g rt fp"
proof -
  let ?P = "\<lambda>c. \<exists>x. evaluate_criterion c rt view (pg_id g) fp = Inr x \<and> cr_satisfied x"
  let ?Q = "\<exists>x. human_approval_evaluate rt (pg_id g) fp = Inr x \<and> cr_satisfied x"
  have "(\<forall>c \<in> set (pg_criteria g). ?P c) \<longleftrightarrow>
      (\<forall>c \<in> set (automatic_criteria g). ?P c) \<and> (\<forall>c \<in> set (pg_criteria g). is_human c \<longrightarrow> ?P c)"
    unfolding automatic_criteria_def set_filter by blast
  moreover have "?P c = ?Q" if "is_human c" for c
    using that by (simp add: evaluate_criterion_human)
  then have "(\<forall>c \<in> set (pg_criteria g). is_human c \<longrightarrow> ?P c) \<longleftrightarrow> human_satisfied g rt fp"
    unfolding human_satisfied_def list_ex_iff by blast
  ultimately show ?thesis unfolding all_criteria_hold_def criterion_holds_iff by blast
qed

lemma gate_evaluate_satisfied:
  assumes "gate_evaluate sha now g rt view = Inr (rt', events)"
    and "pg_id g \<notin> set (rt_cancelled_gates rt)"
    and "automatic_evidence sha g (opened rt (pg_id g)) view = Inr (results, fp)"
  shows "gate_satisfied rt' (pg_id g) \<longleftrightarrow>
    names_evidence (row_get (opened_row rt (pg_id g)) ''waiver'' PNone) fp
    \<or> all_criteria_hold g (opened rt (pg_id g)) view fp"
proof -
  obtain r' where r': "evaluation_row sha now g rt results fp = Inr (r', events)"
    and rt': "rt' = set_gate_row (pg_id g) r' rt"
    using gate_evaluate_Inr [OF assms(1,2)] assms(3) by (metis Inr_inject prod.inject)
  show ?thesis
    using evaluation_row_satisfied [OF r' automatic_evidence_results(1) [OF assms(3)]]
    by (simp add: rt' gate_satisfied_set_gate_row all_criteria_hold_split bound_to_names
        automatic_evidence_results(2) [OF assms(3)])
qed

section \<open>Evaluating again\<close>

text \<open>Rows read from JSON have no repeated keys; every operation keeps it so.\<close>

definition gates_wf :: "runtime_state \<Rightarrow> bool" where
  "gates_wf rt \<longleftrightarrow> (\<forall>g r. map_of (rt_gates rt) g = Some r \<longrightarrow> row_wf r)"

lemma gates_wf_set_row: "gates_wf rt \<Longrightarrow> row_wf r \<Longrightarrow> gates_wf (set_gate_row g r rt)"
  unfolding gates_wf_def by simp

lemma opened_row_wf: "gates_wf rt \<Longrightarrow> row_wf (opened_row rt gid)"
  by (auto simp: gates_wf_def dget_def initial_gate_row_def split: option.splits)

lemma gates_wf_dget: "gates_wf rt \<Longrightarrow> row_wf (dget (rt_gates rt) gid [])"
  by (auto simp: gates_wf_def dget_def split: option.splits)

lemma py_wf_strs [simp]: "py_wf (strs xs)"
  by (simp add: strs_def list_all_iff)

lemma gate_reference_evidence_wf:
  "gates_wf rt \<Longrightarrow> row_wf (cr_evidence (gate_reference_evaluate c rt))"
  using row_wf_get [OF gates_wf_dget, of rt "PInt 0" "gc_gate_id c" "''evaluation_revision''"]
  by (simp add: gate_reference_evaluate_def Let_def)

lemma automatic_evidence_wf:
  assumes "evaluate_criterion c rt view gid fp = Inr r" and "\<not> is_human c" and "gates_wf rt"
  shows "row_wf (cr_evidence r)"
  using assms(1,2)
proof (cases rule: evaluate_criterion_cases)
  case 4
  then show ?thesis using gate_reference_evidence_wf [OF assms(3)] by simp
qed (simp_all add: task_completion_evaluate_def task_verification_evaluate_def
    task_artifact_evaluate_def Let_def)

lemma decision_rows_wf:
  assumes "decision_rows v = Inr ds" and "py_wf v" and "dec \<in> set ds"
  shows "row_wf dec"
proof (cases v)
  case (PList xs)
  with assms(1,3) have "PDict dec \<in> set xs"
    by (auto simp: decision_rows_def List.map_filter_def as_dict_Some_iff)
  with assms(2) PList show ?thesis by (simp only: py_wf.simps(1) list_all_iff)
qed (use assms in \<open>auto simp: decision_rows_def\<close>)

lemma human_evidence_wf:
  assumes "human_approval_evaluate rt gid fp = Inr h" and "gates_wf rt"
  shows "row_wf (cr_evidence h)"
proof -
  let ?v = "row_get (dget (rt_gates rt) gid []) ''decisions'' (PList [])"
  obtain ds where ds: "decision_rows ?v = Inr ds"
    using assms(1) by (auto simp: human_approval_evaluate_def Let_def)
  let ?m = "filter (\<lambda>dec. row_get dec ''input_fingerprint'' PNone = PStr fp) ds"
  have "py_wf ?v" using row_wf_get [OF gates_wf_dget [OF assms(2)]] by simp
  then have "row_wf (if ?m = [] then [] else last ?m)"
    using decision_rows_wf [OF ds] last_in_set [of ?m] by auto
  then have "py_wf (row_get (if ?m = [] then [] else last ?m) ''actor'' (PStr []))"
    using row_wf_get by simp
  then show ?thesis
    using assms(1) by (auto simp: human_approval_evaluate_def Let_def ds split: if_splits)
qed

lemma store_evaluation_again:
  assumes "store_evaluation now r state fp results reasons = Inr (r', changed)"
    and "\<And>x. x \<in> set results \<Longrightarrow> row_wf (cr_evidence x)"
  shows "store_evaluation now' r' state fp results reasons = Inr (r', False)"
proof -
  have "py_wf (evidence_list results)"
    using assms(2) by (simp add: evidence_list_def list_all_iff)
  then have "evaluation_unchanged r' state fp results reasons"
    using assms(1)
    by (auto simp: store_evaluation_def evaluation_unchanged_def Let_def split: if_splits)
  then show ?thesis by (simp add: store_evaluation_def)
qed

lemma store_evaluation_wf:
  assumes "store_evaluation now r state fp results reasons = Inr (r', changed)" and "row_wf r"
    and "\<And>x. x \<in> set results \<Longrightarrow> row_wf (cr_evidence x)"
  shows "row_wf r'"
proof -
  have "py_wf (evidence_list results)"
    using assms(3) by (simp add: evidence_list_def list_all_iff)
  then show ?thesis
    using assms(1,2) by (auto simp: store_evaluation_def Let_def simp del: py_wf.simps(2)
        intro!: row_wf_dset split: if_splits) (simp add: Let_def)+
qed

definition self_free :: "project_gate \<Rightarrow> bool" where
  "self_free g \<longleftrightarrow> (\<forall>c \<in> set (pg_criteria g). gc_type c = ''project_gate'' \<longrightarrow> gc_gate_id c \<noteq> pg_id g)"

lemma automatic_evidence_frame:
  assumes "self_free g"
  shows "automatic_evidence sha g (set_gate_row (pg_id g) r rt) view = automatic_evidence sha g rt view"
proof -
  have "evaluate_criterion c (set_gate_row (pg_id g) r rt) view (pg_id g) []
      = evaluate_criterion c rt view (pg_id g) []" if "c \<in> set (automatic_criteria g)" for c
    using that assms
    by (auto simp: evaluate_criterion_def gate_reference_evaluate_def automatic_criteria_def
        is_human_def self_free_def)
  then have "mapr (\<lambda>c. evaluate_criterion c (set_gate_row (pg_id g) r rt) view (pg_id g) [])
        (automatic_criteria g)
      = mapr (\<lambda>c. evaluate_criterion c rt view (pg_id g) []) (automatic_criteria g)"
    by (intro mapr_cong) simp_all
  then show ?thesis by (simp add: automatic_evidence_def)
qed

lemma automatic_results_wf:
  assumes "automatic_evidence sha g rt view = Inr (results, fp)" and "gates_wf rt" and "x \<in> set results"
  shows "row_wf (cr_evidence x)"
proof -
  have l: "list_all2 (\<lambda>c x. evaluate_criterion c rt view (pg_id g) [] = Inr x) (automatic_criteria g) results"
    using assms(1) by (auto simp: automatic_evidence_def mapr_Inr_iff)
  obtain i where i: "i < length results" "x = results ! i" using assms(3) by (auto simp: in_set_conv_nth)
  with l have "evaluate_criterion (automatic_criteria g ! i) rt view (pg_id g) [] = Inr x"
    and "automatic_criteria g ! i \<in> set (automatic_criteria g)"
    by (auto simp: list_all2_conv_all_nth)
  then show ?thesis
    by (intro automatic_evidence_wf [OF _ _ assms(2)]) (auto simp: automatic_criteria_def)
qed

lemma human_approval_decisions:
  "row_get r ''decisions'' (PList []) = row_get r0 ''decisions'' (PList [])
     \<Longrightarrow> human_approval_evaluate (set_gate_row gid r rt) gid fp
       = human_approval_evaluate (set_gate_row gid r0 rt) gid fp"
  by (simp add: human_approval_evaluate_def)

lemma dset_get_same:
  "row_get r k PNone = v \<Longrightarrow> v \<noteq> PNone \<Longrightarrow> dset k v r = r"
  by (auto simp: row_get_def dget_def split: option.splits intro: dset_same)

text \<open>
  The three stored ends share one shape: a verdict, computed from the results and the human
  criterion alone, that is then stored.
\<close>

definition verdict ::
    "project_gate \<Rightarrow> string \<Rightarrow> criterion_result res \<Rightarrow> criterion_result list
       \<Rightarrow> (gate_state \<times> criterion_result list \<times> string list \<times> (row \<Rightarrow> event)) res" where
  "verdict g fp human results =
     (if list_ex (\<lambda>x. \<not> cr_satisfied x) results
      then (let reasons = map cr_reason (filter (\<lambda>x. \<not> cr_satisfied x \<and> cr_reason x \<noteq> []) results)
            in Inr (Gate_FAILED, results, reasons,
                 \<lambda>_. gate_event ''project_gate_failed'' g fp [(''reasons'', strs reasons)]))
      else if \<not> list_ex is_human (pg_criteria g)
      then Inr (Gate_PASSED, results, [],
             \<lambda>r'. gate_event ''project_gate_passed'' g fp (revision_field r'))
      else rbind human (\<lambda>h.
        (let reasons = (if cr_reason h \<noteq> [] then [cr_reason h] else [])
         in Inr (fst (human_state h), results @ [h], reasons,
              \<lambda>r'. gate_event (snd (human_state h)) g fp
                ((if reasons \<noteq> [] then [(''reasons'', strs reasons)] else [])
                 @ (if fst (human_state h) = Gate_PASSED then revision_field r' else []))))))"

lemma evaluation_row_verdict:
  assumes "\<not> bound_to (row_get (opened_row rt (pg_id g)) ''waiver'' PNone) fp"
  shows "evaluation_row sha now g rt results fp =
    rbind (verdict g fp (human_approval_evaluate (opened rt (pg_id g)) (pg_id g) fp) results)
      (\<lambda>(state, results', reasons, event).
    rbind (store_evaluation now (dset ''input_fingerprint'' (PStr fp) (opened_row rt (pg_id g)))
             state fp results' reasons) (\<lambda>(r', changed).
    Inr (r', if changed then [event r'] else [])))"
proof -
  have h: "human_approval_evaluate (set_gate_row (pg_id g)
        (dset ''input_fingerprint'' (PStr fp) (opened_row rt (pg_id g))) rt) (pg_id g) fp
      = human_approval_evaluate (opened rt (pg_id g)) (pg_id g) fp"
    by (rule human_approval_decisions) simp
  show ?thesis
    using assms
    by (cases "human_approval_evaluate (opened rt (pg_id g)) (pg_id g) fp")
      (simp_all add: evaluation_row_def verdict_def failing_evaluation_def passing_evaluation_def
        human_evaluation_def h Let_def split_beta)
qed

lemma verdict_wf:
  assumes "verdict g fp human results = Inr (state, results', reasons, event)"
    and "\<And>x. x \<in> set results \<Longrightarrow> row_wf (cr_evidence x)"
    and "\<And>h. human = Inr h \<Longrightarrow> row_wf (cr_evidence h)"
  shows "x \<in> set results' \<Longrightarrow> row_wf (cr_evidence x)"
  using assms unfolding verdict_def Let_def
  by (auto simp del: py_wf.simps split: if_splits)

lemma evaluation_row_Inr:
  assumes "evaluation_row sha now g rt results fp = Inr (r', events)"
    and "\<not> bound_to (row_get (opened_row rt (pg_id g)) ''waiver'' PNone) fp"
  obtains state results' reasons event changed
  where "verdict g fp (human_approval_evaluate (opened rt (pg_id g)) (pg_id g) fp) results
      = Inr (state, results', reasons, event)"
    and "store_evaluation now (dset ''input_fingerprint'' (PStr fp) (opened_row rt (pg_id g)))
      state fp results' reasons = Inr (r', changed)"
    and "events = (if changed then [event r'] else [])"
  using assms(1) unfolding evaluation_row_verdict [OF assms(2)] by auto

lemma evaluation_row_waived:
  "bound_to (row_get (opened_row rt (pg_id g)) ''waiver'' PNone) fp \<Longrightarrow>
   evaluation_row sha now g rt results fp = Inr (dset ''state'' (PStr ''waived'')
     (dset ''input_fingerprint'' (PStr fp) (opened_row rt (pg_id g))), [])"
  by (simp add: evaluation_row_def)

lemma evaluation_row_keeps:
  assumes "evaluation_row sha now g rt results fp = Inr (r', events)"
  shows "k \<notin> {''state'', ''evaluation'', ''evaluation_revision'', ''input_fingerprint''}
      \<Longrightarrow> row_get r' k x = row_get (opened_row rt (pg_id g)) k x"
    and "row_get r' ''input_fingerprint'' PNone = PStr fp"
proof -
  have "(k \<notin> {''state'', ''evaluation'', ''evaluation_revision'', ''input_fingerprint''}
      \<longrightarrow> row_get r' k x = row_get (opened_row rt (pg_id g)) k x)
      \<and> row_get r' ''input_fingerprint'' PNone = PStr fp"
  proof (cases "bound_to (row_get (opened_row rt (pg_id g)) ''waiver'' PNone) fp")
    case True
    with assms show ?thesis by (auto simp: evaluation_row_waived)
  next
    case False
    show ?thesis
      by (rule evaluation_row_Inr [OF assms False]) (simp add: store_evaluation_row(3))
  qed
  then show "k \<notin> {''state'', ''evaluation'', ''evaluation_revision'', ''input_fingerprint''}
      \<Longrightarrow> row_get r' k x = row_get (opened_row rt (pg_id g)) k x"
    and "row_get r' ''input_fingerprint'' PNone = PStr fp" by simp_all
qed

lemma evaluation_row_again:
  assumes ev: "evaluation_row sha now g rt results fp = Inr (r', events)"
    and wf: "gates_wf rt" and res: "\<And>x. x \<in> set results \<Longrightarrow> row_wf (cr_evidence x)"
  shows "evaluation_row sha now' g (set_gate_row (pg_id g) r' rt) results fp = Inr (r', [])"
proof -
  note keep = evaluation_row_keeps [OF ev]
  let ?rt' = "set_gate_row (pg_id g) r' rt"
  have fp: "dset ''input_fingerprint'' (PStr fp) r' = r'"
    by (rule dset_get_same [OF keep(2)]) simp
  have w: "row_get (opened_row ?rt' (pg_id g)) ''waiver'' PNone
      = row_get (opened_row rt (pg_id g)) ''waiver'' PNone"
    using keep(1) [of "''waiver''"] by simp
  have h: "human_approval_evaluate (opened ?rt' (pg_id g)) (pg_id g) fp
      = human_approval_evaluate (opened rt (pg_id g)) (pg_id g) fp"
    using keep(1) [of "''decisions''"] by (simp add: human_approval_evaluate_def)
  show ?thesis
  proof (cases "bound_to (row_get (opened_row rt (pg_id g)) ''waiver'' PNone) fp")
    case True
    then have "row_get r' ''state'' PNone = PStr ''waived''"
      using ev by (auto simp: evaluation_row_waived)
    then have st: "dset ''state'' (PStr ''waived'') r' = r'" by (rule dset_get_same) simp
    show ?thesis
      by (subst evaluation_row_waived) (use True w in \<open>simp_all add: fp st\<close>)
  next
    case False
    obtain state results' reasons event changed
      where v: "verdict g fp (human_approval_evaluate (opened rt (pg_id g)) (pg_id g) fp) results
          = Inr (state, results', reasons, event)"
        and s: "store_evaluation now (dset ''input_fingerprint'' (PStr fp) (opened_row rt (pg_id g)))
          state fp results' reasons = Inr (r', changed)"
      by (rule evaluation_row_Inr [OF ev False])
    have "row_wf (cr_evidence x)" if "x \<in> set results'" for x
      using verdict_wf [OF v res _ that] human_evidence_wf
        gates_wf_set_row [OF wf opened_row_wf [OF wf]] by blast
    from store_evaluation_again [OF s this]
    have "store_evaluation now' r' state fp results' reasons = Inr (r', False)" by blast
    then show ?thesis
      using evaluation_row_verdict [of ?rt' g fp sha now' results] False w h v fp by simp
  qed
qed

lemma evaluation_row_wf:
  assumes ev: "evaluation_row sha now g rt results fp = Inr (r', events)"
    and wf: "gates_wf rt" and res: "\<And>x. x \<in> set results \<Longrightarrow> row_wf (cr_evidence x)"
  shows "row_wf r'"
proof (cases "bound_to (row_get (opened_row rt (pg_id g)) ''waiver'' PNone) fp")
  case True
  with ev have "r' = dset ''state'' (PStr ''waived'')
      (dset ''input_fingerprint'' (PStr fp) (opened_row rt (pg_id g)))"
    by (simp add: evaluation_row_waived)
  then show ?thesis
    by (simp only:) (intro row_wf_dset opened_row_wf [OF wf], simp_all)
next
  case False
  obtain state results' reasons event changed
    where v: "verdict g fp (human_approval_evaluate (opened rt (pg_id g)) (pg_id g) fp) results
        = Inr (state, results', reasons, event)"
      and s: "store_evaluation now (dset ''input_fingerprint'' (PStr fp) (opened_row rt (pg_id g)))
        state fp results' reasons = Inr (r', changed)"
    by (rule evaluation_row_Inr [OF ev False])
  have "row_wf (cr_evidence x)" if "x \<in> set results'" for x
    using verdict_wf [OF v res _ that] human_evidence_wf
      gates_wf_set_row [OF wf opened_row_wf [OF wf]] by blast
  then show ?thesis
    by (intro store_evaluation_wf [OF s row_wf_dset [OF opened_row_wf [OF wf]]]) simp_all
qed

lemma gate_evaluate_again:
  assumes ev: "gate_evaluate sha now g rt view = Inr (rt', events)"
    and wf: "gates_wf rt" and sf: "self_free g"
  shows "gate_evaluate sha now' g rt' view = Inr (rt', [])"
proof (cases "pg_id g \<in> set (rt_cancelled_gates rt)")
  case True
  with ev show ?thesis by (auto simp: gate_evaluate_cancelled)
next
  case False
  obtain results fp r' where a: "automatic_evidence sha g (opened rt (pg_id g)) view = Inr (results, fp)"
    and r: "evaluation_row sha now g rt results fp = Inr (r', events)"
    and rt': "rt' = set_gate_row (pg_id g) r' rt"
    by (rule gate_evaluate_Inr [OF ev False])
  have "row_wf (cr_evidence x)" if "x \<in> set results" for x
    by (rule automatic_results_wf [OF a gates_wf_set_row [OF wf opened_row_wf [OF wf]] that])
  from evaluation_row_again [OF r wf this]
  have again: "evaluation_row sha now' g rt' results fp = Inr (r', [])" unfolding rt' by blast
  have a': "automatic_evidence sha g rt' view = Inr (results, fp)"
    using a by (simp add: rt' automatic_evidence_frame [OF sf])
  have "opened rt' (pg_id g) = rt'" and "set_gate_row (pg_id g) r' rt' = rt'"
    and "pg_id g \<notin> set (rt_cancelled_gates rt')"
    using False by (simp_all add: rt')
  then show ?thesis by (simp add: gate_evaluate_open a' again)
qed

lemma gate_evaluate_wf:
  assumes ev: "gate_evaluate sha now g rt view = Inr (rt', events)" and wf: "gates_wf rt"
  shows "gates_wf rt'"
proof (cases "pg_id g \<in> set (rt_cancelled_gates rt)")
  case True
  then have "rt' = set_gate_row (pg_id g) (dset ''state'' (PStr ''cancelled'') (opened_row rt (pg_id g))) rt"
    using ev by (simp add: gate_evaluate_cancelled)
  then show ?thesis
    using gates_wf_set_row [OF wf row_wf_dset [OF opened_row_wf [OF wf]]] by simp
next
  case False
  obtain results fp r' where a: "automatic_evidence sha g (opened rt (pg_id g)) view = Inr (results, fp)"
    and r: "evaluation_row sha now g rt results fp = Inr (r', events)"
    and rt': "rt' = set_gate_row (pg_id g) r' rt"
    by (rule gate_evaluate_Inr [OF ev False])
  have "row_wf (cr_evidence x)" if "x \<in> set results" for x
    by (rule automatic_results_wf [OF a gates_wf_set_row [OF wf opened_row_wf [OF wf]] that])
  with evaluation_row_wf [OF r wf] have "row_wf r'" by blast
  then show ?thesis unfolding rt' by (rule gates_wf_set_row [OF wf])
qed

section \<open>Decisions and waivers bind to evidence\<close>

lemma gate_decide_Inr:
  assumes "gate_decide now gid rt actor decision why = Inr (rt', record, events)"
  obtains r ds fp where "map_of (rt_gates rt) gid = Some r"
    and "row_get r ''state'' PNone = PStr ''awaiting_decision''"
    and "row_get_str r ''input_fingerprint'' [] = fp" and "fp \<noteq> []"
    and "py_lower (py_strip decision) \<in> {''approved'', ''rejected''}" and "py_strip actor \<noteq> []"
    and "row_get r ''decisions'' (PList []) = PList ds"
    and "record = [(''actor'', PStr (py_strip actor)), (''decision'', PStr (py_lower (py_strip decision))),
        (''reason'', PStr (py_strip why)), (''timestamp'', PStr now), (''input_fingerprint'', PStr fp)]"
    and "rt' = set_gate_row gid (dset ''decisions'' (PList (ds @ [PDict record])) r) rt"
  using assms
  by (auto simp: gate_decide_def Let_def dget_def split: if_splits pyval.splits option.splits)

lemma gate_waive_Inr:
  assumes "gate_waive now gid rt actor why = Inr (rt', waiver, events)"
  obtains r fp where "map_of (rt_gates rt) gid = Some r"
    and "fp = py_str (row_get r ''input_fingerprint'' PNone)"
    and "gid \<notin> set (rt_cancelled_gates rt)" and "py_strip actor \<noteq> []" and "py_strip why \<noteq> []"
    and "waiver = [(''actor'', PStr (py_strip actor)), (''reason'', PStr (py_strip why)),
        (''timestamp'', PStr now), (''input_fingerprint'', PStr fp)]"
    and "rt' = set_gate_row gid (dset ''state'' (PStr ''waived'') (dset ''waiver'' (PDict waiver) r)) rt"
  using assms
  by (auto simp: gate_waive_def Let_def dget_def split: if_splits option.splits)

lemma dget_some [simp]: "map_of d k = Some v \<Longrightarrow> dget d k x = v"
  by (simp add: dget_def)

lemma waived_then_evaluated:
  assumes w: "gate_waive now gid rt actor why = Inr (rt1, waiver, ev1)" and g: "pg_id g = gid"
    and e: "gate_evaluate sha now' g rt1 view = Inr (rt2, ev2)"
    and a: "automatic_evidence sha g rt1 view = Inr (results, fp)"
  shows "gate_satisfied rt2 gid \<longleftrightarrow>
    row_get waiver ''input_fingerprint'' PNone = PStr fp \<or> all_criteria_hold g rt1 view fp"
proof -
  obtain r where rt1: "rt1 = set_gate_row gid (dset ''state'' (PStr ''waived'')
        (dset ''waiver'' (PDict waiver) r)) rt" and nc: "gid \<notin> set (rt_cancelled_gates rt)"
    by (rule gate_waive_Inr [OF w])
  have op: "opened rt1 gid = rt1" by (rule set_gate_row_same) (simp add: rt1)
  have "pg_id g \<notin> set (rt_cancelled_gates rt1)" using nc g by (simp add: rt1)
  from gate_evaluate_satisfied [OF e this] a
  show ?thesis by (simp add: g op) (simp add: rt1 names_evidence_def)
qed

lemma approved_on_snoc:
  assumes "row_get r ''decisions'' (PList []) = PList ds"
  shows "approved_on (dset ''decisions'' (PList (ds @ [PDict d])) r) fp \<longleftrightarrow>
    (if row_get d ''input_fingerprint'' PNone = PStr fp then row_get_str d ''decision'' [] = ''approved''
     else approved_on r fp)"
proof -
  note l = latest_made_on [where P = "\<lambda>d. row_get_str d ''decision'' [] = ''approved''"]
  show ?thesis unfolding approved_on_def using assms by (simp add: l)
qed

lemma decided_then_evaluated:
  assumes d: "gate_decide now gid rt actor decision why = Inr (rt1, record, ev1)" and g: "pg_id g = gid"
    and e: "gate_evaluate sha now' g rt1 view = Inr (rt2, ev2)"
    and a: "automatic_evidence sha g rt1 view = Inr (results, fp)"
    and r: "r = dget (rt_gates rt) gid []"
  shows "gate_satisfied rt2 gid \<longleftrightarrow> gid \<notin> set (rt_cancelled_gates rt)
    \<and> (names_evidence (row_get r ''waiver'' PNone) fp
       \<or> (\<forall>c \<in> set (pg_criteria g). if gc_type c \<noteq> ''human_approval'' then criterion_holds g rt1 view fp c
            else if fp = row_get_str r ''input_fingerprint'' [] then py_lower (py_strip decision) = ''approved''
            else approved_on r fp))"
proof -
  obtain r' ds fp0 where r': "map_of (rt_gates rt) gid = Some r'"
    and fp0: "row_get_str r' ''input_fingerprint'' [] = fp0"
    and ds: "row_get r' ''decisions'' (PList []) = PList ds"
    and rec: "record = [(''actor'', PStr (py_strip actor)), (''decision'', PStr (py_lower (py_strip decision))),
        (''reason'', PStr (py_strip why)), (''timestamp'', PStr now), (''input_fingerprint'', PStr fp0)]"
    and rt1: "rt1 = set_gate_row gid (dset ''decisions'' (PList (ds @ [PDict record])) r') rt"
    by (rule gate_decide_Inr [OF d])
  have rr: "r = r'" using r r' by simp
  show ?thesis
  proof (cases "gid \<in> set (rt_cancelled_gates rt)")
    case True
    then have "rt2 = set_gate_row gid (dset ''state'' (PStr ''cancelled'') (opened_row rt1 gid)) rt1"
      using e gate_evaluate_cancelled [of g rt1 sha now' view] g by (simp add: rt1)
    with True show ?thesis by (simp add: gate_satisfied_set_gate_row gate_row_satisfied_iff)
  next
    case False
    have op: "opened rt1 gid = rt1" by (rule set_gate_row_same) (simp add: rt1)
    have h: "criterion_holds g rt1 view fp c \<longleftrightarrow> approved_on (dget (rt_gates rt1) gid []) fp"
      if "gc_type c = ''human_approval''" for c
      using that by (simp add: criterion_holds_def g)
    have ap: "approved_on (dget (rt_gates rt1) gid []) fp \<longleftrightarrow>
        (if fp = fp0 then py_lower (py_strip decision) = ''approved'' else approved_on r' fp)"
      using approved_on_snoc [OF ds, of "record" fp] by (auto simp: rt1 rec)
    have "pg_id g \<notin> set (rt_cancelled_gates rt1)" using False g by (simp add: rt1)
    from gate_evaluate_satisfied [OF e this] a
    have "gate_satisfied rt2 gid \<longleftrightarrow> names_evidence (row_get (opened_row rt1 gid) ''waiver'' PNone) fp
        \<or> (\<forall>c \<in> set (pg_criteria g). criterion_holds g rt1 view fp c)"
      by (simp add: g op all_criteria_hold_def)
    also have "row_get (opened_row rt1 gid) ''waiver'' PNone = row_get r ''waiver'' PNone"
      by (simp add: rt1 rr)
    also have "(\<forall>c \<in> set (pg_criteria g). criterion_holds g rt1 view fp c) \<longleftrightarrow>
        (\<forall>c \<in> set (pg_criteria g). if gc_type c \<noteq> ''human_approval'' then criterion_holds g rt1 view fp c
            else if fp = row_get_str r ''input_fingerprint'' [] then py_lower (py_strip decision) = ''approved''
            else approved_on r fp)"
      by (rule ball_cong [OF refl]) (simp add: h ap rr fp0)
    finally show ?thesis using False by simp
  qed
qed

end
