(* ===== verification/Exec_Phases.thy ===== *)
theory Exec_Phases
  imports Exec_Gates
begin

text \<open>
  \<open>project_execution/phases.py\<close>: the lifecycle state of a Phase and its schedule health,
  projected from Task outcomes, Gate rows and Milestone achievements. \<open>today\<close> is the caller's
  date (or the clock's). A lookup in an index of the definition raises \<open>KeyError\<close> where the
  key is absent.
\<close>

record phase_projection =
  pp_state :: phase_state
  pp_health :: phase_health
  pp_reasons :: "string list"

definition lookup_tasks :: "execution_definition \<Rightarrow> string list \<Rightarrow> project_task list res" where
  "lookup_tasks d ids = mapr (\<lambda>i. case map_of (task_index d) i of
      None \<Rightarrow> Inl (KeyError i) | Some t \<Rightarrow> Inr t) ids"

definition required_phase_tasks :: "execution_definition \<Rightarrow> project_phase \<Rightarrow> project_task list res" where
  "required_phase_tasks d p = rbind (lookup_tasks d (ph_tasks p)) (\<lambda>ts. Inr (filter pt_required ts))"

definition project_phase_state ::
    "project_phase \<Rightarrow> execution_definition \<Rightarrow> runtime_state \<Rightarrow> task_view \<Rightarrow> phase_state res" where
  "project_phase_state p d rt view =
     (if list_ex (\<lambda>g. \<not> gate_satisfied rt g) (ph_entry_gates p) then Inr Phase_PLANNED
      else rbind (required_phase_tasks d p) (\<lambda>required_tasks.
        (let tasks_complete = list_all (\<lambda>t. tv_outcome view (pt_task_id t) = Outcome_COMPLETED)
                                required_tasks;
             exits_satisfied = list_all (gate_satisfied rt) (ph_exit_gates p);
             milestones_achieved = list_all (\<lambda>m. m \<in> set (keys (rt_milestone_achievements rt)))
                                     (ph_milestones p)
         in Inr (if tasks_complete \<and> exits_satisfied \<and> milestones_achieved then Phase_COMPLETE
                 else if list_ex (\<lambda>t. tv_outcome view t \<in>
                        {Outcome_RUNNING, Outcome_COMPLETED, Outcome_FAILED, Outcome_CANCELLED})
                        (ph_tasks p)
                 then Phase_ACTIVE
                 else Phase_READY))))"

text \<open>The date half of both health projections: \<open>date.fromisoformat\<close> of a stored target.\<close>

definition target_date :: "string \<Rightarrow> date res" where
  "target_date s = (case date_fromisoformat s of
      None \<Rightarrow> Inl (ValueError (''Invalid isoformat string: '' @ py_repr_str s))
    | Some dt \<Rightarrow> Inr dt)"

definition within_seven_days :: "date \<Rightarrow> date \<Rightarrow> bool" where
  "within_seven_days target today \<longleftrightarrow> date_ordinal target - date_ordinal today \<le> 7"

definition project_phase_health ::
    "project_phase \<Rightarrow> phase_state \<Rightarrow> execution_definition \<Rightarrow> task_view
       \<Rightarrow> (string \<Rightarrow> bool) option \<Rightarrow> date \<Rightarrow> (phase_health \<times> string list) res" where
  "project_phase_health p state d view eligible today =
     (if state \<in> {Phase_COMPLETE, Phase_CANCELLED} then Inr (PhaseHealth_ON_TRACK, [])
      else rbind (required_phase_tasks d p) (\<lambda>required_tasks.
        (let required_task_ids = map pt_task_id required_tasks;
             failed = filter (\<lambda>t. tv_outcome view t = Outcome_FAILED) required_task_ids;
             not_started = filter (\<lambda>t. tv_outcome view t = Outcome_NOT_STARTED) required_task_ids;
             blocked = filter (\<lambda>t. case eligible of None \<Rightarrow> False | Some e \<Rightarrow> \<not> e t) not_started
         in if failed \<noteq> [] \<or> (not_started \<noteq> [] \<and> length blocked = length not_started)
            then Inr (PhaseHealth_BLOCKED, [''required execution is blocked''])
            else if sched_target (ph_schedule p) = [] then Inr (PhaseHealth_ON_TRACK, [])
            else rbind (target_date (sched_target (ph_schedule p))) (\<lambda>target.
              Inr (if date_after today target
                   then (PhaseHealth_LATE, [''target '' @ date_isoformat target @ '' has passed''])
                   else if within_seven_days target today
                   then (PhaseHealth_AT_RISK, [''target is within seven days''])
                   else (PhaseHealth_ON_TRACK, []))))))"

text \<open>
  \<open>eligibility\<close> is an optional dictionary of results; a Task absent from it counts as not
  eligible.
\<close>

definition eligible_in :: "eligibility_result pydict \<Rightarrow> string \<Rightarrow> bool" where
  "eligible_in results t =
     el_eligible (dget results t \<lparr>el_eligible = False, el_reasons = []\<rparr>)"

definition project_phase ::
    "project_phase \<Rightarrow> execution_definition \<Rightarrow> runtime_state \<Rightarrow> task_view
       \<Rightarrow> eligibility_result pydict option \<Rightarrow> date \<Rightarrow> phase_projection res" where
  "project_phase p d rt view eligibility today =
     (if ph_id p \<in> set (rt_cancelled_phases rt)
      then Inr \<lparr>pp_state = Phase_CANCELLED, pp_health = PhaseHealth_ON_TRACK, pp_reasons = []\<rparr>
      else rbind (project_phase_state p d rt view) (\<lambda>state.
           rbind (project_phase_health p state d view (map_option eligible_in eligibility) today)
             (\<lambda>(health, reasons).
           Inr \<lparr>pp_state = state, pp_health = health, pp_reasons = reasons\<rparr>)))"

section \<open>Lookups that cannot fail\<close>

lemma phase_task_known:
  assumes "definition_wf d e" and "p \<in> set (pd_phases d)" and "t \<in> set (ph_tasks p)"
  shows "t \<in> set (task_ids d)"
  using assms by (auto simp: definition_wf_def phase_wf_def task_ids_def)

lemma lookup_tasks_Inr:
  assumes "unique_ids d" and "definition_wf d e" and "p \<in> set (pd_phases d)"
  obtains ts where "lookup_tasks d (ph_tasks p) = Inr ts" and "map pt_task_id ts = ph_tasks p"
    and "set ts \<subseteq> set (pd_tasks d)"
proof -
  have "map_of (task_index d) i \<noteq> None" if "i \<in> set (ph_tasks p)" for i
    using phase_task_known [OF assms(2,3) that] index_None(1) by blast
  then have lookup: "\<exists>t. map_of (task_index d) i = Some t" if "i \<in> set (ph_tasks p)" for i
    using that by auto
  define f where "f i = the (map_of (task_index d) i)" for i
  have f: "map_of (task_index d) i = Some (f i)" if "i \<in> set (ph_tasks p)" for i
    using lookup [OF that] by (auto simp: f_def)
  have g: "f i \<in> set (pd_tasks d) \<and> pt_task_id (f i) = i" if "i \<in> set (ph_tasks p)" for i
    using f [OF that] task_index_Some [OF assms(1)] by blast
  show ?thesis
  proof (rule that [of "map f (ph_tasks p)"])
    show "lookup_tasks d (ph_tasks p) = Inr (map f (ph_tasks p))"
      unfolding lookup_tasks_def by (rule mapr_Inr_map) (simp add: f)
  qed (use g in \<open>auto simp: map_idI\<close>)
qed

text \<open>The required Tasks of a Phase, read off the definition.\<close>

definition phase_requires :: "execution_definition \<Rightarrow> project_phase \<Rightarrow> string set" where
  "phase_requires d p = {pt_task_id t | t. t \<in> set (pd_tasks d) \<and> pt_phase t = ph_id p \<and> pt_required t}"

lemma required_phase_tasks_Inr:
  assumes u: "unique_ids d" and wf: "definition_wf d e" and p: "p \<in> set (pd_phases d)"
  obtains ts where "required_phase_tasks d p = Inr ts" and "pt_task_id ` set ts = phase_requires d p"
proof -
  obtain ts where ts: "lookup_tasks d (ph_tasks p) = Inr ts" "map pt_task_id ts = ph_tasks p"
      "set ts \<subseteq> set (pd_tasks d)"
    by (rule lookup_tasks_Inr [OF u wf p])
  have members: "set (ph_tasks p) = {pt_task_id t | t. t \<in> set (pd_tasks d) \<and> pt_phase t = ph_id p}"
    using wf p by (auto simp: definition_wf_def phase_wf_def)
  have "t \<in> set ts \<longleftrightarrow> t \<in> set (pd_tasks d) \<and> pt_phase t = ph_id p" for t
  proof
    assume t: "t \<in> set ts"
    then have "pt_task_id t \<in> set (ph_tasks p)" using ts(2) by (metis image_eqI list.set_map)
    then obtain t' where "t' \<in> set (pd_tasks d)" "pt_phase t' = ph_id p" "pt_task_id t = pt_task_id t'"
      using members by auto
    then show "t \<in> set (pd_tasks d) \<and> pt_phase t = ph_id p"
      using same_id(1) [OF u] ts(3) t by blast
  next
    assume t: "t \<in> set (pd_tasks d) \<and> pt_phase t = ph_id p"
    then have "pt_task_id t \<in> set (map pt_task_id ts)" using members ts(2) by auto
    then obtain t' where t': "t' \<in> set ts" "pt_task_id t' = pt_task_id t" by auto
    then have "t' = t" using same_id(1) [OF u, of t' t] ts(3) t by blast
    with t' show "t \<in> set ts" by simp
  qed
  then show ?thesis
    by (intro that [of "filter pt_required ts"])
      (auto simp: required_phase_tasks_def ts(1) phase_requires_def)
qed

section \<open>What the projected state means\<close>

text \<open>The declarative conditions of the lifecycle.\<close>

definition phase_entered :: "runtime_state \<Rightarrow> project_phase \<Rightarrow> bool" where
  "phase_entered rt p \<longleftrightarrow> (\<forall>g \<in> set (ph_entry_gates p). gate_satisfied rt g)"

definition phase_done :: "execution_definition \<Rightarrow> runtime_state \<Rightarrow> task_view \<Rightarrow> project_phase \<Rightarrow> bool" where
  "phase_done d rt view p \<longleftrightarrow> phase_entered rt p
     \<and> (\<forall>t \<in> phase_requires d p. tv_outcome view t = Outcome_COMPLETED)
     \<and> (\<forall>g \<in> set (ph_exit_gates p). gate_satisfied rt g)
     \<and> (\<forall>m \<in> set (ph_milestones p). map_of (rt_milestone_achievements rt) m \<noteq> None)"

definition phase_begun :: "task_view \<Rightarrow> project_phase \<Rightarrow> bool" where
  "phase_begun view p \<longleftrightarrow> (\<exists>t \<in> set (ph_tasks p).
     tv_outcome view t \<notin> {Outcome_NOT_STARTED, Outcome_UNKNOWN})"

lemma started_outcomes:
  "oc \<in> {Outcome_RUNNING, Outcome_COMPLETED, Outcome_FAILED, Outcome_CANCELLED}
     \<longleftrightarrow> oc \<notin> {Outcome_NOT_STARTED, Outcome_UNKNOWN}"
  by (cases oc) simp_all

lemma project_phase_state_spec:
  assumes "unique_ids d" and "definition_wf d e" and "p \<in> set (pd_phases d)"
  shows "project_phase_state p d rt view = Inr
    (if \<not> phase_entered rt p then Phase_PLANNED
     else if phase_done d rt view p then Phase_COMPLETE
     else if phase_begun view p then Phase_ACTIVE
     else Phase_READY)"
proof -
  obtain ts where ts: "required_phase_tasks d p = Inr ts" "pt_task_id ` set ts = phase_requires d p"
    by (rule required_phase_tasks_Inr [OF assms])
  have entered: "list_ex (\<lambda>g. \<not> gate_satisfied rt g) (ph_entry_gates p) \<longleftrightarrow> \<not> phase_entered rt p"
    by (simp add: phase_entered_def list_ex_iff)
  have begun: "list_ex (\<lambda>t. tv_outcome view t \<in>
      {Outcome_RUNNING, Outcome_COMPLETED, Outcome_FAILED, Outcome_CANCELLED}) (ph_tasks p)
      \<longleftrightarrow> phase_begun view p"
    by (simp only: phase_begun_def list_ex_iff started_outcomes)
  have tasks: "list_all (\<lambda>t. tv_outcome view (pt_task_id t) = Outcome_COMPLETED) ts
      \<longleftrightarrow> (\<forall>t \<in> phase_requires d p. tv_outcome view t = Outcome_COMPLETED)"
    unfolding ts(2) [symmetric] by (simp add: list_all_iff)
  have ms: "list_all (\<lambda>m. m \<in> set (keys (rt_milestone_achievements rt))) (ph_milestones p)
      \<longleftrightarrow> (\<forall>m \<in> set (ph_milestones p). map_of (rt_milestone_achievements rt) m \<noteq> None)"
    by (simp only: list_all_iff map_of_eq_None_iff not_not set_map)
  have gs: "list_all (gate_satisfied rt) (ph_exit_gates p)
      \<longleftrightarrow> (\<forall>g \<in> set (ph_exit_gates p). gate_satisfied rt g)"
    by (simp add: list_all_iff)
  show ?thesis
    unfolding project_phase_state_def entered begun ts(1) rbind_Inr Let_def tasks ms gs phase_done_def
    by auto
qed

lemma target_date_ok:
  assumes "model_date (PStr s) l = Inr s" and "s \<noteq> []"
  obtains dt where "target_date s = Inr dt" and "date_isoformat dt = s"
proof -
  from assms obtain dt where dt: "date_fromisoformat (py_strip s) = Some dt" "date_isoformat dt = s"
    by (auto simp: model_date_def Let_def split: if_splits option.splits)
  have "py_strip s = s" using date_isoformat_fromisoformat [OF dt(1)] dt(2) by simp
  with dt show ?thesis by (intro that) (simp_all add: target_date_def)
qed

lemma schedule_target_ok: "schedule_ok s \<Longrightarrow> model_date (PStr (sched_target s)) ''schedule target'' = Inr (sched_target s)"
  by (cases s) (auto simp: schedule_ok_def schedule_init_def split: if_splits)

lemma project_phase_health_total:
  assumes "unique_ids d" and "definition_wf d e" and "p \<in> set (pd_phases d)" and "schedule_ok (ph_schedule p)"
  shows "\<exists>h. project_phase_health p st d view eligible today = Inr h"
proof -
  obtain ts where ts: "required_phase_tasks d p = Inr ts"
    by (rule required_phase_tasks_Inr [OF assms(1-3)])
  show ?thesis
  proof (cases "sched_target (ph_schedule p) = []")
    case True
    then show ?thesis by (simp add: project_phase_health_def ts Let_def)
  next
    case False
    obtain dt where "target_date (sched_target (ph_schedule p)) = Inr dt"
      by (rule target_date_ok [OF schedule_target_ok [OF assms(4)] False])
    then show ?thesis by (simp add: project_phase_health_def ts Let_def)
  qed
qed

lemma project_phase_total:
  assumes "unique_ids d" and "definition_wf d e" and "p \<in> set (pd_phases d)" and "schedule_ok (ph_schedule p)"
  obtains r where "project_phase p d rt view eligibility today = Inr r"
    and "pp_state r = (if ph_id p \<in> set (rt_cancelled_phases rt) then Phase_CANCELLED
      else if \<not> phase_entered rt p then Phase_PLANNED
      else if phase_done d rt view p then Phase_COMPLETE
      else if phase_begun view p then Phase_ACTIVE
      else Phase_READY)"
proof (cases "ph_id p \<in> set (rt_cancelled_phases rt)")
  case True
  then show ?thesis
    by (intro that [of "\<lparr>pp_state = Phase_CANCELLED, pp_health = PhaseHealth_ON_TRACK, pp_reasons = []\<rparr>"])
      (simp_all add: project_phase_def)
next
  case False
  let ?s = "if \<not> phase_entered rt p then Phase_PLANNED
      else if phase_done d rt view p then Phase_COMPLETE
      else if phase_begun view p then Phase_ACTIVE
      else Phase_READY"
  obtain h where "project_phase_health p ?s d view (map_option eligible_in eligibility) today = Inr h"
    using project_phase_health_total [OF assms] by blast
  then show ?thesis
    using False
    by (intro that [of "\<lparr>pp_state = ?s, pp_health = fst h, pp_reasons = snd h\<rparr>"])
      (simp_all add: project_phase_def project_phase_state_spec [OF assms(1-3)] split_beta)
qed

text \<open>An eligible required Task only exists in a Phase that is ready or active.\<close>

lemma may_start_phase:
  assumes u: "unique_ids d" and wf: "definition_wf d e" and p: "p \<in> set (pd_phases d)"
    and t: "t \<in> set (pd_tasks d)" "pt_phase t = ph_id p" "pt_required t"
    and m: "may_start d rt view t p" and reader: "task_reader view"
  shows "phase_entered rt p" and "\<not> phase_done d rt view p" and "ph_id p \<notin> set (rt_cancelled_phases rt)"
proof -
  show "phase_entered rt p" and "ph_id p \<notin> set (rt_cancelled_phases rt)"
    using m t(2) by (auto simp: may_start_def phase_entered_def)
  have "tv_outcome view (pt_task_id t) \<noteq> Outcome_COMPLETED"
    using m task_reader.describe_outcome [OF reader, of "pt_task_id t"]
    by (auto simp: may_start_def Let_def)
  moreover have "pt_task_id t \<in> phase_requires d p" using t by (auto simp: phase_requires_def)
  ultimately show "\<not> phase_done d rt view p" by (auto simp: phase_done_def)
qed

end
