(* ===== verification/Exec_Milestones.thy ===== *)
theory Exec_Milestones
  imports Exec_Phases
begin

text \<open>
  \<open>project_execution/baseline.py\<close> and \<open>milestones.py\<close>: the reproducibility baseline of a
  Milestone with the issues that make it incomplete, the evaluation of its prerequisites and
  health, and its one-time achievement.
\<close>

section \<open>Baselines\<close>

record baseline_issue =
  bi_kind :: string
  bi_message :: string
  bi_subject_id :: string

definition issue_as_mapping :: "baseline_issue \<Rightarrow> row" where
  "issue_as_mapping i = str_fields
     [(''kind'', bi_kind i), (''message'', bi_message i), (''subject_id'', bi_subject_id i)]"

record baseline_result =
  br_complete :: bool
  br_baseline :: row
  br_issues :: "baseline_issue list"

definition task_issues :: "project_milestone \<Rightarrow> task_evidence \<Rightarrow> baseline_issue list" where
  "task_issues m ev =
     (let t = te_task_id ev in
        (if te_outcome ev \<noteq> Outcome_COMPLETED
         then [\<lparr>bi_kind = ''task_not_completed'',
                bi_message = ''Task '' @ t @ '' is '' @ outcome_value (te_outcome ev),
                bi_subject_id = t\<rparr>] else [])
        @ (if te_task_digest ev = []
           then [\<lparr>bi_kind = ''missing_task_digest'',
                  bi_message = ''Task '' @ t @ '' has no TASK.yaml digest'',
                  bi_subject_id = t\<rparr>] else [])
        @ (if te_plan_digest ev = []
           then [\<lparr>bi_kind = ''missing_plan_digest'',
                  bi_message = ''Task '' @ t @ '' has no PLAN.graph.yaml digest'',
                  bi_subject_id = t\<rparr>] else [])
        @ (if pm_delivery_policy m = Delivery_CANDIDATE \<and> te_repository_revisions ev = []
           then [\<lparr>bi_kind = ''missing_repository_revision'',
                  bi_message = ''Task '' @ t @ '' has no reproducible repository revision'',
                  bi_subject_id = t\<rparr>] else []))"

definition verification_row :: "verification_summary \<Rightarrow> row" where
  "verification_row v =
     [(''outcome'', PStr (vs_outcome v)), (''passed'', PInt (vs_passed v)),
      (''failed'', PInt (vs_failed v)), (''total'', PInt (vs_total v))]"

definition baseline_task_row :: "task_evidence \<Rightarrow> row" where
  "baseline_task_row ev =
     [(''outcome'', PStr (outcome_value (te_outcome ev))),
      (''task_digest'', PStr (te_task_digest ev)),
      (''plan_digest'', PStr (te_plan_digest ev)),
      (''verification'', PDict (verification_row (te_verification ev)))]"

text \<open>One step of the loop over \<open>repository_revisions.items()\<close>.\<close>

definition merge_repository ::
    "string pydict \<times> baseline_issue list \<Rightarrow> string \<times> string \<Rightarrow> string pydict \<times> baseline_issue list" where
  "merge_repository acc rc =
     (case acc of (repositories, issues) \<Rightarrow> case rc of (repository_id, commit) \<Rightarrow>
       (let prior = dget repositories repository_id [] in
        (dset repository_id commit repositories,
         if prior \<noteq> [] \<and> prior \<noteq> commit
         then issues @ [\<lparr>bi_kind = ''repository_revision_conflict'',
                bi_message = ''repository '' @ repository_id @ '' has conflicting revisions ''
                  @ prior @ '' and '' @ commit,
                bi_subject_id = repository_id\<rparr>]
         else issues)))"

definition merge_repositories ::
    "string pydict \<Rightarrow> task_evidence \<Rightarrow> baseline_issue list \<Rightarrow> string pydict \<times> baseline_issue list" where
  "merge_repositories repositories ev issues =
     foldl merge_repository (repositories, issues) (te_repository_revisions ev)"

record baseline_tasks =
  bt_issues :: "baseline_issue list"
  bt_rows :: "row pydict"
  bt_repositories :: "string pydict"
  bt_artifacts :: "string list"

definition baseline_task :: "project_milestone \<Rightarrow> task_view \<Rightarrow> baseline_tasks \<Rightarrow> string \<Rightarrow> baseline_tasks" where
  "baseline_task m view acc task_id =
     (let ev = tv_evidence view task_id;
          (repositories, issues) = merge_repositories (bt_repositories acc) ev
                                     (bt_issues acc @ task_issues m ev)
      in \<lparr>bt_issues = issues, bt_rows = dset task_id (baseline_task_row ev) (bt_rows acc),
          bt_repositories = repositories, bt_artifacts = bt_artifacts acc @ te_artifacts ev\<rparr>)"

definition baseline_gate_row :: "runtime_state \<Rightarrow> string \<Rightarrow> row" where
  "baseline_gate_row rt gate_id =
     (let r = dget (rt_gates rt) gate_id [] in
      [(''state'', row_get r ''state'' (PStr ''waiting'')),
       (''evaluation_revision'', row_get r ''evaluation_revision'' (PInt 0)),
       (''input_fingerprint'', PStr (row_get_str r ''input_fingerprint'' []))])"

definition gate_issues :: "runtime_state \<Rightarrow> string \<Rightarrow> baseline_issue list" where
  "gate_issues rt gate_id =
     (if row_get_str (dget (rt_gates rt) gate_id []) ''input_fingerprint'' [] = []
      then [\<lparr>bi_kind = ''missing_gate_fingerprint'',
             bi_message = ''Gate '' @ gate_id @ '' has no evidence fingerprint'',
             bi_subject_id = gate_id\<rparr>] else [])"

definition baseline_build ::
    "string \<Rightarrow> project_milestone \<Rightarrow> execution_definition \<Rightarrow> runtime_state \<Rightarrow> task_view \<Rightarrow> baseline_result" where
  "baseline_build now m d rt view =
     (let ts = foldl (baseline_task m view)
                 \<lparr>bt_issues = [], bt_rows = [], bt_repositories = [], bt_artifacts = []\<rparr>
                 (mreq_tasks (pm_requires m));
          gates = mreq_gates (pm_requires m);
          issues = bt_issues ts @ List.concat (map (gate_issues rt) gates);
          gate_rows = foldl (\<lambda>acc g. dset g (baseline_gate_row rt g) acc) [] gates
      in \<lparr>br_complete = (issues = []),
          br_baseline =
            [(''achieved_at'', PStr now),
             (''definition_revision'', PInt (pd_revision d)),
             (''tasks'', rows (bt_rows ts)),
             (''gates'', rows gate_rows),
             (''repositories'', PDict (map (\<lambda>(k, v). (k, PStr v)) (bt_repositories ts))),
             (''artifacts'', strs (sort (remdups (bt_artifacts ts)))),
             (''delivery'', PDict [(''policy'', PStr (delivery_value (pm_delivery_policy m)))])],
          br_issues = issues\<rparr>)"

section \<open>Requirements and achievement\<close>

record milestone_projection =
  mp_state :: milestone_state
  mp_health :: milestone_health
  mp_missing :: "string list"

definition milestone_missing ::
    "project_milestone \<Rightarrow> runtime_state \<Rightarrow> task_view \<Rightarrow> string list" where
  "milestone_missing m rt view =
     map (\<lambda>t. ''task:'' @ t)
       (filter (\<lambda>t. tv_outcome view t \<noteq> Outcome_COMPLETED) (mreq_tasks (pm_requires m)))
     @ map (\<lambda>g. ''gate:'' @ g)
         (filter (\<lambda>g. \<not> gate_satisfied rt g) (mreq_gates (pm_requires m)))
     @ map (\<lambda>i. ''milestone:'' @ i)
         (filter (\<lambda>i. i \<notin> set (keys (rt_milestone_achievements rt))) (mreq_milestones (pm_requires m)))"

definition milestone_health ::
    "project_milestone \<Rightarrow> string list \<Rightarrow> date \<Rightarrow> milestone_health res" where
  "milestone_health m missing today =
     (if pm_target m = [] then Inr MilestoneHealth_ON_TRACK
      else rbind (target_date (pm_target m)) (\<lambda>target.
        Inr (if date_after today target then MilestoneHealth_LATE
             else if missing \<noteq> [] \<and> within_seven_days target today then MilestoneHealth_AT_RISK
             else MilestoneHealth_ON_TRACK)))"

definition milestone_evaluate ::
    "project_milestone \<Rightarrow> runtime_state \<Rightarrow> task_view \<Rightarrow> date \<Rightarrow> milestone_projection res" where
  "milestone_evaluate m rt view today =
     (if pm_id m \<in> set (rt_cancelled_milestones rt)
      then Inr \<lparr>mp_state = Milestone_CANCELLED, mp_health = MilestoneHealth_ON_TRACK, mp_missing = []\<rparr>
      else if pm_id m \<in> set (keys (rt_milestone_achievements rt))
      then Inr \<lparr>mp_state = Milestone_ACHIEVED, mp_health = MilestoneHealth_ON_TRACK, mp_missing = []\<rparr>
      else (let missing = milestone_missing m rt view
            in rbind (milestone_health m missing today) (\<lambda>health.
               Inr \<lparr>mp_state = Milestone_PENDING, mp_health = health, mp_missing = missing\<rparr>)))"

definition achieve_if_ready ::
    "string \<Rightarrow> date \<Rightarrow> project_milestone \<Rightarrow> execution_definition \<Rightarrow> runtime_state \<Rightarrow> task_view
       \<Rightarrow> (runtime_state \<times> baseline_result option \<times> event list) res" where
  "achieve_if_ready now today m d rt view =
     (if pm_id m \<in> set (keys (rt_milestone_achievements rt)) then Inr (rt, None, [])
      else rbind (milestone_evaluate m rt view today) (\<lambda>projection.
        if mp_state projection \<noteq> Milestone_PENDING \<or> mp_missing projection \<noteq> []
        then Inr (rt, None, [])
        else (let result = baseline_build now m d rt view
              in if \<not> br_complete result then Inr (rt, Some result, [])
                 else Inr (rt\<lparr>rt_milestone_achievements :=
                               dset (pm_id m) (br_baseline result) (rt_milestone_achievements rt)\<rparr>,
                           Some result,
                           [(''project_milestone_achieved'',
                             [(''milestone_id'', PStr (pm_id m)),
                              (''achievement'', PDict (br_baseline result))])]))))"

section \<open>Complete baselines\<close>

definition evidence_complete :: "project_milestone \<Rightarrow> task_evidence \<Rightarrow> bool" where
  "evidence_complete m ev \<longleftrightarrow> te_outcome ev = Outcome_COMPLETED \<and> te_task_digest ev \<noteq> []
     \<and> te_plan_digest ev \<noteq> []
     \<and> (pm_delivery_policy m = Delivery_CANDIDATE \<longrightarrow> te_repository_revisions ev \<noteq> [])"

lemma task_issues_Nil: "task_issues m ev = [] \<longleftrightarrow> evidence_complete m ev"
  by (auto simp: task_issues_def evidence_complete_def Let_def)

text \<open>
  A merge without an issue agrees with every revision it saw; revisions are non-empty texts.
\<close>

lemma merge_repository_grows:
  "\<exists>more. snd (foldl merge_repository acc rcs) = snd acc @ more"
proof (induction rcs arbitrary: acc)
  case (Cons rc rcs)
  have "\<exists>m1. snd (merge_repository acc rc) = snd acc @ m1"
    by (cases acc; cases rc) (simp add: merge_repository_def Let_def)
  then obtain m1 where "snd (merge_repository acc rc) = snd acc @ m1" ..
  with Cons.IH [of "merge_repository acc rc"] show ?case by auto
qed simp

lemma merge_repositories_agree:
  assumes "snd (foldl merge_repository (reps, issues) rcs) = []"
    and "\<forall>(r, c) \<in> set rcs. c \<noteq> []" and "\<forall>r c. map_of reps r = Some c \<longrightarrow> c \<noteq> []"
  shows "\<forall>(r, c) \<in> set rcs. map_of (fst (foldl merge_repository (reps, issues) rcs)) r = Some c"
    and "\<forall>r c. map_of reps r = Some c \<longrightarrow>
      map_of (fst (foldl merge_repository (reps, issues) rcs)) r = Some c"
    and "\<forall>r c. map_of (fst (foldl merge_repository (reps, issues) rcs)) r = Some c \<longrightarrow> c \<noteq> []"
proof -
  have "(\<forall>(r, c) \<in> set rcs. map_of (fst (foldl merge_repository (reps, issues) rcs)) r = Some c)
    \<and> (\<forall>r c. map_of reps r = Some c \<longrightarrow>
        map_of (fst (foldl merge_repository (reps, issues) rcs)) r = Some c)
    \<and> (\<forall>r c. map_of (fst (foldl merge_repository (reps, issues) rcs)) r = Some c \<longrightarrow> c \<noteq> [])"
    using assms
  proof (induction rcs arbitrary: reps issues)
    case (Cons rc rcs)
    obtain k v where rc: "rc = (k, v)" by (cases rc)
    obtain iss where m: "merge_repository (reps, issues) rc = (dset k v reps, iss)"
      by (auto simp: merge_repository_def rc Let_def)
    have final: "snd (foldl merge_repository (dset k v reps, iss) rcs) = []"
      using Cons.prems(1) by (simp add: m)
    then have "iss = []" using merge_repository_grows [of "(dset k v reps, iss)" rcs] by auto
    then have prior: "dget reps k [] = [] \<or> dget reps k [] = v"
      using m by (auto simp: merge_repository_def rc Let_def split: if_splits)
    then have same: "map_of reps k = None \<or> map_of reps k = Some v"
      using Cons.prems(3) by (auto simp: dget_def split: option.splits)
    have ne: "\<forall>r c. map_of (dset k v reps) r = Some c \<longrightarrow> c \<noteq> []"
      using Cons.prems(2,3) rc by auto
    have ne': "\<forall>(r, c) \<in> set rcs. c \<noteq> []" using Cons.prems(2) by auto
    note IH = Cons.IH [OF final ne' ne]
    have "map_of (fst (foldl merge_repository (dset k v reps, iss) rcs)) r = Some c"
      if "map_of reps r = Some c" for r c
      using IH same that by (cases "r = k") auto
    then show ?case using IH rc m by auto
  qed auto
  then show "\<forall>(r, c) \<in> set rcs. map_of (fst (foldl merge_repository (reps, issues) rcs)) r = Some c"
    and "\<forall>r c. map_of reps r = Some c \<longrightarrow>
      map_of (fst (foldl merge_repository (reps, issues) rcs)) r = Some c"
    and "\<forall>r c. map_of (fst (foldl merge_repository (reps, issues) rcs)) r = Some c \<longrightarrow> c \<noteq> []"
    by blast+
qed

lemma baseline_task_simps:
  "bt_rows (baseline_task m view acc t) = dset t (baseline_task_row (tv_evidence view t)) (bt_rows acc)"
  "bt_repositories (baseline_task m view acc t) = fst (foldl merge_repository
     (bt_repositories acc, bt_issues acc @ task_issues m (tv_evidence view t))
     (te_repository_revisions (tv_evidence view t)))"
  "bt_issues (baseline_task m view acc t) = snd (foldl merge_repository
     (bt_repositories acc, bt_issues acc @ task_issues m (tv_evidence view t))
     (te_repository_revisions (tv_evidence view t)))"
  by (simp_all add: baseline_task_def merge_repositories_def Let_def split_beta)

lemma baseline_issues_grow: "bt_issues (foldl (baseline_task m view) acc ts) = [] \<Longrightarrow> bt_issues acc = []"
proof (induction ts arbitrary: acc)
  case (Cons t ts)
  then have "bt_issues (baseline_task m view acc t) = []" by simp
  then show ?case
    using merge_repository_grows [of "(bt_repositories acc, bt_issues acc @ task_issues m (tv_evidence view t))"
        "te_repository_revisions (tv_evidence view t)"]
    by (auto simp: baseline_task_simps(3))
qed simp

definition nonempty_values :: "string pydict \<Rightarrow> bool" where
  "nonempty_values d \<longleftrightarrow> (\<forall>r c. map_of d r = Some c \<longrightarrow> c \<noteq> [])"

definition named_revisions :: "task_view \<Rightarrow> string set \<Rightarrow> bool" where
  "named_revisions view ts \<longleftrightarrow>
     (\<forall>t \<in> ts. \<forall>(r, c) \<in> set (te_repository_revisions (tv_evidence view t)). c \<noteq> [])"

text \<open>Every Task of an issue-free baseline is complete and agrees with the recorded revisions.\<close>

definition recorded :: "project_milestone \<Rightarrow> task_view \<Rightarrow> baseline_tasks \<Rightarrow> string \<Rightarrow> bool" where
  "recorded m view bt t \<longleftrightarrow> evidence_complete m (tv_evidence view t)
     \<and> map_of (bt_rows bt) t = Some (baseline_task_row (tv_evidence view t))
     \<and> (\<forall>(r, c) \<in> set (te_repository_revisions (tv_evidence view t)).
          map_of (bt_repositories bt) r = Some c)"

lemma baseline_task_recorded:
  assumes "bt_issues (baseline_task m view acc t) = []" and "nonempty_values (bt_repositories acc)"
    and "named_revisions view {t}"
  shows "recorded m view (baseline_task m view acc t) t"
    and "nonempty_values (bt_repositories (baseline_task m view acc t))"
    and "recorded m view acc u \<Longrightarrow> recorded m view (baseline_task m view acc t) u"
proof -
  let ?revs = "te_repository_revisions (tv_evidence view t)"
  let ?is = "bt_issues acc @ task_issues m (tv_evidence view t)"
  have no: "snd (foldl merge_repository (bt_repositories acc, ?is) ?revs) = []"
    using assms(1) by (simp add: baseline_task_simps)
  have "?is = []" using merge_repository_grows [of "(bt_repositories acc, ?is)" ?revs] no by auto
  then have c: "evidence_complete m (tv_evidence view t)" by (simp add: task_issues_Nil)
  have revs: "\<forall>(r, c) \<in> set ?revs. c \<noteq> []" using assms(3) by (simp add: named_revisions_def)
  note agree = merge_repositories_agree [OF no revs assms(2) [unfolded nonempty_values_def]]
  show "recorded m view (baseline_task m view acc t) t"
    using c agree(1) by (simp add: recorded_def baseline_task_simps)
  show "nonempty_values (bt_repositories (baseline_task m view acc t))"
    using agree(3) by (simp add: nonempty_values_def baseline_task_simps)
  show "recorded m view (baseline_task m view acc t) u" if "recorded m view acc u"
    using that agree(2) by (auto simp: recorded_def baseline_task_simps)
qed

lemma baseline_fold_recorded:
  assumes "bt_issues (foldl (baseline_task m view) acc ts) = []"
    and "nonempty_values (bt_repositories acc)" and "named_revisions view (set ts)"
  shows "(\<forall>t \<in> set ts. recorded m view (foldl (baseline_task m view) acc ts) t)
    \<and> (\<forall>u. recorded m view acc u \<longrightarrow> recorded m view (foldl (baseline_task m view) acc ts) u)"
  using assms
proof (induction ts arbitrary: acc)
  case (Cons t ts)
  let ?a = "baseline_task m view acc t"
  have i: "bt_issues ?a = []" using baseline_issues_grow Cons.prems(1) by simp
  have n: "named_revisions view {t}" "named_revisions view (set ts)"
    using Cons.prems(3) by (simp_all add: named_revisions_def)
  note step = baseline_task_recorded [OF i Cons.prems(2) n(1)]
  have "(\<forall>t \<in> set ts. recorded m view (foldl (baseline_task m view) ?a ts) t)
    \<and> (\<forall>u. recorded m view ?a u \<longrightarrow> recorded m view (foldl (baseline_task m view) ?a ts) u)"
    using Cons.prems(1) by (intro Cons.IH step(2) n(2)) simp
  then show ?case using step(1,3) by auto
qed simp

definition baseline_tasks_of :: "project_milestone \<Rightarrow> task_view \<Rightarrow> baseline_tasks" where
  "baseline_tasks_of m view = foldl (baseline_task m view)
     \<lparr>bt_issues = [], bt_rows = [], bt_repositories = [], bt_artifacts = []\<rparr> (mreq_tasks (pm_requires m))"

lemma baseline_build_complete:
  assumes "br_complete (baseline_build now m d rt view)"
    and "named_revisions view (set (mreq_tasks (pm_requires m)))"
  shows "t \<in> set (mreq_tasks (pm_requires m)) \<Longrightarrow> recorded m view (baseline_tasks_of m view) t"
    and "g \<in> set (mreq_gates (pm_requires m)) \<Longrightarrow>
      row_get_str (dget (rt_gates rt) g []) ''input_fingerprint'' [] \<noteq> []"
proof -
  from assms(1) have "bt_issues (baseline_tasks_of m view) = []"
    and gi: "\<forall>g \<in> set (mreq_gates (pm_requires m)). gate_issues rt g = []"
    by (simp_all add: baseline_build_def baseline_tasks_of_def Let_def)
  then have "bt_issues (foldl (baseline_task m view)
     \<lparr>bt_issues = [], bt_rows = [], bt_repositories = [], bt_artifacts = []\<rparr> (mreq_tasks (pm_requires m))) = []"
    by (simp add: baseline_tasks_of_def)
  from baseline_fold_recorded [OF this _ assms(2)]
  show "t \<in> set (mreq_tasks (pm_requires m)) \<Longrightarrow> recorded m view (baseline_tasks_of m view) t"
    by (simp add: baseline_tasks_of_def nonempty_values_def)
  show "g \<in> set (mreq_gates (pm_requires m)) \<Longrightarrow>
      row_get_str (dget (rt_gates rt) g []) ''input_fingerprint'' [] \<noteq> []"
    using gi by (auto simp: gate_issues_def split: if_splits)
qed

section \<open>Achievement\<close>

text \<open>The prerequisites of a Milestone, and what an achievement changes.\<close>

definition milestone_ready :: "project_milestone \<Rightarrow> runtime_state \<Rightarrow> task_view \<Rightarrow> bool" where
  "milestone_ready m rt view \<longleftrightarrow> pm_id m \<notin> set (rt_cancelled_milestones rt)
     \<and> (\<forall>t \<in> set (mreq_tasks (pm_requires m)). tv_outcome view t = Outcome_COMPLETED)
     \<and> (\<forall>g \<in> set (mreq_gates (pm_requires m)). gate_satisfied rt g)
     \<and> (\<forall>i \<in> set (mreq_milestones (pm_requires m)). map_of (rt_milestone_achievements rt) i \<noteq> None)"

lemma milestone_missing_Nil:
  "pm_id m \<notin> set (rt_cancelled_milestones rt) \<Longrightarrow> milestone_missing m rt view = [] \<longleftrightarrow> milestone_ready m rt view"
  by (simp add: milestone_missing_def milestone_ready_def filter_empty_conv map_of_eq_None_iff)

lemma achieve_if_ready_cases:
  assumes "achieve_if_ready now today m d rt view = Inr (rt', result, events)"
  obtains (unchanged) "rt' = rt" and "events = []"
  | (achieved) "map_of (rt_milestone_achievements rt) (pm_id m) = None" and "milestone_ready m rt view"
      and "br_complete (baseline_build now m d rt view)"
      and "rt' = rt\<lparr>rt_milestone_achievements :=
        rt_milestone_achievements rt @ [(pm_id m, br_baseline (baseline_build now m d rt view))]\<rparr>"
      and "map fst events = [''project_milestone_achieved'']"
proof (cases "rt' = rt \<and> events = []")
  case False
  then have fresh: "pm_id m \<notin> set (keys (rt_milestone_achievements rt))"
    and pend: "\<exists>p. milestone_evaluate m rt view today = Inr p \<and> mp_state p = Milestone_PENDING \<and> mp_missing p = []"
    and complete: "br_complete (baseline_build now m d rt view)"
    and rt': "rt' = rt\<lparr>rt_milestone_achievements := dset (pm_id m)
        (br_baseline (baseline_build now m d rt view)) (rt_milestone_achievements rt)\<rparr>"
    and ev: "map fst events = [''project_milestone_achieved'']"
    using assms by (auto simp: achieve_if_ready_def Let_def split: if_splits)
  have "milestone_ready m rt view"
    using pend fresh by (auto simp: milestone_evaluate_def milestone_missing_Nil Let_def split: if_splits)
  then show ?thesis
    using achieved fresh complete rt' ev by (simp add: map_of_eq_None_iff dset_append_new)
qed (use unchanged in blast)

lemma achieve_if_ready_total:
  assumes "pm_target m = [] \<or> (\<exists>dt. target_date (pm_target m) = Inr dt)"
  shows "\<exists>r. achieve_if_ready now today m d rt view = Inr r"
  using assms
  by (auto simp: achieve_if_ready_def milestone_evaluate_def milestone_health_def Let_def)

end
