(* ===== verification/Exec_Service.thy ===== *)
theory Exec_Service
  imports Exec_Repository Exec_Milestones
begin

text \<open>
  \<open>project_execution/service.py\<close>: coordinated edits of the definition. Each operation reads
  the stored definition, builds the whole edited graph, validates it and saves it against the
  revision the caller expects. An operation maps the file's content to the saved definition and
  the new content, or to the error that leaves the file alone.
\<close>

record service =
  se_path :: string
  se_task_exists :: "(string \<Rightarrow> bool) option"
  se_runtime :: "runtime_state res option"

type_synonym edit = "(execution_definition \<times> pyval option) res"

section \<open>Editing lists of assets\<close>

fun upsert :: "('a \<Rightarrow> string) \<Rightarrow> 'a list \<Rightarrow> 'a \<Rightarrow> 'a list" where
  "upsert key [] item = [item]"
| "upsert key (x # xs) item = (if key x = key item then item # xs else x # upsert key xs item)"

definition delete_item :: "('a \<Rightarrow> string) \<Rightarrow> 'a list \<Rightarrow> string \<Rightarrow> 'a list res" where
  "delete_item key xs i =
     (let result = filter (\<lambda>x. key x \<noteq> i) xs
      in if length result = length xs
         then Inl (ProjectExecutionNotFoundError (''project asset not found: '' @ i))
         else Inr result)"

section \<open>Operations\<close>

definition service_save :: "service \<Rightarrow> execution_definition \<Rightarrow> int \<Rightarrow> pyval option \<Rightarrow> edit" where
  "service_save sv d expected file =
     rbind (validate_definition d (se_task_exists sv)) (\<lambda>_.
     repository_save (se_path sv) d expected file)"

definition save_replaced :: "service \<Rightarrow> execution_definition \<Rightarrow> int \<Rightarrow> pyval option \<Rightarrow> edit" where
  "save_replaced sv d expected file =
     rbind (replace_definition d) (\<lambda>d'. service_save sv d' expected file)"

definition service_get :: "service \<Rightarrow> pyval option \<Rightarrow> execution_definition res" where
  "service_get sv file = repository_load (se_path sv) file"

definition initialize :: "service \<Rightarrow> string \<Rightarrow> string \<Rightarrow> pyval option \<Rightarrow> edit" where
  "initialize sv project_id mode file =
     rbind (definition_init 1 (PStr project_id) (PInt 1) (PStr mode) default_policy [] [] [] [])
       (\<lambda>d. repository_create d file)"

definition set_mode :: "service \<Rightarrow> string \<Rightarrow> int \<Rightarrow> pyval option \<Rightarrow> edit" where
  "set_mode sv mode expected file =
     (case mode_of_value (PStr mode) of
        None \<Rightarrow> Inl (ProjectExecutionError
                  ''Project execution mode must be observe, assisted, or automatic'')
      | Some normalized \<Rightarrow>
          rbind (service_get sv file) (\<lambda>d.
          save_replaced sv (d\<lparr>pd_mode := normalized\<rparr>) expected file))"

definition set_policy :: "service \<Rightarrow> execution_policy \<Rightarrow> int \<Rightarrow> pyval option \<Rightarrow> edit" where
  "set_policy sv policy expected file =
     rbind (service_get sv file) (\<lambda>d. save_replaced sv (d\<lparr>pd_policy := policy\<rparr>) expected file)"

definition upsert_phase :: "service \<Rightarrow> project_phase \<Rightarrow> int \<Rightarrow> pyval option \<Rightarrow> edit" where
  "upsert_phase sv p expected file =
     rbind (service_get sv file) (\<lambda>d.
     save_replaced sv (d\<lparr>pd_phases := upsert ph_id (pd_phases d) p\<rparr>) expected file)"

definition upsert_gate :: "service \<Rightarrow> project_gate \<Rightarrow> int \<Rightarrow> pyval option \<Rightarrow> edit" where
  "upsert_gate sv g expected file =
     rbind (service_get sv file) (\<lambda>d.
     save_replaced sv (d\<lparr>pd_gates := upsert pg_id (pd_gates d) g\<rparr>) expected file)"

definition upsert_milestone :: "service \<Rightarrow> project_milestone \<Rightarrow> int \<Rightarrow> pyval option \<Rightarrow> edit" where
  "upsert_milestone sv m expected file =
     rbind (service_get sv file) (\<lambda>d.
     save_replaced sv (d\<lparr>pd_milestones := upsert pm_id (pd_milestones d) m\<rparr>) expected file)"

definition assigned_phases :: "project_phase list \<Rightarrow> project_task list \<Rightarrow> project_phase list res" where
  "assigned_phases phases tasks = mapr (\<lambda>p. replace_phase
     (p\<lparr>ph_tasks := map pt_task_id (filter (\<lambda>t. pt_phase t = ph_id p) tasks)\<rparr>)) phases"

definition assign_task :: "service \<Rightarrow> project_task \<Rightarrow> int \<Rightarrow> pyval option \<Rightarrow> edit" where
  "assign_task sv t expected file =
     rbind (service_get sv file) (\<lambda>d.
     (let tasks = upsert pt_task_id (pd_tasks d) t in
      rbind (assigned_phases (pd_phases d) tasks) (\<lambda>phases.
      save_replaced sv (d\<lparr>pd_tasks := tasks, pd_phases := phases\<rparr>) expected file)))"

definition remove_task :: "service \<Rightarrow> string \<Rightarrow> int \<Rightarrow> pyval option \<Rightarrow> edit" where
  "remove_task sv t expected file =
     rbind (service_get sv file) (\<lambda>d.
     if list_ex (\<lambda>x. t \<in> set (treq_tasks (pt_requires x))) (pd_tasks d)
     then Inl (ProjectExecutionError
            (''cannot unlink Task '' @ t @ '': another Project Task requires it''))
     else if list_ex (\<lambda>m. t \<in> set (mreq_tasks (pm_requires m))) (pd_milestones d)
     then Inl (ProjectExecutionError (''cannot unlink Task '' @ t @ '': a Milestone requires it''))
     else
       rbind (delete_item pt_task_id (pd_tasks d) t) (\<lambda>tasks.
       rbind (mapr (\<lambda>p. replace_phase (p\<lparr>ph_tasks := filter (\<lambda>x. x \<noteq> t) (ph_tasks p)\<rparr>))
                (pd_phases d)) (\<lambda>phases.
       save_replaced sv (d\<lparr>pd_tasks := tasks, pd_phases := phases\<rparr>) expected file)))"

definition set_task_prerequisites ::
    "service \<Rightarrow> string \<Rightarrow> task_requirements \<Rightarrow> int \<Rightarrow> pyval option \<Rightarrow> edit" where
  "set_task_prerequisites sv t requires expected file =
     rbind (service_get sv file) (\<lambda>d.
     (case map_of (task_index d) t of
        None \<Rightarrow> Inl (ProjectExecutionNotFoundError (''project Task reference not found: '' @ t))
      | Some current \<Rightarrow>
          rbind (replace_task (current\<lparr>pt_requires := requires\<rparr>)) (\<lambda>task.
          assign_task sv task expected file)))"

definition set_phase_boundaries ::
    "service \<Rightarrow> string \<Rightarrow> string list \<Rightarrow> string list \<Rightarrow> int \<Rightarrow> pyval option \<Rightarrow> edit" where
  "set_phase_boundaries sv i entry exits expected file =
     rbind (service_get sv file) (\<lambda>d.
     (case map_of (phase_index d) i of
        None \<Rightarrow> Inl (ProjectExecutionNotFoundError (''Phase not found: '' @ i))
      | Some p \<Rightarrow>
          rbind (replace_phase (p\<lparr>ph_entry_gates := entry, ph_exit_gates := exits\<rparr>)) (\<lambda>phase.
          upsert_phase sv phase expected file)))"

definition set_milestone_requirements ::
    "service \<Rightarrow> string \<Rightarrow> milestone_requirements \<Rightarrow> int \<Rightarrow> pyval option \<Rightarrow> edit" where
  "set_milestone_requirements sv i requires expected file =
     rbind (service_get sv file) (\<lambda>d.
     (case map_of (milestone_index d) i of
        None \<Rightarrow> Inl (ProjectExecutionNotFoundError (''Milestone not found: '' @ i))
      | Some m \<Rightarrow>
          rbind (replace_milestone (m\<lparr>pm_requires := requires\<rparr>)) (\<lambda>milestone.
          upsert_milestone sv milestone expected file)))"

definition delete_phase :: "service \<Rightarrow> string \<Rightarrow> int \<Rightarrow> pyval option \<Rightarrow> edit" where
  "delete_phase sv i expected file =
     rbind (service_get sv file) (\<lambda>d.
     if list_ex (\<lambda>t. pt_phase t = i) (pd_tasks d)
     then Inl (ProjectExecutionError
            (''cannot delete Phase '' @ i @ '': Tasks still reference it''))
     else rbind (delete_item ph_id (pd_phases d) i) (\<lambda>phases.
          save_replaced sv (d\<lparr>pd_phases := phases\<rparr>) expected file))"

definition gate_references :: "execution_definition \<Rightarrow> string \<Rightarrow> string list" where
  "gate_references d i =
     map (\<lambda>p. ''Phase '' @ ph_id p)
       (filter (\<lambda>p. i \<in> set (ph_entry_gates p @ ph_exit_gates p)) (pd_phases d))
     @ map (\<lambda>t. ''Task '' @ pt_task_id t)
         (filter (\<lambda>t. i \<in> set (treq_gates (pt_requires t))) (pd_tasks d))
     @ map (\<lambda>g. ''Gate '' @ pg_id g)
         (filter (\<lambda>g. list_ex (\<lambda>c. gc_gate_id c = i) (pg_criteria g)) (pd_gates d))
     @ map (\<lambda>m. ''Milestone '' @ pm_id m)
         (filter (\<lambda>m. i \<in> set (mreq_gates (pm_requires m))) (pd_milestones d))"

definition gate_has_history :: "row \<Rightarrow> bool" where
  "gate_has_history r \<longleftrightarrow> py_truthy (row_get r ''evaluation'' PNone)
     \<or> py_truthy (row_get r ''decisions'' PNone) \<or> py_truthy (row_get r ''waiver'' PNone)
     \<or> py_truthy (row_get r ''input_fingerprint'' PNone)"

definition baseline_gates :: "row \<Rightarrow> string list" where
  "baseline_gates achievement = (case as_dict (or_empty_dict (row_get achievement ''gates'' PNone)) of
      None \<Rightarrow> [] | Some gates \<Rightarrow> keys gates)"

definition assert_gate_history_removable :: "service \<Rightarrow> string \<Rightarrow> unit res" where
  "assert_gate_history_removable sv i =
     (case se_runtime sv of
        None \<Rightarrow> Inr ()
      | Some loaded \<Rightarrow> rbind loaded (\<lambda>rt.
          (let r = dget (rt_gates rt) i [] in
           if r \<noteq> [] \<and> gate_has_history r
           then Inl (ProjectExecutionError (''cannot delete Gate '' @ i
                  @ '': runtime evaluation/decision history exists''))
           else eachr (\<lambda>(m, achievement). require (i \<notin> set (baseline_gates achievement))
                  (ProjectExecutionError (''cannot delete Gate '' @ i @ '': Milestone '' @ m
                     @ '' baseline references it''))) (rt_milestone_achievements rt))))"

definition assert_milestone_history_removable :: "service \<Rightarrow> string \<Rightarrow> unit res" where
  "assert_milestone_history_removable sv i =
     (case se_runtime sv of
        None \<Rightarrow> Inr ()
      | Some loaded \<Rightarrow> rbind loaded (\<lambda>rt.
          require (i \<notin> set (keys (rt_milestone_achievements rt)))
            (ProjectExecutionError (''cannot delete Milestone '' @ i
               @ '': immutable achievement exists''))))"

definition delete_gate :: "service \<Rightarrow> string \<Rightarrow> int \<Rightarrow> pyval option \<Rightarrow> edit" where
  "delete_gate sv i expected file =
     rbind (service_get sv file) (\<lambda>d.
     if gate_references d i \<noteq> []
     then Inl (ProjectExecutionError (''cannot delete Gate '' @ i @ '': referenced by ''
            @ py_join '', '' (gate_references d i)))
     else rbind (assert_gate_history_removable sv i) (\<lambda>_.
          rbind (delete_item pg_id (pd_gates d) i) (\<lambda>gates.
          save_replaced sv (d\<lparr>pd_gates := gates\<rparr>) expected file)))"

definition milestone_references :: "execution_definition \<Rightarrow> string \<Rightarrow> string list" where
  "milestone_references d i =
     map (\<lambda>p. ''Phase '' @ ph_id p) (filter (\<lambda>p. i \<in> set (ph_milestones p)) (pd_phases d))
     @ map (\<lambda>m. ''Milestone '' @ pm_id m)
         (filter (\<lambda>m. i \<in> set (mreq_milestones (pm_requires m))) (pd_milestones d))"

definition delete_milestone :: "service \<Rightarrow> string \<Rightarrow> int \<Rightarrow> pyval option \<Rightarrow> edit" where
  "delete_milestone sv i expected file =
     rbind (service_get sv file) (\<lambda>d.
     if milestone_references d i \<noteq> []
     then Inl (ProjectExecutionError (''cannot delete Milestone '' @ i @ '': referenced by ''
            @ py_join '', '' (milestone_references d i)))
     else rbind (assert_milestone_history_removable sv i) (\<lambda>_.
          rbind (delete_item pm_id (pd_milestones d) i) (\<lambda>milestones.
          save_replaced sv (d\<lparr>pd_milestones := milestones\<rparr>) expected file)))"

section \<open>Lists of assets\<close>

lemma upsert_keys:
  "map key (upsert key xs item) = (if key item \<in> key ` set xs then map key xs else map key xs @ [key item])"
  by (induction xs) auto

lemma upsert_distinct: "distinct (map key xs) \<Longrightarrow> distinct (map key (upsert key xs item))"
  by (simp add: upsert_keys)

lemma upsert_set:
  "distinct (map key xs) \<Longrightarrow> set (upsert key xs item) = insert item {x \<in> set xs. key x \<noteq> key item}"
  by (induction xs) (auto simp: image_iff)

lemma length_filter_same: "length (filter P xs) = length xs \<longleftrightarrow> (\<forall>x \<in> set xs. P x)"
  by (metis filter_True length_filter_less less_irrefl)

lemma delete_item_Inr:
  "delete_item key xs i = Inr ys \<longleftrightarrow> (\<exists>x \<in> set xs. key x = i) \<and> ys = filter (\<lambda>x. key x \<noteq> i) xs"
proof -
  have "length (filter (\<lambda>x. key x \<noteq> i) xs) = length xs \<longleftrightarrow> \<not> (\<exists>x \<in> set xs. key x = i)"
    by (auto simp: length_filter_same)
  then show ?thesis by (auto simp: delete_item_def Let_def)
qed

section \<open>Every edit is a validated, revisioned save\<close>

text \<open>
  What all operations but \<open>initialize\<close> share: they save an edit of the definition they read,
  against the expected revision, and what they save is well-formed and is read back.
\<close>

definition saved_edit :: "service \<Rightarrow> int \<Rightarrow> pyval option \<Rightarrow> execution_definition \<Rightarrow> pyval option \<Rightarrow> bool" where
  "saved_edit sv expected file saved file' \<longleftrightarrow> (\<exists>d. repository_load (se_path sv) file = Inr d
     \<and> pd_revision d = expected \<and> pd_revision saved = expected + 1 \<and> pd_project saved = pd_project d
     \<and> definition_ok saved \<and> definition_wf saved (se_task_exists sv) \<and> definition_wf saved None
     \<and> repository_load (se_path sv) file' = Inr (sort_tasks saved))"

lemma replace_definition_Inr:
  assumes "replace_definition d = Inr d'" and "policy_ok (pd_policy d)" and "list_all phase_ok (pd_phases d)"
    and "list_all task_ok (pd_tasks d)" and "list_all gate_ok (pd_gates d)"
    and "list_all milestone_ok (pd_milestones d)"
  shows "definition_ok d'" and "pd_phases d' = pd_phases d" and "pd_tasks d' = pd_tasks d"
    and "pd_gates d' = pd_gates d" and "pd_milestones d' = pd_milestones d" and "pd_policy d' = pd_policy d"
  using assms definition_init_ok
  by (auto simp: replace_definition_def definition_init_def Let_def split: if_splits sum.splits option.splits)

lemma service_save_saved:
  assumes "service_save sv d expected file = Inr (saved, file')" and ok: "definition_ok d"
  shows "saved_edit sv expected file saved file'"
    and "saved = d\<lparr>pd_revision := expected + 1\<rparr>"
proof -
  have v: "validate_definition d (se_task_exists sv) = Inr ()"
    and s: "repository_save (se_path sv) d expected file = Inr (saved, file')"
    using assms(1) by (auto simp: service_save_def)
  have v0: "validate_definition d None = Inr ()" using s by (auto simp: repository_save_def)
  obtain current where c: "repository_load (se_path sv) file = Inr current"
    "pd_revision current = expected" "pd_project d = pd_project current"
    "saved = d\<lparr>pd_revision := expected + 1\<rparr>" "repository_load (se_path sv) file' = Inr (sort_tasks saved)"
    by (rule repository_save_Inr [OF s ok])
  have "definition_ok saved"
    using definition_ok_revision [OF ok] repository_load_facts(3) [OF c(1)] c(2,4) by simp
  moreover have "definition_wf d (se_task_exists sv)" and "definition_wf d None"
    using v v0 validate_definition_decides [OF definition_ok_unique_ids [OF ok]] by blast+
  ultimately show "saved_edit sv expected file saved file'"
    using c by (auto simp: saved_edit_def)
  show "saved = d\<lparr>pd_revision := expected + 1\<rparr>" by (rule c(4))
qed

lemma save_replaced_saved:
  assumes "save_replaced sv d expected file = Inr (saved, file')" and "policy_ok (pd_policy d)"
    and "list_all phase_ok (pd_phases d)" and "list_all task_ok (pd_tasks d)"
    and "list_all gate_ok (pd_gates d)" and "list_all milestone_ok (pd_milestones d)"
  shows "saved_edit sv expected file saved file'" and "pd_phases saved = pd_phases d"
    and "pd_tasks saved = pd_tasks d" and "pd_gates saved = pd_gates d"
    and "pd_milestones saved = pd_milestones d" and "pd_policy saved = pd_policy d"
proof -
  obtain d' where r: "replace_definition d = Inr d'" and s: "service_save sv d' expected file = Inr (saved, file')"
    using assms(1) by (auto simp: save_replaced_def)
  note d' = replace_definition_Inr [OF r assms(2-)]
  note sv = service_save_saved [OF s d'(1)]
  show "saved_edit sv expected file saved file'" by (rule sv(1))
  show "pd_phases saved = pd_phases d" "pd_tasks saved = pd_tasks d" "pd_gates saved = pd_gates d"
    "pd_milestones saved = pd_milestones d" "pd_policy saved = pd_policy d"
    using sv(2) d' by simp_all
qed

lemma loaded_parts:
  assumes "service_get sv file = Inr d"
  shows "policy_ok (pd_policy d)" "list_all phase_ok (pd_phases d)" "list_all task_ok (pd_tasks d)"
    "list_all gate_ok (pd_gates d)" "list_all milestone_ok (pd_milestones d)" "definition_ok d"
    "definition_wf d None"
  using repository_load_facts [OF assms [unfolded service_get_def]] by (auto simp: definition_ok_def)

lemma list_all_upsert: "list_all P xs \<Longrightarrow> P item \<Longrightarrow> list_all P (upsert key xs item)"
  by (induction xs) auto

lemma list_all_delete: "delete_item key xs i = Inr ys \<Longrightarrow> list_all P xs \<Longrightarrow> list_all P ys"
  by (auto simp: delete_item_Inr list_all_iff)

lemma replaced_phases_ok:
  assumes "mapr (\<lambda>p. replace_phase (f p)) ps = Inr qs" and "list_all phase_ok ps"
    and "\<And>p. ph_schedule (f p) = ph_schedule p"
  shows "list_all phase_ok qs"
proof -
  have l: "list_all2 (\<lambda>p q. replace_phase (f p) = Inr q) ps qs" using assms(1) by (simp add: mapr_Inr_iff)
  have "phase_ok (qs ! i)" if i: "i < length qs" for i
  proof -
    have r: "replace_phase (f (ps ! i)) = Inr (qs ! i)" and "i < length ps"
      using l i by (auto simp: list_all2_conv_all_nth)
    then have "schedule_ok (ph_schedule (f (ps ! i)))"
      using assms(2,3) by (simp add: list_all_length phase_ok_def)
    then show ?thesis using r unfolding replace_phase_def by (rule phase_init_ok [rotated])
  qed
  then show ?thesis by (simp add: list_all_length)
qed

datatype edit_operation =
    Edit_mode string
  | Edit_policy execution_policy
  | Edit_phase project_phase
  | Edit_gate project_gate
  | Edit_milestone project_milestone
  | Edit_assign_task project_task
  | Edit_remove_task string
  | Edit_delete_phase string
  | Edit_delete_gate string
  | Edit_delete_milestone string
  | Edit_task_prerequisites string task_requirements
  | Edit_phase_boundaries string "string list" "string list"
  | Edit_milestone_requirements string milestone_requirements

fun run_edit :: "service \<Rightarrow> edit_operation \<Rightarrow> int \<Rightarrow> pyval option \<Rightarrow> edit" where
  "run_edit sv (Edit_mode m) = set_mode sv m"
| "run_edit sv (Edit_policy p) = set_policy sv p"
| "run_edit sv (Edit_phase p) = upsert_phase sv p"
| "run_edit sv (Edit_gate g) = upsert_gate sv g"
| "run_edit sv (Edit_milestone m) = upsert_milestone sv m"
| "run_edit sv (Edit_assign_task t) = assign_task sv t"
| "run_edit sv (Edit_remove_task t) = remove_task sv t"
| "run_edit sv (Edit_delete_phase i) = delete_phase sv i"
| "run_edit sv (Edit_delete_gate i) = delete_gate sv i"
| "run_edit sv (Edit_delete_milestone i) = delete_milestone sv i"
| "run_edit sv (Edit_task_prerequisites t r) = set_task_prerequisites sv t r"
| "run_edit sv (Edit_phase_boundaries i entry exits) = set_phase_boundaries sv i entry exits"
| "run_edit sv (Edit_milestone_requirements i r) = set_milestone_requirements sv i r"

text \<open>The arguments are objects that their constructors built.\<close>

fun edit_argument_ok :: "edit_operation \<Rightarrow> bool" where
  "edit_argument_ok (Edit_policy p) = policy_ok p"
| "edit_argument_ok (Edit_phase p) = phase_ok p"
| "edit_argument_ok (Edit_gate g) = gate_ok g"
| "edit_argument_ok (Edit_milestone m) = milestone_ok m"
| "edit_argument_ok (Edit_assign_task t) = task_ok t"
| "edit_argument_ok (Edit_task_prerequisites t r) = task_requirements_ok r"
| "edit_argument_ok (Edit_milestone_requirements i r) = milestone_requirements_ok r"
| "edit_argument_ok _ = True"

lemma upsert_phase_saved:
  assumes "upsert_phase sv p expected file = Inr (saved, file')" and "phase_ok p"
  shows "saved_edit sv expected file saved file'"
proof -
  from assms obtain d where d: "service_get sv file = Inr d"
    and s: "save_replaced sv (d\<lparr>pd_phases := upsert ph_id (pd_phases d) p\<rparr>) expected file = Inr (saved, file')"
    by (auto simp: upsert_phase_def)
  show ?thesis
    by (rule save_replaced_saved [OF s]) (use loaded_parts [OF d] assms(2) in \<open>simp_all add: list_all_upsert\<close>)
qed

lemma upsert_milestone_saved:
  assumes "upsert_milestone sv m expected file = Inr (saved, file')" and "milestone_ok m"
  shows "saved_edit sv expected file saved file'"
proof -
  from assms obtain d where d: "service_get sv file = Inr d"
    and s: "save_replaced sv (d\<lparr>pd_milestones := upsert pm_id (pd_milestones d) m\<rparr>) expected file = Inr (saved, file')"
    by (auto simp: upsert_milestone_def)
  show ?thesis
    by (rule save_replaced_saved [OF s]) (use loaded_parts [OF d] assms(2) in \<open>simp_all add: list_all_upsert\<close>)
qed

lemma assign_task_saved:
  assumes "assign_task sv t expected file = Inr (saved, file')" and "task_ok t"
  shows "saved_edit sv expected file saved file'"
proof -
  from assms obtain d phases where d: "service_get sv file = Inr d"
    and p: "assigned_phases (pd_phases d) (upsert pt_task_id (pd_tasks d) t) = Inr phases"
    and s: "save_replaced sv (d\<lparr>pd_tasks := upsert pt_task_id (pd_tasks d) t, pd_phases := phases\<rparr>) expected file
      = Inr (saved, file')"
    by (auto simp: assign_task_def Let_def)
  have "list_all phase_ok phases"
    by (rule replaced_phases_ok [OF p [unfolded assigned_phases_def] loaded_parts(2) [OF d]]) simp
  then show ?thesis
    by (intro save_replaced_saved [OF s]) (use loaded_parts [OF d] assms(2) in \<open>simp_all add: list_all_upsert\<close>)
qed

text \<open>The three edits of one field read the asset, replace it and go through the edits above.\<close>

lemma set_task_prerequisites_saved:
  assumes "set_task_prerequisites sv t r expected file = Inr (saved, file')" and "task_requirements_ok r"
  shows "saved_edit sv expected file saved file'"
proof -
  from assms(1) obtain current task where r: "replace_task (current\<lparr>pt_requires := r\<rparr>) = Inr task"
    and s: "assign_task sv task expected file = Inr (saved, file')"
    by (auto simp: set_task_prerequisites_def split: option.splits)
  have "task_ok task" using task_init_ok [OF r [unfolded replace_task_def]] assms(2) by simp
  then show ?thesis by (rule assign_task_saved [OF s])
qed

lemma set_phase_boundaries_saved:
  assumes "set_phase_boundaries sv i entry exits expected file = Inr (saved, file')"
  shows "saved_edit sv expected file saved file'"
proof -
  from assms obtain d p phase where d: "service_get sv file = Inr d" and p: "map_of (phase_index d) i = Some p"
    and r: "replace_phase (p\<lparr>ph_entry_gates := entry, ph_exit_gates := exits\<rparr>) = Inr phase"
    and s: "upsert_phase sv phase expected file = Inr (saved, file')"
    by (auto simp: set_phase_boundaries_def split: option.splits)
  have "p \<in> set (pd_phases d)"
    using p phase_index_Some [OF definition_ok_unique_ids [OF loaded_parts(6) [OF d]]] by blast
  then have "schedule_ok (ph_schedule p)"
    using loaded_parts(2) [OF d] by (auto simp: list_all_iff phase_ok_def)
  then have "phase_ok phase" using phase_init_ok [OF r [unfolded replace_phase_def]] by simp
  then show ?thesis by (rule upsert_phase_saved [OF s])
qed

lemma set_milestone_requirements_saved:
  assumes "set_milestone_requirements sv i r expected file = Inr (saved, file')" and "milestone_requirements_ok r"
  shows "saved_edit sv expected file saved file'"
proof -
  from assms(1) obtain m milestone where r: "replace_milestone (m\<lparr>pm_requires := r\<rparr>) = Inr milestone"
    and s: "upsert_milestone sv milestone expected file = Inr (saved, file')"
    by (auto simp: set_milestone_requirements_def split: option.splits)
  have "milestone_ok milestone" using milestone_init_ok [OF r [unfolded replace_milestone_def]] assms(2) by simp
  then show ?thesis by (rule upsert_milestone_saved [OF s])
qed

lemma run_edit_saved:
  assumes "run_edit sv op expected file = Inr (saved, file')" and "edit_argument_ok op"
  shows "saved_edit sv expected file saved file'"
proof (cases op)
  case (Edit_mode m)
  with assms obtain mode d where d: "service_get sv file = Inr d"
    and s: "save_replaced sv (d\<lparr>pd_mode := mode\<rparr>) expected file = Inr (saved, file')"
    by (auto simp: set_mode_def split: option.splits)
  show ?thesis by (rule save_replaced_saved [OF s]) (use loaded_parts [OF d] in simp_all)
next
  case (Edit_policy p)
  with assms obtain d where d: "service_get sv file = Inr d"
    and s: "save_replaced sv (d\<lparr>pd_policy := p\<rparr>) expected file = Inr (saved, file')"
    by (auto simp: set_policy_def)
  show ?thesis by (rule save_replaced_saved [OF s]) (use loaded_parts [OF d] assms(2) Edit_policy in simp_all)
next
  case (Edit_phase p)
  then show ?thesis using assms upsert_phase_saved by simp
next
  case (Edit_gate g)
  with assms obtain d where d: "service_get sv file = Inr d"
    and s: "save_replaced sv (d\<lparr>pd_gates := upsert pg_id (pd_gates d) g\<rparr>) expected file = Inr (saved, file')"
    by (auto simp: upsert_gate_def)
  show ?thesis
    by (rule save_replaced_saved [OF s]) (use loaded_parts [OF d] assms(2) Edit_gate in \<open>simp_all add: list_all_upsert\<close>)
next
  case (Edit_milestone m)
  then show ?thesis using assms upsert_milestone_saved by simp
next
  case (Edit_assign_task t)
  then show ?thesis using assms assign_task_saved by simp
next
  case (Edit_task_prerequisites t r)
  then show ?thesis using assms set_task_prerequisites_saved by simp
next
  case (Edit_phase_boundaries i entry exits)
  then show ?thesis using assms set_phase_boundaries_saved by simp
next
  case (Edit_milestone_requirements i r)
  then show ?thesis using assms set_milestone_requirements_saved by simp
next
  case (Edit_remove_task t)
  with assms obtain d tasks phases where d: "service_get sv file = Inr d"
    and t: "delete_item pt_task_id (pd_tasks d) t = Inr tasks"
    and p: "mapr (\<lambda>p. replace_phase (p\<lparr>ph_tasks := filter (\<lambda>x. x \<noteq> t) (ph_tasks p)\<rparr>)) (pd_phases d) = Inr phases"
    and s: "save_replaced sv (d\<lparr>pd_tasks := tasks, pd_phases := phases\<rparr>) expected file = Inr (saved, file')"
    by (auto simp: remove_task_def split: if_splits)
  have "list_all phase_ok phases" by (rule replaced_phases_ok [OF p loaded_parts(2) [OF d]]) simp
  then show ?thesis
    by (intro save_replaced_saved [OF s])
      (use loaded_parts [OF d] list_all_delete [OF t] in simp_all)
next
  case (Edit_delete_phase i)
  with assms obtain d ps where d: "service_get sv file = Inr d" and x: "delete_item ph_id (pd_phases d) i = Inr ps"
    and s: "save_replaced sv (d\<lparr>pd_phases := ps\<rparr>) expected file = Inr (saved, file')"
    by (auto simp: delete_phase_def split: if_splits)
  show ?thesis by (rule save_replaced_saved [OF s]) (use loaded_parts [OF d] list_all_delete [OF x] in simp_all)
next
  case (Edit_delete_gate i)
  with assms obtain d gs where d: "service_get sv file = Inr d" and x: "delete_item pg_id (pd_gates d) i = Inr gs"
    and s: "save_replaced sv (d\<lparr>pd_gates := gs\<rparr>) expected file = Inr (saved, file')"
    by (auto simp: delete_gate_def split: if_splits)
  show ?thesis by (rule save_replaced_saved [OF s]) (use loaded_parts [OF d] list_all_delete [OF x] in simp_all)
next
  case (Edit_delete_milestone i)
  with assms obtain d ms where d: "service_get sv file = Inr d" and x: "delete_item pm_id (pd_milestones d) i = Inr ms"
    and s: "save_replaced sv (d\<lparr>pd_milestones := ms\<rparr>) expected file = Inr (saved, file')"
    by (auto simp: delete_milestone_def split: if_splits)
  show ?thesis by (rule save_replaced_saved [OF s]) (use loaded_parts [OF d] list_all_delete [OF x] in simp_all)
qed

section \<open>Audit history survives edits\<close>

lemma delete_gate_history:
  assumes "delete_gate sv i expected file = Inr (saved, file')" and "se_runtime sv = Some (Inr rt)"
  shows "\<not> gate_has_history (dget (rt_gates rt) i [])"
    and "(m, achievement) \<in> set (rt_milestone_achievements rt) \<Longrightarrow> i \<notin> set (baseline_gates achievement)"
proof -
  have a: "assert_gate_history_removable sv i = Inr ()"
    using assms(1) by (auto simp: delete_gate_def split: if_splits)
  have "\<not> gate_has_history []" by (simp add: gate_has_history_def)
  then show "\<not> gate_has_history (dget (rt_gates rt) i [])"
    using a assms(2) by (auto simp: assert_gate_history_removable_def Let_def split: if_splits)
  show "(m, achievement) \<in> set (rt_milestone_achievements rt) \<Longrightarrow> i \<notin> set (baseline_gates achievement)"
    using a assms(2)
    by (fastforce simp: assert_gate_history_removable_def Let_def eachr_Inr_iff split: if_splits)
qed

lemma delete_milestone_history:
  assumes "delete_milestone sv i expected file = Inr (saved, file')" and "se_runtime sv = Some (Inr rt)"
  shows "map_of (rt_milestone_achievements rt) i = None"
proof -
  have "assert_milestone_history_removable sv i = Inr ()"
    using assms(1) by (auto simp: delete_milestone_def split: if_splits)
  then show ?thesis
    using assms(2) by (simp add: assert_milestone_history_removable_def map_of_eq_None_iff)
qed

end
