(* ===== verification/Exec_Action.thy ===== *)
theory Exec_Action
  imports Exec_Prelude
begin

text \<open>
  Operations on a state that return a value or raise, and keep what they did to the state before
  raising: the sequencing the engine and the delivery service are written in, frames for what an
  operation leaves alone, and triples with one postcondition for returning and one for raising.
\<close>

section \<open>Operations with effects and exceptions\<close>

type_synonym ('s, 'a) action = "'s \<Rightarrow> 'a res \<times> 's"

definition ereturn :: "'a \<Rightarrow> ('s, 'a) action" where
  "ereturn x s = (Inr x, s)"

definition eraise :: "py_error \<Rightarrow> ('s, 'a) action" where
  "eraise e s = (Inl e, s)"

definition elift :: "'a res \<Rightarrow> ('s, 'a) action" where
  "elift r s = (r, s)"

definition ebind :: "('s, 'a) action \<Rightarrow> ('a \<Rightarrow> ('s, 'b) action) \<Rightarrow> ('s, 'b) action" where
  "ebind m f s = (case m s of (Inl e, s') \<Rightarrow> (Inl e, s') | (Inr x, s') \<Rightarrow> f x s')"

text \<open>\<open>try: ... except Exception as exc\<close>, with the outcome as a value.\<close>

definition eattempt :: "('s, 'a) action \<Rightarrow> ('s, 'a res) action" where
  "eattempt m s = (case m s of (r, s') \<Rightarrow> (Inr r, s'))"

definition eget :: "('s \<Rightarrow> 'a) \<Rightarrow> ('s, 'a) action" where
  "eget f s = (Inr (f s), s)"

fun eeach :: "('a \<Rightarrow> ('s, unit) action) \<Rightarrow> 'a list \<Rightarrow> ('s, unit) action" where
  "eeach f [] = ereturn ()"
| "eeach f (x # xs) = ebind (f x) (\<lambda>_. eeach f xs)"

definition ewhen :: "bool \<Rightarrow> ('s, unit) action \<Rightarrow> ('s, unit) action" where
  "ewhen b m = (if b then m else ereturn ())"

section \<open>Running\<close>

lemma ereturn_run [simp]: "ereturn x s = (Inr x, s)"
  by (simp add: ereturn_def)

lemma eraise_run [simp]: "eraise e s = (Inl e, s)"
  by (simp add: eraise_def)

lemma elift_run [simp]: "elift r s = (r, s)"
  by (simp add: elift_def)

lemma eget_run [simp]: "eget f s = (Inr (f s), s)"
  by (simp add: eget_def)

lemma ebind_run_Inr [simp]: "m s = (Inr x, s') \<Longrightarrow> ebind m f s = f x s'"
  by (simp add: ebind_def)

lemma ebind_run_Inl [simp]: "m s = (Inl e, s') \<Longrightarrow> ebind m f s = (Inl e, s')"
  by (simp add: ebind_def)

lemma ebind_InrE:
  assumes "ebind m f s = (Inr y, s'')"
  obtains x s' where "m s = (Inr x, s')" and "f x s' = (Inr y, s'')"
  using assms by (auto simp: ebind_def split: prod.splits sum.splits)

section \<open>Frames\<close>

text \<open>
  What an operation leaves alone, or how it moves the state, whether it returns or raises, as
  a reflexive and transitive relation between the states before and after.
\<close>

locale frame =
  fixes R :: "'s \<Rightarrow> 's \<Rightarrow> bool"
  assumes R_refl [simp]: "R s s"
    and R_trans: "R s s' \<Longrightarrow> R s' s'' \<Longrightarrow> R s s''"
begin

definition keeps :: "('s, 'a) action \<Rightarrow> bool" where
  "keeps m \<longleftrightarrow> (\<forall>s. R s (snd (m s)))"

lemma keepsD: "keeps m \<Longrightarrow> m s = (r, s') \<Longrightarrow> R s s'"
  by (auto simp: keeps_def dest: spec [of _ s])

lemma keeps_pure [simp, intro]: "keeps (ereturn x)" "keeps (eraise e)" "keeps (elift r)" "keeps (eget f)"
  by (simp_all add: keeps_def)

lemma keeps_ebind [intro]: "keeps m \<Longrightarrow> (\<And>x. keeps (f x)) \<Longrightarrow> keeps (ebind m f)"
  unfolding keeps_def ebind_def by (auto split: prod.splits sum.splits) (metis R_trans snd_conv)+

lemma keeps_eattempt [intro]: "keeps m \<Longrightarrow> keeps (eattempt m)"
  by (auto simp: keeps_def eattempt_def split: prod.splits) (metis snd_conv)

lemma keeps_eeach [intro]: "(\<And>x. keeps (f x)) \<Longrightarrow> keeps (eeach f xs)"
  by (induction xs) auto

lemma keeps_ewhen [intro]: "keeps m \<Longrightarrow> keeps (ewhen b m)"
  by (simp add: ewhen_def)

lemma keeps_if [intro]: "keeps m \<Longrightarrow> keeps m' \<Longrightarrow> keeps (if b then m else m')"
  by simp

lemma keeps_option [intro]:
  "keeps m \<Longrightarrow> (\<And>y. keeps (f y)) \<Longrightarrow> keeps (case x of None \<Rightarrow> m | Some y \<Rightarrow> f y)"
  by (cases x) simp_all

lemma keeps_sum [intro]:
  "(\<And>y. keeps (f y)) \<Longrightarrow> (\<And>y. keeps (g y)) \<Longrightarrow> keeps (case x of Inl y \<Rightarrow> f y | Inr y \<Rightarrow> g y)"
  by (cases x) simp_all

lemma keeps_prod [intro]: "(\<And>y z. keeps (f y z)) \<Longrightarrow> keeps (case x of (y, z) \<Rightarrow> f y z)"
  by (cases x) simp

end

section \<open>Triples\<close>

definition triple ::
    "('s \<Rightarrow> bool) \<Rightarrow> ('s, 'a) action \<Rightarrow> ('a \<Rightarrow> 's \<Rightarrow> bool) \<Rightarrow> ('s \<Rightarrow> bool) \<Rightarrow> bool" where
  "triple P m Q E \<longleftrightarrow> (\<forall>s. P s \<longrightarrow> (case m s of (Inl e, s') \<Rightarrow> E s' | (Inr x, s') \<Rightarrow> Q x s'))"

lemma tripleI: "(\<And>s r s'. P s \<Longrightarrow> m s = (r, s') \<Longrightarrow> case r of Inl e \<Rightarrow> E s' | Inr x \<Rightarrow> Q x s') \<Longrightarrow> triple P m Q E"
  by (auto simp: triple_def split: prod.splits sum.splits)

lemma tripleD_Inr: "triple P m Q E \<Longrightarrow> P s \<Longrightarrow> m s = (Inr x, s') \<Longrightarrow> Q x s'"
  by (fastforce simp: triple_def)

lemma tripleD_Inl: "triple P m Q E \<Longrightarrow> P s \<Longrightarrow> m s = (Inl e, s') \<Longrightarrow> E s'"
  by (fastforce simp: triple_def)

lemma triple_bind: "triple P m R E \<Longrightarrow> (\<And>x. triple (R x) (f x) Q E) \<Longrightarrow> triple P (ebind m f) Q E"
  by (fastforce simp: triple_def ebind_def split: prod.splits sum.splits)

lemma triple_weaken:
  "triple P' m Q' E' \<Longrightarrow> (\<And>s. P s \<Longrightarrow> P' s) \<Longrightarrow> (\<And>x s. Q' x s \<Longrightarrow> Q x s) \<Longrightarrow> (\<And>s. E' s \<Longrightarrow> E s)
     \<Longrightarrow> triple P m Q E"
  by (fastforce simp: triple_def split: prod.splits sum.splits)

lemma triple_pure:
  "(\<And>s. P s \<Longrightarrow> Q x s) \<Longrightarrow> triple P (ereturn x) Q E" "(\<And>s. P s \<Longrightarrow> E s) \<Longrightarrow> triple P (eraise e) Q E"
  "(\<And>s. P s \<Longrightarrow> Q (f s) s) \<Longrightarrow> triple P (eget f) Q E"
  by (simp_all add: triple_def)

lemma triple_elift: "(\<And>s x. r = Inr x \<Longrightarrow> P s \<Longrightarrow> Q x s) \<Longrightarrow> (\<And>s. P s \<Longrightarrow> E s) \<Longrightarrow> triple P (elift r) Q E"
  by (simp add: triple_def split: sum.splits)

lemma triple_attempt:
  assumes "triple P m (\<lambda>x. Q (Inr x)) F" and "\<And>e s. F s \<Longrightarrow> Q (Inl e) s"
  shows "triple P (eattempt m) Q E"
  unfolding triple_def eattempt_def
proof (intro allI impI)
  fix s assume "P s"
  with assms show "case case m s of (r, s') \<Rightarrow> (Inr r, s') of (Inl e, s') \<Rightarrow> E s' | (Inr x, s') \<Rightarrow> Q x s'"
    by (cases "m s"; cases "fst (m s)") (auto simp: triple_def dest!: spec [of _ s])
qed

lemma triple_if: "(b \<Longrightarrow> triple P m Q E) \<Longrightarrow> (\<not> b \<Longrightarrow> triple P m' Q E) \<Longrightarrow> triple P (if b then m else m') Q E"
  by simp

lemma triple_conj_pre: "(b \<Longrightarrow> triple P m Q E) \<Longrightarrow> triple (\<lambda>s. b \<and> P s) m Q E"
  by (auto simp: triple_def)

lemma triple_ex: "(\<And>y. triple (P y) m Q E) \<Longrightarrow> triple (\<lambda>s. \<exists>y. P y s) m Q E"
  unfolding triple_def by (metis (mono_tags))

end
