(* ===== verification/Exec_Automatic.thy ===== *)
theory Exec_Automatic
  imports Exec_Milestones "HOL-Library.Sublist"
begin

text \<open>
  \<open>project_execution/automatic.py\<close> and the intent vocabulary it shares with
  \<open>recovery.py\<close> and \<open>engine.py\<close>: which start intents are unresolved, the capacity they and
  the running Tasks occupy, and the side-effect-free selection of the Tasks to start. A status
  that is not a text counts as unresolved (an unhashable one would raise \<open>TypeError\<close> in Python).
\<close>

section \<open>Start intents and observations\<close>

definition resolved_intent_states :: "string list" where
  "resolved_intent_states = [''resolved'', ''failed'', ''superseded'']"

definition start_intent :: "row \<Rightarrow> bool" where
  "start_intent i \<longleftrightarrow> row_get i ''kind'' PNone = PStr ''start_task''"

definition intent_resolved :: "row \<Rightarrow> bool" where
  "intent_resolved i = (case row_get i ''status'' PNone of
      PStr s \<Rightarrow> s \<in> set resolved_intent_states | _ \<Rightarrow> False)"

definition intent_task :: "row \<Rightarrow> string" where
  "intent_task i = row_get_str i ''task_id'' []"

definition observed_outcome :: "runtime_state \<Rightarrow> string \<Rightarrow> task_outcome" where
  "observed_outcome rt t =
     (case outcome_of_value (row_get_str (dget (rt_observed_tasks rt) t []) ''outcome'' []) of
        None \<Rightarrow> Outcome_UNKNOWN | Some oc \<Rightarrow> oc)"

definition reserved_tasks :: "runtime_state \<Rightarrow> string list" where
  "reserved_tasks rt =
     (let reserved = map intent_task (filter (\<lambda>i. start_intent i \<and> \<not> intent_resolved i
                       \<and> intent_task i \<noteq> []) (map snd (rt_intents rt)))
      in sort (remdups (filter (\<lambda>t. observed_outcome rt t = Outcome_NOT_STARTED) reserved)))"

section \<open>The planner\<close>

record automatic_capacity =
  ac_global_limit :: int
  ac_occupied_global :: int
  ac_available_global :: int
  ac_active_phase_limit :: int
  ac_active_phases :: "string list"
  ac_per_phase_limit :: int
  ac_occupied_by_phase :: "int pydict"

definition capacity_as_mapping :: "automatic_capacity \<Rightarrow> row" where
  "capacity_as_mapping c =
     [(''global_limit'', PInt (ac_global_limit c)),
      (''occupied_global'', PInt (ac_occupied_global c)),
      (''available_global'', PInt (ac_available_global c)),
      (''active_phase_limit'', PInt (ac_active_phase_limit c)),
      (''active_phases'', strs (ac_active_phases c)),
      (''per_phase_limit'', PInt (ac_per_phase_limit c)),
      (''occupied_by_phase'', PDict (map (\<lambda>(k, v). (k, PInt v)) (ac_occupied_by_phase c)))]"

record start_plan =
  sp_task_ids :: "string list"
  sp_capacity :: automatic_capacity
  sp_policy_blocked :: "string pydict"
  sp_reserved_tasks :: "string list"

definition plan_as_mapping :: "start_plan \<Rightarrow> row" where
  "plan_as_mapping p =
     [(''task_ids'', strs (sp_task_ids p)),
      (''capacity'', PDict (capacity_as_mapping (sp_capacity p))),
      (''policy_blocked'', PDict (map (\<lambda>(k, v). (k, PStr v)) (sp_policy_blocked p))),
      (''reserved_tasks'', strs (sp_reserved_tasks p))]"

definition running_tasks :: "execution_definition \<Rightarrow> runtime_state \<Rightarrow> string list" where
  "running_tasks d rt = filter (\<lambda>t. observed_outcome rt t = Outcome_RUNNING) (map pt_task_id (pd_tasks d))"

text \<open>\<open>running | set(reserved)\<close>, a set: a list without repetitions.\<close>

definition occupied_tasks :: "execution_definition \<Rightarrow> runtime_state \<Rightarrow> string list" where
  "occupied_tasks d rt = remdups (running_tasks d rt @ reserved_tasks rt)"

definition phase_by_task :: "execution_definition \<Rightarrow> string pydict" where
  "phase_by_task d = py_dict (map (\<lambda>t. (pt_task_id t, pt_phase t)) (pd_tasks d))"

definition counts_by_phase :: "string list \<Rightarrow> string pydict \<Rightarrow> int pydict" where
  "counts_by_phase ts phases = foldl (\<lambda>counts t. case map_of phases t of
      None \<Rightarrow> counts
    | Some p \<Rightarrow> dset p (dget counts p 0 + 1) counts) [] ts"

definition active_phases ::
    "execution_definition \<Rightarrow> runtime_state \<Rightarrow> phase_projection pydict \<Rightarrow> string list" where
  "active_phases d rt phases = remdups
     (map fst (filter (\<lambda>(i, p). pp_state p = Phase_ACTIVE) phases)
      @ List.map_filter (map_of (phase_by_task d)) (reserved_tasks rt))"

text \<open>The loop's local variables, and one iteration; after the break nothing changes.\<close>

record plan_state =
  ps_available :: int
  ps_candidates :: "string list"
  ps_blocked :: "string pydict"
  ps_by_phase :: "int pydict"
  ps_phases :: "string list"

definition block :: "string \<Rightarrow> string \<Rightarrow> plan_state \<Rightarrow> plan_state" where
  "block t why st = st\<lparr>ps_blocked := dset t why (ps_blocked st)\<rparr>"

definition enter_phase :: "string \<Rightarrow> plan_state \<Rightarrow> plan_state" where
  "enter_phase p st = (if p \<in> set (ps_phases st) then st
                       else st\<lparr>ps_phases := ps_phases st @ [p]\<rparr>)"

definition select_task :: "execution_definition \<Rightarrow> string \<Rightarrow> string \<Rightarrow> plan_state \<Rightarrow> plan_state" where
  "select_task d p t st =
     (let phase_occupied = dget (ps_by_phase st) p 0
      in if phase_occupied \<ge> maximum_parallel_tasks_per_phase (pd_policy d)
         then block t ''maximum_parallel_tasks_per_phase would be exceeded'' st
         else st\<lparr>ps_candidates := ps_candidates st @ [t],
                  ps_by_phase := dset p (phase_occupied + 1) (ps_by_phase st),
                  ps_available := ps_available st - 1\<rparr>)"

definition plan_step ::
    "execution_definition \<Rightarrow> string list \<Rightarrow> eligibility_result pydict \<Rightarrow> phase_projection pydict
       \<Rightarrow> plan_state \<Rightarrow> string \<Rightarrow> plan_state res" where
  "plan_step d occupied eligibility phases st t =
     (if ps_available st \<le> 0 then Inr st
      else if \<not> eligible_in eligibility t then Inr st
      else if t \<in> set occupied then Inr (block t ''Task has an unresolved or running start'' st)
      else (case map_of (phase_by_task d) t of
        None \<Rightarrow> Inl (KeyError t)
      | Some p \<Rightarrow> (case map_of phases p of
            None \<Rightarrow> Inl (KeyError p)
          | Some projection \<Rightarrow>
              if pp_state projection \<notin> {Phase_READY, Phase_ACTIVE}
              then Inr (block t (''Phase '' @ p @ '' is '' @ phase_state_value (pp_state projection)
                     @ '' and cannot start new Tasks'') st)
              else if p \<notin> set (ps_phases st)
                \<and> int (length (ps_phases st)) \<ge> maximum_active_phases (pd_policy d)
              then Inr (block t ''maximum_active_phases would be exceeded'' st)
              else Inr (select_task d p t (enter_phase p st)))))"

definition plan_start ::
    "execution_definition \<Rightarrow> runtime_state \<Rightarrow> phase_projection pydict \<Rightarrow> plan_state" where
  "plan_start d rt phases =
     (let occupied = occupied_tasks d rt in
      \<lparr>ps_available = max 0 (maximum_parallel_tasks (pd_policy d) - int (length occupied)),
       ps_candidates = [], ps_blocked = [],
       ps_by_phase = counts_by_phase occupied (phase_by_task d),
       ps_phases = active_phases d rt phases\<rparr>)"

definition automatic_plan ::
    "execution_definition \<Rightarrow> runtime_state \<Rightarrow> eligibility_result pydict \<Rightarrow> phase_projection pydict
       \<Rightarrow> start_plan res" where
  "automatic_plan d rt eligibility phases =
     (let occupied = occupied_tasks d rt;
          occupied_by_phase = counts_by_phase occupied (phase_by_task d)
      in rbind (topological_order (task_graph d) ''Task dependency graph'') (\<lambda>order.
         rbind (foldr_res (plan_step d occupied eligibility phases) (plan_start d rt phases) order) (\<lambda>st.
         Inr \<lparr>sp_task_ids = ps_candidates st,
              sp_capacity =
                \<lparr>ac_global_limit = maximum_parallel_tasks (pd_policy d),
                 ac_occupied_global = int (length occupied),
                 ac_available_global =
                   max 0 (maximum_parallel_tasks (pd_policy d) - int (length occupied)),
                 ac_active_phase_limit = maximum_active_phases (pd_policy d),
                 ac_active_phases = sort (active_phases d rt phases),
                 ac_per_phase_limit = maximum_parallel_tasks_per_phase (pd_policy d),
                 ac_occupied_by_phase = sort_key fst occupied_by_phase\<rparr>,
              sp_policy_blocked = ps_blocked st,
              sp_reserved_tasks = reserved_tasks rt\<rparr>)))"

section \<open>Reservations\<close>

lemma reserved_tasks_iff:
  "t \<in> set (reserved_tasks rt) \<longleftrightarrow> t \<noteq> [] \<and> observed_outcome rt t = Outcome_NOT_STARTED
     \<and> (\<exists>k i. (k, i) \<in> set (rt_intents rt) \<and> start_intent i \<and> \<not> intent_resolved i \<and> intent_task i = t)"
  by (auto simp: reserved_tasks_def Let_def image_iff) force

lemma distinct_occupied [simp]: "distinct (occupied_tasks d rt)"
  by (simp add: occupied_tasks_def)

lemma occupied_tasks_iff:
  "t \<in> set (occupied_tasks d rt) \<longleftrightarrow>
     t \<in> set (task_ids d) \<and> observed_outcome rt t = Outcome_RUNNING \<or> t \<in> set (reserved_tasks rt)"
  by (auto simp: occupied_tasks_def running_tasks_def task_ids_def)

text \<open>\<open>counts_by_phase\<close> counts the members of each phase.\<close>

lemma counts_by_phase_count:
  "dget (counts_by_phase ts phases) p 0 = int (length (filter (\<lambda>t. map_of phases t = Some p) ts))"
proof -
  have "dget (foldl (\<lambda>counts t. case map_of phases t of None \<Rightarrow> counts
      | Some p \<Rightarrow> dset p (dget counts p 0 + 1) counts) c ts) p 0
    = dget c p 0 + int (length (filter (\<lambda>t. map_of phases t = Some p) ts))" for c
    by (induction ts arbitrary: c) (auto split: option.splits)
  from this [of "[]"] show ?thesis by (simp add: counts_by_phase_def)
qed

lemma map_of_phase_by_task:
  "unique_ids d \<Longrightarrow> map_of (phase_by_task d) t = Some p
     \<longleftrightarrow> (\<exists>x \<in> set (pd_tasks d). pt_task_id x = t \<and> pt_phase x = p)"
  unfolding phase_by_task_def by (subst map_of_index) (auto dest: unique_idsD)

section \<open>Capacity\<close>

definition phase_of :: "execution_definition \<Rightarrow> string \<Rightarrow> string" where
  "phase_of d t = the (map_of (phase_by_task d) t)"

definition in_phase :: "execution_definition \<Rightarrow> string \<Rightarrow> string list \<Rightarrow> nat" where
  "in_phase d p ts = length (filter (\<lambda>t. map_of (phase_by_task d) t = Some p) ts)"

text \<open>What holds of every selected Task, and of the loop's counters.\<close>

definition startable ::
    "execution_definition \<Rightarrow> string list \<Rightarrow> eligibility_result pydict \<Rightarrow> phase_projection pydict
       \<Rightarrow> string \<Rightarrow> bool" where
  "startable d occupied eligibility phases t \<longleftrightarrow> eligible_in eligibility t \<and> t \<notin> set occupied
     \<and> (\<exists>p projection. map_of (phase_by_task d) t = Some p \<and> map_of phases p = Some projection
          \<and> pp_state projection \<in> {Phase_READY, Phase_ACTIVE})"

definition plan_inv ::
    "execution_definition \<Rightarrow> string list \<Rightarrow> eligibility_result pydict \<Rightarrow> phase_projection pydict
       \<Rightarrow> plan_state \<Rightarrow> plan_state \<Rightarrow> bool" where
  "plan_inv d occupied eligibility phases st0 st \<longleftrightarrow>
     (\<forall>t \<in> set (ps_candidates st). startable d occupied eligibility phases t)
     \<and> ps_available st + int (length (ps_candidates st)) = ps_available st0 \<and> 0 \<le> ps_available st
     \<and> (\<forall>p. dget (ps_by_phase st) p 0 = dget (ps_by_phase st0) p 0 + int (in_phase d p (ps_candidates st)))
     \<and> (\<forall>p. 0 < in_phase d p (ps_candidates st) \<longrightarrow> p \<in> set (ps_phases st)
          \<and> dget (ps_by_phase st) p 0 \<le> maximum_parallel_tasks_per_phase (pd_policy d))
     \<and> distinct (ps_phases st) \<and> set (ps_phases st0) \<subseteq> set (ps_phases st)
     \<and> int (length (ps_phases st)) \<le> max (int (length (ps_phases st0))) (maximum_active_phases (pd_policy d))"

lemma in_phase_snoc [simp]:
  "in_phase d p (ts @ [t]) = in_phase d p ts + (if map_of (phase_by_task d) t = Some p then 1 else 0)"
  by (simp add: in_phase_def)

lemma plan_inv_block [simp]:
  "plan_inv d occ el ph st0 (block t why st) = plan_inv d occ el ph st0 st"
  by (simp add: plan_inv_def block_def)

lemma block_candidates [simp]: "ps_candidates (block t why st) = ps_candidates st"
  by (simp add: block_def)

lemma plan_inv_enter:
  assumes "plan_inv d occ el ph st0 st"
    and "p \<notin> set (ps_phases st) \<longrightarrow> int (length (ps_phases st)) < maximum_active_phases (pd_policy d)"
  shows "plan_inv d occ el ph st0 (enter_phase p st)"
  using assms by (auto simp: plan_inv_def enter_phase_def)

lemma plan_inv_select:
  assumes inv: "plan_inv d occ el ph st0 st" and s: "startable d occ el ph t"
    and p: "map_of (phase_by_task d) t = Some p" "p \<in> set (ps_phases st)" and a: "0 < ps_available st"
  shows "plan_inv d occ el ph st0 (select_task d p t st)"
proof (cases "dget (ps_by_phase st) p 0 \<ge> maximum_parallel_tasks_per_phase (pd_policy d)")
  case True
  then show ?thesis using inv by (simp add: select_task_def Let_def)
next
  case False
  then show ?thesis
    using inv s p a unfolding plan_inv_def select_task_def Let_def
    by (intro conjI allI impI ballI) (auto split: if_splits)
qed

lemma enter_phase_simps [simp]:
  "p \<in> set (ps_phases (enter_phase p st))" "ps_available (enter_phase p st) = ps_available st"
  "ps_candidates (enter_phase p st) = ps_candidates st"
  by (simp_all add: enter_phase_def)

lemma select_task_candidates:
  "ps_candidates (select_task d p t st) = ps_candidates st
     \<or> ps_candidates (select_task d p t st) = ps_candidates st @ [t]"
  by (simp add: select_task_def Let_def)

lemma plan_step_Inr:
  assumes "plan_step d occ el ph st t = Inr st'"
  obtains (same) "st' = st" | (blocked) why where "st' = block t why st"
  | (selected) p where "st' = select_task d p t (enter_phase p st)" and "startable d occ el ph t"
      and "map_of (phase_by_task d) t = Some p" and "0 < ps_available st"
      and "p \<notin> set (ps_phases st) \<longrightarrow> int (length (ps_phases st)) < maximum_active_phases (pd_policy d)"
  using assms by (auto simp: plan_step_def startable_def split: if_splits option.splits) blast+

lemma plan_step_cases:
  assumes step: "plan_step d occ el ph st t = Inr st'" and inv: "plan_inv d occ el ph st0 st"
  shows "plan_inv d occ el ph st0 st'
    \<and> (ps_candidates st' = ps_candidates st \<or> ps_candidates st' = ps_candidates st @ [t])"
  using step
proof (cases rule: plan_step_Inr)
  case (selected p)
  have "plan_inv d occ el ph st0 st'"
    unfolding selected(1)
    by (rule plan_inv_select [OF plan_inv_enter [OF inv selected(5)] selected(2,3)])
      (use selected(4) in simp_all)
  then show ?thesis using select_task_candidates [of d p t "enter_phase p st"] selected(1) by simp
qed (use inv in simp_all)

lemma plan_loop:
  assumes "foldr_res (plan_step d occ el ph) st ts = Inr st'" and "plan_inv d occ el ph st0 st"
  shows "plan_inv d occ el ph st0 st' \<and> (\<exists>ys. subseq ys ts \<and> ps_candidates st' = ps_candidates st @ ys)"
  using assms
proof (induction ts arbitrary: st)
  case (Cons t ts)
  from Cons.prems(1) obtain st1 where s: "plan_step d occ el ph st t = Inr st1"
    and l: "foldr_res (plan_step d occ el ph) st1 ts = Inr st'" by auto
  note c = plan_step_cases [OF s Cons.prems(2)]
  from Cons.IH [OF l conjunct1 [OF c]] obtain ys where ys: "plan_inv d occ el ph st0 st'" "subseq ys ts"
    "ps_candidates st' = ps_candidates st1 @ ys" by blast
  from conjunct2 [OF c] show ?case
  proof
    assume "ps_candidates st1 = ps_candidates st"
    with ys show ?thesis by (intro conjI exI [of _ ys]) (auto intro: list_emb_Cons)
  next
    assume "ps_candidates st1 = ps_candidates st @ [t]"
    with ys show ?thesis by (intro conjI exI [of _ "t # ys"]) auto
  qed
qed simp

lemma plan_start_inv: "plan_inv d (occupied_tasks d rt) el ph (plan_start d rt ph) (plan_start d rt ph)"
  by (simp add: plan_inv_def plan_start_def Let_def in_phase_def active_phases_def)

lemma automatic_plan_Inr:
  assumes "automatic_plan d rt el ph = Inr plan"
  obtains order st where "topological_order (task_graph d) ''Task dependency graph'' = Inr order"
    and "plan_inv d (occupied_tasks d rt) el ph (plan_start d rt ph) st"
    and "sp_task_ids plan = ps_candidates st" and "subseq (sp_task_ids plan) order"
proof -
  from assms obtain order st where o: "topological_order (task_graph d) ''Task dependency graph'' = Inr order"
    and f: "foldr_res (plan_step d (occupied_tasks d rt) el ph) (plan_start d rt ph) order = Inr st"
    and p: "sp_task_ids plan = ps_candidates st"
    by (auto simp: automatic_plan_def Let_def)
  have "ps_candidates (plan_start d rt ph) = []" by (simp add: plan_start_def Let_def)
  with plan_loop [OF f plan_start_inv] show ?thesis by (intro that [OF o _ p]) (auto simp: p)
qed

lemma automatic_plan_startable:
  assumes "automatic_plan d rt el ph = Inr plan" and "t \<in> set (sp_task_ids plan)"
  shows "startable d (occupied_tasks d rt) el ph t"
proof -
  obtain st where "plan_inv d (occupied_tasks d rt) el ph (plan_start d rt ph) st"
    and "sp_task_ids plan = ps_candidates st"
    by (rule automatic_plan_Inr [OF assms(1)])
  with assms(2) show ?thesis unfolding plan_inv_def by simp
qed

lemma automatic_plan_order:
  assumes "automatic_plan d rt el ph = Inr plan"
  shows "distinct (sp_task_ids plan)"
    and "topological_order (task_graph d) ''Task dependency graph'' = Inr order \<Longrightarrow> subseq (sp_task_ids plan) order"
proof -
  obtain ns where o: "topological_order (task_graph d) ''Task dependency graph'' = Inr ns"
    and s: "subseq (sp_task_ids plan) ns"
    by (rule automatic_plan_Inr [OF assms])
  show "distinct (sp_task_ids plan)" 
    using topo.order_distinct [OF o] s by (auto simp: subseq_conv_nths)
  show "topological_order (task_graph d) ''Task dependency graph'' = Inr order \<Longrightarrow> subseq (sp_task_ids plan) order"
    using o s by simp
qed

lemma automatic_plan_capacity:
  assumes "automatic_plan d rt el ph = Inr plan"
  shows "sp_task_ids plan \<noteq> [] \<Longrightarrow>
      int (length (occupied_tasks d rt) + length (sp_task_ids plan)) \<le> maximum_parallel_tasks (pd_policy d)"
    and "0 < in_phase d p (sp_task_ids plan) \<Longrightarrow>
      int (in_phase d p (occupied_tasks d rt) + in_phase d p (sp_task_ids plan))
        \<le> maximum_parallel_tasks_per_phase (pd_policy d)"
    and "int (card (set (active_phases d rt ph) \<union> phase_of d ` set (sp_task_ids plan)))
      \<le> max (int (length (active_phases d rt ph))) (maximum_active_phases (pd_policy d))"
proof -
  obtain st where inv: "plan_inv d (occupied_tasks d rt) el ph (plan_start d rt ph) st"
    and c: "sp_task_ids plan = ps_candidates st"
    by (rule automatic_plan_Inr [OF assms])
  have st0: "ps_available (plan_start d rt ph) = max 0 (maximum_parallel_tasks (pd_policy d)
      - int (length (occupied_tasks d rt)))" "ps_phases (plan_start d rt ph) = active_phases d rt ph"
    "dget (ps_by_phase (plan_start d rt ph)) p 0 = int (in_phase d p (occupied_tasks d rt))" for p
    by (simp_all add: plan_start_def Let_def counts_by_phase_count in_phase_def)
  have avail: "ps_available st + int (length (ps_candidates st)) = ps_available (plan_start d rt ph)"
    "0 \<le> ps_available st" using inv by (auto simp: plan_inv_def)
  show "sp_task_ids plan \<noteq> [] \<Longrightarrow>
      int (length (occupied_tasks d rt) + length (sp_task_ids plan)) \<le> maximum_parallel_tasks (pd_policy d)"
    using avail unfolding st0 c by (cases "ps_candidates st") auto
  have bp: "dget (ps_by_phase st) p 0 = dget (ps_by_phase (plan_start d rt ph)) p 0
      + int (in_phase d p (ps_candidates st))"
    and lim: "0 < in_phase d p (ps_candidates st) \<longrightarrow> p \<in> set (ps_phases st)
      \<and> dget (ps_by_phase st) p 0 \<le> maximum_parallel_tasks_per_phase (pd_policy d)" for p
    using inv unfolding plan_inv_def by blast+
  show "0 < in_phase d p (sp_task_ids plan) \<Longrightarrow>
      int (in_phase d p (occupied_tasks d rt) + in_phase d p (sp_task_ids plan))
        \<le> maximum_parallel_tasks_per_phase (pd_policy d)"
    using lim [of p] bp [of p] by (simp add: c st0(3))
  have "phase_of d t \<in> set (ps_phases st)" if t: "t \<in> set (sp_task_ids plan)" for t
  proof -
    obtain p where p: "map_of (phase_by_task d) t = Some p"
      using automatic_plan_startable [OF assms t] by (auto simp: startable_def)
    then have "0 < in_phase d p (ps_candidates st)"
      using t c by (auto simp: in_phase_def filter_empty_conv)
    then show ?thesis using lim p by (simp add: phase_of_def)
  qed
  then have "set (active_phases d rt ph) \<union> phase_of d ` set (sp_task_ids plan) \<subseteq> set (ps_phases st)"
    using inv st0(2) by (auto simp: plan_inv_def)
  moreover have len: "int (length (ps_phases st))
      \<le> max (int (length (active_phases d rt ph))) (maximum_active_phases (pd_policy d))"
    using inv unfolding plan_inv_def st0(2) by blast
  ultimately have "card (set (active_phases d rt ph) \<union> phase_of d ` set (sp_task_ids plan)) \<le> card (set (ps_phases st))"
    by (intro card_mono) simp_all
  then have "card (set (active_phases d rt ph) \<union> phase_of d ` set (sp_task_ids plan)) \<le> length (ps_phases st)"
    by (rule order_trans [OF _ card_length])
  then show "int (card (set (active_phases d rt ph) \<union> phase_of d ` set (sp_task_ids plan)))
      \<le> max (int (length (active_phases d rt ph))) (maximum_active_phases (pd_policy d))"
    using len by simp
qed

end
