(* ===== verification/Exec_State.thy ===== *)
theory Exec_State
  imports Exec_Action Exec_Automatic Exec_Repository
begin

text \<open>
  The state of the Project Executor (\<open>project_execution/engine.py\<close>) and its effects: the two
  files, the journal, the world behind the Task port, the runtime object the current operation
  holds, and a trace of what became visible outside, in order. An operation is a function of
  this state that returns a value or raises; what it did before raising stays done. One
  reading of the clock serves one operation. The executor lock serialises operations, so an
  operation sees a world that only its own \<open>start\<close> calls change.
\<close>

datatype effect = Saved runtime_state | Appended event | Started string

record 'w engine_env =
  env_sha :: "string \<Rightarrow> string"
  env_now :: string
  env_today :: date
  env_uuid :: "nat \<Rightarrow> string"
  env_path :: string
  env_dir :: string
  env_port :: "'w task_port"

record 'w engine =
  en_definition_file :: "pyval option"
  en_runtime_file :: "pyval option"
  en_journal :: "row list option"
  en_world :: 'w
  en_runtime :: runtime_state
  en_uuids :: nat
  en_trace :: "effect list"

type_synonym ('w, 'a) eng = "('w engine, 'a) action"

section \<open>The runtime object\<close>

definition eruntime :: "(runtime_state \<Rightarrow> runtime_state) \<Rightarrow> ('w, unit) eng" where
  "eruntime f s = (Inr (), s\<lparr>en_runtime := f (en_runtime s)\<rparr>)"

section \<open>Primitive effects\<close>

definition load_definition :: "'w engine_env \<Rightarrow> ('w, execution_definition) eng" where
  "load_definition env = ebind (eget en_definition_file) (\<lambda>f. elift (repository_load (env_path env) f))"

definition load_runtime :: "'w engine_env \<Rightarrow> ('w, unit) eng" where
  "load_runtime env = ebind (eget en_runtime_file) (\<lambda>f.
     ebind (elift (runtime_load (env_dir env) f)) (\<lambda>rt. eruntime (\<lambda>_. rt)))"

definition put_runtime_file :: "pyval \<Rightarrow> ('w, unit) eng" where
  "put_runtime_file doc s = (Inr (), s\<lparr>en_runtime_file := Some doc,
     en_trace := en_trace s @ [Saved (en_runtime s)]\<rparr>)"

definition save_runtime :: "'w engine_env \<Rightarrow> ('w, unit) eng" where
  "save_runtime env = ebind (eget en_runtime) (\<lambda>rt.
     ebind (elift (runtime_save (env_dir env) rt)) (\<lambda>doc. put_runtime_file doc))"

definition put_journal :: "event \<Rightarrow> row list \<Rightarrow> ('w, unit) eng" where
  "put_journal e j s = (Inr (), s\<lparr>en_journal := Some j, en_trace := en_trace s @ [Appended e]\<rparr>)"

definition append_event :: "'w engine_env \<Rightarrow> event \<Rightarrow> ('w, unit) eng" where
  "append_event env e = ebind (eget en_journal) (\<lambda>j. case j of
      None \<Rightarrow> ereturn ()
    | Some j \<Rightarrow> ebind (elift (journal_append (env_now env) j e)) (\<lambda>j'. put_journal e j'))"

definition observe :: "'w engine_env \<Rightarrow> ('w, task_view) eng" where
  "observe env = eget (\<lambda>s. port_view (env_port env) (en_world s))"

definition port_action :: "'w engine_env \<Rightarrow> string \<Rightarrow> ('w, string + start_result) eng" where
  "port_action env t s = (case port_start (env_port env) (en_world s) t of
     (r, w) \<Rightarrow> (Inr r, s\<lparr>en_world := w, en_trace := en_trace s @ [Started t]\<rparr>))"

definition call_start :: "'w engine_env \<Rightarrow> string \<Rightarrow> ('w, start_result) eng" where
  "call_start env t = ebind (port_action env t) (\<lambda>r. case r of
      Inl msg \<Rightarrow> eraise (AdapterError msg) | Inr result \<Rightarrow> ereturn result)"

definition next_uuid :: "'w engine_env \<Rightarrow> ('w, string) eng" where
  "next_uuid env s = (Inr (env_uuid env (en_uuids s)), s\<lparr>en_uuids := Suc (en_uuids s)\<rparr>)"

text \<open>A computation on the runtime object that also reports events.\<close>

definition on_runtime ::
    "'w engine_env \<Rightarrow> (runtime_state \<Rightarrow> task_view \<Rightarrow> (runtime_state \<times> 'a \<times> event list) res) \<Rightarrow> ('w, 'a) eng" where
  "on_runtime env f = ebind (eget en_runtime) (\<lambda>rt. ebind (observe env) (\<lambda>view.
     ebind (elift (f rt view)) (\<lambda>(rt', x, events).
     ebind (eruntime (\<lambda>_. rt')) (\<lambda>_.
     ebind (eeach (append_event env) events) (\<lambda>_. ereturn x)))))"

section \<open>Running\<close>

lemma eruntime_run [simp]: "eruntime f s = (Inr (), s\<lparr>en_runtime := f (en_runtime s)\<rparr>)"
  by (simp add: eruntime_def)

lemma append_event_run:
  "fst e \<in> set project_event_types \<Longrightarrow> fst (append_event env e s) = Inr ()"
  by (auto simp: append_event_def journal_append_def put_journal_def ebind_def split: option.splits)

section \<open>Frames\<close>

text \<open>A frame of the engine: observing the Tasks is only reading.\<close>

locale engine_frame = frame R for R :: "'w engine \<Rightarrow> 'w engine \<Rightarrow> bool"
begin

lemma keeps_observe [simp, intro]: "keeps (observe env)"
  by (simp add: observe_def)

end

text \<open>
  The frame of the projections: no start, no durable write, the same intents and world; only
  events are appended.
\<close>

definition quiet_step :: "'w engine \<Rightarrow> 'w engine \<Rightarrow> bool" where
  "quiet_step s s' \<longleftrightarrow> en_world s' = en_world s \<and> en_runtime_file s' = en_runtime_file s
     \<and> en_definition_file s' = en_definition_file s
     \<and> rt_intents (en_runtime s') = rt_intents (en_runtime s)
     \<and> rt_project_id (en_runtime s') = rt_project_id (en_runtime s)
     \<and> rt_schema_version (en_runtime s') = rt_schema_version (en_runtime s)
     \<and> (\<exists>es. en_trace s' = en_trace s @ map Appended es)"

interpretation quiet: engine_frame quiet_step
proof
  show "quiet_step s s" for s by (auto simp: quiet_step_def intro: exI [of _ "[]"])
  show "quiet_step s s' \<Longrightarrow> quiet_step s' s'' \<Longrightarrow> quiet_step s s''" for s s' s''
    unfolding quiet_step_def by (metis append.assoc map_append)
qed

text \<open>The frame of what follows an observation: the observed Tasks stay as recorded.\<close>

definition same_observation :: "'w engine \<Rightarrow> 'w engine \<Rightarrow> bool" where
  "same_observation s s' \<longleftrightarrow> rt_observed_tasks (en_runtime s') = rt_observed_tasks (en_runtime s)"

interpretation observed: engine_frame same_observation
  by unfold_locales (simp_all add: same_observation_def)

text \<open>The frame of every operation but the starting ones: nothing is started.\<close>

definition starts_of :: "effect list \<Rightarrow> string list" where
  "starts_of es = List.map_filter (\<lambda>e. case e of Started t \<Rightarrow> Some t | _ \<Rightarrow> None) es"

definition starts_nothing :: "'w engine \<Rightarrow> 'w engine \<Rightarrow> bool" where
  "starts_nothing s s' \<longleftrightarrow> en_world s' = en_world s \<and> starts_of (en_trace s') = starts_of (en_trace s)"

interpretation nostart: engine_frame starts_nothing
  by unfold_locales (simp_all add: starts_nothing_def)

lemma starts_of_append [simp]: "starts_of (xs @ ys) = starts_of xs @ starts_of ys"
  by (simp add: starts_of_def List.map_filter_def)

lemma starts_of_simps [simp]:
  "starts_of [] = []" "starts_of (Saved rt # es) = starts_of es"
  "starts_of (Appended e # es) = starts_of es" "starts_of (Started t # es) = t # starts_of es"
  by (simp_all add: starts_of_def List.map_filter_def)

lemma starts_of_Appended [simp]: "starts_of (map Appended es) = []"
  by (induction es) simp_all

lemma quiet_nostart: "quiet.keeps m \<Longrightarrow> nostart.keeps m"
  unfolding quiet.keeps_def nostart.keeps_def quiet_step_def starts_nothing_def
  by (metis append_Nil2 starts_of_Appended starts_of_append)

lemma put_journal_quiet [simp, intro]: "quiet.keeps (put_journal e j)"
  by (auto simp: quiet.keeps_def put_journal_def quiet_step_def intro: exI [of _ "[e]"])

lemma append_event_quiet [simp, intro]: "quiet.keeps (append_event env e)"
  unfolding append_event_def by auto

lemma eruntime_quiet [intro]:
  "(\<And>rt. rt_intents (f rt) = rt_intents rt \<and> rt_project_id (f rt) = rt_project_id rt
     \<and> rt_schema_version (f rt) = rt_schema_version rt) \<Longrightarrow> quiet.keeps (eruntime f)"
  by (auto simp: quiet.keeps_def quiet_step_def intro: exI [of _ "[]"])

lemma put_journal_observed [simp, intro]: "observed.keeps (put_journal e j)"
  by (simp add: observed.keeps_def put_journal_def same_observation_def)

lemma append_event_observed [simp, intro]: "observed.keeps (append_event env e)"
  unfolding append_event_def by auto

lemma eruntime_observed [intro]:
  "(\<And>rt. rt_observed_tasks (f rt) = rt_observed_tasks rt) \<Longrightarrow> observed.keeps (eruntime f)"
  by (simp add: observed.keeps_def same_observation_def)

text \<open>A computation on the runtime keeps what it keeps of the runtime.\<close>

lemma on_runtime_run:
  assumes "on_runtime env f s = (r, s')"
  shows "(\<exists>e. f (en_runtime s) (port_view (env_port env) (en_world s)) = Inl e \<and> r = Inl e \<and> s' = s)
    \<or> (\<exists>rt' x events. f (en_runtime s) (port_view (env_port env) (en_world s))
      = Inr (rt', x, events) \<and> eeach (append_event env) events (s\<lparr>en_runtime := rt'\<rparr>) \<in>
        {(Inr (), s'), (Inl (projl r), s')})"
  using assms
  by (auto simp: on_runtime_def observe_def ebind_def split: prod.splits sum.splits)

lemma on_runtime_quiet [intro]:
  assumes "\<And>rt view rt' x es. f rt view = Inr (rt', x, es) \<Longrightarrow> rt_intents rt' = rt_intents rt
     \<and> rt_project_id rt' = rt_project_id rt \<and> rt_schema_version rt' = rt_schema_version rt"
  shows "quiet.keeps (on_runtime env f)"
  unfolding quiet.keeps_def
proof
  fix s
  obtain r s' where run: "on_runtime env f s = (r, s')" by fastforce
  have "quiet_step s s'"
    using on_runtime_run [OF run]
  proof (elim disjE exE conjE)
    fix rt' x events
    assume f: "f (en_runtime s) (port_view (env_port env) (en_world s)) = Inr (rt', x, events)"
      and e: "eeach (append_event env) events (s\<lparr>en_runtime := rt'\<rparr>) \<in> {(Inr (), s'), (Inl (projl r), s')}"
    have "quiet_step (s\<lparr>en_runtime := rt'\<rparr>) s'"
      using e quiet.keepsD [OF quiet.keeps_eeach [of "append_event env" events]] by fastforce
    then show ?thesis using assms [OF f] by (simp add: quiet_step_def)
  qed simp
  with run show "quiet_step s (snd (on_runtime env f s))" by simp
qed

lemma on_runtime_observed [intro]:
  assumes "\<And>rt view rt' x es. f rt view = Inr (rt', x, es) \<Longrightarrow> rt_observed_tasks rt' = rt_observed_tasks rt"
  shows "observed.keeps (on_runtime env f)"
  unfolding observed.keeps_def
proof
  fix s
  obtain r s' where run: "on_runtime env f s = (r, s')" by fastforce
  have "same_observation s s'"
    using on_runtime_run [OF run]
  proof (elim disjE exE conjE)
    fix rt' x events
    assume f: "f (en_runtime s) (port_view (env_port env) (en_world s)) = Inr (rt', x, events)"
      and e: "eeach (append_event env) events (s\<lparr>en_runtime := rt'\<rparr>) \<in> {(Inr (), s'), (Inl (projl r), s')}"
    have "same_observation (s\<lparr>en_runtime := rt'\<rparr>) s'"
      using e observed.keepsD [OF observed.keeps_eeach [of "append_event env" events]] by fastforce
    then show ?thesis using assms [OF f] by (simp add: same_observation_def)
  qed simp
  with run show "same_observation s (snd (on_runtime env f s))" by simp
qed

end
