(* ===== verification/Exec_Engine.thy ===== *)
theory Exec_Engine
  imports Exec_State
begin

text \<open>
  \<open>project_execution/recovery.py\<close> and \<open>engine.py\<close>: the operations of the Project Executor,
  written over the effectful state of \<open>Exec_State\<close>. Each operation loads the definition and
  the runtime, synchronises them and works on the runtime object; \<open>_start_with_intent\<close> is the
  only place that starts a Task.
\<close>

section \<open>Interrupted intents\<close>

definition update_row :: "row \<Rightarrow> row \<Rightarrow> row" where
  "update_row r kvs = foldl (\<lambda>acc (k, v). dset k v acc) r kvs"

text \<open>One intent of \<open>reconcile_start_intents\<close>, and whether it changed.\<close>

definition reconcile_intent :: "string \<Rightarrow> task_view \<Rightarrow> row \<Rightarrow> row \<times> bool" where
  "reconcile_intent now view i =
     (if \<not> start_intent i \<or> intent_resolved i then (i, False)
      else (let oc = tv_outcome view (intent_task i) in
        if oc \<noteq> Outcome_NOT_STARTED
        then (update_row i [(''status'', PStr ''resolved''), (''resolved_at'', PStr now),
                            (''observed_outcome'', PStr (outcome_value oc))], True)
        else if row_get i ''status'' PNone \<noteq> PStr ''uncertain''
        then (update_row i [(''status'', PStr ''uncertain''), (''reconciled_at'', PStr now),
                (''reason'', PStr (''Task still appears not started; interrupted intent ''
                   @ ''was not replayed automatically''))], True)
        else (i, False)))"

definition reconcile_start_intents ::
    "string \<Rightarrow> runtime_state \<Rightarrow> task_view \<Rightarrow> runtime_state \<times> bool \<times> event list" where
  "reconcile_start_intents now rt view =
     (let stepped = map (\<lambda>(k, i). (k, reconcile_intent now view i)) (rt_intents rt);
          changed_intents = map fst (filter (\<lambda>(k, (i, changed)). changed) stepped)
      in (rt\<lparr>rt_intents := map (\<lambda>(k, (i, changed)). (k, i)) stepped\<rparr>,
          changed_intents \<noteq> [],
          if changed_intents \<noteq> []
          then [(''project_execution_reconciled'', [(''intent_ids'', strs (sort changed_intents))])]
          else []))"

definition reconcile_intents :: "'w engine_env \<Rightarrow> ('w, unit) eng" where
  "reconcile_intents env = on_runtime env (\<lambda>rt view.
     (let (rt', changed, events) = reconcile_start_intents (env_now env) rt view
      in Inr (rt', (), events)))"

section \<open>Projections of the definition onto the runtime\<close>

definition definition_digest :: "(string \<Rightarrow> string) \<Rightarrow> execution_definition \<Rightarrow> string" where
  "definition_digest sha d = ''sha256:'' @ sha (json_dumps (PDict (definition_as_mapping d)))"

definition sync_definition :: "'w engine_env \<Rightarrow> execution_definition \<Rightarrow> ('w, unit) eng" where
  "sync_definition env d = on_runtime env (\<lambda>rt view.
     (let digest = definition_digest (env_sha env) d;
          changed = (rt_definition_revision rt \<noteq> pd_revision d \<or> rt_definition_digest rt \<noteq> digest
                     \<or> rt_mode rt \<noteq> mode_value (pd_mode d))
      in if \<not> changed then Inr (rt, (), [])
         else Inr (rt\<lparr>rt_definition_revision := pd_revision d, rt_definition_digest := digest,
                      rt_mode := mode_value (pd_mode d)\<rparr>, (),
                   [(''project_definition_changed'',
                     [(''definition_revision'', PInt (pd_revision d)),
                      (''definition_digest'', PStr digest),
                      (''previous_digest'', PStr (rt_definition_digest rt))])])))"

definition evaluate_one_gate :: "'w engine_env \<Rightarrow> execution_definition \<Rightarrow> string \<Rightarrow> ('w, unit) eng" where
  "evaluate_one_gate env d gate_id =
     (case map_of (gate_index d) gate_id of
        None \<Rightarrow> eraise (KeyError gate_id)
      | Some g \<Rightarrow> on_runtime env (\<lambda>rt view.
          rbind (gate_evaluate (env_sha env) (env_now env) g rt view) (\<lambda>(rt', events).
          Inr (rt', (), events))))"

definition evaluate_gates :: "'w engine_env \<Rightarrow> execution_definition \<Rightarrow> ('w, unit) eng" where
  "evaluate_gates env d =
     ebind (elift (topological_order (gate_graph d) ''ProjectGate dependency graph''))
       (eeach (evaluate_one_gate env d))"

definition achieve_one_milestone :: "'w engine_env \<Rightarrow> execution_definition \<Rightarrow> string \<Rightarrow> ('w, unit) eng" where
  "achieve_one_milestone env d milestone_id =
     (case map_of (milestone_index d) milestone_id of
        None \<Rightarrow> eraise (KeyError milestone_id)
      | Some m \<Rightarrow> on_runtime env (\<lambda>rt view.
          rbind (achieve_if_ready (env_now env) (env_today env) m d rt view) (\<lambda>(rt', result, events).
          Inr (rt', (), events))))"

definition evaluate_milestones :: "'w engine_env \<Rightarrow> execution_definition \<Rightarrow> ('w, unit) eng" where
  "evaluate_milestones env d =
     ebind (elift (topological_order (milestone_graph d) ''ProjectMilestone dependency graph''))
       (eeach (achieve_one_milestone env d))"

definition all_eligibility ::
    "execution_definition \<Rightarrow> runtime_state \<Rightarrow> task_view \<Rightarrow> eligibility_result pydict res" where
  "all_eligibility d rt view =
     rbind (mapr (\<lambda>t. rbind (evaluate_task_eligibility (pt_task_id t) d rt view)
                        (\<lambda>r. Inr (pt_task_id t, r))) (pd_tasks d)) (\<lambda>kvs. Inr (py_dict kvs))"

definition eligibility :: "'w engine_env \<Rightarrow> execution_definition \<Rightarrow> ('w, eligibility_result pydict) eng" where
  "eligibility env d = ebind (eget en_runtime) (\<lambda>rt. ebind (observe env) (\<lambda>view.
     elift (all_eligibility d rt view)))"

text \<open>\<open>set(value)\<close>, as far as texts are concerned.\<close>

definition texts_of_set :: "pyval \<Rightarrow> string list res" where
  "texts_of_set v = (case v of
      PList xs \<Rightarrow>
        if list_ex (\<lambda>x. case x of PList _ \<Rightarrow> True | PDict _ \<Rightarrow> True | _ \<Rightarrow> False) xs
        then Inl (TypeError ''unhashable type'')
        else Inr (List.map_filter (\<lambda>x. case x of PStr s \<Rightarrow> Some s | _ \<Rightarrow> None) xs)
    | PStr s \<Rightarrow> Inr (map (\<lambda>c. [c]) s)
    | PDict d \<Rightarrow> Inr (keys d)
    | _ \<Rightarrow> Inl (TypeError ''object is not iterable''))"

definition record_ready_tasks :: "'w engine_env \<Rightarrow> eligibility_result pydict \<Rightarrow> ('w, unit) eng" where
  "record_ready_tasks env results =
     ebind (eget en_runtime) (\<lambda>rt.
     ebind (elift (texts_of_set (row_get (rt_executor rt) ''ready_tasks'' (PList [])))) (\<lambda>previous.
     (let ready = map fst (filter (\<lambda>(t, r). el_eligible r) results)
      in ebind (eeach (\<lambda>t. append_event env (''project_task_ready'', [(''task_id'', PStr t)]))
                  (sort (filter (\<lambda>t. t \<notin> set previous) ready))) (\<lambda>_.
         eruntime (\<lambda>rt. rt\<lparr>rt_executor := dset ''ready_tasks'' (strs (sort ready)) (rt_executor rt)\<rparr>)))))"

definition observation_row :: "task_summary \<Rightarrow> row" where
  "observation_row s = [(''outcome'', PStr (outcome_value (ts_outcome s))),
                        (''execution_state'', PStr (ts_execution_state s))]"

definition observe_event :: "'w engine_env \<Rightarrow> runtime_state \<Rightarrow> task_view \<Rightarrow> project_task \<Rightarrow> ('w, unit) eng" where
  "observe_event env rt view t =
     (let oc = ts_outcome (tv_describe view (pt_task_id t));
          prior = row_get_str (dget (rt_observed_tasks rt) (pt_task_id t) []) ''outcome'' []
      in if prior = outcome_value oc then ereturn ()
         else if oc = Outcome_COMPLETED
         then append_event env (''project_task_completed'', [(''task_id'', PStr (pt_task_id t))])
         else if oc = Outcome_FAILED
         then append_event env (''project_task_failed'', [(''task_id'', PStr (pt_task_id t))])
         else ereturn ())"

definition observe_tasks :: "'w engine_env \<Rightarrow> execution_definition \<Rightarrow> ('w, unit) eng" where
  "observe_tasks env d = ebind (eget en_runtime) (\<lambda>rt. ebind (observe env) (\<lambda>view.
     ebind (eeach (observe_event env rt view) (pd_tasks d)) (\<lambda>_.
     eruntime (\<lambda>rt. rt\<lparr>rt_observed_tasks :=
       py_dict (map (\<lambda>t. (pt_task_id t, observation_row (tv_describe view (pt_task_id t)))) (pd_tasks d))\<rparr>))))"

definition all_phases ::
    "date \<Rightarrow> execution_definition \<Rightarrow> runtime_state \<Rightarrow> task_view \<Rightarrow> eligibility_result pydict
       \<Rightarrow> phase_projection pydict res" where
  "all_phases today d rt view results =
     rbind (mapr (\<lambda>p. rbind (project_phase p d rt view (Some results) today)
                        (\<lambda>r. Inr (ph_id p, r))) (pd_phases d)) (\<lambda>kvs. Inr (py_dict kvs))"

definition project_phases ::
    "'w engine_env \<Rightarrow> execution_definition \<Rightarrow> eligibility_result pydict \<Rightarrow> ('w, phase_projection pydict) eng" where
  "project_phases env d results = ebind (eget en_runtime) (\<lambda>rt. ebind (observe env) (\<lambda>view.
     elift (all_phases (env_today env) d rt view results)))"

definition phase_event :: "phase_state \<Rightarrow> string option" where
  "phase_event st = (case st of
      Phase_READY \<Rightarrow> Some ''project_phase_ready''
    | Phase_ACTIVE \<Rightarrow> Some ''project_phase_activated''
    | Phase_COMPLETE \<Rightarrow> Some ''project_phase_completed''
    | _ \<Rightarrow> None)"

definition phase_row :: "phase_projection \<Rightarrow> row" where
  "phase_row p = [(''state'', PStr (phase_state_value (pp_state p))),
                  (''health'', PStr (phase_health_value (pp_health p)))]"

definition record_phase_transitions ::
    "'w engine_env \<Rightarrow> phase_projection pydict \<Rightarrow> ('w, unit) eng" where
  "record_phase_transitions env phases = ebind (eget en_runtime) (\<lambda>rt.
     (let old_states = (case as_dict (row_get (rt_executor rt) ''phase_states'' (PDict [])) of
                          None \<Rightarrow> [] | Some old \<Rightarrow> old)
      in ebind (eeach (\<lambda>(phase_id, p).
             (let previous_state = (case as_dict (or_empty_dict (row_get old_states phase_id PNone)) of
                                      None \<Rightarrow> PNone | Some r \<Rightarrow> row_get r ''state'' PNone)
              in if previous_state = PStr (phase_state_value (pp_state p)) then ereturn ()
                 else (case phase_event (pp_state p) of
                     None \<Rightarrow> ereturn ()
                   | Some ty \<Rightarrow> append_event env (ty, [(''phase_id'', PStr phase_id)])))) phases) (\<lambda>_.
         eruntime (\<lambda>rt. rt\<lparr>rt_executor := dset ''phase_states''
           (PDict (map (\<lambda>(k, p). (k, PDict (phase_row p))) phases)) (rt_executor rt)\<rparr>))))"

definition apply_failure_policy :: "'w engine_env \<Rightarrow> execution_definition \<Rightarrow> ('w, unit) eng" where
  "apply_failure_policy env d = on_runtime env (\<lambda>rt view.
     (let failed = map pt_task_id (filter (\<lambda>t. pt_required t
            \<and> row_get_str (dget (rt_observed_tasks rt) (pt_task_id t) []) ''outcome'' []
              = outcome_value Outcome_FAILED) (pd_tasks d));
          why = ''automatic failure policy hold; required Task(s) failed: '' @ py_join '', '' (sort failed)
      in if failed = [] \<or> failure_behavior (pd_policy d) \<noteq> Failure_HOLD then Inr (rt, (), [])
         else if rt_held rt then Inr (rt, (), [])
         else Inr (rt\<lparr>rt_held := True, rt_hold_reason := why\<rparr>, (),
                   [(''project_execution_paused'',
                     [(''reason'', PStr why), (''source'', PStr ''task_failure_policy''),
                      (''task_ids'', strs (sort failed))])])))"

section \<open>Starting with a durable intent\<close>

definition pending_start_intent :: "runtime_state \<Rightarrow> string \<Rightarrow> string option" where
  "pending_start_intent rt t = map_option fst (List.find (\<lambda>(k, i). start_intent i
     \<and> row_get i ''task_id'' PNone = PStr t \<and> \<not> intent_resolved i) (rt_intents rt))"

definition new_intent :: "string \<Rightarrow> string \<Rightarrow> string \<Rightarrow> row" where
  "new_intent intent_id t now =
     [(''id'', PStr intent_id), (''kind'', PStr ''start_task''), (''task_id'', PStr t),
      (''status'', PStr ''pending''), (''created_at'', PStr now)]"

text \<open>The runtime that is saved before the start; \<open>retry_of\<close> is the key of the retried intent.\<close>

definition add_intent ::
    "string \<Rightarrow> string \<Rightarrow> string \<Rightarrow> string option \<Rightarrow> runtime_state \<Rightarrow> runtime_state" where
  "add_intent intent_id t now retry_of rt =
     (case retry_of of
        None \<Rightarrow> rt\<lparr>rt_intents := dset intent_id (new_intent intent_id t now) (rt_intents rt)\<rparr>
      | Some k \<Rightarrow>
          (let old = dget (rt_intents rt) k [];
               intent = new_intent intent_id t now @ [(''retry_of'', row_get old ''id'' (PStr []))];
               superseded = update_row old [(''status'', PStr ''superseded''),
                                            (''superseded_by'', PStr intent_id)]
           in rt\<lparr>rt_intents := dset intent_id intent (dset k superseded (rt_intents rt))\<rparr>))"

definition update_intent :: "string \<Rightarrow> row \<Rightarrow> ('w, unit) eng" where
  "update_intent intent_id kvs = eruntime (\<lambda>rt. rt\<lparr>rt_intents :=
     dset intent_id (update_row (dget (rt_intents rt) intent_id []) kvs) (rt_intents rt)\<rparr>)"

definition resolved_fields :: "'w engine_env \<Rightarrow> task_outcome \<Rightarrow> row" where
  "resolved_fields env oc = [(''status'', PStr ''resolved''), (''resolved_at'', PStr (env_now env)),
     (''observed_outcome'', PStr (outcome_value oc))]"

definition reconcile_start_exception ::
    "'w engine_env \<Rightarrow> string \<Rightarrow> string \<Rightarrow> py_error \<Rightarrow> ('w, start_result) eng" where
  "reconcile_start_exception env t intent_id e =
     ebind (observe env) (\<lambda>view.
     (let oc = tv_outcome view t; msg = py_error_text e in
      if oc \<noteq> Outcome_NOT_STARTED
      then ebind (update_intent intent_id (resolved_fields env oc @ [(''action_error'', PStr msg)])) (\<lambda>_.
           ereturn \<lparr>sr_accepted = True, sr_already_started = True,
                    sr_message = ''Task start outcome recovered after error: '' @ msg\<rparr>)
      else ebind (update_intent intent_id [(''status'', PStr ''uncertain''), (''action_error'', PStr msg),
                    (''reconciled_at'', PStr (env_now env))]) (\<lambda>_.
           ebind (save_runtime env) (\<lambda>_. eraise e))))"

definition resolve_start_result ::
    "'w engine_env \<Rightarrow> string \<Rightarrow> string \<Rightarrow> start_result \<Rightarrow> ('w, unit) eng" where
  "resolve_start_result env t intent_id result =
     ebind (observe env) (\<lambda>view.
     (let observed = tv_outcome view t in
      if observed \<noteq> Outcome_NOT_STARTED then update_intent intent_id (resolved_fields env observed)
      else if sr_accepted result \<or> sr_already_started result
      then update_intent intent_id [(''status'', PStr ''pending''),
             (''action_acknowledged_at'', PStr (env_now env)), (''message'', PStr (sr_message result))]
      else update_intent intent_id [(''status'', PStr ''failed''),
             (''resolved_at'', PStr (env_now env)), (''message'', PStr (sr_message result))]))"

definition perform_start :: "'w engine_env \<Rightarrow> string \<Rightarrow> string \<Rightarrow> ('w, start_result) eng" where
  "perform_start env t intent_id =
     ebind (eattempt (call_start env t)) (\<lambda>r. case r of
        Inl e \<Rightarrow> reconcile_start_exception env t intent_id e
      | Inr result \<Rightarrow> ebind (resolve_start_result env t intent_id result) (\<lambda>_. ereturn result))"

definition record_started :: "'w engine_env \<Rightarrow> string \<Rightarrow> string \<Rightarrow> ('w, unit) eng" where
  "record_started env t intent_id = ebind (eget en_runtime) (\<lambda>rt.
     (let intent = dget (rt_intents rt) intent_id [] in
      ewhen (row_get intent ''status'' PNone = PStr ''resolved'')
        (append_event env (''project_task_started'',
           [(''task_id'', PStr t), (''intent_id'', PStr intent_id),
            (''observed_outcome'', row_get intent ''observed_outcome'' (PStr []))]))))"

definition start_with_intent :: "'w engine_env \<Rightarrow> string \<Rightarrow> string option \<Rightarrow> ('w, start_result) eng" where
  "start_with_intent env t retry_of =
     ebind (next_uuid env) (\<lambda>hex.
     (let intent_id = ''start-'' @ t @ ''-'' @ hex in
      ebind (eruntime (add_intent intent_id t (env_now env) retry_of)) (\<lambda>_.
      ebind (save_runtime env) (\<lambda>_.
      ebind (append_event env (''project_task_start_requested'',
               [(''task_id'', PStr t), (''intent_id'', PStr intent_id)])) (\<lambda>_.
      ebind (perform_start env t intent_id) (\<lambda>result.
      ebind (save_runtime env) (\<lambda>_.
      ebind (record_started env t intent_id) (\<lambda>_. ereturn result))))))))"

section \<open>The operations\<close>

record snapshot =
  sn_definition_revision :: int
  sn_definition_digest :: string
  sn_mode :: string
  sn_held :: bool
  sn_gates :: "row pydict"
  sn_milestones :: "row pydict"
  sn_phases :: "phase_projection pydict"
  sn_eligibility :: "eligibility_result pydict"
  sn_task_outcomes :: "string pydict"

definition snapshot_of ::
    "execution_definition \<Rightarrow> runtime_state \<Rightarrow> phase_projection pydict \<Rightarrow> eligibility_result pydict \<Rightarrow> snapshot" where
  "snapshot_of d rt phases results =
     \<lparr>sn_definition_revision = pd_revision d, sn_definition_digest = rt_definition_digest rt,
      sn_mode = mode_value (pd_mode d), sn_held = rt_held rt, sn_gates = rt_gates rt,
      sn_milestones = rt_milestone_achievements rt, sn_phases = phases, sn_eligibility = results,
      sn_task_outcomes = map (\<lambda>(t, r). (t, row_get_str r ''outcome'' ''unknown'')) (rt_observed_tasks rt)\<rparr>"

definition stamp_executor :: "string \<Rightarrow> pyval \<Rightarrow> ('w, unit) eng" where
  "stamp_executor k v = eruntime (\<lambda>rt. rt\<lparr>rt_executor := dset k v (rt_executor rt)\<rparr>)"

definition reconcile :: "'w engine_env \<Rightarrow> ('w, snapshot) eng" where
  "reconcile env =
     ebind (load_definition env) (\<lambda>d.
     ebind (load_runtime env) (\<lambda>_.
     ebind (sync_definition env d) (\<lambda>_.
     ebind (reconcile_intents env) (\<lambda>_.
     ebind (evaluate_gates env d) (\<lambda>_.
     ebind (evaluate_milestones env d) (\<lambda>_.
     ebind (eligibility env d) (\<lambda>results.
     ebind (record_ready_tasks env results) (\<lambda>_.
     ebind (observe_tasks env d) (\<lambda>_.
     ebind (project_phases env d results) (\<lambda>phases.
     ebind (record_phase_transitions env phases) (\<lambda>_.
     ebind (stamp_executor ''last_reconciled_at'' (PStr (env_now env))) (\<lambda>_.
     ebind (save_runtime env) (\<lambda>_.
     eget (\<lambda>s. snapshot_of d (en_runtime s) phases results))))))))))))))"

definition start_task :: "'w engine_env \<Rightarrow> string \<Rightarrow> bool \<Rightarrow> ('w, start_result) eng" where
  "start_task env t retry_uncertain =
     ebind (load_definition env) (\<lambda>d.
     ebind (load_runtime env) (\<lambda>_.
     if pd_mode d = Mode_OBSERVE
     then eraise (ProjectExecutionError ''Observe mode cannot start Tasks'')
     else if pd_mode d = Mode_AUTOMATIC
     then eraise (ProjectExecutionError ''Automatic mode starts Tasks only through an automatic cycle'')
     else
     ebind (sync_definition env d) (\<lambda>_.
     ebind (evaluate_gates env d) (\<lambda>_.
     if t \<notin> set (keys (task_index d))
     then eraise (ProjectExecutionError (''Task '' @ py_repr_str t @ '' is not part of Project Execution''))
     else
     ebind (eget en_runtime) (\<lambda>rt.
     ebind (observe env) (\<lambda>view.
     ebind (elift (evaluate_task_eligibility t d rt view)) (\<lambda>result.
     if \<not> el_eligible result
     then eraise (ProjectExecutionError
            (''Task is not eligible: '' @ py_join ''; '' (map er_message (el_reasons result))))
     else
       (let pending = pending_start_intent rt t in
        if pending \<noteq> None \<and> \<not> retry_uncertain
        then eraise (ProjectExecutionError
               (''Task '' @ t @ '' has an unresolved start intent; reconcile or explicitly retry it''))
        else start_with_intent env t pending))))))))"

record automatic_outcome =
  ao_started :: "string list"
  ao_failures :: "(string \<times> string) list"

record automatic_cycle_result =
  cy_started_tasks :: "string list"
  cy_start_failures :: "(string \<times> string) list"
  cy_plan :: start_plan
  cy_snapshot :: snapshot

definition failure_row :: "string \<times> string \<Rightarrow> row" where
  "failure_row f = [(''task_id'', PStr (fst f)), (''error'', PStr (snd f))]"

definition start_failed :: "'w engine_env \<Rightarrow> string \<Rightarrow> string \<times> string \<Rightarrow> ('w, unit) eng" where
  "start_failed env cycle_id failure = append_event env
     (''project_automatic_task_start_failed'', (''cycle_id'', PStr cycle_id) # failure_row failure)"

fun start_loop :: "'w engine_env \<Rightarrow> string \<Rightarrow> string list \<Rightarrow> string list \<Rightarrow> ('w, automatic_outcome) eng" where
  "start_loop env cycle_id [] started = ereturn \<lparr>ao_started = started, ao_failures = []\<rparr>"
| "start_loop env cycle_id (t # ts) started =
     ebind (eattempt (start_with_intent env t None)) (\<lambda>r. case r of
        Inl e \<Rightarrow> ebind (start_failed env cycle_id (t, py_error_text e)) (\<lambda>_.
          ereturn \<lparr>ao_started = started, ao_failures = [(t, py_error_text e)]\<rparr>)
      | Inr result \<Rightarrow>
          if sr_accepted result \<or> sr_already_started result
          then start_loop env cycle_id ts (started @ [t])
          else (let msg = (if sr_message result \<noteq> [] then sr_message result
                           else ''Task start was rejected'')
                in ebind (start_failed env cycle_id (t, msg)) (\<lambda>_.
                   ereturn \<lparr>ao_started = started, ao_failures = [(t, msg)]\<rparr>)))"

text \<open>What a cycle observes before it plans and again after it started Tasks.\<close>

definition refresh ::
    "'w engine_env \<Rightarrow> execution_definition \<Rightarrow> ('w, eligibility_result pydict \<times> phase_projection pydict) eng" where
  "refresh env d =
     ebind (eligibility env d) (\<lambda>results.
     ebind (record_ready_tasks env results) (\<lambda>_.
     ebind (project_phases env d results) (\<lambda>phases.
     ebind (record_phase_transitions env phases) (\<lambda>_. ereturn (results, phases)))))"

definition plan_cycle ::
    "'w engine_env \<Rightarrow> execution_definition \<Rightarrow> ('w, start_plan) eng" where
  "plan_cycle env d =
     ebind (sync_definition env d) (\<lambda>_.
     ebind (reconcile_intents env) (\<lambda>_.
     ebind (evaluate_gates env d) (\<lambda>_.
     ebind (evaluate_milestones env d) (\<lambda>_.
     ebind (observe_tasks env d) (\<lambda>_.
     ebind (apply_failure_policy env d) (\<lambda>_.
     ebind (refresh env d) (\<lambda>(results, phases).
     ebind (eget en_runtime) (\<lambda>rt.
     elift (automatic_plan d rt results phases)))))))))"

definition cycle_row :: "'w engine_env \<Rightarrow> string \<Rightarrow> automatic_outcome \<Rightarrow> start_plan \<Rightarrow> row" where
  "cycle_row env cycle_id outcome plan =
     [(''last_cycle_id'', PStr cycle_id), (''last_cycle_at'', PStr (env_now env)),
      (''started_tasks'', strs (ao_started outcome)),
      (''start_failures'', PList (map (\<lambda>f. PDict (failure_row f)) (ao_failures outcome))),
      (''plan'', PDict (plan_as_mapping plan))]"

definition finish_cycle ::
    "'w engine_env \<Rightarrow> execution_definition \<Rightarrow> string \<Rightarrow> start_plan \<Rightarrow> automatic_outcome
       \<Rightarrow> ('w, automatic_cycle_result) eng" where
  "finish_cycle env d cycle_id plan outcome =
     ebind (evaluate_gates env d) (\<lambda>_.
     ebind (evaluate_milestones env d) (\<lambda>_.
     ebind (observe_tasks env d) (\<lambda>_.
     ebind (refresh env d) (\<lambda>(results, phases).
     ebind (stamp_executor ''automatic'' (PDict (cycle_row env cycle_id outcome plan))) (\<lambda>_.
     ebind (stamp_executor ''last_reconciled_at'' (PStr (env_now env))) (\<lambda>_.
     ebind (save_runtime env) (\<lambda>_.
     ebind (append_event env (''project_automatic_cycle_completed'',
              [(''cycle_id'', PStr cycle_id), (''started_tasks'', strs (ao_started outcome)),
               (''failure_count'', PInt (int (length (ao_failures outcome))))])) (\<lambda>_.
     eget (\<lambda>s. \<lparr>cy_started_tasks = ao_started outcome, cy_start_failures = ao_failures outcome,
                cy_plan = plan, cy_snapshot = snapshot_of d (en_runtime s) phases results\<rparr>)))))))))"

text \<open>The cycle itself, once the definition is known to be in automatic mode.\<close>

definition run_cycle :: "'w engine_env \<Rightarrow> execution_definition \<Rightarrow> ('w, automatic_cycle_result) eng" where
  "run_cycle env d =
     ebind (load_runtime env) (\<lambda>_.
     ebind (plan_cycle env d) (\<lambda>plan.
     ebind (next_uuid env) (\<lambda>hex.
     (let cycle_id = ''automatic-'' @ hex in
      ebind (append_event env (''project_automatic_cycle_started'',
               [(''cycle_id'', PStr cycle_id), (''planned_tasks'', strs (sp_task_ids plan))])) (\<lambda>_.
      ebind (eget en_runtime) (\<lambda>rt.
      ebind (if rt_held rt then ereturn \<lparr>ao_started = [], ao_failures = []\<rparr>
             else start_loop env cycle_id (sp_task_ids plan) []) (\<lambda>outcome.
      finish_cycle env d cycle_id plan outcome)))))))"

definition automatic_cycle :: "'w engine_env \<Rightarrow> ('w, automatic_cycle_result) eng" where
  "automatic_cycle env =
     ebind (load_definition env) (\<lambda>d.
     if pd_mode d \<noteq> Mode_AUTOMATIC
     then eraise (ProjectExecutionError ''automatic cycles require Project Execution mode=automatic'')
     else run_cycle env d)"

definition decide_gate ::
    "'w engine_env \<Rightarrow> string \<Rightarrow> string \<Rightarrow> string \<Rightarrow> string \<Rightarrow> ('w, row) eng" where
  "decide_gate env gate_id actor decision why =
     ebind (load_definition env) (\<lambda>d.
     ebind (load_runtime env) (\<lambda>_.
     ebind (sync_definition env d) (\<lambda>_.
     ebind (evaluate_gates env d) (\<lambda>_.
     if gate_id \<notin> set (keys (gate_index d))
     then eraise (ProjectExecutionError (''Gate '' @ py_repr_str gate_id @ '' is not defined''))
     else
     ebind (on_runtime env (\<lambda>rt view. gate_decide (env_now env) gate_id rt actor decision why)) (\<lambda>rec.
     ebind (evaluate_one_gate env d gate_id) (\<lambda>_.
     ebind (save_runtime env) (\<lambda>_. ereturn rec)))))))"

definition waive_gate :: "'w engine_env \<Rightarrow> string \<Rightarrow> string \<Rightarrow> string \<Rightarrow> ('w, row) eng" where
  "waive_gate env gate_id actor why =
     ebind (load_definition env) (\<lambda>d.
     ebind (load_runtime env) (\<lambda>_.
     ebind (sync_definition env d) (\<lambda>_.
     ebind (evaluate_gates env d) (\<lambda>_.
     if gate_id \<notin> set (keys (gate_index d))
     then eraise (ProjectExecutionError (''Gate '' @ py_repr_str gate_id @ '' is not defined''))
     else
     ebind (on_runtime env (\<lambda>rt view. gate_waive (env_now env) gate_id rt actor why)) (\<lambda>waiver.
     ebind (save_runtime env) (\<lambda>_. ereturn waiver))))))"

definition pause :: "'w engine_env \<Rightarrow> string \<Rightarrow> ('w, unit) eng" where
  "pause env why =
     (let hold_reason = (if py_strip why \<noteq> [] then py_strip why else ''operator hold'') in
      ebind (load_runtime env) (\<lambda>_.
      ebind (eruntime (\<lambda>rt. rt\<lparr>rt_held := True, rt_hold_reason := hold_reason\<rparr>)) (\<lambda>_.
      ebind (save_runtime env) (\<lambda>_.
      append_event env (''project_execution_paused'', [(''reason'', PStr hold_reason)])))))"

definition resume :: "'w engine_env \<Rightarrow> ('w, unit) eng" where
  "resume env =
     ebind (load_runtime env) (\<lambda>_.
     ebind (eruntime (\<lambda>rt. rt\<lparr>rt_held := False, rt_hold_reason := []\<rparr>)) (\<lambda>_.
     ebind (save_runtime env) (\<lambda>_.
     ebind (eget en_runtime) (\<lambda>rt.
     append_event env (''project_execution_started'', [(''mode'', PStr (rt_mode rt))])))))"

end
