(* ===== verification/Exec_Safety.thy ===== *)
theory Exec_Safety
  imports Exec_Engine
begin

text \<open>
  Start safety of the Project Executor. A start is written ahead: the last durable runtime
  before it holds a pending intent for its Task. At no durable point are there two unresolved
  intents of one Task. Only \<open>start_task\<close> and \<open>automatic_cycle\<close> start anything.
\<close>

section \<open>Intents\<close>

definition unresolved :: "runtime_state \<Rightarrow> string \<Rightarrow> string \<Rightarrow> bool" where
  "unresolved rt t k \<longleftrightarrow> (\<exists>i. map_of (rt_intents rt) k = Some i \<and> start_intent i
     \<and> \<not> intent_resolved i \<and> row_get i ''task_id'' PNone = PStr t)"

definition exclusive :: "runtime_state \<Rightarrow> bool" where
  "exclusive rt \<longleftrightarrow> distinct (keys (rt_intents rt))
     \<and> (\<forall>t k k'. unresolved rt t k \<longrightarrow> unresolved rt t k' \<longrightarrow> k = k')"

definition pending_for :: "runtime_state \<Rightarrow> string \<Rightarrow> bool" where
  "pending_for rt t \<longleftrightarrow> (\<exists>k i. map_of (rt_intents rt) k = Some i \<and> start_intent i
     \<and> row_get i ''status'' PNone = PStr ''pending'' \<and> row_get i ''task_id'' PNone = PStr t)"

text \<open>The trace up to a start ends in a save that holds its intent, and events.\<close>

definition armed :: "effect list \<Rightarrow> string \<Rightarrow> bool" where
  "armed tr t \<longleftrightarrow> (\<exists>before rt es. tr = before @ Saved rt # map Appended es \<and> pending_for rt t)"

definition write_ahead :: "effect list \<Rightarrow> bool" where
  "write_ahead tr \<longleftrightarrow> (\<forall>before t after. tr = before @ Started t # after \<longrightarrow> armed before t)"

definition durable :: "'w engine_env \<Rightarrow> 'w engine \<Rightarrow> bool" where
  "durable env s \<longleftrightarrow> write_ahead (en_trace s) \<and> (\<forall>rt. Saved rt \<in> set (en_trace s) \<longrightarrow> exclusive rt)
     \<and> (\<forall>rt. runtime_load (env_dir env) (en_runtime_file s) = Inr rt \<longrightarrow> exclusive rt)"

text \<open>The same, with the runtime object in hand.\<close>

definition good :: "'w engine_env \<Rightarrow> 'w engine \<Rightarrow> bool" where
  "good env s \<longleftrightarrow> durable env s \<and> exclusive (en_runtime s) \<and> rt_schema_version (en_runtime s) = 1"

lemma write_ahead_Nil [simp]: "write_ahead []"
  by (simp add: write_ahead_def)

lemma write_ahead_snoc:
  "write_ahead (tr @ [x]) \<longleftrightarrow> write_ahead tr \<and> (\<forall>t. x = Started t \<longrightarrow> armed tr t)"
proof
  assume w: "write_ahead (tr @ [x])"
  have "write_ahead tr"
    unfolding write_ahead_def
  proof (intro allI impI)
    fix before t after assume "tr = before @ Started t # after"
    then have "tr @ [x] = before @ Started t # (after @ [x])" by simp
    with w show "armed before t" unfolding write_ahead_def by blast
  qed
  with w show "write_ahead tr \<and> (\<forall>t. x = Started t \<longrightarrow> armed tr t)"
    by (auto simp: write_ahead_def)
next
  assume w: "write_ahead tr \<and> (\<forall>t. x = Started t \<longrightarrow> armed tr t)"
  show "write_ahead (tr @ [x])"
    unfolding write_ahead_def
  proof (intro allI impI)
    fix before t after assume e: "tr @ [x] = before @ Started t # after"
    show "armed before t"
    proof (cases after rule: rev_cases)
      case Nil
      then show ?thesis using e w by auto
    next
      case (snoc ys y)
      then have "tr = before @ Started t # ys" using e by auto
      then show ?thesis using w unfolding write_ahead_def by blast
    qed
  qed
qed

lemma write_ahead_append_events [simp]: "write_ahead (tr @ map Appended es) \<longleftrightarrow> write_ahead tr"
  by (induction es rule: rev_induct) (simp_all add: write_ahead_snoc flip: append_assoc)

lemma armed_events: "armed tr t \<Longrightarrow> armed (tr @ map Appended es) t"
  unfolding armed_def by (metis append.assoc append_Cons map_append)

lemma armed_saved: "pending_for rt t \<Longrightarrow> armed (tr @ [Saved rt]) t"
  unfolding armed_def by (rule exI [of _ tr], rule exI [of _ rt], rule exI [of _ "[]"]) simp

lemma exclusive_intents: "rt_intents rt' = rt_intents rt \<Longrightarrow> exclusive rt' = exclusive rt"
  by (simp add: exclusive_def unresolved_def)

section \<open>The invariant under quiet steps, saves and loads\<close>

lemma durable_quiet: "durable env s \<Longrightarrow> quiet_step s s' \<Longrightarrow> durable env s'"
  by (auto simp: durable_def quiet_step_def)

lemma good_quiet: "good env s \<Longrightarrow> quiet_step s s' \<Longrightarrow> good env s'"
  using durable_quiet [of env s s'] exclusive_intents [of "en_runtime s'" "en_runtime s"]
  unfolding good_def by (simp add: quiet_step_def [of s s'])

lemma good_durable: "good env s \<Longrightarrow> durable env s"
  by (simp add: good_def)

lemma triple_quiet:
  assumes "quiet.keeps m" and "\<And>s s'. P s \<Longrightarrow> quiet_step s s' \<Longrightarrow> P s'"
  shows "triple P m (\<lambda>_. P) P"
  by (rule tripleI) (use assms quiet.keepsD in \<open>fastforce split: sum.splits\<close>)

lemma good_quiet_triple: "quiet.keeps m \<Longrightarrow> triple (good env) m (\<lambda>_. good env) (good env)"
  by (rule triple_quiet) (auto intro: good_quiet)

lemma load_runtime_triple: "triple (durable env) (load_runtime env) (\<lambda>_. good env) (durable env)"
proof (rule tripleI)
  fix s r s'
  assume d: "durable env s" and run: "load_runtime env s = (r, s')"
  show "case r of Inl e \<Rightarrow> durable env s' | Inr x \<Rightarrow> good env s'"
  proof (cases "runtime_load (env_dir env) (en_runtime_file s)")
    case (Inl e)
    then show ?thesis using run d by (auto simp: load_runtime_def ebind_def)
  next
    case (Inr rt)
    then show ?thesis using run d runtime_load_facts(1) [OF Inr]
      by (auto simp: load_runtime_def ebind_def good_def durable_def)
  qed
qed

lemma save_runtime_run:
  "save_runtime env s = (r, s') \<Longrightarrow> (\<exists>e. r = Inl e \<and> s' = s) \<or>
     (r = Inr () \<and> (\<exists>doc. runtime_save (env_dir env) (en_runtime s) = Inr doc
       \<and> s' = s\<lparr>en_runtime_file := Some doc, en_trace := en_trace s @ [Saved (en_runtime s)]\<rparr>))"
  by (auto simp: save_runtime_def put_runtime_file_def ebind_def split: sum.splits)

lemma save_runtime_triple: "triple (good env) (save_runtime env) (\<lambda>_. good env) (good env)"
proof (rule tripleI)
  fix s r s'
  assume g: "good env s" and run: "save_runtime env s = (r, s')"
  from save_runtime_run [OF run] show "case r of Inl e \<Rightarrow> good env s' | Inr x \<Rightarrow> good env s'"
  proof (elim disjE exE conjE)
    fix doc assume doc: "runtime_save (env_dir env) (en_runtime s) = Inr doc"
      and r: "r = Inr ()" and s': "s' = s\<lparr>en_runtime_file := Some doc, en_trace := en_trace s @ [Saved (en_runtime s)]\<rparr>"
    have "runtime_load (env_dir env) (Some doc) = Inr (en_runtime s)"
      using g by (intro runtime_load_save [OF _ doc]) (simp add: good_def)
    then show ?thesis using g r by (auto simp: good_def durable_def s' write_ahead_snoc)
  qed (use g in simp)
qed

lemma saved_armed:
  "save_runtime env s = (Inr (), s') \<Longrightarrow> pending_for (en_runtime s) t \<Longrightarrow>
     armed (en_trace s') t \<and> en_runtime s' = en_runtime s \<and> en_world s' = en_world s"
  using save_runtime_run [of env s "Inr ()" s'] by (auto simp: armed_saved)

section \<open>Quiet operations\<close>

lemma sync_definition_quiet [simp, intro]: "quiet.keeps (sync_definition env d)"
  unfolding sync_definition_def by (rule on_runtime_quiet) (auto simp: Let_def split: if_splits)

lemma gate_evaluate_frames:
  assumes "gate_evaluate sha now g rt view = Inr (rt', events)"
  shows "rt_intents rt' = rt_intents rt" "rt_project_id rt' = rt_project_id rt"
    "rt_schema_version rt' = rt_schema_version rt" "rt_observed_tasks rt' = rt_observed_tasks rt"
  using gate_evaluate_frame [OF assms] by auto

lemma evaluate_one_gate_frames [simp, intro]:
  "quiet.keeps (evaluate_one_gate env d gid)" "observed.keeps (evaluate_one_gate env d gid)"
  unfolding evaluate_one_gate_def
  by (auto intro!: quiet.keeps_option observed.keeps_option on_runtime_quiet on_runtime_observed
      dest: gate_evaluate_frames)

lemma evaluate_gates_frames [simp, intro]:
  "quiet.keeps (evaluate_gates env d)" "observed.keeps (evaluate_gates env d)"
  unfolding evaluate_gates_def by auto

lemma achieve_frames:
  assumes "achieve_if_ready now today m d rt view = Inr (rt', result, events)"
  shows "rt_intents rt' = rt_intents rt" "rt_project_id rt' = rt_project_id rt"
    "rt_schema_version rt' = rt_schema_version rt" "rt_observed_tasks rt' = rt_observed_tasks rt"
  using assms by (cases rule: achieve_if_ready_cases; simp)+

lemma achieve_one_milestone_frames [simp, intro]:
  "quiet.keeps (achieve_one_milestone env d i)" "observed.keeps (achieve_one_milestone env d i)"
  unfolding achieve_one_milestone_def
  by (auto intro!: quiet.keeps_option observed.keeps_option on_runtime_quiet on_runtime_observed
      dest: achieve_frames)

lemma evaluate_milestones_frames [simp, intro]:
  "quiet.keeps (evaluate_milestones env d)" "observed.keeps (evaluate_milestones env d)"
  unfolding evaluate_milestones_def by auto

lemma eligibility_frames [simp, intro]:
  "quiet.keeps (eligibility env d)" "observed.keeps (eligibility env d)"
  unfolding eligibility_def by auto

lemma stamp_executor_frames [simp, intro]:
  "quiet.keeps (stamp_executor k v)" "observed.keeps (stamp_executor k v)"
  unfolding stamp_executor_def by (auto intro!: eruntime_quiet eruntime_observed)

lemma record_ready_tasks_frames [simp, intro]:
  "quiet.keeps (record_ready_tasks env r)" "observed.keeps (record_ready_tasks env r)"
  unfolding record_ready_tasks_def Let_def
  by (intro quiet.keeps_ebind quiet.keeps_eeach quiet.keeps_pure append_event_quiet eruntime_quiet
      observed.keeps_ebind observed.keeps_eeach observed.keeps_pure append_event_observed
      eruntime_observed; simp)+

lemma observe_event_quiet [simp, intro]: "quiet.keeps (observe_event env rt view t)"
  unfolding observe_event_def Let_def by auto

lemma observe_tasks_quiet [simp, intro]: "quiet.keeps (observe_tasks env d)"
  unfolding observe_tasks_def
  by (intro quiet.keeps_ebind quiet.keeps_pure quiet.keeps_observe quiet.keeps_eeach
      observe_event_quiet eruntime_quiet) simp_all

lemma project_phases_frames [simp, intro]:
  "quiet.keeps (project_phases env d r)" "observed.keeps (project_phases env d r)"
  unfolding project_phases_def by auto

lemma record_phase_transitions_frames [simp, intro]:
  "quiet.keeps (record_phase_transitions env p)" "observed.keeps (record_phase_transitions env p)"
  unfolding record_phase_transitions_def Let_def
  by (auto intro!: quiet.keeps_ebind observed.keeps_ebind quiet.keeps_eeach observed.keeps_eeach
      quiet.keeps_option observed.keeps_option eruntime_quiet eruntime_observed)

lemma apply_failure_policy_frames [simp, intro]:
  "quiet.keeps (apply_failure_policy env d)" "observed.keeps (apply_failure_policy env d)"
  unfolding apply_failure_policy_def
  by (auto intro!: on_runtime_quiet on_runtime_observed simp: Let_def split: if_splits)

lemma refresh_frames [simp, intro]:
  "quiet.keeps (refresh env d)" "observed.keeps (refresh env d)"
  unfolding refresh_def
  by (intro quiet.keeps_ebind observed.keeps_ebind quiet.keeps_pure observed.keeps_pure
      eligibility_frames record_ready_tasks_frames project_phases_frames
      record_phase_transitions_frames)+

lemma load_definition_quiet [simp, intro]: "quiet.keeps (load_definition env)"
  unfolding load_definition_def by auto

section \<open>Reconciled intents\<close>

lemma update_row_simps [simp]:
  "update_row r [] = r" "update_row r ((k, v) # kvs) = update_row (dset k v r) kvs"
  by (simp_all add: update_row_def)

lemma reconcile_start_intents_intents:
  "rt_intents (fst (reconcile_start_intents now rt view))
     = map (\<lambda>(k, i). (k, fst (reconcile_intent now view i))) (rt_intents rt)"
  by (simp add: reconcile_start_intents_def Let_def comp_def split_beta)

lemma reconcile_intent_row:
  "k \<in> {''kind'', ''task_id''} \<Longrightarrow> row_get (fst (reconcile_intent now view i)) k x = row_get i k x"
  by (auto simp: reconcile_intent_def Let_def)

lemma reconcile_intent_unresolved:
  "start_intent i \<Longrightarrow> \<not> intent_resolved (fst (reconcile_intent now view i)) \<Longrightarrow>
     \<not> intent_resolved i \<and> tv_outcome view (intent_task i) = Outcome_NOT_STARTED"
  by (auto simp: reconcile_intent_def Let_def intent_resolved_def resolved_intent_states_def
      split: if_splits)

lemma reconciled_unresolved:
  assumes "unresolved (fst (reconcile_start_intents now rt view)) t k"
  shows "unresolved rt t k" and "tv_outcome view t = Outcome_NOT_STARTED"
proof -
  from assms obtain i where i: "map_of (rt_intents rt) k = Some i"
    and r: "start_intent (fst (reconcile_intent now view i))"
      "\<not> intent_resolved (fst (reconcile_intent now view i))"
      "row_get (fst (reconcile_intent now view i)) ''task_id'' PNone = PStr t"
    by (auto simp: unresolved_def reconcile_start_intents_intents map_of_map)
  have s: "start_intent i" and t: "row_get i ''task_id'' PNone = PStr t"
    using r(1,3) by (simp_all add: start_intent_def reconcile_intent_row)
  have "intent_task i = t"
    using t by (auto simp: intent_task_def row_get_str_def row_get_def dget_def split: option.splits)
  then show "unresolved rt t k" and "tv_outcome view t = Outcome_NOT_STARTED"
    using i s t reconcile_intent_unresolved [OF s r(2)] by (auto simp: unresolved_def)
qed

lemma reconciled_exclusive: "exclusive rt \<Longrightarrow> exclusive (fst (reconcile_start_intents now rt view))"
proof -
  assume e: "exclusive rt"
  have "keys (rt_intents (fst (reconcile_start_intents now rt view))) = keys (rt_intents rt)"
    by (simp add: reconcile_start_intents_intents comp_def split_beta)
  then show ?thesis
    using e reconciled_unresolved(1) unfolding exclusive_def by metis
qed

lemma reconcile_start_intents_frames [simp]:
  "rt_schema_version (fst (reconcile_start_intents now rt view)) = rt_schema_version rt"
  "rt_project_id (fst (reconcile_start_intents now rt view)) = rt_project_id rt"
  "rt_held (fst (reconcile_start_intents now rt view)) = rt_held rt"
  "rt_gates (fst (reconcile_start_intents now rt view)) = rt_gates rt"
  by (simp_all add: reconcile_start_intents_def Let_def)

text \<open>After reconciliation every unresolved intent is of a Task that looks not started.\<close>

definition reconciled :: "'w engine_env \<Rightarrow> 'w engine \<Rightarrow> bool" where
  "reconciled env s \<longleftrightarrow> (\<forall>t k. unresolved (en_runtime s) t k \<longrightarrow>
     tv_outcome (port_view (env_port env) (en_world s)) t = Outcome_NOT_STARTED)"

lemma reconciled_quiet: "reconciled env s \<Longrightarrow> quiet_step s s' \<Longrightarrow> reconciled env s'"
  by (simp add: reconciled_def quiet_step_def unresolved_def)

lemma reconcile_intents_triple:
  "triple (good env) (reconcile_intents env) (\<lambda>_ s. good env s \<and> reconciled env s) (good env)"
proof (rule tripleI)
  fix s r s'
  assume g: "good env s" and run: "reconcile_intents env s = (r, s')"
  let ?view = "port_view (env_port env) (en_world s)"
  let ?rt = "fst (reconcile_start_intents (env_now env) (en_runtime s) ?view)"
  have g1: "good env (s\<lparr>en_runtime := ?rt\<rparr>)"
    using g by (simp add: good_def durable_def reconciled_exclusive)
  have r1: "reconciled env (s\<lparr>en_runtime := ?rt\<rparr>)"
    using reconciled_unresolved(2) by (auto simp: reconciled_def)
  from on_runtime_run [OF run [unfolded reconcile_intents_def]]
  obtain events where e: "eeach (append_event env) events (s\<lparr>en_runtime := ?rt\<rparr>)
      \<in> {(Inr (), s'), (Inl (projl r), s')}"
    by (auto simp: Let_def split_beta)
  then have "quiet_step (s\<lparr>en_runtime := ?rt\<rparr>) s'"
    using quiet.keepsD [OF quiet.keeps_eeach [of "append_event env" events]] by fastforce
  then show "case r of Inl e \<Rightarrow> good env s' | Inr x \<Rightarrow> good env s' \<and> reconciled env s'"
    using good_quiet [OF g1] reconciled_quiet [OF r1] by (cases r) auto
qed

section \<open>Starting\<close>

text \<open>The only unresolved intent a Task may have when it is started is the one retried.\<close>

definition startable_now :: "runtime_state \<Rightarrow> string \<Rightarrow> string option \<Rightarrow> bool" where
  "startable_now rt t retry_of \<longleftrightarrow> (\<forall>k. unresolved rt t k \<longrightarrow> retry_of = Some k)"

lemma unresolved_dset:
  "unresolved (rt\<lparr>rt_intents := dset k i ints\<rparr>) t k' \<longleftrightarrow>
     (if k' = k then start_intent i \<and> \<not> intent_resolved i \<and> row_get i ''task_id'' PNone = PStr t
      else unresolved (rt\<lparr>rt_intents := ints\<rparr>) t k')"
  by (simp add: unresolved_def)

lemma unresolved_same [simp]: "rt\<lparr>rt_intents := rt_intents rt\<rparr> = (rt :: runtime_state)"
  by simp

lemma intent_resolved_dset [simp]:
  "k \<noteq> ''status'' \<Longrightarrow> intent_resolved (dset k v r) = intent_resolved r"
  "intent_resolved (dset ''status'' (PStr x) r) \<longleftrightarrow> x \<in> set resolved_intent_states"
  by (simp_all add: intent_resolved_def)

lemma new_intent_row [simp]:
  "start_intent (new_intent k t now @ rest)" "row_get (new_intent k t now @ rest) ''task_id'' x = PStr t"
  "row_get (new_intent k t now @ rest) ''status'' x = PStr ''pending''"
  "\<not> intent_resolved (new_intent k t now @ rest)"
  "start_intent (new_intent k t now)" "row_get (new_intent k t now) ''task_id'' x = PStr t"
  "row_get (new_intent k t now) ''status'' x = PStr ''pending''"
  "\<not> intent_resolved (new_intent k t now)"
  by (simp_all add: new_intent_def start_intent_def intent_resolved_def resolved_intent_states_def)

lemma add_intent_unresolved:
  "unresolved (add_intent k t now retry_of rt) u k' \<longleftrightarrow>
     (if k' = k then u = t else unresolved rt u k' \<and> retry_of \<noteq> Some k')"
  by (cases retry_of) (auto simp: add_intent_def Let_def unresolved_dset resolved_intent_states_def)

lemma add_intent_facts:
  assumes "exclusive rt" and "startable_now rt t retry_of"
  shows "exclusive (add_intent k t now retry_of rt)" and "pending_for (add_intent k t now retry_of rt) t"
    and "unresolved (add_intent k t now retry_of rt) t k"
    and "rt_schema_version (add_intent k t now retry_of rt) = rt_schema_version rt"
    and "rt_project_id (add_intent k t now retry_of rt) = rt_project_id rt"
proof -
  have "distinct (keys (rt_intents (add_intent k t now retry_of rt)))"
    using assms(1) by (auto simp: exclusive_def add_intent_def Let_def split: option.splits)
  moreover have "a = b" if "unresolved (add_intent k t now retry_of rt) u a"
    and "unresolved (add_intent k t now retry_of rt) u b" for u a b
    using that assms unfolding add_intent_unresolved exclusive_def startable_now_def
    by (metis (full_types))
  ultimately show "exclusive (add_intent k t now retry_of rt)" by (auto simp: exclusive_def)
  show "pending_for (add_intent k t now retry_of rt) t"
    unfolding pending_for_def by (rule exI [of _ k]) (auto simp: add_intent_def Let_def split: option.splits)
  show "unresolved (add_intent k t now retry_of rt) t k" by (simp add: add_intent_unresolved)
qed (simp_all add: add_intent_def Let_def split: option.splits)

text \<open>Updating the intent in hand keeps it the Task's only unresolved one.\<close>

definition intent_fields :: "row \<Rightarrow> bool" where
  "intent_fields kvs \<longleftrightarrow> ''kind'' \<notin> set (keys kvs) \<and> ''task_id'' \<notin> set (keys kvs)"

lemma update_row_get: "k \<notin> set (keys kvs) \<Longrightarrow> row_get (update_row r kvs) k x = row_get r k x"
  by (induction kvs arbitrary: r) auto

lemma update_intent_exclusive:
  assumes "exclusive rt" and "unresolved rt t k" and "intent_fields kvs"
  shows "exclusive (rt\<lparr>rt_intents := dset k (update_row (dget (rt_intents rt) k []) kvs) (rt_intents rt)\<rparr>)"
proof -
  let ?i = "update_row (dget (rt_intents rt) k []) kvs"
  obtain i where i: "map_of (rt_intents rt) k = Some i" "row_get i ''task_id'' PNone = PStr t"
    using assms(2) by (auto simp: unresolved_def)
  have "row_get ?i ''task_id'' PNone = PStr t"
    using assms(3) i by (simp add: update_row_get intent_fields_def)
  then have sub: "unresolved rt u k'"
    if "unresolved (rt\<lparr>rt_intents := dset k ?i (rt_intents rt)\<rparr>) u k'" for u k'
    using that assms(2) by (auto simp: unresolved_dset split: if_splits)
  have "distinct (keys (rt_intents (rt\<lparr>rt_intents := dset k ?i (rt_intents rt)\<rparr>)))"
    using assms(1) by (simp add: exclusive_def)
  then show ?thesis using assms(1) sub unfolding exclusive_def by blast
qed

lemma update_intent_triple:
  assumes "intent_fields kvs"
  shows "triple (\<lambda>s. good env s \<and> unresolved (en_runtime s) t k) (update_intent k kvs)
     (\<lambda>_. good env) (good env)"
  by (rule tripleI) (use update_intent_exclusive [OF _ _ assms] in
      \<open>auto simp: update_intent_def good_def durable_def\<close>)

definition free :: "string set \<Rightarrow> 'w engine \<Rightarrow> bool" where
  "free U s \<longleftrightarrow> (\<forall>u \<in> U. \<forall>k. \<not> unresolved (en_runtime s) u k)"

definition calm :: "'w engine_env \<Rightarrow> string set \<Rightarrow> 'w engine \<Rightarrow> bool" where
  "calm env U s \<longleftrightarrow> good env s \<and> free U s"

definition working :: "'w engine_env \<Rightarrow> string \<Rightarrow> string \<Rightarrow> string set \<Rightarrow> 'w engine \<Rightarrow> bool" where
  "working env t k U s \<longleftrightarrow> calm env U s \<and> unresolved (en_runtime s) t k"

lemma unresolved_quiet: "quiet_step s s' \<Longrightarrow> unresolved (en_runtime s') t k = unresolved (en_runtime s) t k"
  by (simp add: quiet_step_def unresolved_def)

lemma calm_quiet: "calm env U s \<Longrightarrow> quiet_step s s' \<Longrightarrow> calm env U s'"
  using good_quiet [of env s s'] by (simp add: calm_def free_def unresolved_quiet)

lemma working_quiet: "working env t k U s \<Longrightarrow> quiet_step s s' \<Longrightarrow> working env t k U s'"
  using calm_quiet [of env U s s'] by (simp add: working_def unresolved_quiet)

lemma armed_quiet: "armed (en_trace s) t \<Longrightarrow> quiet_step s s' \<Longrightarrow> armed (en_trace s') t"
  by (auto simp: quiet_step_def intro: armed_events)

lemma calm_save: "triple (calm env U) (save_runtime env) (\<lambda>_. calm env U) (calm env U)"
proof (rule tripleI)
  fix s r s'
  assume c: "calm env U s" and run: "save_runtime env s = (r, s')"
  have "en_runtime s' = en_runtime s" using save_runtime_run [OF run] by auto
  moreover have "good env s'"
    using c run tripleD_Inr [OF save_runtime_triple] tripleD_Inl [OF save_runtime_triple]
    by (cases r) (auto simp: calm_def)
  ultimately show "case r of Inl e \<Rightarrow> calm env U s' | Inr x \<Rightarrow> calm env U s'"
    using c by (cases r) (simp_all add: calm_def free_def)
qed

lemma update_intent_unresolved:
  assumes "unresolved rt t k" and "intent_fields kvs"
    and "unresolved (rt\<lparr>rt_intents := dset k (update_row (dget (rt_intents rt) k []) kvs) (rt_intents rt)\<rparr>) u k'"
  shows "unresolved rt u k'"
proof -
  obtain i where i: "map_of (rt_intents rt) k = Some i" "row_get i ''task_id'' PNone = PStr t"
    using assms(1) by (auto simp: unresolved_def)
  then have "row_get (update_row (dget (rt_intents rt) k []) kvs) ''task_id'' PNone = PStr t"
    using assms(2) by (simp add: update_row_get intent_fields_def)
  then show ?thesis using assms(1,3) by (auto simp: unresolved_dset split: if_splits)
qed

lemma working_update:
  assumes "intent_fields kvs"
  shows "triple (working env t k U) (update_intent k kvs) (\<lambda>_. calm env U) E"
proof (rule tripleI)
  fix s :: "'a engine" and r s'
  assume w: "working env t k U s" and run: "update_intent k kvs s = (r, s')"
  let ?rt = "(en_runtime s)\<lparr>rt_intents := dset k (update_row (dget (rt_intents (en_runtime s)) k []) kvs)
      (rt_intents (en_runtime s))\<rparr>"
  have u: "unresolved (en_runtime s) t k" and g: "good env s" and f: "free U s"
    using w by (simp_all add: working_def calm_def)
  have r: "r = Inr ()" and s': "s' = s\<lparr>en_runtime := ?rt\<rparr>"
    using run by (simp_all add: update_intent_def)
  have "good env s'"
    using g update_intent_exclusive [OF _ u assms] by (simp add: s' good_def durable_def)
  moreover have "free U s'"
    using f update_intent_unresolved [OF u assms] by (auto simp: s' free_def)
  ultimately show "case r of Inl e \<Rightarrow> E s' | Inr x \<Rightarrow> calm env U s'" by (simp add: r calm_def)
qed

lemma observe_triple: "triple P (observe env) (\<lambda>_. P) E"
  by (simp add: observe_def triple_pure(3))

lemma resolve_start_result_triple:
  "triple (working env t k U) (resolve_start_result env t k result) (\<lambda>_. calm env U) (calm env U)"
  unfolding resolve_start_result_def Let_def
  by (intro triple_bind [OF observe_triple] triple_if working_update)
    (simp_all add: intent_fields_def resolved_fields_def)

lemma reconcile_start_exception_triple:
  "triple (working env t k U) (reconcile_start_exception env t k e) (\<lambda>_. calm env U) (calm env U)"
  unfolding reconcile_start_exception_def Let_def
  by (intro triple_bind [OF observe_triple] triple_if triple_bind [OF working_update]
      triple_bind [OF calm_save] triple_pure) (simp_all add: intent_fields_def resolved_fields_def)

lemma call_start_triple:
  "triple (\<lambda>s. working env t k U s \<and> armed (en_trace s) t) (call_start env t)
     (\<lambda>_. working env t k U) (working env t k U)"
  by (rule tripleI)
    (auto simp: call_start_def port_action_def ebind_def working_def calm_def good_def durable_def
      free_def write_ahead_snoc split: prod.splits sum.splits)

lemma perform_start_triple:
  "triple (\<lambda>s. working env t k U s \<and> armed (en_trace s) t) (perform_start env t k)
     (\<lambda>_. calm env U) (calm env U)"
  unfolding perform_start_def
proof (rule triple_bind)
  show "triple (\<lambda>s. working env t k U s \<and> armed (en_trace s) t) (eattempt (call_start env t))
      (\<lambda>_. working env t k U) (calm env U)"
    by (rule triple_attempt [OF call_start_triple])
  show "triple (working env t k U) (case r of Inl e \<Rightarrow> reconcile_start_exception env t k e
      | Inr result \<Rightarrow> ebind (resolve_start_result env t k result) (\<lambda>_. ereturn result))
      (\<lambda>_. calm env U) (calm env U)" for r
    by (cases r) (auto intro: reconcile_start_exception_triple
        triple_bind [OF resolve_start_result_triple] triple_pure)
qed

lemma record_started_quiet [simp, intro]: "quiet.keeps (record_started env t k)"
  unfolding record_started_def Let_def by auto

lemma armed_working_append:
  "triple (\<lambda>s. working env t k U s \<and> armed (en_trace s) t) (append_event env e)
     (\<lambda>_ s. working env t k U s \<and> armed (en_trace s) t) (calm env U)"
proof (rule triple_weaken [OF triple_quiet])
  fix s s' :: "'a engine"
  assume "working env t k U s \<and> armed (en_trace s) t" and q: "quiet_step s s'"
  then show "working env t k U s' \<and> armed (en_trace s') t"
    using working_quiet [OF _ q] armed_quiet [OF _ q] by blast
qed (simp_all add: working_def)

lemma start_with_intent_triple:
  assumes "t \<notin> U"
  shows "triple (\<lambda>s. calm env U s \<and> startable_now (en_runtime s) t retry_of) (start_with_intent env t retry_of)
     (\<lambda>_. calm env U) (calm env U)"
  unfolding start_with_intent_def Let_def
proof (rule triple_bind)
  show "triple (\<lambda>s. calm env U s \<and> startable_now (en_runtime s) t retry_of) (next_uuid env)
      (\<lambda>_ s. calm env U s \<and> startable_now (en_runtime s) t retry_of) (calm env U)"
    by (rule tripleI) (auto simp: next_uuid_def calm_def good_def durable_def free_def)
  fix hex
  let ?k = "''start-'' @ t @ ''-'' @ hex"
  have add: "triple (\<lambda>s. calm env U s \<and> startable_now (en_runtime s) t retry_of)
      (eruntime (add_intent ?k t (env_now env) retry_of))
      (\<lambda>_ s. working env t ?k U s \<and> pending_for (en_runtime s) t) (calm env U)"
  proof (rule tripleI, elim conjE)
    fix s r s'
    assume c: "calm env U s" and n: "startable_now (en_runtime s) t retry_of"
      and run: "eruntime (add_intent ?k t (env_now env) retry_of) s = (r, s')"
    have e: "exclusive (en_runtime s)" using c by (simp add: calm_def good_def)
    note a = add_intent_facts [OF e n, of ?k "env_now env"]
    have "free U (s\<lparr>en_runtime := add_intent ?k t (env_now env) retry_of (en_runtime s)\<rparr>)"
      using c assms by (auto simp: calm_def free_def add_intent_unresolved)
    then show "case r of Inl e \<Rightarrow> calm env U s'
        | Inr x \<Rightarrow> working env t ?k U s' \<and> pending_for (en_runtime s') t"
      using run c a by (auto simp: working_def calm_def good_def durable_def)
  qed
  have save: "triple (\<lambda>s. working env t ?k U s \<and> pending_for (en_runtime s) t) (save_runtime env)
      (\<lambda>_ s. working env t ?k U s \<and> armed (en_trace s) t) (calm env U)"
  proof (rule tripleI, elim conjE)
    fix s r s'
    assume w: "working env t ?k U s" and p: "pending_for (en_runtime s) t"
      and run: "save_runtime env s = (r, s')"
    have c: "calm env U s" using w by (simp add: working_def)
    show "case r of Inl e \<Rightarrow> calm env U s' | Inr x \<Rightarrow> working env t ?k U s' \<and> armed (en_trace s') t"
    proof (cases r)
      case (Inl e)
      then show ?thesis using tripleD_Inl [OF calm_save c] run by simp
    next
      case (Inr x)
      then have run': "save_runtime env s = (Inr (), s')" using run by simp
      from saved_armed [OF run' p] tripleD_Inr [OF calm_save c run'] w show ?thesis
        by (simp add: Inr working_def)
    qed
  qed
  have app: "triple (\<lambda>s. working env t ?k U s \<and> armed (en_trace s) t) (append_event env e)
      (\<lambda>_ s. working env t ?k U s \<and> armed (en_trace s) t) (calm env U)" for e
    by (rule armed_working_append)
  have rec: "triple (calm env U) (record_started env t ?k) (\<lambda>_. calm env U) (calm env U)"
    by (rule triple_quiet) (auto intro: calm_quiet)
  show "triple (\<lambda>s. calm env U s \<and> startable_now (en_runtime s) t retry_of)
      (ebind (eruntime (add_intent ?k t (env_now env) retry_of)) (\<lambda>_.
       ebind (save_runtime env) (\<lambda>_.
       ebind (append_event env (''project_task_start_requested'', [(''task_id'', PStr t), (''intent_id'', PStr ?k)])) (\<lambda>_.
       ebind (perform_start env t ?k) (\<lambda>result.
       ebind (save_runtime env) (\<lambda>_.
       ebind (record_started env t ?k) (\<lambda>_. ereturn result))))))) (\<lambda>_. calm env U) (calm env U)"
    by (intro triple_bind [OF add] triple_bind [OF save] triple_bind [OF app]
        triple_bind [OF perform_start_triple] triple_bind [OF calm_save] triple_bind [OF rec] triple_pure)
qed

section \<open>The automatic cycle\<close>

lemma start_failed_quiet [simp, intro]: "quiet.keeps (start_failed env cid f)"
  unfolding start_failed_def by auto

lemma triple_eget: "triple P (eget f) (\<lambda>x s. P s \<and> x = f s) E"
  by (simp add: triple_def)

lemma good_elift: "triple P (elift r) (\<lambda>x s. P s \<and> r = Inr x) P"
  by (auto simp: triple_def split: sum.splits)

lemma start_loop_triple:
  "distinct ts \<Longrightarrow> triple (calm env (set ts)) (start_loop env cid ts started) (\<lambda>_. good env) (good env)"
proof (induction ts arbitrary: started)
  case Nil
  then show ?case by (simp add: triple_def calm_def)
next
  case (Cons t ts)
  have start: "triple (calm env (set (t # ts))) (eattempt (start_with_intent env t None))
      (\<lambda>_. calm env (set ts)) (good env)"
  proof (rule triple_attempt [OF triple_weaken [OF start_with_intent_triple [of t "set ts" env None]]])
    show "t \<notin> set ts" using Cons.prems by simp
    show "calm env (set ts) s \<and> startable_now (en_runtime s) t None" if "calm env (set (t # ts)) s" for s
      using that by (auto simp: calm_def free_def startable_now_def)
  qed auto
  have fail: "triple (calm env (set ts)) (ebind (start_failed env cid f) (\<lambda>_. ereturn o')) (\<lambda>_. good env) (good env)"
    for f and o' :: automatic_outcome
    by (rule triple_weaken [of "good env" _ "\<lambda>_. good env" "good env"],
        rule triple_bind [OF good_quiet_triple triple_pure(1)]) (auto simp: calm_def)
  have rest: "triple (calm env (set ts)) (case r of
      Inl e \<Rightarrow> ebind (start_failed env cid (t, py_error_text e)) (\<lambda>_.
          ereturn \<lparr>ao_started = started, ao_failures = [(t, py_error_text e)]\<rparr>)
      | Inr result \<Rightarrow>
          if sr_accepted result \<or> sr_already_started result
          then start_loop env cid ts (started @ [t])
          else (let msg = (if sr_message result \<noteq> [] then sr_message result
                           else ''Task start was rejected'')
                in ebind (start_failed env cid (t, msg)) (\<lambda>_.
                   ereturn \<lparr>ao_started = started, ao_failures = [(t, msg)]\<rparr>)))
      (\<lambda>_. good env) (good env)" for r
    unfolding Let_def
    by (cases r) (simp_all add: fail Cons.IH [OF distinct.simps(2) [THEN iffD1, THEN conjunct2, OF Cons.prems]]
        triple_if)
  show ?case unfolding start_loop.simps by (rule triple_bind [OF start rest])
qed

text \<open>What a cycle knows when it plans.\<close>

definition observation :: "execution_definition \<Rightarrow> task_view \<Rightarrow> row pydict" where
  "observation d view = py_dict (map (\<lambda>t. (pt_task_id t, observation_row (tv_describe view (pt_task_id t)))) (pd_tasks d))"

definition observed_now :: "'w engine_env \<Rightarrow> execution_definition \<Rightarrow> 'w engine \<Rightarrow> bool" where
  "observed_now env d s \<longleftrightarrow>
     rt_observed_tasks (en_runtime s) = observation d (port_view (env_port env) (en_world s))"

definition planning :: "'w engine_env \<Rightarrow> execution_definition \<Rightarrow> 'w engine \<Rightarrow> bool" where
  "planning env d s \<longleftrightarrow> good env s \<and> reconciled env s \<and> observed_now env d s"

lemma planning_step: "planning env d s \<Longrightarrow> quiet_step s s' \<Longrightarrow> same_observation s s' \<Longrightarrow> planning env d s'"
  using good_quiet [of env s s'] reconciled_quiet [of env s s']
  by (simp add: planning_def observed_now_def same_observation_def quiet_step_def)

lemma planning_triple:
  assumes "quiet.keeps m" and "observed.keeps m"
  shows "triple (planning env d) m (\<lambda>_. planning env d) (good env)"
proof (rule tripleI)
  fix s r s' assume p: "planning env d s" and run: "m s = (r, s')"
  have "planning env d s'"
    by (rule planning_step [OF p quiet.keepsD [OF assms(1) run] observed.keepsD [OF assms(2) run]])
  then show "case r of Inl e \<Rightarrow> good env s' | Inr x \<Rightarrow> planning env d s'"
    by (cases r) (simp_all add: planning_def)
qed

lemma observe_tasks_run:
  assumes "observe_tasks env d s = (Inr (), s')"
  shows "observed_now env d s'"
proof -
  from assms obtain s1 where e: "eeach (observe_event env (en_runtime s) (port_view (env_port env) (en_world s)))
      (pd_tasks d) s = (Inr (), s1)"
    and s': "s' = s1\<lparr>en_runtime := (en_runtime s1)\<lparr>rt_observed_tasks :=
      observation d (port_view (env_port env) (en_world s))\<rparr>\<rparr>"
    by (auto simp: observe_tasks_def observe_def observation_def elim!: ebind_InrE)
  have "quiet_step s s1" by (rule quiet.keepsD [OF quiet.keeps_eeach e]) simp
  then show ?thesis by (simp add: s' observed_now_def quiet_step_def)
qed

lemma observe_tasks_planning:
  "triple (\<lambda>s. good env s \<and> reconciled env s) (observe_tasks env d) (\<lambda>_. planning env d) (good env)"
proof (rule tripleI, elim conjE)
  fix s r s' assume g: "good env s" and c: "reconciled env s" and run: "observe_tasks env d s = (r, s')"
  have q: "quiet_step s s'" by (rule quiet.keepsD [OF observe_tasks_quiet run])
  show "case r of Inl e \<Rightarrow> good env s' | Inr x \<Rightarrow> planning env d s'"
    using good_quiet [OF g q] reconciled_quiet [OF c q] observe_tasks_run [of env d s s'] run
    by (cases r) (simp_all add: planning_def)
qed

lemma map_of_graph_image: "k \<in> f ` set xs \<Longrightarrow> map_of (map (\<lambda>x. (f x, g (f x))) xs) k = Some (g k)"
  by (induction xs) auto

lemma observed_outcome_now:
  assumes "observed_now env d s" and "t \<in> set (task_ids d)"
  shows "observed_outcome (en_runtime s) t = ts_outcome (tv_describe (port_view (env_port env) (en_world s)) t)"
proof -
  let ?view = "port_view (env_port env) (en_world s)"
  have "map_of (observation d ?view) t = Some (observation_row (tv_describe ?view t))"
  proof -
    have "map_of (rev (map (\<lambda>x. (pt_task_id x, observation_row (tv_describe ?view (pt_task_id x)))) (pd_tasks d))) t
        = Some (observation_row (tv_describe ?view t))"
      unfolding rev_map
      by (rule map_of_graph_image [of t pt_task_id _ "\<lambda>i. observation_row (tv_describe ?view i)"])
        (use assms(2) in \<open>simp add: task_ids_def\<close>)
    then show ?thesis unfolding observation_def map_of_py_dict .
  qed
  then show ?thesis using assms(1)
    by (simp add: observed_outcome_def observed_now_def observation_row_def)
qed

lemma planned_free:
  assumes p: "planning env d s" and u: "unique_ids d" and ids: "\<forall>t \<in> set (task_ids d). t \<noteq> []"
    and reader: "task_reader (port_view (env_port env) (en_world s))"
    and plan: "automatic_plan d (en_runtime s) results phases = Inr plan"
  shows "free (set (sp_task_ids plan)) s"
  unfolding free_def
proof (intro ballI allI notI)
  fix t k assume t: "t \<in> set (sp_task_ids plan)" and un: "unresolved (en_runtime s) t k"
  let ?view = "port_view (env_port env) (en_world s)"
  have "startable d (occupied_tasks d (en_runtime s)) results phases t"
    by (rule automatic_plan_startable [OF plan t])
  then have no: "t \<notin> set (reserved_tasks (en_runtime s))" and known: "t \<in> set (task_ids d)"
    by (auto simp: startable_def occupied_tasks_iff map_of_phase_by_task [OF u] task_ids_def)
  have "tv_outcome ?view t = Outcome_NOT_STARTED"
    using p un by (auto simp: planning_def reconciled_def)
  then have "observed_outcome (en_runtime s) t = Outcome_NOT_STARTED"
    using p known observed_outcome_now [of env d s t] task_reader.describe_outcome [OF reader]
    by (simp add: planning_def)
  moreover obtain i where i: "map_of (rt_intents (en_runtime s)) k = Some i" "start_intent i"
    "\<not> intent_resolved i" "row_get i ''task_id'' PNone = PStr t"
    using un by (auto simp: unresolved_def)
  moreover have "intent_task i = t"
    using i(4) by (auto simp: intent_task_def row_get_str_def row_get_def dget_def split: option.splits)
  ultimately show False
    using no known ids by (auto simp: reserved_tasks_iff dest: map_of_SomeD)
qed

lemma plan_cycle_triple:
  assumes u: "unique_ids d" and ids: "\<forall>t \<in> set (task_ids d). t \<noteq> []"
    and reader: "\<And>w. task_reader (port_view (env_port env) w)"
  shows "triple (good env) (plan_cycle env d)
     (\<lambda>plan s. calm env (set (sp_task_ids plan)) s \<and> distinct (sp_task_ids plan)) (good env)"
proof -
  have recon: "triple (\<lambda>s. good env s \<and> reconciled env s) m (\<lambda>_ s. good env s \<and> reconciled env s) (good env)"
    if "quiet.keeps m" for m :: "('a, unit) eng"
    by (rule triple_weaken [OF triple_quiet [OF that, of "\<lambda>s. good env s \<and> reconciled env s"]])
      (auto intro: good_quiet reconciled_quiet)
  have last: "triple (\<lambda>s. planning env d s \<and> rt = en_runtime s) (elift (automatic_plan d rt results phases))
      (\<lambda>plan s. calm env (set (sp_task_ids plan)) s \<and> distinct (sp_task_ids plan)) (good env)"
    for rt results phases
    by (rule tripleI) (auto simp: calm_def planning_def automatic_plan_order(1)
        intro: planned_free [OF _ u ids reader, unfolded planning_def] split: sum.splits)
  show ?thesis
    unfolding plan_cycle_def
    by (intro triple_bind [OF good_quiet_triple [OF sync_definition_quiet]]
        triple_bind [OF reconcile_intents_triple] triple_bind [OF recon [OF evaluate_gates_frames(1)]]
        triple_bind [OF recon [OF evaluate_milestones_frames(1)]] triple_bind [OF observe_tasks_planning]
        triple_bind [OF planning_triple [OF apply_failure_policy_frames]]
        triple_bind [OF planning_triple [OF refresh_frames]])
      (auto simp: split_beta intro!: triple_bind [OF triple_eget last])
qed

section \<open>Every operation keeps the durable state safe\<close>

definition safe_op :: "'w engine_env \<Rightarrow> ('w, 'a) eng \<Rightarrow> bool" where
  "safe_op env m \<longleftrightarrow> (\<forall>s. durable env s \<longrightarrow> durable env (snd (m s)))"

lemma safe_opI:
  assumes "triple (durable env) m (\<lambda>_. durable env) (durable env)"
  shows "safe_op env m"
  unfolding safe_op_def
proof (intro allI impI)
  fix s assume "durable env s"
  with assms show "durable env (snd (m s))"
    by (cases "m s"; cases "fst (m s)") (auto simp: triple_def dest!: spec [of _ s])
qed

lemma good_ends: "triple P m (\<lambda>_. good env) (good env) \<Longrightarrow> triple P m (\<lambda>_. durable env) (durable env)"
  by (erule triple_weaken) (auto simp: good_def)

lemma finish_cycle_triple: "triple (good env) (finish_cycle env d cid plan oc) (\<lambda>_. good env) (good env)"
  unfolding finish_cycle_def
  by (intro triple_bind [OF good_quiet_triple [OF evaluate_gates_frames(1)]]
      triple_bind [OF good_quiet_triple [OF evaluate_milestones_frames(1)]]
      triple_bind [OF good_quiet_triple [OF observe_tasks_quiet]]
      triple_bind [OF good_quiet_triple [OF refresh_frames(1)]])
    (auto simp: split_beta intro!: triple_bind [OF good_quiet_triple] triple_bind [OF save_runtime_triple]
      triple_pure)

lemma load_definition_triple:
  "triple P (load_definition env) (\<lambda>d s. P s \<and> definition_ok d \<and> definition_wf d None) P"
  by (rule tripleI) (auto simp: load_definition_def ebind_def split: sum.splits
      dest: repository_load_facts)

lemma definition_ok_task_ids:
  assumes "definition_ok d" and "t \<in> set (task_ids d)"
  shows "t \<noteq> []"
proof -
  obtain x where x: "task_ok x" "pt_task_id x = t"
    using assms by (auto simp: definition_ok_def task_ids_def list_all_iff)
  then show ?thesis
    by (cases x) (auto simp: task_ok_def task_init_def dest: validate_task_reference_ne
        split: pyval.splits)
qed

lemma next_uuid_calm: "triple (\<lambda>s. calm env U s \<and> b) (next_uuid env) (\<lambda>_ s. calm env U s \<and> b) (good env)"
  by (rule tripleI) (auto simp: next_uuid_def calm_def good_def durable_def free_def)

lemma append_event_calm:
  "triple (\<lambda>s. calm env U s \<and> b) (append_event env e) (\<lambda>_ s. calm env U s \<and> b) (good env)"
proof (rule triple_weaken [OF triple_quiet [OF append_event_quiet]])
  fix s s' :: "'a engine" assume "calm env U s \<and> b" and "quiet_step s s'"
  then show "calm env U s' \<and> b" using calm_quiet by blast
qed (simp_all add: calm_def)

lemma run_cycle_triple:
  assumes ok: "definition_ok d" and reader: "\<And>w. task_reader (port_view (env_port env) w)"
  shows "triple (durable env) (run_cycle env d) (\<lambda>_. durable env) (durable env)"
proof -
  have start: "triple (\<lambda>s. (calm env (set (sp_task_ids plan)) s \<and> distinct (sp_task_ids plan)) \<and> rt = en_runtime s)
      (if rt_held rt then ereturn \<lparr>ao_started = [], ao_failures = []\<rparr>
       else start_loop env cid (sp_task_ids plan) []) (\<lambda>_. good env) (good env)" for rt plan cid
  proof (cases "distinct (sp_task_ids plan)")
    case True
    have "triple (\<lambda>s. (calm env (set (sp_task_ids plan)) s \<and> distinct (sp_task_ids plan)) \<and> rt = en_runtime s)
        (start_loop env cid (sp_task_ids plan) []) (\<lambda>_. good env) (good env)"
      by (rule triple_weaken [OF start_loop_triple [OF True]]) auto
    then show ?thesis
      by (intro triple_if [OF triple_pure(1)]) (simp_all add: calm_def)
  qed (simp add: triple_def)
  have plan: "triple (good env) (plan_cycle env d)
      (\<lambda>plan s. calm env (set (sp_task_ids plan)) s \<and> distinct (sp_task_ids plan)) (good env)"
    by (rule plan_cycle_triple [OF definition_ok_unique_ids [OF ok] _ reader])
      (use definition_ok_task_ids [OF ok] in auto)
  have "triple (good env) (ebind (plan_cycle env d) (\<lambda>plan. ebind (next_uuid env) (\<lambda>hex.
     (let cycle_id = ''automatic-'' @ hex in
      ebind (append_event env (''project_automatic_cycle_started'',
               [(''cycle_id'', PStr cycle_id), (''planned_tasks'', strs (sp_task_ids plan))])) (\<lambda>_.
      ebind (eget en_runtime) (\<lambda>rt.
      ebind (if rt_held rt then ereturn \<lparr>ao_started = [], ao_failures = []\<rparr>
             else start_loop env cycle_id (sp_task_ids plan) []) (\<lambda>outcome.
      finish_cycle env d cycle_id plan outcome))))))) (\<lambda>_. good env) (good env)"
    unfolding Let_def
    by (intro triple_bind [OF plan] triple_bind [OF next_uuid_calm] triple_bind [OF append_event_calm]
        triple_bind [OF triple_eget] triple_bind [OF start] finish_cycle_triple)
  from triple_bind [OF load_runtime_triple good_ends [OF this]] show ?thesis
    unfolding run_cycle_def .
qed

lemma automatic_cycle_safe:
  assumes "\<And>w. task_reader (port_view (env_port env) w)"
  shows "safe_op env (automatic_cycle env)"
proof (rule safe_opI, unfold automatic_cycle_def, rule triple_bind [OF load_definition_triple])
  fix d
  show "triple (\<lambda>s. durable env s \<and> definition_ok d \<and> definition_wf d None)
      (if pd_mode d \<noteq> Mode_AUTOMATIC
       then eraise (ProjectExecutionError ''automatic cycles require Project Execution mode=automatic'')
       else run_cycle env d) (\<lambda>_. durable env) (durable env)"
  proof (cases "definition_ok d")
    case True
    have "triple (\<lambda>s. durable env s \<and> definition_ok d \<and> definition_wf d None) (run_cycle env d)
        (\<lambda>_. durable env) (durable env)"
      by (rule triple_weaken [OF run_cycle_triple [OF True assms]]) auto
    then show ?thesis by (intro triple_if [OF triple_pure(2)]) simp_all
  qed (simp add: triple_def)
qed

lemma sync_then:
  "triple (good env) m (\<lambda>_. good env) (good env) \<Longrightarrow>
   triple (durable env) (ebind (load_runtime env) (\<lambda>_. ebind (sync_definition env d) (\<lambda>_. m)))
     (\<lambda>_. durable env) (durable env)"
  by (intro triple_bind [OF load_runtime_triple] good_ends triple_bind [OF good_quiet_triple]) auto

lemma load_then:
  assumes "\<And>d. triple (durable env) (f d) (\<lambda>_. durable env) (durable env)"
  shows "safe_op env (ebind (load_definition env) f)"
proof (rule safe_opI, rule triple_bind [OF load_definition_triple])
  fix d
  show "triple (\<lambda>s. durable env s \<and> definition_ok d \<and> definition_wf d None) (f d)
      (\<lambda>_. durable env) (durable env)"
    by (rule triple_weaken [OF assms]) auto
qed

lemma reconcile_safe: "safe_op env (reconcile env)"
  unfolding reconcile_def
proof (rule load_then, rule sync_then)
  fix d
  have recon: "triple (good env) (reconcile_intents env) (\<lambda>_. good env) (good env)"
    by (rule triple_weaken [OF reconcile_intents_triple]) auto
  show "triple (good env) (ebind (reconcile_intents env) (\<lambda>_. ebind (evaluate_gates env d) (\<lambda>_.
     ebind (evaluate_milestones env d) (\<lambda>_. ebind (eligibility env d) (\<lambda>results.
     ebind (record_ready_tasks env results) (\<lambda>_. ebind (observe_tasks env d) (\<lambda>_.
     ebind (project_phases env d results) (\<lambda>phases. ebind (record_phase_transitions env phases) (\<lambda>_.
     ebind (stamp_executor ''last_reconciled_at'' (PStr (env_now env))) (\<lambda>_.
     ebind (save_runtime env) (\<lambda>_. eget (\<lambda>s. snapshot_of d (en_runtime s) phases results))))))))))))
     (\<lambda>_. good env) (good env)"
    by (intro triple_bind [OF recon] triple_bind [OF good_quiet_triple] triple_bind [OF save_runtime_triple]
        evaluate_gates_frames evaluate_milestones_frames eligibility_frames record_ready_tasks_frames
        observe_tasks_quiet project_phases_frames record_phase_transitions_frames stamp_executor_frames
        triple_pure) simp
qed

lemma gate_decide_frames:
  assumes "gate_decide now gid rt actor decision why = Inr (rt', rec, events)"
  shows "rt_intents rt' = rt_intents rt" "rt_project_id rt' = rt_project_id rt"
    "rt_schema_version rt' = rt_schema_version rt"
  by (rule gate_decide_Inr [OF assms]; simp)+

lemma gate_waive_frames:
  assumes "gate_waive now gid rt actor why = Inr (rt', waiver, events)"
  shows "rt_intents rt' = rt_intents rt" "rt_project_id rt' = rt_project_id rt"
    "rt_schema_version rt' = rt_schema_version rt"
  by (rule gate_waive_Inr [OF assms]; simp)+

lemma on_decide_quiet [simp, intro]:
  "quiet.keeps (on_runtime env (\<lambda>rt view. gate_decide now gid rt actor decision why))"
  by (rule on_runtime_quiet) (auto dest: gate_decide_frames)

lemma on_waive_quiet [simp, intro]:
  "quiet.keeps (on_runtime env (\<lambda>rt view. gate_waive now gid rt actor why))"
  by (rule on_runtime_quiet) (auto dest: gate_waive_frames)

lemma good_fail: "triple (good env) (eraise e) (\<lambda>_. good env) (good env)"
  by (rule triple_pure)

lemma decide_gate_safe: "safe_op env (decide_gate env gid actor decision why)"
  unfolding decide_gate_def
  by (intro load_then sync_then triple_bind [OF good_quiet_triple [OF evaluate_gates_frames(1)]]
      triple_if good_fail triple_bind [OF good_quiet_triple [OF on_decide_quiet]]
      triple_bind [OF good_quiet_triple [OF evaluate_one_gate_frames(1)]]
      triple_bind [OF save_runtime_triple] triple_pure)

lemma waive_gate_safe: "safe_op env (waive_gate env gid actor why)"
  unfolding waive_gate_def
  by (intro load_then sync_then triple_bind [OF good_quiet_triple [OF evaluate_gates_frames(1)]]
      triple_if good_fail triple_bind [OF good_quiet_triple [OF on_waive_quiet]]
      triple_bind [OF save_runtime_triple] triple_pure)

lemma pause_safe: "safe_op env (pause env why)"
  unfolding pause_def Let_def
  by (intro safe_opI triple_bind [OF load_runtime_triple] good_ends
      triple_bind [OF good_quiet_triple [OF eruntime_quiet]] triple_bind [OF save_runtime_triple]
      good_quiet_triple append_event_quiet) simp

lemma resume_safe: "safe_op env (resume env)"
  unfolding resume_def
  by (intro safe_opI triple_bind [OF load_runtime_triple] good_ends
      triple_bind [OF good_quiet_triple [OF eruntime_quiet]] triple_bind [OF save_runtime_triple]
      triple_bind [OF good_quiet_triple [OF quiet.keeps_pure(4)]] good_quiet_triple append_event_quiet) simp

lemma pending_start_intent_None:
  "pending_start_intent rt t = None \<Longrightarrow> \<not> unresolved rt t k"
  by (auto simp: pending_start_intent_def find_None_iff unresolved_def dest!: map_of_SomeD)

lemma find_SomeD: "List.find P xs = Some x \<Longrightarrow> x \<in> set xs \<and> P x"
  by (induction xs) (auto split: if_splits)

lemma pending_start_intent_startable:
  assumes "exclusive rt"
  shows "startable_now rt t (pending_start_intent rt t)"
proof (cases "pending_start_intent rt t")
  case None
  then show ?thesis using pending_start_intent_None by (auto simp: startable_now_def)
next
  case (Some k)
  then obtain i where i: "(k, i) \<in> set (rt_intents rt)" "start_intent i"
    "row_get i ''task_id'' PNone = PStr t" "\<not> intent_resolved i"
    by (auto simp: pending_start_intent_def dest!: find_SomeD)
  then have "unresolved rt t k"
    using assms map_of_is_SomeI by (fastforce simp: unresolved_def exclusive_def)
  then show ?thesis using assms unfolding startable_now_def exclusive_def Some by blast
qed

lemma start_task_safe: "safe_op env (start_task env t retry)"
  unfolding start_task_def
proof (rule load_then, rule triple_bind [OF load_runtime_triple], rule good_ends)
  fix d
  let ?start = "\<lambda>rt result. if \<not> el_eligible result
      then eraise (ProjectExecutionError
            (''Task is not eligible: '' @ py_join ''; '' (map er_message (el_reasons result))))
      else (let pending = pending_start_intent rt t in
        if pending \<noteq> None \<and> \<not> retry
        then eraise (ProjectExecutionError
               (''Task '' @ t @ '' has an unresolved start intent; reconcile or explicitly retry it''))
        else start_with_intent env t pending)"
  have start: "triple (\<lambda>s. good env s \<and> rt = en_runtime s) (?start rt result) (\<lambda>_. good env) (good env)"
    for rt result
  proof (cases "exclusive rt")
    case True
    have "triple (\<lambda>s. good env s \<and> rt = en_runtime s) (start_with_intent env t (pending_start_intent rt t))
        (\<lambda>_. good env) (good env)"
    proof (rule triple_weaken [OF start_with_intent_triple [of t "{}"]])
      fix s assume "good env s \<and> rt = en_runtime s"
      then show "calm env {} s \<and> startable_now (en_runtime s) t (pending_start_intent rt t)"
        using pending_start_intent_startable [OF True, of t] by (simp add: calm_def free_def)
    qed (simp_all add: calm_def)
    then show ?thesis unfolding Let_def by (intro triple_if triple_pure(2)) simp_all
  qed (auto simp: triple_def good_def)
  have read: "triple (\<lambda>s. good env s \<and> rt = en_runtime s) (elift r)
      (\<lambda>_ s. good env s \<and> rt = en_runtime s) (good env)" for rt and r :: "eligibility_result res"
    by (auto simp: triple_def split: sum.splits)
  show "triple (good env)
     (if pd_mode d = Mode_OBSERVE
     then eraise (ProjectExecutionError ''Observe mode cannot start Tasks'')
     else if pd_mode d = Mode_AUTOMATIC
     then eraise (ProjectExecutionError ''Automatic mode starts Tasks only through an automatic cycle'')
     else ebind (sync_definition env d) (\<lambda>_. ebind (evaluate_gates env d) (\<lambda>_.
     if t \<notin> set (keys (task_index d))
     then eraise (ProjectExecutionError (''Task '' @ py_repr_str t @ '' is not part of Project Execution''))
     else ebind (eget en_runtime) (\<lambda>rt. ebind (observe env) (\<lambda>view.
     ebind (elift (evaluate_task_eligibility t d rt view)) (\<lambda>result. ?start rt result))))))
     (\<lambda>_. good env) (good env)"
    by (intro triple_if good_fail triple_bind [OF good_quiet_triple [OF sync_definition_quiet]]
        triple_bind [OF good_quiet_triple [OF evaluate_gates_frames(1)]] triple_bind [OF triple_eget]
        triple_bind [OF observe_triple] triple_bind [OF read] start)
qed

section \<open>Operations that start nothing\<close>

lemma save_runtime_nostart [simp, intro]: "nostart.keeps (save_runtime env)"
  unfolding nostart.keeps_def
proof
  fix s :: "'a engine"
  show "starts_nothing s (snd (save_runtime env s))"
    using save_runtime_run [of env s "fst (save_runtime env s)" "snd (save_runtime env s)"]
    by (auto simp: starts_nothing_def)
qed

lemma eruntime_nostart [simp, intro]: "nostart.keeps (eruntime f)"
  by (simp add: nostart.keeps_def starts_nothing_def)

lemma append_event_nostart [simp, intro]: "nostart.keeps (append_event env e)"
  by (rule quiet_nostart) simp

lemma load_runtime_nostart [simp, intro]: "nostart.keeps (load_runtime env)"
  unfolding load_runtime_def by (intro nostart.keeps_ebind nostart.keeps_pure eruntime_nostart)

lemma on_runtime_nostart [simp, intro]: "nostart.keeps (on_runtime env f)"
  unfolding on_runtime_def
  by (intro nostart.keeps_ebind nostart.keeps_pure nostart.keeps_observe nostart.keeps_prod
      nostart.keeps_eeach eruntime_nostart append_event_nostart)

lemmas nostart_parts = quiet_nostart [OF load_definition_quiet] quiet_nostart [OF sync_definition_quiet]
  quiet_nostart [OF evaluate_gates_frames(1)] quiet_nostart [OF evaluate_milestones_frames(1)]
  quiet_nostart [OF eligibility_frames(1)] quiet_nostart [OF record_ready_tasks_frames(1)]
  quiet_nostart [OF observe_tasks_quiet] quiet_nostart [OF project_phases_frames(1)]
  quiet_nostart [OF record_phase_transitions_frames(1)] quiet_nostart [OF stamp_executor_frames(1)]
  quiet_nostart [OF evaluate_one_gate_frames(1)] quiet_nostart [OF apply_failure_policy_frames(1)]
  quiet_nostart [OF refresh_frames(1)]
  load_runtime_nostart save_runtime_nostart eruntime_nostart append_event_nostart on_runtime_nostart
  nostart.keeps_pure nostart.keeps_observe

lemma reconcile_nostart: "nostart.keeps (reconcile env)"
  unfolding reconcile_def reconcile_intents_def by (intro nostart.keeps_ebind nostart_parts)

lemma decide_gate_nostart: "nostart.keeps (decide_gate env gid actor decision why)"
  unfolding decide_gate_def by (intro nostart.keeps_ebind nostart.keeps_if nostart_parts)

lemma waive_gate_nostart: "nostart.keeps (waive_gate env gid actor why)"
  unfolding waive_gate_def by (intro nostart.keeps_ebind nostart.keeps_if nostart_parts)

lemma pause_nostart: "nostart.keeps (pause env why)"
  unfolding pause_def Let_def by (intro nostart.keeps_ebind nostart_parts)

lemma resume_nostart: "nostart.keeps (resume env)"
  unfolding resume_def by (intro nostart.keeps_ebind nostart_parts)

end
