(* ===== verification/Exec_Starts.thy ===== *)
theory Exec_Starts
  imports Exec_Safety
begin

text \<open>
  What is started, and when: a start by \<open>start_task\<close> or by an automatic cycle is of a Task
  that was eligible in the state the decision was made in. The last section closes the
  operations under crashes, edits of the definition and progress of the Tasks.
\<close>

section \<open>Starts of one operation\<close>

definition started :: "'w engine \<Rightarrow> string list" where
  "started s = starts_of (en_trace s)"

lemma nostart_triple:
  "nostart.keeps m \<Longrightarrow> triple (\<lambda>s. started s = X) m (\<lambda>_ s. started s = X) (\<lambda>s. started s = X)"
  by (rule tripleI) (use nostart.keepsD in \<open>fastforce simp: starts_nothing_def started_def split: sum.splits\<close>)

lemma quiet_started: "quiet_step s s' \<Longrightarrow> started s' = started s"
  by (auto simp: quiet_step_def started_def)

lemma call_start_started:
  "triple (\<lambda>s. started s = X) (call_start env t) (\<lambda>_ s. started s = X @ [t]) (\<lambda>s. started s = X @ [t])"
  by (rule tripleI)
    (auto simp: call_start_def port_action_def ebind_def started_def split: prod.splits sum.splits)

lemma resolve_nostart [simp, intro]: "nostart.keeps (resolve_start_result env t k result)"
  unfolding resolve_start_result_def update_intent_def Let_def
  by (intro nostart.keeps_ebind nostart.keeps_if nostart_parts)

lemma exception_nostart [simp, intro]: "nostart.keeps (reconcile_start_exception env t k e)"
  unfolding reconcile_start_exception_def update_intent_def Let_def
  by (intro nostart.keeps_ebind nostart.keeps_if nostart_parts)

lemma perform_start_started:
  "triple (\<lambda>s. started s = X) (perform_start env t k) (\<lambda>_ s. started s = X @ [t]) (\<lambda>s. started s = X @ [t])"
  unfolding perform_start_def
  by (rule triple_bind [OF triple_attempt [OF call_start_started]])
    (auto intro!: nostart_triple nostart.keeps_sum nostart.keeps_ebind)

lemma next_uuid_nostart [simp, intro]: "nostart.keeps (next_uuid env)"
  by (simp add: nostart.keeps_def next_uuid_def starts_nothing_def)

abbreviation maybe_started :: "string list \<Rightarrow> string \<Rightarrow> 'w engine \<Rightarrow> bool" where
  "maybe_started X t s \<equiv> started s = X \<or> started s = X @ [t]"

lemma maybe_triple:
  assumes "triple (\<lambda>s. started s = X) m (\<lambda>_ s. started s = X) (\<lambda>s. started s = X)"
  shows "triple (\<lambda>s. started s = X) m (\<lambda>_ s. started s = X) (maybe_started X t)"
  by (rule triple_weaken [OF assms]) auto

lemma start_with_intent_started:
  "triple (\<lambda>s. started s = X) (start_with_intent env t retry_of)
     (\<lambda>_ s. started s = X @ [t]) (maybe_started X t)"
  unfolding start_with_intent_def Let_def
proof (rule triple_bind [OF maybe_triple [OF nostart_triple [OF next_uuid_nostart]]],
    rule triple_bind [OF maybe_triple [OF nostart_triple [OF eruntime_nostart]]],
    rule triple_bind [OF maybe_triple [OF nostart_triple [OF save_runtime_nostart]]],
    rule triple_bind [OF maybe_triple [OF nostart_triple [OF append_event_nostart]]])
  have rest: "nostart.keeps (ebind (save_runtime env) (\<lambda>_. ebind (record_started env t k) (\<lambda>_. ereturn result)))"
    for k and result :: start_result
    by (intro nostart.keeps_ebind nostart_parts quiet_nostart [OF record_started_quiet])
  show "triple (\<lambda>s. started s = X)
      (ebind (perform_start env t k) (\<lambda>result. ebind (save_runtime env) (\<lambda>_.
       ebind (record_started env t k) (\<lambda>_. ereturn result))))
      (\<lambda>_ s. started s = X @ [t]) (maybe_started X t)" for k
    by (rule triple_weaken [OF triple_bind [OF perform_start_started nostart_triple [OF rest]]]) auto
qed

lemma start_failed_nostart [simp, intro]: "nostart.keeps (start_failed env cid f)"
  unfolding start_failed_def by (rule append_event_nostart)

lemma start_loop_started:
  "triple (\<lambda>s. started s = X) (start_loop env cid ts acc)
     (\<lambda>_ s. \<exists>ys. prefix ys ts \<and> started s = X @ ys) (\<lambda>s. \<exists>ys. prefix ys ts \<and> started s = X @ ys)"
proof (induction ts arbitrary: X acc)
  case Nil
  then show ?case by (simp add: triple_def)
next
  case (Cons t ts)
  let ?Q = "\<lambda>s. \<exists>ys. prefix ys (t # ts) \<and> started s = X @ ys"
  let ?R = "\<lambda>r s. case r of Inl e \<Rightarrow> maybe_started X t s | Inr y \<Rightarrow> started s = X @ [t]"
  have at: "triple (\<lambda>s. started s = X) (eattempt (start_with_intent env t None)) ?R ?Q"
    by (rule triple_attempt [of _ _ ?R "maybe_started X t"])
      (simp_all add: start_with_intent_started)
  have Q: "?Q s" if "maybe_started X t s" for s :: "'a engine"
    using that by (auto intro: exI [of _ "[]"] exI [of _ "[t]"])
  have stop: "triple (\<lambda>s. started s = Y) (ebind (start_failed env cid f) (\<lambda>_. ereturn x)) (\<lambda>_. ?Q) ?Q"
    if "Y = X \<or> Y = X @ [t]" for f and x :: automatic_outcome and Y
    by (rule triple_weaken [OF nostart_triple [of _ Y]])
      (use that Q in \<open>auto intro!: nostart.keeps_ebind simp del: ereturn_run\<close>)
  have go: "triple (\<lambda>s. started s = X @ [t]) (start_loop env cid ts acc') (\<lambda>_. ?Q) ?Q" for acc'
  proof (rule triple_weaken [OF Cons.IH [of "X @ [t]"]])
    show "?Q s" if "\<exists>ys. prefix ys ts \<and> started s = (X @ [t]) @ ys" for s :: "'a engine"
    proof -
      from that obtain ys where "prefix ys ts" "started s = (X @ [t]) @ ys" by blast
      then show ?thesis by (intro exI [of _ "t # ys"]) simp
    qed
    then show "\<exists>ys. prefix ys ts \<and> started s = (X @ [t]) @ ys \<Longrightarrow> ?Q s" for s :: "'a engine" .
  qed
  have both: "triple (maybe_started X t) m (\<lambda>_. ?Q) ?Q"
    if "\<And>Y. Y = X \<or> Y = X @ [t] \<Longrightarrow> triple (\<lambda>s. started s = Y) m (\<lambda>_. ?Q) ?Q"
    for m :: "('a, automatic_outcome) eng"
    using that by (auto simp: triple_def)
  have rest: "triple (?R r) (case r of
      Inl e \<Rightarrow> ebind (start_failed env cid (t, py_error_text e)) (\<lambda>_.
          ereturn \<lparr>ao_started = acc, ao_failures = [(t, py_error_text e)]\<rparr>)
      | Inr result \<Rightarrow>
          if sr_accepted result \<or> sr_already_started result
          then start_loop env cid ts (acc @ [t])
          else (let msg = (if sr_message result \<noteq> [] then sr_message result
                           else ''Task start was rejected'')
                in ebind (start_failed env cid (t, msg)) (\<lambda>_.
                   ereturn \<lparr>ao_started = acc, ao_failures = [(t, msg)]\<rparr>)))
      (\<lambda>_. ?Q) ?Q" for r
  proof (cases r)
    case (Inl e)
    then show ?thesis by (simp only: sum.case) (rule both [OF stop])
  next
    case (Inr result)
    then show ?thesis unfolding Let_def
      by (simp only: sum.case) (rule triple_if [OF go stop]; simp)
  qed
  show ?case unfolding start_loop.simps by (rule triple_bind [OF at rest])
qed

section \<open>The state a decision is made in\<close>

text \<open>Everything eligibility reads; recording events and projections does not touch it.\<close>

definition control_step :: "'w engine \<Rightarrow> 'w engine \<Rightarrow> bool" where
  "control_step s s' \<longleftrightarrow> en_world s' = en_world s \<and> started s' = started s
     \<and> rt_gates (en_runtime s') = rt_gates (en_runtime s)
     \<and> rt_held (en_runtime s') = rt_held (en_runtime s)
     \<and> rt_hold_reason (en_runtime s') = rt_hold_reason (en_runtime s)
     \<and> rt_cancelled_phases (en_runtime s') = rt_cancelled_phases (en_runtime s)"

interpretation control: engine_frame control_step
  by unfold_locales (simp_all add: control_step_def)

lemma append_event_control [simp, intro]: "control.keeps (append_event env e)"
proof -
  have "control.keeps (put_journal e j)" for j
    by (simp add: control.keeps_def put_journal_def control_step_def started_def)
  then show ?thesis unfolding append_event_def
    by (intro control.keeps_ebind control.keeps_pure control.keeps_option)
qed

lemma eruntime_control [intro]:
  "(\<And>rt. rt_gates (f rt) = rt_gates rt \<and> rt_held (f rt) = rt_held rt
     \<and> rt_hold_reason (f rt) = rt_hold_reason rt \<and> rt_cancelled_phases (f rt) = rt_cancelled_phases rt)
   \<Longrightarrow> control.keeps (eruntime f)"
  by (simp add: control.keeps_def control_step_def started_def)

lemma record_ready_tasks_control [simp, intro]: "control.keeps (record_ready_tasks env r)"
  unfolding record_ready_tasks_def Let_def
  by (intro control.keeps_ebind control.keeps_eeach control.keeps_pure append_event_control
      eruntime_control) simp

lemma project_phases_control [simp, intro]: "control.keeps (project_phases env d r)"
  unfolding project_phases_def
  by (intro control.keeps_ebind control.keeps_pure control.keeps_observe)

lemma record_phase_transitions_control [simp, intro]: "control.keeps (record_phase_transitions env p)"
  unfolding record_phase_transitions_def Let_def
  by (intro control.keeps_ebind control.keeps_eeach control.keeps_pure control.keeps_prod
      control.keeps_if control.keeps_option append_event_control eruntime_control) simp

lemma eligibility_control:
  assumes "rt_gates rt' = rt_gates rt" and "rt_held rt' = rt_held rt"
    and "rt_hold_reason rt' = rt_hold_reason rt" and "rt_cancelled_phases rt' = rt_cancelled_phases rt"
  shows "evaluate_task_eligibility t d rt' view = evaluate_task_eligibility t d rt view"
    and "all_eligibility d rt' view = all_eligibility d rt view"
proof -
  have g: "gate_satisfied rt' = gate_satisfied rt" using assms(1) by (intro ext) (simp add: gate_satisfied_def)
  have e: "evaluate_task_eligibility t d rt' view = evaluate_task_eligibility t d rt view" for t
    unfolding evaluate_task_eligibility_def by (simp only: assms g)
  then show "evaluate_task_eligibility t d rt' view = evaluate_task_eligibility t d rt view" .
  show "all_eligibility d rt' view = all_eligibility d rt view" unfolding all_eligibility_def e ..
qed

definition judged :: "'w engine_env \<Rightarrow> execution_definition \<Rightarrow> eligibility_result pydict \<Rightarrow> 'w engine \<Rightarrow> bool" where
  "judged env d results s \<longleftrightarrow>
     all_eligibility d (en_runtime s) (port_view (env_port env) (en_world s)) = Inr results"

lemma judged_control: "judged env d results s \<Longrightarrow> control_step s s' \<Longrightarrow> judged env d results s'"
  using eligibility_control(2) [of "en_runtime s'" "en_runtime s"] by (auto simp: judged_def control_step_def)

text \<open>Nothing started yet, the Tasks as they were at the call.\<close>

definition here :: "string list \<Rightarrow> 'w \<Rightarrow> 'w engine \<Rightarrow> bool" where
  "here X w s \<longleftrightarrow> started s = X \<and> en_world s = w"

lemma nostart_here:
  "nostart.keeps m \<Longrightarrow> triple (here X w) m (\<lambda>_. here X w) (here X w)"
  by (rule tripleI)
    (use nostart.keepsD in \<open>fastforce simp: starts_nothing_def started_def here_def split: sum.splits\<close>)

text \<open>What is known when an automatic cycle has planned.\<close>

definition planned ::
    "'w engine_env \<Rightarrow> execution_definition \<Rightarrow> string list \<Rightarrow> 'w \<Rightarrow> start_plan \<Rightarrow> 'w engine \<Rightarrow> bool" where
  "planned env d X w plan s \<longleftrightarrow> here X w s \<and> (\<exists>results phases. judged env d results s
     \<and> automatic_plan d (en_runtime s) results phases = Inr plan)"

lemma control_triple:
  assumes "control.keeps m"
  shows "triple (\<lambda>s. here X w s \<and> judged env d results s) m
    (\<lambda>_ s. here X w s \<and> judged env d results s) (here X w)"
proof (rule tripleI, elim conjE)
  fix s r s' assume h: "here X w s" and j: "judged env d results s" and run: "m s = (r, s')"
  have c: "control_step s s'" by (rule control.keepsD [OF assms run])
  have "here X w s'" using c h by (simp add: here_def control_step_def)
  with judged_control [OF j c]
  show "case r of Inl e \<Rightarrow> here X w s' | Inr x \<Rightarrow> here X w s' \<and> judged env d results s'"
    by (cases r) simp_all
qed

lemma refresh_triple:
  "triple (here X w) (refresh env d) (\<lambda>(results, phases) s. here X w s \<and> judged env d results s) (here X w)"
proof -
  have el: "triple (here X w) (eligibility env d) (\<lambda>results s. here X w s \<and> judged env d results s) (here X w)"
    by (rule tripleI) (auto simp: eligibility_def observe_def ebind_def judged_def split: sum.splits)
  show ?thesis
    unfolding refresh_def
    by (intro triple_bind [OF el] triple_bind [OF control_triple [OF record_ready_tasks_control]]
        triple_bind [OF control_triple [OF project_phases_control]]
        triple_bind [OF control_triple [OF record_phase_transitions_control]]
        triple_pure) simp
qed

lemma plan_cycle_planned:
  "triple (here X w) (plan_cycle env d) (planned env d X w) (here X w)"
proof -
  have last: "triple (\<lambda>s. (here X w s \<and> judged env d results s) \<and> rt = en_runtime s)
      (elift (automatic_plan d rt results phases)) (planned env d X w) (here X w)" for rt results phases
    by (rule tripleI) (auto simp: planned_def split: sum.splits)
  have split: "triple (case p of (results, phases) \<Rightarrow> \<lambda>s. here X w s \<and> judged env d results s)
      (case p of (results, phases) \<Rightarrow> ebind (eget en_runtime) (\<lambda>rt. elift (automatic_plan d rt results phases)))
      (planned env d X w) (here X w)" for p
    by (cases p) (auto intro: triple_bind [OF triple_eget last])
  have recon: "nostart.keeps (reconcile_intents env)" unfolding reconcile_intents_def by (rule nostart_parts)
  show ?thesis
    unfolding plan_cycle_def
    by (rule triple_bind [OF nostart_here [OF nostart_parts(2)]],
        rule triple_bind [OF nostart_here [OF recon]],
        rule triple_bind [OF nostart_here [OF nostart_parts(3)]],
        rule triple_bind [OF nostart_here [OF nostart_parts(4)]],
        rule triple_bind [OF nostart_here [OF nostart_parts(7)]],
        rule triple_bind [OF nostart_here [OF nostart_parts(12)]],
        rule triple_bind [OF refresh_triple split])
qed

lemma all_eligibility_lookup:
  assumes "all_eligibility d rt view = Inr results" and "unique_ids d" and "eligible_in results t"
  obtains r where "evaluate_task_eligibility t d rt view = Inr r" and "el_eligible r"
proof -
  obtain kvs where kvs: "mapr (\<lambda>t. rbind (evaluate_task_eligibility (pt_task_id t) d rt view)
      (\<lambda>r. Inr (pt_task_id t, r))) (pd_tasks d) = Inr kvs" and res: "results = py_dict kvs"
    using assms(1) by (auto simp: all_eligibility_def)
  then have l: "list_all2 (\<lambda>t kv. \<exists>r. evaluate_task_eligibility (pt_task_id t) d rt view = Inr r
      \<and> kv = (pt_task_id t, r)) (pd_tasks d) kvs"
    by (auto simp: mapr_Inr_iff rbind_Inr_iff elim!: list_all2_mono)
  obtain r where r: "map_of results t = Some r" "el_eligible r"
    using assms(3) by (auto simp: eligible_in_def dget_def split: option.splits)
  then have "(t, r) \<in> set kvs"
    unfolding res map_of_py_dict by (auto dest!: map_of_SomeD)
  then obtain i where "i < length kvs" "kvs ! i = (t, r)" by (auto simp: in_set_conv_nth)
  with l have "evaluate_task_eligibility t d rt view = Inr r"
    by (auto simp: list_all2_conv_all_nth)
  with r(2) show ?thesis by (intro that)
qed

lemma eligible_task:
  assumes u: "unique_ids d" and wf: "definition_wf d e"
    and r: "evaluate_task_eligibility t d rt view = Inr r" and el: "el_eligible r"
  obtains task phase where "task \<in> set (pd_tasks d)" and "pt_task_id task = t"
    and "phase \<in> set (pd_phases d)" and "ph_id phase = pt_phase task" and "may_start d rt view task phase"
proof -
  obtain task where "map_of (task_index d) t = Some task"
    using r by (auto simp: evaluate_task_eligibility_def split: option.splits)
  then have task: "task \<in> set (pd_tasks d)" "pt_task_id task = t"
    using task_index_Some [OF u] by blast+
  obtain r' phase where ix: "map_of (task_index d) (pt_task_id task) = Some task"
    "map_of (phase_index d) (pt_phase task) = Some phase"
    by (rule eligibility_total [OF u wf task(1)])
  have "may_start d rt view task phase"
    using eligible_iff_may_start [OF ix(1) [unfolded task(2)] ix(2) task(2) r] el by simp
  moreover have "phase \<in> set (pd_phases d) \<and> ph_id phase = pt_phase task"
    using ix(2) phase_index_Some [OF u] by blast
  ultimately show ?thesis using task by (intro that [of task phase]) simp_all
qed

section \<open>Sequences of operations, crashes and outside changes\<close>

datatype operation =
    Op_reconcile
  | Op_start_task string bool
  | Op_automatic_cycle
  | Op_decide_gate string string string string
  | Op_waive_gate string string string
  | Op_pause string
  | Op_resume

fun run_operation :: "'w engine_env \<Rightarrow> operation \<Rightarrow> 'w engine \<Rightarrow> 'w engine" where
  "run_operation env Op_reconcile s = snd (reconcile env s)"
| "run_operation env (Op_start_task t retry) s = snd (start_task env t retry s)"
| "run_operation env Op_automatic_cycle s = snd (automatic_cycle env s)"
| "run_operation env (Op_decide_gate g actor decision why) s = snd (decide_gate env g actor decision why s)"
| "run_operation env (Op_waive_gate g actor why) s = snd (waive_gate env g actor why s)"
| "run_operation env (Op_pause why) s = snd (pause env why s)"
| "run_operation env Op_resume s = snd (resume env s)"

text \<open>The runtime file once some effects happened: the last saved runtime.\<close>

definition file_after :: "pyval option \<Rightarrow> effect list \<Rightarrow> pyval option" where
  "file_after f es = foldl (\<lambda>f e. case e of
      Saved rt \<Rightarrow> Some (PDict (runtime_as_mapping rt)) | _ \<Rightarrow> f) f es"

text \<open>
  Between operations the definition may be edited and the Tasks may progress; a crash keeps a
  prefix of the operation's effects. Each operation has its own clock and identifiers.
\<close>

inductive engine_step :: "string \<Rightarrow> 'w task_port \<Rightarrow> 'w engine \<Rightarrow> 'w engine \<Rightarrow> bool"
  for dir :: string and port :: "'w task_port" where
  complete: "env_dir env = dir \<Longrightarrow> env_port env = port \<Longrightarrow> engine_step dir port s (run_operation env op s)"
| crash: "env_dir env = dir \<Longrightarrow> env_port env = port \<Longrightarrow>
    en_trace (run_operation env op s) = en_trace s @ es @ lost \<Longrightarrow>
    engine_step dir port s (s\<lparr>en_trace := en_trace s @ es,
      en_runtime_file := file_after (en_runtime_file s) es, en_journal := j, en_world := w\<rparr>)"
| outside: "engine_step dir port s (s\<lparr>en_definition_file := f, en_world := w\<rparr>)"

definition safe_state :: "string \<Rightarrow> 'w engine \<Rightarrow> bool" where
  "safe_state dir s \<longleftrightarrow> write_ahead (en_trace s) \<and> (\<forall>rt. Saved rt \<in> set (en_trace s) \<longrightarrow> exclusive rt)
     \<and> (\<forall>rt. runtime_load dir (en_runtime_file s) = Inr rt \<longrightarrow> exclusive rt)"

lemma safe_state_durable: "env_dir env = dir \<Longrightarrow> durable env s = safe_state dir s"
  by (simp add: durable_def safe_state_def)

lemma write_ahead_prefix: "write_ahead (xs @ ys) \<Longrightarrow> write_ahead xs"
  unfolding write_ahead_def by (metis append.assoc append_Cons)

lemma load_mapping_same:
  assumes "runtime_load dir (Some (PDict (runtime_as_mapping rt))) = Inr rt'"
  shows "rt' = rt"
proof -
  have "rt_schema_version rt = 1"
    using assms by (auto simp: runtime_load_def runtime_from_mapping_def runtime_as_mapping_def
        split: sum.splits py_error.splits if_splits option.splits)
  with assms show ?thesis
    by (auto simp: runtime_load_def runtime_mapping_round_trip split: if_splits)
qed

lemma file_after_loaded:
  assumes "runtime_load dir (file_after f es) = Inr rt"
  shows "Saved rt \<in> set es \<or> runtime_load dir f = Inr rt"
  using assms
proof (induction es rule: rev_induct)
  case (snoc e es)
  then show ?case by (cases e) (auto simp: file_after_def dest: load_mapping_same)
qed (simp add: file_after_def)

lemma safe_opD: "safe_op env m \<Longrightarrow> durable env s \<Longrightarrow> durable env (snd (m s))"
  by (simp add: safe_op_def)

lemma run_operation_safe:
  assumes "\<And>w. task_reader (port_view (env_port env) w)" and "durable env s"
  shows "durable env (run_operation env op s)"
  by (cases op) (simp_all only: run_operation.simps safe_opD [OF _ assms(2)] reconcile_safe
      start_task_safe automatic_cycle_safe [OF assms(1)] decide_gate_safe waive_gate_safe pause_safe
      resume_safe)

lemma engine_step_safe:
  assumes "engine_step dir port s s'" and "\<And>w. task_reader (port_view port w)" and "safe_state dir s"
  shows "safe_state dir s'"
  using assms(1)
proof (cases rule: engine_step.cases)
  case (complete env op)
  then show ?thesis
    using run_operation_safe [of env s op] assms(2,3) safe_state_durable [of env dir] by simp
next
  case (crash env op es lost j w)
  have d: "durable env (run_operation env op s)"
    by (rule run_operation_safe) (use crash assms(2,3) safe_state_durable [of env dir] in simp_all)
  have "write_ahead (en_trace s @ es)"
    by (rule write_ahead_prefix [of _ lost]) (use d crash in \<open>simp add: durable_def\<close>)
  moreover have "\<forall>rt. Saved rt \<in> set (en_trace s @ es) \<longrightarrow> exclusive rt"
    using d crash by (auto simp: durable_def)
  ultimately show ?thesis
    using assms(3) crash(1) file_after_loaded by (fastforce simp: safe_state_def)
next
  case (outside f w)
  then show ?thesis using assms(3) by (simp add: safe_state_def)
qed

lemma engine_steps_safe:
  assumes "(engine_step dir port)\<^sup>*\<^sup>* s s'" and "\<And>w. task_reader (port_view port w)" and "safe_state dir s"
  shows "safe_state dir s'"
  using assms(1) by (induction rule: rtranclp_induct) (auto intro: engine_step_safe assms(2,3))

text \<open>In a safe state a start is preceded by a save that holds the Task's only open intent.\<close>

lemma pending_unresolved: "row_get i ''status'' PNone = PStr ''pending'' \<Longrightarrow> \<not> intent_resolved i"
  by (simp add: intent_resolved_def resolved_intent_states_def)

lemma safe_state_start:
  assumes "safe_state dir s" and "en_trace s = before @ Started t # after"
  obtains earlier rt es k where "before = earlier @ Saved rt # map Appended es"
    and "unresolved rt t k" and "\<And>k'. unresolved rt t k' \<Longrightarrow> k' = k"
proof -
  have "armed before t" using assms by (auto simp: safe_state_def write_ahead_def)
  then obtain earlier rt es where b: "before = earlier @ Saved rt # map Appended es" and p: "pending_for rt t"
    by (auto simp: armed_def)
  obtain k where k: "unresolved rt t k"
    using p pending_unresolved by (auto simp: pending_for_def unresolved_def)
  have "exclusive rt" using assms b by (auto simp: safe_state_def)
  then show ?thesis using k by (intro that [OF b k]) (auto simp: exclusive_def)
qed

end
