(* ===== verification/Exec_Runner.thy ===== *)
theory Exec_Runner
  imports Exec_Starts
begin

text \<open>
  \<open>project_execution/runner.py\<close>: the foreground loop that drives automatic cycles. While the
  loop sleeps the Tasks progress and the clock moves: the \<open>n\<close>-th cycle runs in its own
  environment, after its own outside change. The loop is bounded by fuel, \<open>None\<close> meaning that
  it has not returned yet.
\<close>

definition terminal_outcomes :: "string list" where
  "terminal_outcomes = [''completed'', ''failed'', ''cancelled'']"

record runner_config =
  rc_max_cycles :: "nat option"

text \<open>\<open>poll_seconds\<close>, a float in the code, is only slept; its check is part of the constructor, and
  only its sign matters, so that it is a number of any ordered type. A negative bound cannot be
  given as a natural number and raises like zero.\<close>

definition runner_config_init :: "'n::{zero,ord} \<Rightarrow> int option \<Rightarrow> runner_config res" where
  "runner_config_init poll_seconds max_cycles =
     (if poll_seconds < 0 then Inl (ValueError ''poll_seconds cannot be negative'')
      else (case max_cycles of
          None \<Rightarrow> Inr \<lparr>rc_max_cycles = None\<rparr>
        | Some n \<Rightarrow>
            if n < 1 then Inl (ValueError ''max_cycles must be at least 1 when provided'')
            else Inr \<lparr>rc_max_cycles = Some (nat n)\<rparr>))"

record runner_result =
  rr_cycles :: nat
  rr_tasks_terminal :: bool
  rr_tasks_successful :: bool
  rr_held :: bool
  rr_quiescent :: bool
  rr_exhausted :: bool
  rr_last_cycle :: automatic_cycle_result

definition cycle_outcomes :: "automatic_cycle_result \<Rightarrow> string list" where
  "cycle_outcomes cycle = map snd (sn_task_outcomes (cy_snapshot cycle))"

definition tasks_terminal :: "automatic_cycle_result \<Rightarrow> bool" where
  "tasks_terminal cycle \<longleftrightarrow> cycle_outcomes cycle \<noteq> []
     \<and> list_all (\<lambda>oc. oc \<in> set terminal_outcomes) (cycle_outcomes cycle)"

definition tasks_successful :: "automatic_cycle_result \<Rightarrow> bool" where
  "tasks_successful cycle \<longleftrightarrow> cycle_outcomes cycle \<noteq> []
     \<and> list_all (\<lambda>oc. oc = outcome_value Outcome_COMPLETED) (cycle_outcomes cycle)"

definition tasks_running :: "automatic_cycle_result \<Rightarrow> bool" where
  "tasks_running cycle \<longleftrightarrow> list_ex (\<lambda>oc. oc = outcome_value Outcome_RUNNING) (cycle_outcomes cycle)"

text \<open>Whether the loop stops after a cycle, and with which result.\<close>

definition runner_stop :: "runner_config \<Rightarrow> nat \<Rightarrow> automatic_cycle_result \<Rightarrow> runner_result option" where
  "runner_stop cfg cycles cycle =
     (let held = sn_held (cy_snapshot cycle);
          result = \<lparr>rr_cycles = cycles, rr_tasks_terminal = False, rr_tasks_successful = False,
                    rr_held = False, rr_quiescent = False, rr_exhausted = False,
                    rr_last_cycle = cycle\<rparr>
      in if tasks_terminal cycle
         then Some (result\<lparr>rr_tasks_terminal := True, rr_tasks_successful := tasks_successful cycle,
                           rr_held := held\<rparr>)
         else if held then Some (result\<lparr>rr_held := True\<rparr>)
         else if cy_start_failures cycle \<noteq> [] then Some (result\<lparr>rr_quiescent := True\<rparr>)
         else if cy_started_tasks cycle = [] \<and> \<not> tasks_running cycle
         then Some (result\<lparr>rr_quiescent := True\<rparr>)
         else (case rc_max_cycles cfg of
             Some n \<Rightarrow> if cycles \<ge> n then Some (result\<lparr>rr_exhausted := True\<rparr>) else None
           | None \<Rightarrow> None))"

fun runner_loop ::
    "nat \<Rightarrow> (nat \<Rightarrow> 'w engine_env) \<Rightarrow> (nat \<Rightarrow> 'w engine \<Rightarrow> 'w engine) \<Rightarrow> runner_config \<Rightarrow> nat
       \<Rightarrow> 'w engine \<Rightarrow> (runner_result res \<times> 'w engine) option" where
  "runner_loop 0 envs outside cfg cycles s = None"
| "runner_loop (Suc fuel) envs outside cfg cycles s =
     (case automatic_cycle (envs cycles) s of
        (Inl e, s') \<Rightarrow> Some (Inl e, s')
      | (Inr cycle, s') \<Rightarrow>
          (case runner_stop cfg (Suc cycles) cycle of
             Some result \<Rightarrow> Some (Inr result, s')
           | None \<Rightarrow> runner_loop fuel envs outside cfg (Suc cycles) (outside cycles s')))"

definition run_automatic ::
    "nat \<Rightarrow> (nat \<Rightarrow> 'w engine_env) \<Rightarrow> (nat \<Rightarrow> 'w engine \<Rightarrow> 'w engine) \<Rightarrow> runner_config
       \<Rightarrow> 'w engine \<Rightarrow> (runner_result res \<times> 'w engine) option" where
  "run_automatic fuel envs outside cfg s = runner_loop fuel envs outside cfg 0 s"

section \<open>The loop returns, and says why\<close>

lemma runner_stop_bound:
  "rc_max_cycles cfg = Some n \<Longrightarrow> n \<le> cycles \<Longrightarrow> \<exists>r. runner_stop cfg cycles cycle = Some r"
  by (auto simp: runner_stop_def Let_def)

lemma runner_loop_returns:
  "rc_max_cycles cfg = Some n \<Longrightarrow> n \<le> cycles + fuel \<Longrightarrow> 0 < fuel \<Longrightarrow>
     \<exists>r. runner_loop fuel envs outside cfg cycles s = Some r"
proof (induction fuel arbitrary: cycles s)
  case (Suc fuel)
  obtain r s' where c: "automatic_cycle (envs cycles) s = (r, s')" by fastforce
  show ?case
  proof (cases r)
    case (Inr cycle)
    show ?thesis
    proof (cases "runner_stop cfg (Suc cycles) cycle")
      case None
      then have "Suc cycles < n" using runner_stop_bound [OF Suc.prems(1)] by (metis not_le option.distinct(1))
      then have "\<exists>r. runner_loop fuel envs outside cfg (Suc cycles) (outside cycles s') = Some r"
        using Suc.prems by (intro Suc.IH) auto
      then show ?thesis by (simp add: c Inr None)
    qed (simp add: c Inr)
  qed (simp add: c)
qed simp

text \<open>More fuel does not change a result.\<close>

lemma runner_loop_mono:
  "runner_loop fuel envs outside cfg cycles s = Some r \<Longrightarrow> fuel \<le> fuel' \<Longrightarrow>
     runner_loop fuel' envs outside cfg cycles s = Some r"
proof (induction fuel arbitrary: fuel' cycles s)
  case (Suc fuel)
  then obtain f where f: "fuel' = Suc f" "fuel \<le> f" by (cases fuel') auto
  show ?case using Suc.prems(1) Suc.IH [OF _ f(2)]
    by (auto simp: f(1) split: prod.splits sum.splits option.splits)
qed simp

lemma runner_stop_reason:
  assumes "runner_stop cfg cycles cycle = Some r"
  shows "rr_cycles r = cycles" and "rr_last_cycle r = cycle"
    and "rr_tasks_terminal r \<longleftrightarrow> tasks_terminal cycle"
    and "rr_tasks_successful r \<longleftrightarrow> tasks_terminal cycle \<and> tasks_successful cycle"
    and "rr_held r \<longleftrightarrow> sn_held (cy_snapshot cycle)"
    and "rr_quiescent r \<longleftrightarrow> \<not> tasks_terminal cycle \<and> \<not> sn_held (cy_snapshot cycle)
           \<and> (cy_start_failures cycle \<noteq> [] \<or> cy_started_tasks cycle = [] \<and> \<not> tasks_running cycle)"
    and "rr_exhausted r \<longleftrightarrow> \<not> tasks_terminal cycle \<and> \<not> sn_held (cy_snapshot cycle) \<and> \<not> rr_quiescent r"
  using assms by (auto simp: runner_stop_def Let_def split: if_splits option.splits)

text \<open>The result describes the last cycle that ran.\<close>

lemma runner_loop_result:
  assumes "runner_loop fuel envs outside cfg cycles s = Some (Inr r, s')"
  obtains n s0 cycle where "automatic_cycle (envs n) s0 = (Inr cycle, s')" and "cycles \<le> n" and "n < cycles + fuel"
    and "runner_stop cfg (Suc n) cycle = Some r"
  using assms
proof (induction fuel arbitrary: cycles s thesis)
  case (Suc fuel)
  obtain c s1 where c: "automatic_cycle (envs cycles) s = (Inr c, s1)"
    using Suc.prems(2) by (auto split: prod.splits sum.splits)
  show ?case
  proof (cases "runner_stop cfg (Suc cycles) c")
    case None
    then have "runner_loop fuel envs outside cfg (Suc cycles) (outside cycles s1) = Some (Inr r, s')"
      using Suc.prems(2) c by simp
    from Suc.IH [OF _ this] obtain n s0 cycle where "automatic_cycle (envs n) s0 = (Inr cycle, s')"
      "Suc cycles \<le> n" "n < Suc cycles + fuel" "runner_stop cfg (Suc n) cycle = Some r" by blast
    then show ?thesis by (intro Suc.prems(1)) auto
  next
    case (Some a)
    then show ?thesis using Suc.prems c by (intro Suc.prems(1) [of cycles s c]) auto
  qed
qed simp

end
