(* ===== verification/Exec_Task_Projection.thy ===== *)
theory Exec_Task_Projection
  imports Exec_Starts
begin

text \<open>
  \<open>project_execution/task_projection.py\<close>: the filesystem implementation of the Task port, with
  the Task states of \<open>orchestrate/models.py\<close>. The files of a Task are its parsed and validated
  manifest, whether the plan file is a regular file, the parsed state file (empty where it is
  absent or unreadable) and the two file digests (empty where the file is absent). The start
  action is injected, as in the code.
\<close>

section \<open>Task states\<close>

datatype task_execution_state =
    State_INITIALIZING | State_VALIDATING_PLAN | State_RUNNING | State_WAITING_FOR_AGENT
  | State_WAITING_FOR_ENVIRONMENT | State_RESOURCE_MAINTENANCE | State_PAUSED_LOW_DISK
  | State_OPERATOR_PAUSED | State_RECOVERING | State_FINAL_VALIDATION | State_HUMAN_REQUIRED
  | State_SUPERVISING | State_WAITING_FOR_HUMAN_DECISION | State_COMPLETED | State_FAILED
  | State_CANCELLED

fun state_value :: "task_execution_state \<Rightarrow> string" where
  "state_value State_INITIALIZING = ''initializing''"
| "state_value State_VALIDATING_PLAN = ''validating_plan''"
| "state_value State_RUNNING = ''running''"
| "state_value State_WAITING_FOR_AGENT = ''waiting_for_agent''"
| "state_value State_WAITING_FOR_ENVIRONMENT = ''waiting_for_environment''"
| "state_value State_RESOURCE_MAINTENANCE = ''resource_maintenance''"
| "state_value State_PAUSED_LOW_DISK = ''paused_low_disk''"
| "state_value State_OPERATOR_PAUSED = ''operator_paused''"
| "state_value State_RECOVERING = ''recovering''"
| "state_value State_FINAL_VALIDATION = ''final_validation''"
| "state_value State_HUMAN_REQUIRED = ''human_required''"
| "state_value State_SUPERVISING = ''supervising''"
| "state_value State_WAITING_FOR_HUMAN_DECISION = ''waiting_for_human_decision''"
| "state_value State_COMPLETED = ''completed''"
| "state_value State_FAILED = ''failed''"
| "state_value State_CANCELLED = ''cancelled''"

definition active_execution_states :: "string list" where
  "active_execution_states =
     [''validating_plan'', ''running'', ''waiting_for_agent'', ''waiting_for_environment'',
      ''resource_maintenance'', ''paused_low_disk'', ''operator_paused'', ''recovering'',
      ''final_validation'', ''human_required'', ''supervising'', ''waiting_for_human_decision'']"

definition projected_outcome :: "string \<Rightarrow> task_outcome" where
  "projected_outcome state =
     (let normalized = py_lower (py_strip state) in
      if normalized = ''completed'' then Outcome_COMPLETED
      else if normalized = ''failed'' then Outcome_FAILED
      else if normalized = ''cancelled'' then Outcome_CANCELLED
      else if normalized \<in> set active_execution_states then Outcome_RUNNING
      else if normalized \<in> {[], ''initializing''} then Outcome_NOT_STARTED
      else Outcome_UNKNOWN)"

section \<open>Verification evidence\<close>

definition passed_outcomes :: "string list" where
  "passed_outcomes = [''passed'', ''approved'', ''success'', ''completed'']"

definition failed_outcomes :: "string list" where
  "failed_outcomes = [''failed'', ''error'', ''rejected'']"

definition artifact_keys :: "string list" where
  "artifact_keys = [''artifact_id'', ''artifact'', ''artifact_path'']"

definition dict_or_empty :: "pyval \<Rightarrow> row option" where
  "dict_or_empty v = as_dict (or_empty_dict v)"

definition package_status :: "row \<Rightarrow> string list" where
  "package_status package = (case dict_or_empty (row_get package ''last_verification'' PNone) of
      None \<Rightarrow> []
    | Some lv \<Rightarrow>
        (let status = py_lower (py_strip (py_str
               (row_get lv ''status'' (row_get lv ''outcome'' (PStr [])))))
         in if status \<noteq> [] then [status] else []))"

definition package_artifacts :: "row \<Rightarrow> string list" where
  "package_artifacts package = List.concat (map (\<lambda>detail_key.
      (case dict_or_empty (row_get package detail_key PNone) of
         None \<Rightarrow> []
       | Some detail \<Rightarrow>
           filter (\<lambda>v. v \<noteq> []) (map (\<lambda>k. py_strip (row_get_str detail k [])) artifact_keys)))
      [''last_implementation'', ''last_verification''])"

definition work_packages :: "row \<Rightarrow> row list" where
  "work_packages state = (case dict_or_empty (row_get state ''plan_graph'' PNone) of
      None \<Rightarrow> []
    | Some graph \<Rightarrow> (case row_get graph ''work_packages'' (PList []) of
          PList xs \<Rightarrow> List.map_filter as_dict xs | _ \<Rightarrow> []))"

definition verification_outcome :: "string list \<Rightarrow> string" where
  "verification_outcome statuses =
     (let failed = length (filter (\<lambda>x. x \<in> set failed_outcomes) statuses);
          passed = length (filter (\<lambda>x. x \<in> set passed_outcomes) statuses)
      in if failed \<noteq> 0 then ''failed''
         else if statuses \<noteq> [] \<and> passed = length statuses then ''passed''
         else ''unknown'')"

definition verification_evidence :: "row \<Rightarrow> verification_summary \<times> string list" where
  "verification_evidence state =
     (let packages = work_packages state;
          statuses = List.concat (map package_status packages)
      in (\<lparr>vs_outcome = verification_outcome statuses,
           vs_passed = int (length (filter (\<lambda>x. x \<in> set passed_outcomes) statuses)),
           vs_failed = int (length (filter (\<lambda>x. x \<in> set failed_outcomes) statuses)),
           vs_total = int (length statuses)\<rparr>,
          sort (remdups (List.concat (map package_artifacts packages)))))"

section \<open>The port\<close>

record task_manifest =
  mf_title :: string
  mf_status :: string
  mf_repositories :: "string pydict"

record task_files =
  tk_manifest :: "task_manifest option"
  tk_plan_file :: bool
  tk_state :: row
  tk_task_digest :: string
  tk_plan_digest :: string

type_synonym task_store = "string \<Rightarrow> task_files"

definition fs_state :: "task_files \<Rightarrow> string" where
  "fs_state files = row_get_str (tk_state files) ''state'' []"

definition fs_describe :: "task_store \<Rightarrow> string \<Rightarrow> task_summary" where
  "fs_describe store t =
     (let files = store t in
      \<lparr>ts_task_id = t,
       ts_exists = (tk_manifest files \<noteq> None),
       ts_active = (case tk_manifest files of
          None \<Rightarrow> False | Some m \<Rightarrow> mf_status m \<notin> {''archived'', ''cancelled''}),
       ts_executable = (tk_manifest files \<noteq> None \<and> tk_plan_file files),
       ts_execution_state = fs_state files,
       ts_outcome = projected_outcome (fs_state files),
       ts_title = (case tk_manifest files of None \<Rightarrow> [] | Some m \<Rightarrow> mf_title m)\<rparr>)"

definition fs_outcome :: "task_store \<Rightarrow> string \<Rightarrow> task_outcome" where
  "fs_outcome store t = ts_outcome (fs_describe store t)"

text \<open>\<open>int(state.get(key, 0) or 0)\<close>\<close>

definition count_field :: "row \<Rightarrow> string \<Rightarrow> int res" where
  "count_field state k =
     (let v = row_get state k (PInt 0) in py_int (if py_truthy v then v else PInt 0))"

definition fs_evidence :: "task_store \<Rightarrow> string \<Rightarrow> task_evidence res" where
  "fs_evidence store t =
     (let files = store t; state = tk_state files;
          (verification, artifacts) = verification_evidence state
      in rbind (count_field state ''completed_packages'') (\<lambda>completed.
         rbind (count_field state ''total_packages'') (\<lambda>total.
         Inr \<lparr>te_task_id = t, te_outcome = projected_outcome (fs_state files),
              te_task_digest = tk_task_digest files, te_plan_digest = tk_plan_digest files,
              te_verification = verification,
              te_repository_revisions = (case tk_manifest files of
                 None \<Rightarrow> [] | Some m \<Rightarrow> py_dict (filter (\<lambda>(r, c). c \<noteq> []) (mf_repositories m))),
              te_artifacts = artifacts,
              te_details = [(''execution_state'', PStr (fs_state files)),
                            (''completed_packages'', PInt completed),
                            (''total_packages'', PInt total)]\<rparr>)))"

text \<open>
  The view of a store. Evidence of a state file with unreadable counts raises in the code; the
  view then carries the evidence without them.
\<close>

definition fs_view :: "task_store \<Rightarrow> task_view" where
  "fs_view store =
     \<lparr>tv_describe = fs_describe store, tv_outcome = fs_outcome store,
      tv_evidence = (\<lambda>t. case fs_evidence store t of
         Inr ev \<Rightarrow> ev
       | Inl _ \<Rightarrow> \<lparr>te_task_id = t, te_outcome = projected_outcome (fs_state (store t)),
           te_task_digest = [], te_plan_digest = [],
           te_verification = fst (verification_evidence (tk_state (store t))),
           te_repository_revisions = [], te_artifacts = [], te_details = []\<rparr>)\<rparr>"

type_synonym start_action = "task_store \<Rightarrow> string \<Rightarrow> (string + start_result) \<times> task_store"

definition fs_start :: "start_action option \<Rightarrow> start_action" where
  "fs_start action store t =
     (let oc = ts_outcome (fs_describe store t) in
      if oc \<in> {Outcome_RUNNING, Outcome_COMPLETED, Outcome_FAILED, Outcome_CANCELLED}
      then (Inr \<lparr>sr_accepted = False, sr_already_started = True,
                 sr_message = ''Task '' @ t @ '' is already '' @ outcome_value oc\<rparr>, store)
      else (case action of
          None \<Rightarrow> (Inr \<lparr>sr_accepted = False, sr_already_started = False,
                       sr_message = ''Task start action is not configured''\<rparr>, store)
        | Some run \<Rightarrow> run store t))"

definition fs_port :: "start_action option \<Rightarrow> task_store task_port" where
  "fs_port action = \<lparr>port_view = fs_view, port_start = fs_start action\<rparr>"

section \<open>The port honours its contract\<close>

interpretation fs: task_reader "fs_view store" for store
  by unfold_locales
    (auto simp: fs_view_def fs_outcome_def fs_describe_def fs_evidence_def Let_def split_beta
      split: option.splits sum.splits)

lemma fs_port_reader: "task_reader (port_view (fs_port action) w)"
  by (simp add: fs_port_def fs.task_reader_axioms)

lemma projected_outcome_value [simp]: "py_lower (py_strip s) = s \<Longrightarrow> projected_outcome s =
    (if s = ''completed'' then Outcome_COMPLETED else if s = ''failed'' then Outcome_FAILED
     else if s = ''cancelled'' then Outcome_CANCELLED
     else if s \<in> set active_execution_states then Outcome_RUNNING
     else if s \<in> {[], ''initializing''} then Outcome_NOT_STARTED else Outcome_UNKNOWN)"
  by (simp add: projected_outcome_def Let_def)

lemma state_value_normal: "py_lower (py_strip (state_value st)) = state_value st"
  by (cases st; simp only: state_value.simps; code_simp)

lemma projected_outcome_state:
  "projected_outcome (state_value st) \<noteq> Outcome_UNKNOWN"
  "projected_outcome (state_value st) = Outcome_NOT_STARTED \<longleftrightarrow> st = State_INITIALIZING"
  unfolding projected_outcome_value [OF state_value_normal]
  by (cases st; simp add: active_execution_states_def)+

lemma disjoint_outcomes: "x \<in> set failed_outcomes \<Longrightarrow> x \<notin> set passed_outcomes"
  by (auto simp: failed_outcomes_def passed_outcomes_def)

lemma verification_outcome_passed:
  "verification_outcome ss = ''passed'' \<longleftrightarrow> ss \<noteq> [] \<and> set ss \<subseteq> set passed_outcomes"
proof -
  have "length (filter (\<lambda>x. x \<in> set passed_outcomes) ss) = length ss \<longleftrightarrow> set ss \<subseteq> set passed_outcomes"
    by (metis filter_True filter_id_conv length_filter_less less_irrefl subset_code(1))
  moreover have "set ss \<subseteq> set passed_outcomes \<Longrightarrow> filter (\<lambda>x. x \<in> set failed_outcomes) ss = []"
    using disjoint_outcomes by (auto simp: filter_empty_conv)
  ultimately show ?thesis by (auto simp: verification_outcome_def Let_def)
qed

lemma verification_outcome_failed:
  "verification_outcome ss = ''failed'' \<longleftrightarrow> (\<exists>x \<in> set ss. x \<in> set failed_outcomes)"
  by (auto simp: verification_outcome_def Let_def filter_empty_conv)

lemma fs_evidence_revisions:
  "fs_evidence store t = Inr ev \<Longrightarrow> \<forall>(r, c) \<in> set (te_repository_revisions ev). c \<noteq> []"
  using set_py_dict_subset
  by (fastforce simp: fs_evidence_def Let_def split_beta split: option.splits)

text \<open>The baselines of the filesystem port satisfy the hypothesis on revisions.\<close>

lemma fs_named_revisions: "named_revisions (fs_view store) ts"
  unfolding named_revisions_def
proof
  fix t
  show "\<forall>(r, c) \<in> set (te_repository_revisions (tv_evidence (fs_view store) t)). c \<noteq> []"
    using fs_evidence_revisions [of store t] by (auto simp: fs_view_def split: sum.splits)
qed

section \<open>Starting through the port\<close>

lemma all_states: "(UNIV :: task_execution_state set) - {State_INITIALIZING} =
    {State_VALIDATING_PLAN, State_RUNNING, State_WAITING_FOR_AGENT,
     State_WAITING_FOR_ENVIRONMENT, State_RESOURCE_MAINTENANCE, State_PAUSED_LOW_DISK,
     State_OPERATOR_PAUSED, State_RECOVERING, State_FINAL_VALIDATION, State_HUMAN_REQUIRED,
     State_SUPERVISING, State_WAITING_FOR_HUMAN_DECISION, State_COMPLETED, State_FAILED,
     State_CANCELLED}" (is "_ = ?S")
proof -
  have "st = State_INITIALIZING \<or> st \<in> ?S" for st by (cases st) simp_all
  then show ?thesis by auto
qed

lemma started_state_iff:
  "(\<exists>st. st \<noteq> State_INITIALIZING \<and> s = state_value st)
     \<longleftrightarrow> s \<in> {''completed'', ''failed'', ''cancelled''} \<or> s \<in> set active_execution_states"
proof -
  have "(\<exists>st. st \<noteq> State_INITIALIZING \<and> s = state_value st) \<longleftrightarrow> s \<in> state_value ` (UNIV - {State_INITIALIZING})"
    by auto
  then show ?thesis unfolding all_states active_execution_states_def by auto
qed

lemma active_not_waiting: "s \<in> set active_execution_states \<Longrightarrow> s \<noteq> [] \<and> s \<noteq> ''initializing''
    \<and> s \<noteq> ''completed'' \<and> s \<noteq> ''failed'' \<and> s \<noteq> ''cancelled''"
  by (auto simp: active_execution_states_def)

lemma fs_start_exact:
  "fs_start action store t =
     (let s = py_lower (py_strip (fs_state (store t))) in
      if \<exists>st. st \<noteq> State_INITIALIZING \<and> s = state_value st
      then (Inr \<lparr>sr_accepted = False, sr_already_started = True,
              sr_message = ''Task '' @ t @ '' is already ''
                @ (if s \<in> {''completed'', ''failed'', ''cancelled''} then s else ''running'')\<rparr>, store)
      else (case action of
          None \<Rightarrow> (Inr \<lparr>sr_accepted = False, sr_already_started = False,
                       sr_message = ''Task start action is not configured''\<rparr>, store)
        | Some run \<Rightarrow> run store t))"
proof -
  define s where "s = py_lower (py_strip (fs_state (store t)))"
  have "ts_outcome (fs_describe store t) =
     (if s = ''completed'' then Outcome_COMPLETED
      else if s = ''failed'' then Outcome_FAILED
      else if s = ''cancelled'' then Outcome_CANCELLED
      else if s \<in> set active_execution_states then Outcome_RUNNING
      else if s = [] \<or> s = ''initializing'' then Outcome_NOT_STARTED
      else Outcome_UNKNOWN)"
    by (simp add: fs_describe_def projected_outcome_def Let_def s_def)
  then show ?thesis
    unfolding started_state_iff Let_def s_def [symmetric] fs_start_def
    by (cases "s \<in> set active_execution_states") (auto dest: active_not_waiting)
qed

end
