(* ===== verification/Exec_Sample.thy ===== *)
theory Exec_Sample
  imports "HOL-Library.Code_Target_Nat" Exec_Service Exec_Runner Exec_Task_Projection
begin

text \<open>
  A small project on which the properties are applied: a Phase with one Task and a Milestone
  that requires the Task and a Gate; the Gate asks for the completion of the Task and a human
  approval. The world behind the port is whether the Task has been started. The kernel
  evaluates the operations on it with \<open>code_simp\<close>, for which the two sequencing operators are
  unfolded in the code equations.
\<close>

definition sample_schedule :: project_schedule where
  "sample_schedule = \<lparr>sched_start = [], sched_target = []\<rparr>"

definition sample_phase :: project_phase where
  "sample_phase = \<lparr>ph_id = ''p'', ph_title = ''P'', ph_description = [],
     ph_schedule = sample_schedule, ph_entry_gates = [], ph_exit_gates = [''g''],
     ph_tasks = [''t''], ph_milestones = [''m'']\<rparr>"

definition sample_task :: project_task where
  "sample_task = \<lparr>pt_task_id = ''t'', pt_phase = ''p'', pt_required = True,
     pt_requires = \<lparr>treq_tasks = [], treq_gates = []\<rparr>\<rparr>"

definition completion_criterion :: gate_criterion where
  "completion_criterion = \<lparr>gc_type = ''task_completion'', gc_task_id = ''t'', gc_gate_id = [],
     gc_outcome = [], gc_artifact_id = []\<rparr>"

definition approval_criterion :: gate_criterion where
  "approval_criterion = \<lparr>gc_type = ''human_approval'', gc_task_id = [], gc_gate_id = [],
     gc_outcome = [], gc_artifact_id = []\<rparr>"

definition sample_gate :: project_gate where
  "sample_gate = \<lparr>pg_id = ''g'', pg_title = ''G'', pg_description = [],
     pg_schedule = empty_schedule, pg_criteria = [completion_criterion, approval_criterion]\<rparr>"

definition sample_milestone :: project_milestone where
  "sample_milestone = \<lparr>pm_id = ''m'', pm_title = ''M'', pm_description = [], pm_start = [],
     pm_target = [], pm_requires = \<lparr>mreq_tasks = [''t''], mreq_gates = [''g''], mreq_milestones = []\<rparr>,
     pm_delivery_policy = Delivery_CANDIDATE\<rparr>"

definition sample_definition :: "execution_mode \<Rightarrow> execution_definition" where
  "sample_definition mode = \<lparr>pd_schema_version = 1, pd_project = ''d'', pd_revision = 3,
     pd_mode = mode, pd_phases = [sample_phase], pd_tasks = [sample_task], pd_gates = [sample_gate],
     pd_milestones = [sample_milestone], pd_policy = default_policy\<rparr>"

text \<open>The world behind the port: whether the Task has been started.\<close>

definition sample_outcome :: "bool \<Rightarrow> task_outcome" where
  "sample_outcome w = (if w then Outcome_RUNNING else Outcome_NOT_STARTED)"

definition sample_view :: "bool \<Rightarrow> task_view" where
  "sample_view w = \<lparr>
     tv_describe = (\<lambda>t. \<lparr>ts_task_id = t, ts_exists = True, ts_active = True, ts_executable = True,
       ts_execution_state = [], ts_outcome = sample_outcome w, ts_title = []\<rparr>),
     tv_outcome = (\<lambda>t. sample_outcome w),
     tv_evidence = (\<lambda>t. \<lparr>te_task_id = t, te_outcome = sample_outcome w, te_task_digest = [],
       te_plan_digest = [], te_verification = \<lparr>vs_outcome = ''missing'', vs_passed = 0, vs_failed = 0, vs_total = 0\<rparr>,
       te_repository_revisions = [], te_artifacts = [], te_details = []\<rparr>)\<rparr>"

definition sample_port :: "bool task_port" where
  "sample_port = \<lparr>port_view = sample_view,
     port_start = (\<lambda>w t. (Inr \<lparr>sr_accepted = True, sr_already_started = False, sr_message = []\<rparr>, True))\<rparr>"

definition sample_env :: "bool engine_env" where
  "sample_env = \<lparr>env_sha = (\<lambda>s. ''0''), env_now = ''now'',
     env_today = (2025, 6, 1), env_uuid = (\<lambda>n. py_str_nat n), env_path = ''PROJECT_EXECUTION.yaml'',
     env_dir = ''d'', env_port = sample_port\<rparr>"

definition sample_engine :: "execution_mode \<Rightarrow> bool engine" where
  "sample_engine mode = \<lparr>en_definition_file = Some (PDict (definition_as_mapping (sample_definition mode))),
     en_runtime_file = None, en_journal = Some [], en_world = False,
     en_runtime = initial_runtime [], en_uuids = 0, en_trace = []\<rparr>"

lemma ebind_unfold [code_unfold]:
  "ebind m f = (\<lambda>s. case m s of (Inl e, s') \<Rightarrow> (Inl e, s') | (Inr x, s') \<Rightarrow> f x s')"
  by (rule ext) (simp add: ebind_def split: prod.splits sum.splits)
declare rbind_def [code_unfold]

definition sample_runtime :: runtime_state where
  "sample_runtime = initial_runtime ''d''"

definition sample_document :: pyval where
  "sample_document = PDict (definition_as_mapping (sample_definition Mode_AUTOMATIC))"

section \<open>Facts about the sample\<close>

interpretation sample: task_reader "sample_view w" for w
  by unfold_locales (simp_all add: sample_view_def)

lemma sample_port_reader: "task_reader (port_view sample_port w)"
  by (simp add: sample_port_def sample.task_reader_axioms)

lemma sample_env_port [simp]: "env_port sample_env = sample_port" "env_dir sample_env = ''d''"
  by (simp_all add: sample_env_def)

lemma sample_definition_ok: "definition_ok (sample_definition mode)"
  by (cases mode; simp only: definition_ok_def; code_simp)

lemma sample_validates: "validate_definition (sample_definition mode) None = Inr ()"
  by (cases mode; simp only:; code_simp)

lemma sample_definition_wf: "definition_wf (sample_definition mode) None"
  using sample_validates validate_definition_decides [OF definition_ok_unique_ids [OF sample_definition_ok]]
  by blast

lemma sample_loaded:
  "repository_load (env_path sample_env) (en_definition_file (sample_engine mode)) = Inr (sample_definition mode)"
proof -
  have "sort_tasks (sample_definition mode) = sample_definition mode"
    by (simp add: sort_tasks_def sample_definition_def)
  then show ?thesis
    using load_stored [OF sample_definition_ok sample_definition_wf] by (simp add: sample_engine_def)
qed

end
