(* ===== verification/Spec_Definition.thy ===== *)
theory Spec_Definition
  imports Exec_Sample
begin

text \<open>
  The properties of the definition: reading, validating, ordering and editing it, and the file
  of the runtime.
\<close>

section \<open>Ordering\<close>

text \<open>C29: \<open>topological_order\<close> decides acyclicity. It succeeds exactly on acyclic graphs, then
  lists every node once with its dependencies before it and nothing that the graph does not
  mention; on a cyclic graph it raises an error whose message spells out a real cycle.\<close>

theorem topological_order_decides:
  "(case topological_order adj label of
      Inr ns \<Rightarrow> acyclic (edges adj) \<and> dependency_first adj ns \<and> distinct ns
        \<and> set (keys adj) \<subseteq> set ns \<and> set ns \<subseteq> mentioned adj
    | Inl e \<Rightarrow> \<not> acyclic (edges adj) \<and> cycle_report adj label e)"
  using topo.order_dependency_first topo.order_distinct topo.order_complete topo.order_mentioned
    topo.order_failure topo.order_Inr_iff_acyclic cycle_report_cyclic
  by (cases "topological_order adj label") (fastforce)+

section \<open>Reading and validating\<close>

text \<open>C13: the validator accepts a definition with unique identifiers exactly when every
  reference in it resolves to the right kind of asset, every Phase lists its own Tasks, no
  entry Gate asks directly for a contained Task, and the three dependency graphs are
  acyclic.\<close>

theorem validation_decides:
  assumes "unique_ids d"
  shows "validate_definition d task_exists = Inr () \<longleftrightarrow> definition_wf d task_exists"
  by (rule validate_definition_decides [OF assms])

theorem validation_decides_witness:
  "unique_ids (sample_definition Mode_ASSISTED) \<and> definition_wf (sample_definition Mode_ASSISTED) None"
proof
  show u: "unique_ids (sample_definition Mode_ASSISTED)"
    by (rule definition_ok_unique_ids [OF sample_definition_ok])
  show "definition_wf (sample_definition Mode_ASSISTED) None"
    using validation_decides [OF u] sample_validates by blast
qed

text \<open>\<open>ProjectExecutionDefinition.from_mapping\<close> returns exactly the definitions whose
  fields parse and that are well formed; every component of what it returns satisfies its
  constructor's invariant.\<close>

theorem reading_accepts_exactly:
  "definition_from_mapping raw = Inr d
     \<longleftrightarrow> definition_parse raw = Inr d \<and> definition_ok d \<and> definition_wf d None"
proof
  assume r: "definition_from_mapping raw = Inr d"
  then show "definition_parse raw = Inr d \<and> definition_ok d \<and> definition_wf d None"
    using definition_from_mapping_wf [OF r] by (auto simp: definition_from_mapping_def)
next
  assume p: "definition_parse raw = Inr d \<and> definition_ok d \<and> definition_wf d None"
  then have "validate_definition d None = Inr ()"
    using validate_definition_decides definition_ok_unique_ids by blast
  with p show "definition_from_mapping raw = Inr d" by (simp add: definition_from_mapping_def)
qed

text \<open>C30: what was read survives writing and reading: the second reading gives the first
  definition with its Tasks sorted by identifier, and a third one changes nothing.\<close>

theorem definition_survives_file:
  assumes "definition_from_mapping raw = Inr d"
  shows "definition_from_mapping (PDict (definition_as_mapping d)) = Inr (sort_tasks d)
    \<and> definition_from_mapping (PDict (definition_as_mapping (sort_tasks d))) = Inr (sort_tasks d)"
proof -
  note ok = definition_from_mapping_wf [OF assms]
  have "sort_tasks (sort_tasks d) = sort_tasks d" by (simp add: sort_tasks_def sort_key_id_if_sorted)
  then show ?thesis
    using definition_mapping_round_trip [OF ok] definition_mapping_round_trip [OF definition_ok_sort_tasks [OF ok(1)]]
      ok definition_wf_sort_tasks [OF definition_ok_unique_ids [OF ok(1)]] by simp
qed

theorem definition_survives_file_witness:
  "definition_from_mapping sample_document = Inr (sample_definition Mode_AUTOMATIC)
     \<and> definition_from_mapping (PDict (definition_as_mapping (sample_definition Mode_AUTOMATIC)))
       = Inr (sort_tasks (sample_definition Mode_AUTOMATIC))"
proof
  show r: "definition_from_mapping sample_document = Inr (sample_definition Mode_AUTOMATIC)"
    using definition_mapping_round_trip [OF sample_definition_ok sample_definition_wf]
    by (simp add: sample_document_def sort_tasks_def sample_definition_def)
  show "definition_from_mapping (PDict (definition_as_mapping (sample_definition Mode_AUTOMATIC)))
       = Inr (sort_tasks (sample_definition Mode_AUTOMATIC))"
    using definition_survives_file [OF r] by blast
qed

text \<open>An execution policy that \<open>from_mapping\<close> accepts has all three capacities between 1
  and 128, and writing and reading it gives it back.\<close>

theorem policy_survives_mapping:
  "(case policy_from_mapping raw of
      Inr p \<Rightarrow> 1 \<le> maximum_parallel_tasks p \<and> maximum_parallel_tasks p \<le> 128
        \<and> 1 \<le> maximum_parallel_tasks_per_phase p \<and> maximum_parallel_tasks_per_phase p \<le> 128
        \<and> 1 \<le> maximum_active_phases p \<and> maximum_active_phases p \<le> 128
        \<and> policy_from_mapping (PDict (policy_as_mapping p)) = Inr p
    | Inl e \<Rightarrow> True)"
  using policy_from_mapping_ok policy_round_trip
  by (auto simp: policy_ok_def split: sum.splits)

section \<open>Files and edits\<close>

text \<open>C36: a runtime loaded from the storage of a Project can be saved there, and loading the
  saved file gives the same runtime.\<close>

theorem runtime_survives_file:
  "(case runtime_load dir file of
      Inl e \<Rightarrow> True
    | Inr rt \<Rightarrow> (case runtime_save dir rt of
          Inl e \<Rightarrow> False
        | Inr doc \<Rightarrow> runtime_load dir (Some doc) = Inr rt))"
  using runtime_load_facts [of dir "file"] runtime_load_save [of _ dir]
  by (auto simp: runtime_save_def split: sum.splits)

text \<open>C25: an edit of the service that returns, any of its thirteen edits given arguments that
  their constructors accepted, was made on the revision the caller expected,
  keeps the Project's identity, and leaves a file that holds a well-formed definition of the
  next revision, whose Tasks exist where the service can tell.\<close>

theorem edits_are_validated_saves:
  assumes "run_edit sv op expected file = Inr (saved, file')" and "edit_argument_ok op"
  shows "\<exists>d. repository_load (se_path sv) file = Inr d \<and> pd_revision d = expected
    \<and> pd_project saved = pd_project d \<and> pd_revision saved = expected + 1
    \<and> definition_ok saved \<and> definition_wf saved (se_task_exists sv)
    \<and> repository_load (se_path sv) file' = Inr (sort_tasks saved)"
  using run_edit_saved [OF assms] unfolding saved_edit_def by blast

definition sample_service :: service where
  "sample_service = \<lparr>se_path = ''f'', se_task_exists = None, se_runtime = None\<rparr>"

definition sample_hold :: execution_policy where
  "sample_hold = default_policy\<lparr>failure_behavior := Failure_HOLD\<rparr>"

lemma sample_stored: "repository_load path (Some sample_document) = Inr (sample_definition Mode_AUTOMATIC)"
  using sample_loaded [of Mode_AUTOMATIC] by (simp add: sample_engine_def sample_document_def repository_load_def)

lemma sample_edit:
  "case run_edit sample_service (Edit_policy sample_hold) 3 (Some sample_document) of
     Inl e \<Rightarrow> False | Inr (saved, file') \<Rightarrow> pd_revision saved = 4"
  by code_simp

theorem edits_are_validated_saves_witness:
  "\<exists>saved file'. run_edit sample_service (Edit_policy sample_hold) 3 (Some sample_document) = Inr (saved, file')
     \<and> repository_load ''f'' file' = Inr (sort_tasks saved) \<and> pd_revision saved = 4"
proof -
  obtain saved file' where e: "run_edit sample_service (Edit_policy sample_hold) 3 (Some sample_document) = Inr (saved, file')"
    using sample_edit by (auto split: sum.splits)
  have "edit_argument_ok (Edit_policy sample_hold)" by (simp add: sample_hold_def policy_ok_def default_policy_def)
  from edits_are_validated_saves [OF e this] e show ?thesis by (auto simp: sample_service_def)
qed

text \<open>C37: optimistic concurrency. A save that is accepted names the stored revision, stores
  the saved definition under the next one, and makes every later save that still expects the
  old revision (or an older one) fail: of the writers that read one revision at most one
  wins.\<close>

theorem stale_saves_are_refused:
  "(case store_save path d expected file of
      None \<Rightarrow> True
    | Some file' \<Rightarrow> store_revision path file = Some expected
        \<and> store_revision path file' = Some (expected + 1)
        \<and> store_content path file' = Some (sort_tasks (d\<lparr>pd_revision := expected + 1\<rparr>))
        \<and> store_save path d' (expected - int older) file' = None)"
  using definitions.save_expected [of path d expected "file"] definitions.save_current [of path d expected "file"]
    definitions.save_content [of path d expected "file"]
    definitions.stale_save [of path d expected "file" _ "expected - int older" d']
  by (auto split: option.splits)

text \<open>Deletion keeps the audit history: a Gate with an evaluation, a decision, a waiver or
  a fingerprint, a Gate that an achieved baseline names, and an achieved Milestone are not
  deleted.\<close>

theorem deletion_keeps_history:
  "(case delete_gate (sv\<lparr>se_runtime := Some (Inr rt)\<rparr>) i expected file of
      Inl e \<Rightarrow> True
    | Inr edited \<Rightarrow> \<not> gate_has_history (dget (rt_gates rt) i [])
        \<and> list_all (\<lambda>(m, achievement). i \<notin> set (baseline_gates achievement)) (rt_milestone_achievements rt))
   \<and> (case delete_milestone (sv\<lparr>se_runtime := Some (Inr rt)\<rparr>) i expected file of
      Inl e \<Rightarrow> True
    | Inr edited \<Rightarrow> map_of (rt_milestone_achievements rt) i = None)"
  using delete_gate_history [of "sv\<lparr>se_runtime := Some (Inr rt)\<rparr>" i expected "file"]
    delete_milestone_history [of "sv\<lparr>se_runtime := Some (Inr rt)\<rparr>" i expected "file"]
  by (fastforce simp: list_all_iff split: sum.splits)

end
