(* ===== verification/Spec_Control.thy ===== *)
theory Spec_Control
  imports Exec_Sample
begin

text \<open>
  The properties of the control decisions: when a Gate is satisfied and what its decisions are
  bound to, when a Task is eligible, what state a Phase is in, and what a Milestone's
  achievement records. The planner's bounds are here too.
\<close>

section \<open>Sample evaluations\<close>

definition approval_gate :: project_gate where
  "approval_gate = sample_gate\<lparr>pg_criteria := [approval_criterion]\<rparr>"

abbreviation sample_evaluate :: "runtime_state \<Rightarrow> (runtime_state \<times> event list) res" where
  "sample_evaluate rt \<equiv> gate_evaluate (\<lambda>s. ''0'') ''now'' approval_gate rt (sample_view False)"

definition sample_awaiting :: runtime_state where
  "sample_awaiting = fst (projr (sample_evaluate sample_runtime))"

definition sample_decision :: "runtime_state \<times> row \<times> event list" where
  "sample_decision = projr (gate_decide ''now'' ''g'' sample_awaiting ''ann'' ''Approved'' [])"

definition sample_waiver :: "runtime_state \<times> row \<times> event list" where
  "sample_waiver = projr (gate_waive ''now'' ''g'' sample_awaiting ''ann'' ''late'')"

lemma sample_gate_runs:
  "\<not> isl (sample_evaluate sample_runtime)"
  "\<not> isl (gate_decide ''now'' ''g'' sample_awaiting ''ann'' ''Approved'' [])"
  "\<not> isl (gate_waive ''now'' ''g'' sample_awaiting ''ann'' ''late'')"
  "\<not> isl (sample_evaluate (fst sample_decision))" "\<not> isl (sample_evaluate (fst sample_waiver))"
  by code_simp+

lemma Inr_projr: "\<not> isl r \<Longrightarrow> r = Inr (fst (projr r), snd (projr r))"
  by (cases r) simp_all

lemma Inr_projr3: "\<not> isl r \<Longrightarrow> r = Inr (fst (projr r), fst (snd (projr r)), snd (snd (projr r)))"
  by (cases r) simp_all

lemma sample_evaluated: "sample_evaluate sample_runtime = Inr (sample_awaiting, snd (projr (sample_evaluate sample_runtime)))"
  unfolding sample_awaiting_def by (rule Inr_projr [OF sample_gate_runs(1)])

lemma sample_decided: "gate_decide ''now'' ''g'' sample_awaiting ''ann'' ''Approved'' []
    = Inr (fst sample_decision, fst (snd sample_decision), snd (snd sample_decision))"
  unfolding sample_decision_def by (rule Inr_projr3 [OF sample_gate_runs(2)])


lemma approval_gate_id [simp]: "pg_id approval_gate = ''g''"
  by (simp add: approval_gate_def sample_gate_def)

lemma sample_runtime_fields [simp]:
  "rt_cancelled_gates sample_runtime = []" "rt_gates sample_runtime = []"
  by (simp_all add: sample_runtime_def initial_runtime_def)

section \<open>Gates\<close>

lemma automatic_evidence_fingerprint:
  assumes "automatic_evidence sha g rt view = Inr (results, fp)"
  shows "fp = ''sha256:'' @ sha (json_dumps (PDict
        [(''gate_id'', PStr (pg_id g)),
         (''criteria'', PList (map (\<lambda>c. PDict (criterion_as_mapping c)) (pg_criteria g))),
         (''automatic_evidence'', PList (map (\<lambda>(c, x). PDict
             [(''criterion'', PDict (criterion_as_mapping c)), (''evidence'', PDict (cr_evidence x))])
           (zip (filter (\<lambda>c. gc_type c \<noteq> ''human_approval'') (pg_criteria g)) results)))]))"
  using assms
  by (auto simp: automatic_evidence_def canonical_fingerprint_def fingerprint_input_def evidence_row_def
      automatic_criteria_def is_human_def rbind_Inr_iff)

text \<open>C15: evaluating a Gate that is not cancelled satisfies it exactly when it holds a waiver
  for the fingerprint of the evidence seen now, or every one of its criteria holds, read from
  the Tasks and the rows alone: the Task has completed, its verification has the expected
  outcome, it has produced the artifact, the named Gate stands on its own evidence, and the
  last human decision made on this very evidence is an approval. The fingerprint is the digest of
  the Gate's criteria and of what each automatic one of them saw.\<close>

theorem gate_satisfied_exactly:
  assumes "gate_evaluate sha now g rt view = Inr (rt', events)"
    and "pg_id g \<notin> set (rt_cancelled_gates rt)"
  shows "\<exists>results fp. automatic_evidence sha g (opened rt (pg_id g)) view = Inr (results, fp)
    \<and> (gate_satisfied rt' (pg_id g) \<longleftrightarrow>
        names_evidence (row_get (opened_row rt (pg_id g)) ''waiver'' PNone) fp
        \<or> (\<forall>c \<in> set (pg_criteria g). criterion_holds g (opened rt (pg_id g)) view fp c))
    \<and> fp = ''sha256:'' @ sha (json_dumps (PDict
        [(''gate_id'', PStr (pg_id g)),
         (''criteria'', PList (map (\<lambda>c. PDict (criterion_as_mapping c)) (pg_criteria g))),
         (''automatic_evidence'', PList (map (\<lambda>(c, x). PDict
             [(''criterion'', PDict (criterion_as_mapping c)), (''evidence'', PDict (cr_evidence x))])
           (zip (filter (\<lambda>c. gc_type c \<noteq> ''human_approval'') (pg_criteria g)) results)))]))"
proof -
  obtain results fp where a: "automatic_evidence sha g (opened rt (pg_id g)) view = Inr (results, fp)"
    by (rule gate_evaluate_Inr [OF assms])
  show ?thesis
    using a gate_evaluate_satisfied [OF assms a] automatic_evidence_fingerprint [OF a]
    unfolding all_criteria_hold_def by blast
qed

lemma sample_evidence:
  "automatic_evidence (\<lambda>s. ''0'') approval_gate (opened sample_runtime ''g'') (sample_view False) = Inr ([], ''sha256:0'')"
  by code_simp

theorem gate_satisfied_exactly_witness:
  "gate_satisfied sample_awaiting ''g'' \<longleftrightarrow>
     names_evidence (row_get (opened_row sample_runtime ''g'') ''waiver'' PNone) ''sha256:0''
     \<or> (\<forall>c \<in> set (pg_criteria approval_gate).
          criterion_holds approval_gate (opened sample_runtime ''g'') (sample_view False) ''sha256:0'' c)"
  using gate_satisfied_exactly [OF sample_evaluated] sample_evidence by simp

text \<open>Evaluating a Gate twice in a row changes nothing and reports nothing the second time,
  at whatever time it happens: the evaluation is bound to its evidence, not to the clock.\<close>

theorem gate_evaluation_idempotent:
  assumes "gate_evaluate sha now g rt view = Inr (rt', events)" and "gates_wf rt" and "self_free g"
  shows "gate_evaluate sha later g rt' view = Inr (rt', [])"
  by (rule gate_evaluate_again [OF assms])

theorem gate_evaluation_idempotent_witness:
  "gate_evaluate (\<lambda>s. ''0'') ''later'' approval_gate sample_awaiting (sample_view False) = Inr (sample_awaiting, [])"
  by (rule gate_evaluation_idempotent [OF sample_evaluated])
    (simp_all add: gates_wf_def self_free_def approval_gate_def approval_criterion_def)

text \<open>C23: a human decision counts for the evidence it was made on. When a Gate that waits for
  approval is decided and then evaluated on evidence with the fingerprint fp, it is satisfied
  exactly when it is not cancelled and either a waiver of its row names fp or all its criteria
  hold, where a human approval holds, if fp is the fingerprint the Gate was decided on, when the
  decision was to approve, and on any other evidence, when an earlier decision on that evidence
  had approved it: this decision does not count there.\<close>

theorem decision_bound_to_evidence:
  assumes "gate_decide now (pg_id g) rt actor decision why = Inr (rt1, record_row, events)"
    and "gate_evaluate sha later g rt1 view = Inr (rt2, events')"
    and "automatic_evidence sha g rt1 view = Inr (results, fp)"
    and "r = dget (rt_gates rt) (pg_id g) []"
  shows "gate_satisfied rt2 (pg_id g) \<longleftrightarrow> pg_id g \<notin> set (rt_cancelled_gates rt)
    \<and> (names_evidence (row_get r ''waiver'' PNone) fp
       \<or> (\<forall>c \<in> set (pg_criteria g). if gc_type c \<noteq> ''human_approval'' then criterion_holds g rt1 view fp c
            else if fp = row_get_str r ''input_fingerprint'' [] then py_lower (py_strip decision) = ''approved''
            else approved_on r fp))"
  by (rule decided_then_evaluated [OF assms(1) refl assms(2-4)])

definition sample_passed :: runtime_state where
  "sample_passed = fst (projr (sample_evaluate (fst sample_decision)))"

lemma sample_decision_facts:
  "automatic_evidence (\<lambda>s. ''0'') approval_gate (fst sample_decision) (sample_view False) = Inr ([], ''sha256:0'')"
  "row_get_str (dget (rt_gates sample_awaiting) ''g'' []) ''input_fingerprint'' [] = ''sha256:0''"
  "rt_cancelled_gates sample_awaiting = []"
  by code_simp+

lemma approval_gate_criteria: "pg_criteria approval_gate = [approval_criterion]" "gc_type approval_criterion = ''human_approval''"
  by (simp_all add: approval_gate_def approval_criterion_def)

theorem decision_bound_to_evidence_witness: "gate_satisfied sample_passed ''g''"
proof -
  have e: "sample_evaluate (fst sample_decision)
      = Inr (sample_passed, snd (projr (sample_evaluate (fst sample_decision))))"
    unfolding sample_passed_def by (rule Inr_projr [OF sample_gate_runs(4)])
  have d: "gate_decide ''now'' (pg_id approval_gate) sample_awaiting ''ann'' ''Approved'' []
      = Inr (fst sample_decision, fst (snd sample_decision), snd (snd sample_decision))"
    using sample_decided by simp
  have "py_lower (py_strip ''Approved'') = ''approved''" by code_simp
  then show ?thesis
    using decision_bound_to_evidence [OF d e sample_decision_facts(1) refl] sample_decision_facts(2,3)
    by (simp add: approval_gate_criteria)
qed





section \<open>Tasks and Phases\<close>

text \<open>C14: in a validated definition every Task gets an eligibility verdict, and the verdict is
  positive, with no reason against it, exactly when the Task exists, is active and executable,
  has not been seen started, nothing holds the Project or cancelled the Phase, all Gates at the
  Phase's entry and of the Task are satisfied, every predecessor has completed, and no failed
  required Task stops new starts.\<close>

theorem eligible_exactly:
  assumes "unique_ids d" and "definition_wf d e" and "task \<in> set (pd_tasks d)"
  shows "\<exists>r phase. evaluate_task_eligibility (pt_task_id task) d rt view = Inr r
    \<and> phase \<in> set (pd_phases d) \<and> ph_id phase = pt_phase task
    \<and> (el_eligible r \<longleftrightarrow> may_start d rt view task phase) \<and> (el_eligible r \<longleftrightarrow> el_reasons r = [])"
proof -
  obtain r phase where r: "evaluate_task_eligibility (pt_task_id task) d rt view = Inr r"
    and ix: "map_of (task_index d) (pt_task_id task) = Some task" "map_of (phase_index d) (pt_phase task) = Some phase"
    by (rule eligibility_total [OF assms])
  show ?thesis
    using r eligible_iff_may_start [OF ix refl r] eligibility_eligible_iff_no_reason [OF r]
      ix(2) phase_index_Some [OF assms(1)] by blast
qed

lemma sample_task_in: "sample_task \<in> set (pd_tasks (sample_definition mode))"
  by (simp add: sample_definition_def)

theorem eligible_exactly_witness:
  "\<exists>r phase. evaluate_task_eligibility ''t'' (sample_definition Mode_ASSISTED) sample_runtime (sample_view False) = Inr r
    \<and> (el_eligible r \<longleftrightarrow>
        may_start (sample_definition Mode_ASSISTED) sample_runtime (sample_view False) sample_task phase)"
proof -
  have "pt_task_id sample_task = ''t''" by (simp add: sample_task_def)
  then show ?thesis
    using eligible_exactly [OF definition_ok_unique_ids [OF sample_definition_ok] sample_definition_wf
        sample_task_in, of Mode_ASSISTED sample_runtime "sample_view False"] by auto
qed

lemma project_phase_projected:
  assumes "definition_ok d" and "definition_wf d e" and "p \<in> set (pd_phases d)"
  obtains r where "project_phase p d rt view results today = Inr r" and "pp_state r =
    (if ph_id p \<in> set (rt_cancelled_phases rt) then Phase_CANCELLED
     else if \<not> phase_entered rt p then Phase_PLANNED
     else if phase_done d rt view p then Phase_COMPLETE
     else if phase_begun view p then Phase_ACTIVE
     else Phase_READY)"
proof -
  have "schedule_ok (ph_schedule p)"
    using assms(1,3) by (auto simp: definition_ok_def list_all_iff phase_ok_def)
  then show ?thesis
    by (rule project_phase_total [OF definition_ok_unique_ids [OF assms(1)] assms(2,3)]) (rule that)
qed

text \<open>C26: the state of every Phase of a validated definition is projected, and it is cancelled,
  planned, complete, active or ready by the first of these that applies: the Phase was
  cancelled; an entry Gate is open; all required Tasks, exit Gates and Milestones are done; some
  contained Task has been started; none of them.\<close>

theorem phase_state_exactly:
  assumes "definition_ok d" and "definition_wf d e" and "p \<in> set (pd_phases d)"
  shows "\<exists>r. project_phase p d rt view results today = Inr r \<and> pp_state r =
    (if ph_id p \<in> set (rt_cancelled_phases rt) then Phase_CANCELLED
     else if \<not> phase_entered rt p then Phase_PLANNED
     else if phase_done d rt view p then Phase_COMPLETE
     else if phase_begun view p then Phase_ACTIVE
     else Phase_READY)"
  by (rule project_phase_projected [OF assms]) blast

lemma sample_phase_in: "sample_phase \<in> set (pd_phases (sample_definition mode))"
  by (simp add: sample_definition_def)

theorem phase_state_exactly_witness:
  "\<exists>r. project_phase sample_phase (sample_definition Mode_ASSISTED) sample_runtime (sample_view True) None (2025, 6, 1) = Inr r
     \<and> pp_state r = Phase_ACTIVE"
proof -
  have "phase_entered sample_runtime sample_phase" "phase_begun (sample_view True) sample_phase"
    "ph_id sample_phase \<notin> set (rt_cancelled_phases sample_runtime)"
    "\<not> phase_done (sample_definition Mode_ASSISTED) sample_runtime (sample_view True) sample_phase"
    by (simp_all add: phase_entered_def phase_begun_def phase_done_def sample_phase_def sample_view_def
        sample_outcome_def sample_runtime_def initial_runtime_def)
  then show ?thesis
    using phase_state_exactly [OF sample_definition_ok sample_definition_wf sample_phase_in,
        of Mode_ASSISTED sample_runtime "sample_view True" None "(2025, 6, 1)"] by auto
qed

lemma unique_task:
  "unique_ids d \<Longrightarrow> task \<in> set (pd_tasks d) \<Longrightarrow> task' \<in> set (pd_tasks d) \<Longrightarrow>
     pt_task_id task' = pt_task_id task \<Longrightarrow> task' = task"
  using unique_idsD(1) by (auto simp: distinct_map inj_on_def)

text \<open>The two projections agree: when a required Task is eligible, its Phase is projected as
  ready or active, so the planner never has to reject it for the state of its Phase.\<close>

theorem eligible_task_phase_open:
  assumes "definition_ok d" and "definition_wf d e" and "task_reader view"
    and "task \<in> set (pd_tasks d)" and "pt_required task"
    and "evaluate_task_eligibility (pt_task_id task) d rt view = Inr r" and "el_eligible r"
  shows "\<exists>phase projection. phase \<in> set (pd_phases d) \<and> ph_id phase = pt_phase task
    \<and> project_phase phase d rt view results today = Inr projection
    \<and> pp_state projection \<in> {Phase_READY, Phase_ACTIVE}"
proof -
  have u: "unique_ids d" by (rule definition_ok_unique_ids [OF assms(1)])
  obtain phase where ph: "phase \<in> set (pd_phases d)" "ph_id phase = pt_phase task"
    and may: "may_start d rt view task phase"
    using eligible_task [OF u assms(2,6,7)] unique_task [OF u assms(4)] by metis
  have "pt_task_id task \<in> phase_requires d phase"
    using assms(4,5) ph(2) by (auto simp: phase_requires_def)
  moreover have "tv_outcome view (pt_task_id task) \<noteq> Outcome_COMPLETED"
    using may task_reader.describe_outcome [OF assms(3), of "pt_task_id task"]
    by (auto simp: may_start_def Let_def)
  ultimately have "\<not> phase_done d rt view phase" by (auto simp: phase_done_def)
  moreover have "phase_entered rt phase" "ph_id phase \<notin> set (rt_cancelled_phases rt)"
    using may ph(2) by (auto simp: may_start_def phase_entered_def)
  moreover obtain pr where pr: "project_phase phase d rt view results today = Inr pr"
    "pp_state pr = (if ph_id phase \<in> set (rt_cancelled_phases rt) then Phase_CANCELLED
     else if \<not> phase_entered rt phase then Phase_PLANNED
     else if phase_done d rt view phase then Phase_COMPLETE
     else if phase_begun view phase then Phase_ACTIVE
     else Phase_READY)"
    by (rule project_phase_projected [OF assms(1,2) ph(1)])
  ultimately have "pp_state pr \<in> {Phase_READY, Phase_ACTIVE}" by simp
  with pr(1) ph show ?thesis by blast
qed

theorem eligible_task_phase_open_witness:
  "\<exists>phase projection. ph_id phase = ''p''
    \<and> project_phase phase (sample_definition Mode_ASSISTED) sample_runtime (sample_view False) None (2025, 6, 1) = Inr projection
    \<and> pp_state projection \<in> {Phase_READY, Phase_ACTIVE}"
proof -
  let ?e = "evaluate_task_eligibility (pt_task_id sample_task) (sample_definition Mode_ASSISTED) sample_runtime (sample_view False)"
  have "case ?e of Inl e \<Rightarrow> False | Inr r \<Rightarrow> el_eligible r" by code_simp
  then obtain r where "?e = Inr r" "el_eligible r" by (auto split: sum.splits)
  moreover have "pt_required sample_task" "pt_phase sample_task = ''p''" by (simp_all add: sample_task_def)
  ultimately show ?thesis
    using eligible_task_phase_open [OF sample_definition_ok sample_definition_wf sample.task_reader_axioms
        sample_task_in, of Mode_ASSISTED sample_runtime False r None "(2025, 6, 1)"] by auto
qed

section \<open>Milestones\<close>






text \<open>C28: achievements are immutable: evaluating any Milestone keeps every recorded baseline as
  it is.\<close>

theorem achievements_immutable:
  "(case achieve_if_ready now today m d rt view of
      Inl e \<Rightarrow> True
    | Inr (rt', result, events) \<Rightarrow> (case map_of (rt_milestone_achievements rt) i of
          None \<Rightarrow> True
        | Some baseline \<Rightarrow> map_of (rt_milestone_achievements rt') i = Some baseline))"
proof (cases "achieve_if_ready now today m d rt view")
  case (Inr x)
  then obtain rt' result events where x: "achieve_if_ready now today m d rt view = Inr (rt', result, events)"
    by (metis prod_cases3)
  from x show ?thesis
    by (cases rule: achieve_if_ready_cases) (auto simp: x map_add_def split: option.splits)
qed simp

section \<open>The planner\<close>





text \<open>A plan lists eligible Tasks of ready or active Phases in the order of the dependency
  graph.\<close>

theorem plan_follows_dependencies:
  "(case automatic_plan d rt results phases of
      Inl e \<Rightarrow> True
    | Inr plan \<Rightarrow> (\<exists>order. topological_order (task_graph d) ''Task dependency graph'' = Inr order
        \<and> subseq (sp_task_ids plan) order
        \<and> list_all (startable d (occupied_tasks d rt) results phases) (sp_task_ids plan)))"
proof (cases "automatic_plan d rt results phases")
  case (Inr plan)
  then show ?thesis
    using automatic_plan_Inr [OF Inr] automatic_plan_startable [OF Inr]
    by (simp add: list_all_iff) metis
qed simp

end
