(* ===== verification/Spec_Execution.thy ===== *)
theory Spec_Execution
  imports Exec_Sample
begin

text \<open>
  The properties of the runner, of the reconciliation of interrupted starts, and of the
  filesystem port through which Task execution is observed.
\<close>

section \<open>The runner\<close>

text \<open>C32: a bounded run returns. Where the configuration accepts \<open>max_cycles = i\<close>, the runner
  has returned or raised after at most \<open>i\<close> cycles, whatever happens between them; a larger
  budget gives the same result.\<close>

theorem bounded_run_returns:
  "(case runner_config_init poll (Some i) of
      Inl e \<Rightarrow> poll < 0 \<or> i < 1
    | Inr cfg \<Rightarrow> (\<exists>r. run_automatic (nat i) envs outside cfg s = Some r
        \<and> run_automatic (nat i + extra) envs outside cfg s = Some r))"
proof (cases "poll < 0 \<or> i < 1")
  case False
  then have c: "runner_config_init poll (Some i) = Inr \<lparr>rc_max_cycles = Some (nat i)\<rparr>"
    by (simp add: runner_config_init_def)
  have "\<exists>r. run_automatic (nat i) envs outside \<lparr>rc_max_cycles = Some (nat i)\<rparr> s = Some r"
    unfolding run_automatic_def by (rule runner_loop_returns [of _ "nat i"]) (use False in simp_all)
  then obtain r where r: "run_automatic (nat i) envs outside \<lparr>rc_max_cycles = Some (nat i)\<rparr> s = Some r" ..
  then show ?thesis using runner_loop_mono [of "nat i" envs outside _ 0 s r "nat i + extra"] c
    by (simp add: run_automatic_def)
qed (auto simp: runner_config_init_def)

text \<open>What a run reports is true of its last cycle, a cycle it really ran: all Tasks
  terminal, all of them completed, the Project held, nothing left to do (a start failed, or
  nothing was started and nothing runs), or the budget exhausted, and the last two only where
  the first three do not apply.\<close>

theorem run_reports_last_cycle:
  "(case run_automatic fuel envs outside cfg s of
      None \<Rightarrow> True
    | Some (Inl e, s') \<Rightarrow> True
    | Some (Inr r, s') \<Rightarrow> (\<exists>n s0 cycle. automatic_cycle (envs n) s0 = (Inr cycle, s') \<and> n < fuel
        \<and> rr_cycles r = Suc n \<and> rr_last_cycle r = cycle
        \<and> rr_tasks_terminal r = tasks_terminal cycle
        \<and> rr_tasks_successful r = (tasks_terminal cycle \<and> tasks_successful cycle)
        \<and> rr_held r = sn_held (cy_snapshot cycle)
        \<and> rr_quiescent r = (\<not> tasks_terminal cycle \<and> \<not> sn_held (cy_snapshot cycle)
            \<and> (if cy_start_failures cycle = [] then cy_started_tasks cycle = [] \<and> \<not> tasks_running cycle
                else True))
        \<and> rr_exhausted r = (\<not> tasks_terminal cycle \<and> \<not> sn_held (cy_snapshot cycle) \<and> \<not> rr_quiescent r)))"
proof (cases "run_automatic fuel envs outside cfg s")
  case (Some x)
  obtain res s' where x: "x = (res, s')" by (cases x)
  show ?thesis
  proof (cases res)
    case (Inr r)
    then have "runner_loop fuel envs outside cfg 0 s = Some (Inr r, s')"
      using Some x by (simp add: run_automatic_def)
    then obtain n s0 cycle where c: "automatic_cycle (envs n) s0 = (Inr cycle, s')" "n < 0 + fuel"
      and stop: "runner_stop cfg (Suc n) cycle = Some r"
      by (rule runner_loop_result)
    show ?thesis
      unfolding Some x Inr option.case prod.case sum.case
      by (intro exI [of _ n] exI [of _ s0] exI [of _ cycle] conjI)
        (use c runner_stop_reason [OF stop] in simp_all)
  qed (simp add: Some x)
qed simp

section \<open>Interrupted starts\<close>

text \<open>Reconciliation keeps a start intent open only for a Task that still appears not
  started, never opens one, and never leaves two open for one Task.\<close>

theorem reconciliation_resolves_started:
  assumes "exclusive rt" and "unresolved (fst (reconcile_start_intents now rt view)) t k"
  shows "unresolved rt t k \<and> tv_outcome view t = Outcome_NOT_STARTED
    \<and> exclusive (fst (reconcile_start_intents now rt view))"
  using reconciled_unresolved [OF assms(2)] reconciled_exclusive [OF assms(1)] by simp

definition sample_pending :: runtime_state where
  "sample_pending = add_intent ''k'' ''t'' ''now'' None sample_runtime"

lemma sample_pending_facts:
  "exclusive sample_pending" "unresolved sample_pending ''t'' ''k''"
proof -
  have e: "exclusive sample_runtime"
    by (simp add: exclusive_def unresolved_def sample_runtime_def initial_runtime_def)
  have s: "startable_now sample_runtime ''t'' None"
    by (simp add: startable_now_def unresolved_def sample_runtime_def initial_runtime_def)
  show "exclusive sample_pending" "unresolved sample_pending ''t'' ''k''"
    unfolding sample_pending_def by (rule add_intent_facts [OF e s])+
qed

lemma sample_pending_reconciled:
  "rt_intents (fst (reconcile_start_intents ''now'' sample_pending (sample_view False)))
     = [(''k'', fst (reconcile_intent ''now'' (sample_view False) (new_intent ''k'' ''t'' ''now'')))]"
  "start_intent (fst (reconcile_intent ''now'' (sample_view False) (new_intent ''k'' ''t'' ''now'')))
   \<and> \<not> intent_resolved (fst (reconcile_intent ''now'' (sample_view False) (new_intent ''k'' ''t'' ''now'')))
   \<and> row_get (fst (reconcile_intent ''now'' (sample_view False) (new_intent ''k'' ''t'' ''now''))) ''task_id'' PNone = PStr ''t''"
  by code_simp+

text \<open>An unrecognised Task state is taken for a start that happened, and for one that may
  still be made: an interrupted intent for a Task with an unknown outcome is resolved, which
  releases the reservation, while eligibility has no objection to that outcome.\<close>

theorem unknown_outcome_releases_intent:
  assumes "start_intent i" and "\<not> intent_resolved i" and "tv_outcome view (intent_task i) = Outcome_UNKNOWN"
  shows "intent_resolved (fst (reconcile_intent now view i))
    \<and> outcome_reasons (intent_task i) (tv_outcome view (intent_task i)) = []"
  using assms
  by (simp add: reconcile_intent_def update_row_def intent_resolved_def resolved_intent_states_def
      outcome_reasons_Nil)

section \<open>The filesystem port\<close>

text \<open>Every state the Task execution code writes is recognised: none is projected as
  unknown, and only the initial one as not started.\<close>

theorem known_states_projected:
  "projected_outcome (state_value st) \<noteq> Outcome_UNKNOWN
     \<and> (projected_outcome (state_value st) = Outcome_NOT_STARTED \<longleftrightarrow> st = State_INITIALIZING)"
  using projected_outcome_state by blast

text \<open>Verification evidence counts as passed exactly when there is some and all of it passed,
  and as failed exactly when some of it failed.\<close>

theorem verification_outcome_exactly:
  "(verification_outcome statuses = ''passed''
      \<longleftrightarrow> statuses \<noteq> [] \<and> set statuses \<subseteq> set passed_outcomes)
   \<and> (verification_outcome statuses = ''failed''
      \<longleftrightarrow> (\<exists>s. s \<in> set statuses \<and> s \<in> set failed_outcomes))"
  using verification_outcome_passed verification_outcome_failed by blast

text \<open>C35: the filesystem port never runs the start action on a Task whose state file holds a
  state other than initializing, whichever of the executor's states it is: it answers that the
  Task is already started, or how it ended, and changes nothing. On every other Task (no state
  file, initializing, or a text that is no state of the executor) it runs the start action it
  was given, and without one it accepts nothing.\<close>

theorem filesystem_start_once:
  "fs_start action store t =
     (let s = py_lower (py_strip (fs_state (store t))) in
      if \<exists>st. st \<noteq> State_INITIALIZING \<and> s = state_value st
      then (Inr \<lparr>sr_accepted = False, sr_already_started = True,
              sr_message = ''Task '' @ t @ '' is already ''
                @ (if s \<in> {''completed'', ''failed'', ''cancelled''} then s else ''running'')\<rparr>, store)
      else (case action of
          None \<Rightarrow> (Inr \<lparr>sr_accepted = False, sr_already_started = False,
                       sr_message = ''Task start action is not configured''\<rparr>, store)
        | Some run \<Rightarrow> run store t))"
  by (rule fs_start_exact)

end
