(* ===== verification/Exec_Timestamp.thy ===== *)
theory Exec_Timestamp
  imports Exec_Identity
begin

text \<open>
  Timestamps with a time zone, as \<open>_timestamp\<close> of \<open>project_execution/delivery/models.py\<close> normalises
  them: \<open>datetime.fromisoformat\<close> and \<open>isoformat\<close> as Python 3.10 documents them, that is
  YYYY-MM-DD[*HH[:MM[:SS[.fff[fff]]]][+HH:MM[:SS[.ffffff]]]], with an offset of less than a day.
  A normalised timestamp is accepted again and unchanged.
\<close>

section \<open>Reading\<close>

type_synonym clock = "nat \<times> nat \<times> nat \<times> nat"

definition two_digits :: "string \<Rightarrow> (nat \<times> string) option" where
  "two_digits s = (case s of
      a # b # rest \<Rightarrow> if py_isdecimal a \<and> py_isdecimal b
        then Some (10 * digit_value a + digit_value b, rest) else None
    | _ \<Rightarrow> None)"

definition fraction_value :: "string \<Rightarrow> nat option" where
  "fraction_value s =
     (if list_all py_isdecimal s \<and> length s \<in> {3, 6}
      then Some (foldl (\<lambda>n c. 10 * n + digit_value c) 0 s * (if length s = 3 then 1000 else 1))
      else None)"

definition clock_fields :: "string \<Rightarrow> clock option" where
  "clock_fields s = (case two_digits s of None \<Rightarrow> None | Some (h, s1) \<Rightarrow>
     (case s1 of [] \<Rightarrow> Some (h, 0, 0, 0) | c # s2 \<Rightarrow> if c \<noteq> CHR '':'' then None else
     (case two_digits s2 of None \<Rightarrow> None | Some (m, s3) \<Rightarrow>
     (case s3 of [] \<Rightarrow> Some (h, m, 0, 0) | c # s4 \<Rightarrow> if c \<noteq> CHR '':'' then None else
     (case two_digits s4 of None \<Rightarrow> None | Some (sec, s5) \<Rightarrow>
     (case s5 of [] \<Rightarrow> Some (h, m, sec, 0) | c # s6 \<Rightarrow> if c \<noteq> CHR ''.'' then None else
     map_option (\<lambda>us. (h, m, sec, us)) (fraction_value s6)))))))"

definition clock_valid :: "clock \<Rightarrow> bool" where
  "clock_valid c = (case c of (h, m, s, us) \<Rightarrow> h < 24 \<and> m < 60 \<and> s < 60 \<and> us < 1000000)"

definition microseconds :: "clock \<Rightarrow> nat" where
  "microseconds c = (case c of (h, m, s, us) \<Rightarrow> ((h * 60 + m) * 60 + s) * 1000000 + us)"

definition is_sign :: "char \<Rightarrow> bool" where
  "is_sign c = (c = CHR ''+'' \<or> c = CHR ''-'')"

text \<open>The offset from UTC in microseconds; None is a naive time.\<close>

definition zone_offset :: "string \<Rightarrow> int option option" where
  "zone_offset z = (case z of
      [] \<Rightarrow> Some None
    | c # t \<Rightarrow> if length t \<notin> {5, 8, 15} then None else (case clock_fields t of
          None \<Rightarrow> None
        | Some clk \<Rightarrow> if microseconds clk < 86400000000
            then Some (Some ((if c = CHR ''-'' then - 1 else 1) * int (microseconds clk))) else None))"

definition datetime_fromisoformat :: "string \<Rightarrow> (date \<times> clock \<times> int option) option" where
  "datetime_fromisoformat s = (case date_fromisoformat (take 10 s) of
      None \<Rightarrow> None
    | Some d \<Rightarrow> if drop 10 s = [] then Some (d, (0, 0, 0, 0), None)
        else (let t = drop 11 s in
          case clock_fields (takeWhile (\<lambda>c. \<not> is_sign c) t) of
            None \<Rightarrow> None
          | Some clk \<Rightarrow> if \<not> clock_valid clk then None
              else map_option (\<lambda>offset. (d, clk, offset)) (zone_offset (dropWhile (\<lambda>c. \<not> is_sign c) t))))"

section \<open>Writing\<close>

definition pad2 :: "nat \<Rightarrow> string" where
  "pad2 n = [py_digit (n div 10), py_digit (n mod 10)]"

definition fraction_text :: "nat \<Rightarrow> string" where
  "fraction_text us = (if us = 0 then [] else
     CHR ''.'' # pad2 (us div 100 div 100) @ pad2 (us div 100 mod 100) @ pad2 (us mod 100))"

definition clock_text :: "clock \<Rightarrow> string" where
  "clock_text c = (case c of (h, m, s, us) \<Rightarrow>
     pad2 h @ CHR '':'' # pad2 m @ CHR '':'' # pad2 s @ fraction_text us)"

definition clock_of :: "nat \<Rightarrow> clock" where
  "clock_of n = (let t = n div 1000000 in (t div 60 div 60, t div 60 mod 60, t mod 60, n mod 1000000))"

definition offset_text :: "int \<Rightarrow> string" where
  "offset_text offset = (case clock_of (nat \<bar>offset\<bar>) of (h, m, s, us) \<Rightarrow>
     (if offset < 0 then CHR ''-'' else CHR ''+'') # pad2 h @ CHR '':'' # pad2 m
     @ (if s = 0 \<and> us = 0 then [] else CHR '':'' # pad2 s @ fraction_text us))"

definition datetime_isoformat :: "date \<times> clock \<times> int option \<Rightarrow> string" where
  "datetime_isoformat dt = (case dt of (d, clk, offset) \<Rightarrow>
     date_isoformat d @ CHR ''T'' # clock_text clk
     @ (case offset of None \<Rightarrow> [] | Some n \<Rightarrow> offset_text n))"

definition timestamp :: "pyval \<Rightarrow> string \<Rightarrow> bool \<Rightarrow> string res" where
  "timestamp v label required =
     rbind (model_text v label required max_text_length) (\<lambda>text.
     if text = [] then Inr []
     else case datetime_fromisoformat text of
        None \<Rightarrow> Inl (ProjectExecutionError (label @ '' must be an ISO-8601 timestamp''))
      | Some (d, clk, offset) \<Rightarrow>
          if offset = None
          then Inl (ProjectExecutionError (label @ '' must include a timezone offset''))
          else Inr (datetime_isoformat (d, clk, offset)))"

section \<open>What is written is read back\<close>

lemma digit_value_py_digit [simp]: "d < 10 \<Longrightarrow> digit_value (py_digit d) = d"
  by (simp add: digit_value_def of_char_py_digit)

lemma py_isdecimal_py_digit [simp]: "d < 10 \<Longrightarrow> py_isdecimal (py_digit d)"
  by (simp add: py_isdecimal_def of_char_py_digit Let_def)

lemma decimal_plain: "py_isdecimal c \<Longrightarrow> \<not> is_sign c \<and> \<not> py_isspace c"
  by (auto simp: py_isdecimal_def is_sign_def py_isspace_def Let_def)

lemma two_digits_pad2 [simp]: "n < 100 \<Longrightarrow> two_digits (pad2 n @ rest) = Some (n, rest)"
  by (simp add: two_digits_def pad2_def less_mult_imp_div_less)

lemma decimal_pad2 [simp]: "n < 100 \<Longrightarrow> list_all py_isdecimal (pad2 n)"
  by (simp add: pad2_def less_mult_imp_div_less)

lemma length_pad2 [simp]: "length (pad2 n) = 2"
  by (simp add: pad2_def)

lemma value_pad2 [simp]: "n < 100 \<Longrightarrow> foldl (\<lambda>n c. 10 * n + digit_value c) k (pad2 n) = 100 * k + n"
  by (simp add: pad2_def less_mult_imp_div_less)

lemma fraction_value_text:
  assumes "us < 1000000"
  shows "fraction_value (pad2 (us div 100 div 100) @ pad2 (us div 100 mod 100) @ pad2 (us mod 100)) = Some us"
proof -
  have "us div 100 div 100 < 100" using assms by (simp add: less_mult_imp_div_less)
  then show ?thesis by (simp add: fraction_value_def)
qed

lemma clock_fields_text:
  assumes "clock_valid (h, m, s, us)"
  shows "clock_fields (clock_text (h, m, s, us)) = Some (h, m, s, us)"
    and "clock_fields (pad2 h @ CHR '':'' # pad2 m) = Some (h, m, 0, 0)"
proof -
  have *: "h < 100" "m < 100" "s < 100" "us < 1000000" using assms by (auto simp: clock_valid_def)
  show "clock_fields (clock_text (h, m, s, us)) = Some (h, m, s, us)"
    using * two_digits_pad2 [of s "[]"] fraction_value_text [of us]
    by (simp add: clock_text_def clock_fields_def fraction_text_def)
  show "clock_fields (pad2 h @ CHR '':'' # pad2 m) = Some (h, m, 0, 0)"
    using * two_digits_pad2 [of m "[]"] by (simp add: clock_fields_def)
qed

lemma clock_of_valid:
  assumes "n < 86400000000"
  shows "clock_valid (clock_of n)" and "microseconds (clock_of n) = n"
proof -
  have "n div 1000000 div 60 div 60 < 24" using assms by (simp add: div_mult2_eq [symmetric] less_mult_imp_div_less)
  then show "clock_valid (clock_of n)" by (simp add: clock_of_def clock_valid_def Let_def)
  have "(n div 1000000 div 60 div 60 * 60 + n div 1000000 div 60 mod 60) * 60 + n div 1000000 mod 60 = n div 1000000"
    by (metis div_mult_mod_eq)
  then show "microseconds (clock_of n) = n"
    unfolding microseconds_def clock_of_def Let_def prod.case by (metis div_mult_mod_eq)
qed

lemma length_fraction_text: "length (fraction_text us) \<in> {0, 7}"
  by (simp add: fraction_text_def)

lemma zone_offset_text:
  assumes "\<bar>offset\<bar> < 86400000000"
  shows "zone_offset (offset_text offset) = Some (Some offset)"
proof -
  let ?n = "nat \<bar>offset\<bar>"
  obtain h m s us where c: "clock_of ?n = (h, m, s, us)" by (cases "clock_of ?n")
  have "?n < 86400000000" using assms by linarith
  from clock_of_valid [OF this] c have v: "clock_valid (h, m, s, us)" and n: "microseconds (h, m, s, us) = ?n"
    by simp_all
  have sgn: "(if offset < 0 then - 1 else 1) * \<bar>offset\<bar> = offset" by simp
  show ?thesis
  proof (cases "s = 0 \<and> us = 0")
    case True
    then show ?thesis
      using clock_fields_text(2) [OF v] n \<open>?n < 86400000000\<close> sgn by (simp add: zone_offset_def offset_text_def c)
  next
    case False
    have "length (clock_text (h, m, s, us)) \<in> {8, 15}"
      using length_fraction_text [of us] by (auto simp: clock_text_def)
    then show ?thesis
      using False clock_fields_text(1) [OF v] n \<open>?n < 86400000000\<close> sgn
      by (auto simp: zone_offset_def offset_text_def c clock_text_def)
  qed
qed

lemma timestamp_parsed:
  assumes "datetime_fromisoformat s = Some (d, clk, Some offset)"
  shows "date_fromisoformat (date_isoformat d) = Some d" and "length (date_isoformat d) = 10"
    and "clock_valid clk" and "\<bar>offset\<bar> < 86400000000"
proof -
  from assms have d: "date_fromisoformat (take 10 s) = Some d"
    by (auto simp: datetime_fromisoformat_def Let_def split: option.splits if_splits)
  from date_isoformat_fromisoformat [OF d] d
  show "date_fromisoformat (date_isoformat d) = Some d" by simp
  with date_fromisoformat_length show "length (date_isoformat d) = 10" by blast
  show "clock_valid clk" "\<bar>offset\<bar> < 86400000000"
    using assms
    by (auto simp: datetime_fromisoformat_def zone_offset_def Let_def
        split: option.splits if_splits list.splits)
qed

lemma pad2_plain: "n < 100 \<Longrightarrow> \<forall>c \<in> set (pad2 n). \<not> is_sign c \<and> \<not> py_isspace c"
  using decimal_pad2 [of n] decimal_plain by (auto simp: list_all_iff)

lemma clock_text_plain:
  assumes "clock_valid clk" shows "\<forall>c \<in> set (clock_text clk). \<not> is_sign c"
proof -
  obtain h m s us where c: "clk = (h, m, s, us)" by (cases clk)
  have lt: "h < 100" "m < 100" "s < 100" "us div 100 div 100 < 100" "us div 100 mod 100 < 100" "us mod 100 < 100"
    using assms by (simp_all add: clock_valid_def c less_mult_imp_div_less)
  have "\<not> is_sign (CHR '':'')" "\<not> is_sign (CHR ''.'')" by (simp_all add: is_sign_def)
  with lt [THEN pad2_plain] show ?thesis
    unfolding c clock_text_def fraction_text_def prod.case by (simp add: ball_Un)
qed

lemma offset_text_sign: "\<exists>c t. offset_text n = c # t \<and> is_sign c"
  by (auto simp: offset_text_def is_sign_def split: prod.splits)

lemma takeWhile_dropWhile_plain:
  assumes "\<forall>c \<in> set xs. \<not> P c" and "P y"
  shows "takeWhile (\<lambda>c. \<not> P c) (xs @ y # ys) = xs" "dropWhile (\<lambda>c. \<not> P c) (xs @ y # ys) = y # ys"
  using assms by (simp_all add: takeWhile_append dropWhile_append)

lemma datetime_round_trip:
  assumes "datetime_fromisoformat s = Some (d, clk, Some offset)"
  shows "datetime_fromisoformat (datetime_isoformat (d, clk, Some offset)) = Some (d, clk, Some offset)"
proof -
  note parsed = timestamp_parsed [OF assms]
  obtain c t where z: "offset_text offset = c # t" "is_sign c" using offset_text_sign by blast
  obtain h m sec us where clk: "clk = (h, m, sec, us)" by (cases clk)
  have f: "clock_fields (clock_text clk) = Some clk"
    using clock_fields_text(1) parsed(3) by (simp add: clk)
  have w: "takeWhile (\<lambda>c. \<not> is_sign c) (clock_text clk @ c # t) = clock_text clk"
    "dropWhile (\<lambda>c. \<not> is_sign c) (clock_text clk @ c # t) = c # t"
    by (rule takeWhile_dropWhile_plain [OF clock_text_plain [OF parsed(3)] z(2)])+
  have o: "zone_offset (c # t) = Some (Some offset)" using zone_offset_text [OF parsed(4)] z(1) by simp
  let ?iso = "date_isoformat d" and ?rest = "clock_text clk @ c # t"
  have iso: "datetime_isoformat (d, clk, Some offset) = ?iso @ CHR ''T'' # ?rest"
    using z(1) by (simp add: datetime_isoformat_def)
  have parts: "take 10 (?iso @ CHR ''T'' # ?rest) = ?iso" "drop 10 (?iso @ CHR ''T'' # ?rest) = CHR ''T'' # ?rest"
    "drop 11 (?iso @ CHR ''T'' # ?rest) = ?rest"
    using parsed(2) by simp_all
  show ?thesis
    unfolding iso datetime_fromisoformat_def parts parsed(1) option.case Let_def w f o
    using parsed(3) by simp
qed


lemma length_datetime: "clock_valid clk \<Longrightarrow> length (date_isoformat d) = 10
    \<Longrightarrow> length (datetime_isoformat (d, clk, Some n)) \<le> 45"
  using length_fraction_text
  by (auto simp: datetime_isoformat_def clock_text_def offset_text_def fraction_text_def split: prod.splits)

lemma date_isoformat_head:
  "date_fromisoformat (date_isoformat d) = Some d \<Longrightarrow> date_isoformat d \<noteq> [] \<and> py_isdecimal (hd (date_isoformat d))"
  by (auto simp: date_fromisoformat_def Let_def split: list.splits if_splits)

lemma last_pad2: "n < 100 \<Longrightarrow> \<not> py_isspace (last (pad2 n))"
  using pad2_plain [of n] by (simp add: pad2_def)

lemma last_offset:
  assumes "\<bar>n\<bar> < 86400000000" shows "\<not> py_isspace (last (offset_text n))"
proof -
  obtain h m s us where c: "clock_of (nat \<bar>n\<bar>) = (h, m, s, us)" by (cases "clock_of (nat \<bar>n\<bar>)")
  have "nat \<bar>n\<bar> < 86400000000" using assms by linarith
  from clock_of_valid(1) [OF this] have "h < 100" "m < 100" "s < 100" by (auto simp: c clock_valid_def)
  then show ?thesis using last_pad2 by (auto simp: offset_text_def c fraction_text_def pad2_def)
qed

lemma timestamp_fixed:
  assumes "timestamp v label required = Inr t"
  shows "timestamp (PStr t) label' required = Inr t"
proof (cases "t = []")
  case True
  with assms show ?thesis
    by (auto simp: timestamp_def model_text_def Let_def datetime_isoformat_def date_isoformat_def
        split: if_splits option.splits prod.splits)
next
  case False
  with assms obtain s d clk n where p: "datetime_fromisoformat s = Some (d, clk, Some n)"
    and t: "t = datetime_isoformat (d, clk, Some n)"
    by (auto simp: timestamp_def split: if_splits option.splits prod.splits)
  note parsed = timestamp_parsed [OF p]
  have "hd t = hd (date_isoformat d)" "last t = last (offset_text n)"
    using date_isoformat_head [OF parsed(1)] offset_text_sign [of n] by (auto simp: t datetime_isoformat_def)
  then have "py_strip t = t"
    using date_isoformat_head [OF parsed(1)] decimal_plain last_offset [OF parsed(4)]
    by (simp add: py_strip_id_iff)
  moreover have "length t \<le> max_text_length"
    using length_datetime [OF parsed(3,2), of n] by (simp add: t max_text_length_def)
  ultimately show ?thesis
    using False datetime_round_trip [OF p] by (simp add: timestamp_def model_text_def t [symmetric])
qed

end
