(* ===== verification/Exec_Delivery_Model.thy ===== *)
theory Exec_Delivery_Model
  imports Exec_Timestamp Exec_Runtime
begin

text \<open>
  \<open>project_execution/delivery/models.py\<close>: delivery candidates, targets, results and operations,
  with the validation of their constructors and their mappings. The baseline of a candidate is
  kept as canonical JSON text by the code; here it is the value that text encodes, with the keys
  of every object in order, and its text is \<open>json_dumps\<close> of it. SHA-256 is the parameter \<open>sha\<close>, the
  digest in hexadecimal of a text.
\<close>

section \<open>Canonical values\<close>

fun json_normal :: "pyval \<Rightarrow> pyval" where
  "json_normal (PList xs) = PList (map json_normal xs)"
| "json_normal (PDict d) = PDict (sort_key fst (map (\<lambda>(k, v). (k, json_normal v)) d))"
| "json_normal v = v"

definition normal_row :: "row \<Rightarrow> row" where
  "normal_row d = sort_key fst (map (\<lambda>(k, v). (k, json_normal v)) d)"

definition baseline_digest :: "(string \<Rightarrow> string) \<Rightarrow> row \<Rightarrow> string" where
  "baseline_digest sha baseline = ''sha256:'' @ sha (json_dumps (PDict baseline))"

definition rstrip_dash :: "string \<Rightarrow> string" where
  "rstrip_dash s = rev (dropWhile (\<lambda>c. c = CHR ''-'') (rev s))"

definition candidate_id_of :: "(string \<Rightarrow> string) \<Rightarrow> string \<Rightarrow> string \<Rightarrow> string" where
  "candidate_id_of sha milestone_id digest =
     rstrip_dash (take 68 milestone_id) @ ''-'' @ take 24 (sha (milestone_id @ [char_of (0 :: nat)] @ digest))"

definition max_reference_length :: nat where "max_reference_length = 4096"

definition delivery_references :: "pyval \<Rightarrow> string list res" where
  "delivery_references raw =
     (if raw = PNone \<or> raw = PStr [] then Inr []
      else case raw of
        PList xs \<Rightarrow>
          rbind (mapr (\<lambda>v. model_text v ''delivery reference'' True max_reference_length) xs) (\<lambda>values.
          if distinct values then Inr values
          else Inl (ProjectExecutionError ''delivery references cannot contain duplicates''))
      | _ \<Rightarrow> Inl (ProjectExecutionError ''delivery references must be a list''))"

section \<open>Outcomes and states\<close>

datatype delivery_outcome = Delivery_SUCCEEDED | Delivery_FAILED

fun delivery_outcome_value :: "delivery_outcome \<Rightarrow> string" where
  "delivery_outcome_value Delivery_SUCCEEDED = ''succeeded''"
| "delivery_outcome_value Delivery_FAILED = ''failed''"

definition delivery_outcome_of :: "string \<Rightarrow> delivery_outcome option" where
  "delivery_outcome_of s = (if s = ''succeeded'' then Some Delivery_SUCCEEDED
     else if s = ''failed'' then Some Delivery_FAILED else None)"

datatype operation_state = Op_PENDING | Op_SUCCEEDED | Op_FAILED | Op_UNCERTAIN

fun operation_state_value :: "operation_state \<Rightarrow> string" where
  "operation_state_value Op_PENDING = ''pending''"
| "operation_state_value Op_SUCCEEDED = ''succeeded''"
| "operation_state_value Op_FAILED = ''failed''"
| "operation_state_value Op_UNCERTAIN = ''uncertain''"

definition operation_state_of :: "string \<Rightarrow> operation_state option" where
  "operation_state_of s = (if s = ''pending'' then Some Op_PENDING
     else if s = ''succeeded'' then Some Op_SUCCEEDED
     else if s = ''failed'' then Some Op_FAILED
     else if s = ''uncertain'' then Some Op_UNCERTAIN else None)"

definition state_terminal :: "operation_state \<Rightarrow> bool" where
  "state_terminal st = (st = Op_SUCCEEDED \<or> st = Op_FAILED)"

section \<open>Candidates\<close>

record delivery_candidate =
  dc_candidate_id :: string
  dc_project_id :: string
  dc_milestone_id :: string
  dc_baseline_digest :: string
  dc_baseline :: row
  dc_created_at :: string
  dc_schema_version :: int

definition checked_strings :: "string list \<Rightarrow> string \<Rightarrow> nat \<Rightarrow> unit res" where
  "checked_strings xs label limit =
     eachr (\<lambda>x. rbind (model_text (PStr x) label True limit) (\<lambda>_. Inr ())) xs"

definition validate_baseline :: "row \<Rightarrow> unit res" where
  "validate_baseline baseline =
     rbind (timestamp (row_get baseline ''achieved_at'' PNone) ''candidate baseline achieved_at'' True) (\<lambda>_.
     rbind (case py_int (row_get baseline ''definition_revision'' (PInt 0)) of
         Inl e \<Rightarrow> Inl (ProjectExecutionError ''candidate baseline definition_revision must be an integer'')
       | Inr i \<Rightarrow> Inr i) (\<lambda>revision.
     rbind (require (1 \<le> revision)
       (ProjectExecutionError ''candidate baseline definition_revision must be positive'')) (\<lambda>_.
     rbind (case row_get baseline ''repositories'' (PDict []) of
         PDict repositories \<Rightarrow> eachr (\<lambda>(repository_id, revision). case revision of
             PStr r \<Rightarrow>
               rbind (model_text (PStr repository_id) ''candidate repository id'' True 500) (\<lambda>_.
               rbind (model_text (PStr r) ''candidate repository revision'' True 500) (\<lambda>_. Inr ()))
           | _ \<Rightarrow> Inl (ProjectExecutionError ''candidate repository IDs/revisions must be strings'')) repositories
       | _ \<Rightarrow> Inl (ProjectExecutionError ''candidate baseline repositories must be a mapping'')) (\<lambda>_.
     rbind (case row_get baseline ''artifacts'' (PList []) of
         PList artifacts \<Rightarrow> eachr (\<lambda>artifact. case artifact of
             PStr a \<Rightarrow> rbind (model_text (PStr a) ''candidate artifact'' True max_reference_length) (\<lambda>_. Inr ())
           | _ \<Rightarrow> Inl (ProjectExecutionError ''candidate baseline artifacts must contain strings'')) artifacts
       | _ \<Rightarrow> Inl (ProjectExecutionError ''candidate baseline artifacts must be a list'')) (\<lambda>_.
     (case row_get baseline ''delivery'' (PDict []) of
         PDict delivery \<Rightarrow>
           if row_get delivery ''policy'' PNone \<noteq> PStr ''candidate''
           then Inl (ProjectExecutionError ''candidate baseline must carry delivery.policy=candidate'')
           else require (set (keys delivery) = {''policy''})
             (ProjectExecutionError ''candidate baseline delivery metadata must remain provider-neutral'')
       | _ \<Rightarrow> Inl (ProjectExecutionError ''candidate baseline must carry delivery.policy=candidate'')))))))"

definition candidate_init ::
    "(string \<Rightarrow> string) \<Rightarrow> string \<Rightarrow> string \<Rightarrow> string \<Rightarrow> string \<Rightarrow> row \<Rightarrow> string \<Rightarrow> int \<Rightarrow> delivery_candidate res" where
  "candidate_init sha candidate_id project_id milestone_id digest baseline created_at schema =
     rbind (require (schema = 1) (ProjectExecutionError
       (''unsupported delivery candidate schema_version: '' @ py_repr (PInt schema)))) (\<lambda>_.
     rbind (case validate_project_id (PStr project_id) of
         Inl m \<Rightarrow> Inl (ProjectExecutionError m) | Inr p \<Rightarrow> Inr p) (\<lambda>project.
     rbind (validate_asset_id (PStr milestone_id) ''milestone id'') (\<lambda>milestone.
     rbind (timestamp (PStr created_at) ''candidate created_at'' True) (\<lambda>created.
     rbind (validate_baseline baseline) (\<lambda>_.
     (let canonical = normal_row baseline;
          computed = baseline_digest sha canonical;
          identity = candidate_id_of sha milestone computed
      in if digest \<noteq> [] \<and> digest \<noteq> computed
         then Inl (ProjectExecutionError ''candidate baseline digest does not match baseline'')
         else if candidate_id \<noteq> [] \<and> candidate_id \<noteq> identity
         then Inl (ProjectExecutionError ''candidate id does not match baseline digest'')
         else Inr \<lparr>dc_candidate_id = identity, dc_project_id = project, dc_milestone_id = milestone,
                   dc_baseline_digest = computed, dc_baseline = canonical, dc_created_at = created,
                   dc_schema_version = schema\<rparr>))))))"

definition candidate_from_baseline ::
    "(string \<Rightarrow> string) \<Rightarrow> string \<Rightarrow> string \<Rightarrow> row \<Rightarrow> string \<Rightarrow> delivery_candidate res" where
  "candidate_from_baseline sha project_id milestone_id baseline created_at =
     (let canonical = normal_row baseline; digest = baseline_digest sha canonical
      in candidate_init sha (candidate_id_of sha milestone_id digest) project_id milestone_id digest
           canonical created_at 1)"

definition candidate_as_mapping :: "delivery_candidate \<Rightarrow> row" where
  "candidate_as_mapping c =
     [(''schema_version'', PInt (dc_schema_version c)),
      (''candidate_id'', PStr (dc_candidate_id c)),
      (''project_id'', PStr (dc_project_id c)),
      (''milestone_id'', PStr (dc_milestone_id c)),
      (''baseline_digest'', PStr (dc_baseline_digest c)),
      (''created_at'', PStr (dc_created_at c)),
      (''baseline'', PDict (dc_baseline c))]"

definition candidate_from_mapping :: "(string \<Rightarrow> string) \<Rightarrow> pyval \<Rightarrow> delivery_candidate res" where
  "candidate_from_mapping sha raw = (case as_dict raw of
      None \<Rightarrow> Inl (ProjectExecutionError ''delivery candidate must be a mapping'')
    | Some d \<Rightarrow> (case as_dict (row_get d ''baseline'' PNone) of
          None \<Rightarrow> Inl (ProjectExecutionError ''delivery candidate baseline must be a mapping'')
        | Some baseline \<Rightarrow>
            rbind (py_int (row_get d ''schema_version'' (PInt 0))) (\<lambda>schema.
            candidate_init sha (row_get_str d ''candidate_id'' []) (row_get_str d ''project_id'' [])
              (row_get_str d ''milestone_id'' []) (row_get_str d ''baseline_digest'' [])
              (normal_row baseline) (row_get_str d ''created_at'' []) schema)))"

definition candidate_repositories :: "delivery_candidate \<Rightarrow> string pydict" where
  "candidate_repositories c = (case row_get (dc_baseline c) ''repositories'' (PDict []) of
      PDict raw \<Rightarrow> map (\<lambda>(k, v). (k, py_str v)) raw | _ \<Rightarrow> [])"

definition candidate_artifacts :: "delivery_candidate \<Rightarrow> string list" where
  "candidate_artifacts c = (case row_get (dc_baseline c) ''artifacts'' (PList []) of
      PList raw \<Rightarrow> map py_str raw | _ \<Rightarrow> [])"

section \<open>Targets, results and requests\<close>

record delivery_target =
  dt_target_id :: string
  dt_label :: string

definition target_init :: "string \<Rightarrow> string \<Rightarrow> delivery_target res" where
  "target_init target_id label =
     rbind (validate_asset_id (PStr target_id) ''delivery target id'') (\<lambda>t.
     rbind (model_text (PStr label) ''delivery target label'' False 500) (\<lambda>l.
     Inr \<lparr>dt_target_id = t, dt_label = l\<rparr>))"

definition target_as_mapping :: "delivery_target \<Rightarrow> row" where
  "target_as_mapping t = (''target_id'', PStr (dt_target_id t))
     # (if dt_label t \<noteq> [] then [(''label'', PStr (dt_label t))] else [])"

definition target_from_mapping :: "pyval \<Rightarrow> delivery_target res" where
  "target_from_mapping raw = (case as_dict raw of
      None \<Rightarrow> Inl (ProjectExecutionError ''delivery target must be a mapping'')
    | Some d \<Rightarrow> target_init (row_get_str d ''target_id'' []) (row_get_str d ''label'' []))"

record delivery_result =
  dr_outcome :: delivery_outcome
  dr_references :: "string list"
  dr_message :: string

definition result_init :: "string \<Rightarrow> pyval \<Rightarrow> string \<Rightarrow> delivery_result res" where
  "result_init outcome references message =
     (case delivery_outcome_of outcome of
        None \<Rightarrow> Inl (ProjectExecutionError ''delivery outcome must be succeeded or failed'')
      | Some out \<Rightarrow>
          rbind (delivery_references references) (\<lambda>refs.
          rbind (model_text (PStr message) ''delivery result message'' False max_text_length) (\<lambda>msg.
          Inr \<lparr>dr_outcome = out, dr_references = refs, dr_message = msg\<rparr>)))"

definition result_as_mapping :: "delivery_result \<Rightarrow> row" where
  "result_as_mapping r =
     [(''outcome'', PStr (delivery_outcome_value (dr_outcome r))),
      (''references'', strs (dr_references r)), (''message'', PStr (dr_message r))]"

definition result_from_mapping :: "pyval \<Rightarrow> delivery_result res" where
  "result_from_mapping raw = (case as_dict raw of
      None \<Rightarrow> Inl (ProjectExecutionError ''delivery result must be a mapping'')
    | Some d \<Rightarrow>
        rbind (delivery_references (row_get d ''references'' PNone)) (\<lambda>refs.
        result_init (row_get_str d ''outcome'' []) (strs refs) (row_get_str d ''message'' [])))"

record delivery_request =
  rq_operation_id :: string
  rq_candidate :: delivery_candidate
  rq_target :: delivery_target

definition request_init :: "string \<Rightarrow> delivery_candidate \<Rightarrow> delivery_target \<Rightarrow> delivery_request res" where
  "request_init operation_id candidate target =
     rbind (validate_asset_id (PStr operation_id) ''delivery operation id'') (\<lambda>i.
     Inr \<lparr>rq_operation_id = i, rq_candidate = candidate, rq_target = target\<rparr>)"

section \<open>Operations\<close>

record delivery_operation =
  do_operation_id :: string
  do_sequence :: int
  do_candidate_id :: string
  do_target :: delivery_target
  do_provider_id :: string
  do_state :: operation_state
  do_requested_at :: string
  do_completed_at :: string
  do_result :: "delivery_result option"
  do_diagnostic :: string

definition check_outcome :: "operation_state \<Rightarrow> delivery_result option \<Rightarrow> string \<Rightarrow> unit res" where
  "check_outcome st result completed =
     rbind (require (st = Op_SUCCEEDED \<longrightarrow> map_option dr_outcome result = Some Delivery_SUCCEEDED)
       (ProjectExecutionError ''succeeded delivery operation requires succeeded result'')) (\<lambda>_.
     rbind (require (st = Op_FAILED \<longrightarrow> map_option dr_outcome result = Some Delivery_FAILED)
       (ProjectExecutionError ''failed delivery operation requires failed result'')) (\<lambda>_.
     rbind (require (st \<in> {Op_PENDING, Op_UNCERTAIN} \<longrightarrow> result = None)
       (ProjectExecutionError ''non-terminal delivery operation cannot contain terminal result'')) (\<lambda>_.
     rbind (require (state_terminal st \<longrightarrow> completed \<noteq> [])
       (ProjectExecutionError ''terminal delivery operation requires completed_at'')) (\<lambda>_.
     require (\<not> state_terminal st \<longrightarrow> completed = [])
       (ProjectExecutionError ''non-terminal delivery operation cannot contain completed_at'')))))"

definition operation_init ::
    "string \<Rightarrow> int \<Rightarrow> string \<Rightarrow> delivery_target \<Rightarrow> string \<Rightarrow> string \<Rightarrow> string \<Rightarrow> string
       \<Rightarrow> delivery_result option \<Rightarrow> string \<Rightarrow> delivery_operation res" where
  "operation_init operation_id sequence candidate_id target provider_id state requested completed result diagnostic =
     rbind (validate_asset_id (PStr operation_id) ''delivery operation id'') (\<lambda>oid.
     rbind (require (1 \<le> sequence)
       (ProjectExecutionError ''delivery operation sequence must be positive'')) (\<lambda>_.
     rbind (validate_asset_id (PStr candidate_id) ''delivery candidate id'') (\<lambda>cid.
     rbind (validate_asset_id (PStr provider_id) ''delivery provider id'') (\<lambda>pid.
     rbind (case operation_state_of state of
         None \<Rightarrow> Inl (ProjectExecutionError ''invalid delivery operation state'') | Some st \<Rightarrow> Inr st) (\<lambda>st.
     rbind (timestamp (PStr requested) ''delivery requested_at'' True) (\<lambda>req.
     rbind (timestamp (PStr completed) ''delivery completed_at'' False) (\<lambda>comp.
     rbind (model_text (PStr diagnostic) ''delivery diagnostic'' False max_text_length) (\<lambda>diag.
     rbind (check_outcome st result comp) (\<lambda>_.
     Inr \<lparr>do_operation_id = oid, do_sequence = sequence, do_candidate_id = cid, do_target = target,
          do_provider_id = pid, do_state = st, do_requested_at = req, do_completed_at = comp,
          do_result = result, do_diagnostic = diag\<rparr>)))))))))"

definition operation_key :: "delivery_operation \<Rightarrow> string \<times> string \<times> string" where
  "operation_key op = (do_candidate_id op, dt_target_id (do_target op), do_provider_id op)"

definition operation_as_mapping :: "delivery_operation \<Rightarrow> row" where
  "operation_as_mapping op =
     [(''operation_id'', PStr (do_operation_id op)),
      (''sequence'', PInt (do_sequence op)),
      (''candidate_id'', PStr (do_candidate_id op)),
      (''target'', PDict (target_as_mapping (do_target op))),
      (''provider_id'', PStr (do_provider_id op)),
      (''state'', PStr (operation_state_value (do_state op))),
      (''requested_at'', PStr (do_requested_at op))]
     @ (if do_completed_at op \<noteq> [] then [(''completed_at'', PStr (do_completed_at op))] else [])
     @ (case do_result op of None \<Rightarrow> [] | Some r \<Rightarrow> [(''result'', PDict (result_as_mapping r))])
     @ (if do_diagnostic op \<noteq> [] then [(''diagnostic'', PStr (do_diagnostic op))] else [])"

definition optional_result :: "pyval \<Rightarrow> delivery_result option res" where
  "optional_result v = (if v = PNone then Inr None else rbind (result_from_mapping v) (\<lambda>r. Inr (Some r)))"

definition operation_from_mapping :: "pyval \<Rightarrow> delivery_operation res" where
  "operation_from_mapping raw = (case as_dict raw of
      None \<Rightarrow> Inl (ProjectExecutionError ''delivery operation must be a mapping'')
    | Some d \<Rightarrow>
        rbind (py_int (row_get d ''sequence'' (PInt 0))) (\<lambda>sequence.
        rbind (target_from_mapping (row_get d ''target'' PNone)) (\<lambda>target.
        rbind (optional_result (row_get d ''result'' PNone)) (\<lambda>result.
        operation_init (row_get_str d ''operation_id'' []) sequence (row_get_str d ''candidate_id'' [])
          target (row_get_str d ''provider_id'' []) (row_get_str d ''state'' [])
          (row_get_str d ''requested_at'' []) (row_get_str d ''completed_at'' []) result
          (row_get_str d ''diagnostic'' [])))))"

text \<open>\<open>dataclasses.replace\<close>: the constructor runs again on the changed fields.\<close>

definition operation_rebuild :: "delivery_operation \<Rightarrow> delivery_operation res" where
  "operation_rebuild op = operation_init (do_operation_id op) (do_sequence op) (do_candidate_id op)
     (do_target op) (do_provider_id op) (operation_state_value (do_state op)) (do_requested_at op)
     (do_completed_at op) (do_result op) (do_diagnostic op)"

section \<open>What the constructors establish\<close>

definition target_ok :: "delivery_target \<Rightarrow> bool" where
  "target_ok t \<longleftrightarrow> target_init (dt_target_id t) (dt_label t) = Inr t"

definition result_ok :: "delivery_result \<Rightarrow> bool" where
  "result_ok r \<longleftrightarrow> result_init (delivery_outcome_value (dr_outcome r)) (strs (dr_references r)) (dr_message r) = Inr r"

definition operation_ok :: "delivery_operation \<Rightarrow> bool" where
  "operation_ok op \<longleftrightarrow> operation_rebuild op = Inr op \<and> target_ok (do_target op)
     \<and> pred_option result_ok (do_result op)"

definition candidate_ok :: "(string \<Rightarrow> string) \<Rightarrow> delivery_candidate \<Rightarrow> bool" where
  "candidate_ok sha c \<longleftrightarrow> candidate_init sha (dc_candidate_id c) (dc_project_id c) (dc_milestone_id c)
     (dc_baseline_digest c) (dc_baseline c) (dc_created_at c) (dc_schema_version c) = Inr c"

lemma delivery_outcome_of_value [simp]: "delivery_outcome_of (delivery_outcome_value out) = Some out"
  by (cases out) (simp_all add: delivery_outcome_of_def)

lemma operation_state_of_value [simp]: "operation_state_of (operation_state_value st) = Some st"
  by (cases st) (simp_all add: operation_state_of_def)

lemma operation_state_of_iff: "operation_state_of s = Some st \<longleftrightarrow> s = operation_state_value st"
  by (cases st) (auto simp: operation_state_of_def)

lemma delivery_outcome_of_iff: "delivery_outcome_of s = Some out \<longleftrightarrow> s = delivery_outcome_value out"
  by (cases out) (auto simp: delivery_outcome_of_def)

lemma target_init_ok: "target_init i l = Inr t \<Longrightarrow> target_ok t"
  by (auto simp: target_init_def target_ok_def rbind_Inr_iff dest: validate_asset_id_fixed model_text_fixed)

lemma target_from_mapping_ok: "target_from_mapping raw = Inr t \<Longrightarrow> target_ok t"
  by (auto simp: target_from_mapping_def split: option.splits intro: target_init_ok)

lemma target_round_trip: "target_ok t \<Longrightarrow> target_from_mapping (PDict (target_as_mapping t)) = Inr t"
  by (cases "dt_label t = []")
    (simp_all add: target_ok_def target_from_mapping_def target_as_mapping_def)

lemma mapr_InrD: "mapr f xs = Inr ys \<Longrightarrow> y \<in> set ys \<Longrightarrow> \<exists>x \<in> set xs. f x = Inr y"
  by (induction xs arbitrary: ys) auto

lemma delivery_references_fixed:
  assumes "delivery_references raw = Inr refs"
  shows "delivery_references (strs refs) = Inr refs"
proof -
  from assms have d: "distinct refs"
    and each: "\<forall>x \<in> set refs. \<exists>v. model_text v ''delivery reference'' True max_reference_length = Inr x"
    by (auto simp: delivery_references_def split: if_splits pyval.splits dest!: mapr_InrD)
  from each have "mapr (\<lambda>v. model_text v ''delivery reference'' True max_reference_length) (map PStr refs)
      = Inr (map id refs)"
    unfolding mapr_map using model_text_fixed by (intro mapr_Inr_map) fastforce
  with d show ?thesis by (simp add: delivery_references_def strs_def)
qed

lemma result_init_ok: "result_init out refs msg = Inr r \<Longrightarrow> result_ok r"
  by (auto simp: result_init_def result_ok_def rbind_Inr_iff split: option.splits
      dest: delivery_references_fixed model_text_fixed)

lemma result_from_mapping_ok: "result_from_mapping raw = Inr r \<Longrightarrow> result_ok r"
  by (auto simp: result_from_mapping_def split: option.splits intro: result_init_ok)

lemma result_round_trip: "result_ok r \<Longrightarrow> result_from_mapping (PDict (result_as_mapping r)) = Inr r"
proof -
  assume ok: "result_ok r"
  then have "delivery_references (strs (dr_references r)) = Inr (dr_references r)"
    by (cases r) (auto simp: result_ok_def result_init_def rbind_Inr_iff)
  with ok show ?thesis by (simp add: result_from_mapping_def result_as_mapping_def result_ok_def)
qed

lemma operation_init_rebuild:
  assumes "operation_init i n c t p st req cmp r diag = Inr op"
  shows "operation_rebuild op = Inr op" and "do_target op = t" and "do_result op = r" and "do_sequence op = n"
    and "operation_state_of st = Some (do_state op)"
proof -
  obtain oid cid pid st' req' comp' diag' where
    parts: "validate_asset_id (PStr i) ''delivery operation id'' = Inr oid" "1 \<le> n"
      "validate_asset_id (PStr c) ''delivery candidate id'' = Inr cid"
      "validate_asset_id (PStr p) ''delivery provider id'' = Inr pid" "operation_state_of st = Some st'"
      "timestamp (PStr req) ''delivery requested_at'' True = Inr req'"
      "timestamp (PStr cmp) ''delivery completed_at'' False = Inr comp'"
      "model_text (PStr diag) ''delivery diagnostic'' False max_text_length = Inr diag'"
      "check_outcome st' r comp' = Inr ()"
    and op: "op = \<lparr>do_operation_id = oid, do_sequence = n, do_candidate_id = cid, do_target = t,
      do_provider_id = pid, do_state = st', do_requested_at = req', do_completed_at = comp',
      do_result = r, do_diagnostic = diag'\<rparr>"
    using assms unfolding operation_init_def by (auto split: option.splits)
  show "operation_rebuild op = Inr op"
    using parts(2,9) validate_asset_id_fixed [OF parts(1)] validate_asset_id_fixed [OF parts(3)]
      validate_asset_id_fixed [OF parts(4)] timestamp_fixed [OF parts(6)] timestamp_fixed [OF parts(7)]
      model_text_fixed [OF parts(8)]
    by (simp add: operation_rebuild_def operation_init_def op)
  show "do_target op = t" "do_result op = r" "do_sequence op = n" "operation_state_of st = Some (do_state op)"
    by (simp_all add: op parts)
qed

lemma operation_init_ok:
  "operation_init i n c t p st req cmp r diag = Inr op \<Longrightarrow> target_ok t \<Longrightarrow> pred_option result_ok r \<Longrightarrow> operation_ok op"
  by (simp add: operation_ok_def operation_init_rebuild)

lemma optional_result_ok: "optional_result v = Inr r \<Longrightarrow> pred_option result_ok r"
  by (auto simp: optional_result_def split: if_splits intro: result_from_mapping_ok)

lemma operation_from_mapping_ok:
  assumes "operation_from_mapping raw = Inr op" shows "operation_ok op"
proof -
  from assms obtain d sequence target result where
    t: "target_from_mapping (row_get d ''target'' PNone) = Inr target"
    and r: "pred_option result_ok result"
    and op: "operation_init (row_get_str d ''operation_id'' []) sequence (row_get_str d ''candidate_id'' [])
          target (row_get_str d ''provider_id'' []) (row_get_str d ''state'' [])
          (row_get_str d ''requested_at'' []) (row_get_str d ''completed_at'' []) result
          (row_get_str d ''diagnostic'' []) = Inr op"
    by (auto simp: operation_from_mapping_def dest!: optional_result_ok split: option.splits)
  show ?thesis by (rule operation_init_ok [OF op target_from_mapping_ok [OF t] r])
qed

lemma operation_round_trip:
  assumes "operation_ok op"
  shows "operation_from_mapping (PDict (operation_as_mapping op)) = Inr op"
proof -
  note parts = assms [unfolded operation_ok_def operation_rebuild_def]
  show ?thesis
    using parts target_round_trip [of "do_target op"] result_round_trip
    by (cases "do_completed_at op = []"; cases "do_result op"; cases "do_diagnostic op = []")
      (simp_all add: operation_from_mapping_def operation_as_mapping_def optional_result_def)
qed

section \<open>Candidates keep their baseline\<close>

lemma insort_map_snd:
  "insort_key fst (fst p, f (snd p)) (map (\<lambda>p. (fst p, f (snd p))) xs)
     = map (\<lambda>p. (fst p, f (snd p))) (insort_key fst p xs)"
  by (induction xs) auto

lemma sort_map_snd:
  "sort_key fst (map (\<lambda>p. (fst p, f (snd p))) xs) = map (\<lambda>p. (fst p, f (snd p))) (sort_key fst xs)"
  by (induction xs) (auto simp: insort_map_snd)

lemma sort_map_again:
  assumes "\<And>p. p \<in> set d \<Longrightarrow> f (f (snd p)) = f (snd p)"
  shows "sort_key fst (map (\<lambda>p. (fst p, f (snd p))) (sort_key fst (map (\<lambda>p. (fst p, f (snd p))) d)))
     = sort_key fst (map (\<lambda>p. (fst p, f (snd p))) d)" (is "sort_key fst (map ?g (sort_key fst (map ?g d))) = _")
proof -
  have "map ?g (map ?g d) = map ?g d" using assms by simp
  moreover have "sort_key fst (map ?g (sort_key fst (map ?g d))) = sort_key fst (map ?g (map ?g d))"
    unfolding sort_map_snd by (simp add: sort_key_id_if_sorted del: map_map)
  ultimately show ?thesis by (simp only:)
qed

lemma json_normal_idem [simp]: "json_normal (json_normal v) = json_normal v"
proof (induction v rule: json_normal.induct)
  case (2 d)
  then have "\<And>p. p \<in> set d \<Longrightarrow> json_normal (json_normal (snd p)) = json_normal (snd p)" by auto
  from sort_map_again [of d json_normal, OF this] show ?case by (simp add: case_prod_unfold)
qed simp_all

lemma normal_row_idem [simp]: "normal_row (normal_row d) = normal_row d"
  using sort_map_again [of d json_normal] by (simp add: normal_row_def case_prod_unfold)

lemma candidate_init_facts:
  assumes "candidate_init sha cid pid mid digest baseline created schema = Inr c"
  shows "dc_baseline c = normal_row baseline" and "normal_row baseline = baseline \<Longrightarrow> candidate_ok sha c"
    and "dc_baseline_digest c = baseline_digest sha (normal_row baseline)"
    and "dc_candidate_id c = candidate_id_of sha (dc_milestone_id c) (dc_baseline_digest c)"
proof -
  define computed where "computed = baseline_digest sha (normal_row baseline)"
  from assms obtain p m t where parts: "schema = 1" "validate_project_id (PStr pid) = Inr p"
      "validate_asset_id (PStr mid) ''milestone id'' = Inr m"
      "timestamp (PStr created) ''candidate created_at'' True = Inr t" "validate_baseline baseline = Inr ()"
    and c: "c = \<lparr>dc_candidate_id = candidate_id_of sha m computed, dc_project_id = p, dc_milestone_id = m,
      dc_baseline_digest = computed, dc_baseline = normal_row baseline, dc_created_at = t, dc_schema_version = 1\<rparr>"
    unfolding candidate_init_def Let_def computed_def by (auto split: sum.splits if_splits)
  show "dc_baseline c = normal_row baseline" "dc_baseline_digest c = baseline_digest sha (normal_row baseline)"
    "dc_candidate_id c = candidate_id_of sha (dc_milestone_id c) (dc_baseline_digest c)"
    by (simp_all add: c computed_def)
  show "candidate_ok sha c" if "normal_row baseline = baseline"
    using that parts(1,5) validate_project_id_fixed [OF parts(2)] validate_asset_id_fixed [OF parts(3)]
      timestamp_fixed [OF parts(4)]
    by (simp add: candidate_ok_def candidate_init_def c computed_def Let_def)
qed

lemma candidate_from_mapping_ok: "candidate_from_mapping sha raw = Inr c \<Longrightarrow> candidate_ok sha c"
  by (auto simp: candidate_from_mapping_def split: option.splits intro: candidate_init_facts(2))

lemma candidate_from_baseline_ok: "candidate_from_baseline sha p m b t = Inr c \<Longrightarrow> candidate_ok sha c"
  by (auto simp: candidate_from_baseline_def Let_def intro: candidate_init_facts(2))

lemma candidate_round_trip:
  assumes "candidate_ok sha c"
  shows "candidate_from_mapping sha (PDict (candidate_as_mapping c)) = Inr c"
proof -
  have "normal_row (dc_baseline c) = dc_baseline c"
    using candidate_init_facts(1) [OF assms [unfolded candidate_ok_def]] by simp
  then show ?thesis
    using assms by (simp add: candidate_ok_def candidate_from_mapping_def candidate_as_mapping_def)
qed

end
