(* ===== verification/Exec_Delivery_Repository.thy ===== *)
theory Exec_Delivery_Repository
  imports Exec_Delivery_Model
begin

text \<open>
  \<open>project_execution/delivery/repository.py\<close>: the file of candidates and delivery attempts, with the
  operations that read and write it under its lock. An operation maps the content of \<open>delivery.json\<close>
  to its result and the new content, or to the error that leaves the file alone; \<open>dir\<close> is the name
  of the Project's directory.
\<close>

section \<open>The state of the file\<close>

record delivery_runtime =
  ds_project_id :: string
  ds_candidates :: "row pydict"
  ds_operations :: "row pydict"
  ds_next_sequence :: int
  ds_schema_version :: int

definition delivery_runtime_init ::
    "string \<Rightarrow> row pydict \<Rightarrow> row pydict \<Rightarrow> int \<Rightarrow> int \<Rightarrow> delivery_runtime res" where
  "delivery_runtime_init project candidates operations next_sequence schema =
     rbind (case validate_project_id (PStr project) of
         Inl m \<Rightarrow> Inl (ProjectExecutionError m) | Inr p \<Rightarrow> Inr p) (\<lambda>p.
     rbind (require (schema = 1) (ProjectExecutionError
       (''unsupported delivery runtime schema_version: '' @ py_repr (PInt schema)))) (\<lambda>_.
     rbind (require (1 \<le> next_sequence)
       (ProjectExecutionError ''delivery next_sequence must be positive'')) (\<lambda>_.
     Inr \<lparr>ds_project_id = p, ds_candidates = candidates, ds_operations = operations,
          ds_next_sequence = next_sequence, ds_schema_version = schema\<rparr>)))"

definition delivery_runtime_as_mapping :: "delivery_runtime \<Rightarrow> row" where
  "delivery_runtime_as_mapping st =
     [(''schema_version'', PInt (ds_schema_version st)),
      (''project_id'', PStr (ds_project_id st)),
      (''next_sequence'', PInt (ds_next_sequence st)),
      (''candidates'', rows (ds_candidates st)),
      (''operations'', rows (ds_operations st))]"

definition delivery_runtime_from_mapping :: "pyval \<Rightarrow> delivery_runtime res" where
  "delivery_runtime_from_mapping raw = (case as_dict raw of
      None \<Rightarrow> Inl (ProjectExecutionError ''delivery runtime state must be a mapping'')
    | Some d \<Rightarrow>
       (case (as_dict (or_empty_dict (row_get d ''candidates'' PNone)),
              as_dict (or_empty_dict (row_get d ''operations'' PNone))) of
          (Some candidates, Some operations) \<Rightarrow>
            rbind (require (list_all (\<lambda>(k, v). as_dict v \<noteq> None) (candidates @ operations))
              (ProjectExecutionError ''delivery runtime contains non-mapping candidate/operation records'')) (\<lambda>_.
            rbind (py_int (row_get d ''schema_version'' (PInt 0))) (\<lambda>schema.
            rbind (py_int (row_get d ''next_sequence'' (PInt 1))) (\<lambda>next_sequence.
            delivery_runtime_init (row_get_str d ''project_id'' []) (mapping_dict (PDict candidates))
              (mapping_dict (PDict operations)) next_sequence schema)))
        | _ \<Rightarrow> Inl (ProjectExecutionError ''delivery runtime candidates/operations must be mappings'')))"

section \<open>Reading\<close>

definition check_candidate :: "(string \<Rightarrow> string) \<Rightarrow> string \<times> row \<Rightarrow> unit res" where
  "check_candidate sha entry = (case entry of (key, raw) \<Rightarrow>
     rbind (candidate_from_mapping sha (PDict raw)) (\<lambda>c.
     require (key = dc_candidate_id c)
       (ProjectExecutionError ''delivery candidate storage key does not match identity'')))"

definition check_operation :: "int \<Rightarrow> string \<times> row \<Rightarrow> int res" where
  "check_operation maximum entry = (case entry of (key, raw) \<Rightarrow>
     rbind (operation_from_mapping (PDict raw)) (\<lambda>op.
     rbind (require (key = do_operation_id op)
       (ProjectExecutionError ''delivery operation storage key does not match identity'')) (\<lambda>_.
     Inr (max maximum (do_sequence op)))))"

definition delivery_load :: "(string \<Rightarrow> string) \<Rightarrow> string \<Rightarrow> pyval option \<Rightarrow> delivery_runtime res" where
  "delivery_load sha dir file = (case file of
      None \<Rightarrow> delivery_runtime_init dir [] [] 1 1
    | Some raw \<Rightarrow>
        rbind (case delivery_runtime_from_mapping raw of
            Inl (ValueError m) \<Rightarrow> Inl (ProjectExecutionError (''cannot read delivery runtime state: '' @ m))
          | Inl (TypeError m) \<Rightarrow> Inl (ProjectExecutionError (''cannot read delivery runtime state: '' @ m))
          | Inl e \<Rightarrow> Inl e
          | Inr st \<Rightarrow> Inr st) (\<lambda>st.
        rbind (require (ds_project_id st = dir)
          (ProjectExecutionError ''delivery runtime project identity does not match storage path'')) (\<lambda>_.
        rbind (eachr (check_candidate sha) (ds_candidates st)) (\<lambda>_.
        rbind (foldr_res check_operation 0 (ds_operations st)) (\<lambda>maximum.
        rbind (require (maximum < ds_next_sequence st)
          (ProjectExecutionError ''delivery next_sequence must exceed persisted operations'')) (\<lambda>_.
        Inr st))))))"

definition get_candidate ::
    "(string \<Rightarrow> string) \<Rightarrow> string \<Rightarrow> string \<Rightarrow> pyval option \<Rightarrow> delivery_candidate option res" where
  "get_candidate sha dir candidate_id file =
     rbind (delivery_load sha dir file) (\<lambda>st. case map_of (ds_candidates st) candidate_id of
         None \<Rightarrow> Inr None
       | Some raw \<Rightarrow> rbind (candidate_from_mapping sha (PDict raw)) (\<lambda>c. Inr (Some c)))"

definition get_operation ::
    "(string \<Rightarrow> string) \<Rightarrow> string \<Rightarrow> string \<Rightarrow> pyval option \<Rightarrow> delivery_operation option res" where
  "get_operation sha dir operation_id file =
     rbind (delivery_load sha dir file) (\<lambda>st. case map_of (ds_operations st) operation_id of
         None \<Rightarrow> Inr None
       | Some raw \<Rightarrow> rbind (operation_from_mapping (PDict raw)) (\<lambda>op. Inr (Some op)))"

definition repository_candidates ::
    "(string \<Rightarrow> string) \<Rightarrow> string \<Rightarrow> pyval option \<Rightarrow> delivery_candidate list res" where
  "repository_candidates sha dir file =
     rbind (delivery_load sha dir file) (\<lambda>st.
     mapr (\<lambda>(key, raw). candidate_from_mapping sha (PDict raw)) (sort_key fst (ds_candidates st)))"

definition repository_operations ::
    "(string \<Rightarrow> string) \<Rightarrow> string \<Rightarrow> pyval option \<Rightarrow> delivery_operation list res" where
  "repository_operations sha dir file =
     rbind (delivery_load sha dir file) (\<lambda>st.
     rbind (mapr (\<lambda>(key, raw). operation_from_mapping (PDict raw)) (ds_operations st)) (\<lambda>ops.
     Inr (sort_key do_sequence ops)))"

definition latest_operation ::
    "(string \<Rightarrow> string) \<Rightarrow> string \<Rightarrow> string \<Rightarrow> string \<Rightarrow> string \<Rightarrow> pyval option \<Rightarrow> delivery_operation option res" where
  "latest_operation sha dir candidate_id target_id provider_id file =
     rbind (repository_operations sha dir file) (\<lambda>ops.
     let matches = filter (\<lambda>op. operation_key op = (candidate_id, target_id, provider_id)) ops
     in Inr (if matches = [] then None else Some (last matches)))"

section \<open>Writing\<close>

definition delivery_write :: "delivery_runtime \<Rightarrow> pyval option" where
  "delivery_write st = Some (PDict (delivery_runtime_as_mapping st))"

definition record_candidate ::
    "(string \<Rightarrow> string) \<Rightarrow> string \<Rightarrow> delivery_candidate \<Rightarrow> pyval option
       \<Rightarrow> ((delivery_candidate \<times> bool) \<times> pyval option) res" where
  "record_candidate sha dir c file =
     rbind (require (dc_project_id c = dir)
       (ProjectExecutionError ''delivery candidate project identity does not match repository'')) (\<lambda>_.
     rbind (delivery_load sha dir file) (\<lambda>st.
     case map_of (ds_candidates st) (dc_candidate_id c) of
       Some existing \<Rightarrow>
         rbind (candidate_from_mapping sha (PDict existing)) (\<lambda>persisted.
         if dc_project_id persisted \<noteq> dc_project_id c \<or> dc_milestone_id persisted \<noteq> dc_milestone_id c
            \<or> dc_baseline_digest persisted \<noteq> dc_baseline_digest c
            \<or> json_dumps (PDict (dc_baseline persisted)) \<noteq> json_dumps (PDict (dc_baseline c))
         then Inl (ProjectExecutionConflictError
           (''delivery candidate identity collision: '' @ dc_candidate_id c))
         else Inr ((persisted, False), file))
     | None \<Rightarrow> Inr ((c, True), delivery_write (st\<lparr>ds_candidates :=
         dset (dc_candidate_id c) (candidate_as_mapping c) (ds_candidates st)\<rparr>))))"

definition check_unresolved :: "delivery_operation \<Rightarrow> string \<times> row \<Rightarrow> unit res" where
  "check_unresolved op entry = (case entry of (key, raw) \<Rightarrow>
     rbind (operation_from_mapping (PDict raw)) (\<lambda>existing.
     require (\<not> (operation_key existing = operation_key op \<and> \<not> state_terminal (do_state existing)))
       (ProjectExecutionConflictError (''delivery already has an unresolved operation for candidate ''
         @ do_candidate_id op @ '', target '' @ dt_target_id (do_target op)))))"

definition begin_operation ::
    "(string \<Rightarrow> string) \<Rightarrow> string \<Rightarrow> delivery_operation \<Rightarrow> pyval option
       \<Rightarrow> (delivery_operation \<times> pyval option) res" where
  "begin_operation sha dir op file =
     rbind (require (do_state op = Op_PENDING)
       (ProjectExecutionError ''new delivery operation must begin pending'')) (\<lambda>_.
     rbind (delivery_load sha dir file) (\<lambda>st.
     rbind (require (do_operation_id op \<notin> set (keys (ds_operations st)))
       (ProjectExecutionConflictError (''delivery operation already exists: '' @ do_operation_id op))) (\<lambda>_.
     rbind (require (do_candidate_id op \<in> set (keys (ds_candidates st)))
       (ProjectExecutionError (''delivery candidate not found: '' @ do_candidate_id op))) (\<lambda>_.
     rbind (eachr (check_unresolved op) (ds_operations st)) (\<lambda>_.
     rbind (operation_rebuild (op\<lparr>do_sequence := ds_next_sequence st\<rparr>)) (\<lambda>persisted.
     Inr (persisted, delivery_write (st\<lparr>ds_next_sequence := ds_next_sequence st + 1,
       ds_operations := dset (do_operation_id persisted) (operation_as_mapping persisted)
         (ds_operations st)\<rparr>))))))))"

definition transition_allowed :: "operation_state \<Rightarrow> operation_state \<Rightarrow> bool" where
  "transition_allowed current new = (case current of
      Op_PENDING \<Rightarrow> new \<in> {Op_PENDING, Op_UNCERTAIN, Op_SUCCEEDED, Op_FAILED}
    | Op_UNCERTAIN \<Rightarrow> new \<in> {Op_UNCERTAIN, Op_SUCCEEDED, Op_FAILED}
    | Op_SUCCEEDED \<Rightarrow> new = Op_SUCCEEDED
    | Op_FAILED \<Rightarrow> new = Op_FAILED)"

text \<open>
  The mappings of two operations have their keys in the same order, so that comparing them as
  dictionaries is comparing them as lists.
\<close>

definition update_operation ::
    "(string \<Rightarrow> string) \<Rightarrow> string \<Rightarrow> delivery_operation \<Rightarrow> pyval option
       \<Rightarrow> (delivery_operation \<times> pyval option) res" where
  "update_operation sha dir op file =
     rbind (delivery_load sha dir file) (\<lambda>st.
     case map_of (ds_operations st) (do_operation_id op) of
       None \<Rightarrow> Inl (ProjectExecutionError (''delivery operation not found: '' @ do_operation_id op))
     | Some raw \<Rightarrow>
         rbind (operation_from_mapping (PDict raw)) (\<lambda>current.
         if operation_key current \<noteq> operation_key op \<or> do_sequence current \<noteq> do_sequence op
         then Inl (ProjectExecutionError ''delivery operation identity cannot change'')
         else if state_terminal (do_state current) \<and> operation_as_mapping current \<noteq> operation_as_mapping op
         then Inl (ProjectExecutionConflictError
           (''terminal delivery operation is immutable: '' @ do_operation_id op))
         else if \<not> transition_allowed (do_state current) (do_state op)
         then Inl (ProjectExecutionConflictError (''invalid delivery operation transition: ''
           @ operation_state_value (do_state current) @ '' -> '' @ operation_state_value (do_state op)))
         else Inr (op, delivery_write (st\<lparr>ds_operations :=
           dset (do_operation_id op) (operation_as_mapping op) (ds_operations st)\<rparr>))))"

section \<open>Files that load\<close>

text \<open>What \<open>_load_unlocked\<close> checks, on the records of the file.\<close>

definition stored_candidate :: "(string \<Rightarrow> string) \<Rightarrow> string \<times> row \<Rightarrow> bool" where
  "stored_candidate sha entry \<longleftrightarrow>
     (\<exists>c. candidate_from_mapping sha (PDict (snd entry)) = Inr c \<and> dc_candidate_id c = fst entry)"

definition stored_operation :: "int \<Rightarrow> string \<times> row \<Rightarrow> bool" where
  "stored_operation bound entry \<longleftrightarrow>
     (\<exists>op. operation_from_mapping (PDict (snd entry)) = Inr op \<and> do_operation_id op = fst entry
        \<and> do_sequence op < bound)"

definition delivery_wf :: "(string \<Rightarrow> string) \<Rightarrow> string \<Rightarrow> delivery_runtime \<Rightarrow> bool" where
  "delivery_wf sha dir st \<longleftrightarrow> ds_project_id st = dir \<and> ds_schema_version st = 1 \<and> 1 \<le> ds_next_sequence st
     \<and> list_all (stored_candidate sha) (ds_candidates st)
     \<and> list_all (stored_operation (ds_next_sequence st)) (ds_operations st)"

lemma check_candidate_iff: "check_candidate sha entry = Inr () \<longleftrightarrow> stored_candidate sha entry"
  by (auto simp: check_candidate_def stored_candidate_def rbind_Inr_iff split: prod.splits)

lemma check_operation_Inr:
  "check_operation m entry = Inr m' \<longleftrightarrow>
     (\<exists>op. operation_from_mapping (PDict (snd entry)) = Inr op \<and> do_operation_id op = fst entry
        \<and> m' = max m (do_sequence op))"
  by (auto simp: check_operation_def rbind_Inr_iff split: prod.splits)

lemma stored_operation_mono: "stored_operation n entry \<Longrightarrow> n \<le> n' \<Longrightarrow> stored_operation n' entry"
  unfolding stored_operation_def by fastforce

lemma check_operations_bound:
  assumes "foldr_res check_operation m entries = Inr m'"
  shows "m \<le> m' \<and> (m' < n \<longrightarrow> list_all (stored_operation n) entries)"
  using assms
proof (induction entries arbitrary: m)
  case (Cons e entries)
  from Cons.prems obtain m1 where m1: "check_operation m e = Inr m1" "foldr_res check_operation m1 entries = Inr m'"
    by auto
  from m1(1) obtain op where "operation_from_mapping (PDict (snd e)) = Inr op" "do_operation_id op = fst e"
    "m1 = max m (do_sequence op)" by (auto simp: check_operation_Inr)
  with Cons.IH [OF m1(2)] show ?case by (auto simp: stored_operation_def)
qed simp

lemma check_operations_ok:
  assumes "list_all (stored_operation n) entries" and "m < n"
  shows "\<exists>m' < n. foldr_res check_operation m entries = Inr m'"
  using assms
proof (induction entries arbitrary: m)
  case (Cons e entries)
  then obtain op where "operation_from_mapping (PDict (snd e)) = Inr op" "do_operation_id op = fst e"
    "do_sequence op < n" by (auto simp: stored_operation_def)
  then have "check_operation m e = Inr (max m (do_sequence op))" "max m (do_sequence op) < n"
    using Cons.prems(2) by (auto simp: check_operation_Inr)
  with Cons show ?case by simp
qed simp

lemma delivery_runtime_init_Inr:
  "delivery_runtime_init p cs ops n v = Inr st \<Longrightarrow> ds_schema_version st = 1 \<and> 1 \<le> ds_next_sequence st
     \<and> ds_candidates st = cs \<and> ds_operations st = ops \<and> ds_next_sequence st = n
     \<and> validate_project_id (PStr p) = Inr (ds_project_id st)"
  by (auto simp: delivery_runtime_init_def split: sum.splits)

lemma delivery_load_wf:
  assumes "delivery_load sha dir file = Inr st" and "validate_project_id (PStr dir) = Inr dir"
  shows "delivery_wf sha dir st"
proof (cases "file")
  case None
  with assms show ?thesis
    by (auto simp: delivery_load_def delivery_wf_def dest!: delivery_runtime_init_Inr)
next
  case (Some raw)
  with assms(1) obtain m where read: "delivery_runtime_from_mapping raw = Inr st" and p: "ds_project_id st = dir"
    and cs: "\<forall>e \<in> set (ds_candidates st). check_candidate sha e = Inr ()"
    and ops: "foldr_res check_operation 0 (ds_operations st) = Inr m" and m: "m < ds_next_sequence st"
    by (auto simp: delivery_load_def eachr_Inr_iff split: sum.splits py_error.splits)
  from read have "ds_schema_version st = 1" "1 \<le> ds_next_sequence st"
    by (auto simp: delivery_runtime_from_mapping_def dest!: delivery_runtime_init_Inr split: option.splits)
  with p cs check_operations_bound [OF ops, of "ds_next_sequence st"] m show ?thesis
    by (auto simp: delivery_wf_def list_all_iff check_candidate_iff)
qed

lemma as_dict_rows [simp]: "as_dict (or_empty_dict (rows d)) = Some (map (\<lambda>(k, r). (k, PDict r)) d)"
  by (simp add: rows_def)

lemma delivery_runtime_round_trip:
  assumes "delivery_wf sha dir st" and "validate_project_id (PStr dir) = Inr dir"
  shows "delivery_runtime_from_mapping (PDict (delivery_runtime_as_mapping st)) = Inr st"
proof -
  have "list_all (\<lambda>(k, v). as_dict v \<noteq> None) (map (\<lambda>(k, r). (k, PDict r)) d)" for d :: "row pydict"
    by (auto simp: list_all_iff)
  moreover have "mapping_dict (PDict (map (\<lambda>(k, r). (k, PDict r)) d)) = d" for d
    using mapping_dict_rows [of d] by (simp add: rows_def)
  ultimately show ?thesis using assms
    by (simp add: delivery_runtime_from_mapping_def delivery_runtime_as_mapping_def delivery_runtime_init_def
        delivery_wf_def)
qed

lemma delivery_load_write:
  assumes "delivery_wf sha dir st" and "validate_project_id (PStr dir) = Inr dir"
  shows "delivery_load sha dir (delivery_write st) = Inr st"
proof -
  have "0 < ds_next_sequence st" using assms(1) by (simp add: delivery_wf_def)
  then obtain m where "m < ds_next_sequence st" "foldr_res check_operation 0 (ds_operations st) = Inr m"
    using check_operations_ok assms(1) unfolding delivery_wf_def by blast
  moreover have "eachr (check_candidate sha) (ds_candidates st) = Inr ()"
    using assms(1) by (auto simp: eachr_Inr_iff check_candidate_iff delivery_wf_def list_all_iff)
  ultimately show ?thesis
    using delivery_runtime_round_trip [OF assms] assms(1)
    by (simp add: delivery_load_def delivery_write_def delivery_wf_def)
qed

lemma list_all_dset: "list_all P d \<Longrightarrow> P (k, v) \<Longrightarrow> list_all P (dset k v d)"
  by (induction d) (auto simp: dset_def)

lemma delivery_wf_candidate:
  assumes "delivery_wf sha dir st" and "candidate_ok sha c"
  shows "delivery_wf sha dir (st\<lparr>ds_candidates := dset (dc_candidate_id c) (candidate_as_mapping c) (ds_candidates st)\<rparr>)"
  using assms candidate_round_trip [OF assms(2)]
  by (auto simp: delivery_wf_def stored_candidate_def intro!: list_all_dset)

lemma delivery_wf_operation:
  assumes "delivery_wf sha dir st" and "operation_ok op" and "do_sequence op < n" and "ds_next_sequence st \<le> n"
  shows "delivery_wf sha dir (st\<lparr>ds_next_sequence := n,
    ds_operations := dset (do_operation_id op) (operation_as_mapping op) (ds_operations st)\<rparr>)"
proof -
  have "list_all (stored_operation n) (ds_operations st)"
    using assms(1,4) stored_operation_mono by (auto simp: delivery_wf_def list_all_iff)
  moreover have "stored_operation n (do_operation_id op, operation_as_mapping op)"
    using operation_round_trip [OF assms(2)] assms(3) by (simp add: stored_operation_def)
  ultimately show ?thesis using assms(1,4) by (auto simp: delivery_wf_def intro: list_all_dset)
qed

end
