(* ===== verification/Exec_Delivery_Ledger.thy ===== *)
theory Exec_Delivery_Ledger
  imports Exec_Delivery_Repository
begin

text \<open>
  The abstract delivery ledger: a counter and the attempts by identifier. Requesting an attempt
  and resolving one are its only steps, whoever takes them and in whatever order. Every write of
  the repository is such a step, so that what holds of the ledger holds of the file whatever
  processes share it.
\<close>

section \<open>The ledger\<close>

type_synonym ledger = "int \<times> (string \<rightharpoonup> delivery_operation)"

inductive ledger_step :: "ledger \<Rightarrow> ledger \<Rightarrow> bool" where
  request: "A (do_operation_id op) = None \<Longrightarrow> do_state op = Op_PENDING \<Longrightarrow> do_sequence op = n \<Longrightarrow>
    (\<And>i other. A i = Some other \<Longrightarrow> operation_key other = operation_key op \<Longrightarrow> state_terminal (do_state other)) \<Longrightarrow>
    ledger_step (n, A) (n + 1, A(do_operation_id op \<mapsto> op))"
| resolve: "A (do_operation_id op) = Some current \<Longrightarrow> operation_key op = operation_key current \<Longrightarrow>
    do_sequence op = do_sequence current \<Longrightarrow> transition_allowed (do_state current) (do_state op) \<Longrightarrow>
    (state_terminal (do_state current) \<Longrightarrow> op = current) \<Longrightarrow>
    ledger_step (n, A) (n, A(do_operation_id op \<mapsto> op))"

inductive_cases ledger_stepE: "ledger_step a b"

definition unresolved_attempt :: "ledger \<Rightarrow> string \<Rightarrow> delivery_operation \<Rightarrow> bool" where
  "unresolved_attempt a i op \<longleftrightarrow> snd a i = Some op \<and> \<not> state_terminal (do_state op)"

definition ledger_ok :: "ledger \<Rightarrow> bool" where
  "ledger_ok a \<longleftrightarrow>
     (\<forall>i op. snd a i = Some op \<longrightarrow> do_operation_id op = i \<and> do_sequence op < fst a)
     \<and> (\<forall>i j op op'. snd a i = Some op \<longrightarrow> snd a j = Some op' \<longrightarrow> do_sequence op = do_sequence op' \<longrightarrow> i = j)
     \<and> (\<forall>i j op op'. unresolved_attempt a i op \<longrightarrow> unresolved_attempt a j op'
          \<longrightarrow> operation_key op = operation_key op' \<longrightarrow> i = j)"

text \<open>What a later ledger keeps of an earlier one.\<close>

definition attempt_kept :: "delivery_operation \<Rightarrow> delivery_operation \<Rightarrow> bool" where
  "attempt_kept op op' \<longleftrightarrow> operation_key op' = operation_key op \<and> do_sequence op' = do_sequence op
     \<and> (state_terminal (do_state op) \<longrightarrow> op' = op) \<and> (do_state op' = Op_PENDING \<longrightarrow> do_state op = Op_PENDING)"

definition ledger_extends :: "ledger \<Rightarrow> ledger \<Rightarrow> bool" where
  "ledger_extends a b \<longleftrightarrow> fst a \<le> fst b
     \<and> (\<forall>i op. snd a i = Some op \<longrightarrow> (\<exists>op'. snd b i = Some op' \<and> attempt_kept op op'))"

lemma attempt_kept_refl [simp]: "attempt_kept op op"
  by (simp add: attempt_kept_def)

lemma attempt_kept_trans: "attempt_kept op op' \<Longrightarrow> attempt_kept op' op'' \<Longrightarrow> attempt_kept op op''"
  unfolding attempt_kept_def by metis

lemma ledger_extends_refl [simp]: "ledger_extends a a"
  by (simp add: ledger_extends_def)

lemma ledger_extends_trans: "ledger_extends a b \<Longrightarrow> ledger_extends b c \<Longrightarrow> ledger_extends a c"
  unfolding ledger_extends_def by (meson attempt_kept_trans order_trans)

lemma transition_to_pending: "transition_allowed st Op_PENDING \<Longrightarrow> st = Op_PENDING"
  by (cases st) (simp_all add: transition_allowed_def)

lemma ledger_step_extends:
  assumes "ledger_step a b" shows "ledger_extends a b"
  using assms
proof cases
  case (request A op n)
  then show ?thesis by (auto simp: ledger_extends_def)
next
  case (resolve A op current n)
  then have "attempt_kept current op" using transition_to_pending by (auto simp: attempt_kept_def)
  with resolve show ?thesis by (auto simp: ledger_extends_def)
qed

lemma unresolved_step:
  assumes "ledger_step a b" and "unresolved_attempt b i op"
  shows "(\<exists>op0. unresolved_attempt a i op0 \<and> operation_key op0 = operation_key op)
    \<or> (snd a i = None \<and> (\<forall>j op'. unresolved_attempt a j op' \<longrightarrow> operation_key op' \<noteq> operation_key op))"
  using assms
proof cases
  case (request A op1 n)
  then show ?thesis using assms(2) by (auto simp: unresolved_attempt_def split: if_splits)
next
  case (resolve A op1 current n)
  then show ?thesis using assms(2) by (auto simp: unresolved_attempt_def split: if_splits)
qed

lemma ledger_okD:
  assumes "ledger_ok a" and "snd a i = Some op"
  shows "do_operation_id op = i" and "do_sequence op < fst a"
    and "snd a j = Some op' \<Longrightarrow> do_sequence op = do_sequence op' \<Longrightarrow> i = j"
  using assms unfolding ledger_ok_def by blast+

lemma ledger_step_ids:
  assumes "ledger_step a b" and "ledger_ok a" and "snd b i = Some op"
  shows "do_operation_id op = i \<and> do_sequence op < fst b"
  using assms(1)
proof cases
  case (request A new n)
  show ?thesis
  proof (cases "i = do_operation_id new")
    case False
    then have "snd a i = Some op" using request assms(3) by simp
    from ledger_okD(1,2) [OF assms(2) this] request show ?thesis by simp
  qed (use request assms(3) in auto)
next
  case (resolve A new current n)
  show ?thesis
  proof (cases "i = do_operation_id new")
    case True
    then have "snd a i = Some current" using resolve by simp
    from ledger_okD(2) [OF assms(2) this] True resolve assms(3) show ?thesis by simp
  next
    case False
    then have "snd a i = Some op" using resolve assms(3) by simp
    from ledger_okD(1,2) [OF assms(2) this] resolve show ?thesis by simp
  qed
qed

lemma ledger_step_sequences:
  assumes "ledger_step a b" and "ledger_ok a" and "snd b i = Some op" and "snd b j = Some op'"
    and "do_sequence op = do_sequence op'"
  shows "i = j"
  using assms(1)
proof cases
  case (request A new n)
  have old: "A k = Some x \<and> do_sequence x < n" if "snd b k = Some x" "k \<noteq> do_operation_id new" for k x
    using ledger_okD(2) [OF assms(2), of k x] that request by simp
  have new: "do_sequence x = n" if "snd b k = Some x" "k = do_operation_id new" for k x
    using that request by auto
  show ?thesis
  proof (rule ccontr)
    assume ne: "i \<noteq> j"
    then have "i \<noteq> do_operation_id new" "j \<noteq> do_operation_id new"
      using old new assms(3-5) by fastforce+
    then show False
      using old [OF assms(3)] old [OF assms(4)] ledger_okD(3) [OF assms(2), of i op j op'] assms(5) ne request(1)
      by simp
  qed
next
  case (resolve A new current n)
  have same: "\<exists>y. A k = Some y \<and> do_sequence y = do_sequence x" if "snd b k = Some x" for k x
    using that resolve by (auto split: if_splits)
  from same [OF assms(3)] same [OF assms(4)] show ?thesis
    using ledger_okD(3) [OF assms(2)] assms(5) resolve(1) by auto
qed

lemma ledger_step_exclusive:
  assumes "ledger_step a b" and "ledger_ok a"
    and "unresolved_attempt b i op" "unresolved_attempt b j op'" and "operation_key op = operation_key op'"
  shows "i = j"
proof -
  have new: "i = j" if "snd a i = None" "snd a j = None"
    using assms(1,3,4) that by cases (auto simp: unresolved_attempt_def split: if_splits)
  have old: "k = l" if "unresolved_attempt a k x" "unresolved_attempt a l y" "operation_key x = operation_key y"
    for k l x y
    using assms(2) that unfolding ledger_ok_def by blast
  show ?thesis
    using unresolved_step [OF assms(1,3)] unresolved_step [OF assms(1,4)] new old assms(5) by metis
qed

lemma ledger_step_ok: "ledger_step a b \<Longrightarrow> ledger_ok a \<Longrightarrow> ledger_ok b"
  unfolding ledger_ok_def [of b]
  using ledger_step_ids ledger_step_sequences ledger_step_exclusive by blast

section \<open>The repository takes ledger steps\<close>

definition ledger_of :: "delivery_runtime \<Rightarrow> ledger" where
  "ledger_of st = (ds_next_sequence st, \<lambda>i. case map_of (ds_operations st) i of
      None \<Rightarrow> None
    | Some raw \<Rightarrow> (case operation_from_mapping (PDict raw) of Inl e \<Rightarrow> None | Inr op \<Rightarrow> Some op))"

lemma ledger_of_set:
  assumes "operation_ok op"
  shows "ledger_of (st\<lparr>ds_next_sequence := n,
      ds_operations := dset i (operation_as_mapping op) (ds_operations st)\<rparr>)
    = (n, (snd (ledger_of st))(i \<mapsto> op))"
  using operation_round_trip [OF assms] by (auto simp: ledger_of_def)

lemma ledger_of_None:
  assumes "delivery_wf sha dir st"
  shows "snd (ledger_of st) i = None \<longleftrightarrow> map_of (ds_operations st) i = None"
proof (cases "map_of (ds_operations st) i")
  case (Some raw)
  then have "stored_operation (ds_next_sequence st) (i, raw)"
    using assms map_of_SomeD [OF Some] by (auto simp: delivery_wf_def list_all_iff)
  with Some show ?thesis by (auto simp: ledger_of_def stored_operation_def)
qed (simp add: ledger_of_def)

lemma ledger_of_Some:
  "snd (ledger_of st) i = Some op \<Longrightarrow>
     \<exists>raw. (i, raw) \<in> set (ds_operations st) \<and> map_of (ds_operations st) i = Some raw
       \<and> operation_from_mapping (PDict raw) = Inr op"
  by (auto simp: ledger_of_def split: option.splits sum.splits dest: map_of_SomeD)

lemma record_candidate_Inr:
  assumes "record_candidate sha dir c file = Inr (r, file')"
  obtains (kept) "file' = file" | (written) st where "delivery_load sha dir file = Inr st"
    "file' = delivery_write (st\<lparr>ds_candidates := dset (dc_candidate_id c) (candidate_as_mapping c) (ds_candidates st)\<rparr>)"
  using assms by (auto simp: record_candidate_def split: option.splits if_splits)

lemma begin_operation_Inr:
  assumes "begin_operation sha dir op file = Inr (persisted, file')"
  obtains st where "delivery_load sha dir file = Inr st" and "do_state op = Op_PENDING"
    and "map_of (ds_operations st) (do_operation_id op) = None"
    and "do_candidate_id op \<in> set (keys (ds_candidates st))"
    and "\<forall>e \<in> set (ds_operations st). check_unresolved op e = Inr ()"
    and "operation_rebuild (op\<lparr>do_sequence := ds_next_sequence st\<rparr>) = Inr persisted"
    and "file' = delivery_write (st\<lparr>ds_next_sequence := ds_next_sequence st + 1,
       ds_operations := dset (do_operation_id persisted) (operation_as_mapping persisted) (ds_operations st)\<rparr>)"
  using assms by (auto simp: begin_operation_def eachr_Inr_iff map_of_eq_None_iff)

lemma update_operation_Inr:
  assumes "update_operation sha dir op file = Inr (r, file')"
  obtains st raw current where "delivery_load sha dir file = Inr st" and "r = op"
    and "map_of (ds_operations st) (do_operation_id op) = Some raw"
    and "operation_from_mapping (PDict raw) = Inr current"
    and "operation_key op = operation_key current" and "do_sequence op = do_sequence current"
    and "transition_allowed (do_state current) (do_state op)"
    and "state_terminal (do_state current) \<Longrightarrow> operation_as_mapping current = operation_as_mapping op"
    and "file' = delivery_write (st\<lparr>ds_operations :=
           dset (do_operation_id op) (operation_as_mapping op) (ds_operations st)\<rparr>)"
proof -
  from assms obtain st raw current where "delivery_load sha dir file = Inr st" "r = op"
    "map_of (ds_operations st) (do_operation_id op) = Some raw"
    "operation_from_mapping (PDict raw) = Inr current"
    "operation_key op = operation_key current" "do_sequence op = do_sequence current"
    "transition_allowed (do_state current) (do_state op)"
    "state_terminal (do_state current) \<longrightarrow> operation_as_mapping current = operation_as_mapping op"
    "file' = delivery_write (st\<lparr>ds_operations :=
           dset (do_operation_id op) (operation_as_mapping op) (ds_operations st)\<rparr>)"
    by (auto simp: update_operation_def split: option.splits if_splits)
  then show ?thesis using that by blast
qed

text \<open>
  One write to the shared file, by any process: the candidate or operation it is called with was
  built by its constructor. A call that raises writes nothing.
\<close>

inductive repository_step :: "(string \<Rightarrow> string) \<Rightarrow> string \<Rightarrow> pyval option \<Rightarrow> pyval option \<Rightarrow> bool"
  for sha :: "string \<Rightarrow> string" and dir :: string where
  candidate: "candidate_ok sha c \<Longrightarrow> record_candidate sha dir c f = Inr (r, f') \<Longrightarrow> repository_step sha dir f f'"
| intent: "operation_ok op \<Longrightarrow> begin_operation sha dir op f = Inr (r, f') \<Longrightarrow> repository_step sha dir f f'"
| progress: "operation_ok op \<Longrightarrow> update_operation sha dir op f = Inr (r, f') \<Longrightarrow> repository_step sha dir f f'"

lemma operation_rebuild_sequence:
  assumes "operation_ok op" and "1 \<le> n"
  shows "operation_rebuild (op\<lparr>do_sequence := n\<rparr>) = Inr (op\<lparr>do_sequence := n\<rparr>)"
    and "operation_ok (op\<lparr>do_sequence := n\<rparr>)"
proof -
  show r: "operation_rebuild (op\<lparr>do_sequence := n\<rparr>) = Inr (op\<lparr>do_sequence := n\<rparr>)"
    using assms by (cases op) (auto simp: operation_ok_def operation_rebuild_def operation_init_def)
  show "operation_ok (op\<lparr>do_sequence := n\<rparr>)" using r assms(1) by (simp add: operation_ok_def)
qed

lemma operation_mapping_inj:
  "operation_ok op \<Longrightarrow> operation_ok op' \<Longrightarrow> operation_as_mapping op = operation_as_mapping op' \<Longrightarrow> op = op'"
  by (metis operation_round_trip sum.inject(2))

lemma begin_operation_step:
  assumes "validate_project_id (PStr dir) = Inr dir" and "operation_ok op"
    and "begin_operation sha dir op f = Inr (persisted, f')"
  obtains st st' where "delivery_load sha dir f = Inr st" and "delivery_load sha dir f' = Inr st'"
    and "ledger_step (ledger_of st) (ledger_of st')" and "persisted = op\<lparr>do_sequence := ds_next_sequence st\<rparr>"
    and "operation_ok persisted"
    and "snd (ledger_of st) (do_operation_id op) = None"
    and "snd (ledger_of st') = (snd (ledger_of st))(do_operation_id op \<mapsto> persisted)"
    and "map_of (ds_candidates st) (do_candidate_id op) \<noteq> None" and "ds_candidates st' = ds_candidates st"
    and "\<And>i other. unresolved_attempt (ledger_of st) i other \<Longrightarrow> operation_key other \<noteq> operation_key op"
    and "f' = delivery_write st'"
  using assms(3)
proof (rule begin_operation_Inr)
  fix st :: delivery_runtime
  let ?n = "ds_next_sequence st"
  let ?st' = "st\<lparr>ds_next_sequence := ?n + 1,
       ds_operations := dset (do_operation_id persisted) (operation_as_mapping persisted) (ds_operations st)\<rparr>"
  assume st: "delivery_load sha dir f = Inr st" and pending: "do_state op = Op_PENDING"
    and fresh: "map_of (ds_operations st) (do_operation_id op) = None"
    and known: "do_candidate_id op \<in> set (keys (ds_candidates st))"
    and none: "\<forall>e \<in> set (ds_operations st). check_unresolved op e = Inr ()"
    and built: "operation_rebuild (op\<lparr>do_sequence := ?n\<rparr>) = Inr persisted" and f': "f' = delivery_write ?st'"
  note wf = delivery_load_wf [OF st assms(1)]
  then have n: "1 \<le> ?n" by (simp add: delivery_wf_def)
  from operation_rebuild_sequence [OF assms(2) n] built
  have persisted: "persisted = op\<lparr>do_sequence := ?n\<rparr>" and ok: "operation_ok persisted" by simp_all
  have wf': "delivery_wf sha dir ?st'"
    using delivery_wf_operation [OF wf ok, where n = "?n + 1"] persisted by simp
  have ledger: "ledger_of ?st' = (?n + 1, (snd (ledger_of st))(do_operation_id op \<mapsto> persisted))"
    using ledger_of_set [OF ok, where st = st and n = "?n + 1" and i = "do_operation_id persisted"] persisted by simp
  have free: "state_terminal (do_state other)"
    if other: "snd (ledger_of st) i = Some other" "operation_key other = operation_key op" for i other
  proof -
    obtain raw where "(i, raw) \<in> set (ds_operations st)" "operation_from_mapping (PDict raw) = Inr other"
      using ledger_of_Some [OF other(1)] by blast
    with none other(2) show ?thesis by (auto simp: check_unresolved_def rbind_Inr_iff)
  qed
  have absent: "snd (ledger_of st) (do_operation_id op) = None" using ledger_of_None [OF wf] fresh by simp
  have key: "operation_key persisted = operation_key op" by (simp add: persisted operation_key_def)
  have "ledger_step (?n, snd (ledger_of st)) (?n + 1, (snd (ledger_of st))(do_operation_id persisted \<mapsto> persisted))"
    using absent pending free key by (intro ledger_step.request) (auto simp: persisted)
  then have step: "ledger_step (ledger_of st) (ledger_of ?st')"
    using ledger persisted by (simp add: ledger_of_def)
  show ?thesis
  proof (rule that [OF st _ step persisted ok absent])
    show "delivery_load sha dir f' = Inr ?st'" using delivery_load_write [OF wf' assms(1)] f' by simp
    show "snd (ledger_of ?st') = (snd (ledger_of st))(do_operation_id op \<mapsto> persisted)" using ledger by simp
    show "map_of (ds_candidates st) (do_candidate_id op) \<noteq> None" using known by (auto simp: map_of_eq_None_iff)
    show "ds_candidates ?st' = ds_candidates st" by simp
    show "f' = delivery_write ?st'" by (rule f')
    show "operation_key other \<noteq> operation_key op" if "unresolved_attempt (ledger_of st) i other" for i other
      using that free by (auto simp: unresolved_attempt_def)
  qed
qed

text \<open>Nothing but an unresolved rival, or the identifier's own attempt, refuses a pending attempt.\<close>

lemma begin_operation_decides:
  assumes "validate_project_id (PStr dir) = Inr dir" and "operation_ok op" and "do_state op = Op_PENDING"
    and "delivery_load sha dir f = Inr st" and "snd (ledger_of st) (do_operation_id op) = None"
    and "do_candidate_id op \<in> set (keys (ds_candidates st))" and "distinct (keys (ds_operations st))"
  shows "(\<exists>persisted f'. begin_operation sha dir op f = Inr (persisted, f'))
    \<longleftrightarrow> (\<nexists>i other. unresolved_attempt (ledger_of st) i other \<and> operation_key other = operation_key op)"
proof
  assume "\<exists>persisted f'. begin_operation sha dir op f = Inr (persisted, f')"
  then obtain persisted f' where b: "begin_operation sha dir op f = Inr (persisted, f')" by blast
  show "\<nexists>i other. unresolved_attempt (ledger_of st) i other \<and> operation_key other = operation_key op"
    by (rule begin_operation_step [OF assms(1,2) b]) (use assms(4) in auto)
next
  assume none: "\<nexists>i other. unresolved_attempt (ledger_of st) i other \<and> operation_key other = operation_key op"
  note wf = delivery_load_wf [OF assms(4,1)]
  have free: "check_unresolved op e = Inr ()" if e: "e \<in> set (ds_operations st)" for e
  proof -
    obtain i raw where ir: "e = (i, raw)" by (cases e)
    have st: "stored_operation (ds_next_sequence st) (i, raw)"
      using wf e ir by (auto simp: delivery_wf_def list_all_iff)
    have "map_of (ds_operations st) i = Some raw" using assms(7) e ir by (simp add: map_of_is_SomeI)
    then show ?thesis
      using st none by (auto simp: ir check_unresolved_def stored_operation_def ledger_of_def unresolved_attempt_def
          split: option.splits sum.splits)
  qed
  have n: "1 \<le> ds_next_sequence st" using wf by (simp add: delivery_wf_def)
  have all: "eachr (check_unresolved op) (ds_operations st) = Inr ()" using free by (simp add: eachr_Inr_iff)
  have "map_of (ds_operations st) (do_operation_id op) = None" using ledger_of_None [OF wf] assms(5) by simp
  then show "\<exists>persisted f'. begin_operation sha dir op f = Inr (persisted, f')"
    using assms(3,4,6) all operation_rebuild_sequence(1) [OF assms(2) n]
    by (simp add: begin_operation_def map_of_eq_None_iff)
qed

lemma update_operation_step:
  assumes "validate_project_id (PStr dir) = Inr dir" and "operation_ok op"
    and "update_operation sha dir op f = Inr (r, f')"
  obtains st st' current where "delivery_load sha dir f = Inr st" and "delivery_load sha dir f' = Inr st'" and "r = op"
    and "ledger_step (ledger_of st) (ledger_of st')"
    and "snd (ledger_of st) (do_operation_id op) = Some current" and "attempt_kept current op"
    and "snd (ledger_of st') = (snd (ledger_of st))(do_operation_id op \<mapsto> op)"
    and "ds_candidates st' = ds_candidates st" and "f' = delivery_write st'"
  using assms(3)
proof (rule update_operation_Inr)
  fix st :: delivery_runtime and raw current
  let ?st' = "st\<lparr>ds_operations := dset (do_operation_id op) (operation_as_mapping op) (ds_operations st)\<rparr>"
  assume st: "delivery_load sha dir f = Inr st" and "r = op"
    and raw: "map_of (ds_operations st) (do_operation_id op) = Some raw"
    and current: "operation_from_mapping (PDict raw) = Inr current"
    and key: "operation_key op = operation_key current" and seq: "do_sequence op = do_sequence current"
    and allowed: "transition_allowed (do_state current) (do_state op)"
    and same: "state_terminal (do_state current) \<Longrightarrow> operation_as_mapping current = operation_as_mapping op"
    and f': "f' = delivery_write ?st'"
  note wf = delivery_load_wf [OF st assms(1)]
  have "stored_operation (ds_next_sequence st) (do_operation_id op, raw)"
    using wf map_of_SomeD [OF raw] by (auto simp: delivery_wf_def list_all_iff)
  with current have bound: "do_sequence op < ds_next_sequence st" by (auto simp: stored_operation_def seq)
  have wf': "delivery_wf sha dir ?st'"
    using delivery_wf_operation [OF wf assms(2) bound order_refl] by simp
  have now: "snd (ledger_of st) (do_operation_id op) = Some current" by (simp add: ledger_of_def raw current)
  have eq: "op = current" if "state_terminal (do_state current)"
    using operation_mapping_inj [OF operation_from_mapping_ok [OF current] assms(2) same [OF that]] by simp
  have ledger: "ledger_of ?st' = (ds_next_sequence st, (snd (ledger_of st))(do_operation_id op \<mapsto> op))"
    using ledger_of_set [OF assms(2), where st = st and n = "ds_next_sequence st" and i = "do_operation_id op"] by simp
  have step: "ledger_step (ledger_of st) (ledger_of ?st')"
    using ledger_step.resolve [of "snd (ledger_of st)" op current "ds_next_sequence st"] now key seq allowed eq ledger
    by (simp add: ledger_of_def)
  show ?thesis
  proof (rule that [OF st _ \<open>r = op\<close> step now])
    show "delivery_load sha dir f' = Inr ?st'" using delivery_load_write [OF wf' assms(1)] f' by simp
    show "attempt_kept current op"
      using key seq eq allowed transition_to_pending by (auto simp: attempt_kept_def)
    show "snd (ledger_of ?st') = (snd (ledger_of st))(do_operation_id op \<mapsto> op)" using ledger by simp
    show "ds_candidates ?st' = ds_candidates st" "f' = delivery_write ?st'" by (simp_all add: f')
  qed
qed

lemma repository_refines:
  assumes "repository_step sha dir f f'" and "validate_project_id (PStr dir) = Inr dir"
  shows "\<exists>st st'. delivery_load sha dir f = Inr st \<and> delivery_load sha dir f' = Inr st'
    \<and> (ledger_of st' = ledger_of st \<or> ledger_step (ledger_of st) (ledger_of st'))"
  using assms(1)
proof cases
  case (candidate c r)
  show ?thesis using candidate(2)
  proof (cases rule: record_candidate_Inr)
    case kept
    with candidate(2) show ?thesis by (auto simp: record_candidate_def)
  next
    case (written st)
    let ?st' = "st\<lparr>ds_candidates := dset (dc_candidate_id c) (candidate_as_mapping c) (ds_candidates st)\<rparr>"
    have "delivery_load sha dir f' = Inr ?st'"
      using delivery_load_write [OF delivery_wf_candidate [OF delivery_load_wf [OF written(1) assms(2)] candidate(1)] assms(2)]
        written(2) by simp
    moreover have "ledger_of ?st' = ledger_of st" by (simp add: ledger_of_def)
    ultimately show ?thesis using written(1) by blast
  qed
next
  case (intent op r)
  show ?thesis by (rule begin_operation_step [OF assms(2) intent]) blast
next
  case (progress op r)
  show ?thesis by (rule update_operation_step [OF assms(2) progress]) blast
qed

lemma repository_steps:
  assumes "(repository_step sha dir)\<^sup>*\<^sup>* f f'" and "validate_project_id (PStr dir) = Inr dir"
    and "delivery_load sha dir f = Inr st" and "ledger_ok (ledger_of st)"
  shows "\<exists>st'. delivery_load sha dir f' = Inr st' \<and> ledger_ok (ledger_of st')
    \<and> ledger_extends (ledger_of st) (ledger_of st')"
  using assms(1)
proof (induction rule: rtranclp_induct)
  case base
  then show ?case using assms(3,4) by simp
next
  case (step g h)
  then obtain st1 where 1: "delivery_load sha dir g = Inr st1" "ledger_ok (ledger_of st1)"
    "ledger_extends (ledger_of st) (ledger_of st1)" by blast
  from repository_refines [OF step(2) assms(2)] 1(1) obtain st2 where 2: "delivery_load sha dir h = Inr st2"
    and s: "ledger_of st2 = ledger_of st1 \<or> ledger_step (ledger_of st1) (ledger_of st2)" by auto
  from s have "ledger_ok (ledger_of st2)" "ledger_extends (ledger_of st1) (ledger_of st2)"
    using 1(2) ledger_step_ok ledger_step_extends by (metis ledger_extends_refl)+
  with 1(3) 2 show ?case using ledger_extends_trans by blast
qed

lemma empty_ledger:
  assumes "validate_project_id (PStr dir) = Inr dir"
  obtains st where "delivery_load sha dir None = Inr st" and "ledger_ok (ledger_of st)"
  using assms by (auto simp: delivery_load_def delivery_runtime_init_def ledger_ok_def ledger_of_def unresolved_attempt_def)

end
