(* ===== verification/Exec_Delivery.thy ===== *)
theory Exec_Delivery
  imports Exec_Action Exec_Repository Exec_Delivery_Ledger
begin

text \<open>
  \<open>project_execution/delivery/service.py\<close>: candidates of achieved Milestones and recoverable calls of
  an external provider. The provider (\<open>delivery/ports.py\<close>) is a record of functions on the outside
  world. The lock of the delivery file is held for one access at a time and never while the provider
  runs: \<open>de_others env n\<close> is what other processes do to the file before the \<open>n\<close>-th access of this
  one. The trace lists what this process wrote, logged and asked of the provider, in order.
\<close>

section \<open>The provider and the state\<close>

datatype provider_answer =
    Answer_result delivery_result
  | Answer_none
  | Answer_other
  | Answer_raises string

record 'w delivery_provider =
  dp_id :: string
  dp_deliver :: "'w \<Rightarrow> delivery_request \<Rightarrow> provider_answer \<times> 'w"
  dp_reconcile :: "'w \<Rightarrow> delivery_request \<Rightarrow> provider_answer \<times> 'w"

datatype delivery_effect =
    Wrote "pyval option"
  | Logged event
  | Delivered string
  | Observed string

record 'w delivery_env =
  de_sha :: "string \<Rightarrow> string"
  de_now :: string
  de_uuid :: "nat \<Rightarrow> string"
  de_path :: string
  de_dir :: string
  de_provider :: "'w delivery_provider"
  de_others :: "nat \<Rightarrow> pyval option \<Rightarrow> pyval option"

record 'w delivery_system =
  sy_definition_file :: "pyval option"
  sy_runtime_file :: "pyval option"
  sy_delivery_file :: "pyval option"
  sy_journal :: "row list option"
  sy_world :: 'w
  sy_accesses :: nat
  sy_uuids :: nat
  sy_trace :: "delivery_effect list"

type_synonym ('w, 'a) delivery = "('w delivery_system, 'a) action"

section \<open>Accesses\<close>

definition enter_lock :: "'w delivery_env \<Rightarrow> ('w, pyval option) delivery" where
  "enter_lock env s = (let f = de_others env (sy_accesses s) (sy_delivery_file s)
     in (Inr f, s\<lparr>sy_delivery_file := f, sy_accesses := Suc (sy_accesses s)\<rparr>))"

definition put_deliveries :: "pyval option \<Rightarrow> ('w, unit) delivery" where
  "put_deliveries f s = (Inr (), s\<lparr>sy_delivery_file := f, sy_trace := sy_trace s @ [Wrote f]\<rparr>)"

definition read_deliveries :: "'w delivery_env \<Rightarrow> (pyval option \<Rightarrow> 'a res) \<Rightarrow> ('w, 'a) delivery" where
  "read_deliveries env g = ebind (enter_lock env) (\<lambda>f. elift (g f))"

definition write_deliveries ::
    "'w delivery_env \<Rightarrow> (pyval option \<Rightarrow> ('a \<times> pyval option) res) \<Rightarrow> ('w, 'a) delivery" where
  "write_deliveries env g = ebind (enter_lock env) (\<lambda>f.
     ebind (elift (g f)) (\<lambda>(x, f'). ebind (put_deliveries f') (\<lambda>_. ereturn x)))"

definition log_event :: "'w delivery_env \<Rightarrow> event \<Rightarrow> ('w, unit) delivery" where
  "log_event env e s = (case sy_journal s of
      None \<Rightarrow> (Inr (), s)
    | Some j \<Rightarrow> (case journal_append (de_now env) j e of
          Inl err \<Rightarrow> (Inl err, s)
        | Inr j' \<Rightarrow> (Inr (), s\<lparr>sy_journal := Some j', sy_trace := sy_trace s @ [Logged e]\<rparr>)))"

definition ask_deliver :: "'w delivery_env \<Rightarrow> delivery_request \<Rightarrow> ('w, provider_answer) delivery" where
  "ask_deliver env rq s = (case dp_deliver (de_provider env) (sy_world s) rq of
     (answer, w) \<Rightarrow> (Inr answer, s\<lparr>sy_world := w, sy_trace := sy_trace s @ [Delivered (rq_operation_id rq)]\<rparr>))"

definition ask_reconcile :: "'w delivery_env \<Rightarrow> delivery_request \<Rightarrow> ('w, provider_answer) delivery" where
  "ask_reconcile env rq s = (case dp_reconcile (de_provider env) (sy_world s) rq of
     (answer, w) \<Rightarrow> (Inr answer, s\<lparr>sy_world := w, sy_trace := sy_trace s @ [Observed (rq_operation_id rq)]\<rparr>))"

definition fresh_suffix :: "'w delivery_env \<Rightarrow> ('w, string) delivery" where
  "fresh_suffix env s = (Inr (de_uuid env (sy_uuids s)), s\<lparr>sy_uuids := Suc (sy_uuids s)\<rparr>)"

section \<open>Candidates\<close>

definition latest_attempt ::
    "'w delivery_env \<Rightarrow> string \<Rightarrow> string \<Rightarrow> string \<Rightarrow> ('w, delivery_operation option) delivery" where
  "latest_attempt env candidate_id target_id provider_id =
     read_deliveries env (latest_operation (de_sha env) (de_dir env) candidate_id target_id provider_id)"

definition require_candidate :: "'w delivery_env \<Rightarrow> string \<Rightarrow> ('w, delivery_candidate) delivery" where
  "require_candidate env candidate_id =
     ebind (read_deliveries env (get_candidate (de_sha env) (de_dir env) candidate_id)) (\<lambda>c. case c of
         None \<Rightarrow> eraise (ProjectExecutionError (''delivery candidate not found: '' @ candidate_id))
       | Some c \<Rightarrow> ereturn c)"

definition require_operation :: "'w delivery_env \<Rightarrow> string \<Rightarrow> ('w, delivery_operation) delivery" where
  "require_operation env operation_id =
     ebind (read_deliveries env (get_operation (de_sha env) (de_dir env) operation_id)) (\<lambda>op. case op of
         None \<Rightarrow> eraise (ProjectExecutionError (''delivery operation not found: '' @ operation_id))
       | Some op \<Rightarrow> ereturn op)"

definition baseline_policy :: "row \<Rightarrow> pyval" where
  "baseline_policy baseline = (case row_get baseline ''delivery'' (PDict []) of
      PDict delivery \<Rightarrow> row_get delivery ''policy'' PNone | _ \<Rightarrow> PNone)"

definition achieved_candidate :: "'w delivery_env \<Rightarrow> string \<Rightarrow> pyval option \<Rightarrow> pyval option \<Rightarrow> delivery_candidate res" where
  "achieved_candidate env milestone_id definition_file runtime_file =
     rbind (repository_load (de_path env) definition_file) (\<lambda>d.
     if map_of (milestone_index d) milestone_id = None
     then Inl (ProjectExecutionError (''Milestone not found: '' @ milestone_id))
     else rbind (runtime_load (de_dir env) runtime_file) (\<lambda>rt.
       case map_of (rt_milestone_achievements rt) milestone_id of
         None \<Rightarrow> Inl (ProjectExecutionError
           (''Milestone '' @ milestone_id @ '' has not achieved an immutable baseline''))
       | Some baseline \<Rightarrow>
           if baseline_policy baseline \<noteq> PStr (delivery_value Delivery_CANDIDATE)
           then Inl (ProjectExecutionError
             (''Milestone '' @ milestone_id @ '' achievement is not a delivery candidate''))
           else candidate_from_baseline (de_sha env) (pd_project d) milestone_id baseline (de_now env)))"

definition store_candidate :: "'w delivery_env \<Rightarrow> delivery_candidate \<Rightarrow> ('w, delivery_candidate \<times> bool) delivery" where
  "store_candidate env c = ebind (enter_lock env) (\<lambda>f.
     ebind (elift (record_candidate (de_sha env) (de_dir env) c f)) (\<lambda>((persisted, created), f').
     ebind (ewhen created (put_deliveries f')) (\<lambda>_. ereturn (persisted, created))))"

definition prepare_candidate :: "'w delivery_env \<Rightarrow> string \<Rightarrow> ('w, delivery_candidate) delivery" where
  "prepare_candidate env milestone_id =
     ebind (eget (\<lambda>s. achieved_candidate env milestone_id (sy_definition_file s) (sy_runtime_file s))) (\<lambda>r.
     ebind (elift r) (\<lambda>c.
     ebind (store_candidate env c) (\<lambda>(persisted, created).
     ebind (ewhen created (log_event env (''project_delivery_candidate_created'',
         [(''milestone_id'', PStr milestone_id), (''candidate_id'', PStr (dc_candidate_id persisted)),
          (''baseline_digest'', PStr (dc_baseline_digest persisted))]))) (\<lambda>_.
     ereturn persisted))))"

section \<open>Resolving an attempt\<close>

definition attempt_event :: "delivery_operation \<Rightarrow> row" where
  "attempt_event op = [(''operation_id'', PStr (do_operation_id op)), (''candidate_id'', PStr (do_candidate_id op)),
     (''target_id'', PStr (dt_target_id (do_target op))), (''provider_id'', PStr (do_provider_id op))]"

definition update_attempt :: "'w delivery_env \<Rightarrow> delivery_operation \<Rightarrow> ('w, delivery_operation) delivery" where
  "update_attempt env changed = ebind (elift (operation_rebuild changed)) (\<lambda>op.
     write_deliveries env (update_operation (de_sha env) (de_dir env) op))"

definition mark_uncertain :: "'w delivery_env \<Rightarrow> delivery_operation \<Rightarrow> string \<Rightarrow> ('w, delivery_operation) delivery" where
  "mark_uncertain env op diagnostic =
     ebind (update_attempt env (op\<lparr>do_state := Op_UNCERTAIN, do_diagnostic := diagnostic\<rparr>)) (\<lambda>uncertain.
     ebind (ewhen (do_state op \<noteq> Op_UNCERTAIN)
       (log_event env (''project_delivery_uncertain'', attempt_event uncertain))) (\<lambda>_.
     ereturn uncertain))"

definition resolve_attempt :: "'w delivery_env \<Rightarrow> delivery_operation \<Rightarrow> delivery_result \<Rightarrow> ('w, delivery_operation) delivery" where
  "resolve_attempt env op result =
     (let st = (if dr_outcome result = Delivery_SUCCEEDED then Op_SUCCEEDED else Op_FAILED) in
      ebind (update_attempt env (op\<lparr>do_state := st, do_completed_at := de_now env,
          do_result := Some result, do_diagnostic := []\<rparr>)) (\<lambda>resolved.
      ebind (log_event env
        (if st = Op_SUCCEEDED then ''project_delivery_succeeded'' else ''project_delivery_failed'',
         attempt_event resolved @ [(''references'', strs (dr_references result)),
           (''message'', PStr (dr_message result))])) (\<lambda>_.
      ereturn resolved)))"

definition reconcile_delivery :: "'w delivery_env \<Rightarrow> string \<Rightarrow> ('w, delivery_operation) delivery" where
  "reconcile_delivery env operation_id =
     ebind (require_operation env operation_id) (\<lambda>op.
     if state_terminal (do_state op) then ereturn op
     else ebind (elift (validate_asset_id (PStr (dp_id (de_provider env))) ''delivery provider id'')) (\<lambda>provider_id.
       if provider_id \<noteq> do_provider_id op
       then eraise (ProjectExecutionError ''delivery operation must be reconciled by its original provider'')
       else ebind (require_candidate env (do_candidate_id op)) (\<lambda>c.
         ebind (elift (request_init (do_operation_id op) c (do_target op))) (\<lambda>rq.
         ebind (ask_reconcile env rq) (\<lambda>answer. case answer of
             Answer_result result \<Rightarrow> resolve_attempt env op result
           | Answer_none \<Rightarrow> mark_uncertain env op ''provider could not establish external outcome''
           | Answer_other \<Rightarrow> mark_uncertain env op
               ''TypeError: delivery provider returned an invalid reconciliation result''
           | Answer_raises diagnostic \<Rightarrow> mark_uncertain env op diagnostic)))))"

section \<open>Delivering\<close>

definition operation_id_of :: "string \<Rightarrow> string \<Rightarrow> string res" where
  "operation_id_of candidate_id suffix =
     validate_asset_id (PStr (rstrip_dash (take 60 candidate_id) @ ''-delivery-'' @ suffix))
       ''delivery operation id''"

definition call_provider ::
    "'w delivery_env \<Rightarrow> delivery_operation \<Rightarrow> delivery_request \<Rightarrow> ('w, delivery_operation) delivery" where
  "call_provider env op rq =
     ebind (ask_deliver env rq) (\<lambda>answer.
     let uncertain = (\<lambda>diagnostic. ebind (mark_uncertain env op diagnostic) (\<lambda>u.
           eraise (ProjectExecutionError
             (''delivery provider outcome is uncertain; reconcile the existing operation before retrying: ''
              @ do_operation_id u))))
     in case answer of
         Answer_result result \<Rightarrow> resolve_attempt env op result
       | Answer_none \<Rightarrow> uncertain ''TypeError: delivery provider returned an invalid result''
       | Answer_other \<Rightarrow> uncertain ''TypeError: delivery provider returned an invalid result''
       | Answer_raises diagnostic \<Rightarrow> uncertain diagnostic)"

definition run_attempt ::
    "'w delivery_env \<Rightarrow> delivery_candidate \<Rightarrow> delivery_target \<Rightarrow> delivery_operation \<Rightarrow> ('w, delivery_operation) delivery" where
  "run_attempt env c target op =
     ebind (elift (request_init (do_operation_id op) c target)) (\<lambda>rq.
     ebind (log_event env (''project_delivery_started'',
       [(''operation_id'', PStr (do_operation_id op)), (''candidate_id'', PStr (dc_candidate_id c)),
        (''milestone_id'', PStr (dc_milestone_id c)), (''target_id'', PStr (dt_target_id target)),
        (''provider_id'', PStr (do_provider_id op))])) (\<lambda>_.
     call_provider env op rq))"

definition new_attempt ::
    "'w delivery_env \<Rightarrow> delivery_candidate \<Rightarrow> delivery_target \<Rightarrow> string \<Rightarrow> ('w, delivery_operation) delivery" where
  "new_attempt env c target provider_id =
     ebind (fresh_suffix env) (\<lambda>suffix.
     ebind (elift (operation_id_of (dc_candidate_id c) suffix)) (\<lambda>operation_id.
     ebind (elift (operation_init operation_id 1 (dc_candidate_id c) target provider_id
       (operation_state_value Op_PENDING) (de_now env) [] None [])) (\<lambda>pending.
     ebind (eattempt (write_deliveries env (begin_operation (de_sha env) (de_dir env) pending))) (\<lambda>r. case r of
         Inr op \<Rightarrow> run_attempt env c target op
       | Inl e \<Rightarrow> (case e of
             ProjectExecutionConflictError m \<Rightarrow>
               ebind (latest_attempt env (dc_candidate_id c) (dt_target_id target) provider_id) (\<lambda>concurrent.
               case concurrent of None \<Rightarrow> eraise e | Some op \<Rightarrow> ereturn op)
           | _ \<Rightarrow> eraise e)))))"

definition deliver :: "'w delivery_env \<Rightarrow> string \<Rightarrow> delivery_target \<Rightarrow> bool \<Rightarrow> ('w, delivery_operation) delivery" where
  "deliver env candidate_id target retry_failed =
     ebind (require_candidate env candidate_id) (\<lambda>c.
     ebind (elift (validate_asset_id (PStr (dp_id (de_provider env))) ''delivery provider id'')) (\<lambda>provider_id.
     ebind (latest_attempt env candidate_id (dt_target_id target) provider_id) (\<lambda>latest. case latest of
         None \<Rightarrow> new_attempt env c target provider_id
       | Some op \<Rightarrow>
           if do_state op = Op_SUCCEEDED then ereturn op
           else if do_state op = Op_PENDING \<or> do_state op = Op_UNCERTAIN
           then reconcile_delivery env (do_operation_id op)
           else if do_state op = Op_FAILED \<and> \<not> retry_failed then ereturn op
           else new_attempt env c target provider_id)))"

section \<open>Everything but the call leaves the provider alone\<close>

definition no_delivery :: "delivery_effect list \<Rightarrow> bool" where
  "no_delivery es \<longleftrightarrow> (\<forall>i. Delivered i \<notin> set es)"

definition undelivered :: "'w delivery_system \<Rightarrow> 'w delivery_system \<Rightarrow> bool" where
  "undelivered s s' \<longleftrightarrow> (\<exists>es. sy_trace s' = sy_trace s @ es \<and> no_delivery es)"

lemma no_delivery_simps [simp]:
  "no_delivery []" "no_delivery (xs @ ys) \<longleftrightarrow> no_delivery xs \<and> no_delivery ys"
  "no_delivery (Wrote f # es) = no_delivery es" "no_delivery (Logged e # es) = no_delivery es"
  "no_delivery (Observed i # es) = no_delivery es" "\<not> no_delivery (Delivered i # es)"
  "no_delivery (map Logged events)"
  by (auto simp: no_delivery_def)

interpretation undelivered: frame undelivered
proof
  show "undelivered s s" for s :: "'w delivery_system" by (auto simp: undelivered_def intro: exI [of _ "[]"])
  show "undelivered s s' \<Longrightarrow> undelivered s' s'' \<Longrightarrow> undelivered s s''" for s s' s'' :: "'w delivery_system"
    unfolding undelivered_def by (metis append.assoc no_delivery_simps(2))
qed

lemma accesses_undelivered [simp, intro]:
  "undelivered.keeps (enter_lock env)" "undelivered.keeps (put_deliveries f)"
  "undelivered.keeps (fresh_suffix env)" "undelivered.keeps (ask_reconcile env rq)"
  by (auto simp: undelivered.keeps_def undelivered_def enter_lock_def put_deliveries_def fresh_suffix_def
      ask_reconcile_def Let_def split: prod.splits intro: exI [of _ "[]"])

lemma log_event_undelivered [simp, intro]: "undelivered.keeps (log_event env e)"
  by (auto simp: undelivered.keeps_def undelivered_def log_event_def split: option.splits sum.splits
      intro: exI [of _ "[]"])

lemma steps_undelivered [simp, intro]:
  "undelivered.keeps (read_deliveries env g)" "undelivered.keeps (write_deliveries env h)"
  unfolding read_deliveries_def write_deliveries_def
  by (intro undelivered.keeps_ebind undelivered.keeps_prod; simp)+

lemma lookups_undelivered [simp, intro]:
  "undelivered.keeps (latest_attempt env c t p)" "undelivered.keeps (require_candidate env c)"
  "undelivered.keeps (require_operation env i)"
  unfolding latest_attempt_def require_candidate_def require_operation_def
  by (auto intro!: undelivered.keeps_ebind undelivered.keeps_option)

lemma resolving_undelivered [simp, intro]:
  "undelivered.keeps (mark_uncertain env op diagnostic)" "undelivered.keeps (resolve_attempt env op result)"
  unfolding mark_uncertain_def resolve_attempt_def update_attempt_def Let_def
  by (intro undelivered.keeps_ebind undelivered.keeps_ewhen undelivered.keeps_if; simp)+

lemma keeps_answer:
  assumes "\<And>r. undelivered.keeps (f r)" "undelivered.keeps a" "undelivered.keeps b" "\<And>d. undelivered.keeps (g d)"
  shows "undelivered.keeps (case answer of Answer_result r \<Rightarrow> f r | Answer_none \<Rightarrow> a | Answer_other \<Rightarrow> b
    | Answer_raises d \<Rightarrow> g d)"
  using assms by (cases answer) simp_all

lemma reconcile_delivery_undelivered [simp, intro]: "undelivered.keeps (reconcile_delivery env i)"
  unfolding reconcile_delivery_def
  by (intro undelivered.keeps_ebind undelivered.keeps_if keeps_answer; simp)

lemma prepare_candidate_undelivered [simp, intro]: "undelivered.keeps (prepare_candidate env m)"
  unfolding prepare_candidate_def store_candidate_def
  by (auto intro!: undelivered.keeps_ebind undelivered.keeps_ewhen split: prod.split)

section \<open>The call\<close>

lemma log_event_trace:
  "log_event env e s = (r, s') \<Longrightarrow> \<exists>events. sy_trace s' = sy_trace s @ map Logged events"
  by (auto simp: log_event_def split: option.splits sum.splits intro: exI [of _ "[]"] exI [of _ "[e]"])

lemma call_provider_trace:
  assumes "call_provider env op rq s = (r, s')"
  shows "\<exists>es. sy_trace s' = sy_trace s @ Delivered (rq_operation_id rq) # es \<and> no_delivery es"
proof -
  obtain answer w where a: "dp_deliver (de_provider env) (sy_world s) rq = (answer, w)"
    by (cases "dp_deliver (de_provider env) (sy_world s) rq")
  let ?s1 = "s\<lparr>sy_world := w, sy_trace := sy_trace s @ [Delivered (rq_operation_id rq)]\<rparr>"
  let ?next = "\<lambda>answer. let uncertain = (\<lambda>diagnostic. ebind (mark_uncertain env op diagnostic) (\<lambda>u.
           eraise (ProjectExecutionError
             (''delivery provider outcome is uncertain; reconcile the existing operation before retrying: ''
              @ do_operation_id u))))
     in case answer of
         Answer_result result \<Rightarrow> resolve_attempt env op result
       | Answer_none \<Rightarrow> uncertain ''TypeError: delivery provider returned an invalid result''
       | Answer_other \<Rightarrow> uncertain ''TypeError: delivery provider returned an invalid result''
       | Answer_raises diagnostic \<Rightarrow> uncertain diagnostic"
  have ask: "ask_deliver env rq s = (Inr answer, ?s1)" by (simp add: ask_deliver_def a)
  have "undelivered.keeps (?next answer)"
    unfolding Let_def by (intro keeps_answer undelivered.keeps_ebind; simp)
  moreover have "?next answer ?s1 = (r, s')" using assms ask by (simp add: call_provider_def)
  ultimately have "undelivered ?s1 s'" by (rule undelivered.keepsD)
  then show ?thesis by (auto simp: undelivered_def)
qed

text \<open>What a new attempt adds to the trace, if it gets as far as the provider.\<close>

definition attempted :: "'w delivery_env \<Rightarrow> pyval option \<Rightarrow> string \<Rightarrow> string \<Rightarrow> delivery_effect list \<Rightarrow> bool" where
  "attempted env f0 candidate_id target_id es \<longleftrightarrow> (\<exists>f pending op events late.
     es = Wrote f # map Logged events @ Delivered (do_operation_id op) # late
     \<and> no_delivery late \<and> operation_ok pending
     \<and> begin_operation (de_sha env) (de_dir env) pending f0 = Inr (op, f)
     \<and> operation_key pending = (candidate_id, target_id, py_strip (dp_id (de_provider env))))"

lemma run_attempt_trace:
  assumes "run_attempt env c target op s = (r, s')"
  shows "undelivered s s' \<or> (\<exists>i events late. validate_asset_id (PStr (do_operation_id op)) ''delivery operation id'' = Inr i
    \<and> sy_trace s' = sy_trace s @ map Logged events @ Delivered i # late \<and> no_delivery late)"
proof (cases "request_init (do_operation_id op) c target")
  case (Inl e)
  then show ?thesis using assms by (simp add: run_attempt_def)
next
  case (Inr rq)
  let ?event = "(''project_delivery_started'',
       [(''operation_id'', PStr (do_operation_id op)), (''candidate_id'', PStr (dc_candidate_id c)),
        (''milestone_id'', PStr (dc_milestone_id c)), (''target_id'', PStr (dt_target_id target)),
        (''provider_id'', PStr (do_provider_id op))])"
  obtain x s1 where log: "log_event env ?event s = (x, s1)" by (cases "log_event env ?event s")
  show ?thesis
  proof (cases x)
    case (Inl e)
    then show ?thesis using assms \<open>request_init _ _ _ = Inr rq\<close> log undelivered.keepsD [OF log_event_undelivered log]
      by (simp add: run_attempt_def)
  next
    case (Inr u)
    then have "call_provider env op rq s1 = (r, s')"
      using assms \<open>request_init _ _ _ = Inr rq\<close> log by (simp add: run_attempt_def)
    from call_provider_trace [OF this] log_event_trace [OF log] \<open>request_init _ _ _ = Inr rq\<close>
    show ?thesis by (auto simp: request_init_def)
  qed
qed

lemma operation_init_key:
  assumes "operation_init i n c t p st req cmp r diag = Inr op"
  shows "do_state op = the (operation_state_of st)" and "do_candidate_id op = py_strip c" and "do_provider_id op = py_strip p"
  using assms by (auto simp: operation_init_def validate_asset_id_def Let_def split: if_splits option.splits)

lemma begun_operation_id:
  assumes "begin_operation sha dir pending f0 = Inr (op, f)"
  shows "validate_asset_id (PStr (do_operation_id op)) ''delivery operation id'' = Inr (do_operation_id op)"
proof -
  obtain n where "operation_rebuild (pending\<lparr>do_sequence := n\<rparr>) = Inr op"
    using assms by (rule begin_operation_Inr) blast
  then have "operation_rebuild op = Inr op" by (auto simp: operation_rebuild_def dest: operation_init_rebuild(1))
  then obtain i where i: "validate_asset_id (PStr (do_operation_id op)) ''delivery operation id'' = Inr i"
    and "do_operation_id op = i"
    by (cases op) (auto simp: operation_rebuild_def operation_init_def)
  then show ?thesis by simp
qed

lemma new_attempt_trace:
  assumes "new_attempt env c target provider_id s = (r, s')" and "target_ok target"
    and "validate_asset_id (PStr (dp_id (de_provider env))) label = Inr provider_id"
  shows "undelivered s s' \<or> (\<exists>es. sy_trace s' = sy_trace s @ es
    \<and> attempted env (de_others env (sy_accesses s) (sy_delivery_file s))
        (py_strip (dc_candidate_id c)) (dt_target_id target) es)"
proof -
  let ?suffix = "de_uuid env (sy_uuids s)" and ?s1 = "s\<lparr>sy_uuids := Suc (sy_uuids s)\<rparr>"
  let ?id = "operation_id_of (dc_candidate_id c) ?suffix"
  let ?pending = "\<lambda>i. operation_init i 1 (dc_candidate_id c) target provider_id
       (operation_state_value Op_PENDING) (de_now env) [] None []"
  show ?thesis
  proof (cases "rbind ?id ?pending")
    case (Inl e)
    then have "s' = ?s1"
      using assms(1) by (auto simp: new_attempt_def fresh_suffix_def ebind_def rbind_Inl_iff split: sum.splits)
    then show ?thesis by (auto simp: undelivered_def intro: exI [of _ "[]"])
  next
    case (Inr pending)
    then obtain i where i: "?id = Inr i" and pending: "?pending i = Inr pending" by auto
    define f0 where "f0 = de_others env (sy_accesses s) (sy_delivery_file s)"
    let ?s2 = "?s1\<lparr>sy_delivery_file := f0, sy_accesses := Suc (sy_accesses s)\<rparr>"
    show ?thesis
    proof (cases "begin_operation (de_sha env) (de_dir env) pending f0")
      case (Inl e)
      let ?rest = "case e of
             ProjectExecutionConflictError m \<Rightarrow>
               ebind (latest_attempt env (dc_candidate_id c) (dt_target_id target) provider_id) (\<lambda>concurrent.
               case concurrent of None \<Rightarrow> eraise e | Some op \<Rightarrow> ereturn op)
           | _ \<Rightarrow> eraise e"
      have "?rest ?s2 = (r, s')"
        using assms(1) i pending Inl
        by (simp add: new_attempt_def fresh_suffix_def ebind_def eattempt_def write_deliveries_def enter_lock_def f0_def
            Let_def)
      moreover have "undelivered.keeps ?rest"
        by (cases e) (auto intro!: undelivered.keeps_ebind undelivered.keeps_option)
      ultimately have "undelivered ?s2 s'" by (metis undelivered.keepsD)
      then show ?thesis by (simp add: undelivered_def)
    next
      case (Inr begun)
      obtain op f where b: "begin_operation (de_sha env) (de_dir env) pending f0 = Inr (op, f)"
        using Inr by (cases begun) auto
      let ?s3 = "?s2\<lparr>sy_delivery_file := f, sy_trace := sy_trace s @ [Wrote f]\<rparr>"
      have run: "run_attempt env c target op ?s3 = (r, s')"
        using assms(1) i pending b
        by (simp add: new_attempt_def fresh_suffix_def ebind_def eattempt_def write_deliveries_def enter_lock_def
            put_deliveries_def f0_def Let_def)
      have ok: "operation_ok pending" using operation_init_ok [OF pending assms(2)] by simp
      have key: "operation_key pending = (py_strip (dc_candidate_id c), dt_target_id target, py_strip (dp_id (de_provider env)))"
        using operation_init_key(2,3) [OF pending] operation_init_rebuild(2) [OF pending] assms(3)
        by (auto simp: operation_key_def validate_asset_id_def Let_def split: if_splits)
      show ?thesis using run_attempt_trace [OF run]
      proof (elim disjE exE conjE)
        assume "undelivered ?s3 s'"
        then show ?thesis by (auto simp: undelivered_def)
      next
        fix j events late
        assume j: "validate_asset_id (PStr (do_operation_id op)) ''delivery operation id'' = Inr j"
          and t: "sy_trace s' = sy_trace ?s3 @ map Logged events @ Delivered j # late" and late: "no_delivery late"
        have "j = do_operation_id op"
          using begun_operation_id [OF b] j by simp
        then have "sy_trace s' = sy_trace s @ (Wrote f # map Logged events @ Delivered (do_operation_id op) # late)"
          using t by simp
        then show ?thesis unfolding attempted_def f0_def [symmetric] using late ok b key by blast
      qed
    qed
  qed
qed

lemma require_candidate_run:
  assumes "require_candidate env cid s = (Inr c, s1)"
  shows "sy_delivery_file s1 = de_others env (sy_accesses s) (sy_delivery_file s)"
    and "sy_accesses s1 = Suc (sy_accesses s)" and "sy_trace s1 = sy_trace s" and "dc_candidate_id c = cid"
proof -
  let ?f = "de_others env (sy_accesses s) (sy_delivery_file s)"
  have g: "get_candidate (de_sha env) (de_dir env) cid ?f = Inr (Some c)"
    and s1: "s1 = s\<lparr>sy_delivery_file := ?f, sy_accesses := Suc (sy_accesses s)\<rparr>"
    using assms by (auto simp: require_candidate_def read_deliveries_def enter_lock_def ebind_def Let_def
        split: sum.splits option.splits)
  show "sy_delivery_file s1 = ?f" "sy_accesses s1 = Suc (sy_accesses s)" "sy_trace s1 = sy_trace s"
    by (simp_all add: s1)
  from g obtain st raw where st: "delivery_load (de_sha env) (de_dir env) ?f = Inr st"
    and raw: "map_of (ds_candidates st) cid = Some raw" and c: "candidate_from_mapping (de_sha env) (PDict raw) = Inr c"
    by (auto simp: get_candidate_def split: option.splits)
  have "check_candidate (de_sha env) (cid, raw) = Inr ()"
    using st map_of_SomeD [OF raw] by (auto simp: delivery_load_def delivery_runtime_init_def eachr_Inr_iff split: option.splits sum.splits)
  with c show "dc_candidate_id c = cid" by (simp add: check_candidate_def)
qed

text \<open>
  The file as the second access of \<open>deliver\<close> finds it, where it looks for the latest attempt, and
  as the third one finds it, where a new attempt is recorded.
\<close>

definition seen_file :: "'w delivery_env \<Rightarrow> 'w delivery_system \<Rightarrow> pyval option" where
  "seen_file env s = de_others env (Suc (sy_accesses s)) (de_others env (sy_accesses s) (sy_delivery_file s))"

definition found_file :: "'w delivery_env \<Rightarrow> 'w delivery_system \<Rightarrow> pyval option" where
  "found_file env s = de_others env (Suc (Suc (sy_accesses s))) (seen_file env s)"

definition may_attempt :: "bool \<Rightarrow> delivery_operation option \<Rightarrow> bool" where
  "may_attempt retry_failed latest = (case latest of None \<Rightarrow> True | Some op \<Rightarrow> do_state op = Op_FAILED \<and> retry_failed)"

lemma deliver_trace:
  assumes "deliver env cid target retry s = (r, s')" and "target_ok target"
  shows "undelivered s s' \<or> (\<exists>es latest. sy_trace s' = sy_trace s @ es
    \<and> attempted env (found_file env s) (py_strip cid) (dt_target_id target) es
    \<and> latest_operation (de_sha env) (de_dir env) cid (dt_target_id target) (py_strip (dp_id (de_provider env)))
        (seen_file env s) = Inr latest
    \<and> may_attempt retry latest)"
proof -
  obtain x s1 where c: "require_candidate env cid s = (x, s1)" by (cases "require_candidate env cid s")
  note u1 = undelivered.keepsD [OF lookups_undelivered(2) c]
  show ?thesis
  proof (cases x)
    case (Inl e)
    then show ?thesis using assms(1) c u1 by (simp add: deliver_def)
  next
    case (Inr cand)
    note run1 = require_candidate_run [OF c [unfolded Inr]]
    show ?thesis
    proof (cases "validate_asset_id (PStr (dp_id (de_provider env))) ''delivery provider id''")
      case (Inl e)
      then show ?thesis using assms(1) c u1 \<open>x = Inr cand\<close> by (simp add: deliver_def ebind_def)
    next
      case (Inr pid)
      have pid: "pid = py_strip (dp_id (de_provider env))"
        using Inr by (auto simp: validate_asset_id_def Let_def split: if_splits)
      let ?f = "seen_file env s"
      let ?s2 = "s1\<lparr>sy_delivery_file := ?f, sy_accesses := Suc (sy_accesses s1)\<rparr>"
      let ?latest = "latest_operation (de_sha env) (de_dir env) cid (dt_target_id target) pid ?f"
      have l: "latest_attempt env cid (dt_target_id target) pid s1 = (?latest, ?s2)"
        using run1(1,2) by (simp add: latest_attempt_def read_deliveries_def enter_lock_def ebind_def seen_file_def Let_def)
      let ?rest = "\<lambda>latest. case latest of
         None \<Rightarrow> new_attempt env cand target pid
       | Some op \<Rightarrow>
           if do_state op = Op_SUCCEEDED then ereturn op
           else if do_state op = Op_PENDING \<or> do_state op = Op_UNCERTAIN
           then reconcile_delivery env (do_operation_id op)
           else if do_state op = Op_FAILED \<and> \<not> retry then ereturn op
           else new_attempt env cand target pid"
      show ?thesis
      proof (cases ?latest)
        case (Inl e)
        then show ?thesis using assms(1) c \<open>x = Inr cand\<close> \<open>_ = Inr pid\<close> l run1(3)
          by (auto simp: deliver_def ebind_def undelivered_def intro: exI [of _ "[]"])
      next
        case (Inr latest)
        have run: "?rest latest ?s2 = (r, s')"
          using assms(1) c \<open>x = Inr cand\<close> \<open>_ = Inr pid\<close> l Inr by (simp add: deliver_def ebind_def)
        show ?thesis
        proof (cases "may_attempt retry latest")
          case True
          then have "new_attempt env cand target pid ?s2 = (r, s')"
            using run by (auto simp: may_attempt_def split: option.splits)
          from new_attempt_trace [OF this assms(2) \<open>_ = Inr pid\<close>] run1(2,3,4) Inr True pid
          show ?thesis by (auto simp: undelivered_def found_file_def)
        next
          case False
          then have "undelivered.keeps (?rest latest)"
            by (cases "do_state (the latest)") (auto simp: may_attempt_def split: option.splits)
          from undelivered.keepsD [OF this run] run1(3) show ?thesis by (simp add: undelivered_def)
        qed
      qed
    qed
  qed
qed

lemma no_delivery_split:
  assumes "early @ Delivered i # late = before @ Delivered j # after" and "no_delivery early" and "no_delivery late"
  shows "before = early \<and> j = i \<and> after = late"
  using assms
proof (induction early arbitrary: before)
  case Nil
  then show ?case by (cases before) (auto simp: no_delivery_def)
next
  case (Cons e early)
  then show ?case by (cases before) (auto simp: no_delivery_def)
qed

text \<open>
  Every call of the provider follows the record of a fresh attempt, the only unresolved one for its
  candidate, target and provider.
\<close>

lemma deliver_call:
  assumes "deliver env cid target retry s = (r, s')" and "target_ok target"
    and "validate_project_id (PStr (de_dir env)) = Inr (de_dir env)"
    and "sy_trace s' = sy_trace s @ before @ Delivered i # after"
  obtains f events st0 st op latest where "before = Wrote f # map Logged events"
    and "no_delivery before" and "no_delivery after"
    and "delivery_load (de_sha env) (de_dir env) (found_file env s) = Inr st0" and "delivery_load (de_sha env) (de_dir env) f = Inr st"
    and "ledger_step (ledger_of st0) (ledger_of st)"
    and "snd (ledger_of st0) i = None" and "snd (ledger_of st) i = Some op" and "do_state op = Op_PENDING"
    and "operation_key op = (py_strip cid, dt_target_id target, py_strip (dp_id (de_provider env)))"
    and "\<And>j other. unresolved_attempt (ledger_of st0) j other \<Longrightarrow> operation_key other \<noteq> operation_key op"
    and "latest_operation (de_sha env) (de_dir env) cid (dt_target_id target) (py_strip (dp_id (de_provider env)))
        (seen_file env s) = Inr latest" and "may_attempt retry latest"
proof -
  have "\<not> undelivered s s'" using assms(4) by (auto simp: undelivered_def)
  show ?thesis using deliver_trace [OF assms(1,2)]
  proof (elim disjE exE conjE)
    assume "undelivered s s'" with \<open>\<not> undelivered s s'\<close> show ?thesis by contradiction
  next
    fix es latest
    assume es: "sy_trace s' = sy_trace s @ es"
      and a: "attempted env (found_file env s) (py_strip cid) (dt_target_id target) es"
      and latest: "latest_operation (de_sha env) (de_dir env) cid (dt_target_id target) (py_strip (dp_id (de_provider env)))
        (seen_file env s) = Inr latest" "may_attempt retry latest"
  from a obtain f pending op events late where
    split: "es = Wrote f # map Logged events @ Delivered (do_operation_id op) # late"
    and quiet: "no_delivery late" and ok: "operation_ok pending"
    and b: "begin_operation (de_sha env) (de_dir env) pending (found_file env s) = Inr (op, f)"
    and key: "operation_key pending = (py_strip cid, dt_target_id target, py_strip (dp_id (de_provider env)))"
    unfolding attempted_def by blast
  have "(Wrote f # map Logged events) @ Delivered (do_operation_id op) # late = before @ Delivered i # after"
    using es split assms(4) by simp
  from no_delivery_split [OF this] quiet
  have parts: "before = Wrote f # map Logged events" "i = do_operation_id op" "after = late" by simp_all
  have pending: "do_state pending = Op_PENDING" using b by (rule begin_operation_Inr)
  show ?thesis
  proof (rule begin_operation_step [OF assms(3) ok b])
    fix st0 st :: delivery_runtime
    assume st: "delivery_load (de_sha env) (de_dir env) (found_file env s) = Inr st0" "delivery_load (de_sha env) (de_dir env) f = Inr st"
    and step: "ledger_step (ledger_of st0) (ledger_of st)"
    and persisted: "op = pending\<lparr>do_sequence := ds_next_sequence st0\<rparr>"
    and absent: "snd (ledger_of st0) (do_operation_id pending) = None"
    and now: "snd (ledger_of st) = (snd (ledger_of st0))(do_operation_id pending \<mapsto> op)"
    and only: "\<And>j other. unresolved_attempt (ledger_of st0) j other \<Longrightarrow> operation_key other \<noteq> operation_key pending"
  have same: "do_operation_id op = do_operation_id pending" "operation_key op = operation_key pending"
    "do_state op = Op_PENDING"
    using persisted pending by (simp_all add: operation_key_def)
  show ?thesis
  proof (rule that [OF parts(1) _ _ st step _ _ same(3) _ _ latest])
    show "no_delivery before" "no_delivery after" using parts quiet by simp_all
    show "snd (ledger_of st0) i = None" "snd (ledger_of st) i = Some op" using absent now parts(2) same(1) by simp_all
    show "operation_key op = (py_strip cid, dt_target_id target, py_strip (dp_id (de_provider env)))"
      using key same(2) by simp
    show "operation_key other \<noteq> operation_key op" if "unresolved_attempt (ledger_of st0) j other" for j other
      using only [OF that] same(2) by simp
  qed
qed
qed
qed

section \<open>The latest attempt\<close>

text \<open>The latest attempt for a candidate, target and provider is the one with the highest sequence.\<close>

definition stored_attempts :: "delivery_runtime \<Rightarrow> delivery_operation set" where
  "stored_attempts st = {op. \<exists>e \<in> set (ds_operations st). operation_from_mapping (PDict (snd e)) = Inr op}"

lemma sorted_last: "sorted (map f xs) \<Longrightarrow> x \<in> set xs \<Longrightarrow> f x \<le> f (last xs)"
  by (induction xs) auto

lemma repository_operations_Inr:
  assumes "repository_operations sha dir f = Inr ops"
  obtains st where "delivery_load sha dir f = Inr st" and "set ops = stored_attempts st" and "sorted (map do_sequence ops)"
proof -
  from assms obtain st unsorted where st: "delivery_load sha dir f = Inr st"
    and l: "list_all2 (\<lambda>e op. operation_from_mapping (PDict (snd e)) = Inr op) (ds_operations st) unsorted"
    and ops: "ops = sort_key do_sequence unsorted"
    by (auto simp: repository_operations_def mapr_Inr_iff split_beta)
  have "set unsorted = stored_attempts st"
  proof
    show "set unsorted \<subseteq> stored_attempts st"
      using l by (fastforce simp: stored_attempts_def list_all2_conv_all_nth in_set_conv_nth)
    show "stored_attempts st \<subseteq> set unsorted"
    proof
      fix op assume "op \<in> stored_attempts st"
      then obtain k where "k < length (ds_operations st)" "operation_from_mapping (PDict (snd (ds_operations st ! k))) = Inr op"
        by (auto simp: stored_attempts_def in_set_conv_nth)
      with list_all2_nthD [OF l this(1)] list_all2_lengthD [OF l] show "op \<in> set unsorted" by auto
    qed
  qed
  with st show ?thesis by (intro that) (simp_all add: ops)
qed

text \<open>A new attempt is allowed when there is none yet, or the latest has failed and is to be retried.\<close>

definition attempt_allowed :: "bool \<Rightarrow> string \<times> string \<times> string \<Rightarrow> delivery_runtime \<Rightarrow> bool" where
  "attempt_allowed retry k st \<longleftrightarrow> (\<forall>op \<in> stored_attempts st. operation_key op \<noteq> k)
     \<or> retry \<and> (\<exists>op \<in> stored_attempts st. operation_key op = k \<and> do_state op = Op_FAILED
         \<and> (\<forall>other \<in> stored_attempts st. operation_key other = k \<longrightarrow> do_sequence other \<le> do_sequence op))"

lemma latest_allowed:
  assumes "latest_operation sha dir c t p f = Inr latest" and "may_attempt retry latest"
  shows "\<exists>st. delivery_load sha dir f = Inr st \<and> attempt_allowed retry (c, t, p) st"
proof -
  from assms(1) obtain ops where ops: "repository_operations sha dir f = Inr ops"
    and latest: "latest = (if filter (\<lambda>op. operation_key op = (c, t, p)) ops = [] then None
      else Some (last (filter (\<lambda>op. operation_key op = (c, t, p)) ops)))"
    by (auto simp: latest_operation_def Let_def)
  let ?m = "filter (\<lambda>op. operation_key op = (c, t, p)) ops"
  obtain st where st: "delivery_load sha dir f = Inr st" "set ops = stored_attempts st" "sorted (map do_sequence ops)"
    by (rule repository_operations_Inr [OF ops])
  have "attempt_allowed retry (c, t, p) st"
  proof (cases "?m = []")
    case True
    then show ?thesis unfolding attempt_allowed_def st(2) [symmetric] by (auto simp: filter_empty_conv)
  next
    case False
    then have "last ?m \<in> set ?m" by (rule last_in_set)
    moreover have "do_sequence other \<le> do_sequence (last ?m)" if "other \<in> set ops" "operation_key other = (c, t, p)" for other
      using sorted_last [of do_sequence ?m other] sorted_filter [OF st(3)] that by simp
    moreover have "retry" "do_state (last ?m) = Op_FAILED"
      using assms(2) False by (simp_all add: latest may_attempt_def)
    ultimately show ?thesis unfolding attempt_allowed_def st(2) [symmetric] by auto
  qed
  with st(1) show ?thesis by blast
qed

section \<open>Reconciling\<close>

lemma require_operation_run:
  assumes "require_operation env i s = (Inr op, s1)"
  shows "do_operation_id op = i" and "operation_ok op"
proof -
  let ?f = "de_others env (sy_accesses s) (sy_delivery_file s)"
  have "get_operation (de_sha env) (de_dir env) i ?f = Inr (Some op)"
    using assms by (auto simp: require_operation_def read_deliveries_def enter_lock_def ebind_def Let_def
        split: sum.splits option.splits)
  then obtain st raw where st: "delivery_load (de_sha env) (de_dir env) ?f = Inr st"
    and raw: "map_of (ds_operations st) i = Some raw" and op: "operation_from_mapping (PDict raw) = Inr op"
    by (auto simp: get_operation_def split: option.splits)
  show "operation_ok op" by (rule operation_from_mapping_ok [OF op])
  obtain m where "foldr_res check_operation 0 (ds_operations st) = Inr m"
    using st raw by (auto simp: delivery_load_def delivery_runtime_init_def split: option.splits sum.splits)
  with check_operations_bound [OF this, of "m + 1"] map_of_SomeD [OF raw] op show "do_operation_id op = i"
    by (auto simp: stored_operation_def list_all_iff)
qed

lemma operation_rebuild_facts:
  assumes "operation_rebuild changed = Inr op"
  shows "do_state op = do_state changed" and "do_operation_id op = py_strip (do_operation_id changed)"
  using assms by (auto simp: operation_rebuild_def operation_init_def validate_asset_id_def Let_def split: if_splits)

lemma operation_ok_id: "operation_ok op \<Longrightarrow> py_strip (do_operation_id op) = do_operation_id op"
  unfolding operation_ok_def by (metis operation_rebuild_facts(2))

lemma update_attempt_run:
  assumes "update_attempt env changed s = (Inr op, s')"
  shows "do_state op = do_state changed \<and> do_operation_id op = py_strip (do_operation_id changed)"
proof -
  obtain op' where r: "operation_rebuild changed = Inr op'"
    using assms by (cases "operation_rebuild changed") (auto simp: update_attempt_def ebind_def)
  have "op = op'"
    using assms r by (auto simp: update_attempt_def ebind_def write_deliveries_def enter_lock_def put_deliveries_def
        Let_def elim!: update_operation_Inr split: sum.splits prod.splits)
  with operation_rebuild_facts [OF r] show ?thesis by simp
qed

lemma resolving_run:
  assumes "operation_ok op"
  shows "mark_uncertain env op diagnostic s = (Inr op', s') \<Longrightarrow> do_operation_id op' = do_operation_id op \<and> do_state op' \<noteq> Op_PENDING"
    and "resolve_attempt env op result s = (Inr op', s') \<Longrightarrow> do_operation_id op' = do_operation_id op \<and> do_state op' \<noteq> Op_PENDING"
  using operation_ok_id [OF assms]
  by (auto simp: mark_uncertain_def resolve_attempt_def Let_def dest!: update_attempt_run elim!: ebind_InrE split: if_splits)

lemma reconcile_delivery_run:
  assumes "reconcile_delivery env i s = (Inr op', s')"
  shows "do_operation_id op' = i \<and> do_state op' \<noteq> Op_PENDING"
proof -
  obtain op s1 where op: "require_operation env i s = (Inr op, s1)"
    using assms unfolding reconcile_delivery_def by (rule ebind_InrE)
  note facts = require_operation_run [OF op]
  show ?thesis
  proof (cases "state_terminal (do_state op)")
    case True
    then show ?thesis using assms op facts by (auto simp: reconcile_delivery_def state_terminal_def)
  next
    case False
    with assms op facts(1) show ?thesis
      by (auto simp: reconcile_delivery_def elim!: ebind_InrE dest!: resolving_run [OF facts(2)]
          split: if_splits provider_answer.splits)
  qed
qed

definition delivered_ids :: "delivery_effect list \<Rightarrow> string list" where
  "delivered_ids es = List.map_filter (\<lambda>e. case e of Delivered i \<Rightarrow> Some i | _ \<Rightarrow> None) es"

lemma delivered_ids_append [simp]: "delivered_ids (xs @ ys) = delivered_ids xs @ delivered_ids ys"
  by (simp add: delivered_ids_def List.map_filter_def)

lemma delivered_ids_Nil: "no_delivery es \<Longrightarrow> delivered_ids es = []"
  by (induction es) (auto simp: delivered_ids_def List.map_filter_simps no_delivery_def split: delivery_effect.splits)

lemma undelivered_ids: "undelivered s s' \<Longrightarrow> delivered_ids (sy_trace s') = delivered_ids (sy_trace s)"
  by (auto simp: undelivered_def delivered_ids_Nil)

lemma delivered_ids_split:
  assumes "i \<in> set (delivered_ids es)" obtains before after where "es = before @ Delivered i # after"
proof -
  have "Delivered i \<in> set es"
    using assms by (auto simp: delivered_ids_def List.map_filter_def split: delivery_effect.splits)
  then show ?thesis using that by (auto simp: in_set_conv_decomp)
qed

section \<open>When the provider is called\<close>

text \<open>
  All that \<open>deliver\<close> needs for an attempt \<open>i\<close> besides the absence of a rival: the candidate is
  stored, the latest attempt seen allows one, the constructors accept it, and the file it is
  recorded in holds the candidate and no attempt of that identifier.
\<close>

definition attempt_ready ::
    "'w delivery_env \<Rightarrow> string \<Rightarrow> delivery_target \<Rightarrow> bool \<Rightarrow> 'w delivery_system \<Rightarrow> string \<Rightarrow> delivery_runtime \<Rightarrow> bool" where
  "attempt_ready env cid target retry s i st \<longleftrightarrow> (\<exists>c pid latest pending.
     get_candidate (de_sha env) (de_dir env) cid (de_others env (sy_accesses s) (sy_delivery_file s)) = Inr (Some c)
     \<and> validate_asset_id (PStr (dp_id (de_provider env))) ''delivery provider id'' = Inr pid
     \<and> latest_operation (de_sha env) (de_dir env) cid (dt_target_id target) pid (seen_file env s) = Inr latest
     \<and> may_attempt retry latest
     \<and> operation_id_of cid (de_uuid env (sy_uuids s)) = Inr i
     \<and> operation_init i 1 cid target pid (operation_state_value Op_PENDING) (de_now env) [] None [] = Inr pending
     \<and> delivery_load (de_sha env) (de_dir env) (found_file env s) = Inr st \<and> distinct (keys (ds_operations st))
     \<and> snd (ledger_of st) i = None \<and> py_strip cid \<in> set (keys (ds_candidates st))
     \<and> (case sy_journal s of None \<Rightarrow> True | Some j \<Rightarrow> \<forall>e. \<exists>j'. journal_append (de_now env) j e = Inr j'))"

lemma run_attempt_calls:
  assumes "validate_asset_id (PStr (do_operation_id op)) ''delivery operation id'' = Inr (do_operation_id op)"
    and "case sy_journal s of None \<Rightarrow> True | Some j \<Rightarrow> \<forall>e. \<exists>j'. journal_append (de_now env) j e = Inr j'"
  shows "delivered_ids (sy_trace (snd (run_attempt env c target op s)))
    = delivered_ids (sy_trace s) @ [do_operation_id op]"
proof -
  let ?event = "(''project_delivery_started'',
       [(''operation_id'', PStr (do_operation_id op)), (''candidate_id'', PStr (dc_candidate_id c)),
        (''milestone_id'', PStr (dc_milestone_id c)), (''target_id'', PStr (dt_target_id target)),
        (''provider_id'', PStr (do_provider_id op))])"
  obtain rq where rq: "request_init (do_operation_id op) c target = Inr rq" "rq_operation_id rq = do_operation_id op"
    using assms(1) by (simp add: request_init_def)
  obtain s1 where log: "log_event env ?event s = (Inr (), s1)"
  proof (cases "sy_journal s")
    case None
    then show ?thesis using that by (simp add: log_event_def)
  next
    case (Some j)
    with assms(2) obtain j' where "journal_append (de_now env) j ?event = Inr j'" by auto
    then show ?thesis using that Some by (simp add: log_event_def)
  qed
  obtain r s' where run: "call_provider env op rq s1 = (r, s')" by (cases "call_provider env op rq s1")
  then have "run_attempt env c target op s = (r, s')" using rq(1) log by (simp add: run_attempt_def ebind_def)
  moreover obtain es where "sy_trace s' = sy_trace s1 @ Delivered (do_operation_id op) # es" "no_delivery es"
    using call_provider_trace [OF run] rq(2) by auto
  moreover have "delivered_ids (sy_trace s1) = delivered_ids (sy_trace s)"
    using undelivered_ids undelivered.keepsD [OF log_event_undelivered log] by blast
  moreover have "delivered_ids (Delivered (do_operation_id op) # es) = [do_operation_id op]"
    using delivered_ids_Nil [OF \<open>no_delivery es\<close>] by (simp add: delivered_ids_def List.map_filter_def)
  ultimately show ?thesis by simp
qed

lemma new_attempt_calls:
  assumes dir: "validate_project_id (PStr (de_dir env)) = Inr (de_dir env)" and t: "target_ok target"
    and pid: "validate_asset_id (PStr (dp_id (de_provider env))) label = Inr pid"
    and i: "operation_id_of (dc_candidate_id c) (de_uuid env (sy_uuids s)) = Inr i"
    and pending: "operation_init i 1 (dc_candidate_id c) target pid (operation_state_value Op_PENDING)
        (de_now env) [] None [] = Inr pending"
    and f0: "f0 = de_others env (sy_accesses s) (sy_delivery_file s)"
    and st: "delivery_load (de_sha env) (de_dir env) f0 = Inr st" "distinct (keys (ds_operations st))"
      "snd (ledger_of st) i = None" "py_strip (dc_candidate_id c) \<in> set (keys (ds_candidates st))"
    and j: "case sy_journal s of None \<Rightarrow> True | Some j \<Rightarrow> \<forall>e. \<exists>j'. journal_append (de_now env) j e = Inr j'"
  shows "delivered_ids (sy_trace (snd (new_attempt env c target pid s))) = delivered_ids (sy_trace s) @
    (if \<exists>k other. unresolved_attempt (ledger_of st) k other
        \<and> operation_key other = (py_strip (dc_candidate_id c), dt_target_id target, py_strip (dp_id (de_provider env)))
     then [] else [i])"
proof -
  let ?s2 = "s\<lparr>sy_uuids := Suc (sy_uuids s), sy_delivery_file := f0, sy_accesses := Suc (sy_accesses s)\<rparr>"
  have ii: "validate_asset_id (PStr i) ''delivery operation id'' = Inr i"
    using i validate_asset_id_fixed unfolding operation_id_of_def by blast
  have ok: "operation_ok pending" using operation_init_ok [OF pending t] by simp
  have key: "operation_key pending = (py_strip (dc_candidate_id c), dt_target_id target, py_strip (dp_id (de_provider env)))"
    using operation_init_key(2,3) [OF pending] operation_init_rebuild(2) [OF pending] pid
    by (auto simp: operation_key_def validate_asset_id_def Let_def split: if_splits)
  have state: "do_state pending = Op_PENDING"
    using operation_init_rebuild(5) [OF pending] by (simp add: operation_state_of_def)
  have oid: "do_operation_id pending = i"
    using pending ii by (auto simp: operation_init_def)
  note decides = begin_operation_decides [OF dir ok state st(1) _ _ st(2), unfolded oid operation_init_key(2) [OF pending],
      OF st(3,4), unfolded key]
  show ?thesis
  proof (cases "begin_operation (de_sha env) (de_dir env) pending f0")
    case (Inl e)
    let ?rest = "case e of
           ProjectExecutionConflictError m \<Rightarrow>
             ebind (latest_attempt env (dc_candidate_id c) (dt_target_id target) pid) (\<lambda>concurrent.
             case concurrent of None \<Rightarrow> eraise e | Some op \<Rightarrow> ereturn op)
         | _ \<Rightarrow> eraise e"
    have run: "new_attempt env c target pid s = ?rest ?s2"
      using i pending Inl
      by (simp add: new_attempt_def fresh_suffix_def ebind_def eattempt_def write_deliveries_def enter_lock_def f0 Let_def)
    have "undelivered.keeps ?rest"
      by (cases e) (auto intro!: undelivered.keeps_ebind undelivered.keeps_option)
    then have "undelivered ?s2 (snd (?rest ?s2))" by (metis undelivered.keepsD prod.collapse)
    then have "delivered_ids (sy_trace (snd (?rest ?s2))) = delivered_ids (sy_trace s)"
      using undelivered_ids by fastforce
    then show ?thesis using decides Inl unfolding run by auto
  next
    case (Inr begun)
    obtain op f where b: "begin_operation (de_sha env) (de_dir env) pending f0 = Inr (op, f)"
      using Inr by (cases begun) auto
    let ?s3 = "?s2\<lparr>sy_delivery_file := f, sy_trace := sy_trace s @ [Wrote f]\<rparr>"
    have run: "new_attempt env c target pid s = run_attempt env c target op ?s3"
      using i pending b
      by (simp add: new_attempt_def fresh_suffix_def ebind_def eattempt_def write_deliveries_def enter_lock_def
          put_deliveries_def f0 Let_def)
    have "do_operation_id op = i"
      by (rule begin_operation_step [OF dir ok b]) (simp add: oid)
    moreover have "delivered_ids [Wrote f] = []" by (simp add: delivered_ids_def List.map_filter_def)
    ultimately have "delivered_ids (sy_trace (snd (new_attempt env c target pid s))) = delivered_ids (sy_trace s) @ [i]"
      unfolding run using run_attempt_calls [OF begun_operation_id [OF b], where s = ?s3 and env = env and c = c and target = target] j by simp
    then show ?thesis using decides b by auto
  qed
qed

lemma deliver_calls:
  assumes dir: "validate_project_id (PStr (de_dir env)) = Inr (de_dir env)" and t: "target_ok target"
    and ready: "attempt_ready env cid target retry s i st"
  shows "delivered_ids (sy_trace (snd (deliver env cid target retry s))) = delivered_ids (sy_trace s) @
    (if \<exists>k other. unresolved_attempt (ledger_of st) k other
        \<and> operation_key other = (py_strip cid, dt_target_id target, py_strip (dp_id (de_provider env)))
     then [] else [i])"
proof -
  obtain c pid latest pending where
    c: "get_candidate (de_sha env) (de_dir env) cid (de_others env (sy_accesses s) (sy_delivery_file s)) = Inr (Some c)"
    and pid: "validate_asset_id (PStr (dp_id (de_provider env))) ''delivery provider id'' = Inr pid"
    and latest: "latest_operation (de_sha env) (de_dir env) cid (dt_target_id target) pid (seen_file env s) = Inr latest"
      "may_attempt retry latest"
    and i: "operation_id_of cid (de_uuid env (sy_uuids s)) = Inr i"
    and pending: "operation_init i 1 cid target pid (operation_state_value Op_PENDING) (de_now env) [] None [] = Inr pending"
    and st: "delivery_load (de_sha env) (de_dir env) (found_file env s) = Inr st" "distinct (keys (ds_operations st))"
      "snd (ledger_of st) i = None" "py_strip cid \<in> set (keys (ds_candidates st))"
    and j: "case sy_journal s of None \<Rightarrow> True | Some j \<Rightarrow> \<forall>e. \<exists>j'. journal_append (de_now env) j e = Inr j'"
    using ready unfolding attempt_ready_def by blast
  let ?f = "de_others env (sy_accesses s) (sy_delivery_file s)"
  let ?s1 = "s\<lparr>sy_delivery_file := ?f, sy_accesses := Suc (sy_accesses s)\<rparr>"
  let ?s2 = "s\<lparr>sy_delivery_file := seen_file env s, sy_accesses := Suc (Suc (sy_accesses s))\<rparr>"
  have c1: "require_candidate env cid s = (Inr c, ?s1)"
    using c by (simp add: require_candidate_def read_deliveries_def enter_lock_def ebind_def Let_def)
  have cid: "dc_candidate_id c = cid" by (rule require_candidate_run(4) [OF c1])
  have "latest_attempt env cid (dt_target_id target) pid ?s1 = (Inr latest, ?s2)"
    using latest(1) by (simp add: latest_attempt_def read_deliveries_def enter_lock_def ebind_def seen_file_def Let_def)
  then have run: "deliver env cid target retry s = new_attempt env c target pid ?s2"
    using c1 pid latest(2) by (auto simp: deliver_def ebind_def may_attempt_def split: option.splits)
  show ?thesis
    using new_attempt_calls [OF dir t pid, of c ?s2 i pending "found_file env s" st] i pending st j cid
    unfolding run by (simp add: found_file_def)
qed

end
