(* ===== verification/Exec_Delivery_Sample.thy ===== *)
theory Exec_Delivery_Sample
  imports Exec_Delivery Exec_Sample
begin

text \<open>
  A delivery file with one candidate, a provider that accepts every delivery, and two processes
  with their own identifiers, for the witnesses.
\<close>

definition sample_baseline :: row where
  "sample_baseline = [(''achieved_at'', PStr ''2025-06-01T00:00:00+00:00''), (''artifacts'', PList []),
     (''definition_revision'', PInt 3), (''delivery'', PDict [(''policy'', PStr ''candidate'')]),
     (''repositories'', PDict [(''r'', PStr ''c'')])]"

definition sample_candidate :: delivery_candidate where
  "sample_candidate = \<lparr>dc_candidate_id = ''m-0'', dc_project_id = ''d'', dc_milestone_id = ''m'',
     dc_baseline_digest = ''sha256:0'', dc_baseline = sample_baseline,
     dc_created_at = ''2025-06-01T00:00:00+00:00'', dc_schema_version = 1\<rparr>"

definition sample_target :: delivery_target where
  "sample_target = \<lparr>dt_target_id = ''t'', dt_label = []\<rparr>"

definition sample_store :: "pyval option" where
  "sample_store = delivery_write \<lparr>ds_project_id = ''d'',
     ds_candidates = [(''m-0'', candidate_as_mapping sample_candidate)], ds_operations = [],
     ds_next_sequence = 1, ds_schema_version = 1\<rparr>"

definition sample_provider :: "nat delivery_provider" where
  "sample_provider = \<lparr>dp_id = ''registry'',
     dp_deliver = (\<lambda>n rq. (Answer_result \<lparr>dr_outcome = Delivery_SUCCEEDED, dr_references = [], dr_message = []\<rparr>, n + 1)),
     dp_reconcile = (\<lambda>n rq. (Answer_none, n))\<rparr>"

definition sample_process :: "string \<Rightarrow> (nat \<Rightarrow> pyval option \<Rightarrow> pyval option) \<Rightarrow> nat delivery_env" where
  "sample_process name others = \<lparr>de_sha = (\<lambda>s. ''0''), de_now = ''2025-06-02T00:00:00+00:00'',
     de_uuid = (\<lambda>n. name), de_path = ''PROJECT_EXECUTION.yaml'', de_dir = ''d'',
     de_provider = sample_provider, de_others = others\<rparr>"

definition sample_system :: "pyval option \<Rightarrow> nat delivery_system" where
  "sample_system f = \<lparr>sy_definition_file = None, sy_runtime_file = None, sy_delivery_file = f,
     sy_journal = None, sy_world = 0, sy_accesses = 0, sy_uuids = 0, sy_trace = []\<rparr>"

text \<open>A process alone, and one that another process overtakes before its third access.\<close>

definition alone :: "nat delivery_env" where
  "alone = sample_process ''a'' (\<lambda>n f. f)"

definition sample_deliver :: "nat delivery_env \<Rightarrow> pyval option \<Rightarrow> delivery_operation res \<times> nat delivery_system" where
  "sample_deliver env f = deliver env ''m-0'' sample_target False (sample_system f)"

definition overtaken :: "nat delivery_env" where
  "overtaken = sample_process ''b'' (\<lambda>n f. if n = 2 then sy_delivery_file (snd (sample_deliver alone f)) else f)"

definition delivery_summary ::
    "delivery_operation res \<times> nat delivery_system \<Rightarrow> (operation_state \<times> (string \<times> string \<times> string) \<times> string list) option" where
  "delivery_summary run = (case run of (Inl e, s) \<Rightarrow> None
     | (Inr op, s) \<Rightarrow> Some (do_state op, operation_key op, delivered_ids (sy_trace s)))"

lemma alone_summary: "delivery_summary (sample_deliver alone sample_store)
    = Some (Op_SUCCEEDED, (''m-0'', ''t'', ''registry''), [''m-0-delivery-a''])"
  by code_simp

lemma sample_target_ok: "target_ok sample_target"
  unfolding target_ok_def by code_simp

lemma sample_candidate_ok: "candidate_ok (\<lambda>s. ''0'') sample_candidate"
  unfolding candidate_ok_def by code_simp

end
