(* ===== verification/Spec_Delivery.thy ===== *)
theory Spec_Delivery
  imports Exec_Delivery_Sample
begin

text \<open>
  Properties of delivery: the protocol of one process with the provider, the file that processes
  share, and the records in it.
\<close>

section \<open>The provider is called on a recorded attempt\<close>

lemma sample_run:
  assumes "delivery_summary (sample_deliver env sample_store) = Some (st, k, [i])"
  obtains op s' before after where "sample_deliver env sample_store = (Inr op, s')"
    and "do_state op = st" and "operation_key op = k"
    and "sy_trace s' = sy_trace (sample_system sample_store) @ before @ Delivered i # after"
proof -
  obtain r s' where run: "sample_deliver env sample_store = (r, s')" by (cases "sample_deliver env sample_store")
  then obtain op where op: "r = Inr op" "do_state op = st" "operation_key op = k" "delivered_ids (sy_trace s') = [i]"
    using assms by (cases r) (auto simp: delivery_summary_def)
  obtain before after where "sy_trace s' = before @ Delivered i # after"
    using delivered_ids_split [of i "sy_trace s'"] op(4) by auto
  then show ?thesis using that run op by (simp add: sample_system_def)
qed

text \<open>C8: \<open>deliver\<close> calls the provider at most once, and only for an attempt it has just recorded.
  The one thing it did before the call, besides logging, is to write a file in which the attempt is
  pending; the file it found at that access, whatever other processes had made of it, held no
  attempt of that identifier and no unresolved one for the same candidate, target and provider.
  It does so only if the file it had seen one access earlier held no attempt for them, or the one
  with the highest sequence had failed and a retry was asked for. Other processes may change the file before each of its accesses.\<close>

theorem provider_called_on_fresh_intent:
  assumes "deliver env cid target retry s = (r, s')" and "target_ok target"
    and "validate_project_id (PStr (de_dir env)) = Inr (de_dir env)"
    and "sy_trace s' = sy_trace s @ before @ Delivered i # after"
  shows "no_delivery before \<and> no_delivery after
    \<and> (\<exists>f events st0 st st1 op. before = Wrote f # map Logged events
        \<and> delivery_load (de_sha env) (de_dir env) (found_file env s) = Inr st0
        \<and> delivery_load (de_sha env) (de_dir env) f = Inr st
        \<and> ledger_step (ledger_of st0) (ledger_of st)
        \<and> snd (ledger_of st0) i = None \<and> snd (ledger_of st) i = Some op \<and> do_state op = Op_PENDING
        \<and> operation_key op = (py_strip cid, dt_target_id target, py_strip (dp_id (de_provider env)))
        \<and> (\<nexists>j other. unresolved_attempt (ledger_of st0) j other \<and> operation_key other = operation_key op)
        \<and> delivery_load (de_sha env) (de_dir env) (seen_file env s) = Inr st1
        \<and> attempt_allowed retry (cid, dt_target_id target, py_strip (dp_id (de_provider env))) st1)"
  by (rule deliver_call [OF assms], drule (1) latest_allowed) blast

theorem provider_called_on_fresh_intent_witness:
  "\<exists>before after. sy_trace (snd (sample_deliver alone sample_store)) = before @ Delivered ''m-0-delivery-a'' # after
    \<and> no_delivery before \<and> no_delivery after"
proof -
  obtain op s' before after where run: "sample_deliver alone sample_store = (Inr op, s')"
    and t: "sy_trace s' = sy_trace (sample_system sample_store) @ before @ Delivered ''m-0-delivery-a'' # after"
    by (rule sample_run [OF alone_summary])
  have "validate_project_id (PStr (de_dir alone)) = Inr (de_dir alone)" by code_simp
  from provider_called_on_fresh_intent [OF run [unfolded sample_deliver_def] sample_target_ok this t]
  show ?thesis using run t by (auto simp: sample_system_def)
qed

section \<open>The shared file\<close>

text \<open>C9: every write to the delivery file, by whatever process, implements the abstract ledger: the
  file stays readable, and its attempts change by a step of the ledger or not at all.\<close>

theorem repository_refines_ledger:
  assumes "repository_step sha dir f f'" and "validate_project_id (PStr dir) = Inr dir"
  shows "\<exists>st st'. delivery_load sha dir f = Inr st \<and> delivery_load sha dir f' = Inr st'
    \<and> (if ledger_of st' = ledger_of st then True else ledger_step (ledger_of st) (ledger_of st'))"
  using repository_refines [OF assms] by auto

lemma sample_valid_dir: "validate_project_id (PStr ''d'') = Inr ''d''"
  by code_simp

lemma sample_recorded: "\<exists>r. record_candidate (\<lambda>s. ''0'') ''d'' sample_candidate None = Inr (r, sample_store)"
proof -
  have "delivery_load (\<lambda>s. ''0'') ''d'' None = Inr \<lparr>ds_project_id = ''d'', ds_candidates = [], ds_operations = [],
      ds_next_sequence = 1, ds_schema_version = 1\<rparr>"
    by (simp add: delivery_load_def delivery_runtime_init_def sample_valid_dir)
  then show ?thesis
    by (auto simp: record_candidate_def sample_candidate_def sample_store_def dset_def)
qed

lemma sample_step: "repository_step (\<lambda>s. ''0'') ''d'' None sample_store"
  using sample_recorded repository_step.candidate [OF sample_candidate_ok] by blast

theorem repository_refines_ledger_witness:
  "\<exists>st st'. delivery_load (\<lambda>s. ''0'') ''d'' None = Inr st \<and> delivery_load (\<lambda>s. ''0'') ''d'' sample_store = Inr st'
    \<and> (if ledger_of st' = ledger_of st then True else ledger_step (ledger_of st) (ledger_of st'))"
  by (rule repository_refines_ledger [OF sample_step sample_valid_dir])

text \<open>C16: whatever processes share the file, from the beginning: it stays readable, every attempt is
  stored under its identifier with its own sequence number below the counter, at most one attempt
  is unresolved for each candidate, target and provider, and later files keep every attempt with its
  key and sequence, its state never becomes pending again, and a resolved attempt never changes.\<close>

theorem delivery_history:
  assumes "(repository_step sha dir)\<^sup>*\<^sup>* None f" and "(repository_step sha dir)\<^sup>*\<^sup>* f f'"
    and "validate_project_id (PStr dir) = Inr dir"
  shows "\<exists>st st'. delivery_load sha dir f = Inr st \<and> delivery_load sha dir f' = Inr st'
    \<and> ledger_ok (ledger_of st) \<and> ledger_ok (ledger_of st') \<and> ledger_extends (ledger_of st) (ledger_of st')"
proof (rule empty_ledger [OF assms(3)])
  fix st0 assume st0: "delivery_load sha dir None = Inr st0" "ledger_ok (ledger_of st0)"
  obtain st where st: "delivery_load sha dir f = Inr st" "ledger_ok (ledger_of st)"
    using repository_steps [OF assms(1,3) st0] by blast
  with repository_steps [OF assms(2,3) st] show ?thesis by blast
qed

theorem delivery_history_witness:
  "\<exists>st st'. delivery_load (\<lambda>s. ''0'') ''d'' None = Inr st \<and> delivery_load (\<lambda>s. ''0'') ''d'' sample_store = Inr st'
    \<and> ledger_ok (ledger_of st) \<and> ledger_ok (ledger_of st') \<and> ledger_extends (ledger_of st) (ledger_of st')"
  by (rule delivery_history [OF rtranclp.rtrancl_refl r_into_rtranclp, of "\<lambda>s. ''0''" "''d''", OF sample_step sample_valid_dir])

section \<open>Records\<close>

text \<open>A delivery record that can be read is read back unchanged after it is written, and a
  candidate's identity is the digest of its Milestone and its canonical baseline.\<close>

theorem delivery_records_survive:
  "(case operation_from_mapping raw of
      Inl e \<Rightarrow> True
    | Inr op \<Rightarrow> operation_from_mapping (PDict (operation_as_mapping op)) = Inr op)
   \<and> (case candidate_from_mapping sha raw' of
      Inl e \<Rightarrow> True
    | Inr c \<Rightarrow> candidate_from_mapping sha (PDict (candidate_as_mapping c)) = Inr c
        \<and> normal_row (dc_baseline c) = dc_baseline c
        \<and> dc_candidate_id c = candidate_id_of sha (dc_milestone_id c) (baseline_digest sha (dc_baseline c)))"
proof (intro conjI)
  show "case operation_from_mapping raw of Inl e \<Rightarrow> True
    | Inr op \<Rightarrow> operation_from_mapping (PDict (operation_as_mapping op)) = Inr op"
    by (cases "operation_from_mapping raw") (simp_all add: operation_round_trip operation_from_mapping_ok)
  show "case candidate_from_mapping sha raw' of Inl e \<Rightarrow> True
    | Inr c \<Rightarrow> candidate_from_mapping sha (PDict (candidate_as_mapping c)) = Inr c
        \<and> normal_row (dc_baseline c) = dc_baseline c
        \<and> dc_candidate_id c = candidate_id_of sha (dc_milestone_id c) (baseline_digest sha (dc_baseline c))"
  proof (cases "candidate_from_mapping sha raw'")
    case (Inr c)
    note ok = candidate_from_mapping_ok [OF Inr]
    note facts = candidate_init_facts [OF ok [unfolded candidate_ok_def]]
    show ?thesis using Inr candidate_round_trip [OF ok] facts(1,3,4) by simp
  qed simp
qed

section \<open>Reconciling and racing\<close>

text \<open>C38: neither reconciling an attempt nor preparing a candidate asks the provider to deliver,
  whether it returns or raises, and a reconciliation that returns reports the attempt it was asked
  about as resolved or uncertain.\<close>

theorem reconciliation_never_delivers:
  "delivered_ids (sy_trace (snd (reconcile_delivery env i s))) = delivered_ids (sy_trace s)
   \<and> delivered_ids (sy_trace (snd (prepare_candidate env m s))) = delivered_ids (sy_trace s)
   \<and> (case reconcile_delivery env i s of
        (Inl e, s') \<Rightarrow> True
      | (Inr op, s') \<Rightarrow> do_operation_id op = i \<and> do_state op \<in> {Op_SUCCEEDED, Op_FAILED, Op_UNCERTAIN})"
proof (intro conjI)
  show "delivered_ids (sy_trace (snd (reconcile_delivery env i s))) = delivered_ids (sy_trace s)"
    using reconcile_delivery_undelivered undelivered_ids unfolding undelivered.keeps_def by blast
  show "delivered_ids (sy_trace (snd (prepare_candidate env m s))) = delivered_ids (sy_trace s)"
    using prepare_candidate_undelivered undelivered_ids unfolding undelivered.keeps_def by blast
  show "case reconcile_delivery env i s of (Inl e, s') \<Rightarrow> True
      | (Inr op, s') \<Rightarrow> do_operation_id op = i \<and> do_state op \<in> {Op_SUCCEEDED, Op_FAILED, Op_UNCERTAIN}"
    using reconcile_delivery_run [of env i s]
    by (auto split: prod.splits sum.splits) (metis operation_state.exhaust)
qed







end
