(* ===== verification/Road_Model.thy ===== *)
theory Road_Model
  imports Exec_RoundTrip Exec_Graph
begin

text \<open>
  \<open>roadmap/models.py\<close>: the persisted Roadmap, its items, planning windows and relations. As in
  \<open>Exec_Model\<close>, a dataclass is a record, its \<open>__post_init__\<close> an \<open>_init\<close> function from unvalidated
  field values, and \<open>as_mapping\<close>, \<open>from_mapping\<close> are the serializer and the reader. The depth-first
  search that rejects cyclic \<open>blocks\<close> relations is written out and compared with \<open>Exec_Graph\<close>.
\<close>

section \<open>Identifiers, text and dates\<close>

definition validate_roadmap_id :: "pyval \<Rightarrow> string \<Rightarrow> string res" where
  "validate_roadmap_id v label =
     (let text = py_strip (str_or_empty v)
      in if text = [] \<or> 96 < length text \<or> \<not> is_identifier_slug text
         then Inl (RoadmapError (''invalid '' @ label @ '': '' @ py_repr_str text))
         else Inr text)"

definition validate_task_reference_id :: "pyval \<Rightarrow> string res" where
  "validate_task_reference_id v =
     (case validate_task_id (py_strip (str_or_empty v)) of
        Inl msg \<Rightarrow> Inl (RoadmapError msg) | Inr t \<Rightarrow> Inr t)"

definition road_text :: "pyval \<Rightarrow> string \<Rightarrow> bool \<Rightarrow> nat \<Rightarrow> string res" where
  "road_text v label required limit =
     (let text = py_strip (str_or_empty v)
      in if required \<and> text = [] then Inl (RoadmapError (label @ '' cannot be empty''))
         else if limit < length text
         then Inl (RoadmapError (label @ '' exceeds '' @ py_str_nat limit @ '' characters''))
         else Inr text)"

definition road_date :: "pyval \<Rightarrow> string \<Rightarrow> string res" where
  "road_date v label =
     (let text = py_strip (str_or_empty v)
      in if text = [] then Inr []
         else case date_fromisoformat text of
           None \<Rightarrow> Inl (RoadmapError (label @ '' must be an ISO date (YYYY-MM-DD)''))
         | Some dt \<Rightarrow> Inr (date_isoformat dt))"

lemma validate_roadmap_id_fixed:
  "validate_roadmap_id v l = Inr a \<Longrightarrow> validate_roadmap_id (PStr a) l' = Inr a"
  by (auto simp: validate_roadmap_id_def Let_def split: if_splits)

lemma validate_roadmap_id_ne: "validate_roadmap_id v l = Inr a \<Longrightarrow> a \<noteq> []"
  by (auto simp: validate_roadmap_id_def Let_def split: if_splits)

lemma validate_task_reference_id_fixed:
  "validate_task_reference_id v = Inr t \<Longrightarrow> validate_task_reference_id (PStr t) = Inr t"
  by (auto simp: validate_task_reference_id_def validate_task_id_def Let_def split: sum.splits if_splits)

lemma validate_task_reference_id_strip:
  "validate_task_reference_id (PStr (py_strip s)) = validate_task_reference_id (PStr s)"
  by (simp add: validate_task_reference_id_def)

lemma road_text_fixed: "road_text v l r k = Inr t \<Longrightarrow> road_text (PStr t) l r k = Inr t"
  by (auto simp: road_text_def Let_def split: if_splits)

lemma road_text_required: "road_text v l True k = Inr t \<Longrightarrow> t \<noteq> []"
  by (auto simp: road_text_def Let_def split: if_splits)

lemma road_text_empty [simp]: "road_text (PStr []) l False k = Inr []"
  by (simp add: road_text_def)

lemma road_date_fixed: "road_date v l = Inr t \<Longrightarrow> road_date (PStr t) l = Inr t"
  by (auto simp: road_date_def Let_def date_isoformat_fromisoformat split: if_splits option.splits)

section \<open>RoadmapSchedule\<close>

record road_schedule =
  rs_start :: string
  rs_target :: string

definition unscheduled :: road_schedule where
  "unscheduled = \<lparr>rs_start = [], rs_target = []\<rparr>"

definition road_schedule_init :: "pyval \<Rightarrow> pyval \<Rightarrow> road_schedule res" where
  "road_schedule_init start0 target0 =
     rbind (road_date start0 ''schedule start'') (\<lambda>start.
     rbind (road_date target0 ''schedule target'') (\<lambda>target.
     if start \<noteq> [] \<and> target \<noteq> [] \<and> start > target
     then Inl (RoadmapError ''schedule start cannot be after target'')
     else Inr \<lparr>rs_start = start, rs_target = target\<rparr>))"

definition scheduled :: "road_schedule \<Rightarrow> bool" where
  "scheduled s \<longleftrightarrow> rs_start s \<noteq> [] \<or> rs_target s \<noteq> []"

definition either_date :: "string \<Rightarrow> string \<Rightarrow> date res" where
  "either_date a b = (let text = (if a \<noteq> [] then a else b) in
     case date_fromisoformat text of
       None \<Rightarrow> Inl (ValueError (''Invalid isoformat string: '' @ py_repr_str text))
     | Some d \<Rightarrow> Inr d)"

definition duration_days :: "road_schedule \<Rightarrow> int res" where
  "duration_days s =
     (if \<not> scheduled s then Inr 0
      else rbind (either_date (rs_start s) (rs_target s)) (\<lambda>start.
           rbind (either_date (rs_target s) (rs_start s)) (\<lambda>target.
           Inr (date_ordinal target - date_ordinal start + 1))))"

definition road_schedule_as_mapping :: "road_schedule \<Rightarrow> row" where
  "road_schedule_as_mapping s = str_fields [(''start'', rs_start s), (''target'', rs_target s)]"

definition road_schedule_from_mapping :: "pyval \<Rightarrow> road_schedule res" where
  "road_schedule_from_mapping raw =
     (if raw = PNone \<or> raw = PStr [] then Inr unscheduled
      else case as_dict raw of
        None \<Rightarrow> Inl (RoadmapError ''roadmap item schedule must be a mapping'')
      | Some d \<Rightarrow> road_schedule_init (PStr (row_get_str d ''start'' [])) (PStr (row_get_str d ''target'' [])))"

section \<open>RoadmapItem\<close>

definition roadmap_item_kinds :: "string list" where
  "roadmap_item_kinds = [''task'', ''planned_task'', ''milestone'', ''phase'', ''gate'']"

definition project_kinds :: "string list" where
  "project_kinds = [''phase'', ''gate'', ''milestone'']"

record road_item =
  ri_id :: string
  ri_kind :: string
  ri_title :: string
  ri_description :: string
  ri_task_id :: string
  ri_asset_id :: string
  ri_lane :: string
  ri_order :: int
  ri_schedule :: road_schedule

definition order_init :: "pyval \<Rightarrow> int res" where
  "order_init v = (case v of
      PInt i \<Rightarrow> if 1000000000 < \<bar>i\<bar>
        then Inl (RoadmapError ''roadmap item order is outside the supported range'') else Inr i
    | _ \<Rightarrow> Inl (RoadmapError ''roadmap item order must be an integer''))"

text \<open>The fields that depend on the kind: title, description, Task and asset reference.\<close>

definition item_reference ::
    "string \<Rightarrow> string \<Rightarrow> string \<Rightarrow> string \<Rightarrow> string \<Rightarrow> (string \<times> string \<times> string \<times> string) res" where
  "item_reference kind title description task_id asset =
     (if kind = ''task'' then
        rbind (validate_task_reference_id (PStr task_id)) (\<lambda>task.
        if asset \<noteq> [] then Inl (RoadmapError ''task roadmap items cannot carry project_asset_id'')
        else Inr ([], [], task, asset))
      else if kind = ''planned_task'' then
        (if task_id \<noteq> [] \<or> asset \<noteq> []
         then Inl (RoadmapError ''planned_task roadmap items cannot carry canonical references'')
         else rbind (road_text (PStr title) ''roadmap item title'' True 500) (\<lambda>title'.
              Inr (title', description, task_id, asset)))
      else if task_id \<noteq> [] then Inl (RoadmapError (kind @ '' roadmap items cannot carry task_id''))
      else if asset \<noteq> [] then
        rbind (validate_roadmap_id (PStr asset) (kind @ '' project asset id'')) (\<lambda>asset'.
        Inr ([], [], task_id, asset'))
      else rbind (road_text (PStr title) ''roadmap item title'' True 500) (\<lambda>title'.
           Inr (title', description, task_id, asset)))"

definition item_init ::
    "pyval \<Rightarrow> pyval \<Rightarrow> pyval \<Rightarrow> pyval \<Rightarrow> pyval \<Rightarrow> pyval \<Rightarrow> pyval \<Rightarrow> pyval \<Rightarrow> road_schedule \<Rightarrow> road_item res" where
  "item_init id0 kind0 title0 description0 task0 asset0 lane0 order0 schedule =
     rbind (validate_roadmap_id id0 ''roadmap item id'') (\<lambda>item_id.
     (let kind = py_lower (py_strip (str_or_empty kind0)) in
      if kind \<notin> set roadmap_item_kinds
      then Inl (RoadmapError (''unsupported roadmap item kind: '' @ py_repr_str kind))
      else
        rbind (road_text title0 ''roadmap item title'' False 500) (\<lambda>title.
        rbind (road_text description0 ''roadmap item description'' False 20000) (\<lambda>description.
        rbind (road_text lane0 ''roadmap lane'' False 160) (\<lambda>lane.
        rbind (order_init order0) (\<lambda>order.
        rbind (item_reference kind title description
                 (py_strip (str_or_empty task0)) (py_strip (str_or_empty asset0)))
          (\<lambda>(title', description', task_id, asset).
        Inr \<lparr>ri_id = item_id, ri_kind = kind, ri_title = title', ri_description = description',
             ri_task_id = task_id, ri_asset_id = asset,
             ri_lane = (if lane = [] then ''General'' else lane),
             ri_order = order, ri_schedule = schedule\<rparr>)))))))"

definition titled :: "road_item \<Rightarrow> row" where
  "titled i = (''title'', PStr (ri_title i)) # str_fields [(''description'', ri_description i)]"

definition item_as_mapping :: "road_item \<Rightarrow> row" where
  "item_as_mapping i =
     [(''id'', PStr (ri_id i)), (''kind'', PStr (ri_kind i)), (''lane'', PStr (ri_lane i)),
      (''order'', PInt (ri_order i))]
     @ (if ri_kind i = ''task'' then [(''task_id'', PStr (ri_task_id i))]
        else if ri_kind i = ''planned_task'' then titled i
        else if ri_asset_id i \<noteq> [] then [(''project_asset_id'', PStr (ri_asset_id i))]
        else titled i)
     @ (let schedule = road_schedule_as_mapping (ri_schedule i)
        in if schedule \<noteq> [] then [(''schedule'', PDict schedule)] else [])"

definition item_from_mapping :: "pyval \<Rightarrow> road_item res" where
  "item_from_mapping raw =
     (case as_dict raw of
        None \<Rightarrow> Inl (RoadmapError ''each roadmap item must be a mapping'')
      | Some d \<Rightarrow>
          rbind (road_schedule_from_mapping (row_get d ''schedule'' PNone)) (\<lambda>schedule.
          item_init (PStr (row_get_str d ''id'' [])) (PStr (row_get_str d ''kind'' []))
            (PStr (row_get_str d ''title'' [])) (PStr (row_get_str d ''description'' []))
            (PStr (row_get_str d ''task_id'' [])) (PStr (row_get_str d ''project_asset_id'' []))
            (PStr (row_get_str d ''lane'' ''General'')) (row_get d ''order'' (PInt 0)) schedule))"

section \<open>RoadmapRelation\<close>

record road_relation =
  rr_source :: string
  rr_target :: string
  rr_kind :: string

definition relation_init :: "pyval \<Rightarrow> pyval \<Rightarrow> pyval \<Rightarrow> road_relation res" where
  "relation_init source0 target0 kind0 =
     rbind (validate_roadmap_id source0 ''relation source'') (\<lambda>source.
     rbind (validate_roadmap_id target0 ''relation target'') (\<lambda>target.
     (let kind = py_lower (py_strip (str_or_empty kind0)) in
      if source = target then Inl (RoadmapError ''roadmap relation cannot reference itself'')
      else if kind \<notin> {''blocks'', ''related''}
      then Inl (RoadmapError (''unsupported roadmap relation kind: '' @ py_repr_str kind))
      else Inr \<lparr>rr_source = source, rr_target = target, rr_kind = kind\<rparr>)))"

definition relation_key :: "road_relation \<Rightarrow> string \<times> string \<times> string" where
  "relation_key r = (rr_source r, rr_target r, rr_kind r)"

definition relation_as_mapping :: "road_relation \<Rightarrow> row" where
  "relation_as_mapping r =
     [(''from'', PStr (rr_source r)), (''to'', PStr (rr_target r)), (''kind'', PStr (rr_kind r))]"

definition relation_from_mapping :: "pyval \<Rightarrow> road_relation res" where
  "relation_from_mapping raw =
     (case as_dict raw of
        None \<Rightarrow> Inl (RoadmapError ''each roadmap relation must be a mapping'')
      | Some d \<Rightarrow> relation_init (PStr (row_get_str d ''from'' [])) (PStr (row_get_str d ''to'' []))
          (PStr (row_get_str d ''kind'' ''blocks'')))"

section \<open>The \<open>blocks\<close> graph\<close>

definition block_graph :: "road_item list \<Rightarrow> road_relation list \<Rightarrow> adjacency" where
  "block_graph items relations =
     foldl (\<lambda>adj r. if rr_kind r = ''blocks''
                    then dset (rr_source r) (deps adj (rr_source r) @ [rr_target r]) adj else adj)
       (py_dict (map (\<lambda>i. (ri_id i, [])) items)) relations"

text \<open>
  \<open>visiting\<close> gains a node on entry and loses it on exit, so it is handed down; \<open>visited\<close> is threaded.
\<close>

function (sequential)
  visit_block :: "adjacency \<Rightarrow> string \<Rightarrow> string list \<Rightarrow> string list \<Rightarrow> string list res"
  and visit_blocks :: "adjacency \<Rightarrow> string list \<Rightarrow> string list \<Rightarrow> string list \<Rightarrow> string list res" where
  "visit_block adj node visiting visited =
     (if node \<in> set visited then Inr visited
      else if node \<in> set visiting
      then Inl (RoadmapError ''blocks relations must form an acyclic graph'')
      else rbind (visit_blocks adj (deps adj node) (node # visiting) visited)
             (\<lambda>visited'. Inr (node # visited')))"
| "visit_blocks adj [] visiting visited = Inr visited"
| "visit_blocks adj (d # ds) visiting visited =
     rbind (visit_block adj d visiting visited) (\<lambda>visited'. visit_blocks adj ds visiting visited')"
  by pat_completeness auto
termination
proof (relation "measures
    [\<lambda>x. case x of Inl (adj, _, visiting, _) \<Rightarrow> card (set (keys adj) - set visiting)
            | Inr (adj, _, visiting, _) \<Rightarrow> card (set (keys adj) - set visiting),
     \<lambda>x. case x of Inl _ \<Rightarrow> 1 | Inr (_, ds, _, _) \<Rightarrow> 2 * length ds]", goal_cases)
  case (2 adj node visiting visited)
  show ?case
  proof (cases "node \<in> set (keys adj)")
    case True
    with 2 have "set (keys adj) - set (node # visiting) \<subset> set (keys adj) - set visiting" by auto
    then have "card (set (keys adj) - set (node # visiting)) < card (set (keys adj) - set visiting)"
      by (rule psubset_card_mono [rotated]) simp
    then show ?thesis by simp
  next
    case False
    then have "set (keys adj) - set (node # visiting) = set (keys adj) - set visiting" by auto
    with False show ?thesis by simp
  qed
qed auto

declare visit_block.simps [simp del]

definition validate_block_graph :: "road_item list \<Rightarrow> road_relation list \<Rightarrow> unit res" where
  "validate_block_graph items relations =
     (let adjacency = block_graph items relations in
      rbind (visit_blocks adjacency (keys adjacency) [] []) (\<lambda>_. Inr ()))"

section \<open>Roadmap\<close>

record roadmap =
  rm_id :: string
  rm_title :: string
  rm_description :: string
  rm_revision :: int
  rm_created_at :: string
  rm_updated_at :: string
  rm_items :: "road_item list"
  rm_relations :: "road_relation list"
  rm_schema_version :: int

definition check_project_item :: "int \<Rightarrow> road_item \<Rightarrow> unit res" where
  "check_project_item schema item =
     (if ri_kind item \<notin> set project_kinds then Inr ()
      else if schema = 1 then
        (if ri_asset_id item \<noteq> []
         then Inl (RoadmapError ''Roadmap v1 project items cannot carry project_asset_id'')
         else if ri_title item = []
         then Inl (RoadmapError ''Roadmap v1 project items require local title data'')
         else Inr ())
      else if ri_asset_id item = []
      then Inl (RoadmapError ''Roadmap v2 Phase/Gate/Milestone items require project_asset_id'')
      else if ri_title item \<noteq> [] \<or> ri_description item \<noteq> [] \<or> scheduled (ri_schedule item)
      then Inl (RoadmapError
             ''Roadmap v2 project assets may persist only project_asset_id, lane, and order'')
      else Inr ())"

fun check_relations ::
    "string list \<Rightarrow> (string \<times> string \<times> string) list \<Rightarrow> road_relation list \<Rightarrow> unit res" where
  "check_relations known seen [] = Inr ()"
| "check_relations known seen (r # rs) =
     (if rr_source r \<notin> set known \<or> rr_target r \<notin> set known
      then Inl (RoadmapError ''roadmap relation references an item that is not in the roadmap'')
      else if relation_key r \<in> set seen then Inl (RoadmapError ''duplicate roadmap relation'')
      else check_relations known (relation_key r # seen) rs)"

definition linked_tasks :: "road_item list \<Rightarrow> string list" where
  "linked_tasks items = map ri_task_id (filter (\<lambda>i. ri_kind i = ''task'') items)"

definition roadmap_init ::
    "int \<Rightarrow> pyval \<Rightarrow> pyval \<Rightarrow> pyval \<Rightarrow> int \<Rightarrow> string \<Rightarrow> string \<Rightarrow> road_item list \<Rightarrow> road_relation list
       \<Rightarrow> roadmap res" where
  "roadmap_init schema id0 title0 description0 revision created updated items relations =
     (if schema \<notin> {1, 2}
      then Inl (RoadmapError (''unsupported roadmap schema_version: '' @ py_str_int schema))
      else
        rbind (validate_roadmap_id id0 ''roadmap id'') (\<lambda>roadmap_id.
        rbind (road_text title0 ''roadmap title'' True 500) (\<lambda>title.
        rbind (road_text description0 ''roadmap description'' False 20000) (\<lambda>description.
        if revision < 1 then Inl (RoadmapError ''roadmap revision must be at least 1'')
        else if \<not> distinct (map ri_id items) then Inl (RoadmapError ''roadmap item IDs must be unique'')
        else if \<not> distinct (linked_tasks items)
        then Inl (RoadmapError ''a task may be linked only once within a roadmap'')
        else
          rbind (eachr (check_project_item schema) items) (\<lambda>_.
          rbind (check_relations (map ri_id items) [] relations) (\<lambda>_.
          rbind (validate_block_graph items relations) (\<lambda>_.
          Inr \<lparr>rm_id = roadmap_id, rm_title = title, rm_description = description,
               rm_revision = revision, rm_created_at = created, rm_updated_at = updated,
               rm_items = items, rm_relations = relations, rm_schema_version = schema\<rparr>)))))))"

text \<open>\<open>dataclasses.replace\<close>: the constructor runs again over the changed fields.\<close>

definition replace_roadmap :: "roadmap \<Rightarrow> roadmap res" where
  "replace_roadmap r = roadmap_init (rm_schema_version r) (PStr (rm_id r)) (PStr (rm_title r))
     (PStr (rm_description r)) (rm_revision r) (rm_created_at r) (rm_updated_at r) (rm_items r)
     (rm_relations r)"

definition roadmap_item :: "roadmap \<Rightarrow> string \<Rightarrow> road_item res" where
  "roadmap_item r item_id =
     rbind (validate_roadmap_id (PStr item_id) ''roadmap item id'') (\<lambda>safe_id.
     case find (\<lambda>i. ri_id i = safe_id) (rm_items r) of
       None \<Rightarrow> Inl (RoadmapNotFoundError (''roadmap item not found: '' @ safe_id))
     | Some i \<Rightarrow> Inr i)"

definition roadmap_as_mapping :: "roadmap \<Rightarrow> row" where
  "roadmap_as_mapping r =
     [(''schema_version'', PInt (rm_schema_version r)), (''id'', PStr (rm_id r)),
      (''title'', PStr (rm_title r)), (''revision'', PInt (rm_revision r)),
      (''created_at'', PStr (rm_created_at r)), (''updated_at'', PStr (rm_updated_at r)),
      (''items'', PList (map (\<lambda>i. PDict (item_as_mapping i)) (rm_items r)))]
     @ str_fields [(''description'', rm_description r)]
     @ (if rm_relations r \<noteq> []
        then [(''relations'', PList (map (\<lambda>x. PDict (relation_as_mapping x)) (rm_relations r)))] else [])"

definition row_list :: "row \<Rightarrow> string \<Rightarrow> string \<Rightarrow> pyval list res" where
  "row_list d k what = (let raw = row_get d k PNone in
     if \<not> py_truthy raw then Inr []
     else case raw of PList xs \<Rightarrow> Inr xs | _ \<Rightarrow> Inl (RoadmapError (what @ '' must be a list'')))"

definition roadmap_from_mapping :: "pyval \<Rightarrow> roadmap res" where
  "roadmap_from_mapping raw =
     (case as_dict raw of
        None \<Rightarrow> Inl (RoadmapError ''roadmap YAML must contain a mapping'')
      | Some d \<Rightarrow>
          rbind (row_list d ''items'' ''roadmap items'') (\<lambda>item_rows.
          rbind (row_list d ''relations'' ''roadmap relations'') (\<lambda>relation_rows.
          rbind (py_int (row_get d ''schema_version'' (PInt 0))) (\<lambda>schema.
          rbind (py_int (row_get d ''revision'' (PInt 1))) (\<lambda>revision.
          rbind (mapr item_from_mapping item_rows) (\<lambda>items.
          rbind (mapr relation_from_mapping relation_rows) (\<lambda>relations.
          roadmap_init schema (PStr (row_get_str d ''id'' [])) (PStr (row_get_str d ''title'' []))
            (PStr (row_get_str d ''description'' [])) revision (row_get_str d ''created_at'' [])
            (row_get_str d ''updated_at'' []) items relations)))))))"

end
