(* ===== verification/Road_RoundTrip.thy ===== *)
theory Road_RoundTrip
  imports Road_Model
begin

text \<open>
  What the constructors of \<open>roadmap/models.py\<close> guarantee. The search for cyclic \<open>blocks\<close> relations
  succeeds exactly when the relation is acyclic, the constructor of a Roadmap accepts exactly the
  well-formed documents, and a constructed Roadmap is read back from its mapping unchanged.
\<close>

section \<open>The search against the graph\<close>

text \<open>It visits what the dependency order of \<open>Exec_Graph\<close> visits, and fails where that one fails.\<close>

lemma visit_block_visit:
  "(\<exists>v. visit_block adj n visiting visited = Inr v \<and> (\<exists>r. visit adj l n trail visiting (visited, result) = Inr (v, r)))
     \<or> ((\<exists>e. visit_block adj n visiting visited = Inl e) \<and> (\<exists>e. visit adj l n trail visiting (visited, result) = Inl e))"
  and visit_blocks_visit_deps:
  "(\<exists>v. visit_blocks adj ns visiting visited = Inr v \<and> (\<exists>r. visit_deps adj l ns trail visiting (visited, result) = Inr (v, r)))
     \<or> ((\<exists>e. visit_blocks adj ns visiting visited = Inl e) \<and> (\<exists>e. visit_deps adj l ns trail visiting (visited, result) = Inl e))"
proof (induction adj n visiting visited and adj ns visiting visited
    arbitrary: trail result and trail result rule: visit_block_visit_blocks.induct)
  case (1 adj node visiting visited)
  show ?case
  proof (cases "node \<in> set visited \<or> node \<in> set visiting")
    case False
    then show ?thesis
      using 1 [where trail = "trail @ [node]" and result = result]
      by (auto simp: visit_block.simps visit.simps)
  qed (auto simp: visit_block.simps visit.simps)
next
  case (3 adj d ds visiting visited)
  from 3(1) [of trail result] show ?case
  proof (elim disjE exE conjE)
    fix v r
    assume v: "visit_block adj d visiting visited = Inr v" "visit adj l d trail visiting (visited, result) = Inr (v, r)"
    with 3(2) [OF v(1), of trail r] show ?thesis by simp
  qed auto
qed simp

lemma visit_blocks_acyclic:
  "(\<exists>v. visit_blocks adj (keys adj) [] [] = Inr v) \<longleftrightarrow> acyclic (edges adj)"
  using visit_blocks_visit_deps [of adj "keys adj" "[]" "[]" "[]" "[]" "[]"]
    topo.order_Inr_iff_acyclic [of adj "[]"]
  by (auto simp: topological_order_def)

lemma block_graph_step:
  assumes "set (map rr_source rels) \<subseteq> set (keys adj)"
  shows "keys (foldl (\<lambda>adj r. if rr_kind r = ''blocks''
            then dset (rr_source r) (deps adj (rr_source r) @ [rr_target r]) adj else adj) adj rels) = keys adj"
    and "edges (foldl (\<lambda>adj r. if rr_kind r = ''blocks''
            then dset (rr_source r) (deps adj (rr_source r) @ [rr_target r]) adj else adj) adj rels)
         = edges adj \<union> {(rr_source r, rr_target r) |r. r \<in> set rels \<and> rr_kind r = ''blocks''}"
proof -
  let ?step = "\<lambda>adj r. if rr_kind r = ''blocks''
            then dset (rr_source r) (deps adj (rr_source r) @ [rr_target r]) adj else adj"
  have "keys (foldl ?step adj rels) = keys adj
     \<and> edges (foldl ?step adj rels) = edges adj \<union> {(rr_source r, rr_target r) |r. r \<in> set rels \<and> rr_kind r = ''blocks''}"
    using assms
  proof (induction rels arbitrary: adj)
    case (Cons r rels)
    have k: "keys (?step adj r) = keys adj" using Cons.prems by (auto simp: keys_dset_mem)
    have e: "edges (?step adj r) = edges adj \<union> (if rr_kind r = ''blocks'' then {(rr_source r, rr_target r)} else {})"
      by (auto simp: edges_def deps_def split: if_splits)
    have "set (map rr_source rels) \<subseteq> set (keys (?step adj r))" using Cons.prems by (simp add: k)
    from Cons.IH [OF this] show ?case by (simp only: k e foldl.simps) auto
  qed simp
  then show "keys (foldl ?step adj rels) = keys adj"
    and "edges (foldl ?step adj rels) = edges adj \<union> {(rr_source r, rr_target r) |r. r \<in> set rels \<and> rr_kind r = ''blocks''}"
    by simp_all
qed

definition blocks :: "road_relation list \<Rightarrow> (string \<times> string) set" where
  "blocks rels = {(rr_source r, rr_target r) |r. r \<in> set rels \<and> rr_kind r = ''blocks''}"

lemma validate_block_graph_iff:
  assumes "distinct (map ri_id items)" and "set (map rr_source rels) \<subseteq> set (map ri_id items)"
  shows "validate_block_graph items rels = Inr () \<longleftrightarrow> acyclic (blocks rels)"
proof -
  let ?start = "map (\<lambda>i. (ri_id i, [] :: string list)) items"
  have k: "keys ?start = map ri_id items" by (simp add: comp_def)
  have "deps ?start n = []" for n by (induction items) (simp_all add: deps_def)
  then have "edges ?start = {}" by (simp add: edges_def)
  moreover have d: "py_dict ?start = ?start" using assms(1) by (simp add: k del: map_map)
  ultimately have "edges (block_graph items rels) = blocks rels"
    using block_graph_step(2) [of rels ?start] assms(2) by (simp add: block_graph_def blocks_def k del: map_map)
  then show ?thesis
    using visit_blocks_acyclic [of "block_graph items rels"]
    by (auto simp: validate_block_graph_def Let_def rbind_Inr_iff)
qed

section \<open>Well-formed documents\<close>

definition relations_wf :: "string list \<Rightarrow> road_relation list \<Rightarrow> bool" where
  "relations_wf known rels \<longleftrightarrow> (\<forall>r \<in> set rels. rr_source r \<in> set known \<and> rr_target r \<in> set known)
     \<and> distinct (map relation_key rels)"

definition project_item_wf :: "int \<Rightarrow> road_item \<Rightarrow> bool" where
  "project_item_wf schema i \<longleftrightarrow> (ri_kind i \<in> set project_kinds \<longrightarrow>
     (if schema = 1 then ri_asset_id i = [] \<and> ri_title i \<noteq> []
      else ri_asset_id i \<noteq> [] \<and> ri_title i = [] \<and> ri_description i = [] \<and> \<not> scheduled (ri_schedule i)))"

definition roadmap_wf :: "roadmap \<Rightarrow> bool" where
  "roadmap_wf r \<longleftrightarrow> (rm_schema_version r = 1 \<or> rm_schema_version r = 2) \<and> 1 \<le> rm_revision r
     \<and> distinct (map ri_id (rm_items r)) \<and> distinct (linked_tasks (rm_items r))
     \<and> (\<forall>i \<in> set (rm_items r). project_item_wf (rm_schema_version r) i)
     \<and> relations_wf (map ri_id (rm_items r)) (rm_relations r)
     \<and> acyclic (blocks (rm_relations r))"

lemma check_relations_iff:
  "check_relations known seen rels = Inr () \<longleftrightarrow>
     (\<forall>r \<in> set rels. rr_source r \<in> set known \<and> rr_target r \<in> set known)
     \<and> distinct (map relation_key rels) \<and> set (map relation_key rels) \<inter> set seen = {}"
  by (induction rels arbitrary: seen) auto

lemma check_project_item_iff: "check_project_item schema i = Inr () \<longleftrightarrow> project_item_wf schema i"
  by (auto simp: check_project_item_def project_item_wf_def)

text \<open>The constructor normalises three fields and accepts exactly the well-formed documents.\<close>

lemma roadmap_init_iff:
  "roadmap_init schema id0 title0 description0 revision created updated items rels = Inr r \<longleftrightarrow>
     validate_roadmap_id id0 ''roadmap id'' = Inr (rm_id r)
     \<and> road_text title0 ''roadmap title'' True 500 = Inr (rm_title r)
     \<and> road_text description0 ''roadmap description'' False 20000 = Inr (rm_description r)
     \<and> rm_schema_version r = schema \<and> rm_revision r = revision \<and> rm_created_at r = created
     \<and> rm_updated_at r = updated \<and> rm_items r = items \<and> rm_relations r = rels \<and> roadmap_wf r"
proof -
  have graph: "validate_block_graph items rels = Inr () \<longleftrightarrow> acyclic (blocks rels)"
    if "distinct (map ri_id items)" "relations_wf (map ri_id items) rels"
    by (rule validate_block_graph_iff [OF that(1)]) (use that(2) in \<open>auto simp: relations_wf_def\<close>)
  have rels: "check_relations (map ri_id items) [] rels = Inr () \<longleftrightarrow> relations_wf (map ri_id items) rels"
    by (simp add: check_relations_iff relations_wf_def)
  show ?thesis
    unfolding roadmap_init_def
    by (cases r) (auto simp: rbind_Inr_iff roadmap_wf_def graph rels eachr_Inr_iff check_project_item_iff)
qed

section \<open>Normal forms and reading back\<close>

definition road_schedule_ok :: "road_schedule \<Rightarrow> bool" where
  "road_schedule_ok s \<longleftrightarrow> road_schedule_init (PStr (rs_start s)) (PStr (rs_target s)) = Inr s"

definition item_ok :: "road_item \<Rightarrow> bool" where
  "item_ok i \<longleftrightarrow> road_schedule_ok (ri_schedule i) \<and>
     item_init (PStr (ri_id i)) (PStr (ri_kind i)) (PStr (ri_title i)) (PStr (ri_description i))
       (PStr (ri_task_id i)) (PStr (ri_asset_id i)) (PStr (ri_lane i)) (PInt (ri_order i)) (ri_schedule i) = Inr i"

definition relation_ok :: "road_relation \<Rightarrow> bool" where
  "relation_ok r \<longleftrightarrow> relation_init (PStr (rr_source r)) (PStr (rr_target r)) (PStr (rr_kind r)) = Inr r"

definition roadmap_ok :: "roadmap \<Rightarrow> bool" where
  "roadmap_ok r \<longleftrightarrow> list_all item_ok (rm_items r) \<and> list_all relation_ok (rm_relations r)
     \<and> replace_roadmap r = Inr r"

lemma road_schedule_init_ok [read_ok]: "road_schedule_init a b = Inr s \<Longrightarrow> road_schedule_ok s"
  by (auto simp: road_schedule_init_def road_schedule_ok_def road_date_fixed rbind_Inr_iff split: if_splits)

lemma unscheduled_ok [simp]: "road_schedule_ok unscheduled"
  by (simp add: road_schedule_ok_def road_schedule_init_def road_date_def unscheduled_def)

lemma road_schedule_from_mapping_ok [read_ok]:
  "road_schedule_from_mapping raw = Inr s \<Longrightarrow> road_schedule_ok s"
  by (auto simp: road_schedule_from_mapping_def split: if_splits option.splits intro: road_schedule_init_ok)

lemma road_schedule_as_mapping_Nil: "road_schedule_as_mapping s = [] \<longleftrightarrow> s = unscheduled"
  by (cases s) (auto simp: road_schedule_as_mapping_def str_fields_def unscheduled_def)

lemma row_get_str_str_fields:
  "distinct (keys kvs) \<Longrightarrow> row_get_str (str_fields kvs) k [] = dget kvs k []"
  by (simp add: row_get_str_def row_get_str_fields)

lemma road_schedule_round_trip [round_trip]:
  assumes "road_schedule_ok s"
  shows "road_schedule_from_mapping (row_get (let schedule = road_schedule_as_mapping s
     in if schedule \<noteq> [] then [(''schedule'', PDict schedule)] else []) ''schedule'' PNone) = Inr s"
proof (cases "road_schedule_as_mapping s = []")
  case True
  then show ?thesis by (simp add: road_schedule_as_mapping_Nil road_schedule_from_mapping_def)
next
  case False
  with assms show ?thesis
    by (simp add: road_schedule_from_mapping_def road_schedule_ok_def)
      (simp add: road_schedule_as_mapping_def row_get_str_str_fields)
qed

lemma item_reference_Inr:
  assumes "item_reference kind title description task_id asset = Inr (t, d, k, a)"
    and "road_text (PStr title) ''roadmap item title'' False 500 = Inr title"
  shows "item_reference kind t d k a = Inr (t, d, k, a)"
    and "t = title \<or> t = []" and "d = description \<or> d = []"
    and "py_strip task_id = task_id \<Longrightarrow> py_strip k = k" and "py_strip asset = asset \<Longrightarrow> py_strip a = a"
    and "kind = ''task'' \<Longrightarrow> t = [] \<and> d = [] \<and> a = []"
    and "kind = ''planned_task'' \<Longrightarrow> k = [] \<and> a = []"
    and "kind \<noteq> ''task'' \<Longrightarrow> k = []" and "kind \<noteq> ''planned_task'' \<Longrightarrow> a \<noteq> [] \<Longrightarrow> t = [] \<and> d = []"
proof -
  have strip: "py_strip t = t" if "road_text v l r n = Inr t" for v l r n t
    using that by (auto simp: road_text_def Let_def split: if_splits)
  have task: "py_strip t = t" if "validate_task_reference_id v = Inr t" for v t
    using that by (auto simp: validate_task_reference_id_def validate_task_id_def Let_def split: sum.splits if_splits)
  have asset: "py_strip t = t" if "validate_roadmap_id v l = Inr t" for v l t
    using that by (auto simp: validate_roadmap_id_def Let_def split: if_splits)
  have same: "t' = title" if "road_text (PStr title) l True 500 = Inr t'" for l t'
    using that assms(2) by (auto simp: road_text_def Let_def split: if_splits)
  from assms(1) show "item_reference kind t d k a = Inr (t, d, k, a)"
    by (auto simp: item_reference_def rbind_Inr_iff split: if_splits
        dest: validate_task_reference_id_fixed validate_roadmap_id_fixed validate_roadmap_id_ne road_text_fixed)
  from assms(1) show "t = title \<or> t = []" and "d = description \<or> d = []"
    and "py_strip task_id = task_id \<Longrightarrow> py_strip k = k" and "py_strip asset = asset \<Longrightarrow> py_strip a = a"
    and "kind = ''task'' \<Longrightarrow> t = [] \<and> d = [] \<and> a = []"
    and "kind = ''planned_task'' \<Longrightarrow> k = [] \<and> a = []"
    and "kind \<noteq> ''task'' \<Longrightarrow> k = []" and "kind \<noteq> ''planned_task'' \<Longrightarrow> a \<noteq> [] \<Longrightarrow> t = [] \<and> d = []"
    by (auto simp: item_reference_def rbind_Inr_iff split: if_splits dest: same task asset strip)
qed

lemma item_init_ok [read_ok]:
  assumes "item_init a b c d e f g h s = Inr i" and "road_schedule_ok s"
  shows "item_ok i"
proof -
  from assms(1) obtain item_id kind title description lane order t' d' k' a' where
    id: "validate_roadmap_id a ''roadmap item id'' = Inr item_id"
    and kind: "kind = py_lower (py_strip (str_or_empty b))" "kind \<in> set roadmap_item_kinds"
    and title: "road_text c ''roadmap item title'' False 500 = Inr title"
    and description: "road_text d ''roadmap item description'' False 20000 = Inr description"
    and lane: "road_text g ''roadmap lane'' False 160 = Inr lane"
    and order: "order_init h = Inr order"
    and ref: "item_reference kind title description (py_strip (str_or_empty e)) (py_strip (str_or_empty f))
        = Inr (t', d', k', a')"
    and i: "i = \<lparr>ri_id = item_id, ri_kind = kind, ri_title = t', ri_description = d', ri_task_id = k',
        ri_asset_id = a', ri_lane = (if lane = [] then ''General'' else lane), ri_order = order, ri_schedule = s\<rparr>"
    by (auto simp: item_init_def Let_def rbind_Inr_iff split: if_splits)
  note fixed = item_reference_Inr [OF ref road_text_fixed [OF title]]
  have "road_text (PStr t') ''roadmap item title'' False 500 = Inr t'"
    using fixed(2) road_text_fixed [OF title] by auto
  moreover have "road_text (PStr d') ''roadmap item description'' False 20000 = Inr d'"
    using fixed(3) road_text_fixed [OF description] by auto
  moreover have "road_text (PStr (if lane = [] then ''General'' else lane)) ''roadmap lane'' False 160
      = Inr (if lane = [] then ''General'' else lane)"
    using road_text_fixed [OF lane] by (simp add: road_text_def) code_simp
  moreover have "order_init (PInt order) = Inr order"
    using order by (auto simp: order_init_def split: pyval.splits if_splits)
  moreover have "py_lower (py_strip kind) = kind" using kind(1) by simp
  ultimately show ?thesis
    using kind(2) assms(2) fixed(1) fixed(4,5) validate_roadmap_id_fixed [OF id]
    by (simp add: item_ok_def i item_init_def Let_def)
qed

lemma item_from_mapping_ok [read_ok]: "item_from_mapping raw = Inr i \<Longrightarrow> item_ok i"
  by (auto simp: item_from_mapping_def split: option.splits intro: item_init_ok road_schedule_from_mapping_ok)

lemma item_ok_reference:
  assumes "item_ok i"
  shows "ri_kind i = ''task'' \<Longrightarrow> ri_title i = [] \<and> ri_description i = [] \<and> ri_asset_id i = []"
    and "ri_kind i = ''planned_task'' \<Longrightarrow> ri_asset_id i = []"
    and "ri_kind i \<noteq> ''task'' \<Longrightarrow> ri_task_id i = []"
    and "ri_kind i \<noteq> ''planned_task'' \<Longrightarrow> ri_asset_id i \<noteq> [] \<Longrightarrow> ri_title i = [] \<and> ri_description i = []"
proof -
  from assms obtain title description where
    "road_text (PStr (ri_title i)) ''roadmap item title'' False 500 = Inr title"
    and ref: "item_reference (ri_kind i) title description (py_strip (ri_task_id i)) (py_strip (ri_asset_id i))
        = Inr (ri_title i, ri_description i, ri_task_id i, ri_asset_id i)"
    by (cases i) (auto simp: item_ok_def item_init_def Let_def rbind_Inr_iff split: if_splits)
  then show "ri_kind i = ''task'' \<Longrightarrow> ri_title i = [] \<and> ri_description i = [] \<and> ri_asset_id i = []"
    and "ri_kind i = ''planned_task'' \<Longrightarrow> ri_asset_id i = []"
    and "ri_kind i \<noteq> ''task'' \<Longrightarrow> ri_task_id i = []"
    and "ri_kind i \<noteq> ''planned_task'' \<Longrightarrow> ri_asset_id i \<noteq> [] \<Longrightarrow> ri_title i = [] \<and> ri_description i = []"
    using item_reference_Inr(6-9) [OF ref] road_text_fixed by blast+
qed

lemma row_get_str_append:
  "row_get_str (xs @ ys) k d = (if k \<in> set (keys xs) then row_get_str xs k d else row_get_str ys k d)"
  by (simp add: row_get_str_def row_get_append)

lemma str_fields_single: "str_fields [(k, v)] = (if v = [] then [] else [(k, PStr v)])"
  by (simp add: str_fields_def)

lemma item_round_trip [round_trip]:
  assumes "item_ok i"
  shows "item_from_mapping (PDict (item_as_mapping i)) = Inr i"
proof -
  let ?schedule = "let schedule = road_schedule_as_mapping (ri_schedule i)
     in if schedule \<noteq> [] then [(''schedule'', PDict schedule)] else []"
  let ?reference = "if ri_kind i = ''task'' then [(''task_id'', PStr (ri_task_id i))]
        else if ri_kind i = ''planned_task'' then titled i
        else if ri_asset_id i \<noteq> [] then [(''project_asset_id'', PStr (ri_asset_id i))]
        else titled i"
  let ?head = "[(''id'', PStr (ri_id i)), (''kind'', PStr (ri_kind i)), (''lane'', PStr (ri_lane i)),
      (''order'', PInt (ri_order i))]"
  have m: "item_as_mapping i = ?head @ ?reference @ ?schedule" by (simp add: item_as_mapping_def)
  have other: "row_get_str ?schedule k [] = []" if "k \<noteq> ''schedule''" for k
    using that by (simp add: Let_def row_get_str_def)
  have sched: "row_get (item_as_mapping i) ''schedule'' PNone = row_get ?schedule ''schedule'' PNone"
    unfolding m row_get_append by (simp add: titled_def str_fields_single)
  have ref: "row_get_str (item_as_mapping i) ''title'' [] = ri_title i"
    "row_get_str (item_as_mapping i) ''description'' [] = ri_description i"
    "row_get_str (item_as_mapping i) ''task_id'' [] = ri_task_id i"
    "row_get_str (item_as_mapping i) ''project_asset_id'' [] = ri_asset_id i"
    unfolding m row_get_str_append using item_ok_reference [OF assms]
    by (auto simp: titled_def str_fields_single other)
  have head: "row_get_str (item_as_mapping i) ''id'' [] = ri_id i"
    "row_get_str (item_as_mapping i) ''kind'' [] = ri_kind i"
    "row_get_str (item_as_mapping i) ''lane'' ''General'' = ri_lane i"
    "row_get (item_as_mapping i) ''order'' (PInt 0) = PInt (ri_order i)"
    by (simp_all add: m row_get_str_append row_get_append)
  from assms road_schedule_round_trip [of "ri_schedule i"] show ?thesis
    by (simp add: item_from_mapping_def head ref sched item_ok_def)
qed

lemma relation_init_ok [read_ok]: "relation_init a b c = Inr r \<Longrightarrow> relation_ok r"
  unfolding relation_init_def relation_ok_def Let_def
  by (clarsimp split: if_splits) (simp_all add: validate_roadmap_id_fixed split: if_splits)

lemma relation_from_mapping_ok [read_ok]: "relation_from_mapping raw = Inr r \<Longrightarrow> relation_ok r"
  by (auto simp: relation_from_mapping_def split: option.splits intro: relation_init_ok)

lemma relation_round_trip [round_trip]:
  "relation_ok r \<Longrightarrow> relation_from_mapping (PDict (relation_as_mapping r)) = Inr r"
  by (simp add: relation_from_mapping_def relation_as_mapping_def relation_ok_def)

lemma roadmap_init_ok [read_ok]:
  assumes "roadmap_init s a b c n t u items rels = Inr r"
    and "list_all item_ok items" and "list_all relation_ok rels"
  shows "roadmap_ok r"
  using assms unfolding roadmap_ok_def replace_roadmap_def roadmap_init_iff
  by (auto dest: validate_roadmap_id_fixed road_text_fixed)

lemma mapr_all: "mapr f xs = Inr ys \<Longrightarrow> (\<And>x y. f x = Inr y \<Longrightarrow> P y) \<Longrightarrow> list_all P ys"
  by (induction xs arbitrary: ys) auto

lemma roadmap_from_mapping_ok [read_ok]: "roadmap_from_mapping raw = Inr r \<Longrightarrow> roadmap_ok r"
  by (auto simp: roadmap_from_mapping_def split: option.splits
      intro!: roadmap_init_ok elim: mapr_all intro: item_from_mapping_ok relation_from_mapping_ok)

lemma roadmap_ok_wf: "roadmap_ok r \<Longrightarrow> roadmap_wf r"
  by (simp add: roadmap_ok_def replace_roadmap_def roadmap_init_iff)

lemma roadmap_ok_revision: "roadmap_ok r \<Longrightarrow> 1 \<le> n \<Longrightarrow> roadmap_ok (r\<lparr>rm_revision := n\<rparr>)"
  by (simp add: roadmap_ok_def replace_roadmap_def roadmap_init_iff roadmap_wf_def)

lemma mapr_round_trip_rows:
  "list_all P xs \<Longrightarrow> (\<And>x. P x \<Longrightarrow> f (PDict (g x)) = Inr x) \<Longrightarrow> mapr f (map (\<lambda>x. PDict (g x)) xs) = Inr xs"
  by (induction xs) auto

lemma roadmap_round_trip [round_trip]:
  assumes "roadmap_ok r"
  shows "roadmap_from_mapping (PDict (roadmap_as_mapping r)) = Inr r"
proof -
  let ?m = "roadmap_as_mapping r"
  let ?items = "map (\<lambda>i. PDict (item_as_mapping i)) (rm_items r)"
  let ?rels = "map (\<lambda>x. PDict (relation_as_mapping x)) (rm_relations r)"
  have items: "row_list ?m ''items'' l = Inr ?items" for l
    by (simp add: row_list_def roadmap_as_mapping_def Let_def)
  have rels: "row_list ?m ''relations'' l = Inr ?rels" for l
    by (simp add: row_list_def roadmap_as_mapping_def Let_def row_get_append str_fields_single)
  have gets: "row_get_str ?m ''id'' [] = rm_id r" "row_get_str ?m ''title'' [] = rm_title r"
    "row_get_str ?m ''created_at'' [] = rm_created_at r" "row_get_str ?m ''updated_at'' [] = rm_updated_at r"
    "row_get ?m ''schema_version'' (PInt 0) = PInt (rm_schema_version r)"
    "row_get ?m ''revision'' (PInt 1) = PInt (rm_revision r)"
    "row_get_str ?m ''description'' [] = rm_description r"
    by (simp_all add: roadmap_as_mapping_def row_get_str_append row_get_append str_fields_single)
  have "mapr item_from_mapping ?items = Inr (rm_items r)" "mapr relation_from_mapping ?rels = Inr (rm_relations r)"
    using assms by (auto simp: roadmap_ok_def intro!: mapr_round_trip_rows item_round_trip relation_round_trip)
  with assms show ?thesis
    by (simp add: roadmap_from_mapping_def items rels gets py_int_def roadmap_ok_def replace_roadmap_def)
qed

end
