(* ===== verification/Road_Repository.thy ===== *)
theory Road_Repository
  imports Road_RoundTrip Exec_Repository
begin

text \<open>
  \<open>roadmap/repository.py\<close>: the directory \<open>roadmaps/\<close> of a project, as its regular \<open>.yaml\<close> files
  by stem with their parsed content. An operation returns the new directory beside its result; one
  that raises leaves it alone. Saving follows the same optimistic contract as the definition's
  repository, which is stated here by a second interpretation of \<open>revisioned_store\<close>.
\<close>

type_synonym roadmap_dir = "pyval pydict"

definition roadmap_stem :: "string \<Rightarrow> string res" where
  "roadmap_stem roadmap_id = validate_roadmap_id (PStr roadmap_id) ''roadmap id''"

definition load_document :: "string \<Rightarrow> pyval \<Rightarrow> roadmap res" where
  "load_document stem raw =
     rbind (roadmap_from_mapping (or_empty_dict raw)) (\<lambda>r.
     if stem \<noteq> rm_id r
     then Inl (RoadmapError (''roadmap id '' @ py_repr_str (rm_id r) @ '' does not match filename ''
            @ py_repr_str (stem @ ''.yaml'')))
     else Inr r)"

definition load_required :: "roadmap_dir \<Rightarrow> string \<Rightarrow> string \<Rightarrow> roadmap res" where
  "load_required dir stem roadmap_id = (case map_of dir stem of
      None \<Rightarrow> Inl (RoadmapNotFoundError (''roadmap not found: '' @ roadmap_id))
    | Some raw \<Rightarrow> load_document stem raw)"

definition roadmap_load :: "string \<Rightarrow> roadmap_dir \<Rightarrow> roadmap res" where
  "roadmap_load roadmap_id dir =
     rbind (roadmap_stem roadmap_id) (\<lambda>stem. load_required dir stem roadmap_id)"

text \<open>\<open>sort(reverse=True)\<close> keeps equal elements in their order.\<close>

definition roadmap_list :: "roadmap_dir \<Rightarrow> roadmap list res" where
  "roadmap_list dir =
     rbind (mapr (\<lambda>(stem, raw). load_document stem raw) (sort_key (\<lambda>(stem, raw). stem @ ''.yaml'') dir))
       (\<lambda>documents. Inr (rev (sort_key (\<lambda>r. [rm_updated_at r, rm_title r, rm_id r]) (rev documents))))"

definition roadmap_create :: "roadmap \<Rightarrow> roadmap_dir \<Rightarrow> (roadmap \<times> roadmap_dir) res" where
  "roadmap_create r dir =
     rbind (roadmap_stem (rm_id r)) (\<lambda>stem.
     if map_of dir stem \<noteq> None
     then Inl (RoadmapConflictError (''roadmap already exists: '' @ rm_id r))
     else Inr (r, dset stem (PDict (roadmap_as_mapping r)) dir))"

definition roadmap_save :: "roadmap \<Rightarrow> int \<Rightarrow> roadmap_dir \<Rightarrow> (roadmap \<times> roadmap_dir) res" where
  "roadmap_save r expected_revision dir =
     rbind (roadmap_stem (rm_id r)) (\<lambda>stem.
     rbind (load_required dir stem (rm_id r)) (\<lambda>current.
     if rm_revision current \<noteq> expected_revision
     then Inl (RoadmapConflictError
            (''roadmap changed since it was loaded; refresh before saving (expected revision ''
             @ py_str_int expected_revision @ '', current '' @ py_str_int (rm_revision current) @ '')''))
     else rbind (replace_roadmap (r\<lparr>rm_revision := rm_revision current + 1\<rparr>)) (\<lambda>updated.
          Inr (updated, dset stem (PDict (roadmap_as_mapping updated)) dir))))"

definition roadmap_delete :: "string \<Rightarrow> int \<Rightarrow> roadmap_dir \<Rightarrow> (roadmap \<times> roadmap_dir) res" where
  "roadmap_delete roadmap_id expected_revision dir =
     rbind (roadmap_stem roadmap_id) (\<lambda>stem.
     rbind (load_required dir stem roadmap_id) (\<lambda>current.
     if rm_revision current \<noteq> expected_revision
     then Inl (RoadmapConflictError ''roadmap changed since it was loaded; refresh before deleting'')
     else Inr (current, filter (\<lambda>(k, v). k \<noteq> stem) dir)))"

section \<open>Facts about the store\<close>

lemma load_document_Inr:
  assumes "load_document stem raw = Inr r"
  shows "roadmap_ok r" and "rm_id r = stem" and "1 \<le> rm_revision r"
    and "validate_roadmap_id (PStr (rm_id r)) l = Inr (rm_id r)"
proof -
  from assms show ok: "roadmap_ok r" and "rm_id r = stem"
    by (auto simp: load_document_def split: if_splits intro: roadmap_from_mapping_ok)
  from roadmap_ok_wf [OF ok] show "1 \<le> rm_revision r" by (simp add: roadmap_wf_def)
  from ok show "validate_roadmap_id (PStr (rm_id r)) l = Inr (rm_id r)"
    by (auto simp: roadmap_ok_def replace_roadmap_def roadmap_init_iff intro: validate_roadmap_id_fixed)
qed

lemma roadmap_stem_ok: "roadmap_ok r \<Longrightarrow> roadmap_stem (rm_id r) = Inr (rm_id r)"
  by (auto simp: roadmap_stem_def roadmap_ok_def replace_roadmap_def roadmap_init_iff)

lemma load_document_stored:
  "roadmap_ok r \<Longrightarrow> load_document (rm_id r) (PDict (roadmap_as_mapping r)) = Inr r"
proof -
  assume "roadmap_ok r"
  moreover have "or_empty_dict (PDict (roadmap_as_mapping r)) = PDict (roadmap_as_mapping r)"
    by (simp add: or_empty_dict_def roadmap_as_mapping_def)
  ultimately show ?thesis by (simp add: load_document_def roadmap_round_trip)
qed

lemma roadmap_load_facts:
  assumes "roadmap_load roadmap_id dir = Inr r"
  shows "roadmap_ok r" and "roadmap_stem roadmap_id = Inr (rm_id r)" and "1 \<le> rm_revision r"
    and "roadmap_load (rm_id r) dir = Inr r"
proof -
  from assms obtain stem raw where stem: "roadmap_stem roadmap_id = Inr stem"
    and raw: "map_of dir stem = Some raw" and doc: "load_document stem raw = Inr r"
    by (auto simp: roadmap_load_def load_required_def split: option.splits)
  note facts = load_document_Inr [OF doc]
  show "roadmap_ok r" and "1 \<le> rm_revision r" by (rule facts)+
  show "roadmap_stem roadmap_id = Inr (rm_id r)" using stem facts(2) by simp
  show "roadmap_load (rm_id r) dir = Inr r"
    using raw doc facts(2) facts(4) by (simp add: roadmap_load_def roadmap_stem_def load_required_def)
qed

lemma roadmap_load_stored:
  "roadmap_ok r \<Longrightarrow> map_of dir (rm_id r) = Some (PDict (roadmap_as_mapping r)) \<Longrightarrow> roadmap_load (rm_id r) dir = Inr r"
  by (simp add: roadmap_load_def roadmap_stem_ok load_required_def load_document_stored)

lemma replace_roadmap_revision:
  "roadmap_ok r \<Longrightarrow> 1 \<le> n \<Longrightarrow> replace_roadmap (r\<lparr>rm_revision := n\<rparr>) = Inr (r\<lparr>rm_revision := n\<rparr>)"
  using roadmap_ok_revision by (simp add: roadmap_ok_def)

lemma roadmap_save_Inr:
  assumes "roadmap_save r expected dir = Inr (saved, dir')" and "roadmap_ok r"
  obtains current where "roadmap_load (rm_id r) dir = Inr current" and "rm_revision current = expected"
    and "saved = r\<lparr>rm_revision := expected + 1\<rparr>" and "roadmap_ok saved"
    and "dir' = dset (rm_id r) (PDict (roadmap_as_mapping saved)) dir"
    and "roadmap_load (rm_id r) dir' = Inr saved"
proof -
  note stem = roadmap_stem_ok [OF assms(2)]
  from assms(1) obtain current where load: "load_required dir (rm_id r) (rm_id r) = Inr current"
    and rev: "rm_revision current = expected"
    and saved: "replace_roadmap (r\<lparr>rm_revision := rm_revision current + 1\<rparr>) = Inr saved"
    and dir': "dir' = dset (rm_id r) (PDict (roadmap_as_mapping saved)) dir"
    by (auto simp: roadmap_save_def stem split: if_splits)
  from load have loaded: "roadmap_load (rm_id r) dir = Inr current" by (simp add: roadmap_load_def stem)
  from roadmap_load_facts(3) [OF loaded] rev have pos: "1 \<le> expected + 1" by simp
  have s: "saved = r\<lparr>rm_revision := expected + 1\<rparr>"
    using saved replace_roadmap_revision [OF assms(2) pos] by (simp add: rev)
  have ok: "roadmap_ok saved" unfolding s by (rule roadmap_ok_revision [OF assms(2) pos])
  have "roadmap_load (rm_id r) dir' = Inr saved"
    using roadmap_load_stored [OF ok, of dir'] by (simp add: s dir')
  with loaded rev s ok dir' show ?thesis by (rule that)
qed

lemma roadmap_save_current:
  assumes "roadmap_load (rm_id r) dir = Inr current" and "roadmap_ok r"
  shows "roadmap_save r (rm_revision current) dir = Inr (r\<lparr>rm_revision := rm_revision current + 1\<rparr>,
     dset (rm_id r) (PDict (roadmap_as_mapping (r\<lparr>rm_revision := rm_revision current + 1\<rparr>))) dir)"
proof -
  note stem = roadmap_stem_ok [OF assms(2)]
  have "1 \<le> rm_revision current + 1" using roadmap_load_facts(3) [OF assms(1)] by simp
  from replace_roadmap_revision [OF assms(2) this] assms(1) show ?thesis
    by (simp add: roadmap_save_def roadmap_load_def stem)
qed

section \<open>The revisioned contract\<close>

definition roadmap_current :: "string \<Rightarrow> roadmap_dir \<Rightarrow> int option" where
  "roadmap_current i dir = (case roadmap_load i dir of Inl e \<Rightarrow> None | Inr r \<Rightarrow> Some (rm_revision r))"

definition roadmap_content :: "string \<Rightarrow> roadmap_dir \<Rightarrow> roadmap option" where
  "roadmap_content i dir = (case roadmap_load i dir of Inl e \<Rightarrow> None | Inr r \<Rightarrow> Some r)"

definition roadmap_store_save :: "string \<Rightarrow> roadmap \<Rightarrow> int \<Rightarrow> roadmap_dir \<Rightarrow> roadmap_dir option" where
  "roadmap_store_save i r n dir = (if roadmap_ok r \<and> rm_id r = i then (case roadmap_save r n dir of
      Inl e \<Rightarrow> None | Inr (saved, dir') \<Rightarrow> Some dir') else None)"

interpretation roadmaps: revisioned_store "roadmap_current i" "roadmap_content i"
  "roadmap_store_save i" "\<lambda>r n. r\<lparr>rm_revision := n\<rparr>" for i
proof
  fix r n s s'
  assume "roadmap_store_save i r n s = Some s'"
  then obtain saved where ok: "roadmap_ok r" and i: "rm_id r = i" and s: "roadmap_save r n s = Inr (saved, s')"
    by (auto simp: roadmap_store_save_def split: if_splits sum.splits)
  obtain current where "roadmap_load (rm_id r) s = Inr current" "rm_revision current = n"
    "saved = r\<lparr>rm_revision := n + 1\<rparr>" "roadmap_load (rm_id r) s' = Inr saved"
    by (rule roadmap_save_Inr [OF s ok])
  then show "roadmap_current i s = Some n" and "roadmap_current i s' = Some (n + 1)"
    and "roadmap_content i s' = Some (r\<lparr>rm_revision := n + 1\<rparr>)"
    by (simp_all add: roadmap_current_def roadmap_content_def i)
qed

end
