(* ===== verification/Road_Edit.thy ===== *)
theory Road_Edit
  imports Road_Repository Exec_Service
begin

text \<open>
  The edits \<open>roadmap/service.py\<close> derives from a Roadmap it has loaded, as functions on documents:
  moving an item or a whole lane, linking Tasks, relations, and the canonical Phase, Gate or Milestone
  that a Roadmap item stands for.
\<close>

section \<open>Rebuilding documents\<close>

definition replace_item :: "road_item \<Rightarrow> road_item res" where
  "replace_item i = item_init (PStr (ri_id i)) (PStr (ri_kind i)) (PStr (ri_title i)) (PStr (ri_description i))
     (PStr (ri_task_id i)) (PStr (ri_asset_id i)) (PStr (ri_lane i)) (PInt (ri_order i)) (ri_schedule i)"

definition with_items :: "string \<Rightarrow> roadmap \<Rightarrow> road_item list \<Rightarrow> roadmap res" where
  "with_items now r items = replace_roadmap (r\<lparr>rm_items := items, rm_updated_at := now\<rparr>)"

definition with_relations :: "string \<Rightarrow> roadmap \<Rightarrow> road_relation list \<Rightarrow> roadmap res" where
  "with_relations now r relations = replace_roadmap (r\<lparr>rm_relations := relations, rm_updated_at := now\<rparr>)"

definition with_metadata :: "string \<Rightarrow> roadmap \<Rightarrow> string \<Rightarrow> string \<Rightarrow> roadmap res" where
  "with_metadata now r title description =
     replace_roadmap (r\<lparr>rm_title := title, rm_description := description, rm_updated_at := now\<rparr>)"

definition item_not_found :: "string \<Rightarrow> py_error" where
  "item_not_found i = RoadmapNotFoundError (''roadmap item not found: '' @ i)"

text \<open>\<open>sorted(items, key=lambda item: (item.order, item.id))\<close>, by two stable sorts.\<close>

definition order_items :: "road_item list \<Rightarrow> road_item list" where
  "order_items items = sort_key ri_order (sort_key ri_id items)"

definition renumber :: "road_item list \<Rightarrow> road_item list res" where
  "renumber items = mapr (\<lambda>(k, i). replace_item (i\<lparr>ri_order := (int k + 1) * 10\<rparr>)) (enumerate 0 items)"

definition insert_at :: "nat \<Rightarrow> 'a \<Rightarrow> 'a list \<Rightarrow> 'a list" where
  "insert_at n x xs = take n xs @ x # drop n xs"

fun first_index :: "('a \<Rightarrow> bool) \<Rightarrow> 'a list \<Rightarrow> nat option" where
  "first_index P [] = None"
| "first_index P (x # xs) = (if P x then Some 0 else map_option Suc (first_index P xs))"

definition last_index :: "('a \<Rightarrow> bool) \<Rightarrow> 'a list \<Rightarrow> nat option" where
  "last_index P xs = (case first_index P (rev xs) of None \<Rightarrow> None | Some n \<Rightarrow> Some (length xs - Suc n))"

definition lane_or_general :: "string \<Rightarrow> string" where
  "lane_or_general lane = (let text = py_strip lane in if text = [] then ''General'' else text)"

definition placement_of :: "string \<Rightarrow> string" where
  "placement_of placement = py_lower (py_strip (if placement = [] then ''before'' else placement))"

section \<open>Moving an item\<close>

text \<open>Where the item goes among the others: its lane and its index.\<close>

definition destination :: "road_item list \<Rightarrow> string \<Rightarrow> string \<Rightarrow> string \<Rightarrow> string \<Rightarrow> (string \<times> nat) res" where
  "destination others safe_id lane placement target_id =
     (if target_id \<noteq> [] \<and> placement \<noteq> ''end'' then
        rbind (validate_roadmap_id (PStr target_id) ''target roadmap item id'') (\<lambda>safe_target.
        if safe_target = safe_id then Inr (lane, length others)
        else case first_index (\<lambda>i. ri_id i = safe_target) others of
            None \<Rightarrow> Inl (RoadmapNotFoundError (''target roadmap item not found: '' @ safe_target))
          | Some n \<Rightarrow> Inr (ri_lane (others ! n), n + (if placement = ''after'' then 1 else 0)))
      else if placement = ''end'' then
        Inr (lane, case last_index (\<lambda>i. ri_lane i = lane) others of None \<Rightarrow> length others | Some n \<Rightarrow> n + 1)
      else Inr (lane, length others))"

text \<open>The checks of \<open>move_item\<close> up to the choice of the place: the item, the others, the place.\<close>

definition plan_move ::
    "roadmap \<Rightarrow> string \<Rightarrow> string \<Rightarrow> string \<Rightarrow> string \<Rightarrow> (road_item \<times> road_item list \<times> string \<times> nat) res" where
  "plan_move r item_id lane0 target_item_id placement0 =
     rbind (validate_roadmap_id (PStr item_id) ''roadmap item id'') (\<lambda>safe_id.
     (let lane = lane_or_general lane0; placement = placement_of placement0; ordered = order_items (rm_items r) in
      if 160 < length lane then Inl (RoadmapError ''roadmap lane exceeds 160 characters'')
      else if placement \<notin> {''before'', ''after'', ''end''}
      then Inl (RoadmapError ''roadmap move placement must be before, after, or end'')
      else case find (\<lambda>i. ri_id i = safe_id) ordered of
          None \<Rightarrow> Inl (item_not_found safe_id)
        | Some moving \<Rightarrow>
            (let others = filter (\<lambda>i. ri_id i \<noteq> safe_id) ordered in
             rbind (destination others safe_id lane placement (py_strip target_item_id)) (\<lambda>(lane', n).
             Inr (moving, others, lane', n)))))"

definition moved_item :: "road_item \<Rightarrow> string \<Rightarrow> string \<Rightarrow> string \<Rightarrow> road_item res" where
  "moved_item moving lane start target =
     (if ri_kind moving \<in> set project_kinds then replace_item (moving\<lparr>ri_lane := lane\<rparr>)
      else rbind (road_schedule_init (PStr start) (PStr target)) (\<lambda>schedule.
           replace_item (moving\<lparr>ri_lane := lane, ri_schedule := schedule\<rparr>)))"

definition place_item :: "string \<Rightarrow> roadmap \<Rightarrow> road_item list \<Rightarrow> nat \<Rightarrow> road_item \<Rightarrow> roadmap res" where
  "place_item now r others n moved =
     rbind (renumber (insert_at n moved others)) (\<lambda>items. with_items now r items)"

definition move_item_in ::
    "string \<Rightarrow> roadmap \<Rightarrow> string \<Rightarrow> string \<Rightarrow> string \<Rightarrow> string \<Rightarrow> string \<Rightarrow> string \<Rightarrow> roadmap res" where
  "move_item_in now r item_id lane start target target_item_id placement =
     rbind (plan_move r item_id lane target_item_id placement) (\<lambda>(moving, others, lane', n).
     rbind (moved_item moving lane' start target) (\<lambda>moved.
     place_item now r others n moved))"

section \<open>Moving a lane\<close>

definition lanes_of :: "road_item list \<Rightarrow> string list" where
  "lanes_of items = foldl (\<lambda>ls i. if ri_lane i \<in> set ls then ls else ls @ [ri_lane i]) [] items"

definition move_lane_in :: "string \<Rightarrow> roadmap \<Rightarrow> string \<Rightarrow> string \<Rightarrow> string \<Rightarrow> roadmap option res" where
  "move_lane_in now r lane0 target0 placement0 =
     (let lane = lane_or_general lane0; target = lane_or_general target0; placement = placement_of placement0;
          ordered = order_items (rm_items r); lanes = lanes_of ordered in
      if 160 < length lane \<or> 160 < length target
      then Inl (RoadmapError ''roadmap lane exceeds 160 characters'')
      else if placement \<notin> {''before'', ''after''}
      then Inl (RoadmapError ''roadmap lane placement must be before or after'')
      else if lane = target then Inr None
      else if lane \<notin> set lanes then Inl (RoadmapNotFoundError (''roadmap lane not found: '' @ lane))
      else if target \<notin> set lanes then Inl (RoadmapNotFoundError (''target roadmap lane not found: '' @ target))
      else
        (let rest = remove1 lane lanes;
             n = (case first_index (\<lambda>l. l = target) rest of None \<Rightarrow> 0 | Some k \<Rightarrow> k) + (if placement = ''after'' then 1 else 0);
             order = insert_at n lane rest
         in rbind (renumber (List.concat (map (\<lambda>l. filter (\<lambda>i. ri_lane i = l) ordered) order))) (\<lambda>items.
            rbind (with_items now r items) (\<lambda>r'. Inr (Some r')))))"

section \<open>Items and relations\<close>

definition upsert_item_in :: "string \<Rightarrow> roadmap \<Rightarrow> road_item \<Rightarrow> roadmap res" where
  "upsert_item_in now r item =
     rbind (if ri_id item \<in> ri_id ` set (rm_items r) \<or> ri_order item \<noteq> 0 \<or> rm_items r = [] then Inr item
            else replace_item (item\<lparr>ri_order := Max (set (map ri_order (rm_items r))) + 10\<rparr>)) (\<lambda>item'.
     with_items now r (upsert ri_id (rm_items r) item'))"

definition delete_item_in :: "string \<Rightarrow> roadmap \<Rightarrow> string \<Rightarrow> roadmap res" where
  "delete_item_in now r item_id =
     rbind (validate_roadmap_id (PStr item_id) ''roadmap item id'') (\<lambda>safe_id.
     if safe_id \<notin> ri_id ` set (rm_items r) then Inl (item_not_found safe_id)
     else replace_roadmap (r\<lparr>rm_items := filter (\<lambda>i. ri_id i \<noteq> safe_id) (rm_items r),
            rm_relations := filter (\<lambda>x. rr_source x \<noteq> safe_id \<and> rr_target x \<noteq> safe_id) (rm_relations r),
            rm_updated_at := now\<rparr>))"

text \<open>Linking a Task: in place of a planned item, or as a new item.\<close>

definition link_planned ::
    "string \<Rightarrow> roadmap \<Rightarrow> string \<Rightarrow> road_item \<Rightarrow> string \<Rightarrow> string \<Rightarrow> string \<Rightarrow> int \<Rightarrow> roadmap res" where
  "link_planned now r task_id current lane start target order =
     rbind (if start \<noteq> [] \<or> target \<noteq> [] then road_schedule_init (PStr start) (PStr target)
            else Inr (ri_schedule current)) (\<lambda>schedule.
     rbind (item_init (PStr (ri_id current)) (PStr ''task'') (PStr []) (PStr []) (PStr task_id) (PStr [])
       (PStr (if py_strip lane \<noteq> [] then py_strip lane else ri_lane current))
       (PInt (if order \<noteq> 0 then order else ri_order current)) schedule) (\<lambda>linked.
     with_items now r (upsert ri_id (rm_items r) linked)))"

definition link_new ::
    "string \<Rightarrow> roadmap \<Rightarrow> string \<Rightarrow> string \<Rightarrow> string \<Rightarrow> string \<Rightarrow> string \<Rightarrow> int \<Rightarrow> roadmap res" where
  "link_new now r task_id fresh_id lane start target order =
     rbind (road_schedule_init (PStr start) (PStr target)) (\<lambda>schedule.
     rbind (item_init (PStr fresh_id) (PStr ''task'') (PStr []) (PStr []) (PStr task_id) (PStr [])
       (PStr (lane_or_general lane))
       (PInt (if order \<noteq> 0 then order
              else (if rm_items r = [] then 0 else Max (set (map ri_order (rm_items r)))) + 10)) schedule) (\<lambda>linked.
     with_items now r (rm_items r @ [linked])))"

definition link_task_in ::
    "string \<Rightarrow> roadmap \<Rightarrow> string \<Rightarrow> string \<Rightarrow> string \<Rightarrow> string \<Rightarrow> string \<Rightarrow> string \<Rightarrow> int \<Rightarrow> roadmap res" where
  "link_task_in now r task_id fresh_id item_id lane start target order =
     (if (case find (\<lambda>i. ri_kind i = ''task'' \<and> ri_task_id i = task_id) (rm_items r) of
            None \<Rightarrow> False | Some existing \<Rightarrow> ri_id existing \<noteq> item_id)
      then Inl (RoadmapConflictError (''task '' @ py_repr_str task_id @ '' is already linked in this roadmap''))
      else if item_id = [] then link_new now r task_id fresh_id lane start target order
      else
        rbind (validate_roadmap_id (PStr item_id) ''roadmap item id'') (\<lambda>safe_id.
        case find (\<lambda>i. ri_id i = safe_id) (rm_items r) of
          None \<Rightarrow> Inl (item_not_found safe_id)
        | Some current \<Rightarrow>
            if ri_kind current \<notin> {''planned_task'', ''task''}
            then Inl (RoadmapError ''only planned_task items may be converted to task links'')
            else if ri_kind current = ''task'' \<and> ri_task_id current \<noteq> task_id
            then Inl (RoadmapConflictError
                   ''an existing task roadmap item cannot be relinked to a different task'')
            else link_planned now r task_id current lane start target order))"

definition upsert_relation_in :: "string \<Rightarrow> roadmap \<Rightarrow> string \<Rightarrow> string \<Rightarrow> string \<Rightarrow> roadmap res" where
  "upsert_relation_in now r source target kind =
     rbind (relation_init (PStr source) (PStr target) (PStr kind)) (\<lambda>relation.
     if rr_source relation \<notin> ri_id ` set (rm_items r) \<or> rr_target relation \<notin> ri_id ` set (rm_items r)
     then Inl (RoadmapNotFoundError ''roadmap relation endpoints must exist'')
     else with_relations now r
       (if relation_key relation \<in> relation_key ` set (rm_relations r) then rm_relations r
        else rm_relations r @ [relation]))"

definition delete_relation_in :: "string \<Rightarrow> roadmap \<Rightarrow> string \<Rightarrow> string \<Rightarrow> string \<Rightarrow> roadmap res" where
  "delete_relation_in now r source target kind =
     rbind (relation_init (PStr source) (PStr target) (PStr kind)) (\<lambda>relation.
     (let relations = filter (\<lambda>x. relation_key x \<noteq> relation_key relation) (rm_relations r) in
      if length relations = length (rm_relations r)
      then Inl (RoadmapNotFoundError ''roadmap relation not found'')
      else with_relations now r relations))"

section \<open>The canonical asset behind an item\<close>

datatype project_asset = Asset_phase project_phase | Asset_gate project_gate | Asset_milestone project_milestone

definition definition_with_asset :: "execution_definition \<Rightarrow> project_asset \<Rightarrow> execution_definition res" where
  "definition_with_asset d asset =
     rbind (replace_definition (case asset of
         Asset_phase p \<Rightarrow> d\<lparr>pd_phases := upsert ph_id (pd_phases d) p\<rparr>
       | Asset_gate g \<Rightarrow> d\<lparr>pd_gates := upsert pg_id (pd_gates d) g\<rparr>
       | Asset_milestone m \<Rightarrow> d\<lparr>pd_milestones := upsert pm_id (pd_milestones d) m\<rparr>)) (\<lambda>desired.
     rbind (validate_definition desired None) (\<lambda>_. Inr desired))"

definition new_asset :: "string \<Rightarrow> string \<Rightarrow> string \<Rightarrow> string \<Rightarrow> road_schedule \<Rightarrow> project_asset res" where
  "new_asset kind asset_id title description schedule =
     (if kind = ''phase'' then
        rbind (schedule_init (PStr (rs_start schedule)) (PStr (rs_target schedule))) (\<lambda>sched.
        rbind (phase_init (PStr asset_id) (PStr title) (PStr description) sched [] [] [] []) (\<lambda>p. Inr (Asset_phase p)))
      else if kind = ''gate'' then
        rbind (schedule_init (PStr (rs_start schedule)) (PStr (rs_target schedule))) (\<lambda>sched.
        rbind (criterion_init (PStr ''human_approval'') (PStr []) (PStr []) (PStr []) (PStr [])) (\<lambda>c.
        rbind (gate_init (PStr asset_id) (PStr title) (PStr description) sched [c]) (\<lambda>g. Inr (Asset_gate g))))
      else
        rbind (milestone_requirements_init [] [] []) (\<lambda>requires.
        rbind (milestone_init (PStr asset_id) (PStr title) (PStr description) (PStr (rs_start schedule))
          (PStr (rs_target schedule)) requires (PStr ''none'')) (\<lambda>m. Inr (Asset_milestone m))))"

definition kind_title :: "string \<Rightarrow> string" where
  "kind_title kind = (if kind = ''phase'' then ''Phase'' else if kind = ''gate'' then ''Gate'' else ''Milestone'')"

definition asset_known :: "execution_definition \<Rightarrow> string \<Rightarrow> string \<Rightarrow> bool" where
  "asset_known d kind asset_id \<longleftrightarrow>
     (if kind = ''phase'' then map_of (phase_index d) asset_id \<noteq> None
      else if kind = ''gate'' then map_of (gate_index d) asset_id \<noteq> None
      else map_of (milestone_index d) asset_id \<noteq> None)"

text \<open>The asset an item names, or the one to create for it, with the row that only refers to it.\<close>

definition prepare_asset ::
    "execution_definition \<Rightarrow> int \<Rightarrow> row \<Rightarrow> (row \<times> execution_definition option) res" where
  "prepare_asset d expected data =
     (let kind = py_lower (py_strip (row_get_str data ''kind'' []));
          asset_id = py_strip (row_get_str data ''project_asset_id'' []);
          row = (\<lambda>asset. [(''id'', PStr (row_get_str data ''id'' [])), (''kind'', PStr kind),
            (''project_asset_id'', PStr asset), (''lane'', PStr (row_get_str data ''lane'' ''General'')),
            (''order'', row_get data ''order'' (PInt 0))])
      in if expected \<noteq> 0 \<and> pd_revision d \<noteq> expected
         then Inl (ProjectExecutionConflictError
           (''Project Execution changed since the Roadmap projection was loaded; refresh before editing ''
            @ ''canonical project assets (expected revision '' @ py_str_int expected @ '', current ''
            @ py_str_int (pd_revision d) @ '')''))
         else if asset_id \<noteq> [] then
           (if asset_known d kind asset_id then Inr (row asset_id, None)
            else Inl (RoadmapNotFoundError
              (''canonical Project '' @ kind_title kind @ '' not found: '' @ asset_id)))
         else
           rbind (validate_roadmap_id (PStr (row_get_str data ''id'' [])) (kind @ '' project asset id'')) (\<lambda>new_id.
           rbind (road_schedule_from_mapping (row_get data ''schedule'' PNone)) (\<lambda>schedule.
           rbind (new_asset kind new_id (py_strip (row_get_str data ''title'' []))
             (py_strip (row_get_str data ''description'' [])) schedule) (\<lambda>asset.
           rbind (definition_with_asset d asset) (\<lambda>desired.
           Inr (row new_id, Some desired))))))"

definition key_lookup :: "'a pydict \<Rightarrow> string \<Rightarrow> 'a res" where
  "key_lookup d k = (case map_of d k of None \<Rightarrow> Inl (KeyError (py_repr_str k)) | Some x \<Rightarrow> Inr x)"

definition definition_with_schedule ::
    "execution_definition \<Rightarrow> string \<Rightarrow> string \<Rightarrow> string \<Rightarrow> string \<Rightarrow> execution_definition res" where
  "definition_with_schedule d kind asset_id start target =
     rbind (schedule_init (PStr start) (PStr target)) (\<lambda>schedule.
     rbind (if kind = ''phase'' then
              rbind (key_lookup (phase_index d) asset_id) (\<lambda>p.
              rbind (replace_phase (p\<lparr>ph_schedule := schedule\<rparr>)) (\<lambda>p'. Inr (Asset_phase p')))
            else if kind = ''gate'' then
              rbind (key_lookup (gate_index d) asset_id) (\<lambda>g.
              rbind (gate_init (PStr (pg_id g)) (PStr (pg_title g)) (PStr (pg_description g)) schedule (pg_criteria g))
                (\<lambda>g'. Inr (Asset_gate g')))
            else
              rbind (key_lookup (milestone_index d) asset_id) (\<lambda>m.
              rbind (replace_milestone (m\<lparr>pm_start := sched_start schedule, pm_target := sched_target schedule\<rparr>))
                (\<lambda>m'. Inr (Asset_milestone m')))) (\<lambda>asset.
     definition_with_asset d asset))"

end
