(* ===== verification/Road_Moves.thy ===== *)
theory Road_Moves
  imports Road_Edit
begin

text \<open>
  What moving an item or a lane does to a Roadmap: nothing is lost or changed but the order numbers and
  the moved item's own lane and window, the others keep their relative order, and the item or lane
  stands where it was asked to.
\<close>

section \<open>Rebuilt items and documents\<close>

lemma replace_item_Inr:
  assumes "item_ok i" and "replace_item (i\<lparr>ri_lane := l, ri_order := n, ri_schedule := s\<rparr>) = Inr j"
  shows "j = i\<lparr>ri_lane := (if py_strip l = [] then ''General'' else py_strip l), ri_order := n, ri_schedule := s\<rparr>"
proof -
  have stripped: "road_text (PStr l) lab False k = Inr t \<Longrightarrow> t = py_strip l" for lab k t
    by (auto simp: road_text_def Let_def split: if_splits)
  from assms show ?thesis
    by (cases i) (auto simp: item_ok_def replace_item_def item_init_def Let_def order_init_def
        split: if_splits dest!: stripped)
qed

lemma item_ok_lane: "item_ok i \<Longrightarrow> py_strip (ri_lane i) = ri_lane i \<and> ri_lane i \<noteq> []"
proof -
  assume "item_ok i"
  then obtain lane where "road_text (PStr (ri_lane i)) ''roadmap lane'' False 160 = Inr lane"
    and "ri_lane i = (if lane = [] then ''General'' else lane)"
    by (cases i) (auto simp: item_ok_def item_init_def Let_def split: if_splits)
  moreover have "py_strip ''General'' = ''General''" by code_simp
  ultimately show ?thesis by (auto simp: road_text_def Let_def split: if_splits)
qed

lemma replace_item_ok:
  "item_ok i \<Longrightarrow> road_schedule_ok s \<Longrightarrow> replace_item (i\<lparr>ri_lane := l, ri_order := n, ri_schedule := s\<rparr>) = Inr j \<Longrightarrow> item_ok j"
  by (auto simp: replace_item_def intro: item_init_ok)

lemma renumbered:
  assumes "renumber items = Inr items'" and "list_all item_ok items"
  shows "items' = map (\<lambda>(k, i). i\<lparr>ri_order := (int k + 1) * 10\<rparr>) (enumerate 0 items)"
    and "list_all item_ok items'"
proof -
  have each: "j = i\<lparr>ri_order := n\<rparr> \<and> item_ok j" if "item_ok i" and "replace_item (i\<lparr>ri_order := n\<rparr>) = Inr j" for i j n
  proof -
    have same: "i\<lparr>ri_order := n\<rparr> = i\<lparr>ri_lane := ri_lane i, ri_order := n, ri_schedule := ri_schedule i\<rparr>" by simp
    have "road_schedule_ok (ri_schedule i)" using that(1) by (simp add: item_ok_def)
    then show ?thesis
      using replace_item_Inr [OF that(1) that(2) [unfolded same]] replace_item_ok [OF that(1) _ that(2) [unfolded same]]
        item_ok_lane [OF that(1)] by simp
  qed
  have gen: "mapr (\<lambda>(k, i). replace_item (i\<lparr>ri_order := (int k + 1) * 10\<rparr>)) (enumerate m items) = Inr items' \<Longrightarrow>
      items' = map (\<lambda>(k, i). i\<lparr>ri_order := (int k + 1) * 10\<rparr>) (enumerate m items) \<and> list_all item_ok items'" for m
    using assms(2)
  proof (induction items arbitrary: m items')
    case (Cons i items)
    from Cons.prems(1) obtain j js where j: "replace_item (i\<lparr>ri_order := (int m + 1) * 10\<rparr>) = Inr j"
      and js: "mapr (\<lambda>(k, i). replace_item (i\<lparr>ri_order := (int k + 1) * 10\<rparr>)) (enumerate (Suc m) items) = Inr js"
      and items': "items' = j # js" by auto
    have "list_all item_ok items" and "item_ok i" using Cons.prems(2) by simp_all
    with Cons.IH [OF js] each [OF _ j] show ?case by (auto simp: items')
  qed simp
  from gen [of 0] assms(1) show "items' = map (\<lambda>(k, i). i\<lparr>ri_order := (int k + 1) * 10\<rparr>) (enumerate 0 items)"
    and "list_all item_ok items'" unfolding renumber_def by blast+
qed

lemma renumbered_fields:
  assumes "renumber items = Inr items'" and "list_all item_ok items"
  shows "map ri_id items' = map ri_id items" and "map ri_lane items' = map ri_lane items"
    and "map ri_order items' = map (\<lambda>k. (int k + 1) * 10) [0..<length items]"
    and "\<And>j. j \<in> set items' \<Longrightarrow> \<exists>i \<in> set items. j = i\<lparr>ri_order := ri_order j\<rparr>"
proof -
  note items' = renumbered(1) [OF assms]
  show "map ri_id items' = map ri_id items" "map ri_lane items' = map ri_lane items"
    unfolding items' by (rule nth_equalityI; simp add: nth_enumerate_eq)+
  show "map ri_order items' = map (\<lambda>k. (int k + 1) * 10) [0..<length items]"
    unfolding items' by (rule nth_equalityI; simp add: nth_enumerate_eq)
  fix j assume "j \<in> set items'"
  then obtain k i where "(k, i) \<in> set (enumerate 0 items)" "j = i\<lparr>ri_order := (int k + 1) * 10\<rparr>"
    by (auto simp: items')
  then show "\<exists>i \<in> set items. j = i\<lparr>ri_order := ri_order j\<rparr>"
    by (intro bexI [of _ i]) (auto simp: in_set_enumerate_eq)
qed

lemma with_items_Inr:
  assumes "with_items now r items = Inr r'" and "roadmap_ok r"
  shows "r' = r\<lparr>rm_items := items, rm_updated_at := now\<rparr>" and "roadmap_wf r'"
proof -
  have "rm_id r' = rm_id r \<and> rm_title r' = rm_title r \<and> rm_description r' = rm_description r"
    using assms by (simp add: with_items_def roadmap_ok_def replace_roadmap_def roadmap_init_iff)
  then show "r' = r\<lparr>rm_items := items, rm_updated_at := now\<rparr>" and "roadmap_wf r'"
    using assms(1) by (simp_all add: with_items_def replace_roadmap_def roadmap_init_iff)
qed

lemma with_items_ok:
  assumes "with_items now r items = Inr r'" and "roadmap_ok r" and "list_all item_ok items"
  shows "roadmap_ok r'"
  using assms roadmap_init_ok by (auto simp: with_items_def roadmap_ok_def replace_roadmap_def)

lemma order_items_mset [simp]: "mset (order_items items) = mset items"
  by (simp add: order_items_def)

lemma order_items_set [simp]: "set (order_items items) = set items"
  by (simp add: order_items_def)

lemma first_index_Some: "first_index P xs = Some n \<Longrightarrow> n < length xs \<and> P (xs ! n)"
  by (induction xs arbitrary: n) (auto split: if_splits)

lemma map_insert_at: "map f (insert_at n x xs) = insert_at n (f x) (map f xs)"
  by (simp add: insert_at_def take_map drop_map)

lemma insert_at_split: "\<exists>ys zs. insert_at n x xs = ys @ x # zs \<and> xs = ys @ zs"
  by (intro exI [of _ "take n xs"] exI [of _ "drop n xs"]) (simp add: insert_at_def)

section \<open>Moving an item\<close>

lemma first_index_None: "first_index P xs = None \<longleftrightarrow> (\<forall>x \<in> set xs. \<not> P x)"
  by (induction xs) auto

lemma first_index_first: "first_index P xs = Some n \<Longrightarrow> x \<in> set (take n xs) \<Longrightarrow> \<not> P x"
  by (induction xs arbitrary: n) (auto split: if_splits)

lemma last_index_None: "last_index P xs = None \<longleftrightarrow> (\<forall>x \<in> set xs. \<not> P x)"
  using first_index_None [of P "rev xs"] by (cases "first_index P (rev xs)") (simp_all add: last_index_def)

lemma last_index_Some:
  assumes "last_index P xs = Some k"
  shows "k < length xs" and "P (xs ! k)" and "x \<in> set (drop (Suc k) xs) \<Longrightarrow> \<not> P x"
proof -
  obtain n where n: "first_index P (rev xs) = Some n" and k: "k = length xs - Suc n"
    using assms by (auto simp: last_index_def split: option.splits)
  have len: "n < length xs" and "P (rev xs ! n)" using first_index_Some [OF n] by simp_all
  then show "k < length xs" and "P (xs ! k)" by (simp_all add: k rev_nth)
  have "drop (Suc k) xs = rev (take n (rev xs))" using len by (simp add: k take_rev Suc_diff_Suc)
  then show "x \<in> set (drop (Suc k) xs) \<Longrightarrow> \<not> P x" using first_index_first [OF n] by simp
qed

text \<open>
  Where a move was asked to put an item: at the end of the lane given, or last of all if the lane is
  empty; without another item as the target, last of all and in the lane given; otherwise right after or
  right before the target, in the target's lane. No lane is the lane General.
\<close>

definition placed_as_asked ::
    "string \<Rightarrow> string \<Rightarrow> string \<Rightarrow> string \<Rightarrow> road_item list \<Rightarrow> road_item \<Rightarrow> road_item list \<Rightarrow> bool" where
  "placed_as_asked lane item_id target_id placement before moved after \<longleftrightarrow>
     (let asked = (if py_strip lane = [] then ''General'' else py_strip lane);
          place = py_lower (py_strip (if placement = [] then ''before'' else placement))
      in if place = ''end''
         then ri_lane moved = asked
           \<and> (if \<exists>x \<in> set (before @ after). ri_lane x = asked
              then before \<noteq> [] \<and> ri_lane (last before) = asked \<and> (\<forall>x \<in> set after. ri_lane x \<noteq> asked)
              else after = [])
         else if py_strip target_id = [] \<or> py_strip target_id = py_strip item_id
         then ri_lane moved = asked \<and> after = []
         else if place = ''after''
         then before \<noteq> [] \<and> ri_id (last before) = py_strip target_id \<and> ri_lane moved = ri_lane (last before)
         else place = ''before'' \<and> after \<noteq> [] \<and> ri_id (hd after) = py_strip target_id
           \<and> ri_lane moved = ri_lane (hd after))"

lemma plan_move_Inr:
  assumes "plan_move r item_id lane target_id placement = Inr (moving, others, lane', n)" and "roadmap_ok r"
  shows "moving \<in> set (rm_items r)" and "ri_id moving = py_strip item_id"
    and "others = filter (\<lambda>i. ri_id i \<noteq> py_strip item_id) (order_items (rm_items r))"
    and "py_strip lane' = lane'" and "lane' \<noteq> []"
    and "py_strip target_id \<noteq> [] \<Longrightarrow> py_strip target_id \<noteq> py_strip item_id \<Longrightarrow> placement_of placement \<noteq> ''end'' \<Longrightarrow>
      \<exists>k < length others. ri_id (others ! k) = py_strip target_id \<and> lane' = ri_lane (others ! k)
        \<and> n = k + (if placement_of placement = ''after'' then 1 else 0)"
    and "placement_of placement \<in> {''before'', ''after'', ''end''}"
    and "placement_of placement = ''end'' \<Longrightarrow> lane' = lane_or_general lane
      \<and> n = (case last_index (\<lambda>i. ri_lane i = lane') others of None \<Rightarrow> length others | Some k \<Rightarrow> k + 1)"
    and "placement_of placement \<noteq> ''end'' \<Longrightarrow> py_strip target_id = [] \<or> py_strip target_id = py_strip item_id \<Longrightarrow>
      lane' = lane_or_general lane \<and> n = length others"
proof -
  have strip: "validate_roadmap_id (PStr a) l = Inr b \<Longrightarrow> b = py_strip a" for a b l
    by (auto simp: validate_roadmap_id_def Let_def split: if_splits)
  let ?others = "filter (\<lambda>i. ri_id i \<noteq> py_strip item_id) (order_items (rm_items r))"
  from assms(1) have find: "find (\<lambda>i. ri_id i = py_strip item_id) (order_items (rm_items r)) = Some moving"
    and others: "others = ?others"
    and dest: "destination ?others (py_strip item_id) (lane_or_general lane) (placement_of placement) (py_strip target_id)
        = Inr (lane', n)"
    and place: "placement_of placement \<in> {''before'', ''after'', ''end''}"
    by (auto simp: plan_move_def Let_def split: if_splits option.splits dest: strip)
  show "placement_of placement \<in> {''before'', ''after'', ''end''}" by (rule place)
  show "lane' = lane_or_general lane
      \<and> n = (case last_index (\<lambda>i. ri_lane i = lane') others of None \<Rightarrow> length others | Some k \<Rightarrow> k + 1)"
    if "placement_of placement = ''end''"
    using dest that unfolding others by (auto simp: destination_def)
  show "lane' = lane_or_general lane \<and> n = length others"
    if "placement_of placement \<noteq> ''end''" "py_strip target_id = [] \<or> py_strip target_id = py_strip item_id"
    using dest that by (auto simp: destination_def others split: if_splits option.splits dest!: strip)
  from find obtain k where "k < length (order_items (rm_items r))" "ri_id (order_items (rm_items r) ! k) = py_strip item_id"
    "moving = order_items (rm_items r) ! k" by (auto simp: find_Some_iff)
  then have "ri_id moving = py_strip item_id \<and> moving \<in> set (order_items (rm_items r))"
    using nth_mem by blast
  then show "moving \<in> set (rm_items r)" and "ri_id moving = py_strip item_id" by simp_all
  show "others = ?others" by (rule others)
  have general: "py_strip (lane_or_general lane) = lane_or_general lane" "lane_or_general lane \<noteq> []"
    by (simp_all add: lane_or_general_def Let_def) code_simp
  have ok: "py_strip (ri_lane (?others ! k)) = ri_lane (?others ! k) \<and> ri_lane (?others ! k) \<noteq> []" if "k < length ?others" for k
  proof -
    have "?others ! k \<in> set (rm_items r)" using nth_mem [OF that] by simp
    with assms(2) have "item_ok (?others ! k)" by (auto simp: roadmap_ok_def list_all_iff)
    then show ?thesis by (rule item_ok_lane)
  qed
  from dest have "lane' = lane_or_general lane \<or> (\<exists>k < length ?others. lane' = ri_lane (?others ! k))"
    by (auto simp: destination_def split: if_splits option.splits dest!: first_index_Some)
  then show "py_strip lane' = lane'" and "lane' \<noteq> []" using general ok by metis+
  assume t: "py_strip target_id \<noteq> []" "py_strip target_id \<noteq> py_strip item_id" "placement_of placement \<noteq> ''end''"
  then obtain b where b: "validate_roadmap_id (PStr (py_strip target_id)) ''target roadmap item id'' = Inr b"
    using dest by (auto simp: destination_def)
  have same: "b = py_strip target_id" using strip [OF b] by simp
  have found: "(case first_index (\<lambda>i. ri_id i = py_strip target_id) ?others of
        None \<Rightarrow> Inl (RoadmapNotFoundError (''target roadmap item not found: '' @ py_strip target_id))
      | Some k \<Rightarrow> Inr (ri_lane (?others ! k), k + (if placement_of placement = ''after'' then 1 else 0))) = Inr (lane', n)"
    using dest t b unfolding same by (simp only: destination_def rbind_Inr if_True simp_thms if_False)
  then obtain k where "first_index (\<lambda>i. ri_id i = py_strip target_id) ?others = Some k"
    and "lane' = ri_lane (?others ! k)" "n = k + (if placement_of placement = ''after'' then 1 else 0)"
    by (cases "first_index (\<lambda>i. ri_id i = py_strip target_id) ?others") (simp_all del: first_index.simps)
  then show "\<exists>k < length others. ri_id (others ! k) = py_strip target_id \<and> lane' = ri_lane (others ! k)
        \<and> n = k + (if placement_of placement = ''after'' then 1 else 0)"
    unfolding others by (intro exI [of _ k]) (auto dest: first_index_Some)
qed

lemma if_both: "(b \<Longrightarrow> P) \<Longrightarrow> (\<not> b \<Longrightarrow> Q) \<Longrightarrow> if b then P else Q"
  by simp

lemma plan_move_placed:
  assumes "plan_move r item_id lane target_id placement = Inr (moving, others, ri_lane moved, n)" and "roadmap_ok r"
  shows "placed_as_asked lane item_id target_id placement (take n others) moved (drop n others)"
proof -
  note p = plan_move_Inr [OF assms]
  have asked: "(if py_strip lane = [] then ''General'' else py_strip lane) = lane_or_general lane"
    by (simp add: lane_or_general_def Let_def)
  let ?P = "placement_of placement" and ?L = "lane_or_general lane"
  have place: "py_lower (py_strip (if placement = [] then ''before'' else placement)) = ?P"
    by (simp add: placement_of_def)
  have e: "if \<exists>x \<in> set (take n others @ drop n others). ri_lane x = ?L
      then take n others \<noteq> [] \<and> ri_lane (last (take n others)) = ?L \<and> (\<forall>x \<in> set (drop n others). ri_lane x \<noteq> ?L)
      else drop n others = []" if fin: "?P = ''end''"
  proof (cases "last_index (\<lambda>i. ri_lane i = ?L) others")
    case None
    then show ?thesis using p(8) [OF fin] last_index_None [of "\<lambda>i. ri_lane i = ?L" others] by simp
  next
    case (Some k)
    note l = last_index_Some [OF Some]
    have n: "n = Suc k" using p(8) [OF fin] Some by simp
    have "last (take n others) = others ! k" "take n others \<noteq> []"
      using l(1) by (simp_all add: n take_Suc_conv_app_nth)
    moreover have "others ! k \<in> set others" using l(1) by simp
    ultimately show ?thesis using l(2,3) unfolding append_take_drop_id n by auto
  qed
  have t: "if ?P = ''after''
       then take n others \<noteq> [] \<and> ri_id (last (take n others)) = py_strip target_id \<and> ri_lane moved = ri_lane (last (take n others))
       else ?P = ''before'' \<and> drop n others \<noteq> [] \<and> ri_id (hd (drop n others)) = py_strip target_id
         \<and> ri_lane moved = ri_lane (hd (drop n others))"
    if "?P \<noteq> ''end''" "\<not> (py_strip target_id = [] \<or> py_strip target_id = py_strip item_id)"
  proof -
    have "py_strip target_id \<noteq> []" "py_strip target_id \<noteq> py_strip item_id" using that(2) by simp_all
    from p(6) [OF this that(1)] obtain k where k: "k < length others" "ri_id (others ! k) = py_strip target_id"
      "ri_lane moved = ri_lane (others ! k)" "n = k + (if ?P = ''after'' then 1 else 0)" by (elim exE conjE)
    show ?thesis
    proof (cases "?P = ''after''")
      case True
      then have "n = Suc k" using k(4) by simp
      then show ?thesis using True k(1-3) by (simp add: take_Suc_conv_app_nth)
    next
      case False
      then have "?P = ''before''" "n = k" using k(4) p(7) that(1) by simp_all
      then show ?thesis using False k(1-3) by (simp add: hd_drop_conv_nth)
    qed
  qed
  show ?thesis
    unfolding placed_as_asked_def Let_def asked place
    apply (rule if_both, rule conjI)
      apply (erule p(8) [THEN conjunct1])
     apply (erule e)
    apply (rule if_both)
     apply (drule (1) p(9), simp)
    apply (erule (1) t)
    done
qed

lemma moved_item_Inr:
  assumes "moved_item moving lane start target = Inr moved" and "item_ok moving"
    and "py_strip lane = lane" and "lane \<noteq> []"
  shows "item_ok moved" and "moved = moving\<lparr>ri_lane := lane, ri_schedule := ri_schedule moved\<rparr>"
    and "ri_kind moving \<in> set project_kinds \<Longrightarrow> ri_schedule moved = ri_schedule moving"
    and "ri_kind moving \<notin> set project_kinds \<Longrightarrow> road_schedule_init (PStr start) (PStr target) = Inr (ri_schedule moved)"
proof -
  obtain s where s: "replace_item (moving\<lparr>ri_lane := lane, ri_schedule := s\<rparr>) = Inr moved" "road_schedule_ok s"
    and kind: "ri_kind moving \<in> set project_kinds \<Longrightarrow> s = ri_schedule moving"
      "ri_kind moving \<notin> set project_kinds \<Longrightarrow> road_schedule_init (PStr start) (PStr target) = Inr s"
  proof (cases "ri_kind moving \<in> set project_kinds")
    case True
    have same: "moving\<lparr>ri_lane := lane, ri_schedule := ri_schedule moving\<rparr> = moving\<lparr>ri_lane := lane\<rparr>" by simp
    from True assms(1,2) that [of "ri_schedule moving"] show thesis
      unfolding same by (simp add: moved_item_def item_ok_def)
  next
    case False
    with assms(1) that show thesis by (auto simp: moved_item_def intro: road_schedule_init_ok)
  qed
  have order: "moving\<lparr>ri_lane := lane, ri_schedule := s\<rparr>
      = moving\<lparr>ri_lane := lane, ri_order := ri_order moving, ri_schedule := s\<rparr>" by simp
  have m: "moved = moving\<lparr>ri_lane := lane, ri_order := ri_order moving, ri_schedule := s\<rparr>"
    using replace_item_Inr [OF assms(2) s(1) [unfolded order]] assms(3,4) by simp
  show "item_ok moved" by (rule replace_item_ok [OF assms(2) s(2) s(1) [unfolded order]])
  show "moved = moving\<lparr>ri_lane := lane, ri_schedule := ri_schedule moved\<rparr>" by (simp add: m)
  from kind show "ri_kind moving \<in> set project_kinds \<Longrightarrow> ri_schedule moved = ri_schedule moving"
    and "ri_kind moving \<notin> set project_kinds \<Longrightarrow> road_schedule_init (PStr start) (PStr target) = Inr (ri_schedule moved)"
    by (simp_all add: m)
qed

lemma move_item_facts:
  assumes ok: "roadmap_ok r" and run: "move_item_in now r item_id lane start target target_id placement = Inr r'"
  obtains moving others n moved where
    "plan_move r item_id lane target_id placement = Inr (moving, others, ri_lane moved, n)"
    and "moved_item moving (ri_lane moved) start target = Inr moved"
    and "renumber (insert_at n moved others) = Inr (rm_items r')" and "list_all item_ok (insert_at n moved others)"
    and "r' = r\<lparr>rm_items := rm_items r', rm_updated_at := now\<rparr>" and "roadmap_ok r'"
proof -
  from run obtain moving others lane' n moved items where
    plan: "plan_move r item_id lane target_id placement = Inr (moving, others, lane', n)"
    and moved: "moved_item moving lane' start target = Inr moved"
    and items: "renumber (insert_at n moved others) = Inr items" and r': "with_items now r items = Inr r'"
    by (auto simp: move_item_in_def place_item_def)
  note p = plan_move_Inr [OF plan ok]
  have mok: "item_ok moving" using p(1) ok by (auto simp: roadmap_ok_def list_all_iff)
  note m = moved_item_Inr [OF moved mok p(4,5)]
  have lane': "ri_lane moved = lane'" by (subst m(2)) simp
  have all: "list_all item_ok (insert_at n moved others)"
  proof -
    have "set (insert_at n moved others) \<subseteq> insert moved (set others)"
      by (auto simp: insert_at_def dest: in_set_takeD in_set_dropD)
    moreover have "\<forall>i \<in> set others. item_ok i" using ok unfolding p(3) by (auto simp: roadmap_ok_def list_all_iff)
    ultimately show ?thesis using m(1) by (auto simp: list_all_iff)
  qed
  have rw: "rm_items r' = items" by (subst with_items_Inr(1) [OF r' ok]) simp
  show ?thesis
  proof (rule that)
    show "plan_move r item_id lane target_id placement = Inr (moving, others, ri_lane moved, n)"
      using plan lane' by simp
    show "moved_item moving (ri_lane moved) start target = Inr moved" using moved lane' by simp
    show "renumber (insert_at n moved others) = Inr (rm_items r')" using items rw by simp
    show "r' = r\<lparr>rm_items := rm_items r', rm_updated_at := now\<rparr>" using with_items_Inr(1) [OF r' ok] rw by simp
    show "roadmap_ok r'" by (rule with_items_ok [OF r' ok renumbered(2) [OF items all]])
  qed (rule all)
qed

end
