(* ===== verification/Road_Diagnostics.thy ===== *)
theory Road_Diagnostics
  imports Exec_Model
begin

text \<open>
  \<open>roadmap/coordination_diagnostics.py\<close>: the fingerprint of a document without its revision, and the
  read-only metadata that explains a write split over two documents: which Roadmap items and which
  Phases, Gates and Milestones an intent changes, and the three-way comparison shown to an operator.
\<close>

definition content_digest :: "(string \<Rightarrow> string) \<Rightarrow> row \<Rightarrow> string" where
  "content_digest sha raw = sha (json_dumps (PDict (filter (\<lambda>(k, v). k \<noteq> ''revision'') raw)))"

section \<open>Summaries\<close>

definition item_summary :: "row option \<Rightarrow> pyval res" where
  "item_summary raw = (case raw of
      None \<Rightarrow> Inr PNone
    | Some d \<Rightarrow> rbind (py_int (row_get d ''order'' (PInt 0))) (\<lambda>order.
        Inr (PDict [(''item_id'', PStr (row_get_str d ''id'' [])), (''kind'', PStr (row_get_str d ''kind'' [])),
          (''project_asset_id'', PStr (row_get_str d ''project_asset_id'' [])),
          (''lane'', PStr (row_get_str d ''lane'' ''General'')), (''order'', PInt order)])))"

definition asset_schedule :: "row \<Rightarrow> string \<Rightarrow> row" where
  "asset_schedule raw kind =
     (let schedule = (case as_dict (row_get raw ''schedule'' PNone) of None \<Rightarrow> [] | Some d \<Rightarrow> d)
      in str_fields [(''start'', row_get_str schedule ''start'' []),
           (''target'', if kind = ''milestone'' then row_get_str raw ''target'' []
                        else row_get_str schedule ''target'' [])])"

definition list_length :: "pyval \<Rightarrow> int" where
  "list_length v = (case v of PList xs \<Rightarrow> int (length xs) | _ \<Rightarrow> 0)"

definition asset_counts :: "row \<Rightarrow> string \<Rightarrow> row" where
  "asset_counts d kind =
     (if kind = ''gate'' then
        (let criteria = row_get d ''criteria'' PNone in
         [(''criterion_count'', PInt (list_length (case as_dict criteria of
              None \<Rightarrow> criteria | Some c \<Rightarrow> row_get c ''all'' (PList []))))])
      else if kind = ''phase'' then [(''task_count'', PInt (list_length (row_get d ''tasks'' PNone)))]
      else if kind = ''milestone'' then
        (case as_dict (row_get d ''requires'' PNone) of
           None \<Rightarrow> []
         | Some q \<Rightarrow> [(''requirement_count'', PInt (sum_list (map (\<lambda>k. list_length (row_get q k PNone))
             [''tasks'', ''gates'', ''milestones''])))])
      else [])"

definition asset_summary :: "row option \<Rightarrow> string \<Rightarrow> pyval" where
  "asset_summary raw kind = (case raw of
      None \<Rightarrow> PNone
    | Some d \<Rightarrow> PDict ([(''asset_id'', PStr (row_get_str d ''id'' [])), (''kind'', PStr kind),
        (''title'', PStr (row_get_str d ''title'' [])), (''schedule'', PDict (asset_schedule d kind))]
        @ asset_counts d kind))"

section \<open>The subjects a document holds\<close>

definition dict_rows :: "row \<Rightarrow> string \<Rightarrow> row list" where
  "dict_rows raw k = (case row_get raw k PNone of
      PList rows \<Rightarrow> filter (\<lambda>d. row_get_str d ''id'' [] \<noteq> []) (List.map_filter as_dict rows)
    | _ \<Rightarrow> [])"

definition indexed_items :: "row \<Rightarrow> row pydict" where
  "indexed_items raw = py_dict (map (\<lambda>d. (row_get_str d ''id'' [], d)) (dict_rows raw ''items''))"

definition indexed_assets :: "row \<Rightarrow> ((string \<times> string) \<times> row) list" where
  "indexed_assets raw = py_dict (List.concat (map (\<lambda>(plural, kind).
     map (\<lambda>d. ((kind, row_get_str d ''id'' []), d)) (dict_rows raw plural))
       [(''phases'', ''phase''), (''gates'', ''gate''), (''milestones'', ''milestone'')]))"

definition same_row :: "row option \<Rightarrow> row option \<Rightarrow> bool" where
  "same_row a b = (case (a, b) of (None, None) \<Rightarrow> True | (Some x, Some y) \<Rightarrow> py_eq (PDict x) (PDict y) | _ \<Rightarrow> False)"

definition changed_keys :: "('k \<times> row) list \<Rightarrow> ('k \<times> row) list \<Rightarrow> 'k list" where
  "changed_keys before desired =
     filter (\<lambda>k. \<not> same_row (map_of before k) (map_of desired k)) (remdups (keys before @ keys desired))"

definition max_forensic_subjects :: nat where "max_forensic_subjects = 32"

definition build_forensic_record :: "row \<Rightarrow> row \<Rightarrow> row \<Rightarrow> row \<Rightarrow> row res" where
  "build_forensic_record before_roadmap desired_roadmap before_execution desired_execution =
     (let before_items = indexed_items before_roadmap; desired_items = indexed_items desired_roadmap;
          item_ids = sort (changed_keys before_items desired_items);
          before_assets = indexed_assets before_execution; desired_assets = indexed_assets desired_execution;
          asset_ids = sort_key (\<lambda>(kind, i). [kind, i]) (changed_keys before_assets desired_assets);
          truncated = (max_forensic_subjects < length item_ids \<or> max_forensic_subjects < length asset_ids)
      in rbind (mapr (\<lambda>i. rbind (item_summary (map_of before_items i)) (\<lambda>b.
                         rbind (item_summary (map_of desired_items i)) (\<lambda>d.
                         Inr (PDict [(''identity'', PDict [(''item_id'', PStr i)]), (''before'', b), (''desired'', d)]))))
                (take max_forensic_subjects item_ids)) (\<lambda>roadmap_rows.
         Inr [(''schema_version'', PInt 1), (''truncated'', PBool truncated),
           (''roadmap'', PList roadmap_rows),
           (''project_execution'', PList (map (\<lambda>(kind, i).
              PDict [(''identity'', PDict [(''kind'', PStr kind), (''asset_id'', PStr i)]),
                (''before'', asset_summary (map_of before_assets (kind, i)) kind),
                (''desired'', asset_summary (map_of desired_assets (kind, i)) kind)])
              (take max_forensic_subjects asset_ids)))]))"

section \<open>The comparison\<close>

definition subject_dict :: "pyval \<Rightarrow> row res" where
  "subject_dict v = (case as_dict v of
      None \<Rightarrow> Inl (AttributeError ''object has no attribute get'') | Some d \<Rightarrow> Inr d)"

definition identity_field :: "row \<Rightarrow> string \<Rightarrow> string" where
  "identity_field subject k = (case as_dict (row_get subject ''identity'' PNone) of
      None \<Rightarrow> [] | Some identity \<Rightarrow> row_get_str identity k [])"

definition current_roadmap_subjects :: "pyval list \<Rightarrow> row \<Rightarrow> pyval list res" where
  "current_roadmap_subjects record_rows current =
     mapr (\<lambda>v. rbind (subject_dict v) (\<lambda>subject.
       (let item_id = identity_field subject ''item_id'' in
        rbind (item_summary (map_of (indexed_items current) item_id)) (\<lambda>summary.
        Inr (PDict [(''identity'', PDict [(''item_id'', PStr item_id)]),
          (''before'', row_get subject ''before'' PNone), (''desired'', row_get subject ''desired'' PNone),
          (''current'', summary)]))))) record_rows"

definition current_project_subjects :: "pyval list \<Rightarrow> row \<Rightarrow> pyval list res" where
  "current_project_subjects record_rows current =
     mapr (\<lambda>v. rbind (subject_dict v) (\<lambda>subject.
       (let kind = identity_field subject ''kind''; asset_id = identity_field subject ''asset_id'' in
        Inr (PDict [(''identity'', PDict [(''kind'', PStr kind), (''asset_id'', PStr asset_id)]),
          (''before'', row_get subject ''before'' PNone), (''desired'', row_get subject ''desired'' PNone),
          (''current'', asset_summary (map_of (indexed_assets current) (kind, asset_id)) kind)])))) record_rows"

definition version :: "int \<times> string \<Rightarrow> pyval" where
  "version v = PDict [(''revision'', PInt (fst v)), (''digest'', PStr (snd v))]"

definition current_version :: "(string \<Rightarrow> string) \<Rightarrow> row \<Rightarrow> pyval res" where
  "current_version sha d = rbind (py_int (row_get d ''revision'' (PInt 0))) (\<lambda>revision.
     Inr (version (revision, if d \<noteq> [] then content_digest sha d else [])))"

definition record_list :: "bool \<Rightarrow> row \<Rightarrow> string \<Rightarrow> pyval list" where
  "record_list available fr k = (if available then (case row_get fr k PNone of PList xs \<Rightarrow> xs | _ \<Rightarrow> []) else [])"

definition forensic_comparison ::
    "(string \<Rightarrow> string) \<Rightarrow> row \<Rightarrow> row option \<Rightarrow> row option \<Rightarrow> int \<times> string \<Rightarrow> int \<times> string \<Rightarrow> int \<times> string
       \<Rightarrow> int \<times> string \<Rightarrow> row res" where
  "forensic_comparison sha fr roadmap_now execution_now roadmap_before roadmap_desired
     project_before project_desired =
     rbind (py_int (row_get fr ''schema_version'' (PInt 0))) (\<lambda>schema.
     (let available = (schema = 1);
          current_roadmap = (case roadmap_now of None \<Rightarrow> [] | Some d \<Rightarrow> d);
          current_execution = (case execution_now of None \<Rightarrow> [] | Some d \<Rightarrow> d)
      in rbind (current_version sha current_roadmap) (\<lambda>roadmap_version.
         rbind (current_roadmap_subjects (record_list available fr ''roadmap'') current_roadmap) (\<lambda>roadmap_subjects.
         rbind (current_version sha current_execution) (\<lambda>execution_version.
         rbind (current_project_subjects (record_list available fr ''project_execution'') current_execution)
           (\<lambda>execution_subjects.
         Inr [(''available'', PBool available),
           (''legacy_reason'', PStr (if available then [] else ''Pending intent predates semantic forensic capture.'')),
           (''truncated'', PBool (available \<and> py_truthy (row_get fr ''truncated'' (PBool False)))),
           (''roadmap'', PDict [(''before'', version roadmap_before), (''desired'', version roadmap_desired),
              (''current'', roadmap_version), (''subjects'', PList roadmap_subjects)]),
           (''project_execution'', PDict [(''before'', version project_before), (''desired'', version project_desired),
              (''current'', execution_version), (''subjects'', PList execution_subjects)])]))))))"

section \<open>Status records\<close>

datatype document_state = Doc_before | Doc_applied | Doc_converged | Doc_divergent

fun document_state_value :: "document_state \<Rightarrow> string" where
  "document_state_value Doc_before = ''before''"
| "document_state_value Doc_applied = ''applied''"
| "document_state_value Doc_converged = ''converged''"
| "document_state_value Doc_divergent = ''divergent''"

record document_status =
  ds_state :: document_state
  ds_expected_revision :: int
  ds_current_revision :: int
  ds_desired_revision :: int
  ds_recorded_revision :: int

definition document_status_as_mapping :: "document_status \<Rightarrow> row" where
  "document_status_as_mapping s =
     [(''state'', PStr (document_state_value (ds_state s))), (''expected_revision'', PInt (ds_expected_revision s)),
      (''current_revision'', PInt (ds_current_revision s)), (''desired_revision'', PInt (ds_desired_revision s)),
      (''recorded_result_revision'', PInt (ds_recorded_revision s))]"

record coordination_status =
  cs_pending :: bool
  cs_project_id :: string
  cs_roadmap_id :: string
  cs_operation_id :: string
  cs_operation :: string
  cs_phase :: string
  cs_created_at :: string
  cs_updated_at :: string
  cs_roadmap :: "document_status option"
  cs_execution :: "document_status option"
  cs_safe_actions :: "string list"
  cs_message :: string
  cs_forensics :: row

definition nothing_pending :: "string \<Rightarrow> coordination_status" where
  "nothing_pending project_id = \<lparr>cs_pending = False, cs_project_id = project_id, cs_roadmap_id = [],
     cs_operation_id = [], cs_operation = [], cs_phase = [], cs_created_at = [], cs_updated_at = [],
     cs_roadmap = None, cs_execution = None, cs_safe_actions = [], cs_message = [], cs_forensics = []\<rparr>"

definition automatic_actions :: "string list" where
  "automatic_actions = [''finalize_terminal'', ''accept_applied'', ''retry_roll_forward'']"

definition automatic_action_available :: "coordination_status \<Rightarrow> bool" where
  "automatic_action_available s \<longleftrightarrow> list_ex (\<lambda>a. a \<in> set (cs_safe_actions s)) automatic_actions"

definition status_divergent :: "coordination_status \<Rightarrow> bool" where
  "status_divergent s \<longleftrightarrow> cs_pending s \<and> (case (cs_roadmap s, cs_execution s) of
      (Some r, Some e) \<Rightarrow> ds_state r = Doc_divergent \<or> ds_state e = Doc_divergent | _ \<Rightarrow> True)"

definition status_as_mapping :: "coordination_status \<Rightarrow> row" where
  "status_as_mapping s =
     [(''pending'', PBool (cs_pending s)), (''project_id'', PStr (cs_project_id s)),
      (''roadmap_id'', PStr (cs_roadmap_id s)), (''operation_id'', PStr (cs_operation_id s)),
      (''operation'', PStr (cs_operation s)), (''phase'', PStr (cs_phase s)),
      (''created_at'', PStr (cs_created_at s)), (''updated_at'', PStr (cs_updated_at s)),
      (''roadmap'', case cs_roadmap s of None \<Rightarrow> PNone | Some d \<Rightarrow> PDict (document_status_as_mapping d)),
      (''project_execution'', case cs_execution s of None \<Rightarrow> PNone | Some d \<Rightarrow> PDict (document_status_as_mapping d)),
      (''safe_actions'', strs (cs_safe_actions s)),
      (''automatic_action_available'', PBool (automatic_action_available s)),
      (''divergent'', PBool (status_divergent s)), (''message'', PStr (cs_message s)),
      (''forensics'', PDict (cs_forensics s))]"

end
