(* ===== verification/Road_Intent.thy ===== *)
theory Road_Intent
  imports Road_Repository Road_Diagnostics
begin

text \<open>
  \<open>CanonicalRoadmapIntent\<close> of \<open>roadmap/coordination.py\<close>: the replayable record of one edit of both
  the Roadmap and the Project Execution definition, its checks, its JSON form and its reader, and
  the classification of a document against the images the intent recorded.
\<close>

record coordination_intent =
  ci_operation_id :: string
  ci_project_id :: string
  ci_roadmap_id :: string
  ci_operation :: string
  ci_expected_roadmap :: int
  ci_expected_execution :: int
  ci_before_roadmap :: string
  ci_before_execution :: string
  ci_desired_roadmap :: row
  ci_desired_execution :: row
  ci_forensic :: row
  ci_phase :: string
  ci_roadmap_revision :: int
  ci_execution_revision :: int
  ci_created_at :: string
  ci_updated_at :: string

definition intent_phases :: "string list" where
  "intent_phases = [''prepared'', ''project_execution_applied'', ''roadmap_applied'', ''complete'', ''aborted'']"

text \<open>\<open>__post_init__\<close> checks the fields and keeps them as they are.\<close>

definition intent_init :: "coordination_intent \<Rightarrow> coordination_intent res" where
  "intent_init i =
     (if py_strip (ci_operation_id i) = []
      then Inl (RoadmapCoordinationError ''coordination operation_id is required'')
      else case validate_project_id (PStr (ci_project_id i)) of
        Inl msg \<Rightarrow> Inl (ProjectError msg)
      | Inr _ \<Rightarrow>
          rbind (validate_roadmap_id (PStr (ci_roadmap_id i)) ''roadmap id'') (\<lambda>_.
          if py_strip (ci_operation i) = []
          then Inl (RoadmapCoordinationError ''coordination operation name is required'')
          else if ci_expected_roadmap i < 1
          then Inl (RoadmapCoordinationError ''coordination Roadmap revision must be positive'')
          else if ci_expected_execution i < 1
          then Inl (RoadmapCoordinationError ''coordination Project Execution revision must be positive'')
          else if ci_phase i \<notin> set intent_phases
          then Inl (RoadmapCoordinationError (''unsupported coordination phase: '' @ py_repr_str (ci_phase i)))
          else Inr i))"

definition intent_as_mapping :: "coordination_intent \<Rightarrow> row" where
  "intent_as_mapping i =
     [(''schema_version'', PInt 1), (''operation_id'', PStr (ci_operation_id i)),
      (''project_id'', PStr (ci_project_id i)), (''roadmap_id'', PStr (ci_roadmap_id i)),
      (''operation'', PStr (ci_operation i)),
      (''expected_roadmap_revision'', PInt (ci_expected_roadmap i)),
      (''expected_project_execution_revision'', PInt (ci_expected_execution i)),
      (''before_roadmap_digest'', PStr (ci_before_roadmap i)),
      (''before_project_execution_digest'', PStr (ci_before_execution i)),
      (''desired_roadmap'', PDict (ci_desired_roadmap i)),
      (''desired_project_execution'', PDict (ci_desired_execution i)),
      (''forensic'', PDict (ci_forensic i)), (''phase'', PStr (ci_phase i)),
      (''roadmap_revision'', PInt (ci_roadmap_revision i)),
      (''project_execution_revision'', PInt (ci_execution_revision i)),
      (''created_at'', PStr (ci_created_at i)), (''updated_at'', PStr (ci_updated_at i))]"

definition intent_from_mapping :: "pyval \<Rightarrow> coordination_intent res" where
  "intent_from_mapping raw =
     (case as_dict raw of
        None \<Rightarrow> Inl (RoadmapCoordinationError ''coordination intent must be a mapping'')
      | Some d \<Rightarrow>
          rbind (py_int (row_get d ''schema_version'' (PInt 0))) (\<lambda>schema.
          if schema \<noteq> 1 then Inl (RoadmapCoordinationError ''unsupported coordination intent schema'')
          else case (as_dict (row_get d ''desired_roadmap'' PNone),
                     as_dict (row_get d ''desired_project_execution'' PNone)) of
            (Some desired_roadmap, Some desired_execution) \<Rightarrow>
              rbind (py_int (row_get d ''expected_roadmap_revision'' (PInt 0))) (\<lambda>expected_roadmap.
              rbind (py_int (row_get d ''expected_project_execution_revision'' (PInt 0))) (\<lambda>expected_execution.
              rbind (py_int (row_get d ''roadmap_revision'' (PInt 0))) (\<lambda>roadmap_revision.
              rbind (py_int (row_get d ''project_execution_revision'' (PInt 0))) (\<lambda>execution_revision.
              intent_init \<lparr>ci_operation_id = row_get_str d ''operation_id'' [],
                ci_project_id = row_get_str d ''project_id'' [], ci_roadmap_id = row_get_str d ''roadmap_id'' [],
                ci_operation = row_get_str d ''operation'' [], ci_expected_roadmap = expected_roadmap,
                ci_expected_execution = expected_execution,
                ci_before_roadmap = row_get_str d ''before_roadmap_digest'' [],
                ci_before_execution = row_get_str d ''before_project_execution_digest'' [],
                ci_desired_roadmap = desired_roadmap, ci_desired_execution = desired_execution,
                ci_forensic = (case as_dict (row_get d ''forensic'' (PDict [])) of None \<Rightarrow> [] | Some f \<Rightarrow> f),
                ci_phase = row_get_str d ''phase'' ''prepared'', ci_roadmap_revision = roadmap_revision,
                ci_execution_revision = execution_revision,
                ci_created_at = row_get_str d ''created_at'' [], ci_updated_at = row_get_str d ''updated_at'' []\<rparr>))))
          | _ \<Rightarrow> Inl (RoadmapCoordinationError ''coordination desired documents are invalid'')))"

definition load_pending :: "pyval option \<Rightarrow> coordination_intent option res" where
  "load_pending pending = (case pending of
      None \<Rightarrow> Inr None
    | Some raw \<Rightarrow> (case as_dict raw of
          None \<Rightarrow> Inl (RoadmapCoordinationError ''Roadmap coordination intent must be a mapping'')
        | Some d \<Rightarrow> rbind (intent_from_mapping raw) (\<lambda>i. Inr (Some i))))"

section \<open>Documents against an intent\<close>

definition document_state_of :: "int \<Rightarrow> string \<Rightarrow> int \<Rightarrow> string \<Rightarrow> string \<Rightarrow> document_state" where
  "document_state_of revision digest before_revision before_digest desired_digest =
     (if revision = before_revision \<and> digest = before_digest then Doc_before
      else if digest = desired_digest \<and> before_revision + 1 \<le> revision
      then (if revision = before_revision + 1 then Doc_applied else Doc_converged)
      else Doc_divergent)"

definition roadmap_state :: "(string \<Rightarrow> string) \<Rightarrow> coordination_intent \<Rightarrow> roadmap \<Rightarrow> document_state" where
  "roadmap_state sha i r = document_state_of (rm_revision r) (content_digest sha (roadmap_as_mapping r))
     (ci_expected_roadmap i) (ci_before_roadmap i) (content_digest sha (ci_desired_roadmap i))"

definition execution_state ::
    "(string \<Rightarrow> string) \<Rightarrow> coordination_intent \<Rightarrow> execution_definition \<Rightarrow> document_state" where
  "execution_state sha i d = document_state_of (pd_revision d) (content_digest sha (definition_as_mapping d))
     (ci_expected_execution i) (ci_before_execution i) (content_digest sha (ci_desired_execution i))"

section \<open>Reading an intent back\<close>

definition intent_ok :: "coordination_intent \<Rightarrow> bool" where
  "intent_ok i \<longleftrightarrow> intent_init i = Inr i"

lemma intent_init_Inr: "intent_init i = Inr j \<Longrightarrow> j = i \<and> intent_ok i"
  by (auto simp: intent_ok_def intent_init_def split: if_splits sum.splits)

lemma intent_round_trip: "intent_ok i \<Longrightarrow> intent_from_mapping (PDict (intent_as_mapping i)) = Inr i"
  by (cases i) (simp add: intent_from_mapping_def intent_as_mapping_def intent_ok_def)

lemma load_pending_stored: "intent_ok i \<Longrightarrow> load_pending (Some (PDict (intent_as_mapping i))) = Inr (Some i)"
  by (simp add: load_pending_def intent_round_trip)

lemma intent_from_mapping_ok: "intent_from_mapping raw = Inr i \<Longrightarrow> intent_ok i"
proof -
  assume "intent_from_mapping raw = Inr i"
  then obtain j where "intent_init j = Inr i"
    unfolding intent_from_mapping_def by (auto split: option.splits if_splits prod.splits)
  then show ?thesis using intent_init_Inr by metis
qed

lemma load_pending_ok: "load_pending p = Inr (Some i) \<Longrightarrow> intent_ok i"
  by (auto simp: load_pending_def intent_from_mapping_ok split: option.splits)

lemma intent_ok_iff:
  "intent_ok i \<longleftrightarrow> py_strip (ci_operation_id i) \<noteq> [] \<and> (\<exists>p. validate_project_id (PStr (ci_project_id i)) = Inr p)
     \<and> (\<exists>r. validate_roadmap_id (PStr (ci_roadmap_id i)) ''roadmap id'' = Inr r) \<and> py_strip (ci_operation i) \<noteq> []
     \<and> 1 \<le> ci_expected_roadmap i \<and> 1 \<le> ci_expected_execution i \<and> ci_phase i \<in> set intent_phases"
  unfolding intent_ok_def intent_init_def
  by (cases "validate_project_id (PStr (ci_project_id i))";
      cases "validate_roadmap_id (PStr (ci_roadmap_id i)) ''roadmap id''") auto

lemma intent_ok_changed:
  "intent_ok i \<Longrightarrow> phase \<in> set intent_phases \<Longrightarrow>
     intent_ok (i\<lparr>ci_phase := phase, ci_roadmap_revision := a, ci_execution_revision := b, ci_updated_at := u\<rparr>)"
  by (simp add: intent_ok_iff)

lemma document_state_Doc_before:
  "document_state_of r d b bd dd = Doc_before \<longleftrightarrow> r = b \<and> d = bd"
  by (auto simp: document_state_of_def)

lemma document_state_next:
  "document_state_of (b + 1) dd b bd dd = Doc_applied"
  by (simp add: document_state_of_def)

text \<open>Fingerprints ignore the revision, and the order in which a definition holds its Tasks.\<close>

lemma content_digest_roadmap_revision:
  "content_digest sha (roadmap_as_mapping (r\<lparr>rm_revision := n\<rparr>)) = content_digest sha (roadmap_as_mapping r)"
  by (simp add: content_digest_def roadmap_as_mapping_def)

lemma content_digest_definition_revision:
  "content_digest sha (definition_as_mapping (d\<lparr>pd_revision := n\<rparr>)) = content_digest sha (definition_as_mapping d)"
  by (simp add: content_digest_def definition_as_mapping_def)

lemma definition_as_mapping_sort_tasks: "definition_as_mapping (sort_tasks d) = definition_as_mapping d"
proof -
  have "pd_schema_version (sort_tasks d) = pd_schema_version d" by (simp add: sort_tasks_def)
  moreover have "sort_key pt_task_id (pd_tasks (sort_tasks d)) = sort_key pt_task_id (pd_tasks d)"
    by (simp add: sort_tasks_def properties_for_sort_key [of "sort_key f xs" "sort_key f xs" f for f xs])
  ultimately show ?thesis by (simp add: definition_as_mapping_def)
qed

end
