(* ===== verification/Road_Coordination.thy ===== *)
theory Road_Coordination
  imports Road_Intent Exec_Action
begin

text \<open>
  \<open>RoadmapCoordinationStore\<close> and \<open>RoadmapCanonicalCoordinator\<close> of \<open>roadmap/coordination.py\<close>: one edit
  of two durable documents. Every durable write is an effect on the files, so that a process that dies
  leaves what a prefix of its effects made of them. The markers of Roadmap migrations are files too,
  one for each Roadmap. The coordinator lock keeps the pending intent and
  the journal to one process; the two documents have locks of their own, held for one access, and
  \<open>ce_others env n\<close> is what other processes do to them before the \<open>n\<close>-th access of this one.
  Lock timeouts, symbolic links and undecodable bytes are not modelled.
\<close>

section \<open>Files and effects\<close>

record coordination_files =
  cf_roadmaps :: roadmap_dir
  cf_definition :: "pyval option"
  cf_pending :: "pyval option"
  cf_journal :: "row list"
  cf_markers :: "pyval pydict"

datatype coordination_effect =
    By_others roadmap_dir "pyval option"
  | Put_roadmaps roadmap_dir
  | Put_definition "pyval option"
  | Put_pending pyval
  | Clear_pending
  | Put_journal row
  | Put_marker string pyval

fun run_effect :: "coordination_effect \<Rightarrow> coordination_files \<Rightarrow> coordination_files" where
  "run_effect (By_others dir def) f = f\<lparr>cf_roadmaps := dir, cf_definition := def\<rparr>"
| "run_effect (Put_roadmaps dir) f = f\<lparr>cf_roadmaps := dir\<rparr>"
| "run_effect (Put_definition def) f = f\<lparr>cf_definition := def\<rparr>"
| "run_effect (Put_pending raw) f = f\<lparr>cf_pending := Some raw\<rparr>"
| "run_effect Clear_pending f = f\<lparr>cf_pending := None\<rparr>"
| "run_effect (Put_journal e) f = f\<lparr>cf_journal := cf_journal f @ [e]\<rparr>"
| "run_effect (Put_marker i raw) f = f\<lparr>cf_markers := dset i raw (cf_markers f)\<rparr>"

definition replay :: "coordination_effect list \<Rightarrow> coordination_files \<Rightarrow> coordination_files" where
  "replay es f = foldl (\<lambda>f e. run_effect e f) f es"

record coordination_env =
  ce_sha :: "string \<Rightarrow> string"
  ce_now :: string
  ce_uuid :: "nat \<Rightarrow> string"
  ce_path :: string
  ce_pending_path :: string
  ce_project :: string
  ce_others :: "nat \<Rightarrow> roadmap_dir \<times> pyval option \<Rightarrow> roadmap_dir \<times> pyval option"

record coordination_system =
  co_files :: coordination_files
  co_accesses :: nat
  co_uuids :: nat
  co_trace :: "coordination_effect list"

type_synonym 'a coordination = "(coordination_system, 'a) action"

definition emit :: "coordination_effect \<Rightarrow> unit coordination" where
  "emit e s = (Inr (), s\<lparr>co_files := run_effect e (co_files s), co_trace := co_trace s @ [e]\<rparr>)"

definition access :: "coordination_env \<Rightarrow> unit coordination" where
  "access env s = (case ce_others env (co_accesses s) (cf_roadmaps (co_files s), cf_definition (co_files s)) of
     (dir, def) \<Rightarrow> emit (By_others dir def) (s\<lparr>co_accesses := Suc (co_accesses s)\<rparr>))"

definition fresh_uuid :: "coordination_env \<Rightarrow> string coordination" where
  "fresh_uuid env s = (Inr (ce_uuid env (co_uuids s)), s\<lparr>co_uuids := Suc (co_uuids s)\<rparr>)"

section \<open>The two documents\<close>

definition load_roadmap :: "coordination_env \<Rightarrow> string \<Rightarrow> roadmap coordination" where
  "load_roadmap env roadmap_id =
     ebind (access env) (\<lambda>_. ebind (eget (\<lambda>s. roadmap_load roadmap_id (cf_roadmaps (co_files s)))) elift)"

definition load_execution :: "coordination_env \<Rightarrow> execution_definition coordination" where
  "load_execution env =
     ebind (access env) (\<lambda>_. ebind (eget (\<lambda>s. repository_load (ce_path env) (cf_definition (co_files s)))) elift)"

definition save_roadmap :: "coordination_env \<Rightarrow> roadmap \<Rightarrow> int \<Rightarrow> roadmap coordination" where
  "save_roadmap env r expected =
     ebind (access env) (\<lambda>_.
     ebind (eget (\<lambda>s. roadmap_save r expected (cf_roadmaps (co_files s)))) (\<lambda>result.
     ebind (elift result) (\<lambda>(saved, dir). ebind (emit (Put_roadmaps dir)) (\<lambda>_. ereturn saved))))"

definition save_execution :: "coordination_env \<Rightarrow> execution_definition \<Rightarrow> int \<Rightarrow> execution_definition coordination" where
  "save_execution env d expected =
     ebind (access env) (\<lambda>_.
     ebind (eget (\<lambda>s. repository_save (ce_path env) d expected (cf_definition (co_files s)))) (\<lambda>result.
     ebind (elift result) (\<lambda>(saved, def). ebind (emit (Put_definition def)) (\<lambda>_. ereturn saved))))"

section \<open>RoadmapCoordinationStore\<close>

definition read_pending :: "coordination_intent option coordination" where
  "read_pending = ebind (eget (\<lambda>s. load_pending (cf_pending (co_files s)))) elift"

definition save_pending :: "coordination_intent \<Rightarrow> unit coordination" where
  "save_pending i = emit (Put_pending (PDict (intent_as_mapping i)))"

definition journal_row :: "coordination_env \<Rightarrow> coordination_intent \<Rightarrow> string \<Rightarrow> row" where
  "journal_row env i reason =
     [(''schema_version'', PInt 1), (''operation_id'', PStr (ci_operation_id i)),
      (''project_id'', PStr (ci_project_id i)), (''roadmap_id'', PStr (ci_roadmap_id i)),
      (''operation'', PStr (ci_operation i)), (''phase'', PStr (ci_phase i)), (''reason'', PStr reason),
      (''roadmap_revision'', PInt (ci_roadmap_revision i)),
      (''project_execution_revision'', PInt (ci_execution_revision i)),
      (''created_at'', PStr (ci_created_at i)), (''updated_at'', PStr (ci_updated_at i)),
      (''timestamp'', PStr (ce_now env))]"

definition finalize_intent :: "coordination_env \<Rightarrow> coordination_intent \<Rightarrow> string \<Rightarrow> string \<Rightarrow> unit coordination" where
  "finalize_intent env i phase reason =
     ebind (elift (intent_init (i\<lparr>ci_phase := phase, ci_updated_at := ce_now env\<rparr>))) (\<lambda>terminal.
     ebind (save_pending terminal) (\<lambda>_.
     ebind (emit (Put_journal (journal_row env terminal reason))) (\<lambda>_.
     emit Clear_pending)))"

definition complete_intent :: "coordination_env \<Rightarrow> coordination_intent \<Rightarrow> unit coordination" where
  "complete_intent env i = finalize_intent env i ''complete'' []"

definition abort_intent :: "coordination_env \<Rightarrow> coordination_intent \<Rightarrow> string \<Rightarrow> unit coordination" where
  "abort_intent env i reason = finalize_intent env i ''aborted'' reason"

text \<open>The newest terminal records, oldest first, at least one and at most a hundred.\<close>

definition read_journal :: "int \<Rightarrow> row list \<Rightarrow> row list" where
  "read_journal limit journal = (let bounded = nat (max 1 (min limit 100)) in drop (length journal - bounded) journal)"

section \<open>Applying an intent\<close>

definition divergence :: "coordination_env \<Rightarrow> coordination_intent \<Rightarrow> document_state \<Rightarrow> document_state \<Rightarrow> py_error" where
  "divergence env i execution_st roadmap_st = RoadmapCoordinationConflictError
     (''cannot automatically reconcile canonical Roadmap mutation '' @ ci_operation_id i
      @ '': Project Execution is '' @ document_state_value execution_st @ '', Roadmap is ''
      @ document_state_value roadmap_st @ ''; refresh and resolve the pending intent at '' @ ce_pending_path env)"

text \<open>The definition's side, from its state before: write it, and record the revision it has.\<close>

definition apply_execution ::
    "coordination_env \<Rightarrow> coordination_intent \<Rightarrow> execution_definition \<Rightarrow> execution_definition coordination" where
  "apply_execution env i current =
     (if execution_state (ce_sha env) i current = Doc_before then
        ebind (elift (definition_from_mapping (PDict (ci_desired_execution i)))) (\<lambda>desired.
        ebind (eattempt (save_execution env desired (ci_expected_execution i))) (\<lambda>result. case result of
            Inr saved \<Rightarrow> ereturn saved
          | Inl e \<Rightarrow> (case e of
                ProjectExecutionConflictError m \<Rightarrow>
                  ebind (load_roadmap env (ci_roadmap_id i)) (\<lambda>probe.
                  ebind (ewhen (roadmap_state (ce_sha env) i probe = Doc_before) (abort_intent env i m)) (\<lambda>_.
                  eraise e))
              | _ \<Rightarrow> eraise e)))
      else ereturn current)"

definition apply_roadmap :: "coordination_env \<Rightarrow> coordination_intent \<Rightarrow> roadmap coordination" where
  "apply_roadmap env i =
     ebind (load_roadmap env (ci_roadmap_id i)) (\<lambda>current.
     if roadmap_state (ce_sha env) i current = Doc_divergent
     then eraise (RoadmapCoordinationConflictError
       (''cannot automatically reconcile canonical Roadmap mutation after Project Execution was applied ''
        @ ''because the Roadmap changed; pending intent: '' @ ce_pending_path env))
     else if roadmap_state (ce_sha env) i current = Doc_before then
       ebind (elift (roadmap_from_mapping (PDict (ci_desired_roadmap i)))) (\<lambda>desired.
       save_roadmap env desired (ci_expected_roadmap i))
     else ereturn current)"

definition apply_intent ::
    "coordination_env \<Rightarrow> coordination_intent \<Rightarrow> (roadmap \<times> execution_definition) coordination" where
  "apply_intent env i =
     ebind (load_execution env) (\<lambda>current_execution.
     ebind (load_roadmap env (ci_roadmap_id i)) (\<lambda>current_roadmap.
     (let execution_st = execution_state (ce_sha env) i current_execution;
          roadmap_st = roadmap_state (ce_sha env) i current_roadmap
      in if execution_st = Doc_divergent \<or> roadmap_st = Doc_divergent
         then eraise (divergence env i execution_st roadmap_st)
         else
           ebind (apply_execution env i current_execution) (\<lambda>saved_execution.
           ebind (elift (intent_init (i\<lparr>ci_phase := ''project_execution_applied'',
             ci_execution_revision := pd_revision saved_execution, ci_updated_at := ce_now env\<rparr>))) (\<lambda>applied.
           ebind (save_pending applied) (\<lambda>_.
           ebind (apply_roadmap env applied) (\<lambda>saved_roadmap.
           ebind (elift (intent_init (applied\<lparr>ci_phase := ''roadmap_applied'',
             ci_roadmap_revision := rm_revision saved_roadmap,
             ci_execution_revision := pd_revision saved_execution, ci_updated_at := ce_now env\<rparr>))) (\<lambda>both.
           ebind (save_pending both) (\<lambda>_.
           ebind (complete_intent env both) (\<lambda>_.
           ereturn (saved_roadmap, saved_execution)))))))))))"

section \<open>Recovering\<close>

definition foreign_intent :: py_error where
  "foreign_intent = RoadmapCoordinationConflictError
     ''pending Roadmap coordination intent belongs to another project''"

definition reconcile_pending :: "coordination_env \<Rightarrow> bool coordination" where
  "reconcile_pending env =
     ebind read_pending (\<lambda>pending. case pending of
         None \<Rightarrow> ereturn False
       | Some i \<Rightarrow>
           if ci_project_id i \<noteq> ce_project env then eraise foreign_intent
           else if ci_phase i = ''complete'' then ebind (complete_intent env i) (\<lambda>_. ereturn True)
           else if ci_phase i = ''aborted''
           then ebind (abort_intent env i ''recovered terminal aborted intent'') (\<lambda>_. ereturn True)
           else ebind (apply_intent env i) (\<lambda>_. ereturn True))"

section \<open>A coordinated edit\<close>

definition roadmap_digest :: "coordination_env \<Rightarrow> roadmap \<Rightarrow> string" where
  "roadmap_digest env r = content_digest (ce_sha env) (roadmap_as_mapping r)"

definition execution_digest :: "coordination_env \<Rightarrow> execution_definition \<Rightarrow> string" where
  "execution_digest env d = content_digest (ce_sha env) (definition_as_mapping d)"

definition check_current ::
    "coordination_env \<Rightarrow> roadmap \<Rightarrow> roadmap \<Rightarrow> execution_definition \<Rightarrow> execution_definition \<Rightarrow> unit res" where
  "check_current env durable_roadmap current_roadmap durable_execution current_execution =
     (if rm_revision durable_roadmap \<noteq> rm_revision current_roadmap
      then Inl (RoadmapConflictError
        (''roadmap changed since it was loaded; refresh before saving (expected revision ''
         @ py_str_int (rm_revision current_roadmap) @ '', current '' @ py_str_int (rm_revision durable_roadmap) @ '')''))
      else if pd_revision durable_execution \<noteq> pd_revision current_execution
      then Inl (ProjectExecutionConflictError
        (''Project Execution changed since the Roadmap projection was loaded; refresh before editing ''
         @ ''canonical project assets (expected revision '' @ py_str_int (pd_revision current_execution)
         @ '', current '' @ py_str_int (pd_revision durable_execution) @ '')''))
      else if roadmap_digest env durable_roadmap \<noteq> roadmap_digest env current_roadmap
      then Inl (RoadmapConflictError ''roadmap content changed without the expected revision; refresh before saving'')
      else if execution_digest env durable_execution \<noteq> execution_digest env current_execution
      then Inl (RoadmapCoordinationConflictError ''Project Execution content changed without the expected revision'')
      else Inr ())"

definition prepared_intent ::
    "coordination_env \<Rightarrow> string \<Rightarrow> roadmap \<Rightarrow> roadmap \<Rightarrow> execution_definition \<Rightarrow> execution_definition \<Rightarrow> string
       \<Rightarrow> coordination_intent res" where
  "prepared_intent env uuid current_roadmap desired_roadmap current_execution desired_execution operation =
     rbind (build_forensic_record (roadmap_as_mapping current_roadmap) (roadmap_as_mapping desired_roadmap)
       (definition_as_mapping current_execution) (definition_as_mapping desired_execution)) (\<lambda>forensic.
     intent_init \<lparr>ci_operation_id = uuid, ci_project_id = ce_project env, ci_roadmap_id = rm_id current_roadmap,
       ci_operation = operation, ci_expected_roadmap = rm_revision current_roadmap,
       ci_expected_execution = pd_revision current_execution,
       ci_before_roadmap = roadmap_digest env current_roadmap,
       ci_before_execution = execution_digest env current_execution,
       ci_desired_roadmap = roadmap_as_mapping desired_roadmap,
       ci_desired_execution = definition_as_mapping desired_execution, ci_forensic = forensic,
       ci_phase = ''prepared'', ci_roadmap_revision = 0, ci_execution_revision = 0,
       ci_created_at = ce_now env, ci_updated_at = ce_now env\<rparr>)"

definition coordinate ::
    "coordination_env \<Rightarrow> roadmap \<Rightarrow> roadmap \<Rightarrow> execution_definition \<Rightarrow> execution_definition \<Rightarrow> string
       \<Rightarrow> (roadmap \<times> execution_definition) coordination" where
  "coordinate env current_roadmap desired_roadmap current_execution desired_execution operation =
     ebind (reconcile_pending env) (\<lambda>_.
     ebind (load_roadmap env (rm_id current_roadmap)) (\<lambda>durable_roadmap.
     ebind (load_execution env) (\<lambda>durable_execution.
     ebind (elift (check_current env durable_roadmap current_roadmap durable_execution current_execution)) (\<lambda>_.
     ebind (fresh_uuid env) (\<lambda>uuid.
     ebind (elift (prepared_intent env uuid current_roadmap desired_roadmap current_execution desired_execution
       operation)) (\<lambda>i.
     ebind (save_pending i) (\<lambda>_.
     apply_intent env i)))))))"

section \<open>Status and resolution\<close>

fun roadmap_unreadable :: "py_error \<Rightarrow> bool" where
  "roadmap_unreadable (RoadmapError m) = True"
| "roadmap_unreadable (RoadmapNotFoundError m) = True"
| "roadmap_unreadable (RoadmapConflictError m) = True"
| "roadmap_unreadable (RoadmapCoordinationError m) = True"
| "roadmap_unreadable (RoadmapCoordinationConflictError m) = True"
| "roadmap_unreadable (ValueError m) = True"
| "roadmap_unreadable _ = False"

fun execution_unreadable :: "py_error \<Rightarrow> bool" where
  "execution_unreadable (ProjectExecutionError m) = True"
| "execution_unreadable (ProjectExecutionNotFoundError m) = True"
| "execution_unreadable (ProjectExecutionConflictError m) = True"
| "execution_unreadable (ValueError m) = True"
| "execution_unreadable _ = False"

text \<open>\<open>try: ... except (...)\<close> around a load, \<open>None\<close> for an error it catches.\<close>

definition catching :: "(py_error \<Rightarrow> bool) \<Rightarrow> 'a coordination \<Rightarrow> 'a option coordination" where
  "catching caught m = ebind (eattempt m) (\<lambda>result. case result of
      Inr x \<Rightarrow> ereturn (Some x)
    | Inl e \<Rightarrow> if caught e then ereturn None else eraise e)"

definition roadmap_status :: "coordination_env \<Rightarrow> coordination_intent \<Rightarrow> document_status coordination" where
  "roadmap_status env i =
     ebind (catching roadmap_unreadable (load_roadmap env (ci_roadmap_id i))) (\<lambda>current.
     ereturn \<lparr>ds_state = (case current of None \<Rightarrow> Doc_divergent | Some r \<Rightarrow> roadmap_state (ce_sha env) i r),
       ds_expected_revision = ci_expected_roadmap i,
       ds_current_revision = (case current of None \<Rightarrow> 0 | Some r \<Rightarrow> rm_revision r),
       ds_desired_revision = ci_expected_roadmap i + 1, ds_recorded_revision = ci_roadmap_revision i\<rparr>)"

definition execution_status :: "coordination_env \<Rightarrow> coordination_intent \<Rightarrow> document_status coordination" where
  "execution_status env i =
     ebind (catching execution_unreadable (load_execution env)) (\<lambda>current.
     ereturn \<lparr>ds_state = (case current of None \<Rightarrow> Doc_divergent | Some d \<Rightarrow> execution_state (ce_sha env) i d),
       ds_expected_revision = ci_expected_execution i,
       ds_current_revision = (case current of None \<Rightarrow> 0 | Some d \<Rightarrow> pd_revision d),
       ds_desired_revision = ci_expected_execution i + 1, ds_recorded_revision = ci_execution_revision i\<rparr>)"

definition settled :: "document_state \<Rightarrow> bool" where
  "settled st \<longleftrightarrow> st = Doc_applied \<or> st = Doc_converged"

definition safe_actions :: "string \<Rightarrow> document_state \<Rightarrow> document_state \<Rightarrow> string list \<times> string" where
  "safe_actions phase roadmap_st execution_st =
     (if phase = ''complete'' \<or> phase = ''aborted''
      then ([''finalize_terminal''],
        ''The coordination intent is already terminal ('' @ phase @ '') and only ''
        @ ''durable cleanup remains. No Roadmap or Project Execution write is required.'')
      else if settled roadmap_st \<and> settled execution_st
      then ([''accept_applied''],
        ''Both durable documents match the recorded desired content. ''
        @ ''The pending intent can be finalized without another domain write''
        @ (if roadmap_st = Doc_converged \<or> execution_st = Doc_converged
           then '' after recognizing later revisioned convergence.'' else ''.''))
      else if roadmap_st = Doc_before \<and> execution_st = Doc_before
      then ([''retry_roll_forward'', ''abort''],
        ''Neither durable document contains a coordinated side effect. The exact ''
        @ ''recorded mutation may be replayed, or the untouched intent may be aborted.'')
      else if roadmap_st \<noteq> Doc_divergent \<and> execution_st \<noteq> Doc_divergent
      then ([''retry_roll_forward''],
        ''One durable document contains the recorded desired result and the other ''
        @ ''still matches its exact before image. The intent can be safely rolled forward.'')
      else ([],
        ''At least one durable document changed outside the recorded coordination ''
        @ ''intent. Automatic overwrite, rollback, and force resolution are disabled.''))"

definition intent_forensics ::
    "coordination_env \<Rightarrow> coordination_intent \<Rightarrow> roadmap option \<Rightarrow> execution_definition option \<Rightarrow> row res" where
  "intent_forensics env i r d = forensic_comparison (ce_sha env) (ci_forensic i)
     (map_option roadmap_as_mapping r) (map_option definition_as_mapping d)
     (ci_expected_roadmap i, ci_before_roadmap i)
     (ci_expected_roadmap i + 1, content_digest (ce_sha env) (ci_desired_roadmap i))
     (ci_expected_execution i, ci_before_execution i)
     (ci_expected_execution i + 1, content_digest (ce_sha env) (ci_desired_execution i))"

definition coordination_status_of :: "coordination_env \<Rightarrow> coordination_status coordination" where
  "coordination_status_of env =
     ebind read_pending (\<lambda>pending. case pending of
         None \<Rightarrow> ereturn (nothing_pending (ce_project env))
       | Some i \<Rightarrow>
           if ci_project_id i \<noteq> ce_project env then eraise foreign_intent
           else
             ebind (roadmap_status env i) (\<lambda>roadmap_st.
             ebind (execution_status env i) (\<lambda>execution_st.
             ebind (catching roadmap_unreadable (load_roadmap env (ci_roadmap_id i))) (\<lambda>r.
             ebind (catching execution_unreadable (load_execution env)) (\<lambda>d.
             ebind (elift (intent_forensics env i r d)) (\<lambda>forensics.
             (case safe_actions (ci_phase i) (ds_state roadmap_st) (ds_state execution_st) of (actions, message) \<Rightarrow>
               ereturn \<lparr>cs_pending = True, cs_project_id = ce_project env, cs_roadmap_id = ci_roadmap_id i,
                 cs_operation_id = ci_operation_id i, cs_operation = ci_operation i, cs_phase = ci_phase i,
                 cs_created_at = ci_created_at i, cs_updated_at = ci_updated_at i,
                 cs_roadmap = Some roadmap_st, cs_execution = Some execution_st, cs_safe_actions = actions,
                 cs_message = message, cs_forensics = forensics\<rparr>)))))))"

definition perform_action :: "coordination_env \<Rightarrow> coordination_intent \<Rightarrow> string \<Rightarrow> unit coordination" where
  "perform_action env i action =
     (if action = ''retry_roll_forward'' then ebind (apply_intent env i) (\<lambda>_. ereturn ())
      else if action = ''accept_applied'' then complete_intent env i
      else if action = ''finalize_terminal'' then
        (if ci_phase i = ''complete'' then complete_intent env i
         else if ci_phase i = ''aborted'' then abort_intent env i ''recovered terminal aborted intent''
         else eraise (RoadmapCoordinationConflictError ''coordination intent is no longer terminal; refresh status''))
      else if action = ''abort'' then
        abort_intent env i ''operator aborted coordination before either durable side changed''
      else eraise (RoadmapCoordinationError (''unsupported coordination action: '' @ py_repr_str action)))"

definition resolve :: "coordination_env \<Rightarrow> pyval \<Rightarrow> coordination_status coordination" where
  "resolve env action =
     (let normalized = py_lower (py_strip (str_or_empty action)) in
      ebind (coordination_status_of env) (\<lambda>status.
      if \<not> cs_pending status
      then eraise (RoadmapCoordinationError ''no pending Roadmap coordination intent'')
      else if normalized \<notin> set (cs_safe_actions status)
      then eraise (RoadmapCoordinationConflictError
        (''coordination action '' @ py_repr_str normalized @ '' is not safe for the current durable state; ''
         @ ''available actions: '' @ (if cs_safe_actions status = [] then ''none''
                                     else py_join '', '' (cs_safe_actions status))))
      else ebind read_pending (\<lambda>pending. case pending of
          None \<Rightarrow> ereturn (nothing_pending (ce_project env))
        | Some i \<Rightarrow> ebind (perform_action env i normalized) (\<lambda>_. coordination_status_of env))))"

definition reconcile_if_safe :: "coordination_env \<Rightarrow> coordination_status coordination" where
  "reconcile_if_safe env =
     ebind (coordination_status_of env) (\<lambda>status.
     if cs_pending status \<and> automatic_action_available status
     then (case find (\<lambda>a. a \<in> set (cs_safe_actions status)) automatic_actions of
         None \<Rightarrow> ereturn status
       | Some action \<Rightarrow> resolve env (PStr action))
     else ereturn status)"

end
