(* ===== verification/Road_Recovery.thy ===== *)
theory Road_Recovery
  imports Road_Coordination
begin

text \<open>
  Recovery of a coordinated edit. A process that dies leaves the files a prefix of its effects has
  made; with no other process at work, every such file system is one from which the next
  reconciliation finishes the edit, and so is what a reconciliation that dies itself leaves behind.
\<close>

section \<open>Dying\<close>

definition boot :: "coordination_files \<Rightarrow> coordination_system" where
  "boot f = \<lparr>co_files = f, co_accesses = 0, co_uuids = 0, co_trace = []\<rparr>"

definition crash :: "nat \<Rightarrow> 'a coordination \<Rightarrow> coordination_files \<Rightarrow> coordination_files" where
  "crash n m f = replay (take n (co_trace (snd (m (boot f))))) f"

text \<open>The next processes only reconcile, and each dies after some of its effects.\<close>

definition crashes :: "coordination_env \<Rightarrow> nat list \<Rightarrow> coordination_files \<Rightarrow> coordination_files" where
  "crashes env ns f = foldl (\<lambda>f n. crash n (reconcile_pending env) f) f ns"

definition quiet_others :: "coordination_env \<Rightarrow> bool" where
  "quiet_others env \<longleftrightarrow> (\<forall>n x. ce_others env n x = x)"

lemma replay_simps [simp]: "replay [] f = f" "replay (e # es) f = replay es (run_effect e f)"
  "replay (es @ es') f = replay es' (replay es f)"
  by (simp_all add: replay_def)

section \<open>What holds all the way\<close>

fun always :: "(coordination_files \<Rightarrow> bool) \<Rightarrow> coordination_effect list \<Rightarrow> coordination_files \<Rightarrow> bool" where
  "always P [] f = P f"
| "always P (e # es) f = (P f \<and> always P es (run_effect e f))"

lemma always_snoc: "always P (es @ [e]) f \<longleftrightarrow> always P es f \<and> P (run_effect e (replay es f))"
  by (induction es arbitrary: f) auto

lemma always_take: "always P es f \<Longrightarrow> P (replay (take n es) f)"
proof (induction es arbitrary: n f)
  case (Cons e es)
  then show ?case by (cases n) auto
qed simp

lemma always_last: "always P es f \<Longrightarrow> P (replay es f)"
  using always_take [of P es f "length es"] by simp

definition stands ::
    "(coordination_files \<Rightarrow> bool) \<Rightarrow> coordination_files \<Rightarrow> coordination_files \<Rightarrow> coordination_system \<Rightarrow> bool" where
  "stands P f0 f s \<longleftrightarrow> co_files s = f \<and> f = replay (co_trace s) f0 \<and> always P (co_trace s) f0"

lemma stands_boot: "P f \<Longrightarrow> stands P f f (boot f)"
  by (simp add: stands_def boot_def)

lemma stands_holds: "stands P f0 f s \<Longrightarrow> P f"
  by (auto simp: stands_def dest: always_last)

lemma triple_holds: "(P f \<Longrightarrow> triple (stands P f0 f) m Q E) \<Longrightarrow> triple (stands P f0 f) m Q E"
proof -
  assume *: "P f \<Longrightarrow> triple (stands P f0 f) m Q E"
  show ?thesis
    unfolding triple_def
  proof (intro allI impI)
    fix s assume s: "stands P f0 f s"
    from * [OF stands_holds [OF s]] s show "case m s of (Inl e, s') \<Rightarrow> E s' | (Inr x, s') \<Rightarrow> Q x s'"
      by (simp add: triple_def)
  qed
qed

text \<open>An operation that returns leaves its last files; one that dies, files where \<open>P\<close> holds.\<close>

lemma triple_run:
  assumes "triple (stands P f f) m (\<lambda>x s. Q x (co_files s) \<and> (\<exists>f'. stands P f f' s)) (\<lambda>_. False)" and "P f"
  obtains x s where "m (boot f) = (Inr x, s)" and "Q x (co_files s)" and "\<And>n. P (crash n m f)"
proof -
  obtain r s where run: "m (boot f) = (r, s)" by (cases "m (boot f)")
  with assms(1) stands_boot [of P f, OF assms(2)]
  obtain x where r: "r = Inr x" and q: "Q x (co_files s)" and st: "\<exists>f'. stands P f f' s"
    by (cases r) (auto simp: triple_def dest: spec [of _ "boot f"])
  have "P (crash n m f)" for n using st by (auto simp: crash_def run stands_def intro: always_take)
  with run r q show ?thesis by (intro that) auto
qed

lemma emit_triple:
  "P (run_effect e f) \<Longrightarrow> triple (stands P f0 f) (emit e) (\<lambda>_. stands P f0 (run_effect e f)) E"
  by (auto simp: triple_def emit_def stands_def always_snoc)

lemma access_triple: "quiet_others env \<Longrightarrow> triple (stands P f0 f) (access env) (\<lambda>_. stands P f0 f) E"
proof (rule triple_holds)
  assume "quiet_others env" and "P f"
  then show "triple (stands P f0 f) (access env) (\<lambda>_. stands P f0 f) E"
    by (auto simp: triple_def access_def emit_def stands_def quiet_others_def always_snoc)
qed

text \<open>A value read from the files, and a computation that succeeds on them.\<close>

lemma read_triple:
  "g f = Inr x \<Longrightarrow> triple (stands P f0 f) (ebind (eget (\<lambda>s. g (co_files s))) elift) (\<lambda>y s. y = x \<and> stands P f0 f s) E"
  by (auto simp: triple_def stands_def)

lemma load_roadmap_triple:
  assumes "quiet_others env" and "roadmap_load i (cf_roadmaps f) = Inr r"
  shows "triple (stands P f0 f) (load_roadmap env i) (\<lambda>x s. x = r \<and> stands P f0 f s) E"
  unfolding load_roadmap_def
  by (rule triple_bind [OF access_triple [OF assms(1)]]) (rule read_triple, rule assms(2))

lemma load_execution_triple:
  assumes "quiet_others env" and "repository_load (ce_path env) (cf_definition f) = Inr d"
  shows "triple (stands P f0 f) (load_execution env) (\<lambda>x s. x = d \<and> stands P f0 f s) E"
  unfolding load_execution_def
  by (rule triple_bind [OF access_triple [OF assms(1)]]) (rule read_triple, rule assms(2))

lemma write_triple:
  assumes "g f = Inr (x, y)" and "P (run_effect (e y) f)"
  shows "triple (stands P f0 f)
    (ebind (eget (\<lambda>s. g (co_files s))) (\<lambda>result. ebind (elift result) (\<lambda>(saved, z). ebind (emit (e z)) (\<lambda>_. ereturn saved))))
    (\<lambda>z s. z = x \<and> stands P f0 (run_effect (e y) f) s) E"
  using assms by (auto simp: triple_def stands_def ebind_def emit_def always_snoc)

lemma save_roadmap_triple:
  assumes "quiet_others env" and "roadmap_save r n (cf_roadmaps f) = Inr (saved, dir)"
    and "P (f\<lparr>cf_roadmaps := dir\<rparr>)"
  shows "triple (stands P f0 f) (save_roadmap env r n) (\<lambda>x s. x = saved \<and> stands P f0 (f\<lparr>cf_roadmaps := dir\<rparr>) s) E"
  unfolding save_roadmap_def
  by (rule triple_bind [OF access_triple [OF assms(1)]])
    (use write_triple [of "\<lambda>f. roadmap_save r n (cf_roadmaps f)" f saved dir P Put_roadmaps] assms(2,3) in simp)

lemma save_execution_triple:
  assumes "quiet_others env" and "repository_save (ce_path env) d n (cf_definition f) = Inr (saved, def)"
    and "P (f\<lparr>cf_definition := def\<rparr>)"
  shows "triple (stands P f0 f) (save_execution env d n) (\<lambda>x s. x = saved \<and> stands P f0 (f\<lparr>cf_definition := def\<rparr>) s) E"
  unfolding save_execution_def
  by (rule triple_bind [OF access_triple [OF assms(1)]])
    (use write_triple [of "\<lambda>f. repository_save (ce_path env) d n (cf_definition f)" f saved "def" P Put_definition]
      assms(2,3) in simp)

lemma save_pending_triple:
  "P (f\<lparr>cf_pending := Some (PDict (intent_as_mapping i))\<rparr>) \<Longrightarrow>
     triple (stands P f0 f) (save_pending i) (\<lambda>_. stands P f0 (f\<lparr>cf_pending := Some (PDict (intent_as_mapping i))\<rparr>)) E"
  using emit_triple [of P "Put_pending (PDict (intent_as_mapping i))" f] by (simp add: save_pending_def)

lemma finalize_triple:
  fixes env :: coordination_env and f :: coordination_files and reason :: string
  assumes "intent_ok i" and "phase \<in> set intent_phases"
  defines "i' \<equiv> i\<lparr>ci_phase := phase, ci_updated_at := ce_now env\<rparr>"
  defines "f' \<equiv> f\<lparr>cf_pending := Some (PDict (intent_as_mapping i'))\<rparr>"
  defines "f'' \<equiv> f'\<lparr>cf_journal := cf_journal f @ [journal_row env i' reason]\<rparr>"
  assumes "P f'" and "P f''" and "P (f''\<lparr>cf_pending := None\<rparr>)"
  shows "triple (stands P f0 f) (finalize_intent env i phase reason) (\<lambda>_. stands P f0 (f''\<lparr>cf_pending := None\<rparr>)) E"
proof -
  have "intent_ok i'" using assms(1,2) by (simp add: i'_def intent_ok_iff)
  then have init: "intent_init (i\<lparr>ci_phase := phase, ci_updated_at := ce_now env\<rparr>) = Inr i'"
    by (simp add: intent_ok_def i'_def)
  have "triple (stands P f0 f) (save_pending i') (\<lambda>_. stands P f0 f') E"
    using save_pending_triple [where P = P and f = f and i = i'] assms(6) by (simp add: f'_def)
  moreover have "triple (stands P f0 f') (emit (Put_journal (journal_row env i' reason))) (\<lambda>_. stands P f0 f'') E"
    using emit_triple [where P = P and e = "Put_journal (journal_row env i' reason)" and f = f'] assms(7) by (simp add: f''_def f'_def)
  moreover have "triple (stands P f0 f'') (emit Clear_pending) (\<lambda>_. stands P f0 (f''\<lparr>cf_pending := None\<rparr>)) E"
    using emit_triple [where P = P and e = Clear_pending and f = f''] assms(8) by simp
  ultimately have "triple (stands P f0 f) (ebind (save_pending i') (\<lambda>_.
      ebind (emit (Put_journal (journal_row env i' reason))) (\<lambda>_. emit Clear_pending)))
      (\<lambda>_. stands P f0 (f''\<lparr>cf_pending := None\<rparr>)) E"
    by (intro triple_bind)
  then show ?thesis unfolding finalize_intent_def init by (simp add: ebind_def triple_def)
qed

section \<open>Intents that can be replayed\<close>

text \<open>The steps of an edit change four fields of its intent.\<close>

definition variant :: "coordination_intent \<Rightarrow> coordination_intent \<Rightarrow> bool" where
  "variant i j \<longleftrightarrow> j = i\<lparr>ci_phase := ci_phase j, ci_roadmap_revision := ci_roadmap_revision j,
     ci_execution_revision := ci_execution_revision j, ci_updated_at := ci_updated_at j\<rparr>"

lemma variant_refl [simp]: "variant i i"
  by (simp add: variant_def)

lemma variant_fields:
  assumes "variant i j"
  shows "ci_operation_id j = ci_operation_id i" "ci_project_id j = ci_project_id i"
    "ci_roadmap_id j = ci_roadmap_id i" "ci_operation j = ci_operation i"
    "ci_expected_roadmap j = ci_expected_roadmap i" "ci_expected_execution j = ci_expected_execution i"
    "ci_before_roadmap j = ci_before_roadmap i" "ci_before_execution j = ci_before_execution i"
    "ci_desired_roadmap j = ci_desired_roadmap i" "ci_desired_execution j = ci_desired_execution i"
    "roadmap_state sha j x = roadmap_state sha i x" "execution_state sha j y = execution_state sha i y"
proof -
  obtain p a b u where j: "j = i\<lparr>ci_phase := p, ci_roadmap_revision := a, ci_execution_revision := b, ci_updated_at := u\<rparr>"
    using assms by (auto simp: variant_def)
  show "ci_operation_id j = ci_operation_id i" "ci_project_id j = ci_project_id i"
    "ci_roadmap_id j = ci_roadmap_id i" "ci_operation j = ci_operation i"
    "ci_expected_roadmap j = ci_expected_roadmap i" "ci_expected_execution j = ci_expected_execution i"
    "ci_before_roadmap j = ci_before_roadmap i" "ci_before_execution j = ci_before_execution i"
    "ci_desired_roadmap j = ci_desired_roadmap i" "ci_desired_execution j = ci_desired_execution i"
    "roadmap_state sha j x = roadmap_state sha i x" "execution_state sha j y = execution_state sha i y"
    by (simp_all add: j roadmap_state_def execution_state_def)
qed

lemma variant_change:
  assumes "variant i j"
  shows "variant i (j\<lparr>ci_phase := p\<rparr>)" "variant i (j\<lparr>ci_roadmap_revision := a\<rparr>)"
    "variant i (j\<lparr>ci_execution_revision := b\<rparr>)" "variant i (j\<lparr>ci_updated_at := u\<rparr>)"
proof -
  obtain p' a' b' u' where j: "j = i\<lparr>ci_phase := p', ci_roadmap_revision := a', ci_execution_revision := b', ci_updated_at := u'\<rparr>"
    using assms by (auto simp: variant_def)
  show "variant i (j\<lparr>ci_phase := p\<rparr>)" "variant i (j\<lparr>ci_roadmap_revision := a\<rparr>)"
    "variant i (j\<lparr>ci_execution_revision := b\<rparr>)" "variant i (j\<lparr>ci_updated_at := u\<rparr>)"
    by (simp_all add: j variant_def)
qed

lemma variant_ok: "variant i j \<Longrightarrow> intent_ok i \<Longrightarrow> ci_phase j \<in> set intent_phases \<Longrightarrow> intent_ok j"
  by (simp add: intent_ok_iff variant_fields)

text \<open>The documents it wants are valid ones, of the Roadmap and the project it names.\<close>

definition replayable :: "coordination_env \<Rightarrow> coordination_intent \<Rightarrow> roadmap \<Rightarrow> execution_definition \<Rightarrow> bool" where
  "replayable env i r d \<longleftrightarrow> intent_ok i \<and> ci_project_id i = ce_project env
     \<and> roadmap_ok r \<and> rm_id r = ci_roadmap_id i \<and> ci_desired_roadmap i = roadmap_as_mapping r
     \<and> definition_ok d \<and> definition_wf d None \<and> ci_desired_execution i = definition_as_mapping d"

definition roadmap_ready :: "coordination_env \<Rightarrow> coordination_intent \<Rightarrow> roadmap_dir \<Rightarrow> bool" where
  "roadmap_ready env i dir \<longleftrightarrow> (\<exists>x. roadmap_load (ci_roadmap_id i) dir = Inr x
     \<and> roadmap_state (ce_sha env) i x \<noteq> Doc_divergent)"

definition execution_ready ::
    "coordination_env \<Rightarrow> coordination_intent \<Rightarrow> execution_definition \<Rightarrow> pyval option \<Rightarrow> bool" where
  "execution_ready env i d file \<longleftrightarrow> (\<exists>x. repository_load (ce_path env) file = Inr x
     \<and> execution_state (ce_sha env) i x \<noteq> Doc_divergent \<and> pd_project x = pd_project d)"

text \<open>A document rolled forward: the wanted one with the next revision, or as it is if already there.\<close>

definition roadmap_after :: "coordination_intent \<Rightarrow> roadmap \<Rightarrow> roadmap" where
  "roadmap_after i r = r\<lparr>rm_revision := ci_expected_roadmap i + 1\<rparr>"

definition execution_after :: "coordination_intent \<Rightarrow> execution_definition \<Rightarrow> execution_definition" where
  "execution_after i d = (sort_tasks d)\<lparr>pd_revision := ci_expected_execution i + 1\<rparr>"

definition rolled_roadmap :: "coordination_env \<Rightarrow> coordination_intent \<Rightarrow> roadmap \<Rightarrow> roadmap_dir \<Rightarrow> roadmap_dir" where
  "rolled_roadmap env i r dir = (case roadmap_load (ci_roadmap_id i) dir of
      Inl e \<Rightarrow> dir
    | Inr x \<Rightarrow> if roadmap_state (ce_sha env) i x = Doc_before
               then dset (rm_id r) (PDict (roadmap_as_mapping (roadmap_after i r))) dir else dir)"

definition rolled_execution ::
    "coordination_env \<Rightarrow> coordination_intent \<Rightarrow> execution_definition \<Rightarrow> pyval option \<Rightarrow> pyval option" where
  "rolled_execution env i d file = (case repository_load (ce_path env) file of
      Inl e \<Rightarrow> file
    | Inr x \<Rightarrow> if execution_state (ce_sha env) i x = Doc_before
               then Some (PDict (definition_as_mapping (execution_after i d))) else file)"

lemma settled_iff: "settled st \<longleftrightarrow> st \<noteq> Doc_before \<and> st \<noteq> Doc_divergent"
  by (cases st) (simp_all add: settled_def)

lemma roadmap_after_applied:
  "replayable env i r d \<Longrightarrow> roadmap_state sha i (roadmap_after i r) = Doc_applied"
  by (simp add: roadmap_state_def roadmap_after_def content_digest_roadmap_revision replayable_def document_state_next)

lemma execution_after_applied:
  "replayable env i r d \<Longrightarrow> execution_state sha i (execution_after i d) = Doc_applied"
  by (simp add: execution_state_def execution_after_def content_digest_definition_revision
      definition_as_mapping_sort_tasks replayable_def document_state_next)

lemma roadmap_before_save:
  assumes "replayable env i r d" and "roadmap_load (ci_roadmap_id i) dir = Inr x"
    and "roadmap_state (ce_sha env) i x = Doc_before"
  shows "roadmap_save r (ci_expected_roadmap i) dir = Inr (roadmap_after i r, rolled_roadmap env i r dir)"
    and "roadmap_load (ci_roadmap_id i) (rolled_roadmap env i r dir) = Inr (roadmap_after i r)"
proof -
  from assms(1) have ok: "roadmap_ok r" and i: "rm_id r = ci_roadmap_id i" by (simp_all add: replayable_def)
  from assms(3) have "rm_revision x = ci_expected_roadmap i"
    by (simp add: roadmap_state_def document_state_Doc_before)
  with roadmap_save_current [of r dir x] assms(2) ok i
  show s: "roadmap_save r (ci_expected_roadmap i) dir = Inr (roadmap_after i r, rolled_roadmap env i r dir)"
    by (simp add: rolled_roadmap_def assms(3) roadmap_after_def)
  show "roadmap_load (ci_roadmap_id i) (rolled_roadmap env i r dir) = Inr (roadmap_after i r)"
    by (rule roadmap_save_Inr [OF s ok]) (simp add: i)
qed

lemma definition_ok_after:
  assumes "replayable env i r d"
  shows "definition_ok (execution_after i d)" "definition_wf (execution_after i d) None"
    "sort_tasks (execution_after i d) = execution_after i d"
proof -
  from assms have "1 \<le> ci_expected_execution i + 1" by (simp add: replayable_def intent_ok_iff)
  moreover from assms have ok: "definition_ok (sort_tasks d)" and wf: "definition_wf d None"
    by (simp_all add: replayable_def definition_ok_sort_tasks)
  ultimately show "definition_ok (execution_after i d)"
    unfolding execution_after_def by (intro definition_ok_revision)
  show "definition_wf (execution_after i d) None"
    using wf assms by (simp add: execution_after_def definition_wf_sort_tasks definition_ok_unique_ids replayable_def)
  show "sort_tasks (execution_after i d) = execution_after i d"
    by (simp add: execution_after_def sort_tasks_def properties_for_sort_key [of "sort_key f xs" "sort_key f xs" f for f xs])
qed

lemma execution_before_save:
  assumes "replayable env i r d" and "repository_load (ce_path env) file = Inr x"
    and "execution_state (ce_sha env) i x = Doc_before" and "pd_project x = pd_project d"
  shows "repository_save (ce_path env) (sort_tasks d) (ci_expected_execution i) file
      = Inr (execution_after i d, rolled_execution env i d file)"
    and "repository_load (ce_path env) (rolled_execution env i d file) = Inr (execution_after i d)"
proof -
  from assms(1) have ok: "definition_ok d" and wf: "definition_wf d None" by (simp_all add: replayable_def)
  from assms(3) have rev: "pd_revision x = ci_expected_execution i"
    by (simp add: execution_state_def document_state_Doc_before)
  have "validate_definition (sort_tasks d) None = Inr ()"
    using validate_definition_decides [of "sort_tasks d" None] wf definition_ok_unique_ids [OF ok]
    by (simp add: definition_wf_sort_tasks)
  moreover have "replace_definition ((sort_tasks d)\<lparr>pd_revision := pd_revision x + 1\<rparr>) = Inr (execution_after i d)"
    using replace_definition_ok [OF definition_ok_after(1) [OF assms(1)]] by (simp add: execution_after_def rev)
  moreover have rolled: "rolled_execution env i d file = Some (PDict (definition_as_mapping (execution_after i d)))"
    by (simp add: rolled_execution_def assms(2,3))
  ultimately show "repository_save (ce_path env) (sort_tasks d) (ci_expected_execution i) file
      = Inr (execution_after i d, rolled_execution env i d file)"
    using assms(4) by (simp add: repository_save_def assms(2) rev)
  show "repository_load (ce_path env) (rolled_execution env i d file) = Inr (execution_after i d)"
    unfolding rolled load_stored [OF definition_ok_after(1,2) [OF assms(1)]] definition_ok_after(3) [OF assms(1)] ..
qed

text \<open>Rolling forward reaches a settled document, and changes it no further.\<close>

lemma rolled_roadmap_settled:
  assumes "replayable env i r d" and "roadmap_ready env i dir"
  obtains y where "roadmap_load (ci_roadmap_id i) (rolled_roadmap env i r dir) = Inr y"
    and "settled (roadmap_state (ce_sha env) i y)"
    and "rolled_roadmap env i r (rolled_roadmap env i r dir) = rolled_roadmap env i r dir"
proof -
  from assms(2) obtain x where x: "roadmap_load (ci_roadmap_id i) dir = Inr x"
    and st: "roadmap_state (ce_sha env) i x \<noteq> Doc_divergent" by (auto simp: roadmap_ready_def)
  show ?thesis
  proof (cases "roadmap_state (ce_sha env) i x = Doc_before")
    case True
    note load = roadmap_before_save(2) [OF assms(1) x True]
    show ?thesis
      by (rule that [OF load])
        (simp_all add: roadmap_after_applied [OF assms(1)] settled_iff rolled_roadmap_def [of env i r "rolled_roadmap env i r dir"] load)
  next
    case False
    with st x have "rolled_roadmap env i r dir = dir" by (simp add: rolled_roadmap_def)
    with False st x show ?thesis by (intro that [of x]) (simp_all add: settled_iff)
  qed
qed

lemma rolled_execution_settled:
  assumes "replayable env i r d" and "execution_ready env i d file"
  obtains y where "repository_load (ce_path env) (rolled_execution env i d file) = Inr y"
    and "settled (execution_state (ce_sha env) i y)" and "pd_project y = pd_project d"
    and "rolled_execution env i d (rolled_execution env i d file) = rolled_execution env i d file"
proof -
  from assms(2) obtain x where x: "repository_load (ce_path env) file = Inr x"
    and st: "execution_state (ce_sha env) i x \<noteq> Doc_divergent" and p: "pd_project x = pd_project d"
    by (auto simp: execution_ready_def)
  show ?thesis
  proof (cases "execution_state (ce_sha env) i x = Doc_before")
    case True
    note load = execution_before_save(2) [OF assms(1) x True p]
    show ?thesis
      by (rule that [OF load])
        (simp_all add: execution_after_applied [OF assms(1)] settled_iff execution_after_def
          rolled_execution_def [of env i d "rolled_execution env i d file"] load [unfolded execution_after_def]
          execution_after_applied [OF assms(1), unfolded execution_after_def])
  next
    case False
    with st x have "rolled_execution env i d file = file" by (simp add: rolled_execution_def)
    with False st x p show ?thesis by (intro that [of x]) (simp_all add: settled_iff)
  qed
qed

lemma rolled_ready:
  assumes "replayable env i r d"
  shows "roadmap_ready env i dir \<Longrightarrow> roadmap_ready env i (rolled_roadmap env i r dir)"
    and "execution_ready env i d file \<Longrightarrow> execution_ready env i d (rolled_execution env i d file)"
  by (auto simp: roadmap_ready_def [of env i "rolled_roadmap env i r dir"] settled_iff
        elim: rolled_roadmap_settled [OF assms])
    (auto simp: execution_ready_def [of env i d "rolled_execution env i d file"] settled_iff
        elim: rolled_execution_settled [OF assms])

lemma rolled_twice:
  assumes "replayable env i r d"
  shows "roadmap_ready env i dir \<Longrightarrow> rolled_roadmap env i r (rolled_roadmap env i r dir) = rolled_roadmap env i r dir"
    and "execution_ready env i d file \<Longrightarrow> rolled_execution env i d (rolled_execution env i d file) = rolled_execution env i d file"
  by (rule rolled_roadmap_settled [OF assms], assumption, assumption)
    (rule rolled_execution_settled [OF assms], assumption, assumption)

section \<open>Applying an intent to the end\<close>

definition open_phases :: "string list" where
  "open_phases = [''prepared'', ''project_execution_applied'', ''roadmap_applied'']"

definition pending_in :: "coordination_intent \<Rightarrow> string list \<Rightarrow> coordination_files \<Rightarrow> bool" where
  "pending_in i phases f \<longleftrightarrow> (\<exists>j. variant i j \<and> ci_phase j \<in> set phases
     \<and> cf_pending f = Some (PDict (intent_as_mapping j)))"

text \<open>Each document is as it was when the edit was recorded, or rolled forward.\<close>

definition rolling ::
    "coordination_env \<Rightarrow> coordination_intent \<Rightarrow> roadmap \<Rightarrow> execution_definition \<Rightarrow> coordination_files
       \<Rightarrow> coordination_files \<Rightarrow> bool" where
  "rolling env i r d f0 f \<longleftrightarrow>
     cf_roadmaps f \<in> {cf_roadmaps f0, rolled_roadmap env i r (cf_roadmaps f0)}
     \<and> cf_definition f \<in> {cf_definition f0, rolled_execution env i d (cf_definition f0)}"

definition rolled ::
    "coordination_env \<Rightarrow> coordination_intent \<Rightarrow> roadmap \<Rightarrow> execution_definition \<Rightarrow> coordination_files
       \<Rightarrow> coordination_files \<Rightarrow> bool" where
  "rolled env i r d f0 f \<longleftrightarrow> cf_roadmaps f = rolled_roadmap env i r (cf_roadmaps f0)
     \<and> cf_definition f = rolled_execution env i d (cf_definition f0)"

text \<open>Either the intent is still recorded as open, or both documents are rolled forward.\<close>

definition recoverable ::
    "coordination_env \<Rightarrow> coordination_intent \<Rightarrow> roadmap \<Rightarrow> execution_definition \<Rightarrow> coordination_files
       \<Rightarrow> coordination_files \<Rightarrow> bool" where
  "recoverable env i r d f0 f \<longleftrightarrow> (rolling env i r d f0 f \<and> pending_in i open_phases f)
     \<or> (rolled env i r d f0 f \<and> (cf_pending f = None \<or> pending_in i [''complete''] f))"

lemma ebind_elift [simp]: "ebind (elift (Inr x)) k = k x"
  by (simp add: ebind_def fun_eq_iff)

lemma triple_bind_elift:
  "(\<And>x. r = Inr x \<Longrightarrow> triple P (f x) Q E) \<Longrightarrow> (\<And>s. P s \<Longrightarrow> E s) \<Longrightarrow> triple P (ebind (elift r) f) Q E"
  by (cases r) (simp_all add: triple_def ebind_def)

lemma apply_execution_triple:
  fixes f :: coordination_files
  assumes quiet: "quiet_others env" and rep: "replayable env i r d" and j: "variant i j"
    and x: "repository_load (ce_path env) (cf_definition f) = Inr x"
    and st: "execution_state (ce_sha env) i x \<noteq> Doc_divergent" and p: "pd_project x = pd_project d"
  defines "f' \<equiv> f\<lparr>cf_definition := rolled_execution env i d (cf_definition f)\<rparr>"
  assumes P: "P f'"
  shows "triple (stands P g f) (apply_execution env j x)
    (\<lambda>y s. repository_load (ce_path env) (cf_definition f') = Inr y \<and> stands P g f' s) E"
proof (cases "execution_state (ce_sha env) i x = Doc_before")
  case True
  note save = execution_before_save [OF rep x True p]
  have parse: "definition_from_mapping (PDict (ci_desired_execution j)) = Inr (sort_tasks d)"
    using rep definition_mapping_round_trip [of d] by (simp add: replayable_def variant_fields [OF j])
  have "triple (stands P g f) (save_execution env (sort_tasks d) (ci_expected_execution i))
      (\<lambda>y s. y = execution_after i d \<and> stands P g f' s) (\<lambda>_. False)"
    using save_execution_triple [OF quiet save(1), where P = P] P by (simp add: f'_def)
  then have "triple (stands P g f) (eattempt (save_execution env (sort_tasks d) (ci_expected_execution i)))
      (\<lambda>y s. y = Inr (execution_after i d) \<and> stands P g f' s) E"
    by (intro triple_attempt [where F = "\<lambda>_. False"]) simp_all
  then have "triple (stands P g f) (ebind (eattempt (save_execution env (sort_tasks d) (ci_expected_execution i)))
      (\<lambda>result. case result of Inr saved \<Rightarrow> ereturn saved | Inl e \<Rightarrow> h e))
      (\<lambda>y s. y = execution_after i d \<and> stands P g f' s) E" for h
    by (rule triple_bind) (rule triple_conj_pre, simp add: triple_def)
  then have "triple (stands P g f) (ebind (eattempt (save_execution env (sort_tasks d) (ci_expected_execution i)))
      (\<lambda>result. case result of Inr saved \<Rightarrow> ereturn saved | Inl e \<Rightarrow> h e))
      (\<lambda>y s. repository_load (ce_path env) (cf_definition f') = Inr y \<and> stands P g f' s) E" for h
    by (rule triple_weaken) (simp_all add: save(2) f'_def)
  then show ?thesis
    unfolding apply_execution_def variant_fields [OF j] parse [unfolded variant_fields [OF j]] ebind_elift
    using True by simp
next
  case False
  then have "rolled_execution env i d (cf_definition f) = cf_definition f" by (simp add: rolled_execution_def x)
  then have "f' = f" by (simp add: f'_def)
  with False x show ?thesis by (simp add: apply_execution_def variant_fields [OF j] triple_def)
qed

lemma apply_roadmap_triple:
  fixes f :: coordination_files
  assumes quiet: "quiet_others env" and rep: "replayable env i r d" and j: "variant i j"
    and ready: "roadmap_ready env i (cf_roadmaps f)"
  defines "f' \<equiv> f\<lparr>cf_roadmaps := rolled_roadmap env i r (cf_roadmaps f)\<rparr>"
  assumes P: "P f'"
  shows "triple (stands P g f) (apply_roadmap env j)
    (\<lambda>y s. roadmap_load (ci_roadmap_id i) (cf_roadmaps f') = Inr y \<and> stands P g f' s) E"
proof -
  from ready obtain x where x: "roadmap_load (ci_roadmap_id i) (cf_roadmaps f) = Inr x"
    and st: "roadmap_state (ce_sha env) i x \<noteq> Doc_divergent" by (auto simp: roadmap_ready_def)
  have "triple (stands P g f)
     (if roadmap_state (ce_sha env) i x = Doc_before then
       ebind (elift (roadmap_from_mapping (PDict (ci_desired_roadmap i)))) (\<lambda>desired.
         save_roadmap env desired (ci_expected_roadmap i))
      else ereturn x)
     (\<lambda>y s. roadmap_load (ci_roadmap_id i) (cf_roadmaps f') = Inr y \<and> stands P g f' s) E"
  proof (cases "roadmap_state (ce_sha env) i x = Doc_before")
    case True
    note save = roadmap_before_save [OF rep x True]
    have "roadmap_from_mapping (PDict (ci_desired_roadmap i)) = Inr r"
      using rep by (simp add: replayable_def roadmap_round_trip)
    moreover have "triple (stands P g f) (save_roadmap env r (ci_expected_roadmap i))
        (\<lambda>y s. roadmap_load (ci_roadmap_id i) (cf_roadmaps f') = Inr y \<and> stands P g f' s) E"
      by (rule triple_weaken [OF save_roadmap_triple [OF quiet save(1), where P = P]])
        (use P in \<open>simp_all add: save(2) f'_def\<close>)
    ultimately show ?thesis using True by simp
  next
    case False
    then have "rolled_roadmap env i r (cf_roadmaps f) = cf_roadmaps f" by (simp add: rolled_roadmap_def x)
    then have "f' = f" by (simp add: f'_def)
    with False x show ?thesis by (simp add: triple_def)
  qed
  then show ?thesis
    unfolding apply_roadmap_def variant_fields [OF j]
    by (intro triple_bind [OF load_roadmap_triple [OF quiet x]] triple_conj_pre) (auto simp: st split del: if_split)
qed

lemma pending_inI:
  "variant i j \<Longrightarrow> ci_phase j \<in> set phases \<Longrightarrow>
     pending_in i phases (f\<lparr>cf_pending := Some (PDict (intent_as_mapping j))\<rparr>)"
  by (auto simp: pending_in_def)

lemma pending_in_frame [simp]:
  "pending_in i phases (f\<lparr>cf_roadmaps := a\<rparr>) = pending_in i phases f"
  "pending_in i phases (f\<lparr>cf_definition := b\<rparr>) = pending_in i phases f"
  "pending_in i phases (f\<lparr>cf_journal := c\<rparr>) = pending_in i phases f"
  by (simp_all add: pending_in_def)

lemma rolling_frame [simp]:
  "rolling env i r d f0 (f\<lparr>cf_pending := a\<rparr>) = rolling env i r d f0 f"
  "rolling env i r d f0 (f\<lparr>cf_journal := b\<rparr>) = rolling env i r d f0 f"
  "rolled env i r d f0 (f\<lparr>cf_pending := a\<rparr>) = rolled env i r d f0 f"
  "rolled env i r d f0 (f\<lparr>cf_journal := b\<rparr>) = rolled env i r d f0 f"
  by (simp_all add: rolling_def rolled_def)

lemma rolling_cases:
  assumes "rolling env i r d f0 f"
  obtains "cf_roadmaps f = cf_roadmaps f0" "cf_definition f = cf_definition f0"
  | "cf_roadmaps f = cf_roadmaps f0" "cf_definition f = rolled_execution env i d (cf_definition f0)"
  | "cf_roadmaps f = rolled_roadmap env i r (cf_roadmaps f0)" "cf_definition f = cf_definition f0"
  | "cf_roadmaps f = rolled_roadmap env i r (cf_roadmaps f0)"
    "cf_definition f = rolled_execution env i d (cf_definition f0)"
  using assms by (auto simp: rolling_def)

lemma rolled_rolling: "rolled env i r d f0 f \<Longrightarrow> rolling env i r d f0 f"
  by (simp add: rolled_def rolling_def)

text \<open>Finishing: the last three effects, once both documents are rolled forward.\<close>

definition finish ::
    "coordination_env \<Rightarrow> coordination_intent \<Rightarrow> string \<Rightarrow> string \<Rightarrow> coordination_files \<Rightarrow> coordination_files" where
  "finish env j phase reason f = f\<lparr>cf_pending := None,
     cf_journal := cf_journal f @ [journal_row env (j\<lparr>ci_phase := phase, ci_updated_at := ce_now env\<rparr>) reason]\<rparr>"

lemma complete_triple:
  fixes f :: coordination_files
  assumes ok: "intent_ok i" and j: "variant i j" and phase: "ci_phase j \<in> set intent_phases"
    and P: "\<And>f. recoverable env i r d f0 f \<Longrightarrow> P f" and f: "rolled env i r d f0 f"
  shows "triple (stands P g f) (complete_intent env j) (\<lambda>_. stands P g (finish env j ''complete'' [] f)) E"
proof -
  let ?j = "j\<lparr>ci_phase := ''complete'', ci_updated_at := ce_now env\<rparr>"
  have "variant i ?j" by (intro variant_change j)
  then have pend: "pending_in i [''complete''] (f\<lparr>cf_pending := Some (PDict (intent_as_mapping ?j))\<rparr>)"
    by (intro pending_inI) simp_all
  have j': "intent_ok j" by (rule variant_ok [OF j ok phase])
  have fin: "finish env j ''complete'' [] f = f\<lparr>cf_pending := Some (PDict (intent_as_mapping ?j)),
      cf_journal := cf_journal f @ [journal_row env ?j []], cf_pending := None\<rparr>"
    by (simp add: finish_def)
  show ?thesis
    unfolding complete_intent_def fin
    by (rule finalize_triple [OF j']) (use f pend in \<open>auto intro!: P simp: intent_phases_def recoverable_def\<close>)
qed

lemma apply_intent_triple:
  fixes f :: coordination_files
  assumes quiet: "quiet_others env" and rep: "replayable env i r d" and j: "variant i j"
    and phase: "ci_phase j \<in> set open_phases"
    and ready: "roadmap_ready env i (cf_roadmaps f0)" "execution_ready env i d (cf_definition f0)"
    and P: "\<And>f. recoverable env i r d f0 f \<Longrightarrow> P f"
    and f: "rolling env i r d f0 f" and pend: "pending_in i open_phases f"
  shows "triple (stands P g f) (apply_intent env j)
    (\<lambda>z s. roadmap_load (ci_roadmap_id i) (rolled_roadmap env i r (cf_roadmaps f0)) = Inr (fst z)
       \<and> repository_load (ce_path env) (rolled_execution env i d (cf_definition f0)) = Inr (snd z)
       \<and> (\<exists>k. variant i k \<and> stands P g (finish env k ''complete'' [] (f\<lparr>
            cf_roadmaps := rolled_roadmap env i r (cf_roadmaps f0),
            cf_definition := rolled_execution env i d (cf_definition f0)\<rparr>)) s)) E"
proof -
  let ?dir = "rolled_roadmap env i r (cf_roadmaps f0)" and ?def = "rolled_execution env i d (cf_definition f0)"
  let ?post = "\<lambda>z s. roadmap_load (ci_roadmap_id i) ?dir = Inr (fst z) \<and> repository_load (ce_path env) ?def = Inr (snd z)
     \<and> (\<exists>k. variant i k \<and> stands P g (finish env k ''complete'' [] (f\<lparr>cf_roadmaps := ?dir, cf_definition := ?def\<rparr>)) s)"
  from rep have ok: "intent_ok i" by (simp add: replayable_def)
  have dir: "rolled_roadmap env i r (cf_roadmaps f) = ?dir" "roadmap_ready env i (cf_roadmaps f)"
    using f ready(1) rolled_twice(1) [OF rep ready(1)] rolled_ready(1) [OF rep ready(1)]
    by (elim rolling_cases; simp)+
  have "def": "rolled_execution env i d (cf_definition f) = ?def" "execution_ready env i d (cf_definition f)"
    using f ready(2) rolled_twice(2) [OF rep ready(2)] rolled_ready(2) [OF rep ready(2)]
    by (elim rolling_cases; simp)+
  from def(2) obtain x where x: "repository_load (ce_path env) (cf_definition f) = Inr x"
    "execution_state (ce_sha env) i x \<noteq> Doc_divergent" "pd_project x = pd_project d"
    by (auto simp: execution_ready_def)
  from dir(2) obtain y where y: "roadmap_load (ci_roadmap_id i) (cf_roadmaps f) = Inr y"
    "roadmap_state (ce_sha env) i y \<noteq> Doc_divergent" by (auto simp: roadmap_ready_def)
  have open_ok: "set open_phases \<subseteq> set intent_phases" by (auto simp: open_phases_def intent_phases_def)
  let ?f1 = "f\<lparr>cf_definition := ?def\<rparr>"
  have f1: "rolling env i r d f0 ?f1" using f by (simp add: rolling_def)
  have P1: "P ?f1" using f1 pend by (intro P) (simp add: recoverable_def)
  have after: "triple (stands P g ?f1)
      (ebind (elift (intent_init (j\<lparr>ci_phase := ''project_execution_applied'',
             ci_execution_revision := pd_revision saved_execution, ci_updated_at := ce_now env\<rparr>))) (\<lambda>applied.
           ebind (save_pending applied) (\<lambda>_.
           ebind (apply_roadmap env applied) (\<lambda>saved_roadmap.
           ebind (elift (intent_init (applied\<lparr>ci_phase := ''roadmap_applied'',
             ci_roadmap_revision := rm_revision saved_roadmap,
             ci_execution_revision := pd_revision saved_execution, ci_updated_at := ce_now env\<rparr>))) (\<lambda>both.
           ebind (save_pending both) (\<lambda>_.
           ebind (complete_intent env both) (\<lambda>_.
           ereturn (saved_roadmap, saved_execution))))))))
      ?post E"
    if se: "repository_load (ce_path env) ?def = Inr saved_execution" for saved_execution
  proof -
    let ?a = "j\<lparr>ci_phase := ''project_execution_applied'',
             ci_execution_revision := pd_revision saved_execution, ci_updated_at := ce_now env\<rparr>"
    have va: "variant i ?a" by (intro variant_change j)
    then have oka: "intent_init ?a = Inr ?a"
      using variant_ok [OF va ok] by (simp add: intent_ok_def intent_phases_def)
    let ?f2 = "?f1\<lparr>cf_pending := Some (PDict (intent_as_mapping ?a))\<rparr>"
    have pa: "pending_in i open_phases ?f2" by (rule pending_inI [OF va]) (simp add: open_phases_def)
    have P2: "P ?f2" using f1 pa by (intro P) (simp add: recoverable_def)
    let ?f3 = "?f2\<lparr>cf_roadmaps := ?dir\<rparr>"
    have f3: "rolled env i r d f0 ?f3" by (simp add: rolled_def)
    have P3: "P ?f3" using rolled_rolling [OF f3] pa by (intro P) (simp add: recoverable_def)
    have tail: "triple (stands P g ?f3)
       (ebind (elift (intent_init (?a\<lparr>ci_phase := ''roadmap_applied'',
             ci_roadmap_revision := rm_revision saved_roadmap,
             ci_execution_revision := pd_revision saved_execution, ci_updated_at := ce_now env\<rparr>))) (\<lambda>both.
           ebind (save_pending both) (\<lambda>_.
           ebind (complete_intent env both) (\<lambda>_.
           ereturn (saved_roadmap, saved_execution)))))
      ?post E"
      if sr: "roadmap_load (ci_roadmap_id i) ?dir = Inr saved_roadmap" for saved_roadmap
    proof -
      let ?b = "?a\<lparr>ci_phase := ''roadmap_applied'', ci_roadmap_revision := rm_revision saved_roadmap,
             ci_execution_revision := pd_revision saved_execution, ci_updated_at := ce_now env\<rparr>"
      have vb: "variant i ?b" by (intro variant_change va)
      then have okb: "intent_init ?b = Inr ?b"
        using variant_ok [OF vb ok] by (simp add: intent_ok_def intent_phases_def)
      let ?f4 = "?f3\<lparr>cf_pending := Some (PDict (intent_as_mapping ?b))\<rparr>"
      have f4: "rolled env i r d f0 ?f4" by (simp add: rolled_def)
      have pb: "pending_in i open_phases ?f4" by (rule pending_inI [OF vb]) (simp add: open_phases_def)
      have "P ?f4" using rolled_rolling [OF f4] pb by (intro P) (simp add: recoverable_def)
      then have save: "triple (stands P g ?f3) (save_pending ?b) (\<lambda>_. stands P g ?f4) E"
        by (rule save_pending_triple)
      have phb: "ci_phase ?b \<in> set intent_phases" by (simp add: intent_phases_def)
      have fin: "finish env ?b ''complete'' [] ?f4
          = finish env ?b ''complete'' [] (f\<lparr>cf_roadmaps := ?dir, cf_definition := ?def\<rparr>)"
        by (simp add: finish_def)
      have fin': "triple (stands P g ?f4) (complete_intent env ?b)
          (\<lambda>_. stands P g (finish env ?b ''complete'' [] (f\<lparr>cf_roadmaps := ?dir, cf_definition := ?def\<rparr>))) E"
        using complete_triple [OF ok vb phb _ f4, where P = P and g = g and E = E] P unfolding fin by blast
      show ?thesis
        unfolding okb ebind_elift
        by (rule triple_bind [OF save], rule triple_bind [OF fin'], rule triple_pure) (use vb se sr in auto)
    qed
    have ready2: "roadmap_ready env i (cf_roadmaps ?f2)" and dir2: "rolled_roadmap env i r (cf_roadmaps ?f2) = ?dir"
      using dir by simp_all
    show ?thesis
      unfolding oka ebind_elift
    proof (rule triple_bind, rule save_pending_triple [where f = ?f1], rule P2, rule triple_bind)
      show "triple (stands P g ?f2) (apply_roadmap env ?a)
         (\<lambda>y s. roadmap_load (ci_roadmap_id i) ?dir = Inr y \<and> stands P g ?f3 s) E"
        using apply_roadmap_triple [OF quiet rep va ready2, where P = P and g = g and E = E] P3
        unfolding dir2 by simp
    qed (rule triple_conj_pre, erule tail)
  qed
  have "triple (stands P g f) (apply_execution env j x)
      (\<lambda>y s. repository_load (ce_path env) ?def = Inr y \<and> stands P g ?f1 s) E"
    using apply_execution_triple [OF quiet rep j x, where P = P and g = g and E = E] P1 unfolding "def"(1) by simp
  then show ?thesis
    unfolding apply_intent_def variant_fields(3) [OF j]
    by (intro triple_bind [OF load_execution_triple [OF quiet x(1)]] triple_bind [OF load_roadmap_triple [OF quiet y(1)]]
        triple_conj_pre)
      (simp add: variant_fields [OF j] x(2) y(2) Let_def, erule triple_bind, rule triple_conj_pre, erule after)
qed

section \<open>Reconciling\<close>

lemma intent_stored:
  assumes "pending_in i phases f" and "intent_ok i" and "set phases \<subseteq> set intent_phases"
  obtains j where "variant i j" and "ci_phase j \<in> set phases" and "load_pending (cf_pending f) = Inr (Some j)"
proof -
  from assms(1) obtain j where j: "variant i j" "ci_phase j \<in> set phases"
    "cf_pending f = Some (PDict (intent_as_mapping j))" by (auto simp: pending_in_def)
  then have "intent_ok j" using assms(2,3) by (auto intro: variant_ok)
  with j show ?thesis by (intro that) (simp_all add: load_pending_stored)
qed

lemma reconcile_triple:
  fixes f :: coordination_files
  assumes quiet: "quiet_others env" and rep: "replayable env i r d"
    and ready: "roadmap_ready env i (cf_roadmaps f0)" "execution_ready env i d (cf_definition f0)"
    and P: "\<And>f. recoverable env i r d f0 f \<Longrightarrow> P f" and f: "recoverable env i r d f0 f"
  shows "triple (stands P g f) (reconcile_pending env)
    (\<lambda>_ s. \<exists>f'. stands P g f' s \<and> rolled env i r d f0 f' \<and> cf_pending f' = None) E"
proof -
  from rep have ok: "intent_ok i" and project: "ci_project_id i = ce_project env" by (simp_all add: replayable_def)
  let ?post = "\<lambda>_ s. \<exists>f'. stands P g f' s \<and> rolled env i r d f0 f' \<and> cf_pending f' = None"
  consider (none) "cf_pending f = None" "rolled env i r d f0 f"
    | (complete) "pending_in i [''complete''] f" "rolled env i r d f0 f"
    | (unfinished) "pending_in i open_phases f" "rolling env i r d f0 f"
    using f by (auto simp: recoverable_def)
  then show ?thesis
  proof cases
    case none
    then have p: "load_pending (cf_pending f) = Inr None" by (simp add: load_pending_def)
    show ?thesis
      unfolding reconcile_pending_def read_pending_def
      by (intro triple_bind [OF read_triple [where g = "\<lambda>f. load_pending (cf_pending f)", OF p]] triple_conj_pre)
        (use none in \<open>auto intro!: triple_pure\<close>)
  next
    case complete
    from complete(1) ok obtain j where j: "variant i j" "ci_phase j = ''complete''"
      "load_pending (cf_pending f) = Inr (Some j)" by (rule intent_stored) (simp_all add: intent_phases_def)
    have "triple (stands P g f) (complete_intent env j) (\<lambda>_. stands P g (finish env j ''complete'' [] f)) E"
      using complete_triple [OF ok j(1) _ _ complete(2), where P = P and g = g and E = E] P
      by (simp add: j(2) intent_phases_def)
    moreover have "rolled env i r d f0 (finish env j ''complete'' [] f)" "cf_pending (finish env j ''complete'' [] f) = None"
      using complete(2) by (simp_all add: finish_def)
    ultimately have "triple (stands P g f) (ebind (complete_intent env j) (\<lambda>_. ereturn True)) ?post E"
      by (elim triple_bind) (auto intro!: triple_pure)
    then show ?thesis
      unfolding reconcile_pending_def read_pending_def
      by (intro triple_bind [OF read_triple [where g = "\<lambda>f. load_pending (cf_pending f)", OF j(3)]] triple_conj_pre)
        (simp add: variant_fields [OF j(1)] project j(2))
  next
    case unfinished
    have sub: "set open_phases \<subseteq> set intent_phases" by (auto simp: open_phases_def intent_phases_def)
    from unfinished(1) ok sub obtain j where j: "variant i j" "ci_phase j \<in> set open_phases"
      "load_pending (cf_pending f) = Inr (Some j)" by (rule intent_stored)
    let ?f = "f\<lparr>cf_roadmaps := rolled_roadmap env i r (cf_roadmaps f0), cf_definition := rolled_execution env i d (cf_definition f0)\<rparr>"
    have "rolled env i r d f0 (finish env k ''complete'' [] ?f)" "cf_pending (finish env k ''complete'' [] ?f) = None" for k
      by (simp_all add: finish_def rolled_def)
    then have "triple (stands P g f) (apply_intent env j) ?post E"
      by (intro triple_weaken [OF apply_intent_triple [OF quiet rep j(1,2) ready _ unfinished(2,1),
          where P = P and g = g and E = E]]) (erule P, assumption, blast, assumption)
    then have "triple (stands P g f) (ebind (apply_intent env j) (\<lambda>_. ereturn True)) ?post E"
      by (elim triple_bind) (auto intro!: triple_pure)
    moreover have "ci_phase j \<noteq> ''complete''" "ci_phase j \<noteq> ''aborted''" using j(2) by (auto simp: open_phases_def)
    ultimately show ?thesis
      unfolding reconcile_pending_def read_pending_def
      by (intro triple_bind [OF read_triple [where g = "\<lambda>f. load_pending (cf_pending f)", OF j(3)]] triple_conj_pre)
        (simp add: variant_fields [OF j(1)] project)
  qed
qed

lemma reconcile_recovers:
  assumes "quiet_others env" and "replayable env i r d"
    and "roadmap_ready env i (cf_roadmaps f0)" "execution_ready env i d (cf_definition f0)"
    and "recoverable env i r d f0 f"
  obtains b s where "reconcile_pending env (boot f) = (Inr b, s)" and "rolled env i r d f0 (co_files s)"
    and "cf_pending (co_files s) = None" and "\<And>n. recoverable env i r d f0 (crash n (reconcile_pending env) f)"
proof -
  have "triple (stands (recoverable env i r d f0) f f) (reconcile_pending env)
    (\<lambda>_ s. (rolled env i r d f0 (co_files s) \<and> cf_pending (co_files s) = None)
       \<and> (\<exists>f'. stands (recoverable env i r d f0) f f' s)) (\<lambda>_. False)"
    by (rule triple_weaken [OF reconcile_triple [OF assms(1-4) _ assms(5), where P = "recoverable env i r d f0" and g = f]])
      (auto simp: stands_def)
  then show ?thesis by (rule triple_run [where f = f and P = "recoverable env i r d f0", OF _ assms(5)]) (rule that, assumption, simp_all)
qed

lemma crashes_recoverable:
  assumes "quiet_others env" and "replayable env i r d"
    and "roadmap_ready env i (cf_roadmaps f0)" "execution_ready env i d (cf_definition f0)"
    and "recoverable env i r d f0 f"
  shows "recoverable env i r d f0 (crashes env ns f)"
  using assms(5)
proof (induction ns arbitrary: f)
  case (Cons n ns)
  show ?case
    by (rule reconcile_recovers [OF assms(1-4) Cons.prems]) (use Cons.IH in \<open>simp add: crashes_def\<close>)
qed (simp add: crashes_def)

lemma crashes_untouched: "cf_pending f = None \<Longrightarrow> crashes env ns f = f"
proof (induction ns)
  case (Cons n ns)
  have "crash n (reconcile_pending env) f = f"
    using Cons.prems by (simp add: crash_def boot_def reconcile_pending_def read_pending_def load_pending_def)
  with Cons show ?case by (simp add: crashes_def)
qed (simp add: crashes_def)

section \<open>A coordinated edit\<close>

text \<open>The forensic record of an edit is always made: its rows come from serialized documents.\<close>

lemma map_of_py_dict_rows: "map_of (py_dict (map (\<lambda>d. (k d, d)) ds)) i = Some d \<Longrightarrow> d \<in> set ds"
  by (auto simp: map_of_py_dict rev_map dest!: map_of_SomeD)

lemma indexed_items_order:
  assumes "map_of (indexed_items (roadmap_as_mapping r)) i = Some d"
  shows "\<exists>n. row_get d ''order'' (PInt 0) = PInt n"
proof -
  from assms have d: "d \<in> set (dict_rows (roadmap_as_mapping r) ''items'')"
    unfolding indexed_items_def by (rule map_of_py_dict_rows)
  have "row_get (roadmap_as_mapping r) ''items'' PNone = PList (map (\<lambda>i. PDict (item_as_mapping i)) (rm_items r))"
    by (simp add: roadmap_as_mapping_def)
  with d obtain x where "d = item_as_mapping x"
    by (auto simp: dict_rows_def map_filter_def)
  then show ?thesis by (auto simp: item_as_mapping_def)
qed

lemma item_summary_total: "\<exists>v. item_summary (map_of (indexed_items (roadmap_as_mapping r)) i) = Inr v"
  using indexed_items_order [of r i] by (auto simp: item_summary_def split: option.splits)

lemma forensic_total:
  "\<exists>fr. build_forensic_record (roadmap_as_mapping a) (roadmap_as_mapping b) c d = Inr fr"
proof -
  let ?row = "\<lambda>i. rbind (item_summary (map_of (indexed_items (roadmap_as_mapping a)) i)) (\<lambda>x.
     rbind (item_summary (map_of (indexed_items (roadmap_as_mapping b)) i)) (\<lambda>y.
       Inr (PDict [(''identity'', PDict [(''item_id'', PStr i)]), (''before'', x), (''desired'', y)])))"
  have row: "\<exists>v. ?row i = Inr v" for i
    using item_summary_total [of a i] item_summary_total [of b i] by auto
  have "\<exists>rows. mapr ?row is = Inr rows" for "is" by (rule mapr_total) (rule row)
  then obtain rows where "mapr ?row (take max_forensic_subjects (sort (changed_keys
      (indexed_items (roadmap_as_mapping a)) (indexed_items (roadmap_as_mapping b))))) = Inr rows" by blast
  then show ?thesis by (simp add: build_forensic_record_def Let_def)
qed

text \<open>What the service hands over: the current documents as stored, and valid wanted ones.\<close>

definition edit_ready ::
    "coordination_env \<Rightarrow> coordination_files \<Rightarrow> roadmap \<Rightarrow> roadmap \<Rightarrow> execution_definition \<Rightarrow> execution_definition
       \<Rightarrow> string \<Rightarrow> bool" where
  "edit_ready env f r0 r d0 d operation \<longleftrightarrow> cf_pending f = None
     \<and> roadmap_load (rm_id r0) (cf_roadmaps f) = Inr r0 \<and> repository_load (ce_path env) (cf_definition f) = Inr d0
     \<and> roadmap_ok r \<and> rm_id r = rm_id r0 \<and> definition_ok d \<and> definition_wf d None \<and> pd_project d = pd_project d0
     \<and> py_strip operation \<noteq> [] \<and> (\<exists>p. validate_project_id (PStr (ce_project env)) = Inr p)
     \<and> py_strip (ce_uuid env 0) \<noteq> []"

lemma edit_intent:
  assumes "edit_ready env f r0 r d0 d operation"
  obtains i where "prepared_intent env (ce_uuid env 0) r0 r d0 d operation = Inr i" and "replayable env i r d"
    and "roadmap_state (ce_sha env) i r0 = Doc_before" and "execution_state (ce_sha env) i d0 = Doc_before"
    and "ci_phase i = ''prepared''" and "ci_roadmap_id i = rm_id r0"
    and "ci_expected_roadmap i = rm_revision r0" and "ci_expected_execution i = pd_revision d0"
proof -
  from assms have r0: "roadmap_load (rm_id r0) (cf_roadmaps f) = Inr r0"
    and d0: "repository_load (ce_path env) (cf_definition f) = Inr d0" by (simp_all add: edit_ready_def)
  from roadmap_load_facts(2) [OF r0] have rid: "validate_roadmap_id (PStr (rm_id r0)) ''roadmap id'' = Inr (rm_id r0)"
    by (simp add: roadmap_stem_def)
  obtain fr where fr: "build_forensic_record (roadmap_as_mapping r0) (roadmap_as_mapping r)
      (definition_as_mapping d0) (definition_as_mapping d) = Inr fr" using forensic_total by blast
  let ?i = "\<lparr>ci_operation_id = ce_uuid env 0, ci_project_id = ce_project env, ci_roadmap_id = rm_id r0,
       ci_operation = operation, ci_expected_roadmap = rm_revision r0,
       ci_expected_execution = pd_revision d0, ci_before_roadmap = roadmap_digest env r0,
       ci_before_execution = execution_digest env d0, ci_desired_roadmap = roadmap_as_mapping r,
       ci_desired_execution = definition_as_mapping d, ci_forensic = fr,
       ci_phase = ''prepared'', ci_roadmap_revision = 0, ci_execution_revision = 0,
       ci_created_at = ce_now env, ci_updated_at = ce_now env\<rparr>"
  have ok: "intent_ok ?i"
    using assms rid roadmap_load_facts(3) [OF r0] repository_load_facts(3) [OF d0]
    by (simp add: intent_ok_iff edit_ready_def intent_phases_def)
  show ?thesis
  proof (rule that)
    show "prepared_intent env (ce_uuid env 0) r0 r d0 d operation = Inr ?i"
      using ok by (simp add: prepared_intent_def fr intent_ok_def)
    show "replayable env ?i r d" using assms ok by (simp add: replayable_def edit_ready_def)
  qed (simp_all add: roadmap_state_def execution_state_def document_state_Doc_before roadmap_digest_def execution_digest_def)
qed

text \<open>A process that has not changed the files yet, nor drawn an operation identifier.\<close>

definition early :: "(coordination_files \<Rightarrow> bool) \<Rightarrow> coordination_files \<Rightarrow> coordination_system \<Rightarrow> bool" where
  "early P f s \<longleftrightarrow> stands P f f s \<and> co_uuids s = 0"

lemma early_boot: "P f \<Longrightarrow> early P f (boot f)"
  by (simp add: early_def stands_boot) (simp add: boot_def)

lemma early_load_triples:
  assumes "quiet_others env"
  shows "roadmap_load k (cf_roadmaps f) = Inr r \<Longrightarrow> triple (early P f) (load_roadmap env k) (\<lambda>x s. x = r \<and> early P f s) (\<lambda>_. False)"
    and "repository_load (ce_path env) (cf_definition f) = Inr d
      \<Longrightarrow> triple (early P f) (load_execution env) (\<lambda>x s. x = d \<and> early P f s) (\<lambda>_. False)"
proof -
  have uuids: "triple (early P f) m (\<lambda>x s. x = y \<and> early P f s) (\<lambda>_. False)"
    if "triple (stands P f f) m (\<lambda>x s. x = y \<and> stands P f f s) (\<lambda>_. False)"
      and "\<And>s. co_uuids (snd (m s)) = co_uuids s" for m :: "'b coordination" and y
    using that unfolding triple_def early_def by (auto split: prod.splits sum.splits) (metis snd_conv)+
  have loads: "co_uuids (snd (access env s)) = co_uuids s" for s
    by (simp add: access_def emit_def split: prod.splits)
  have "co_uuids (snd (load_roadmap env x s)) = co_uuids s" "co_uuids (snd (load_execution env s)) = co_uuids s" for x s
    using loads [of s] by (cases "access env s"; auto simp: load_roadmap_def load_execution_def ebind_def split: sum.splits)+
  then show "roadmap_load k (cf_roadmaps f) = Inr r \<Longrightarrow> triple (early P f) (load_roadmap env k) (\<lambda>x s. x = r \<and> early P f s) (\<lambda>_. False)"
    and "repository_load (ce_path env) (cf_definition f) = Inr d
      \<Longrightarrow> triple (early P f) (load_execution env) (\<lambda>x s. x = d \<and> early P f s) (\<lambda>_. False)"
    by (intro uuids load_roadmap_triple load_execution_triple assms; simp)+
qed

lemma coordinate_triple:
  fixes f :: coordination_files
  assumes quiet: "quiet_others env" and edit: "edit_ready env f r0 r d0 d operation"
    and i: "prepared_intent env (ce_uuid env 0) r0 r d0 d operation = Inr i" and rep: "replayable env i r d"
    and phase: "ci_phase i = ''prepared''"
    and ready: "roadmap_ready env i (cf_roadmaps f)" "execution_ready env i d (cf_definition f)"
    and P: "\<And>g. recoverable env i r d f g \<Longrightarrow> P g"
  shows "triple (early P f) (coordinate env r0 r d0 d operation)
    (\<lambda>z s. roadmap_load (ci_roadmap_id i) (rolled_roadmap env i r (cf_roadmaps f)) = Inr (fst z)
       \<and> repository_load (ce_path env) (rolled_execution env i d (cf_definition f)) = Inr (snd z)
       \<and> (\<exists>f'. stands P f f' s \<and> rolled env i r d f f' \<and> cf_pending f' = None)) (\<lambda>_. False)"
proof -
  note lr = early_load_triples(1) [OF quiet, of "rm_id r0" f r0 P] and le = early_load_triples(2) [OF quiet, of f d0 P]
  let ?f = "f\<lparr>cf_pending := Some (PDict (intent_as_mapping i))\<rparr>"
  have start: "rolling env i r d f ?f" "pending_in i open_phases ?f"
    by (simp add: rolling_def) (rule pending_inI [OF variant_refl], simp add: phase open_phases_def)
  have P1: "P ?f" using start by (intro P) (simp add: recoverable_def)
  have "triple (stands P f f) (save_pending i) (\<lambda>_. stands P f ?f) (\<lambda>_. False)"
    by (rule save_pending_triple [where f = f], rule P1)
  moreover have "triple (stands P f ?f) (apply_intent env i)
    (\<lambda>z s. roadmap_load (ci_roadmap_id i) (rolled_roadmap env i r (cf_roadmaps f)) = Inr (fst z)
       \<and> repository_load (ce_path env) (rolled_execution env i d (cf_definition f)) = Inr (snd z)
       \<and> (\<exists>f'. stands P f f' s \<and> rolled env i r d f f' \<and> cf_pending f' = None)) (\<lambda>_. False)"
    by (intro triple_weaken [OF apply_intent_triple [OF quiet rep variant_refl _ ready _ start,
          where P = P and g = f and E = "\<lambda>_. False"]])
      (simp add: phase open_phases_def, erule P, assumption, fastforce simp: finish_def rolled_def, assumption)
  ultimately have run: "triple (stands P f f) (ebind (save_pending i) (\<lambda>_. apply_intent env i))
    (\<lambda>z s. roadmap_load (ci_roadmap_id i) (rolled_roadmap env i r (cf_roadmaps f)) = Inr (fst z)
       \<and> repository_load (ce_path env) (rolled_execution env i d (cf_definition f)) = Inr (snd z)
       \<and> (\<exists>f'. stands P f f' s \<and> rolled env i r d f f' \<and> cf_pending f' = None)) (\<lambda>_. False)"
    by (rule triple_bind)
  have rec: "triple (early P f) (reconcile_pending env) (\<lambda>_. early P f) (\<lambda>_. False)"
    using edit by (auto simp: triple_def reconcile_pending_def read_pending_def load_pending_def edit_ready_def early_def stands_def)
  have uuid: "triple (early P f) (fresh_uuid env) (\<lambda>x s. x = ce_uuid env 0 \<and> stands P f f s) (\<lambda>_. False)"
    by (simp add: triple_def fresh_uuid_def early_def stands_def)
  show ?thesis
    unfolding coordinate_def
    by (intro triple_bind [OF rec] triple_bind [OF lr] triple_bind [OF le] triple_bind [OF uuid] triple_conj_pre)
      (use edit in \<open>auto simp: edit_ready_def check_current_def i intro!: triple_bind [OF uuid] triple_conj_pre run\<close>)
qed

lemma edit_intent_facts:
  assumes edit: "edit_ready env f r0 r d0 d operation"
  obtains i where "prepared_intent env (ce_uuid env 0) r0 r d0 d operation = Inr i" and "replayable env i r d"
    and "roadmap_ready env i (cf_roadmaps f)" and "execution_ready env i d (cf_definition f)" and "ci_phase i = ''prepared''"
    and "roadmap_load (rm_id r) (rolled_roadmap env i r (cf_roadmaps f)) = Inr (r\<lparr>rm_revision := rm_revision r0 + 1\<rparr>)"
    and "repository_load (ce_path env) (rolled_execution env i d (cf_definition f))
      = Inr ((sort_tasks d)\<lparr>pd_revision := pd_revision d0 + 1\<rparr>)"
    and "ci_roadmap_id i = rm_id r"
proof -
  from edit obtain i where i: "prepared_intent env (ce_uuid env 0) r0 r d0 d operation = Inr i"
    and rep: "replayable env i r d"
    and before: "roadmap_state (ce_sha env) i r0 = Doc_before" "execution_state (ce_sha env) i d0 = Doc_before"
    and fields: "ci_phase i = ''prepared''" "ci_roadmap_id i = rm_id r0"
      "ci_expected_roadmap i = rm_revision r0" "ci_expected_execution i = pd_revision d0" by (rule edit_intent)
  from edit fields have r0: "roadmap_load (ci_roadmap_id i) (cf_roadmaps f) = Inr r0"
    and d0: "repository_load (ce_path env) (cf_definition f) = Inr d0" and p: "pd_project d0 = pd_project d"
    and rid: "rm_id r = ci_roadmap_id i" by (simp_all add: edit_ready_def)
  have ready: "roadmap_ready env i (cf_roadmaps f)" "execution_ready env i d (cf_definition f)"
    using r0 d0 before p by (simp_all add: roadmap_ready_def execution_ready_def)
  have "roadmap_load (rm_id r) (rolled_roadmap env i r (cf_roadmaps f)) = Inr (r\<lparr>rm_revision := rm_revision r0 + 1\<rparr>)"
    using roadmap_before_save(2) [OF rep r0 before(1)] by (simp add: roadmap_after_def fields rid)
  moreover have "repository_load (ce_path env) (rolled_execution env i d (cf_definition f))
      = Inr ((sort_tasks d)\<lparr>pd_revision := pd_revision d0 + 1\<rparr>)"
    using execution_before_save(2) [OF rep d0 before(2) p] by (simp add: execution_after_def fields)
  ultimately show ?thesis using i rep ready fields(1) rid by (intro that) simp_all
qed

text \<open>A process that starts on \<open>f\<close>, run to its end or to any of its effects.\<close>

lemma early_run:
  assumes "triple (early P f) m (\<lambda>x s. \<exists>f'. Q x f' \<and> stands P f f' s) (\<lambda>_. False)" and "P f"
  obtains x s where "m (boot f) = (Inr x, s)" and "Q x (co_files s)" and "\<And>n. P (crash n m f)"
proof -
  have boot: "early P f (boot f)" using assms(2) by (rule early_boot)
  obtain r s where run: "m (boot f) = (r, s)" by (cases "m (boot f)")
  then obtain x where r: "r = Inr x" using tripleD_Inl [OF assms(1) boot] by (cases r) auto
  then obtain f' where f': "Q x f'" "stands P f f' s" using tripleD_Inr [OF assms(1) boot] run by blast
  have "P (crash n m f)" for n using f'(2) by (auto simp: crash_def run stands_def intro: always_take)
  with run r f' show ?thesis by (intro that) (auto simp: stands_def)
qed

text \<open>The edit, with the documents it leads to.\<close>

lemma edit_run:
  assumes quiet: "quiet_others env" and edit: "edit_ready env f r0 r d0 d operation"
  defines "r' \<equiv> r\<lparr>rm_revision := rm_revision r0 + 1\<rparr>"
    and "d' \<equiv> (sort_tasks d)\<lparr>pd_revision := pd_revision d0 + 1\<rparr>"
  obtains i s where "replayable env i r d" and "roadmap_ready env i (cf_roadmaps f)"
    and "execution_ready env i d (cf_definition f)"
    and "roadmap_load (rm_id r) (rolled_roadmap env i r (cf_roadmaps f)) = Inr r'"
    and "repository_load (ce_path env) (rolled_execution env i d (cf_definition f)) = Inr d'"
    and "coordinate env r0 r d0 d operation (boot f) = (Inr (r', d'), s)"
    and "rolled env i r d f (co_files s)" and "cf_pending (co_files s) = None"
    and "\<And>n. crash n (coordinate env r0 r d0 d operation) f = f
        \<or> recoverable env i r d f (crash n (coordinate env r0 r d0 d operation) f)"
proof -
  obtain i where i: "prepared_intent env (ce_uuid env 0) r0 r d0 d operation = Inr i" and rep: "replayable env i r d"
    and ready: "roadmap_ready env i (cf_roadmaps f)" "execution_ready env i d (cf_definition f)"
    and phase: "ci_phase i = ''prepared''"
    and r': "roadmap_load (rm_id r) (rolled_roadmap env i r (cf_roadmaps f)) = Inr r'"
    and d': "repository_load (ce_path env) (rolled_execution env i d (cf_definition f)) = Inr d'"
    and rid: "ci_roadmap_id i = rm_id r"
    unfolding r'_def d'_def by (rule edit_intent_facts [OF edit])
  let ?P = "\<lambda>g. g = f \<or> recoverable env i r d f g"
  have "triple (early ?P f) (coordinate env r0 r d0 d operation) (\<lambda>z s. \<exists>f'. (z = (r', d')
      \<and> rolled env i r d f f' \<and> cf_pending f' = None) \<and> stands ?P f f' s) (\<lambda>_. False)"
    by (rule triple_weaken [OF coordinate_triple [OF quiet edit i rep phase ready, where P = ?P]])
      (auto simp: r' d' rid prod_eq_iff)
  then obtain z s where "coordinate env r0 r d0 d operation (boot f) = (Inr z, s)"
    and z: "z = (r', d') \<and> rolled env i r d f (co_files s) \<and> cf_pending (co_files s) = None"
    and "\<And>n. ?P (crash n (coordinate env r0 r d0 d operation) f)" by (rule early_run) simp_all
  moreover from z have "z = (r', d')" "rolled env i r d f (co_files s)" "cf_pending (co_files s) = None" by blast+
  ultimately show ?thesis using rep ready r' d' by (intro that) simp_all
qed

lemma rolled_loads:
  "rolled env i r d f g \<Longrightarrow> roadmap_load k (cf_roadmaps g) = roadmap_load k (rolled_roadmap env i r (cf_roadmaps f))"
  "rolled env i r d f g \<Longrightarrow> repository_load p (cf_definition g) = repository_load p (rolled_execution env i d (cf_definition f))"
  by (simp_all add: rolled_def)

text \<open>Whatever a dying process left, after any number of recoveries that died too.\<close>

lemma recovery_completes:
  fixes f :: coordination_files
  assumes "quiet_others env" and "replayable env i r d"
    and "roadmap_ready env i (cf_roadmaps f)" "execution_ready env i d (cf_definition f)"
    and loads: "roadmap_load (rm_id r) (rolled_roadmap env i r (cf_roadmaps f)) = Inr r'"
      "repository_load (ce_path env) (rolled_execution env i d (cf_definition f)) = Inr d'"
    and "cf_pending f = None" and g: "g = f \<or> recoverable env i r d f g"
  shows "crashes env ns g = f \<or> (case reconcile_pending env (boot (crashes env ns g)) of
      (Inl e, s) \<Rightarrow> False
    | (Inr b, s) \<Rightarrow> cf_pending (co_files s) = None
        \<and> roadmap_load (rm_id r) (cf_roadmaps (co_files s)) = Inr r'
        \<and> repository_load (ce_path env) (cf_definition (co_files s)) = Inr d')"
proof (cases "g = f")
  case True
  with assms(7) show ?thesis by (simp add: crashes_untouched)
next
  case False
  with g have "recoverable env i r d f (crashes env ns g)" by (intro crashes_recoverable [OF assms(1-4)]) blast
  then obtain b s where "reconcile_pending env (boot (crashes env ns g)) = (Inr b, s)" "rolled env i r d f (co_files s)"
    "cf_pending (co_files s) = None" by (rule reconcile_recovers [OF assms(1-4)])
  with loads show ?thesis by (simp add: rolled_def)
qed

end
