(* ===== verification/Road_Guard.thy ===== *)
theory Road_Guard
  imports Road_Recovery
begin

text \<open>
  What the coordinator may write while other processes write too. It overwrites a document only when
  the intent that says so is pending and the document is in the state the intent recorded as the one
  before; and an edit that raises has touched neither document, or left its intent pending.
\<close>

section \<open>Orderly processes\<close>

text \<open>
  The other processes save through the repositories: a document they change gets a higher revision.
\<close>

definition moved_on :: "('d \<Rightarrow> int) \<Rightarrow> 'd res \<Rightarrow> 'd res \<Rightarrow> bool" where
  "moved_on ver old new \<longleftrightarrow> new = old \<or> (\<exists>e. old = Inl e) \<or> (\<exists>x y. old = Inr x \<and> new = Inr y \<and> ver x < ver y)"

definition orderly :: "coordination_env \<Rightarrow> bool" where
  "orderly env \<longleftrightarrow> (\<forall>n dir def dir' def'. ce_others env n (dir, def) = (dir', def') \<longrightarrow>
     moved_on pd_revision (repository_load (ce_path env) def) (repository_load (ce_path env) def')
     \<and> (\<forall>i. moved_on rm_revision (roadmap_load i dir) (roadmap_load i dir')))"

definition at_least :: "('d \<Rightarrow> int) \<Rightarrow> 'd \<Rightarrow> 'd res \<Rightarrow> bool" where
  "at_least ver x new \<longleftrightarrow> new = Inr x \<or> (\<exists>y. new = Inr y \<and> ver x < ver y)"

lemma at_least_moved: "at_least ver x old \<Longrightarrow> moved_on ver old new \<Longrightarrow> at_least ver x new"
  by (auto simp: at_least_def moved_on_def)

lemma at_least_same: "at_least ver x new \<Longrightarrow> new = Inr y \<Longrightarrow> ver y = ver x \<Longrightarrow> y = x"
  by (auto simp: at_least_def)

section \<open>Guarded effects\<close>

text \<open>
  A write of a document is guarded when an intent is pending whose image from before is the stored
  document: its revision, and the fingerprint of its content.
\<close>

fun effect_ok :: "coordination_env \<Rightarrow> coordination_files \<Rightarrow> coordination_effect \<Rightarrow> bool" where
  "effect_ok env f (Put_definition file) = (\<exists>i x. load_pending (cf_pending f) = Inr (Some i)
     \<and> repository_load (ce_path env) (cf_definition f) = Inr x
     \<and> pd_revision x = ci_expected_execution i
     \<and> content_digest (ce_sha env) (definition_as_mapping x) = ci_before_execution i)"
| "effect_ok env f (Put_roadmaps dir) = (\<exists>i x. load_pending (cf_pending f) = Inr (Some i)
     \<and> ci_phase i = ''project_execution_applied''
     \<and> roadmap_load (ci_roadmap_id i) (cf_roadmaps f) = Inr x
     \<and> rm_revision x = ci_expected_roadmap i
     \<and> content_digest (ce_sha env) (roadmap_as_mapping x) = ci_before_roadmap i)"
| "effect_ok env f e = True"

fun effects_ok :: "coordination_env \<Rightarrow> coordination_files \<Rightarrow> coordination_effect list \<Rightarrow> bool" where
  "effects_ok env f [] = True"
| "effects_ok env f (e # es) = (effect_ok env f e \<and> effects_ok env (run_effect e f) es)"

lemma effects_ok_snoc: "effects_ok env f (es @ [e]) \<longleftrightarrow> effects_ok env f es \<and> effect_ok env (replay es f) e"
  by (induction es arbitrary: f) auto

lemma effects_ok_split: "effects_ok env f (es @ e # es') \<Longrightarrow> effect_ok env (replay es f) e"
  by (induction es arbitrary: f) auto

definition on_track :: "coordination_env \<Rightarrow> coordination_files \<Rightarrow> coordination_system \<Rightarrow> bool" where
  "on_track env f0 s \<longleftrightarrow> co_files s = replay (co_trace s) f0 \<and> effects_ok env f0 (co_trace s)"

definition keeps_track :: "coordination_env \<Rightarrow> coordination_files \<Rightarrow> coordination_system \<Rightarrow> coordination_system \<Rightarrow> bool" where
  "keeps_track env f0 s s' \<longleftrightarrow> (on_track env f0 s \<longrightarrow> on_track env f0 s')"

interpretation track: frame "keeps_track env f0" for env f0
  by unfold_locales (auto simp: keeps_track_def)

text \<open>Everything but the two writes keeps track, whatever happens to the files meanwhile.\<close>

lemma emit_track: "(\<And>f. effect_ok env f e) \<Longrightarrow> track.keeps env f0 (emit e)"
  by (simp add: track.keeps_def keeps_track_def emit_def on_track_def effects_ok_snoc)

lemma access_track: "track.keeps env f0 (access env')"
  by (auto simp: track.keeps_def keeps_track_def access_def emit_def on_track_def effects_ok_snoc split: prod.splits)

lemma fresh_uuid_track: "track.keeps env f0 (fresh_uuid env')"
  by (simp add: track.keeps_def keeps_track_def fresh_uuid_def on_track_def)

lemmas track_basic = access_track fresh_uuid_track

lemma loads_track: "track.keeps env f0 (load_roadmap env' i)" "track.keeps env f0 (load_execution env')"
  by (auto simp: load_roadmap_def load_execution_def intro!: track_basic)

lemma store_track: "track.keeps env f0 read_pending" "track.keeps env f0 (save_pending i)"
  by (auto simp: read_pending_def save_pending_def intro!: emit_track)

lemma finalize_track: "track.keeps env f0 (finalize_intent env' i phase reason)"
  unfolding finalize_intent_def by (intro track.keeps_ebind store_track emit_track track.keeps_pure) simp_all

lemmas finishing_track = finalize_track [folded complete_intent_def] finalize_track
  finalize_track [where phase = "''complete''" and reason = "[]", folded complete_intent_def]
  finalize_track [where phase = "''aborted''", folded abort_intent_def]

lemma track_triple: "track.keeps env f0 m \<Longrightarrow> triple (on_track env f0) m (\<lambda>_. on_track env f0) (on_track env f0)"
  by (rule tripleI, drule track.keepsD, assumption) (auto simp: keeps_track_def split: sum.split)

section \<open>The two writes\<close>

definition holds :: "coordination_env \<Rightarrow> coordination_files \<Rightarrow> coordination_intent \<Rightarrow> coordination_system \<Rightarrow> bool" where
  "holds env f0 i s \<longleftrightarrow> on_track env f0 s \<and> load_pending (cf_pending (co_files s)) = Inr (Some i)"

definition seen_execution :: "coordination_env \<Rightarrow> execution_definition \<Rightarrow> coordination_system \<Rightarrow> bool" where
  "seen_execution env x s \<longleftrightarrow> at_least pd_revision x (repository_load (ce_path env) (cf_definition (co_files s)))"

definition seen_roadmap :: "string \<Rightarrow> roadmap \<Rightarrow> coordination_system \<Rightarrow> bool" where
  "seen_roadmap k y s \<longleftrightarrow> at_least rm_revision y (roadmap_load k (cf_roadmaps (co_files s)))"

lemma access_holds:
  assumes "orderly env"
  shows "triple (holds env f0 i) (access env) (\<lambda>_. holds env f0 i) E"
    and "triple (\<lambda>s. holds env f0 i s \<and> seen_execution env x s) (access env) (\<lambda>_ s. holds env f0 i s \<and> seen_execution env x s) E"
    and "triple (\<lambda>s. holds env f0 i s \<and> seen_roadmap k y s) (access env) (\<lambda>_ s. holds env f0 i s \<and> seen_roadmap k y s) E"
proof -
  have run: "\<exists>dir def. access env s = (Inr (), s\<lparr>co_accesses := Suc (co_accesses s),
        co_files := co_files s\<lparr>cf_roadmaps := dir, cf_definition := def\<rparr>, co_trace := co_trace s @ [By_others dir def]\<rparr>)
      \<and> moved_on pd_revision (repository_load (ce_path env) (cf_definition (co_files s))) (repository_load (ce_path env) def)
      \<and> moved_on rm_revision (roadmap_load k (cf_roadmaps (co_files s))) (roadmap_load k dir)" for s k
  proof -
    obtain dir "def" where o: "ce_others env (co_accesses s) (cf_roadmaps (co_files s), cf_definition (co_files s)) = (dir, def)"
      by fastforce
    with assms have "moved_on pd_revision (repository_load (ce_path env) (cf_definition (co_files s))) (repository_load (ce_path env) def)"
      and "moved_on rm_revision (roadmap_load k (cf_roadmaps (co_files s))) (roadmap_load k dir)"
      unfolding orderly_def by blast+
    with o show ?thesis by (intro exI [of _ dir] exI [of _ "def"]) (simp add: access_def emit_def)
  qed
  have kept: "holds env f0 i s'" if "access env s = (r, s')" "holds env f0 i s" for r s s'
    using that run [of s "[]"] track.keepsD [OF access_track that(1), of env f0]
    by (auto simp: holds_def keeps_track_def)
  show "triple (holds env f0 i) (access env) (\<lambda>_. holds env f0 i) E"
  proof (rule tripleI)
    fix s r s' assume s: "holds env f0 i s" "access env s = (r, s')"
    with run [of s "[]"] kept [OF s(2,1)] show "case r of Inl e \<Rightarrow> E s' | Inr x \<Rightarrow> holds env f0 i s'" by auto
  qed
  show "triple (\<lambda>s. holds env f0 i s \<and> seen_execution env x s) (access env) (\<lambda>_ s. holds env f0 i s \<and> seen_execution env x s) E"
  proof (rule tripleI)
    fix s r s' assume s: "holds env f0 i s \<and> seen_execution env x s" "access env s = (r, s')"
    then have "holds env f0 i s'" using kept by blast
    with s run [of s "[]"] show "case r of Inl e \<Rightarrow> E s' | Inr z \<Rightarrow> holds env f0 i s' \<and> seen_execution env x s'"
      by (auto simp: seen_execution_def intro: at_least_moved)
  qed
  show "triple (\<lambda>s. holds env f0 i s \<and> seen_roadmap k y s) (access env) (\<lambda>_ s. holds env f0 i s \<and> seen_roadmap k y s) E"
  proof (rule tripleI)
    fix s r s' assume s: "holds env f0 i s \<and> seen_roadmap k y s" "access env s = (r, s')"
    then have "holds env f0 i s'" using kept by blast
    with s run [of s k] show "case r of Inl e \<Rightarrow> E s' | Inr z \<Rightarrow> holds env f0 i s' \<and> seen_roadmap k y s'"
      by (auto simp: seen_roadmap_def intro: at_least_moved)
  qed
qed

lemma holds_tracked: "holds env f0 i s \<Longrightarrow> on_track env f0 s"
  by (simp add: holds_def)

lemma load_execution_holds:
  assumes "orderly env"
  shows "triple (holds env f0 i) (load_execution env) (\<lambda>x s. holds env f0 i s \<and> seen_execution env x s) (on_track env f0)"
  unfolding load_execution_def
  by (rule triple_bind [OF access_holds(1) [OF assms]])
    (auto simp: triple_def holds_tracked seen_execution_def at_least_def split: sum.splits)

lemma load_roadmap_holds:
  assumes "orderly env"
  shows "triple (holds env f0 i) (load_roadmap env k) (\<lambda>y s. holds env f0 i s \<and> seen_roadmap k y s) (on_track env f0)"
    and "triple (\<lambda>s. holds env f0 i s \<and> seen_execution env x s) (load_roadmap env k)
      (\<lambda>y s. holds env f0 i s \<and> seen_execution env x s) (on_track env f0)"
  unfolding load_roadmap_def
  by (rule triple_bind [OF access_holds(1) [OF assms]];
      auto simp: triple_def holds_tracked seen_roadmap_def at_least_def split: sum.splits)
    (rule triple_bind [OF access_holds(2) [OF assms]];
      auto simp: triple_def holds_tracked split: sum.splits)

lemma save_execution_holds:
  assumes "orderly env" and before: "execution_state (ce_sha env) i x = Doc_before"
  shows "triple (\<lambda>s. holds env f0 i s \<and> seen_execution env x s)
    (save_execution env d (ci_expected_execution i)) (\<lambda>_. holds env f0 i) (on_track env f0)"
  unfolding save_execution_def
proof (rule triple_bind [OF access_holds(2) [OF assms(1)]], rule tripleI)
  fix u s r s'
  assume s: "holds env f0 i s \<and> seen_execution env x s"
    and run: "ebind (eget (\<lambda>s. repository_save (ce_path env) d (ci_expected_execution i) (cf_definition (co_files s))))
      (\<lambda>result. ebind (elift result) (\<lambda>(saved, def). ebind (emit (Put_definition def)) (\<lambda>_. ereturn saved))) s = (r, s')"
  show "case r of Inl e \<Rightarrow> on_track env f0 s' | Inr z \<Rightarrow> holds env f0 i s'"
  proof (cases "repository_save (ce_path env) d (ci_expected_execution i) (cf_definition (co_files s))")
    case (Inl e)
    with run s show ?thesis by (auto simp: ebind_def holds_tracked)
  next
    case (Inr p)
    then obtain saved "file" where p: "repository_save (ce_path env) d (ci_expected_execution i) (cf_definition (co_files s))
        = Inr (saved, file)" by (cases p) simp
    then obtain current where c: "repository_load (ce_path env) (cf_definition (co_files s)) = Inr current"
      "pd_revision current = ci_expected_execution i"
      by (auto simp: repository_save_def split: if_splits)
    moreover have "pd_revision x = ci_expected_execution i"
      using before by (simp add: execution_state_def document_state_Doc_before)
    ultimately have "current = x" using s by (auto simp: seen_execution_def dest: at_least_same)
    with c s before have "effect_ok env (co_files s) (Put_definition file)"
      by (simp add: holds_def execution_state_def document_state_Doc_before)
    with s run p show ?thesis
      by (auto simp: ebind_def emit_def holds_def on_track_def effects_ok_snoc)
  qed
qed

definition names_own :: "coordination_intent \<Rightarrow> bool" where
  "names_own i \<longleftrightarrow> (\<forall>r. roadmap_from_mapping (PDict (ci_desired_roadmap i)) = Inr r \<longrightarrow> rm_id r = ci_roadmap_id i)"

lemma save_roadmap_holds:
  assumes "orderly env" and before: "roadmap_state (ce_sha env) i y = Doc_before"
    and phase: "ci_phase i = ''project_execution_applied''" and own: "rm_id r = ci_roadmap_id i"
  shows "triple (\<lambda>s. holds env f0 i s \<and> seen_roadmap (ci_roadmap_id i) y s)
    (save_roadmap env r (ci_expected_roadmap i)) (\<lambda>_. holds env f0 i) (on_track env f0)"
  unfolding save_roadmap_def
proof (rule triple_bind [OF access_holds(3) [OF assms(1)]], rule tripleI)
  fix u s e s'
  assume s: "holds env f0 i s \<and> seen_roadmap (ci_roadmap_id i) y s"
    and run: "ebind (eget (\<lambda>s. roadmap_save r (ci_expected_roadmap i) (cf_roadmaps (co_files s))))
      (\<lambda>result. ebind (elift result) (\<lambda>(saved, dir). ebind (emit (Put_roadmaps dir)) (\<lambda>_. ereturn saved))) s = (e, s')"
  show "case e of Inl e \<Rightarrow> on_track env f0 s' | Inr z \<Rightarrow> holds env f0 i s'"
  proof (cases "roadmap_save r (ci_expected_roadmap i) (cf_roadmaps (co_files s))")
    case (Inl e)
    with run s show ?thesis by (auto simp: ebind_def holds_tracked)
  next
    case (Inr p)
    then obtain saved dir where p: "roadmap_save r (ci_expected_roadmap i) (cf_roadmaps (co_files s)) = Inr (saved, dir)"
      by (cases p) simp
    then obtain current where c: "roadmap_load (ci_roadmap_id i) (cf_roadmaps (co_files s)) = Inr current"
      "rm_revision current = ci_expected_roadmap i"
      by (auto simp: roadmap_save_def roadmap_load_def own split: if_splits)
    moreover have "rm_revision y = ci_expected_roadmap i"
      using before by (simp add: roadmap_state_def document_state_Doc_before)
    ultimately have "current = y" using s by (auto simp: seen_roadmap_def dest: at_least_same)
    with c s before phase have "effect_ok env (co_files s) (Put_roadmaps dir)"
      by (simp add: holds_def roadmap_state_def document_state_Doc_before)
    with s run p show ?thesis
      by (auto simp: ebind_def emit_def holds_def on_track_def effects_ok_snoc)
  qed
qed

section \<open>Whole operations\<close>

lemma save_pending_holds:
  "intent_ok i \<Longrightarrow> triple (on_track env f0) (save_pending i) (\<lambda>_. holds env f0 i) E"
  by (auto simp: triple_def save_pending_def emit_def holds_def on_track_def effects_ok_snoc load_pending_stored)

lemma track_from: "track.keeps env f0 m \<Longrightarrow> (\<And>s. P s \<Longrightarrow> on_track env f0 s) \<Longrightarrow>
    triple P m (\<lambda>_. on_track env f0) (on_track env f0)"
  by (rule triple_weaken [OF track_triple])

lemma apply_execution_holds:
  assumes "orderly env"
  shows "triple (\<lambda>s. holds env f0 i s \<and> seen_execution env x s) (apply_execution env i x)
    (\<lambda>_. holds env f0 i) (on_track env f0)"
proof (cases "execution_state (ce_sha env) i x = Doc_before")
  case True
  have attempt: "triple (\<lambda>s. holds env f0 i s \<and> seen_execution env x s)
      (eattempt (save_execution env d (ci_expected_execution i)))
      (\<lambda>r s. on_track env f0 s \<and> (\<forall>z. r = Inr z \<longrightarrow> holds env f0 i s)) E" for d E
    by (rule triple_attempt, rule triple_weaken [OF save_execution_holds [OF assms True]])
      (auto simp: holds_tracked)
  have abort: "track.keeps env f0 (ebind (load_roadmap env (ci_roadmap_id i)) (\<lambda>probe.
      ebind (ewhen (roadmap_state (ce_sha env) i probe = Doc_before) (abort_intent env i m)) (\<lambda>_. eraise e)))" for m e
    by (intro track.keeps_ebind track.keeps_ewhen loads_track finishing_track track.keeps_pure)
  have handler: "triple (\<lambda>s. on_track env f0 s \<and> (\<forall>z. r = Inr z \<longrightarrow> holds env f0 i s))
     (case r of Inr saved \<Rightarrow> ereturn saved
          | Inl e \<Rightarrow> (case e of
                ProjectExecutionConflictError m \<Rightarrow>
                  ebind (load_roadmap env (ci_roadmap_id i)) (\<lambda>probe.
                  ebind (ewhen (roadmap_state (ce_sha env) i probe = Doc_before) (abort_intent env i m)) (\<lambda>_.
                  eraise e))
              | _ \<Rightarrow> eraise e)) (\<lambda>_. holds env f0 i) (on_track env f0)" for r
  proof (cases r)
    case (Inl e)
    then show ?thesis
    proof (cases e)
      case (ProjectExecutionConflictError m)
      have "triple (\<lambda>s. on_track env f0 s \<and> (\<forall>z. r = Inr z \<longrightarrow> holds env f0 i s))
         (ebind (load_roadmap env (ci_roadmap_id i)) (\<lambda>probe.
          ebind (ewhen (roadmap_state (ce_sha env) i probe = Doc_before) (abort_intent env i m)) (\<lambda>_. eraise e)))
         (\<lambda>_. holds env f0 i) (on_track env f0)"
        by (intro triple_bind [OF track_from [OF loads_track(1)]]
            triple_bind [OF track_triple [OF track.keeps_ewhen [OF finishing_track(4)]]] triple_pure) simp_all
      with Inl ProjectExecutionConflictError show ?thesis by simp
    qed (simp_all add: triple_pure)
  qed (simp add: triple_def)
  show ?thesis
    unfolding apply_execution_def if_P [OF True]
    by (rule triple_bind_elift, rule triple_bind [OF attempt], rule handler) (auto dest: holds_tracked)
next
  case False
  then show ?thesis by (simp add: apply_execution_def triple_def)
qed

lemma apply_roadmap_holds:
  assumes "orderly env" and phase: "ci_phase i = ''project_execution_applied''" and own: "names_own i"
  shows "triple (holds env f0 i) (apply_roadmap env i) (\<lambda>_. holds env f0 i) (on_track env f0)"
  unfolding apply_roadmap_def
proof (rule triple_bind [OF load_roadmap_holds(1) [OF assms(1)]], goal_cases)
  case (1 current)
  show ?case
    using own save_roadmap_holds [OF assms(1) _ phase, where ?f0.0 = f0]
    by (intro triple_if triple_bind_elift) (auto simp: triple_pure holds_tracked names_own_def intro: triple_pure)
qed

lemma apply_intent_holds:
  assumes "orderly env" and ok: "intent_ok i" and own: "names_own i"
  shows "triple (holds env f0 i) (apply_intent env i) (\<lambda>_. on_track env f0) (on_track env f0)"
proof -
  have changed: "names_own j" if "ci_desired_roadmap j = ci_desired_roadmap i" "ci_roadmap_id j = ci_roadmap_id i" for j
    using own that by (simp add: names_own_def)
  have tail: "triple (holds env f0 i)
      (ebind (elift (intent_init (i\<lparr>ci_phase := ''project_execution_applied'',
             ci_execution_revision := pd_revision d, ci_updated_at := ce_now env\<rparr>))) (\<lambda>applied.
           ebind (save_pending applied) (\<lambda>_.
           ebind (apply_roadmap env applied) (\<lambda>r.
           ebind (elift (intent_init (applied\<lparr>ci_phase := ''roadmap_applied'',
             ci_roadmap_revision := rm_revision r,
             ci_execution_revision := pd_revision d, ci_updated_at := ce_now env\<rparr>))) (\<lambda>both.
           ebind (save_pending both) (\<lambda>_.
           ebind (complete_intent env both) (\<lambda>_.
           ereturn (r, d))))))))
      (\<lambda>_. on_track env f0) (on_track env f0)" for d
  proof (rule triple_bind_elift)
    fix a assume "intent_init (i\<lparr>ci_phase := ''project_execution_applied'',
             ci_execution_revision := pd_revision d, ci_updated_at := ce_now env\<rparr>) = Inr a"
    note a = intent_init_Inr [OF this]
    then have phase: "ci_phase a = ''project_execution_applied''" and own_a: "names_own a" and ok_a: "intent_ok a"
      by (simp_all add: changed)
    have rest: "track.keeps env f0 (ebind (elift (intent_init (a\<lparr>ci_phase := ''roadmap_applied'',
             ci_roadmap_revision := rm_revision r,
             ci_execution_revision := pd_revision d, ci_updated_at := ce_now env\<rparr>))) (\<lambda>both.
           ebind (save_pending both) (\<lambda>_. ebind (complete_intent env both) (\<lambda>_. ereturn (r, d)))))" for r
      by (intro track.keeps_ebind track.keeps_pure store_track finishing_track)
    have recorded: "triple (holds env f0 i) (save_pending a) (\<lambda>_. holds env f0 a) (on_track env f0)"
      by (rule triple_weaken [OF save_pending_holds [OF ok_a, where ?f0.0 = f0 and E = "on_track env f0"]])
        (auto simp: holds_tracked)
    show "triple (holds env f0 i) (ebind (save_pending a) (\<lambda>_.
           ebind (apply_roadmap env a) (\<lambda>r.
           ebind (elift (intent_init (a\<lparr>ci_phase := ''roadmap_applied'',
             ci_roadmap_revision := rm_revision r,
             ci_execution_revision := pd_revision d, ci_updated_at := ce_now env\<rparr>))) (\<lambda>both.
           ebind (save_pending both) (\<lambda>_.
           ebind (complete_intent env both) (\<lambda>_.
           ereturn (r, d))))))) (\<lambda>_. on_track env f0) (on_track env f0)"
      by (rule triple_bind [OF recorded], rule triple_bind [OF apply_roadmap_holds [OF assms(1) phase own_a]],
          rule track_from [OF rest], erule holds_tracked)
  qed (simp add: holds_tracked)
  show ?thesis
    unfolding apply_intent_def
  proof (rule triple_bind [OF load_execution_holds [OF assms(1)]], rule triple_bind [OF load_roadmap_holds(2) [OF assms(1)]])
    fix x y
    show "triple (\<lambda>s. holds env f0 i s \<and> seen_execution env x s)
     (let execution_st = execution_state (ce_sha env) i x; roadmap_st = roadmap_state (ce_sha env) i y
      in if execution_st = Doc_divergent \<or> roadmap_st = Doc_divergent
         then eraise (divergence env i execution_st roadmap_st)
         else ebind (apply_execution env i x) (\<lambda>d.
           ebind (elift (intent_init (i\<lparr>ci_phase := ''project_execution_applied'',
             ci_execution_revision := pd_revision d, ci_updated_at := ce_now env\<rparr>))) (\<lambda>applied.
           ebind (save_pending applied) (\<lambda>_.
           ebind (apply_roadmap env applied) (\<lambda>r.
           ebind (elift (intent_init (applied\<lparr>ci_phase := ''roadmap_applied'',
             ci_roadmap_revision := rm_revision r,
             ci_execution_revision := pd_revision d, ci_updated_at := ce_now env\<rparr>))) (\<lambda>both.
           ebind (save_pending both) (\<lambda>_.
           ebind (complete_intent env both) (\<lambda>_.
           ereturn (r, d)))))))))
      (\<lambda>_. on_track env f0) (on_track env f0)"
      unfolding Let_def
      by (intro triple_if triple_bind [OF apply_execution_holds [OF assms(1)] tail] triple_pure)
        (auto dest: holds_tracked)
  qed
qed

text \<open>Reading the pending intent, with an intent that names its own Roadmap.\<close>

definition own_pending :: "coordination_files \<Rightarrow> bool" where
  "own_pending f \<longleftrightarrow> (\<forall>i. load_pending (cf_pending f) = Inr (Some i) \<longrightarrow> names_own i)"

definition on_track_own :: "coordination_env \<Rightarrow> coordination_files \<Rightarrow> coordination_system \<Rightarrow> bool" where
  "on_track_own env f0 s \<longleftrightarrow> on_track env f0 s \<and> own_pending (co_files s)"

lemma read_pending_holds:
  "triple (on_track_own env f0) read_pending
     (\<lambda>p s. on_track env f0 s \<and> (\<forall>i. p = Some i \<longrightarrow> holds env f0 i s \<and> intent_ok i \<and> names_own i)) (on_track env f0)"
  by (auto simp: triple_def read_pending_def on_track_own_def own_pending_def holds_def dest: load_pending_ok split: sum.splits)

lemma with_pending_holds:
  assumes "\<And>s. Q s \<Longrightarrow> on_track env f0 s" and "track.keeps env f0 m"
    and "\<And>i. intent_ok i \<Longrightarrow> names_own i \<Longrightarrow> triple (holds env f0 i) (k i) (\<lambda>_. on_track env f0) (on_track env f0)"
  shows "triple (on_track_own env f0) (ebind read_pending (\<lambda>p. case p of None \<Rightarrow> m | Some i \<Rightarrow> k i))
    (\<lambda>_. on_track env f0) (on_track env f0)"
proof (rule triple_bind [OF read_pending_holds], goal_cases)
  case (1 p)
  show ?case
  proof (cases p)
    case None
    then show ?thesis using triple_weaken [OF track_triple [OF assms(2)]] by auto
  next
    case (Some i)
    have "triple (\<lambda>s. (intent_ok i \<and> names_own i) \<and> holds env f0 i s) (k i) (\<lambda>_. on_track env f0) (on_track env f0)"
      by (rule triple_conj_pre) (use assms(3) in blast)
    then show ?thesis unfolding Some by (simp, elim triple_weaken) auto
  qed
qed

lemma apply_then_holds:
  assumes "orderly env" and "intent_ok i" and "names_own i" and "\<And>z. track.keeps env f0 (h z)"
  shows "triple (holds env f0 i) (ebind (apply_intent env i) h) (\<lambda>_. on_track env f0) (on_track env f0)"
  by (rule triple_bind [OF apply_intent_holds [OF assms(1-3)]]) (rule track_triple, rule assms(4))

lemma holding_track: "track.keeps env f0 m \<Longrightarrow> triple (holds env f0 i) m (\<lambda>_. on_track env f0) (on_track env f0)"
  by (rule track_from) (auto dest: holds_tracked)

lemma reconcile_guarded:
  assumes "orderly env"
  shows "triple (on_track_own env f0) (reconcile_pending env) (\<lambda>_. on_track env f0) (on_track env f0)"
  unfolding reconcile_pending_def
  by (rule with_pending_holds [where Q = "on_track env f0"], assumption, rule track.keeps_pure,
      intro triple_if apply_then_holds [OF assms] holding_track track.keeps_ebind finishing_track track.keeps_pure)

lemma own_intent:
  assumes "prepared_intent env uuid r0 r d0 d operation = Inr i" and "roadmap_ok r" and "rm_id r = rm_id r0"
  shows "intent_ok i" and "names_own i"
  using assms by (auto simp: prepared_intent_def names_own_def roadmap_round_trip dest!: intent_init_Inr)

lemma coordinate_guarded:
  assumes "orderly env" and "roadmap_ok r" and "rm_id r = rm_id r0"
  shows "triple (on_track_own env f0) (coordinate env r0 r d0 d operation) (\<lambda>_. on_track env f0) (on_track env f0)"
  unfolding coordinate_def
proof (rule triple_bind [OF reconcile_guarded [OF assms(1)]], rule triple_bind [OF track_triple [OF loads_track(1)]],
    rule triple_bind [OF track_triple [OF loads_track(2)]], rule triple_bind_elift,
    rule triple_bind [OF track_triple [OF fresh_uuid_track]], rule triple_bind_elift)
  fix uuid i assume "prepared_intent env uuid r0 r d0 d operation = Inr i"
  note i = own_intent [OF this assms(2,3)]
  show "triple (on_track env f0) (ebind (save_pending i) (\<lambda>_. apply_intent env i)) (\<lambda>_. on_track env f0) (on_track env f0)"
    by (rule triple_bind [OF save_pending_holds [OF i(1)] apply_intent_holds [OF assms(1) i]])
qed

section \<open>Status and resolution\<close>

definition same_pending :: "coordination_env \<Rightarrow> coordination_files \<Rightarrow> coordination_system \<Rightarrow> coordination_system \<Rightarrow> bool" where
  "same_pending env f0 s s' \<longleftrightarrow> (on_track env f0 s \<longrightarrow> on_track env f0 s')
     \<and> cf_pending (co_files s') = cf_pending (co_files s)
     \<and> (\<exists>es. co_trace s' = co_trace s @ es \<and> list_all (\<lambda>e. case e of By_others dir def \<Rightarrow> True | _ \<Rightarrow> False) es)"

interpretation inspect: frame "same_pending env f0" for env f0
proof
  show "same_pending env f0 s s" for s by (simp add: same_pending_def)
  fix s s' s'' assume "same_pending env f0 s s'" and "same_pending env f0 s' s''"
  moreover from this obtain es es' where "co_trace s' = co_trace s @ es" "co_trace s'' = co_trace s' @ es'"
    "list_all (\<lambda>e. case e of By_others dir def \<Rightarrow> True | _ \<Rightarrow> False) (es @ es')"
    by (auto simp: same_pending_def)
  ultimately show "same_pending env f0 s s''"
    unfolding same_pending_def by (intro conjI exI [of _ "es @ es'"]) auto
qed

lemma access_inspects: "inspect.keeps env f0 (access env')"
  by (auto simp: inspect.keeps_def same_pending_def access_def emit_def on_track_def effects_ok_snoc split: prod.splits)

lemma loads_inspect: "inspect.keeps env f0 (load_roadmap env' i)" "inspect.keeps env f0 (load_execution env')"
  by (auto simp: load_roadmap_def load_execution_def intro!: access_inspects)

lemma catching_inspects: "inspect.keeps env f0 m \<Longrightarrow> inspect.keeps env f0 (catching c m)"
  unfolding catching_def
  by (intro inspect.keeps_ebind inspect.keeps_eattempt inspect.keeps_sum inspect.keeps_pure inspect.keeps_if)

text \<open>Looking at the status writes nothing.\<close>

lemma status_inspects: "inspect.keeps env f0 (coordination_status_of env')"
  unfolding coordination_status_of_def roadmap_status_def execution_status_def read_pending_def
  by (intro inspect.keeps_ebind inspect.keeps_option inspect.keeps_pure inspect.keeps_if catching_inspects
      loads_inspect inspect.keeps_prod)

lemma inspect_own: "inspect.keeps env f0 m \<Longrightarrow> triple (on_track_own env f0) m (\<lambda>_. on_track_own env f0) (on_track env f0)"
  by (rule tripleI, drule inspect.keepsD, assumption)
    (auto simp: same_pending_def on_track_own_def own_pending_def split: sum.split)

lemma inspect_track: "inspect.keeps env f0 m \<Longrightarrow> track.keeps env f0 m"
  by (auto simp: inspect.keeps_def track.keeps_def keeps_track_def same_pending_def)

lemma perform_guarded:
  assumes "orderly env" and "intent_ok i" and "names_own i" and "\<And>z. track.keeps env f0 (h z)"
  shows "triple (holds env f0 i) (ebind (perform_action env i action) h) (\<lambda>_. on_track env f0) (on_track env f0)"
proof (rule triple_bind)
  show "triple (holds env f0 i) (perform_action env i action) (\<lambda>_. on_track env f0) (on_track env f0)"
    unfolding perform_action_def
    by (intro triple_if apply_then_holds [OF assms(1-3)] holding_track finishing_track track.keeps_pure)
qed (rule track_triple, rule assms(4))

lemma resolve_guarded:
  assumes "orderly env"
  shows "triple (on_track_own env f0) (resolve env action) (\<lambda>_. on_track env f0) (on_track env f0)"
  unfolding resolve_def Let_def
proof (rule triple_bind [OF inspect_own [OF status_inspects]], intro triple_if)
  fix status
  show "triple (on_track_own env f0) (ebind read_pending (\<lambda>pending. case pending of
          None \<Rightarrow> ereturn (nothing_pending (ce_project env))
        | Some i \<Rightarrow> ebind (perform_action env i (py_lower (py_strip (str_or_empty action))))
            (\<lambda>_. coordination_status_of env))) (\<lambda>_. on_track env f0) (on_track env f0)"
    by (rule with_pending_holds [where Q = "on_track env f0"], assumption, rule track.keeps_pure,
        rule perform_guarded [OF assms], assumption, assumption, rule inspect_track [OF status_inspects])
qed (auto simp: triple_def on_track_own_def)

lemma reconcile_if_safe_guarded:
  assumes "orderly env"
  shows "triple (on_track_own env f0) (reconcile_if_safe env) (\<lambda>_. on_track env f0) (on_track env f0)"
  unfolding reconcile_if_safe_def
proof (rule triple_bind [OF inspect_own [OF status_inspects]], intro triple_if, goal_cases)
  case (1 status)
  show ?case
  proof (cases "find (\<lambda>a. a \<in> set (cs_safe_actions status)) automatic_actions")
    case None
    then show ?thesis by (simp add: triple_def on_track_own_def)
  next
    case (Some a)
    then show ?thesis using resolve_guarded [OF assms] by simp
  qed
qed (simp add: triple_def on_track_own_def)

lemma guarded_run:
  assumes "triple (on_track_own env f) m (\<lambda>_. on_track env f) (on_track env f)" and "own_pending f"
  shows "effects_ok env f (co_trace (snd (m (boot f))))"
proof -
  have "on_track_own env f (boot f)" using assms(2) by (simp add: on_track_own_def on_track_def boot_def)
  with assms(1) show ?thesis
    by (cases "m (boot f)"; cases "fst (m (boot f))") (auto simp: triple_def on_track_def dest!: spec [of _ "boot f"])
qed

end
