(* ===== verification/Road_Failure.thy ===== *)
theory Road_Failure
  imports Road_Recovery
begin

text \<open>
  Edits that raise, with any other processes at work: such an edit has written neither document, or
  its intent is still pending, open, with both wanted documents in it.
\<close>

section \<open>Writing no document, and leaving the pending intent alone\<close>

fun writes_document :: "coordination_effect \<Rightarrow> bool" where
  "writes_document (Put_roadmaps dir) = True"
| "writes_document (Put_definition file) = True"
| "writes_document e = False"

definition untouched :: "coordination_system \<Rightarrow> bool" where
  "untouched s \<longleftrightarrow> \<not> list_ex writes_document (co_trace s)"

definition stays_untouched :: "coordination_system \<Rightarrow> coordination_system \<Rightarrow> bool" where
  "stays_untouched s s' \<longleftrightarrow> (untouched s \<longrightarrow> untouched s')"

definition stays_pending :: "coordination_system \<Rightarrow> coordination_system \<Rightarrow> bool" where
  "stays_pending s s' \<longleftrightarrow> cf_pending (co_files s') = cf_pending (co_files s)"

interpretation hush: frame stays_untouched
  by unfold_locales (auto simp: stays_untouched_def)

interpretation pend: frame stays_pending
  by unfold_locales (auto simp: stays_pending_def)

lemmas stays_defs = stays_untouched_def stays_pending_def

lemma access_frames: "hush.keeps (access env)" "pend.keeps (access env)"
  by (auto simp: hush.keeps_def pend.keeps_def stays_defs access_def emit_def untouched_def split: prod.splits)

lemma load_frames:
  "hush.keeps (load_roadmap env i)" "hush.keeps (load_execution env)"
  "pend.keeps (load_roadmap env i)" "pend.keeps (load_execution env)"
  by (auto simp: load_roadmap_def load_execution_def intro!: access_frames)

lemma emit_frames:
  "\<not> writes_document e \<Longrightarrow> hush.keeps (emit e)" "writes_document e \<Longrightarrow> pend.keeps (emit e)"
  by (auto simp: hush.keeps_def stays_defs emit_def untouched_def)
    (cases e; auto simp: pend.keeps_def stays_defs emit_def)

lemma save_frames: "pend.keeps (save_roadmap env r n)" "pend.keeps (save_execution env d n)"
  by (auto simp: save_roadmap_def save_execution_def intro!: pend.keeps_ebind access_frames emit_frames split: prod.split)

lemma finalize_hush: "hush.keeps (finalize_intent env i phase reason)"
  unfolding finalize_intent_def save_pending_def
  by (intro hush.keeps_ebind hush.keeps_pure emit_frames) simp_all

section \<open>The recorded intent\<close>

definition intent_recorded :: "coordination_intent \<Rightarrow> coordination_system \<Rightarrow> bool" where
  "intent_recorded i s \<longleftrightarrow> (\<exists>j. variant i j \<and> ci_phase j \<in> set open_phases
     \<and> load_pending (cf_pending (co_files s)) = Inr (Some j))"

definition excused :: "coordination_intent \<Rightarrow> coordination_system \<Rightarrow> bool" where
  "excused i s \<longleftrightarrow> untouched s \<or> intent_recorded i s"

lemma recorded_triple: "pend.keeps m \<Longrightarrow> triple (intent_recorded i) m (\<lambda>_. intent_recorded i) (excused i)"
  by (rule tripleI, drule pend.keepsD, assumption) (auto simp: stays_defs intent_recorded_def excused_def split: sum.split)

lemma both_triple:
  "pend.keeps m \<Longrightarrow> hush.keeps m \<Longrightarrow> triple (\<lambda>s. untouched s \<and> intent_recorded i s) m
     (\<lambda>_ s. untouched s \<and> intent_recorded i s) (\<lambda>s. untouched s \<and> intent_recorded i s)"
  by (rule tripleI, drule pend.keepsD, assumption, drule hush.keepsD, assumption)
    (auto simp: stays_defs intent_recorded_def split: sum.split)

lemma untouched_triple: "hush.keeps m \<Longrightarrow> triple untouched m (\<lambda>_. untouched) untouched"
  by (rule tripleI, drule hush.keepsD, assumption) (auto simp: stays_defs split: sum.split)

lemma save_recorded:
  assumes "variant i j" and "ci_phase j \<in> set open_phases" and "intent_ok j"
  shows "triple P (save_pending j) (\<lambda>_. intent_recorded i) E"
  using assms by (auto simp: triple_def save_pending_def emit_def intent_recorded_def load_pending_stored)

lemma complete_recorded:
  "intent_ok j \<Longrightarrow> triple P (complete_intent env j) (\<lambda>_ _. True) (excused i)"
proof -
  assume "intent_ok j"
  then have "intent_init (j\<lparr>ci_phase := ''complete'', ci_updated_at := ce_now env\<rparr>)
      = Inr (j\<lparr>ci_phase := ''complete'', ci_updated_at := ce_now env\<rparr>)"
    unfolding intent_ok_def [symmetric] by (simp add: intent_ok_iff intent_phases_def)
  then show ?thesis
    by (simp add: triple_def complete_intent_def finalize_intent_def save_pending_def emit_def ebind_def)
qed

lemma apply_execution_recorded:
  "triple (\<lambda>s. untouched s \<and> intent_recorded i s) (apply_execution env j x) (\<lambda>_. intent_recorded i) (excused i)"
proof (cases "execution_state (ce_sha env) j x = Doc_before")
  case True
  have attempt: "triple (\<lambda>s. untouched s \<and> intent_recorded i s)
      (eattempt (save_execution env d (ci_expected_execution j)))
      (\<lambda>r s. intent_recorded i s \<and> (\<forall>e. r = Inl e \<longrightarrow> untouched s)) E" for d E
  proof (rule triple_attempt)
    show "triple (\<lambda>s. untouched s \<and> intent_recorded i s) (save_execution env d (ci_expected_execution j))
        (\<lambda>x s. intent_recorded i s \<and> (\<forall>e. Inr x = Inl e \<longrightarrow> untouched s)) (\<lambda>s. untouched s \<and> intent_recorded i s)"
      unfolding save_execution_def
      by (rule triple_bind [OF both_triple [OF access_frames(2,1)]])
        (auto simp: triple_def ebind_def emit_def intent_recorded_def split: sum.splits)
  qed simp
  have handler: "triple (\<lambda>s. intent_recorded i s \<and> (\<forall>e. r = Inl e \<longrightarrow> untouched s))
     (case r of Inr saved \<Rightarrow> ereturn saved
          | Inl e \<Rightarrow> (case e of
                ProjectExecutionConflictError m \<Rightarrow>
                  ebind (load_roadmap env (ci_roadmap_id j)) (\<lambda>probe.
                  ebind (ewhen (roadmap_state (ce_sha env) j probe = Doc_before) (abort_intent env j m)) (\<lambda>_.
                  eraise e))
              | _ \<Rightarrow> eraise e)) (\<lambda>_. intent_recorded i) (excused i)" for r
  proof (cases r)
    case (Inl e)
    have calm: "triple untouched m (\<lambda>_. untouched) (excused i)" if "hush.keeps m" for m :: "'b coordination"
      by (rule triple_weaken [OF untouched_triple [OF that]]) (auto simp: excused_def)
    have "triple untouched (ebind (load_roadmap env (ci_roadmap_id j)) (\<lambda>probe.
            ebind (ewhen (roadmap_state (ce_sha env) j probe = Doc_before) (abort_intent env j m)) (\<lambda>_. eraise e)))
          (\<lambda>_. intent_recorded i) (excused i)" for m
      by (rule triple_bind [OF calm [OF load_frames(1)]], unfold abort_intent_def,
          rule triple_bind [OF calm [OF hush.keeps_ewhen [OF finalize_hush]]]) (simp add: triple_def excused_def)
    note probe = this
    show ?thesis
    proof (cases e)
      case (ProjectExecutionConflictError m)
      show ?thesis
        unfolding Inl ProjectExecutionConflictError sum.case py_error.case
        by (rule triple_weaken [OF probe [of m, unfolded ProjectExecutionConflictError]]) auto
    qed (simp_all add: Inl excused_def triple_def)
  qed (simp add: triple_def)
  show ?thesis
    unfolding apply_execution_def if_P [OF True]
    by (rule triple_bind_elift, rule triple_bind [OF attempt], rule handler) (simp add: excused_def)
next
  case False
  then show ?thesis by (simp add: apply_execution_def triple_def)
qed

lemma apply_roadmap_recorded: "triple (intent_recorded i) (apply_roadmap env j) (\<lambda>_. intent_recorded i) (excused i)"
  unfolding apply_roadmap_def
  by (intro recorded_triple pend.keeps_ebind pend.keeps_if pend.keeps_pure load_frames save_frames)

lemma apply_intent_recorded:
  assumes j: "variant i j"
  shows "triple (\<lambda>s. untouched s \<and> intent_recorded i s) (apply_intent env j) (\<lambda>_ _. True) (excused i)"
proof -
  have tail: "triple (intent_recorded i)
      (ebind (elift (intent_init (j\<lparr>ci_phase := ''project_execution_applied'',
             ci_execution_revision := pd_revision d, ci_updated_at := ce_now env\<rparr>))) (\<lambda>applied.
           ebind (save_pending applied) (\<lambda>_.
           ebind (apply_roadmap env applied) (\<lambda>r.
           ebind (elift (intent_init (applied\<lparr>ci_phase := ''roadmap_applied'',
             ci_roadmap_revision := rm_revision r,
             ci_execution_revision := pd_revision d, ci_updated_at := ce_now env\<rparr>))) (\<lambda>both.
           ebind (save_pending both) (\<lambda>_.
           ebind (complete_intent env both) (\<lambda>_.
           ereturn (r, d)))))))) (\<lambda>_ _. True) (excused i)" for d
  proof (rule triple_bind_elift)
    fix a assume "intent_init (j\<lparr>ci_phase := ''project_execution_applied'',
             ci_execution_revision := pd_revision d, ci_updated_at := ce_now env\<rparr>) = Inr a"
    note a = intent_init_Inr [OF this]
    have va: "variant i a" unfolding conjunct1 [OF a] by (intro variant_change j)
    have oka: "intent_ok a" "ci_phase a \<in> set open_phases" using a by (simp_all add: open_phases_def)
    show "triple (intent_recorded i) (ebind (save_pending a) (\<lambda>_.
           ebind (apply_roadmap env a) (\<lambda>r.
           ebind (elift (intent_init (a\<lparr>ci_phase := ''roadmap_applied'',
             ci_roadmap_revision := rm_revision r,
             ci_execution_revision := pd_revision d, ci_updated_at := ce_now env\<rparr>))) (\<lambda>both.
           ebind (save_pending both) (\<lambda>_.
           ebind (complete_intent env both) (\<lambda>_.
           ereturn (r, d))))))) (\<lambda>_ _. True) (excused i)"
    proof (rule triple_bind [OF save_recorded [OF va oka(2,1)]], rule triple_bind [OF apply_roadmap_recorded],
        rule triple_bind_elift)
      fix r b assume "intent_init (a\<lparr>ci_phase := ''roadmap_applied'', ci_roadmap_revision := rm_revision r,
             ci_execution_revision := pd_revision d, ci_updated_at := ce_now env\<rparr>) = Inr b"
      note b = intent_init_Inr [OF this]
      have vb: "variant i b" unfolding conjunct1 [OF b] by (intro variant_change va)
      have okb: "intent_ok b" "ci_phase b \<in> set open_phases" using b by (simp_all add: open_phases_def)
      show "triple (intent_recorded i) (ebind (save_pending b) (\<lambda>_. ebind (complete_intent env b) (\<lambda>_. ereturn (r, d))))
          (\<lambda>_ _. True) (excused i)"
        by (rule triple_bind [OF save_recorded [OF vb okb(2,1)]], rule triple_bind [OF complete_recorded [OF okb(1)]])
          (simp add: triple_def)
    qed (simp add: excused_def)
  qed (simp add: excused_def)
  have load: "triple (\<lambda>s. untouched s \<and> intent_recorded i s) m (\<lambda>_ s. untouched s \<and> intent_recorded i s) (excused i)"
    if "pend.keeps m" "hush.keeps m" for m :: "'b coordination"
    by (rule triple_weaken [OF both_triple [OF that]]) (auto simp: excused_def)
  show ?thesis
    unfolding apply_intent_def Let_def
    by (intro triple_bind [OF load [OF load_frames(4,2)]] triple_bind [OF load [OF load_frames(3,1)]] triple_if
        triple_bind [OF apply_execution_recorded tail] triple_pure) (simp add: excused_def)
qed

text \<open>The whole edit, from files with nothing pending.\<close>

lemma coordinate_excused:
  assumes start: "cf_pending f = None" and run: "coordinate env r0 r d0 d operation (boot f) = (Inl e, s)"
  shows "untouched s \<or> (\<exists>i. load_pending (cf_pending (co_files s)) = Inr (Some i) \<and> ci_phase i \<in> set open_phases
     \<and> ci_desired_roadmap i = roadmap_as_mapping r \<and> ci_desired_execution i = definition_as_mapping d)"
proof -
  let ?E = "\<lambda>s. untouched s \<or> (\<exists>i. load_pending (cf_pending (co_files s)) = Inr (Some i) \<and> ci_phase i \<in> set open_phases
     \<and> ci_desired_roadmap i = roadmap_as_mapping r \<and> ci_desired_execution i = definition_as_mapping d)"
  have rec: "triple (\<lambda>s. s = boot f) (reconcile_pending env) (\<lambda>_. untouched) ?E"
    using start by (simp add: triple_def reconcile_pending_def read_pending_def load_pending_def boot_def untouched_def)
  have step: "triple untouched m (\<lambda>_. untouched) ?E" if "hush.keeps m" for m :: "'b coordination"
    by (rule triple_weaken [OF untouched_triple [OF that]]) auto
  have uuid: "hush.keeps (fresh_uuid env)" by (simp add: hush.keeps_def stays_defs fresh_uuid_def untouched_def)
  have edit: "triple untouched (ebind (save_pending i) (\<lambda>_. apply_intent env i)) (\<lambda>_ _. True) ?E"
    if "prepared_intent env uuid r0 r d0 d operation = Inr i" for uuid i
  proof -
    from that have i: "intent_ok i" "ci_phase i \<in> set open_phases" "ci_desired_roadmap i = roadmap_as_mapping r"
      "ci_desired_execution i = definition_as_mapping d"
      by (auto simp: prepared_intent_def open_phases_def dest!: intent_init_Inr)
    have "triple untouched (save_pending i) (\<lambda>_ s. untouched s \<and> intent_recorded i s) ?E"
      using i(1,2) by (auto simp: triple_def save_pending_def emit_def untouched_def intent_recorded_def load_pending_stored
          intro!: exI [of _ i])
    moreover have "triple (\<lambda>s. untouched s \<and> intent_recorded i s) (apply_intent env i) (\<lambda>_ _. True) ?E"
      by (rule triple_weaken [OF apply_intent_recorded [OF variant_refl]])
        (auto simp: excused_def intent_recorded_def variant_fields i(3,4))
    ultimately show ?thesis by (rule triple_bind)
  qed
  have "triple (\<lambda>s. s = boot f) (coordinate env r0 r d0 d operation) (\<lambda>_ _. True) ?E"
    unfolding coordinate_def
    by (rule triple_bind [OF rec], rule triple_bind [OF step [OF load_frames(1)]],
        rule triple_bind [OF step [OF load_frames(2)]], rule triple_bind_elift, rule triple_bind [OF step [OF uuid]],
        rule triple_bind_elift, erule edit) simp_all
  with run show ?thesis by (simp add: triple_def)
qed

end
