(* ===== verification/Road_Resolution.thy ===== *)
theory Road_Resolution
  imports Road_Recovery
begin

text \<open>
  The operator's view: the status of a pending intent, the actions it offers, and what each offered
  action does when nobody else writes. Every action that is offered settles the intent.
\<close>

section \<open>What the status sees\<close>

definition observed_roadmap :: "coordination_env \<Rightarrow> coordination_intent \<Rightarrow> coordination_files \<Rightarrow> document_state" where
  "observed_roadmap env i f = (case roadmap_load (ci_roadmap_id i) (cf_roadmaps f) of
     Inl e \<Rightarrow> Doc_divergent | Inr x \<Rightarrow> roadmap_state (ce_sha env) i x)"

definition observed_execution :: "coordination_env \<Rightarrow> coordination_intent \<Rightarrow> coordination_files \<Rightarrow> document_state" where
  "observed_execution env i f = (case repository_load (ce_path env) (cf_definition f) of
     Inl e \<Rightarrow> Doc_divergent | Inr x \<Rightarrow> execution_state (ce_sha env) i x)"

text \<open>A document that is observed as it was before has the recorded revision and fingerprint.\<close>

lemma observed_before:
  "observed_roadmap env i f = Doc_before \<longleftrightarrow> (\<exists>x. roadmap_load (ci_roadmap_id i) (cf_roadmaps f) = Inr x
     \<and> rm_revision x = ci_expected_roadmap i \<and> content_digest (ce_sha env) (roadmap_as_mapping x) = ci_before_roadmap i)"
  "observed_execution env i f = Doc_before \<longleftrightarrow> (\<exists>x. repository_load (ce_path env) (cf_definition f) = Inr x
     \<and> pd_revision x = ci_expected_execution i \<and> content_digest (ce_sha env) (definition_as_mapping x) = ci_before_execution i)"
  by (auto simp: observed_roadmap_def observed_execution_def roadmap_state_def execution_state_def
      document_state_Doc_before split: sum.splits)

lemma access_stands: "quiet_others env \<Longrightarrow> stands P f0 f s \<Longrightarrow> access env s = (r, s') \<Longrightarrow> r = Inr () \<and> stands P f0 f s'"
  using access_triple [of env P f0 f "\<lambda>_. False"] by (cases r) (auto simp: triple_def dest!: spec [of _ s])

lemma catching_load:
  assumes "quiet_others env"
  shows "triple (stands P f0 f) (catching c (load_roadmap env k))
      (\<lambda>x s. x = (case roadmap_load k (cf_roadmaps f) of Inl e \<Rightarrow> None | Inr r \<Rightarrow> Some r) \<and> stands P f0 f s) (\<lambda>_. True)"
    and "triple (stands P f0 f) (catching c (load_execution env))
      (\<lambda>x s. x = (case repository_load (ce_path env) (cf_definition f) of Inl e \<Rightarrow> None | Inr d \<Rightarrow> Some d) \<and> stands P f0 f s)
      (\<lambda>_. True)"
proof -
  have files: "co_files s = f" if "stands P f0 f s" for s using that by (simp add: stands_def)
  show "triple (stands P f0 f) (catching c (load_roadmap env k))
      (\<lambda>x s. x = (case roadmap_load k (cf_roadmaps f) of Inl e \<Rightarrow> None | Inr r \<Rightarrow> Some r) \<and> stands P f0 f s) (\<lambda>_. True)"
  proof (rule tripleI)
    fix s r s' assume s: "stands P f0 f s" and run: "catching c (load_roadmap env k) s = (r, s')"
    obtain u s1 where "access env s = (u, s1)" by (cases "access env s")
    with access_stands [OF assms s this] have a: "access env s = (Inr (), s1)" and s1: "stands P f0 f s1" by auto
    show "case r of Inl e \<Rightarrow> True | Inr x \<Rightarrow> x = (case roadmap_load k (cf_roadmaps f) of Inl e \<Rightarrow> None | Inr r \<Rightarrow> Some r)
        \<and> stands P f0 f s'"
      using run s1 by (cases "roadmap_load k (cf_roadmaps f)")
        (auto simp: catching_def load_roadmap_def eattempt_def ebind_def a files [OF s1] split: if_splits)
  qed
  show "triple (stands P f0 f) (catching c (load_execution env))
      (\<lambda>x s. x = (case repository_load (ce_path env) (cf_definition f) of Inl e \<Rightarrow> None | Inr d \<Rightarrow> Some d) \<and> stands P f0 f s)
      (\<lambda>_. True)"
  proof (rule tripleI)
    fix s r s' assume s: "stands P f0 f s" and run: "catching c (load_execution env) s = (r, s')"
    obtain u s1 where "access env s = (u, s1)" by (cases "access env s")
    with access_stands [OF assms s this] have a: "access env s = (Inr (), s1)" and s1: "stands P f0 f s1" by auto
    show "case r of Inl e \<Rightarrow> True | Inr x \<Rightarrow> x = (case repository_load (ce_path env) (cf_definition f) of
          Inl e \<Rightarrow> None | Inr d \<Rightarrow> Some d) \<and> stands P f0 f s'"
      using run s1 by (cases "repository_load (ce_path env) (cf_definition f)")
        (auto simp: catching_def load_execution_def eattempt_def ebind_def a files [OF s1] split: if_splits)
  qed
qed

lemma document_status_triple:
  assumes "quiet_others env"
  shows "triple (stands P f0 f) (roadmap_status env i) (\<lambda>x s. ds_state x = observed_roadmap env i f \<and> stands P f0 f s) (\<lambda>_. True)"
    and "triple (stands P f0 f) (execution_status env i) (\<lambda>x s. ds_state x = observed_execution env i f \<and> stands P f0 f s) (\<lambda>_. True)"
  unfolding roadmap_status_def execution_status_def observed_roadmap_def observed_execution_def
  by (rule triple_bind [OF catching_load(1) [OF assms]], rule triple_conj_pre, rule triple_pure, simp split: sum.split)
    (rule triple_bind [OF catching_load(2) [OF assms]], rule triple_conj_pre, rule triple_pure, simp split: sum.split)

definition status_shows :: "coordination_env \<Rightarrow> coordination_intent \<Rightarrow> coordination_files \<Rightarrow> coordination_status \<Rightarrow> bool" where
  "status_shows env i f st \<longleftrightarrow> cs_pending st \<and> map_option ds_state (cs_roadmap st) = Some (observed_roadmap env i f)
     \<and> map_option ds_state (cs_execution st) = Some (observed_execution env i f)
     \<and> cs_safe_actions st = fst (safe_actions (ci_phase i) (observed_roadmap env i f) (observed_execution env i f))"

lemma read_pending_triple:
  "load_pending (cf_pending f) = Inr p \<Longrightarrow> triple (stands P f0 f) read_pending (\<lambda>x s. x = p \<and> stands P f0 f s) E"
  unfolding read_pending_def by (rule read_triple)

lemma status_triple:
  assumes quiet: "quiet_others env" and p: "load_pending (cf_pending f) = Inr (Some i)"
    and project: "ci_project_id i = ce_project env"
  shows "triple (stands P f0 f) (coordination_status_of env) (\<lambda>st s. status_shows env i f st \<and> stands P f0 f s) (\<lambda>_. True)"
proof -
  have own: "\<not> ci_project_id i \<noteq> ce_project env" using project by simp
  show ?thesis
    unfolding coordination_status_of_def
  proof (rule triple_bind [OF read_pending_triple [OF p]], rule triple_conj_pre, hypsubst, unfold option.case if_not_P [OF own],
    rule triple_bind [OF document_status_triple(1) [OF quiet]], rule triple_conj_pre,
    rule triple_bind [OF document_status_triple(2) [OF quiet]], rule triple_conj_pre,
    rule triple_bind [OF catching_load(1) [OF quiet]], rule triple_conj_pre,
    rule triple_bind [OF catching_load(2) [OF quiet]], rule triple_conj_pre, rule triple_bind_elift, goal_cases)
    case (1 p rs es)
    then show ?case
      by (cases "safe_actions (ci_phase i) (ds_state rs) (ds_state es)") (auto simp: status_shows_def triple_def)
  qed simp_all
qed

text \<open>With both documents readable, only the forensic comparison could raise.\<close>

lemma catching_triple:
  "triple P m (\<lambda>y s. y = x \<and> Q s) (\<lambda>_. False) \<Longrightarrow> triple P (catching c m) (\<lambda>y s. y = Some x \<and> Q s) (\<lambda>_. False)"
  unfolding triple_def catching_def by (fastforce simp: ebind_def eattempt_def split: prod.splits sum.splits)

lemma status_runs:
  assumes quiet: "quiet_others env" and p: "load_pending (cf_pending f) = Inr (Some i)"
    and project: "ci_project_id i = ce_project env"
    and x: "roadmap_load (ci_roadmap_id i) (cf_roadmaps f) = Inr x"
    and y: "repository_load (ce_path env) (cf_definition f) = Inr y"
    and fr: "intent_forensics env i (Some x) (Some y) = Inr fr"
  obtains st s where "coordination_status_of env (boot f) = (Inr st, s)" and "status_shows env i f st"
proof -
  let ?at = "stands (\<lambda>_. True) f f" and ?no = "\<lambda>s :: coordination_system. False"
  note lx = catching_triple [OF load_roadmap_triple [OF quiet x, where E = ?no]]
  note ly = catching_triple [OF load_execution_triple [OF quiet y, where E = ?no]]
  have own: "\<not> ci_project_id i \<noteq> ce_project env" using project by simp
  have "triple ?at (roadmap_status env i) (\<lambda>_. ?at) ?no" "triple ?at (execution_status env i) (\<lambda>_. ?at) ?no"
    unfolding roadmap_status_def execution_status_def
    by (rule triple_bind [OF lx] triple_bind [OF ly], simp add: triple_def)+
  then have "triple ?at (coordination_status_of env) (\<lambda>_ _. True) ?no"
    unfolding coordination_status_of_def
    by (intro triple_bind [OF read_pending_triple [OF p]] triple_conj_pre, hypsubst, unfold option.case if_not_P [OF own])
      (elim triple_bind, intro triple_bind [OF lx] triple_bind [OF ly] triple_conj_pre,
        simp add: fr triple_def split: prod.split)
  then obtain st s where run: "coordination_status_of env (boot f) = (Inr st, s)"
    using stands_boot [of "\<lambda>_. True" f] unfolding triple_def
    by (cases "coordination_status_of env (boot f)"; cases "fst (coordination_status_of env (boot f))")
      (auto dest!: spec [of _ "boot f"])
  moreover have "status_shows env i f st"
    using tripleD_Inr [OF status_triple [OF quiet p project] stands_boot [of "\<lambda>_. True" f] run] by simp
  ultimately show ?thesis by (rule that)
qed

lemma nothing_pending_triple:
  assumes "load_pending (cf_pending f) = Inr None"
  shows "triple (stands P f0 f) (coordination_status_of env) (\<lambda>st s. st = nothing_pending (ce_project env) \<and> stands P f0 f s) E"
  unfolding coordination_status_of_def
  by (rule triple_bind [OF read_pending_triple [OF assms]], rule triple_conj_pre) (simp add: triple_def)

section \<open>What an offered action does\<close>

definition resolved :: "coordination_env \<Rightarrow> coordination_intent \<Rightarrow> roadmap \<Rightarrow> execution_definition \<Rightarrow> string
    \<Rightarrow> coordination_files \<Rightarrow> coordination_files \<Rightarrow> bool" where
  "resolved env i r d action f g \<longleftrightarrow> cf_pending g = None
     \<and> (if action = ''retry_roll_forward'' then rolled env i r d f g
        else cf_roadmaps g = cf_roadmaps f \<and> cf_definition g = cf_definition f)"

lemma finish_action:
  assumes "intent_ok i" and "phase \<in> set intent_phases" and "action \<noteq> ''retry_roll_forward''"
  shows "triple (stands (\<lambda>_. True) f f) (finalize_intent env i phase reason)
    (\<lambda>_ s. \<exists>g. stands (\<lambda>_. True) f g s \<and> resolved env i' r d action f g) (\<lambda>_. False)"
  by (rule triple_weaken [OF finalize_triple [OF assms(1,2), where P = "\<lambda>_. True" and E = "\<lambda>_. False"]])
    (use assms(3) in \<open>auto simp: resolved_def\<close>)

lemma offered_cases:
  assumes "a \<in> set (fst (safe_actions phase rs es))"
  obtains "phase = ''complete'' \<or> phase = ''aborted''" "a = ''finalize_terminal''"
  | "settled rs" "settled es" "a = ''accept_applied''"
  | "phase \<noteq> ''complete''" "phase \<noteq> ''aborted''" "rs \<noteq> Doc_divergent" "es \<noteq> Doc_divergent" "a = ''retry_roll_forward''"
  | "rs = Doc_before" "es = Doc_before" "a = ''abort''"
  using assms by (auto simp: safe_actions_def split: if_splits)

lemma perform_settles:
  assumes quiet: "quiet_others env" and rep: "replayable env i r d"
    and pend: "cf_pending f = Some (PDict (intent_as_mapping i))"
    and project: "\<And>x. repository_load (ce_path env) (cf_definition f) = Inr x \<Longrightarrow> pd_project x = pd_project d"
    and offered: "a \<in> set (fst (safe_actions (ci_phase i) (observed_roadmap env i f) (observed_execution env i f)))"
  shows "triple (stands (\<lambda>_. True) f f) (perform_action env i a)
    (\<lambda>_ s. \<exists>g. stands (\<lambda>_. True) f g s \<and> resolved env i r d a f g) (\<lambda>_. False)"
  using offered
proof (rule offered_cases)
  from rep have ok: "intent_ok i" by (simp add: replayable_def)
  {
    assume "ci_phase i = ''complete'' \<or> ci_phase i = ''aborted''" and a: "a = ''finalize_terminal''"
    then show ?thesis
      unfolding perform_action_def complete_intent_def abort_intent_def
      by (auto simp: intent_phases_def intro!: finish_action [OF ok])
  next
    assume "a = ''accept_applied''"
    then show ?thesis
      unfolding perform_action_def complete_intent_def abort_intent_def
      by (auto simp: intent_phases_def intro!: finish_action [OF ok])
  next
    assume "a = ''abort''"
    then show ?thesis
      unfolding perform_action_def complete_intent_def abort_intent_def
      by (auto simp: intent_phases_def intro!: finish_action [OF ok])
  next
    assume open_phase: "ci_phase i \<noteq> ''complete''" "ci_phase i \<noteq> ''aborted''" and a: "a = ''retry_roll_forward''"
      and states: "observed_roadmap env i f \<noteq> Doc_divergent" "observed_execution env i f \<noteq> Doc_divergent"
    from open_phase ok have phase: "ci_phase i \<in> set open_phases"
      by (auto simp: intent_ok_iff open_phases_def intent_phases_def)
    have ready: "roadmap_ready env i (cf_roadmaps f)" "execution_ready env i d (cf_definition f)"
      using states project by (auto simp: observed_roadmap_def observed_execution_def roadmap_ready_def
          execution_ready_def split: sum.splits)
    have f: "rolling env i r d f f" "pending_in i open_phases f"
      using pend phase by (auto simp: rolling_def pending_in_def intro: exI [of _ i])
    have "triple (stands (\<lambda>_. True) f f) (apply_intent env i)
        (\<lambda>_ s. \<exists>g. stands (\<lambda>_. True) f g s \<and> resolved env i r d a f g) (\<lambda>_. False)"
      by (intro triple_weaken [OF apply_intent_triple [OF quiet rep variant_refl phase ready _ f,
            where P = "\<lambda>_. True" and g = f and E = "\<lambda>_. False"]])
        (simp_all add: resolved_def a, fastforce simp: finish_def rolled_def)
    then have "triple (stands (\<lambda>_. True) f f) (ebind (apply_intent env i) (\<lambda>_. ereturn ()))
        (\<lambda>_ s. \<exists>g. stands (\<lambda>_. True) f g s \<and> resolved env i r d a f g) (\<lambda>_. False)"
      by (rule triple_bind) (simp add: triple_def)
    then show ?thesis by (simp add: perform_action_def a)
  }
qed

lemma action_normalized:
  "a \<in> set (fst (safe_actions phase rs es)) \<Longrightarrow> py_lower (py_strip a) = a"
  by (erule offered_cases) (simp, code_simp)+

lemma resolve_settles:
  assumes quiet: "quiet_others env" and rep: "replayable env i r d"
    and pend: "cf_pending f = Some (PDict (intent_as_mapping i))"
    and project: "\<And>x. repository_load (ce_path env) (cf_definition f) = Inr x \<Longrightarrow> pd_project x = pd_project d"
    and status: "coordination_status_of env (boot f) = (Inr st, s0)" and offered: "a \<in> set (cs_safe_actions st)"
  obtains s where "resolve env (PStr a) (boot f) = (Inr (nothing_pending (ce_project env)), s)"
    and "resolved env i r d a f (co_files s)"
proof -
  from rep have ok: "intent_ok i" and own: "ci_project_id i = ce_project env" by (simp_all add: replayable_def)
  have p: "load_pending (cf_pending f) = Inr (Some i)" by (simp add: pend load_pending_stored ok)
  have st: "status_shows env i f st" "stands (\<lambda>_. True) f f s0"
    using tripleD_Inr [OF status_triple [OF quiet p own] stands_boot [of "\<lambda>_. True" f] status] by simp_all
  from st(1) offered have a: "a \<in> set (fst (safe_actions (ci_phase i) (observed_roadmap env i f) (observed_execution env i f)))"
    by (simp add: status_shows_def)
  obtain u s1 where perform: "perform_action env i a s0 = (Inr u, s1)"
    and g: "\<exists>g. stands (\<lambda>_. True) f g s1 \<and> resolved env i r d a f g"
    using perform_settles [OF quiet rep pend project a] st(2) unfolding triple_def
    by (cases "perform_action env i a s0"; cases "fst (perform_action env i a s0)") (auto dest!: spec [of _ s0])
  from g obtain g where g: "stands (\<lambda>_. True) f g s1" "resolved env i r d a f g" by blast
  then have none: "load_pending (cf_pending g) = Inr None" by (simp add: resolved_def load_pending_def)
  obtain s where after: "coordination_status_of env s1 = (Inr (nothing_pending (ce_project env)), s)"
    and s: "stands (\<lambda>_. True) f g s"
    using nothing_pending_triple [OF none, where P = "\<lambda>_. True" and ?f0.0 = f and env = env and E = "\<lambda>_. False"] g(1)
    unfolding triple_def
    by (cases "coordination_status_of env s1"; cases "fst (coordination_status_of env s1)") (auto dest!: spec [of _ s1])
  have read: "read_pending s0 = (Inr (Some i), s0)"
    using st(2) p by (simp add: read_pending_def stands_def)
  have "resolve env (PStr a) (boot f) = (Inr (nothing_pending (ce_project env)), s)"
    using st(1) offered unfolding resolve_def Let_def str_or_empty_PStr action_normalized [OF a]
    by (simp add: status status_shows_def read perform after)
  moreover have "resolved env i r d a f (co_files s)" using g(2) s by (simp add: stands_def)
  ultimately show ?thesis by (rule that)
qed

end
