(* ===== verification/Road_Sample.thy ===== *)
theory Road_Sample
  imports Road_Moves Road_Guard Road_Failure Road_Resolution Exec_Sample
begin

text \<open>
  A Roadmap with a planned Task and the Phase of a project, the files of that project, and
  one edit of both documents: the Phase gets a window and moves before the planned Task. The digest
  is the text itself, so that no two documents share one. Another process is modelled that moves
  the Roadmap on before the third access.
\<close>

definition sample_planned_item :: road_item where
  "sample_planned_item = \<lparr>ri_id = ''a'', ri_kind = ''planned_task'', ri_title = ''A'', ri_description = [],
     ri_task_id = [], ri_asset_id = [], ri_lane = ''L'', ri_order = 10, ri_schedule = unscheduled\<rparr>"

definition sample_phase_item :: road_item where
  "sample_phase_item = \<lparr>ri_id = ''b'', ri_kind = ''phase'', ri_title = [], ri_description = [],
     ri_task_id = [], ri_asset_id = ''p'', ri_lane = ''K'', ri_order = 20, ri_schedule = unscheduled\<rparr>"

definition sample_roadmap :: roadmap where
  "sample_roadmap = \<lparr>rm_id = ''r'', rm_title = ''R'', rm_description = [], rm_revision = 4,
     rm_created_at = ''0'', rm_updated_at = ''1'', rm_items = [sample_planned_item, sample_phase_item],
     rm_relations = [\<lparr>rr_source = ''a'', rr_target = ''b'', rr_kind = ''blocks''\<rparr>], rm_schema_version = 2\<rparr>"

definition sample_current :: execution_definition where
  "sample_current = \<lparr>pd_schema_version = 1, pd_project = ''d'', pd_revision = 3, pd_mode = Mode_ASSISTED,
     pd_phases = [\<lparr>ph_id = ''p'', ph_title = ''P'', ph_description = [], ph_schedule = empty_schedule,
       ph_entry_gates = [], ph_exit_gates = [], ph_tasks = [], ph_milestones = []\<rparr>],
     pd_tasks = [], pd_gates = [], pd_milestones = [], pd_policy = default_policy\<rparr>"

definition sample_files :: coordination_files where
  "sample_files = \<lparr>cf_roadmaps = [(''r'', PDict (roadmap_as_mapping sample_roadmap))],
     cf_definition = Some (PDict (definition_as_mapping sample_current)),
     cf_pending = None, cf_journal = [], cf_markers = []\<rparr>"

definition sample_coordinator ::
    "(nat \<Rightarrow> roadmap_dir \<times> pyval option \<Rightarrow> roadmap_dir \<times> pyval option) \<Rightarrow> coordination_env" where
  "sample_coordinator others = \<lparr>ce_sha = (\<lambda>s. s), ce_now = ''2'', ce_uuid = py_str_nat, ce_path = ''PROJECT_EXECUTION.yaml'',
     ce_pending_path = ''pending.json'', ce_project = ''d'', ce_others = others\<rparr>"

definition undisturbed :: coordination_env where
  "undisturbed = sample_coordinator (\<lambda>n x. x)"

text \<open>The wanted documents: what \<open>move_item\<close> derives from the current ones.\<close>

definition sample_wanted :: roadmap where
  "sample_wanted = sample_roadmap\<lparr>rm_updated_at := ''2'',
     rm_items := [sample_phase_item\<lparr>ri_lane := ''L'', ri_order := 10\<rparr>, sample_planned_item\<lparr>ri_order := 20\<rparr>]\<rparr>"

definition sample_window :: execution_definition where
  "sample_window = sample_current\<lparr>pd_phases := map (\<lambda>p. p\<lparr>ph_schedule :=
     \<lparr>sched_start = ''2025-06-01'', sched_target = ''2025-07-01''\<rparr>\<rparr>) (pd_phases sample_current)\<rparr>"

lemma sample_moves:
  "move_item_in ''2'' sample_roadmap ''b'' ''K'' ''2025-06-01'' ''2025-07-01'' ''a'' ''before'' = Inr sample_wanted"
  by code_simp

lemma sample_schedules:
  "definition_with_schedule sample_current ''phase'' ''p'' ''2025-06-01'' ''2025-07-01''
     = Inr sample_window"
  by code_simp

lemma undisturbed_fields [simp]:
  "ce_others undisturbed n x = x" "ce_path undisturbed = ''PROJECT_EXECUTION.yaml''" "ce_project undisturbed = ''d''"
  by (simp_all add: undisturbed_def sample_coordinator_def)

lemma undisturbed_quiet: "quiet_others undisturbed"
  by (simp add: quiet_others_def)

lemma sample_roadmap_init: "replace_roadmap sample_roadmap = Inr sample_roadmap"
  by code_simp

lemma sample_roadmap_ok: "roadmap_ok sample_roadmap" "roadmap_ok sample_wanted"
  by code_simp+

lemma sample_window_ok: "definition_ok sample_current" "definition_ok sample_window"
  by code_simp+

lemma sample_window_wf: "definition_wf sample_current None" "definition_wf sample_window None"
proof -
  have "validate_definition sample_current None = Inr ()" "validate_definition sample_window None = Inr ()" by code_simp+
  then show "definition_wf sample_current None" "definition_wf sample_window None"
    using validate_definition_decides [OF definition_ok_unique_ids] sample_window_ok by blast+
qed

lemma sample_loads:
  "roadmap_load ''r'' (cf_roadmaps sample_files) = Inr sample_roadmap"
  "repository_load path (cf_definition sample_files) = Inr sample_current"
proof -
  show "roadmap_load ''r'' (cf_roadmaps sample_files) = Inr sample_roadmap"
    using roadmap_load_stored [OF sample_roadmap_ok(1), of "cf_roadmaps sample_files"]
    by (simp add: sample_files_def sample_roadmap_def)
  have "sort_tasks sample_current = sample_current"
    by (simp add: sort_tasks_def sample_current_def)
  then show "repository_load path (cf_definition sample_files) = Inr sample_current"
    using load_stored [OF sample_window_ok(1) sample_window_wf(1)] by (simp add: sample_files_def)
qed

lemma sample_edit_ready:
  "edit_ready undisturbed sample_files sample_roadmap sample_wanted sample_current sample_window ''move''"
proof -
  have "rm_id sample_roadmap = ''r''" "rm_id sample_wanted = ''r''" "cf_pending sample_files = None"
    "pd_project sample_window = pd_project sample_current"
    by (simp_all add: sample_roadmap_def sample_wanted_def sample_window_def sample_current_def sample_files_def)
  moreover have "py_strip ''move'' \<noteq> []" "validate_project_id (PStr ''d'') = Inr ''d''" by code_simp+
  moreover have "py_strip (ce_uuid undisturbed 0) \<noteq> []" by code_simp
  ultimately show ?thesis
    by (simp add: edit_ready_def sample_loads sample_roadmap_ok sample_window_ok sample_window_wf)
qed

lemma sample_saves:
  assumes "roadmap_ok r" and "rm_id r = ''r''"
  shows "\<exists>dir'. roadmap_save r 4 (cf_roadmaps sample_files) = Inr (r\<lparr>rm_revision := 5\<rparr>, dir')
    \<and> roadmap_load ''r'' dir' = Inr (r\<lparr>rm_revision := 5\<rparr>)"
proof -
  have four: "rm_revision sample_roadmap = 4" by (simp add: sample_roadmap_def)
  have stem: "roadmap_stem ''r'' = Inr ''r''" using roadmap_stem_ok [OF assms(1)] by (simp add: assms(2))
  have "load_required (cf_roadmaps sample_files) ''r'' ''r'' = Inr sample_roadmap"
    using sample_loads(1) by (simp add: roadmap_load_def stem)
  moreover have saved: "replace_roadmap (r\<lparr>rm_revision := 5\<rparr>) = Inr (r\<lparr>rm_revision := 5\<rparr>)" "roadmap_ok (r\<lparr>rm_revision := 5\<rparr>)"
    using replace_roadmap_revision [OF assms(1), of 5] roadmap_ok_revision [OF assms(1), of 5] by simp_all
  ultimately show ?thesis
    using roadmap_load_stored [OF saved(2)] by (simp add: roadmap_save_def stem four assms(2))
qed

section \<open>Saves of others\<close>

text \<open>What the two repositories do to their documents is orderly.\<close>

lemma roadmap_save_orderly:
  assumes "roadmap_save r n dir = Inr (saved, dir')" and "roadmap_ok r"
  shows "moved_on rm_revision (roadmap_load i dir) (roadmap_load i dir')"
proof -
  from assms obtain current where load: "roadmap_load (rm_id r) dir = Inr current" "rm_revision current = n"
    and saved: "saved = r\<lparr>rm_revision := n + 1\<rparr>" "roadmap_ok saved"
    and dir': "dir' = dset (rm_id r) (PDict (roadmap_as_mapping saved)) dir" by (rule roadmap_save_Inr)
  show ?thesis
  proof (cases "roadmap_stem i")
    case (Inr stem)
    show ?thesis
    proof (cases "stem = rm_id r")
      case True
      have "load_required dir stem i = Inr current"
        using load(1) by (auto simp: True roadmap_load_def load_required_def roadmap_stem_ok [OF assms(2)] split: option.splits)
      moreover have "load_required dir' stem i = Inr saved"
        using load_document_stored [OF saved(2)] by (simp add: True dir' saved(1) load_required_def)
      ultimately show ?thesis by (simp add: roadmap_load_def Inr moved_on_def load(2) saved(1))
    qed (simp add: roadmap_load_def Inr moved_on_def dir' load_required_def)
  qed (simp add: roadmap_load_def moved_on_def)
qed

text \<open>A process that renames the Roadmap before another's access number \<open>k\<close>.\<close>

definition renamed :: roadmap where
  "renamed = sample_roadmap\<lparr>rm_title := ''S''\<rparr>"

definition renaming :: "nat \<Rightarrow> coordination_env" where
  "renaming k = sample_coordinator (\<lambda>n (dir, def). if n = k
     then (case roadmap_save renamed 4 dir of Inl e \<Rightarrow> (dir, def) | Inr (saved, dir') \<Rightarrow> (dir', def)) else (dir, def))"

lemma renamed_ok: "roadmap_ok renamed"
  by code_simp

lemma renaming_orderly: "orderly (renaming k)"
  using roadmap_save_orderly [OF _ renamed_ok]
  by (auto simp: orderly_def renaming_def sample_coordinator_def moved_on_def split: if_splits sum.splits prod.splits)

end
