(* ===== verification/Road_Service.thy ===== *)
theory Road_Service
  imports Road_Edit Road_Coordination
begin

text \<open>
  \<open>RoadmapService\<close> of \<open>roadmap/service.py\<close>: the handlers of one project, as operations on the files
  with the coordinator. A handler loads the Roadmap once no intent is pending, derives an edit, and
  saves it, through the coordinator when the definition changes too. \<open>linkable\<close> is what the read
  projection answers about a Task, and a handler returns the Roadmap and the coordination status that
  the projection it sends to the browser starts from; projections and file digests are not modelled.
\<close>

type_synonym roadmap_view = "roadmap \<times> coordination_status"

section \<open>Loading and answering\<close>

definition assert_coordination_clear :: "coordination_env \<Rightarrow> unit coordination" where
  "assert_coordination_clear env =
     ebind (reconcile_if_safe env) (\<lambda>status.
     if cs_pending status
     then eraise (RoadmapCoordinationConflictError
       (''canonical Roadmap coordination requires operator resolution before mutation: '' @ cs_message status))
     else ereturn ())"

definition assert_roadmap_revision :: "roadmap \<Rightarrow> int \<Rightarrow> unit res" where
  "assert_roadmap_revision r expected =
     (if rm_revision r \<noteq> expected
      then Inl (RoadmapConflictError
        (''roadmap changed since it was loaded; refresh before saving (expected revision ''
         @ py_str_int expected @ '', current '' @ py_str_int (rm_revision r) @ '')''))
      else Inr ())"

definition load_for_edit :: "coordination_env \<Rightarrow> string \<Rightarrow> roadmap coordination" where
  "load_for_edit env roadmap_id = ebind (assert_coordination_clear env) (\<lambda>_. load_roadmap env roadmap_id)"

definition get_roadmap :: "coordination_env \<Rightarrow> string \<Rightarrow> roadmap_view coordination" where
  "get_roadmap env roadmap_id =
     ebind (reconcile_if_safe env) (\<lambda>status.
     ebind (load_roadmap env roadmap_id) (\<lambda>r. ereturn (r, status)))"

definition list_stored :: "coordination_env \<Rightarrow> roadmap list coordination" where
  "list_stored env =
     ebind (access env) (\<lambda>_. ebind (eget (\<lambda>s. roadmap_list (cf_roadmaps (co_files s)))) elift)"

definition list_roadmaps :: "coordination_env \<Rightarrow> (roadmap list \<times> coordination_status) coordination" where
  "list_roadmaps env =
     ebind (reconcile_if_safe env) (\<lambda>status. ebind (list_stored env) (\<lambda>rs. ereturn (rs, status)))"

definition save_and_get ::
    "coordination_env \<Rightarrow> roadmap \<Rightarrow> roadmap \<Rightarrow> int \<Rightarrow> roadmap_view coordination" where
  "save_and_get env r updated expected =
     ebind (save_roadmap env updated expected) (\<lambda>_. get_roadmap env (rm_id r))"

text \<open>\<open>uuid.uuid4().hex[:10]\<close>\<close>

definition fresh_hex :: "coordination_env \<Rightarrow> string coordination" where
  "fresh_hex env = ebind (fresh_uuid env) (\<lambda>u. ereturn (take 10 u))"

section \<open>Creating\<close>

text \<open>\<open>re.sub(r"[^a-z0-9]+", "-", s)\<close>: one hyphen for each run of other characters.\<close>

definition slug_char :: "char \<Rightarrow> bool" where
  "slug_char c = (let n = (of_char c :: nat) in (97 \<le> n \<and> n \<le> 122) \<or> (48 \<le> n \<and> n \<le> 57))"

fun hyphenate :: "bool \<Rightarrow> string \<Rightarrow> string" where
  "hyphenate in_run [] = []"
| "hyphenate in_run (c # cs) =
     (if slug_char c then c # hyphenate False cs
      else if in_run then hyphenate True cs else CHR ''-'' # hyphenate True cs)"

definition strip_hyphens :: "string \<Rightarrow> string" where
  "strip_hyphens s = rev (dropWhile (\<lambda>c. c = CHR ''-'') (rev (dropWhile (\<lambda>c. c = CHR ''-'') s)))"

definition roadmap_slug :: "string \<Rightarrow> string" where
  "roadmap_slug value =
     (let normalized = strip_hyphens (hyphenate False (py_lower (py_strip value)));
          named = (if normalized = [] then ''roadmap'' else normalized);
          prefixed = (if py_isdecimal (hd named) then ''roadmap-'' @ named else named)
      in take 72 prefixed)"

definition available_id :: "string list \<Rightarrow> string \<Rightarrow> string res" where
  "available_id existing base =
     (if base \<notin> set existing then Inr base
      else case find (\<lambda>c. c \<notin> set existing) (map (\<lambda>n. base @ ''-'' @ py_str_nat n) [2..<10000]) of
          None \<Rightarrow> Inl (RoadmapConflictError ''could not allocate a unique roadmap id'')
        | Some candidate \<Rightarrow> Inr candidate)"

definition create_stored :: "coordination_env \<Rightarrow> roadmap \<Rightarrow> roadmap coordination" where
  "create_stored env r =
     ebind (access env) (\<lambda>_.
     ebind (eget (\<lambda>s. roadmap_create r (cf_roadmaps (co_files s)))) (\<lambda>result.
     ebind (elift result) (\<lambda>(created, dir). ebind (emit (Put_roadmaps dir)) (\<lambda>_. ereturn created))))"

definition create_roadmap :: "coordination_env \<Rightarrow> string \<Rightarrow> string \<Rightarrow> string \<Rightarrow> roadmap_view coordination" where
  "create_roadmap env title description roadmap_id =
     ebind (elift (validate_roadmap_id
       (PStr (if py_strip roadmap_id \<noteq> [] then py_strip roadmap_id else roadmap_slug title)) ''roadmap id''))
       (\<lambda>requested.
     ebind (if py_strip roadmap_id \<noteq> [] then ereturn requested
            else ebind (list_stored env) (\<lambda>rs. elift (available_id (map rm_id rs) requested))) (\<lambda>candidate.
     ebind (elift (roadmap_init 2 (PStr candidate) (PStr title) (PStr description) 1 (ce_now env) (ce_now env) [] []))
       (\<lambda>r.
     ebind (create_stored env r) (\<lambda>_. get_roadmap env (rm_id r)))))"

section \<open>Edits of the Roadmap alone\<close>

text \<open>A handler that loads, derives the new Roadmap and saves it over the revision the caller names.\<close>

definition edit_roadmap ::
    "coordination_env \<Rightarrow> string \<Rightarrow> int \<Rightarrow> (roadmap \<Rightarrow> roadmap res) \<Rightarrow> roadmap_view coordination" where
  "edit_roadmap env roadmap_id expected change =
     ebind (load_for_edit env roadmap_id) (\<lambda>r.
     ebind (elift (change r)) (\<lambda>updated. save_and_get env r updated expected))"

definition update_metadata ::
    "coordination_env \<Rightarrow> string \<Rightarrow> int \<Rightarrow> string \<Rightarrow> string \<Rightarrow> roadmap_view coordination" where
  "update_metadata env roadmap_id expected title description =
     edit_roadmap env roadmap_id expected (\<lambda>r. with_metadata (ce_now env) r title description)"

definition move_lane ::
    "coordination_env \<Rightarrow> string \<Rightarrow> int \<Rightarrow> string \<Rightarrow> string \<Rightarrow> string \<Rightarrow> roadmap_view coordination" where
  "move_lane env roadmap_id expected lane target_lane placement =
     ebind (load_for_edit env roadmap_id) (\<lambda>r.
     ebind (elift (move_lane_in (ce_now env) r lane target_lane placement)) (\<lambda>result. case result of
         None \<Rightarrow> get_roadmap env (rm_id r)
       | Some updated \<Rightarrow> save_and_get env r updated expected))"

definition remove_item :: "coordination_env \<Rightarrow> string \<Rightarrow> string \<Rightarrow> int \<Rightarrow> roadmap_view coordination" where
  "remove_item env roadmap_id item_id expected =
     edit_roadmap env roadmap_id expected (\<lambda>r. delete_item_in (ce_now env) r item_id)"

definition link_task ::
    "coordination_env \<Rightarrow> (string \<Rightarrow> bool) \<Rightarrow> string \<Rightarrow> int \<Rightarrow> string \<Rightarrow> string \<Rightarrow> string \<Rightarrow> string \<Rightarrow> string \<Rightarrow> int
       \<Rightarrow> roadmap_view coordination" where
  "link_task env linkable roadmap_id expected task_id item_id lane start target order =
     ebind (load_for_edit env roadmap_id) (\<lambda>r.
     ebind (elift (validate_task_reference_id (PStr task_id))) (\<lambda>safe_task_id.
     if \<not> linkable safe_task_id
     then eraise (RoadmapNotFoundError (''active valid task not found: '' @ safe_task_id))
     else
       ebind (if item_id = [] then fresh_hex env else ereturn []) (\<lambda>fresh.
       ebind (elift (link_task_in (ce_now env) r safe_task_id (''task-'' @ fresh) item_id lane start target order))
         (\<lambda>updated. save_and_get env r updated expected))))"

definition upsert_relation ::
    "coordination_env \<Rightarrow> string \<Rightarrow> int \<Rightarrow> string \<Rightarrow> string \<Rightarrow> string \<Rightarrow> roadmap_view coordination" where
  "upsert_relation env roadmap_id expected source target kind =
     edit_roadmap env roadmap_id expected (\<lambda>r. upsert_relation_in (ce_now env) r source target kind)"

definition delete_relation ::
    "coordination_env \<Rightarrow> string \<Rightarrow> int \<Rightarrow> string \<Rightarrow> string \<Rightarrow> string \<Rightarrow> roadmap_view coordination" where
  "delete_relation env roadmap_id expected source target kind =
     edit_roadmap env roadmap_id expected (\<lambda>r. delete_relation_in (ce_now env) r source target kind)"

section \<open>Edits that may change the definition too\<close>

definition coordinate_and_get ::
    "coordination_env \<Rightarrow> roadmap \<Rightarrow> roadmap \<Rightarrow> execution_definition \<Rightarrow> execution_definition \<Rightarrow> string
       \<Rightarrow> roadmap_view coordination" where
  "coordinate_and_get env r updated d desired operation =
     ebind (coordinate env r updated d desired operation) (\<lambda>_. get_roadmap env (rm_id r))"

definition moving_conflict :: "int \<Rightarrow> int \<Rightarrow> py_error" where
  "moving_conflict expected current = ProjectExecutionConflictError
     (''Project Execution changed since the Roadmap projection was loaded; refresh before moving ''
      @ ''canonical project assets (expected revision '' @ py_str_int expected @ '', current ''
      @ py_str_int current @ '')'')"

text \<open>The new window of a canonical asset that is moved, unless the caller gives none.\<close>

definition moved_window ::
    "coordination_env \<Rightarrow> int \<Rightarrow> road_item \<Rightarrow> string \<Rightarrow> string
       \<Rightarrow> (execution_definition \<times> execution_definition) option coordination" where
  "moved_window env expected_execution moving start target =
     (if ri_kind moving \<in> set project_kinds \<and> (start \<noteq> [] \<or> target \<noteq> []) then
        ebind (load_execution env) (\<lambda>d.
        if expected_execution \<noteq> 0 \<and> pd_revision d \<noteq> expected_execution
        then eraise (moving_conflict expected_execution (pd_revision d))
        else ebind (elift (definition_with_schedule d (ri_kind moving) (ri_asset_id moving) start target)) (\<lambda>desired.
             ereturn (Some (d, desired))))
      else ereturn None)"

definition move_item ::
    "coordination_env \<Rightarrow> string \<Rightarrow> int \<Rightarrow> int \<Rightarrow> string \<Rightarrow> string \<Rightarrow> string \<Rightarrow> string \<Rightarrow> string \<Rightarrow> string
       \<Rightarrow> roadmap_view coordination" where
  "move_item env roadmap_id expected expected_execution item_id lane start target target_item_id placement =
     ebind (load_for_edit env roadmap_id) (\<lambda>r.
     ebind (elift (assert_roadmap_revision r expected)) (\<lambda>_.
     ebind (elift (plan_move r item_id lane target_item_id placement)) (\<lambda>(moving, others, lane', n).
     ebind (moved_window env expected_execution moving start target) (\<lambda>window.
     ebind (elift (moved_item moving lane' start target)) (\<lambda>moved.
     ebind (elift (place_item (ce_now env) r others n moved)) (\<lambda>updated.
     case window of
       Some (d, desired) \<Rightarrow> coordinate_and_get env r updated d desired (''move_'' @ ri_kind moving)
     | None \<Rightarrow> save_and_get env r updated expected))))))"

definition item_prefix :: "string \<Rightarrow> string" where
  "item_prefix kind = (if kind = ''planned_task'' then ''planned''
     else if kind \<in> set roadmap_item_kinds then kind else ''item'')"

definition with_item_id :: "coordination_env \<Rightarrow> row \<Rightarrow> row coordination" where
  "with_item_id env data =
     (if py_strip (row_get_str data ''id'' []) = [] then
        ebind (fresh_hex env) (\<lambda>h. ereturn (dset ''id''
          (PStr (item_prefix (py_lower (py_strip (row_get_str data ''kind'' ''planned_task''))) @ ''-'' @ h)) data))
      else ereturn data)"

definition create_execution :: "coordination_env \<Rightarrow> execution_definition \<Rightarrow> execution_definition coordination" where
  "create_execution env d =
     ebind (access env) (\<lambda>_.
     ebind (eget (\<lambda>s. repository_create d (cf_definition (co_files s)))) (\<lambda>result.
     ebind (elift result) (\<lambda>(created, content). ebind (emit (Put_definition content)) (\<lambda>_. ereturn created))))"

text \<open>The definition, created empty when the project has none yet.\<close>

definition execution_or_new :: "coordination_env \<Rightarrow> execution_definition coordination" where
  "execution_or_new env =
     ebind (access env) (\<lambda>_.
     ebind (eget (\<lambda>s. cf_definition (co_files s))) (\<lambda>file.
     ebind (if file \<noteq> None then ereturn ()
            else
              ebind (elift (definition_init 1 (PStr (ce_project env)) (PInt 1) (PStr (mode_value Mode_ASSISTED))
                default_policy [] [] [] [])) (\<lambda>empty.
              ebind (create_execution env empty) (\<lambda>_. ereturn ()))) (\<lambda>_.
     load_execution env)))"

definition upsert_item ::
    "coordination_env \<Rightarrow> (string \<Rightarrow> bool) \<Rightarrow> string \<Rightarrow> int \<Rightarrow> int \<Rightarrow> row \<Rightarrow> roadmap_view coordination" where
  "upsert_item env linkable roadmap_id expected expected_execution raw =
     ebind (load_for_edit env roadmap_id) (\<lambda>r.
     ebind (elift (assert_roadmap_revision r expected)) (\<lambda>_.
     ebind (with_item_id env raw) (\<lambda>data.
     (let kind = py_lower (py_strip (row_get_str data ''kind'' ''planned_task'')) in
      ebind (if kind \<in> set project_kinds then
               ebind (execution_or_new env) (\<lambda>d.
               ebind (elift (prepare_asset d expected_execution data)) (\<lambda>(row, desired).
               ereturn (row, map_option (\<lambda>d'. (d, d')) desired)))
             else ereturn (data, None)) (\<lambda>(row, window).
      ebind (elift (item_from_mapping (PDict row))) (\<lambda>item.
      if ri_kind item = ''task'' \<and> \<not> linkable (ri_task_id item)
      then eraise (RoadmapNotFoundError (''active valid task not found: '' @ ri_task_id item))
      else
        ebind (elift (upsert_item_in (ce_now env) r item)) (\<lambda>updated.
        case window of
          Some (d, desired) \<Rightarrow> coordinate_and_get env r updated d desired (''upsert_'' @ kind)
        | None \<Rightarrow> save_and_get env r updated expected)))))))"

section \<open>Deleting and references\<close>

definition delete_stored :: "coordination_env \<Rightarrow> string \<Rightarrow> int \<Rightarrow> roadmap coordination" where
  "delete_stored env roadmap_id expected =
     ebind (access env) (\<lambda>_.
     ebind (eget (\<lambda>s. roadmap_delete roadmap_id expected (cf_roadmaps (co_files s)))) (\<lambda>result.
     ebind (elift result) (\<lambda>(removed, dir). ebind (emit (Put_roadmaps dir)) (\<lambda>_. ereturn removed))))"

definition delete_roadmap :: "coordination_env \<Rightarrow> string \<Rightarrow> int \<Rightarrow> bool \<Rightarrow> string coordination" where
  "delete_roadmap env roadmap_id expected acknowledged =
     (if \<not> acknowledged then eraise (RoadmapError ''deleting a roadmap requires explicit acknowledgement'')
      else ebind (reconcile_pending env) (\<lambda>_.
           ebind (delete_stored env roadmap_id expected) (\<lambda>removed. ereturn (rm_id removed))))"

definition task_references ::
    "coordination_env \<Rightarrow> string \<Rightarrow> (string \<times> string \<times> string) list coordination" where
  "task_references env task_id =
     ebind (elift (validate_task_reference_id (PStr task_id))) (\<lambda>safe_task_id.
     ebind (reconcile_pending env) (\<lambda>_.
     ebind (list_stored env) (\<lambda>rs.
     ereturn (List.concat (map (\<lambda>r. map (\<lambda>i. (rm_id r, rm_title r, ri_id i))
       (filter (\<lambda>i. ri_kind i = ''task'' \<and> ri_task_id i = safe_task_id) (rm_items r))) rs)))))"

end
