(* ===== verification/Road_Migration.thy ===== *)
theory Road_Migration
  imports Road_Service
begin

text \<open>
  \<open>roadmap/migration.py\<close>: the promotion of the Phases, Gates and Milestones that a Roadmap of schema 1
  holds itself to assets of the Project Execution definition. \<open>digest\<close> is the SHA-256 of a file that
  holds a document; the code takes it of the bytes, which the repositories write from the document.
  A marker file records the plan before the first write.
\<close>

section \<open>Plans\<close>

record migration_item =
  mg_item_id :: string
  mg_kind :: string
  mg_asset_id :: string
  mg_action :: string
  mg_note :: string

definition migration_item_as_mapping :: "migration_item \<Rightarrow> row" where
  "migration_item_as_mapping i = str_fields [(''item_id'', mg_item_id i), (''kind'', mg_kind i),
     (''project_asset_id'', mg_asset_id i), (''action'', mg_action i), (''note'', mg_note i)]"

definition migration_item_from_mapping :: "pyval \<Rightarrow> migration_item res" where
  "migration_item_from_mapping raw =
     (case as_dict raw of
        None \<Rightarrow> Inl (RoadmapError ''Roadmap migration item must be a mapping'')
      | Some d \<Rightarrow>
          rbind (validate_roadmap_id (row_get d ''item_id'' (PStr [])) ''migration item id'') (\<lambda>item_id.
          rbind (validate_roadmap_id (row_get d ''project_asset_id'' (PStr [])) ''migration project asset id'')
            (\<lambda>asset_id.
          Inr \<lparr>mg_item_id = item_id, mg_kind = py_lower (py_strip (row_get_str d ''kind'' [])), mg_asset_id = asset_id,
            mg_action = py_lower (py_strip (row_get_str d ''action'' ''create'')),
            mg_note = py_strip (row_get_str d ''note'' [])\<rparr>)))"

record migration_plan =
  mp_roadmap_id :: string
  mp_source_revision :: int
  mp_source_digest :: string
  mp_execution_revision :: int
  mp_items :: "migration_item list"
  mp_conflicts :: "string list"
  mp_resumed :: bool

definition can_apply :: "migration_plan \<Rightarrow> bool" where
  "can_apply p \<longleftrightarrow> mp_conflicts p = []"

definition migration_plan_as_mapping :: "migration_plan \<Rightarrow> row" where
  "migration_plan_as_mapping p =
     [(''roadmap_id'', PStr (mp_roadmap_id p)), (''source_revision'', PInt (mp_source_revision p)),
      (''source_digest'', PStr (mp_source_digest p)),
      (''project_execution_revision'', PInt (mp_execution_revision p)),
      (''items'', PList (map (\<lambda>i. PDict (migration_item_as_mapping i)) (mp_items p))),
      (''conflicts'', strs (mp_conflicts p)), (''can_apply'', PBool (can_apply p)),
      (''resumed'', PBool (mp_resumed p))]"

record prepared_migration =
  pr_roadmap_id :: string
  pr_source_revision :: int
  pr_source_digest :: string
  pr_items :: "migration_item list"

section \<open>Canonical identifiers\<close>

definition rstrip_separators :: "string \<Rightarrow> string" where
  "rstrip_separators s = rev (dropWhile (\<lambda>c. c = CHR ''-'' \<or> c = CHR ''_'') (rev s))"

definition namespaced_asset_id :: "(string \<Rightarrow> string) \<Rightarrow> string \<Rightarrow> string \<Rightarrow> string res" where
  "namespaced_asset_id sha roadmap_id item_id =
     (let raw = roadmap_id @ ''-'' @ item_id in
      if length raw \<le> 96 then validate_roadmap_id (PStr raw) ''migrated project asset id''
      else
        (let hash = take 12 (sha raw); prefix = rstrip_separators (take (96 - length hash - 1) raw) in
         validate_roadmap_id (PStr (prefix @ ''-'' @ hash)) ''migrated project asset id''))"

fun first_unused ::
    "string \<Rightarrow> string \<Rightarrow> string list \<Rightarrow> string \<Rightarrow> string \<Rightarrow> nat list \<Rightarrow> string res" where
  "first_unused hash candidate used roadmap_id item_id [] = Inl (RoadmapError
     (''cannot deterministically allocate canonical ID for '' @ roadmap_id @ ''/'' @ item_id))"
| "first_unused hash candidate used roadmap_id item_id (width # widths) =
     (let prefix = rstrip_separators (take (96 - width - 1) candidate) in
      rbind (validate_roadmap_id (PStr (prefix @ ''-'' @ take width hash)) ''migrated project asset id'') (\<lambda>resolved.
      if resolved \<notin> set used then Inr resolved
      else first_unused hash candidate used roadmap_id item_id widths))"

definition deduplicate_candidate ::
    "(string \<Rightarrow> string) \<Rightarrow> string \<Rightarrow> string \<Rightarrow> string \<Rightarrow> string list \<Rightarrow> string res" where
  "deduplicate_candidate sha candidate roadmap_id item_id used =
     (if candidate \<notin> set used then Inr candidate
      else first_unused (sha (roadmap_id @ CHR 0x00 # item_id)) candidate used roadmap_id item_id
        [8, 12, 16, 20, 24, 28, 32])"

definition existing_asset_ids :: "execution_definition option \<Rightarrow> string list" where
  "existing_asset_ids definition = (case definition of None \<Rightarrow> [] | Some d \<Rightarrow> asset_ids d)"

definition project_rows :: "roadmap list \<Rightarrow> (string \<times> string) list" where
  "project_rows rs = List.concat (map (\<lambda>r.
     map (\<lambda>i. (rm_id r, ri_id i)) (filter (\<lambda>i. ri_kind i \<in> set project_kinds) (rm_items r))) rs)"

definition sort_rows :: "(string \<times> string) list \<Rightarrow> (string \<times> string) list" where
  "sort_rows pairs = sort_key fst (sort_key snd pairs)"

fun allocate_rows ::
    "(string \<Rightarrow> string) \<Rightarrow> (string \<Rightarrow> bool) \<Rightarrow> string list \<Rightarrow> (string \<times> string) list
       \<Rightarrow> ((string \<times> string) \<times> string) list res" where
  "allocate_rows sha own used [] = Inr []"
| "allocate_rows sha own used ((roadmap_id, item_id) # pairs) =
     rbind (if own item_id then Inr item_id else namespaced_asset_id sha roadmap_id item_id) (\<lambda>candidate.
     rbind (deduplicate_candidate sha candidate roadmap_id item_id used) (\<lambda>resolved.
     rbind (allocate_rows sha own (resolved # used) pairs) (\<lambda>rest.
     Inr (((roadmap_id, item_id), resolved) # rest))))"

definition identity_allocation ::
    "(string \<Rightarrow> string) \<Rightarrow> execution_definition option \<Rightarrow> roadmap list \<Rightarrow> ((string \<times> string) \<times> string) list res" where
  "identity_allocation sha definition rs =
     (let existing = existing_asset_ids definition;
          all_ids = map snd (project_rows rs);
          legacy = sort_rows (project_rows (filter (\<lambda>r. rm_schema_version r = 1) rs))
      in allocate_rows sha (\<lambda>item_id. count_list all_ids item_id = 1 \<and> item_id \<notin> set existing) existing legacy)"

section \<open>The marker\<close>

definition marker_name :: "string \<Rightarrow> string res" where
  "marker_name roadmap_id = validate_roadmap_id (PStr roadmap_id) ''roadmap id''"

definition parse_prepared :: "pyval \<Rightarrow> prepared_migration option res" where
  "parse_prepared raw =
     (case as_dict raw of
        None \<Rightarrow> Inl (RoadmapError ''Roadmap migration marker must contain a mapping'')
      | Some d \<Rightarrow>
          rbind (py_int (row_get d ''schema_version'' (PInt 0))) (\<lambda>schema.
          if schema \<noteq> 1 then Inl (RoadmapError ''unsupported Roadmap migration marker schema'')
          else if row_get d ''status'' PNone \<noteq> PStr ''prepared'' then Inr None
          else
            rbind (row_list d ''items'' ''Roadmap migration marker items'') (\<lambda>raws.
            rbind (validate_roadmap_id (row_get d ''roadmap_id'' (PStr [])) ''roadmap id'') (\<lambda>roadmap_id.
            rbind (py_int (row_get d ''source_revision'' (PInt 0))) (\<lambda>revision.
            rbind (mapr migration_item_from_mapping raws) (\<lambda>items.
            Inr (Some \<lparr>pr_roadmap_id = roadmap_id, pr_source_revision = revision,
              pr_source_digest = row_get_str d ''source_digest'' [], pr_items = items\<rparr>)))))))"

definition marker_row :: "string \<Rightarrow> migration_plan \<Rightarrow> row \<Rightarrow> row" where
  "marker_row status p target =
     [(''schema_version'', PInt 1), (''status'', PStr status), (''roadmap_id'', PStr (mp_roadmap_id p)),
      (''source_revision'', PInt (mp_source_revision p)), (''source_digest'', PStr (mp_source_digest p))]
     @ target @ [(''items'', PList (map (\<lambda>i. PDict (migration_item_as_mapping i)) (mp_items p)))]"

definition load_prepared :: "string \<Rightarrow> prepared_migration option coordination" where
  "load_prepared roadmap_id =
     ebind (elift (marker_name roadmap_id)) (\<lambda>name.
     ebind (eget (\<lambda>s. map_of (cf_markers (co_files s)) name)) (\<lambda>marker.
     case marker of None \<Rightarrow> ereturn None | Some raw \<Rightarrow> elift (parse_prepared raw)))"

definition write_marker :: "string \<Rightarrow> row \<Rightarrow> unit coordination" where
  "write_marker roadmap_id row =
     ebind (elift (marker_name roadmap_id)) (\<lambda>name. emit (Put_marker name (PDict row)))"

definition write_prepared :: "migration_plan \<Rightarrow> unit coordination" where
  "write_prepared p = write_marker (mp_roadmap_id p) (marker_row ''prepared'' p [])"

definition write_complete :: "migration_plan \<Rightarrow> roadmap \<Rightarrow> unit coordination" where
  "write_complete p saved =
     write_marker (mp_roadmap_id p) (marker_row ''complete'' p [(''target_revision'', PInt (rm_revision saved))])"

section \<open>Previews\<close>

definition roadmap_sha256 :: "coordination_env \<Rightarrow> (pyval \<Rightarrow> string) \<Rightarrow> string \<Rightarrow> string coordination" where
  "roadmap_sha256 env digest roadmap_id =
     ebind (elift (roadmap_stem roadmap_id)) (\<lambda>stem.
     ebind (access env) (\<lambda>_.
     eget (\<lambda>s. case map_of (cf_roadmaps (co_files s)) stem of None \<Rightarrow> [] | Some raw \<Rightarrow> digest raw)))"

definition load_execution_optional :: "coordination_env \<Rightarrow> execution_definition option coordination" where
  "load_execution_optional env =
     ebind (access env) (\<lambda>_.
     ebind (eget (\<lambda>s. repository_load_optional (ce_path env) (cf_definition (co_files s)))) elift)"

definition prepared_conflicts :: "roadmap \<Rightarrow> string \<Rightarrow> prepared_migration \<Rightarrow> string list" where
  "prepared_conflicts r current p =
     (if pr_roadmap_id p \<noteq> rm_id r then [''migration marker belongs to a different Roadmap''] else [])
     @ (if pr_source_revision p \<noteq> rm_revision r
        then [''Roadmap revision changed after migration was prepared (''
              @ py_str_int (pr_source_revision p) @ '' -> '' @ py_str_int (rm_revision r) @ '')''] else [])
     @ (if pr_source_digest p \<noteq> current then [''Roadmap content changed after migration was prepared''] else [])
     @ (if set (map (\<lambda>i. (ri_id i, ri_kind i)) (filter (\<lambda>i. ri_kind i \<in> set project_kinds) (rm_items r)))
           \<noteq> set (map (\<lambda>i. (mg_item_id i, mg_kind i)) (pr_items p))
        then [''Roadmap project assets no longer match the migration marker''] else [])"

definition promotion_note :: "string \<Rightarrow> string" where
  "promotion_note kind = (if kind = ''gate''
     then ''legacy planning Gate promoted to a human-approval Gate so ''
          @ ''migration cannot silently authorize execution'' else [])"

text \<open>The items to create and the conflicts, of the items that stand for assets.\<close>

fun plan_items ::
    "string \<Rightarrow> ((string \<times> string) \<times> string) list \<Rightarrow> road_item list \<Rightarrow> migration_item list \<times> string list" where
  "plan_items roadmap_id allocation [] = ([], [])"
| "plan_items roadmap_id allocation (i # items) =
     (case plan_items roadmap_id allocation items of (planned, conflicts) \<Rightarrow>
        if ri_kind i \<notin> set project_kinds then (planned, conflicts)
        else case map_of allocation (roadmap_id, ri_id i) of
            None \<Rightarrow> (planned, (''cannot allocate canonical ID for '' @ ri_kind i @ '' '' @ ri_id i) # conflicts)
          | Some asset_id \<Rightarrow>
              (\<lparr>mg_item_id = ri_id i, mg_kind = ri_kind i, mg_asset_id = asset_id, mg_action = ''create'',
                 mg_note = promotion_note (ri_kind i)\<rparr> # planned, conflicts))"

definition plan_for ::
    "roadmap \<Rightarrow> execution_definition option \<Rightarrow> int \<Rightarrow> string \<Rightarrow> migration_item list \<Rightarrow> string list \<Rightarrow> bool
       \<Rightarrow> migration_plan" where
  "plan_for r definition source hash items conflicts resumed =
     \<lparr>mp_roadmap_id = rm_id r, mp_source_revision = source, mp_source_digest = hash,
      mp_execution_revision = (case definition of None \<Rightarrow> 0 | Some d \<Rightarrow> pd_revision d),
      mp_items = items, mp_conflicts = conflicts, mp_resumed = resumed\<rparr>"

definition preview_prepared ::
    "coordination_env \<Rightarrow> (pyval \<Rightarrow> string) \<Rightarrow> roadmap \<Rightarrow> execution_definition option \<Rightarrow> prepared_migration
       \<Rightarrow> migration_plan coordination" where
  "preview_prepared env digest r definition p =
     ebind (roadmap_sha256 env digest (rm_id r)) (\<lambda>h.
     ereturn (plan_for r definition (pr_source_revision p) (pr_source_digest p) (pr_items p)
       (prepared_conflicts r h p) True))"

definition preview_fresh ::
    "coordination_env \<Rightarrow> (pyval \<Rightarrow> string) \<Rightarrow> roadmap \<Rightarrow> execution_definition option \<Rightarrow> migration_plan coordination" where
  "preview_fresh env digest r definition =
     ebind (list_stored env) (\<lambda>rs.
     ebind (elift (identity_allocation (ce_sha env) definition rs)) (\<lambda>allocation.
     (case plan_items (rm_id r) allocation (rm_items r) of (items, conflicts) \<Rightarrow>
       ebind (roadmap_sha256 env digest (rm_id r)) (\<lambda>h.
       ereturn (plan_for r definition (rm_revision r) h items conflicts False)))))"

definition preview_migration :: "coordination_env \<Rightarrow> (pyval \<Rightarrow> string) \<Rightarrow> string \<Rightarrow> migration_plan coordination" where
  "preview_migration env digest roadmap_id =
     ebind (load_roadmap env roadmap_id) (\<lambda>r.
     ebind (load_execution_optional env) (\<lambda>definition.
     if rm_schema_version r = 2
     then ebind (roadmap_sha256 env digest (rm_id r)) (\<lambda>h.
          ereturn (plan_for r definition (rm_revision r) h [] [] False))
     else
       ebind (load_prepared (rm_id r)) (\<lambda>prepared. case prepared of
           Some p \<Rightarrow> preview_prepared env digest r definition p
         | None \<Rightarrow> preview_fresh env digest r definition)))"

section \<open>Applying a plan\<close>

definition v1_asset :: "road_item \<Rightarrow> string \<Rightarrow> project_asset res" where
  "v1_asset i asset_id =
     rbind (schedule_init (PStr (rs_start (ri_schedule i))) (PStr (rs_target (ri_schedule i)))) (\<lambda>sched.
     if ri_kind i = ''phase'' then
       rbind (phase_init (PStr asset_id) (PStr (ri_title i)) (PStr (ri_description i)) sched [] [] [] [])
         (\<lambda>p. Inr (Asset_phase p))
     else if ri_kind i = ''gate'' then
       rbind (criterion_init (PStr ''human_approval'') (PStr []) (PStr []) (PStr []) (PStr [])) (\<lambda>c.
       rbind (gate_init (PStr asset_id) (PStr (ri_title i)) (PStr (ri_description i)) sched [c])
         (\<lambda>g. Inr (Asset_gate g)))
     else if ri_kind i = ''milestone'' then
       rbind (milestone_requirements_init [] [] []) (\<lambda>requires.
       rbind (milestone_init (PStr asset_id) (PStr (ri_title i)) (PStr (ri_description i))
         (PStr (sched_start sched)) (PStr (sched_target sched)) requires (PStr ''none''))
         (\<lambda>m. Inr (Asset_milestone m)))
     else Inl (RoadmapError (''unsupported migration item kind: '' @ ri_kind i)))"

definition asset_by_id :: "execution_definition \<Rightarrow> string \<Rightarrow> project_asset option" where
  "asset_by_id d asset_id =
     (case map_of (phase_index d) asset_id of Some p \<Rightarrow> Some (Asset_phase p)
      | None \<Rightarrow> (case map_of (gate_index d) asset_id of Some g \<Rightarrow> Some (Asset_gate g)
          | None \<Rightarrow> map_option Asset_milestone (map_of (milestone_index d) asset_id)))"

text \<open>\<open>upsert_phase\<close>, \<open>upsert_gate\<close> and \<open>upsert_milestone\<close> of the definition's service.\<close>

definition upsert_asset :: "coordination_env \<Rightarrow> project_asset \<Rightarrow> int \<Rightarrow> execution_definition coordination" where
  "upsert_asset env asset expected =
     ebind (load_execution env) (\<lambda>d.
     ebind (elift (definition_with_asset d asset)) (\<lambda>d'. save_execution env d' expected))"

definition ensure_asset :: "coordination_env \<Rightarrow> road_item \<Rightarrow> string \<Rightarrow> unit coordination" where
  "ensure_asset env i asset_id =
     ebind (elift (v1_asset i asset_id)) (\<lambda>desired.
     ebind (load_execution env) (\<lambda>current. case asset_by_id current asset_id of
         Some existing \<Rightarrow>
           if existing \<noteq> desired
           then eraise (RoadmapError (''prepared Roadmap migration conflicts with existing canonical ''
             @ ri_kind i @ '' '' @ asset_id))
           else ereturn ()
       | None \<Rightarrow> ebind (upsert_asset env desired (pd_revision current)) (\<lambda>_. ereturn ())))"

definition plan_index :: "migration_item list \<Rightarrow> migration_item pydict" where
  "plan_index items = py_dict (map (\<lambda>i. (mg_item_id i, i)) items)"

fun ensure_assets :: "coordination_env \<Rightarrow> migration_item pydict \<Rightarrow> road_item list \<Rightarrow> unit coordination" where
  "ensure_assets env plans [] = ereturn ()"
| "ensure_assets env plans (i # items) =
     ebind (case map_of plans (ri_id i) of None \<Rightarrow> ereturn () | Some plan \<Rightarrow> ensure_asset env i (mg_asset_id plan))
       (\<lambda>_. ensure_assets env plans items)"

definition migrated_item :: "migration_item pydict \<Rightarrow> road_item \<Rightarrow> road_item res" where
  "migrated_item plans i = (case map_of plans (ri_id i) of
      None \<Rightarrow> Inr i
    | Some plan \<Rightarrow> item_init (PStr (ri_id i)) (PStr (ri_kind i)) (PStr []) (PStr []) (PStr [])
        (PStr (mg_asset_id plan)) (PStr (ri_lane i)) (PInt (ri_order i)) unscheduled)"

definition migrated_roadmap :: "migration_item pydict \<Rightarrow> roadmap \<Rightarrow> roadmap res" where
  "migrated_roadmap plans r =
     rbind (mapr (migrated_item plans) (rm_items r)) (\<lambda>items.
     replace_roadmap (r\<lparr>rm_schema_version := 2, rm_items := items\<rparr>))"

text \<open>What follows the marker: the definition, its assets, the Roadmap, and the marker again.\<close>

definition ensure_execution :: "coordination_env \<Rightarrow> unit coordination" where
  "ensure_execution env =
     ebind (load_execution_optional env) (\<lambda>definition.
     if definition \<noteq> None then ereturn ()
     else
       ebind (elift (definition_init 1 (PStr (ce_project env)) (PInt 1) (PStr (mode_value Mode_ASSISTED))
         default_policy [] [] [] [])) (\<lambda>empty.
       ebind (create_execution env empty) (\<lambda>_. ereturn ())))"

definition promote_items :: "coordination_env \<Rightarrow> roadmap \<Rightarrow> migration_plan \<Rightarrow> int \<Rightarrow> roadmap coordination" where
  "promote_items env r p expected =
     ebind (ensure_execution env) (\<lambda>_.
     ebind (ensure_assets env (plan_index (mp_items p)) (rm_items r)) (\<lambda>_.
     ebind (elift (migrated_roadmap (plan_index (mp_items p)) r)) (\<lambda>migrated.
     ebind (save_roadmap env migrated expected) (\<lambda>saved.
     ebind (write_complete p saved) (\<lambda>_. ereturn saved)))))"

definition apply_plan :: "coordination_env \<Rightarrow> roadmap \<Rightarrow> migration_plan \<Rightarrow> int \<Rightarrow> roadmap coordination" where
  "apply_plan env r p expected =
     ebind (ewhen (\<not> mp_resumed p) (write_prepared p)) (\<lambda>_. promote_items env r p expected)"

definition apply_migration ::
    "coordination_env \<Rightarrow> (pyval \<Rightarrow> string) \<Rightarrow> string \<Rightarrow> int \<Rightarrow> roadmap coordination" where
  "apply_migration env digest roadmap_id expected =
     ebind (load_roadmap env roadmap_id) (\<lambda>r.
     if rm_schema_version r = 2 then ereturn r
     else if rm_revision r \<noteq> expected
     then eraise (RoadmapConflictError (''roadmap revision conflict: expected '' @ py_str_int expected
       @ '', current '' @ py_str_int (rm_revision r) @ ''; refresh before migrating''))
     else
       ebind (preview_migration env digest roadmap_id) (\<lambda>p.
       if mp_conflicts p \<noteq> []
       then eraise (RoadmapError (''Roadmap migration has conflicts: '' @ py_join ''; '' (mp_conflicts p)))
       else if mp_source_revision p \<noteq> expected
       then eraise (RoadmapConflictError ''prepared Roadmap migration targets a different source revision'')
       else apply_plan env r p expected))"

section \<open>The two handlers\<close>

definition migration_preview :: "coordination_env \<Rightarrow> (pyval \<Rightarrow> string) \<Rightarrow> string \<Rightarrow> row coordination" where
  "migration_preview env digest roadmap_id =
     ebind (assert_coordination_clear env) (\<lambda>_.
     ebind (preview_migration env digest roadmap_id) (\<lambda>p. ereturn (migration_plan_as_mapping p)))"

definition migrate_v1 :: "coordination_env \<Rightarrow> (pyval \<Rightarrow> string) \<Rightarrow> string \<Rightarrow> int \<Rightarrow> roadmap_view coordination" where
  "migrate_v1 env digest roadmap_id expected =
     ebind (assert_coordination_clear env) (\<lambda>_.
     ebind (apply_migration env digest roadmap_id expected) (\<lambda>_. get_roadmap env roadmap_id))"

end
