(* ===== verification/Road_Sound.thy ===== *)
theory Road_Sound
  imports Road_Service Road_Moves Road_Recovery
begin

text \<open>
  Whatever the service is asked and wherever a process dies, the files stay readable: every edit of a
  valid Roadmap is a valid Roadmap, and every durable write is of a document its reader accepts.
\<close>

section \<open>Edits of valid Roadmaps\<close>

lemma replace_roadmap_ok:
  "replace_roadmap x = Inr r \<Longrightarrow> list_all item_ok (rm_items x) \<Longrightarrow> list_all relation_ok (rm_relations x) \<Longrightarrow> roadmap_ok r"
  unfolding replace_roadmap_def by (rule roadmap_init_ok)

lemma roadmap_ok_lists: "roadmap_ok r \<Longrightarrow> list_all item_ok (rm_items r)" "roadmap_ok r \<Longrightarrow> list_all relation_ok (rm_relations r)"
  by (simp_all add: roadmap_ok_def)

lemma with_metadata_ok: "with_metadata now r t d = Inr r' \<Longrightarrow> roadmap_ok r \<Longrightarrow> roadmap_ok r'"
  unfolding with_metadata_def by (erule replace_roadmap_ok) (simp_all add: roadmap_ok_def)

lemma with_relations_ok:
  "with_relations now r rels = Inr r' \<Longrightarrow> roadmap_ok r \<Longrightarrow> list_all relation_ok rels \<Longrightarrow> roadmap_ok r'"
  unfolding with_relations_def by (erule replace_roadmap_ok) (simp_all add: roadmap_ok_def)

lemma list_all_subset: "list_all P ys \<Longrightarrow> set xs \<subseteq> set ys \<Longrightarrow> list_all P xs"
  by (auto simp: list_all_iff)

lemma set_upsert: "set (upsert key xs x) \<subseteq> insert x (set xs)"
  by (induction xs) auto

lemma set_insert_at: "set (insert_at n x xs) \<subseteq> insert x (set xs)"
  by (auto simp: insert_at_def dest: in_set_takeD in_set_dropD)

lemma list_all_insert:
  "list_all P xs \<Longrightarrow> P x \<Longrightarrow> set ys \<subseteq> insert x (set xs) \<Longrightarrow> list_all P ys"
  by (auto simp: list_all_iff)

lemma place_item_ok:
  assumes "place_item now r others n moved = Inr r'" and "roadmap_ok r" and "item_ok moved" and "list_all item_ok others"
  shows "roadmap_ok r'"
proof -
  from assms(1) obtain items where items: "renumber (insert_at n moved others) = Inr items" and r': "with_items now r items = Inr r'"
    by (auto simp: place_item_def)
  have "list_all item_ok (insert_at n moved others)" by (rule list_all_insert [OF assms(4,3) set_insert_at])
  from with_items_ok [OF r' assms(2) renumbered(2) [OF items this]] show ?thesis .
qed

lemma move_lane_ok: "move_lane_in now r lane target placement = Inr (Some r') \<Longrightarrow> roadmap_ok r \<Longrightarrow> roadmap_ok r'"
proof -
  assume run: "move_lane_in now r lane target placement = Inr (Some r')" and ok: "roadmap_ok r"
  from run obtain order items where
    items: "renumber (List.concat (map (\<lambda>l. filter (\<lambda>i. ri_lane i = l) (order_items (rm_items r))) order)) = Inr items"
    and r': "with_items now r items = Inr r'"
    by (auto simp: move_lane_in_def Let_def split: if_splits)
  have "list_all item_ok (List.concat (map (\<lambda>l. filter (\<lambda>i. ri_lane i = l) (order_items (rm_items r))) order))"
    by (rule list_all_subset [OF roadmap_ok_lists(1) [OF ok]]) auto
  from with_items_ok [OF r' ok renumbered(2) [OF items this]] show ?thesis .
qed

lemma upsert_item_ok: "upsert_item_in now r item = Inr r' \<Longrightarrow> roadmap_ok r \<Longrightarrow> item_ok item \<Longrightarrow> roadmap_ok r'"
proof -
  assume run: "upsert_item_in now r item = Inr r'" and ok: "roadmap_ok r" and item: "item_ok item"
  have replaced: "item_ok j" if "replace_item (item\<lparr>ri_order := n\<rparr>) = Inr j" for n j
  proof -
    have "item\<lparr>ri_order := n\<rparr> = item\<lparr>ri_lane := ri_lane item, ri_order := n, ri_schedule := ri_schedule item\<rparr>" by simp
    then show ?thesis using that item replace_item_ok [OF item, where s = "ri_schedule item" and l = "ri_lane item" and n = n and j = j] by (simp add: item_ok_def)
  qed
  from run obtain item' where "item_ok item'" and r': "with_items now r (upsert ri_id (rm_items r) item') = Inr r'"
    using item replaced by (auto simp: upsert_item_in_def split: if_splits)
  then show ?thesis
    by (intro with_items_ok [OF r' ok] list_all_insert [OF roadmap_ok_lists(1) [OF ok] _ set_upsert])
qed

lemma delete_item_ok: "delete_item_in now r item_id = Inr r' \<Longrightarrow> roadmap_ok r \<Longrightarrow> roadmap_ok r'"
proof -
  assume run: "delete_item_in now r item_id = Inr r'" and ok: "roadmap_ok r"
  then obtain k where "replace_roadmap (r\<lparr>rm_items := filter (\<lambda>i. ri_id i \<noteq> k) (rm_items r),
      rm_relations := filter (\<lambda>x. rr_source x \<noteq> k \<and> rr_target x \<noteq> k) (rm_relations r), rm_updated_at := now\<rparr>) = Inr r'"
    by (auto simp: delete_item_in_def split: if_splits)
  from replace_roadmap_ok [OF this] show ?thesis using roadmap_ok_lists [OF ok] by (simp add: list_all_iff)
qed

lemma linked_ok:
  assumes "roadmap_ok r"
  shows "link_new now r t fresh lane start target order = Inr r' \<Longrightarrow> roadmap_ok r'"
    and "item_ok current \<Longrightarrow> link_planned now r t current lane start target order = Inr r' \<Longrightarrow> roadmap_ok r'"
proof -
  have place: "roadmap_ok r'" if "item_ok linked" "with_items now r items = Inr r'" "set items \<subseteq> insert linked (set (rm_items r))"
    for linked items
    using with_items_ok [OF that(2) assms list_all_insert [OF roadmap_ok_lists(1) [OF assms] that(1,3)]] .
  assume "link_new now r t fresh lane start target order = Inr r'"
  then obtain schedule linked a b c d e f g h where "road_schedule_init (PStr start) (PStr target) = Inr schedule"
    "item_init a b c d e f g h schedule = Inr linked" "with_items now r (rm_items r @ [linked]) = Inr r'"
    unfolding link_new_def rbind_Inr_iff by blast
  then show "roadmap_ok r'" using place [of linked "rm_items r @ [linked]"] item_init_ok road_schedule_init_ok by simp
next
  have place: "roadmap_ok r'" if "item_ok linked" "with_items now r (upsert ri_id (rm_items r) linked) = Inr r'" for linked
    using with_items_ok [OF that(2) assms list_all_insert [OF roadmap_ok_lists(1) [OF assms] that(1) set_upsert]] .
  assume current: "item_ok current" and "link_planned now r t current lane start target order = Inr r'"
  then obtain schedule linked a b c d e f g h where
    s: "(if start \<noteq> [] \<or> target \<noteq> [] then road_schedule_init (PStr start) (PStr target) else Inr (ri_schedule current)) = Inr schedule"
    and l: "item_init a b c d e f g h schedule = Inr linked" "with_items now r (upsert ri_id (rm_items r) linked) = Inr r'"
    unfolding link_planned_def rbind_Inr_iff by blast
  from s current have "road_schedule_ok schedule" by (auto simp: item_ok_def split: if_splits intro: road_schedule_init_ok)
  from place [OF item_init_ok [OF l(1) this] l(2)] show "roadmap_ok r'" .
qed

lemma link_task_ok: "link_task_in now r t fresh i lane start target order = Inr r' \<Longrightarrow> roadmap_ok r \<Longrightarrow> roadmap_ok r'"
proof -
  assume run: "link_task_in now r t fresh i lane start target order = Inr r'" and ok: "roadmap_ok r"
  have items: "item_ok current" if "find P (rm_items r) = Some current" for P current
    using that roadmap_ok_lists(1) [OF ok] by (auto simp: find_Some_iff list_all_iff)
  from run show ?thesis
    unfolding link_task_in_def
    by (auto split: if_split_asm option.split_asm intro: linked_ok(1) [OF ok] linked_ok(2) [OF ok items])
qed

lemma relations_ok:
  assumes "roadmap_ok r"
  shows "upsert_relation_in now r s t k = Inr r' \<Longrightarrow> roadmap_ok r'"
    and "delete_relation_in now r s t k = Inr r' \<Longrightarrow> roadmap_ok r'"
proof -
  note ok = roadmap_ok_lists(2) [OF assms]
  assume "upsert_relation_in now r s t k = Inr r'"
  then obtain x rels where x: "relation_init (PStr s) (PStr t) (PStr k) = Inr x"
    and r': "with_relations now r rels = Inr r'" and rels: "rels = rm_relations r \<or> rels = rm_relations r @ [x]"
    by (auto simp: upsert_relation_in_def split: if_splits)
  have "list_all relation_ok rels" using rels ok relation_init_ok [OF x] by auto
  then show "roadmap_ok r'" by (rule with_relations_ok [OF r' assms])
next
  note ok = roadmap_ok_lists(2) [OF assms]
  assume "delete_relation_in now r s t k = Inr r'"
  then obtain P where "with_relations now r (filter P (rm_relations r)) = Inr r'"
    by (auto simp: delete_relation_in_def Let_def split: if_splits)
  then show "roadmap_ok r'" by (rule with_relations_ok [OF _ assms]) (use ok in \<open>simp add: list_all_iff\<close>)
qed

end
