(* ===== verification/Road_Handlers.thy ===== *)
theory Road_Handlers
  imports Road_Sound Road_Resolution
begin

text \<open>
  The handler that moves a Phase, Gate or Milestone and gives it a new window, as a whole: what it
  loads, the edit it derives, the coordinated write of both documents and the answer it reads back.
  Undisturbed and with nothing pending it answers with the documents it has stored, and wherever it dies
  the files are as before or ones that recovery finishes the move from.
\<close>

section \<open>A new window is an edit of the definition\<close>

lemma definition_init_project:
  "definition_init s p r m pol ph ts gs ms = Inr d \<Longrightarrow> validate_project_id p = Inr (pd_project d)"
  by (auto simp: definition_init_def Let_def split: if_splits sum.splits option.splits)

lemma definition_with_asset_ok:
  assumes "definition_with_asset d asset = Inr d'" and "definition_ok d"
    and "case asset of Asset_phase p \<Rightarrow> phase_ok p | Asset_gate g \<Rightarrow> gate_ok g | Asset_milestone m \<Rightarrow> milestone_ok m"
  shows "definition_ok d'" and "definition_wf d' None" and "pd_project d' = pd_project d"
proof -
  from assms(1) obtain x where x: "replace_definition x = Inr d'" and v: "validate_definition d' None = Inr ()"
    and x_def: "x = (case asset of
         Asset_phase p \<Rightarrow> d\<lparr>pd_phases := upsert ph_id (pd_phases d) p\<rparr>
       | Asset_gate g \<Rightarrow> d\<lparr>pd_gates := upsert pg_id (pd_gates d) g\<rparr>
       | Asset_milestone m \<Rightarrow> d\<lparr>pd_milestones := upsert pm_id (pd_milestones d) m\<rparr>)"
    by (auto simp: definition_with_asset_def)
  have parts: "policy_ok (pd_policy d)" "list_all phase_ok (pd_phases d)" "list_all task_ok (pd_tasks d)"
    "list_all gate_ok (pd_gates d)" "list_all milestone_ok (pd_milestones d)"
    using assms(2) by (simp_all add: definition_ok_def)
  have "policy_ok (pd_policy x)" "list_all phase_ok (pd_phases x)" "list_all task_ok (pd_tasks x)"
    "list_all gate_ok (pd_gates x)" "list_all milestone_ok (pd_milestones x)"
    using parts assms(3) by (auto simp: x_def split: project_asset.splits intro: list_all_insert [OF _ _ set_upsert])
  from definition_init_ok [OF x [unfolded replace_definition_def] this] show ok: "definition_ok d'" .
  from v show "definition_wf d' None"
    using validate_definition_decides definition_ok_unique_ids [OF ok] by blast
  have "pd_project x = pd_project d" by (simp add: x_def split: project_asset.split)
  then show "pd_project d' = pd_project d"
    using definition_init_project [OF x [unfolded replace_definition_def]] assms(2)
      definition_init_project [of "pd_schema_version d" "PStr (pd_project d)"] by (auto simp: definition_ok_def)
qed

lemma index_ok:
  assumes "definition_ok d"
  shows "map_of (phase_index d) k = Some p \<Longrightarrow> phase_ok p" "map_of (gate_index d) k = Some g \<Longrightarrow> gate_ok g"
    "map_of (milestone_index d) k = Some m \<Longrightarrow> milestone_ok m"
  using assms definition_ok_unique [OF assms]
  by (auto simp: phase_index_def gate_index_def milestone_index_def definition_ok_def list_all_iff py_dict_distinct comp_def
      dest!: map_of_SomeD)

lemma replaced_phase_ok: "replace_phase (p\<lparr>ph_schedule := s\<rparr>) = Inr p' \<Longrightarrow> schedule_ok s \<Longrightarrow> phase_ok p'"
  unfolding replace_phase_def by (erule phase_init_ok) simp

lemma replaced_milestone_ok: "replace_milestone (m\<lparr>pm_start := a, pm_target := b\<rparr>) = Inr m' \<Longrightarrow> milestone_ok m \<Longrightarrow> milestone_ok m'"
  unfolding replace_milestone_def by (erule milestone_init_ok) (simp add: milestone_ok_def)

lemma definition_with_schedule_ok:
  assumes "definition_with_schedule d kind k start target = Inr d'" and "definition_ok d"
  shows "definition_ok d'" and "definition_wf d' None" and "pd_project d' = pd_project d"
proof -
  have gate: "list_all criterion_ok (pg_criteria g)" if "gate_ok g" for g using that by (simp add: gate_ok_def)
  from assms(1) obtain asset where asset: "definition_with_asset d asset = Inr d'"
    and "case asset of Asset_phase p \<Rightarrow> phase_ok p | Asset_gate g \<Rightarrow> gate_ok g | Asset_milestone m \<Rightarrow> milestone_ok m"
    using index_ok [OF assms(2)] replaced_phase_ok replaced_milestone_ok gate_init_ok gate
    by (auto simp: definition_with_schedule_def key_lookup_def split: if_splits option.splits dest!: schedule_init_ok)
  from definition_with_asset_ok [OF asset assms(2) this(2)]
  show "definition_ok d'" and "definition_wf d' None" and "pd_project d' = pd_project d" by blast+
qed

section \<open>With nothing pending\<close>

lemma no_pending: "cf_pending f = None \<Longrightarrow> load_pending (cf_pending f) = Inr None"
  by (simp add: load_pending_def)

lemma reconcile_if_safe_idle:
  "load_pending (cf_pending (co_files s)) = Inr None \<Longrightarrow> reconcile_if_safe env s = (Inr (nothing_pending (ce_project env)), s)"
  by (simp add: reconcile_if_safe_def coordination_status_of_def read_pending_def nothing_pending_def ebind_def)

lemma idle_triple:
  assumes "cf_pending f = None"
  shows "triple (early P f) (reconcile_if_safe env) (\<lambda>st s. st = nothing_pending (ce_project env) \<and> early P f s) E"
    and "triple (stands P f0 f) (reconcile_if_safe env) (\<lambda>st s. st = nothing_pending (ce_project env) \<and> stands P f0 f s) E"
  using reconcile_if_safe_idle no_pending [OF assms]
  by (auto simp: triple_def early_def stands_def)

lemma load_for_edit_idle:
  assumes "quiet_others env" and "cf_pending f = None" and "roadmap_load k (cf_roadmaps f) = Inr r"
  shows "triple (early P f) (load_for_edit env k) (\<lambda>x s. x = r \<and> early P f s) (\<lambda>_. False)"
proof -
  have clear: "triple (early P f) (assert_coordination_clear env) (\<lambda>_. early P f) (\<lambda>_. False)"
    unfolding assert_coordination_clear_def
    by (rule triple_bind [OF idle_triple(1) [OF assms(2)]], rule triple_conj_pre) (simp add: nothing_pending_def triple_pure)
  show ?thesis
    unfolding load_for_edit_def by (rule triple_bind [OF clear early_load_triples(1) [OF assms(1,3)]])
qed

lemma get_roadmap_idle:
  assumes "quiet_others env" and "cf_pending f = None" and "roadmap_load k (cf_roadmaps f) = Inr r"
  shows "triple (stands P f0 f) (get_roadmap env k) (\<lambda>x s. x = (r, nothing_pending (ce_project env)) \<and> stands P f0 f s) (\<lambda>_. False)"
  unfolding get_roadmap_def
  by (rule triple_bind [OF idle_triple(2) [OF assms(2)]], rule triple_conj_pre, rule triple_bind [OF load_roadmap_triple [OF assms(1,3)]],
      rule triple_conj_pre) (simp add: triple_pure)

section \<open>The move of a canonical asset\<close>

text \<open>What the handler derives: the moved Roadmap \<open>r\<close> and the definition \<open>d\<close> with the new window.\<close>

definition asset_move ::
    "string \<Rightarrow> roadmap \<Rightarrow> execution_definition \<Rightarrow> string \<Rightarrow> string \<Rightarrow> string \<Rightarrow> string \<Rightarrow> string \<Rightarrow> string
       \<Rightarrow> roadmap \<Rightarrow> execution_definition \<Rightarrow> string \<Rightarrow> bool" where
  "asset_move now r0 d0 item lane start target target_id placement r d kind \<longleftrightarrow>
     (case plan_move r0 item lane target_id placement of
        Inl e \<Rightarrow> False
      | Inr (moving, others, lane', n) \<Rightarrow> ri_kind moving = kind \<and> kind \<in> set project_kinds \<and> (start \<noteq> [] \<or> target \<noteq> [])
          \<and> definition_with_schedule d0 kind (ri_asset_id moving) start target = Inr d)
     \<and> move_item_in now r0 item lane start target target_id placement = Inr r"

lemma move_operation: "kind \<in> set project_kinds \<Longrightarrow> py_strip (''move_'' @ kind) \<noteq> []"
proof -
  have "list_all (\<lambda>k. py_strip (''move_'' @ k) \<noteq> []) project_kinds" by code_simp
  then show "kind \<in> set project_kinds \<Longrightarrow> py_strip (''move_'' @ kind) \<noteq> []" by (auto simp: list_all_iff)
qed

lemma asset_move_edit:
  assumes "asset_move (ce_now env) r0 d0 item lane start target target_id placement r d kind"
    and "cf_pending f = None" and "roadmap_load k (cf_roadmaps f) = Inr r0"
    and "repository_load (ce_path env) (cf_definition f) = Inr d0"
    and "validate_project_id (PStr (ce_project env)) = Inr p" and "py_strip (ce_uuid env 0) \<noteq> []"
  shows "edit_ready env f r0 r d0 d (''move_'' @ kind)"
proof -
  note r0 = roadmap_load_facts [OF assms(3)] and d0 = repository_load_facts [OF assms(4)]
  from assms(1) have run: "move_item_in (ce_now env) r0 item lane start target target_id placement = Inr r"
    and kind: "kind \<in> set project_kinds" and d: "\<exists>a. definition_with_schedule d0 kind a start target = Inr d"
    by (auto simp: asset_move_def split: sum.splits prod.splits)
  obtain r_eq: "r = r0\<lparr>rm_items := rm_items r, rm_updated_at := ce_now env\<rparr>" and rok: "roadmap_ok r"
    by (rule move_item_facts [OF r0(1) run])
  have "rm_id r = rm_id r0" by (subst r_eq) simp
  moreover obtain a where "definition_with_schedule d0 kind a start target = Inr d" using d by blast
  ultimately show ?thesis
    using assms r0(4) rok definition_with_schedule_ok [OF _ d0(1)] move_operation [OF kind] by (auto simp: edit_ready_def)
qed

lemma move_item_triple:
  fixes f :: coordination_files
  assumes quiet: "quiet_others env"
    and move: "asset_move (ce_now env) r0 d0 item lane start target target_id placement r d kind"
    and f: "cf_pending f = None" "roadmap_load k (cf_roadmaps f) = Inr r0" "repository_load (ce_path env) (cf_definition f) = Inr d0"
    and expected: "m = 0 \<or> m = pd_revision d0"
    and run: "triple (early P f) (coordinate_and_get env r0 r d0 d (''move_'' @ kind)) Q (\<lambda>_. False)"
  shows "triple (early P f) (move_item env k (rm_revision r0) m item lane start target target_id placement) Q (\<lambda>_. False)"
proof -
  from move obtain moving others lane' n moved where
    plan: "plan_move r0 item lane target_id placement = Inr (moving, others, lane', n)"
    and kind: "ri_kind moving = kind" "kind \<in> set project_kinds" and window: "start \<noteq> [] \<or> target \<noteq> []"
    and d: "definition_with_schedule d0 kind (ri_asset_id moving) start target = Inr d"
    and moved: "moved_item moving lane' start target = Inr moved"
    and r: "place_item (ce_now env) r0 others n moved = Inr r"
    by (auto simp: asset_move_def move_item_in_def split: sum.splits prod.splits)
  have loaded: "triple (early P f) (moved_window env m moving start target)
      (\<lambda>x s. x = Some (d0, d) \<and> early P f s) (\<lambda>_. False)"
    unfolding moved_window_def using kind window expected
    by (simp, intro triple_bind [OF early_load_triples(2) [OF quiet f(3)]] triple_conj_pre)
      (auto simp: d triple_def)
  show ?thesis
    unfolding move_item_def
    by (rule triple_bind [OF load_for_edit_idle [OF quiet f(1,2)]], rule triple_conj_pre)
      (simp add: assert_roadmap_revision_def plan, rule triple_bind [OF loaded], rule triple_conj_pre,
       use run in \<open>simp add: moved r kind\<close>)
qed

text \<open>The whole handler, run to its end or to any of its effects.\<close>

lemma asset_move_run:
  fixes f :: coordination_files
  assumes quiet: "quiet_others env"
    and move: "asset_move (ce_now env) r0 d0 item lane start target target_id placement r d kind"
    and f: "cf_pending f = None" "roadmap_load k (cf_roadmaps f) = Inr r0" "repository_load (ce_path env) (cf_definition f) = Inr d0"
    and expected: "m = 0 \<or> m = pd_revision d0"
    and names: "validate_project_id (PStr (ce_project env)) = Inr p" "py_strip (ce_uuid env 0) \<noteq> []"
  defines "handler \<equiv> move_item env k (rm_revision r0) m item lane start target target_id placement"
    and "r' \<equiv> r\<lparr>rm_revision := rm_revision r0 + 1\<rparr>"
    and "d' \<equiv> (sort_tasks d)\<lparr>pd_revision := pd_revision d0 + 1\<rparr>"
  obtains i s where "replayable env i r d" and "roadmap_ready env i (cf_roadmaps f)"
    and "execution_ready env i d (cf_definition f)"
    and "roadmap_load (rm_id r) (rolled_roadmap env i r (cf_roadmaps f)) = Inr r'"
    and "repository_load (ce_path env) (rolled_execution env i d (cf_definition f)) = Inr d'"
    and "handler (boot f) = (Inr (r', nothing_pending (ce_project env)), s)"
    and "rolled env i r d f (co_files s)" and "cf_pending (co_files s) = None"
    and "\<And>n. crash n handler f = f \<or> recoverable env i r d f (crash n handler f)"
proof -
  have edit: "edit_ready env f r0 r d0 d (''move_'' @ kind)" by (rule asset_move_edit [OF move f names])
  then have id: "rm_id r = rm_id r0" by (simp add: edit_ready_def)
  obtain i where i: "prepared_intent env (ce_uuid env 0) r0 r d0 d (''move_'' @ kind) = Inr i" and rep: "replayable env i r d"
    and ready: "roadmap_ready env i (cf_roadmaps f)" "execution_ready env i d (cf_definition f)"
    and phase: "ci_phase i = ''prepared''"
    and r': "roadmap_load (rm_id r) (rolled_roadmap env i r (cf_roadmaps f)) = Inr r'"
    and d': "repository_load (ce_path env) (rolled_execution env i d (cf_definition f)) = Inr d'"
    unfolding r'_def d'_def by (rule edit_intent_facts [OF edit])
  let ?P = "\<lambda>g. g = f \<or> recoverable env i r d f g"
  have edited: "triple (early ?P f) (coordinate env r0 r d0 d (''move_'' @ kind))
      (\<lambda>z s. \<exists>f'. (rolled env i r d f f' \<and> cf_pending f' = None) \<and> stands ?P f f' s) (\<lambda>_. False)"
    by (rule triple_weaken [OF coordinate_triple [OF quiet edit i rep phase ready, where P = ?P]]) auto
  have answered: "triple (stands ?P f f') (get_roadmap env (rm_id r0))
      (\<lambda>x s. x = (r', nothing_pending (ce_project env)) \<and> stands ?P f f' s) (\<lambda>_. False)"
    if "rolled env i r d f f' \<and> cf_pending f' = None" for f'
    using that r' by (intro get_roadmap_idle [OF quiet]) (simp_all add: rolled_def id)
  have "triple (early ?P f) handler (\<lambda>x s. \<exists>f'. (x = (r', nothing_pending (ce_project env))
      \<and> rolled env i r d f f' \<and> cf_pending f' = None) \<and> stands ?P f f' s) (\<lambda>_. False)"
    unfolding handler_def
    by (rule move_item_triple [OF quiet move f expected], unfold coordinate_and_get_def, rule triple_bind [OF edited],
        rule triple_ex, rule triple_conj_pre, rule triple_weaken [OF answered]) auto
  then obtain x s where "handler (boot f) = (Inr x, s)" and "x = (r', nothing_pending (ce_project env))
      \<and> rolled env i r d f (co_files s) \<and> cf_pending (co_files s) = None"
    and "\<And>n. ?P (crash n handler f)" by (rule early_run) simp_all
  with rep ready r' d' show ?thesis by (intro that) (assumption | simp)+
qed

end
