(* ===== verification/Road_Readable.thy ===== *)
theory Road_Readable
  imports Road_Sound
begin

text \<open>
  The files of a project stay readable: whatever the handlers are asked, in whatever order, wherever
  a process dies, and whatever other processes do that keep the two documents readable themselves.
  A judgement \<open>safe\<close> follows the code of the handlers, one rule for each way of composing them.
\<close>

section \<open>Readable files\<close>

definition documents_readable :: "roadmap_dir \<Rightarrow> pyval option \<Rightarrow> bool" where
  "documents_readable dir file \<longleftrightarrow> list_all (\<lambda>(stem, raw). \<not> isl (load_document stem raw)) dir
     \<and> (case file of None \<Rightarrow> True | Some raw \<Rightarrow> \<not> isl (definition_from_mapping (or_empty_dict raw)))"

definition readable :: "coordination_files \<Rightarrow> bool" where
  "readable f \<longleftrightarrow> documents_readable (cf_roadmaps f) (cf_definition f) \<and> \<not> isl (load_pending (cf_pending f))"

definition tidy_others :: "coordination_env \<Rightarrow> bool" where
  "tidy_others env \<longleftrightarrow> (\<forall>n dir file. documents_readable dir file \<longrightarrow>
     (case ce_others env n (dir, file) of (dir', file') \<Rightarrow> documents_readable dir' file'))"

definition sound :: "coordination_files \<Rightarrow> coordination_system \<Rightarrow> bool" where
  "sound f0 s \<longleftrightarrow> stands readable f0 (co_files s) s"

definition safe :: "coordination_files \<Rightarrow> 'a coordination \<Rightarrow> ('a \<Rightarrow> bool) \<Rightarrow> bool" where
  "safe f0 m Q \<longleftrightarrow> triple (sound f0) m (\<lambda>x s. Q x \<and> sound f0 s) (sound f0)"

lemma sound_readable: "sound f0 s \<Longrightarrow> readable (co_files s)"
  unfolding sound_def by (rule stands_holds)

lemma not_isl: "\<not> isl x \<longleftrightarrow> (\<exists>y. x = Inr y)"
  by (cases x) auto

section \<open>Documents that are put down\<close>

lemma put_roadmap_readable:
  "documents_readable dir file \<Longrightarrow> roadmap_ok r \<Longrightarrow>
     documents_readable (dset (rm_id r) (PDict (roadmap_as_mapping r)) dir) file"
  using set_dset_subset [of "rm_id r" "PDict (roadmap_as_mapping r)" dir] load_document_stored [of r]
  by (auto simp: documents_readable_def list_all_iff)

lemma put_definition_readable:
  assumes "documents_readable dir file" and "definition_ok d" and "definition_wf d None"
  shows "documents_readable dir (Some (PDict (definition_as_mapping d)))"
  using assms(1) load_stored [OF assms(2,3), of "[]"] by (simp add: documents_readable_def repository_load_def)

lemma save_readable:
  assumes "roadmap_save r n dir = Inr (saved, dir')" and "roadmap_ok r" and "documents_readable dir file"
  shows "documents_readable dir' file"
proof -
  obtain current where "saved = r\<lparr>rm_revision := n + 1\<rparr>" and ok: "roadmap_ok saved"
    and dir': "dir' = dset (rm_id r) (PDict (roadmap_as_mapping saved)) dir"
    using roadmap_save_Inr [OF assms(1,2)] by metis
  then have "rm_id saved = rm_id r" by simp
  with put_roadmap_readable [OF assms(3) ok] show ?thesis by (simp add: dir')
qed

lemma create_readable:
  "roadmap_create r dir = Inr (created, dir') \<Longrightarrow> roadmap_ok r \<Longrightarrow> documents_readable dir file \<Longrightarrow> documents_readable dir' file"
  by (auto simp: roadmap_create_def roadmap_stem_ok put_roadmap_readable split: if_splits)

lemma delete_readable:
  "roadmap_delete i n dir = Inr (removed, dir') \<Longrightarrow> documents_readable dir file \<Longrightarrow> documents_readable dir' file"
  by (fastforce simp: roadmap_delete_def documents_readable_def list_all_iff split: if_splits)

lemma validated_wf: "definition_ok d \<Longrightarrow> validate_definition d None = Inr () \<Longrightarrow> definition_wf d None"
  using validate_definition_decides definition_ok_unique_ids by blast

lemma save_definition_readable:
  assumes "repository_save path d n file = Inr (saved, file')" and "definition_ok d" and "documents_readable dir file"
  shows "documents_readable dir file'"
proof -
  obtain current where c: "repository_load path file = Inr current" "pd_revision current = n"
    and saved: "saved = d\<lparr>pd_revision := n + 1\<rparr>" and file': "file' = Some (PDict (definition_as_mapping saved))"
    using repository_save_Inr [OF assms(1,2)] by metis
  have "definition_wf d None"
    using assms(1) by (intro validated_wf [OF assms(2)]) (auto simp: repository_save_def)
  moreover have "definition_ok saved"
    using definition_ok_revision [OF assms(2)] repository_load_facts(3) [OF c(1)] c(2) by (simp add: saved)
  ultimately show ?thesis
    using put_definition_readable [OF assms(3)] by (simp add: file' saved)
qed

lemma create_definition_readable:
  assumes "repository_create d file = Inr (created, file')" and "definition_ok d" and "documents_readable dir file"
  shows "documents_readable dir file'"
proof -
  have "definition_wf d None"
    using assms(1) by (intro validated_wf [OF assms(2)]) (auto simp: repository_create_def)
  moreover have ok: "definition_ok (d\<lparr>pd_revision := 1\<rparr>)" by (rule definition_ok_revision [OF assms(2)]) simp
  moreover have "file' = Some (PDict (definition_as_mapping (d\<lparr>pd_revision := 1\<rparr>)))"
    using assms(1) by (auto simp: repository_create_def replace_definition_ok [OF ok] split: if_splits)
  ultimately show ?thesis
    using put_definition_readable [OF assms(3)] by simp
qed

section \<open>Rules of the judgement\<close>

named_theorems safe_rules

lemma safe_weaken: "safe f0 m Q \<Longrightarrow> (\<And>x. Q x \<Longrightarrow> R x) \<Longrightarrow> safe f0 m R"
  unfolding safe_def by (erule triple_weaken) auto

lemma safe_any: "safe f0 m Q \<Longrightarrow> safe f0 m (\<lambda>_. True)"
  by (erule safe_weaken) simp

lemma safe_bind [safe_rules]: "safe f0 m Q \<Longrightarrow> (\<And>x. Q x \<Longrightarrow> safe f0 (g x) R) \<Longrightarrow> safe f0 (ebind m g) R"
  unfolding safe_def by (erule triple_bind) (rule triple_conj_pre, assumption)

lemma safe_pure [safe_rules]: "Q x \<Longrightarrow> safe f0 (ereturn x) Q" "safe f0 (eraise e) Q"
  by (simp_all add: safe_def triple_def)

lemma safe_elift [safe_rules]: "safe f0 (elift r) (\<lambda>x. r = Inr x)"
  by (simp add: safe_def triple_def split: sum.split)

lemma safe_eattempt [safe_rules]: "safe f0 m Q \<Longrightarrow> safe f0 (eattempt m) (\<lambda>r. \<forall>x. r = Inr x \<longrightarrow> Q x)"
  unfolding safe_def by (rule triple_attempt) (auto elim: triple_weaken)

lemma safe_if [safe_rules]: "(b \<Longrightarrow> safe f0 m Q) \<Longrightarrow> (\<not> b \<Longrightarrow> safe f0 m' Q) \<Longrightarrow> safe f0 (if b then m else m') Q"
  by simp

lemma safe_prod [safe_rules]: "(\<And>a b. p = (a, b) \<Longrightarrow> safe f0 (g a b) Q) \<Longrightarrow> safe f0 (case p of (a, b) \<Rightarrow> g a b) Q"
  by (cases p) simp

lemma safe_option [safe_rules]:
  "(p = None \<Longrightarrow> safe f0 m Q) \<Longrightarrow> (\<And>x. p = Some x \<Longrightarrow> safe f0 (g x) Q)
     \<Longrightarrow> safe f0 (case p of None \<Rightarrow> m | Some x \<Rightarrow> g x) Q"
  by (cases p) simp_all

lemma safe_sum [safe_rules]:
  "(\<And>e. r = Inl e \<Longrightarrow> safe f0 (h e) Q) \<Longrightarrow> (\<And>x. r = Inr x \<Longrightarrow> safe f0 (g x) Q)
     \<Longrightarrow> safe f0 (case r of Inl e \<Rightarrow> h e | Inr x \<Rightarrow> g x) Q"
  by (cases r) simp_all

lemma safe_emit: "(\<And>f. readable f \<Longrightarrow> readable (run_effect e f)) \<Longrightarrow> safe f0 (emit e) (\<lambda>_. True)"
  using sound_readable
  by (fastforce simp: safe_def triple_def emit_def sound_def stands_def always_snoc)

text \<open>A value read from the files, and the new content of one of them.\<close>

lemma safe_read: "safe f0 (ebind (eget (\<lambda>s. g (co_files s))) elift) (\<lambda>x. \<exists>f. readable f \<and> g f = Inr x)"
  using sound_readable by (fastforce simp: safe_def triple_def split: sum.split)

lemma safe_write:
  assumes "\<And>f x y. readable f \<Longrightarrow> g f = Inr (x, y) \<Longrightarrow> readable (run_effect (e y) f)"
  shows "safe f0 (ebind (eget (\<lambda>s. g (co_files s))) (\<lambda>result. ebind (elift result) (\<lambda>(x, y). ebind (emit (e y)) (\<lambda>_. ereturn x))))
    (\<lambda>_. True)"
  unfolding safe_def
proof (rule tripleI)
  fix s r s'
  assume s: "sound f0 s" and run: "ebind (eget (\<lambda>s. g (co_files s))) (\<lambda>result. ebind (elift result)
    (\<lambda>(x, y). ebind (emit (e y)) (\<lambda>_. ereturn x))) s = (r, s')"
  show "case r of Inl e \<Rightarrow> sound f0 s' | Inr x \<Rightarrow> True \<and> sound f0 s'"
  proof (cases "g (co_files s)")
    case (Inr p)
    obtain x y where p: "p = (x, y)" by fastforce
    from assms [OF sound_readable [OF s]] Inr p have "readable (run_effect (e y) (co_files s))" by blast
    then show ?thesis
      using run s by (auto simp: Inr p ebind_def emit_def sound_def stands_def always_snoc split: sum.split)
  qed (use run s in \<open>auto simp: ebind_def\<close>)
qed

section \<open>The coordinator\<close>

lemma safe_access [safe_rules]:
  assumes "tidy_others env"
  shows "safe f0 (access env) (\<lambda>_. True)"
proof -
  have "readable (f\<lparr>cf_roadmaps := dir', cf_definition := file'\<rparr>)"
    if "readable f" "ce_others env n (cf_roadmaps f, cf_definition f) = (dir', file')" for f n dir' file'
    using assms that unfolding tidy_others_def readable_def by (fastforce split: prod.splits)
  then show ?thesis
    using sound_readable
    by (fastforce simp: safe_def triple_def access_def emit_def sound_def stands_def always_snoc split: prod.splits)
qed

lemma safe_uuid [safe_rules]: "safe f0 (fresh_uuid env) (\<lambda>_. True)"
  by (simp add: safe_def triple_def fresh_uuid_def sound_def stands_def)

lemma safe_roadmap [safe_rules]: "tidy_others env \<Longrightarrow> safe f0 (load_roadmap env i) roadmap_ok"
  unfolding load_roadmap_def
  by (rule safe_bind [OF safe_access], assumption)
    (rule safe_weaken [OF safe_read [where g = "\<lambda>f. roadmap_load i (cf_roadmaps f)"]], blast intro: roadmap_load_facts(1))

lemma safe_execution [safe_rules]: "tidy_others env \<Longrightarrow> safe f0 (load_execution env) (\<lambda>d. definition_ok d \<and> definition_wf d None)"
  unfolding load_execution_def
  by (rule safe_bind [OF safe_access], assumption)
    (rule safe_weaken [OF safe_read [where g = "\<lambda>f. repository_load (ce_path env) (cf_definition f)"]],
     blast intro: repository_load_facts(1,2))

lemma safe_save_roadmap [safe_rules]:
  "tidy_others env \<Longrightarrow> roadmap_ok r \<Longrightarrow> safe f0 (save_roadmap env r n) (\<lambda>_. True)"
  unfolding save_roadmap_def
  by (rule safe_bind [OF safe_access], assumption)
    (rule safe_write [where g = "\<lambda>f. roadmap_save r n (cf_roadmaps f)" and e = Put_roadmaps],
     simp add: readable_def save_readable)

lemma safe_save_execution [safe_rules]:
  "tidy_others env \<Longrightarrow> definition_ok d \<Longrightarrow> safe f0 (save_execution env d n) (\<lambda>_. True)"
  unfolding save_execution_def
  by (rule safe_bind [OF safe_access], assumption)
    (rule safe_write [where g = "\<lambda>f. repository_save (ce_path env) d n (cf_definition f)" and e = Put_definition],
     simp add: readable_def save_definition_readable)

lemma safe_read_pending [safe_rules]: "safe f0 read_pending (\<lambda>_. True)"
  unfolding read_pending_def by (rule safe_any [OF safe_read [where g = "\<lambda>f. load_pending (cf_pending f)"]])

lemma safe_save_pending [safe_rules]: "intent_ok i \<Longrightarrow> safe f0 (save_pending i) (\<lambda>_. True)"
  unfolding save_pending_def by (rule safe_emit) (simp add: readable_def load_pending_stored)

lemma safe_finalize [safe_rules]: "safe f0 (finalize_intent env i phase reason) (\<lambda>_. True)"
  unfolding finalize_intent_def
  by (rule safe_rules safe_emit | (fastforce simp: readable_def load_pending_def dest: intent_init_Inr)[1])+

lemma safe_finish [safe_rules]: "safe f0 (complete_intent env i) (\<lambda>_. True)" "safe f0 (abort_intent env i reason) (\<lambda>_. True)"
  by (simp_all add: complete_intent_def abort_intent_def safe_finalize)

lemma safe_ewhen [safe_rules]: "safe f0 m (\<lambda>_. True) \<Longrightarrow> safe f0 (ewhen b m) (\<lambda>_. True)"
  by (simp add: ewhen_def safe_pure)

lemma safe_apply_execution [safe_rules]:
  assumes "tidy_others env"
  shows "safe f0 (apply_execution env i x) (\<lambda>_. True)"
proof -
  have conflict: "safe f0 (case e of ProjectExecutionConflictError m \<Rightarrow>
        ebind (load_roadmap env (ci_roadmap_id i)) (\<lambda>probe.
        ebind (ewhen (roadmap_state (ce_sha env) i probe = Doc_before) (abort_intent env i m)) (\<lambda>_. eraise e))
      | _ \<Rightarrow> eraise e) (\<lambda>_. True)" for e
    by (cases e; simp) (rule safe_rules assms)+
  show ?thesis
    unfolding apply_execution_def
    by (rule safe_rules conflict assms TrueI | (fastforce dest: definition_from_mapping_wf)[1])+
qed

lemma safe_apply_roadmap [safe_rules]: "tidy_others env \<Longrightarrow> safe f0 (apply_roadmap env i) (\<lambda>_. True)"
  unfolding apply_roadmap_def by (rule TrueI safe_rules | (fastforce dest: roadmap_from_mapping_ok)[1])+

lemma safe_apply_intent [safe_rules]: "tidy_others env \<Longrightarrow> safe f0 (apply_intent env i) (\<lambda>_. True)"
  unfolding apply_intent_def Let_def by (rule TrueI safe_rules | (fastforce dest: intent_init_Inr)[1])+

lemma safe_reconcile [safe_rules]: "tidy_others env \<Longrightarrow> safe f0 (reconcile_pending env) (\<lambda>_. True)"
  unfolding reconcile_pending_def by (rule TrueI safe_rules | assumption)+

lemma prepared_intent_ok: "prepared_intent env u r r' d d' op = Inr i \<Longrightarrow> intent_ok i"
  by (auto simp: prepared_intent_def dest: intent_init_Inr)

lemma safe_coordinate [safe_rules]: "tidy_others env \<Longrightarrow> safe f0 (coordinate env r0 r d0 d operation) (\<lambda>_. True)"
  unfolding coordinate_def by (rule TrueI safe_rules | (fastforce dest: prepared_intent_ok)[1])+

lemma safe_catching [safe_rules]: "safe f0 m (\<lambda>_. True) \<Longrightarrow> safe f0 (catching c m) (\<lambda>_. True)"
  unfolding catching_def by (rule TrueI safe_rules | assumption)+

lemma safe_status [safe_rules]:
  assumes "tidy_others env"
  shows "safe f0 (coordination_status_of env) (\<lambda>_. True)"
proof -
  note loads = safe_any [OF safe_roadmap [OF assms]] safe_any [OF safe_execution [OF assms]]
  have parts: "safe f0 (roadmap_status env i) (\<lambda>_. True)" "safe f0 (execution_status env i) (\<lambda>_. True)" for i
    unfolding roadmap_status_def execution_status_def
    by (rule safe_bind [OF safe_catching] loads safe_pure TrueI)+
  show ?thesis
    unfolding coordination_status_of_def by (rule parts safe_bind [OF safe_catching] safe_rules loads assms TrueI)+
qed

lemma safe_perform [safe_rules]: "tidy_others env \<Longrightarrow> safe f0 (perform_action env i action) (\<lambda>_. True)"
  unfolding perform_action_def by (rule TrueI safe_rules | assumption)+

lemma safe_resolve [safe_rules]: "tidy_others env \<Longrightarrow> safe f0 (resolve env action) (\<lambda>_. True)"
  unfolding resolve_def Let_def by (rule TrueI safe_rules | assumption)+

lemma safe_reconcile_if_safe [safe_rules]: "tidy_others env \<Longrightarrow> safe f0 (reconcile_if_safe env) (\<lambda>_. True)"
  unfolding reconcile_if_safe_def by (rule TrueI safe_rules | assumption)+

section \<open>The handlers\<close>

lemma safe_load_for_edit [safe_rules]: "tidy_others env \<Longrightarrow> safe f0 (load_for_edit env i) roadmap_ok"
  unfolding load_for_edit_def assert_coordination_clear_def by (rule TrueI safe_rules | assumption)+

lemma safe_get [safe_rules]: "tidy_others env \<Longrightarrow> safe f0 (get_roadmap env i) (\<lambda>_. True)"
  unfolding get_roadmap_def by (rule TrueI safe_rules | assumption)+

lemma safe_list [safe_rules]: "tidy_others env \<Longrightarrow> safe f0 (list_stored env) (\<lambda>_. True)"
  unfolding list_stored_def
  by (rule safe_bind [OF safe_access], assumption) (rule safe_any [OF safe_read [where g = "\<lambda>f. roadmap_list (cf_roadmaps f)"]])

lemma safe_save_and_get [safe_rules]:
  "tidy_others env \<Longrightarrow> roadmap_ok updated \<Longrightarrow> safe f0 (save_and_get env r updated n) (\<lambda>_. True)"
  unfolding save_and_get_def by (rule TrueI safe_rules | assumption)+

lemma safe_edit:
  "tidy_others env \<Longrightarrow> (\<And>r r'. roadmap_ok r \<Longrightarrow> change r = Inr r' \<Longrightarrow> roadmap_ok r')
     \<Longrightarrow> safe f0 (edit_roadmap env i n change) (\<lambda>_. True)"
  unfolding edit_roadmap_def by (rule TrueI safe_rules | assumption | blast)+

lemma safe_create_stored [safe_rules]:
  "tidy_others env \<Longrightarrow> roadmap_ok r \<Longrightarrow> safe f0 (create_stored env r) (\<lambda>_. True)"
  unfolding create_stored_def
  by (rule safe_bind [OF safe_access], assumption)
    (rule safe_write [where g = "\<lambda>f. roadmap_create r (cf_roadmaps f)" and e = Put_roadmaps],
     simp add: readable_def create_readable)

lemma safe_delete_stored [safe_rules]: "tidy_others env \<Longrightarrow> safe f0 (delete_stored env i n) (\<lambda>_. True)"
  unfolding delete_stored_def
  by (rule safe_bind [OF safe_access], assumption)
    (rule safe_write [where g = "\<lambda>f. roadmap_delete i n (cf_roadmaps f)" and e = Put_roadmaps],
     simp add: readable_def delete_readable)

lemma safe_create_execution [safe_rules]:
  "tidy_others env \<Longrightarrow> definition_ok d \<Longrightarrow> safe f0 (create_execution env d) (\<lambda>_. True)"
  unfolding create_execution_def
  by (rule safe_bind [OF safe_access], assumption)
    (rule safe_write [where g = "\<lambda>f. repository_create d (cf_definition f)" and e = Put_definition],
     simp add: readable_def create_definition_readable)

lemma safe_eget [safe_rules]: "safe f0 (eget g) (\<lambda>_. True)"
  by (simp add: safe_def triple_def)

lemma safe_fresh [safe_rules]: "safe f0 (fresh_hex env) (\<lambda>_. True)" "safe f0 (with_item_id env data) (\<lambda>_. True)"
  unfolding with_item_id_def fresh_hex_def by (rule TrueI safe_rules)+

lemma new_definition_ok: "definition_init a b c d default_policy [] [] [] [] = Inr x \<Longrightarrow> definition_ok x"
  by (erule definition_init_ok) simp_all

lemma safe_execution_or_new [safe_rules]: "tidy_others env \<Longrightarrow> safe f0 (execution_or_new env) (\<lambda>_. True)"
  unfolding execution_or_new_def
  by (rule TrueI safe_any [OF safe_execution] safe_rules | assumption | erule new_definition_ok)+

lemma safe_coordinate_and_get [safe_rules]:
  "tidy_others env \<Longrightarrow> safe f0 (coordinate_and_get env r updated d desired operation) (\<lambda>_. True)"
  unfolding coordinate_and_get_def by (rule TrueI safe_rules | assumption)+

lemma new_roadmap_ok: "roadmap_init 2 a b c 1 d e [] [] = Inr r \<Longrightarrow> roadmap_ok r"
  by (erule roadmap_init_ok) simp_all

lemma safe_create: "tidy_others env \<Longrightarrow> safe f0 (create_roadmap env title description i) (\<lambda>_. True)"
  unfolding create_roadmap_def by (rule TrueI safe_rules safe_any [OF safe_elift] | assumption | erule new_roadmap_ok)+

lemma safe_move_lane: "tidy_others env \<Longrightarrow> safe f0 (move_lane env i n lane target placement) (\<lambda>_. True)"
  unfolding move_lane_def by (rule TrueI safe_rules | assumption | (fastforce dest: move_lane_ok)[1])+

lemma safe_link: "tidy_others env \<Longrightarrow> safe f0 (link_task env linkable i n task item lane start target order) (\<lambda>_. True)"
  unfolding link_task_def by (rule TrueI safe_rules | assumption | erule (1) link_task_ok)+

lemma moved_ok:
  assumes "place_item now r others k moved = Inr r'" and "moved_item moving lane' start target = Inr moved"
    and "plan_move r item lane target_id placement = Inr p" and "p = (moving, p')" and "p' = (others, p'')" and "p'' = (lane', k)" and "roadmap_ok r"
  shows "roadmap_ok r'"
proof -
  note p = plan_move_Inr [OF assms(3) [unfolded assms(4-6)] assms(7)]
  have moving: "item_ok moving" using p(1) assms(7) by (auto simp: roadmap_ok_def list_all_iff)
  have "list_all item_ok others" using assms(7) unfolding p(3) by (auto simp: roadmap_ok_def list_all_iff order_items_def)
  from place_item_ok [OF assms(1,7) moved_item_Inr(1) [OF assms(2) moving p(4,5)] this] show ?thesis .
qed

lemma safe_window [safe_rules]: "tidy_others env \<Longrightarrow> safe f0 (moved_window env m moving start target) (\<lambda>_. True)"
  unfolding moved_window_def by (rule TrueI safe_rules | assumption)+

lemma safe_move: "tidy_others env \<Longrightarrow> safe f0 (move_item env i n m item lane start target target_id placement) (\<lambda>_. True)"
  unfolding move_item_def
  by (rule TrueI safe_rules | assumption | (erule (1) moved_ok; assumption))+

lemma safe_upsert: "tidy_others env \<Longrightarrow> safe f0 (upsert_item env linkable i n m raw) (\<lambda>_. True)"
  unfolding upsert_item_def Let_def
  by (rule TrueI safe_rules | assumption | (erule (1) upsert_item_ok, erule item_from_mapping_ok))+

lemma safe_delete: "tidy_others env \<Longrightarrow> safe f0 (delete_roadmap env i n acknowledged) (\<lambda>_. True)"
  unfolding delete_roadmap_def by (rule TrueI safe_rules | assumption)+

lemma safe_references: "tidy_others env \<Longrightarrow> safe f0 (task_references env task) (\<lambda>_. True)"
  unfolding task_references_def by (rule TrueI safe_rules | assumption)+

end
