(* ===== verification/Road_Promotion.thy ===== *)
theory Road_Promotion
  imports Road_Migration Road_Handlers Road_Readable
begin

text \<open>
  What a migration does. Each item it promotes becomes an asset of the definition once, in a step that
  changes nothing when it is repeated; so a migration that died continues from whatever it left, and
  ends in the same documents as one that did not.
\<close>

section \<open>Assets of a definition\<close>

fun asset_key :: "project_asset \<Rightarrow> string" where
  "asset_key (Asset_phase p) = ph_id p"
| "asset_key (Asset_gate g) = pg_id g"
| "asset_key (Asset_milestone m) = pm_id m"

fun asset_ok :: "project_asset \<Rightarrow> bool" where
  "asset_ok (Asset_phase p) = phase_ok p"
| "asset_ok (Asset_gate g) = gate_ok g"
| "asset_ok (Asset_milestone m) = milestone_ok m"

lemma map_of_upsert: "map_of (map (\<lambda>x. (key x, x)) (upsert key xs y)) = (map_of (map (\<lambda>x. (key x, x)) xs))(key y \<mapsto> y)"
  by (induction xs) auto

lemma map_of_asset_index:
  assumes "definition_ok d"
  shows "map_of (phase_index d) = map_of (map (\<lambda>p. (ph_id p, p)) (pd_phases d))"
    "map_of (gate_index d) = map_of (map (\<lambda>g. (pg_id g, g)) (pd_gates d))"
    "map_of (milestone_index d) = map_of (map (\<lambda>m. (pm_id m, m)) (pd_milestones d))"
  using definition_ok_unique [OF assms]
  by (simp_all add: phase_index_def gate_index_def milestone_index_def py_dict_distinct comp_def)

lemma asset_by_id_lists:
  "definition_ok d \<Longrightarrow> asset_by_id d a =
     (case map_of (map (\<lambda>p. (ph_id p, p)) (pd_phases d)) a of Some p \<Rightarrow> Some (Asset_phase p)
      | None \<Rightarrow> (case map_of (map (\<lambda>g. (pg_id g, g)) (pd_gates d)) a of Some g \<Rightarrow> Some (Asset_gate g)
          | None \<Rightarrow> map_option Asset_milestone (map_of (map (\<lambda>m. (pm_id m, m)) (pd_milestones d)) a)))"
  by (simp add: asset_by_id_def map_of_asset_index cong: option.case_cong)

lemma definition_init_lists:
  "definition_init s p r m pol ph ts gs ms = Inr d \<Longrightarrow> pd_phases d = ph \<and> pd_gates d = gs \<and> pd_milestones d = ms \<and> pd_tasks d = ts"
  by (auto simp: definition_init_def Let_def split: if_splits sum.splits option.splits)

lemma definition_with_asset_lists:
  assumes "definition_with_asset d asset = Inr d'"
  shows "pd_phases d' = (case asset of Asset_phase p \<Rightarrow> upsert ph_id (pd_phases d) p | _ \<Rightarrow> pd_phases d)"
    "pd_gates d' = (case asset of Asset_gate g \<Rightarrow> upsert pg_id (pd_gates d) g | _ \<Rightarrow> pd_gates d)"
    "pd_milestones d' = (case asset of Asset_milestone m \<Rightarrow> upsert pm_id (pd_milestones d) m | _ \<Rightarrow> pd_milestones d)"
  using assms
  by (auto simp: definition_with_asset_def replace_definition_def dest!: definition_init_lists split: project_asset.splits)

lemma definition_with_asset_valid:
  assumes "definition_with_asset d asset = Inr d'" and "definition_ok d" and "asset_ok asset"
  shows "definition_ok d'" and "definition_wf d' None" and "pd_project d' = pd_project d"
  by (rule definition_with_asset_ok [OF assms(1,2)], use assms(3) in \<open>cases asset; simp\<close>)+

text \<open>A new asset is found under its identifier, and nothing else changes.\<close>

lemma asset_added:
  assumes "definition_with_asset d asset = Inr d'" and "definition_ok d" and "asset_ok asset"
    and "asset_by_id d (asset_key asset) = None"
  shows "asset_by_id d' = (asset_by_id d)(asset_key asset \<mapsto> asset)"
proof
  fix a
  note lists = definition_with_asset_lists [OF assms(1)]
  show "asset_by_id d' a = ((asset_by_id d)(asset_key asset \<mapsto> asset)) a"
    using assms(4) unfolding asset_by_id_lists [OF assms(2)] asset_by_id_lists [OF definition_with_asset_valid(1) [OF assms(1-3)]] lists
    by (cases asset) (auto simp: map_of_upsert split: option.splits)
qed

lemma asset_by_id_stored: "definition_ok d \<Longrightarrow> 1 \<le> n \<Longrightarrow> asset_by_id ((sort_tasks d)\<lparr>pd_revision := n\<rparr>) = asset_by_id d"
proof -
  assume "definition_ok d" and "1 \<le> n"
  then have "definition_ok ((sort_tasks d)\<lparr>pd_revision := n\<rparr>)" by (intro definition_ok_revision definition_ok_sort_tasks)
  moreover have "pd_phases ((sort_tasks d)\<lparr>pd_revision := n\<rparr>) = pd_phases d" "pd_gates ((sort_tasks d)\<lparr>pd_revision := n\<rparr>) = pd_gates d"
    "pd_milestones ((sort_tasks d)\<lparr>pd_revision := n\<rparr>) = pd_milestones d" by (simp_all add: sort_tasks_def)
  ultimately show ?thesis using \<open>definition_ok d\<close> by (intro ext) (simp only: asset_by_id_lists)
qed

lemma inits_key:
  "phase_init (PStr a) b c s e x t m = Inr p \<Longrightarrow> py_strip a = a \<Longrightarrow> ph_id p = a"
  "gate_init (PStr a) b c s cs = Inr g \<Longrightarrow> py_strip a = a \<Longrightarrow> pg_id g = a"
  "milestone_init (PStr a) b c d0 e0 r q = Inr v \<Longrightarrow> py_strip a = a \<Longrightarrow> pm_id v = a"
  by (auto simp: phase_init_def gate_init_def milestone_init_def validate_asset_id_def Let_def split: if_splits option.splits)

lemma v1_asset_ok: "v1_asset i a = Inr asset \<Longrightarrow> asset_ok asset"
  by (auto simp: v1_asset_def split: if_splits; (erule phase_init_ok | erule gate_init_ok | erule milestone_init_ok);
      (erule schedule_init_ok | erule milestone_requirements_init_ok | simp add: criterion_init_ok))

lemma v1_asset_key: "v1_asset i a = Inr asset \<Longrightarrow> py_strip a = a \<Longrightarrow> asset_key asset = a"
  by (auto simp: v1_asset_def inits_key split: if_splits)

section \<open>One asset after another\<close>

text \<open>What \<open>ensure_asset\<close> and \<open>ensure_assets\<close> do to the file of the definition when they return.\<close>

definition ensured :: "string \<Rightarrow> road_item \<Rightarrow> string \<Rightarrow> pyval option \<Rightarrow> pyval option \<Rightarrow> bool" where
  "ensured path i a g g' \<longleftrightarrow> (\<exists>desired d. v1_asset i a = Inr desired \<and> repository_load path g = Inr d
     \<and> (case asset_by_id d a of
          Some x \<Rightarrow> x = desired \<and> g' = g
        | None \<Rightarrow> (\<exists>d' saved. definition_with_asset d desired = Inr d'
            \<and> repository_save path d' (pd_revision d) g = Inr (saved, g'))))"

fun ensured_all :: "string \<Rightarrow> migration_item pydict \<Rightarrow> road_item list \<Rightarrow> pyval option \<Rightarrow> pyval option \<Rightarrow> bool" where
  "ensured_all path plans [] g g' \<longleftrightarrow> g' = g"
| "ensured_all path plans (i # items) g g' \<longleftrightarrow> (\<exists>mid. (case map_of plans (ri_id i) of
       None \<Rightarrow> mid = g | Some plan \<Rightarrow> ensured path i (mg_asset_id plan) g mid)
     \<and> ensured_all path plans items mid g')"

definition stored_assets :: "string \<Rightarrow> pyval option \<Rightarrow> string \<Rightarrow> project_asset option" where
  "stored_assets path g = (case repository_load path g of Inl e \<Rightarrow> (\<lambda>_. None) | Inr d \<Rightarrow> asset_by_id d)"

lemma repository_saved:
  assumes "repository_save path d n g = Inr (saved, g')" and "definition_ok d"
  shows "repository_load path g' = Inr ((sort_tasks d)\<lparr>pd_revision := n + 1\<rparr>)" and "1 \<le> n + 1"
proof -
  obtain current where c: "repository_load path g = Inr current" "pd_revision current = n"
    and s: "saved = d\<lparr>pd_revision := n + 1\<rparr>" "repository_load path g' = Inr (sort_tasks saved)"
    by (rule repository_save_Inr [OF assms])
  show "1 \<le> n + 1" using repository_load_facts(3) [OF c(1)] c(2) by simp
  show "repository_load path g' = Inr ((sort_tasks d)\<lparr>pd_revision := n + 1\<rparr>)" using s by (simp add: sort_tasks_def)
qed

lemma ensured_stores:
  assumes "ensured path i a g g'" and "py_strip a = a"
  shows "\<exists>desired. v1_asset i a = Inr desired \<and> stored_assets path g' = (stored_assets path g)(a \<mapsto> desired)
    \<and> (\<forall>x. stored_assets path g a = Some x \<longrightarrow> x = desired)"
    and "\<exists>d. repository_load path g' = Inr d"
proof -
  from assms(1) obtain desired d where desired: "v1_asset i a = Inr desired" and d: "repository_load path g = Inr d"
    and step: "case asset_by_id d a of
          Some x \<Rightarrow> x = desired \<and> g' = g
        | None \<Rightarrow> (\<exists>d' saved. definition_with_asset d desired = Inr d'
            \<and> repository_save path d' (pd_revision d) g = Inr (saved, g'))"
    by (auto simp: ensured_def)
  note ok = v1_asset_ok [OF desired] v1_asset_key [OF desired assms(2)] and dok = repository_load_facts(1) [OF d]
  have "stored_assets path g' = (stored_assets path g)(a \<mapsto> desired)
    \<and> (\<forall>x. stored_assets path g a = Some x \<longrightarrow> x = desired) \<and> (\<exists>d. repository_load path g' = Inr d)"
  proof (cases "asset_by_id d a")
    case None
    with step obtain d' saved where d': "definition_with_asset d desired = Inr d'"
      and save: "repository_save path d' (pd_revision d) g = Inr (saved, g')" by auto
    note valid = definition_with_asset_valid [OF d' dok ok(1)] and added = asset_added [OF d' dok ok(1)]
    note loaded = repository_saved [OF save valid(1)]
    have "stored_assets path g' = asset_by_id d'"
      using asset_by_id_stored [OF valid(1) loaded(2)] by (simp add: stored_assets_def loaded(1))
    with added None show ?thesis using loaded(1) by (simp add: stored_assets_def d ok(2))
  next
    case (Some x)
    with step show ?thesis by (auto simp: stored_assets_def d)
  qed
  with desired show "\<exists>desired. v1_asset i a = Inr desired \<and> stored_assets path g' = (stored_assets path g)(a \<mapsto> desired)
    \<and> (\<forall>x. stored_assets path g a = Some x \<longrightarrow> x = desired)" and "\<exists>d. repository_load path g' = Inr d" by blast+
qed

lemma ensured_mono:
  "ensured path i a g g' \<Longrightarrow> py_strip a = a \<Longrightarrow> stored_assets path g c = Some x \<Longrightarrow> stored_assets path g' c = Some x"
  using ensured_stores(1) [of path i a g g'] by auto

lemma ensured_again:
  assumes "ensured path i a g0 g1" and "py_strip a = a" and "stored_assets path g a = stored_assets path g1 a"
  shows "ensured path i a g g"
proof -
  from ensured_stores(1) [OF assms(1,2)] obtain desired where "v1_asset i a = Inr desired" "stored_assets path g a = Some desired"
    using assms(3) by auto
  then show ?thesis by (auto simp: ensured_def stored_assets_def split: sum.splits)
qed

definition plans_valid :: "migration_item pydict \<Rightarrow> bool" where
  "plans_valid plans \<longleftrightarrow> (\<forall>(k, plan) \<in> set plans. py_strip (mg_asset_id plan) = mg_asset_id plan)"

lemma plans_validD: "plans_valid plans \<Longrightarrow> map_of plans k = Some plan \<Longrightarrow> py_strip (mg_asset_id plan) = mg_asset_id plan"
  by (auto simp: plans_valid_def dest!: map_of_SomeD)

lemma ensured_all_mono:
  "ensured_all path plans items g g' \<Longrightarrow> plans_valid plans \<Longrightarrow> stored_assets path g c = Some x
     \<Longrightarrow> stored_assets path g' c = Some x"
  by (induction path plans items g g' rule: ensured_all.induct)
    (auto split: option.splits intro: ensured_mono plans_validD)

lemma ensured_all_append:
  "ensured_all path plans (xs @ ys) g g' \<longleftrightarrow>
     (\<exists>mid. ensured_all path plans xs g mid \<and> ensured_all path plans ys mid g')"
  by (induction xs arbitrary: g) auto

lemma ensured_det: "ensured path i a g x \<Longrightarrow> ensured path i a g y \<Longrightarrow> x = y"
  by (auto simp: ensured_def split: option.splits)

lemma ensured_all_det: "ensured_all path plans items g x \<Longrightarrow> ensured_all path plans items g y \<Longrightarrow> x = y"
proof (induction items arbitrary: g)
  case (Cons i items)
  then show ?case using ensured_det by (cases "map_of plans (ri_id i)") (simp, fastforce)+
qed simp

text \<open>Repeating the steps that were made changes nothing.\<close>

lemma ensured_all_again:
  "ensured_all path plans items g0 g \<Longrightarrow> plans_valid plans \<Longrightarrow> ensured_all path plans items g g"
proof (induction items arbitrary: g0)
  case (Cons i items)
  then obtain mid where step: "case map_of plans (ri_id i) of None \<Rightarrow> mid = g0
      | Some plan \<Rightarrow> ensured path i (mg_asset_id plan) g0 mid" and rest: "ensured_all path plans items mid g" by auto
  have "ensured path i (mg_asset_id plan) g g" if plan: "map_of plans (ri_id i) = Some plan" for plan
  proof -
    from step plan have e: "ensured path i (mg_asset_id plan) g0 mid" by simp
    note strip = plans_validD [OF Cons.prems(2) plan]
    from ensured_stores(1) [OF e strip] obtain x where "stored_assets path mid (mg_asset_id plan) = Some x" by auto
    with ensured_all_mono [OF rest Cons.prems(2) this] show ?thesis by (intro ensured_again [OF e strip]) simp
  qed
  with Cons.IH [OF rest Cons.prems(2)] show ?case by (auto split: option.split)
qed simp

lemma ensured_all_resume:
  assumes "ensured_all path plans (xs @ ys) g final" and "ensured_all path plans xs g mid" and "plans_valid plans"
  shows "ensured_all path plans (xs @ ys) mid final"
proof -
  from assms(1) obtain m where "ensured_all path plans xs g m" "ensured_all path plans ys m final"
    by (auto simp: ensured_all_append)
  with ensured_all_det [OF assms(2)] have "ensured_all path plans ys mid final" by blast
  with ensured_all_again [OF assms(2,3)] show ?thesis by (auto simp: ensured_all_append)
qed

section \<open>Markers\<close>

definition asset_name :: "string \<Rightarrow> bool" where
  "asset_name a \<longleftrightarrow> (\<forall>label. validate_roadmap_id (PStr a) label = Inr a)"

definition migration_item_ok :: "migration_item \<Rightarrow> bool" where
  "migration_item_ok m \<longleftrightarrow> asset_name (mg_item_id m) \<and> asset_name (mg_asset_id m) \<and> mg_kind m \<in> set project_kinds
     \<and> mg_action m = ''create'' \<and> mg_note m = promotion_note (mg_kind m)"

lemma validated_name: "validate_roadmap_id v label = Inr a \<Longrightarrow> asset_name a"
  by (simp add: asset_name_def validate_roadmap_id_fixed)

lemma asset_name_strip: "asset_name a \<Longrightarrow> py_strip a = a" "asset_name a \<Longrightarrow> a \<noteq> []"
  by (auto simp: asset_name_def validate_roadmap_id_def Let_def split: if_splits)

lemma row_get_present:
  "distinct (keys kvs) \<Longrightarrow> dget kvs k [] \<noteq> [] \<Longrightarrow> row_get (str_fields kvs) k d = PStr (dget kvs k [])"
proof -
  have "row_get r k (PStr []) = PStr v \<Longrightarrow> v \<noteq> [] \<Longrightarrow> row_get r k d = PStr v" for r v
    by (auto simp: row_get_def dget_def split: option.splits)
  then show "distinct (keys kvs) \<Longrightarrow> dget kvs k [] \<noteq> [] \<Longrightarrow> row_get (str_fields kvs) k d = PStr (dget kvs k [])"
    using row_get_str_fields [of kvs k] by blast
qed

lemma migration_item_round_trip:
  assumes "migration_item_ok m"
  shows "migration_item_from_mapping (PDict (migration_item_as_mapping m)) = Inr m"
proof -
  have kinds: "list_all (\<lambda>k. py_lower (py_strip k) = k \<and> py_strip (promotion_note k) = promotion_note k) project_kinds"
    "py_lower (py_strip ''create'') = ''create''" by code_simp+
  have "py_lower (py_strip (mg_kind m)) = mg_kind m" "py_strip (mg_note m) = mg_note m" "mg_kind m \<noteq> []"
    using assms kinds(1) by (auto simp: migration_item_ok_def list_all_iff project_kinds_def)
  then show ?thesis
    using assms kinds(2)
    by (simp add: migration_item_from_mapping_def migration_item_as_mapping_def migration_item_ok_def asset_name_def
        asset_name_strip(2) [unfolded asset_name_def] row_get_str_def row_get_str_fields row_get_present)
qed

lemma marker_round_trip:
  assumes "asset_name (mp_roadmap_id p)" and "list_all migration_item_ok (mp_items p)"
  shows "parse_prepared (PDict (marker_row ''prepared'' p [])) = Inr (Some \<lparr>pr_roadmap_id = mp_roadmap_id p,
    pr_source_revision = mp_source_revision p, pr_source_digest = mp_source_digest p, pr_items = mp_items p\<rparr>)"
proof -
  have "mapr migration_item_from_mapping (map (\<lambda>i. PDict (migration_item_as_mapping i)) (mp_items p)) = Inr (mp_items p)"
    using assms(2) by (intro mapr_round_trip migration_item_round_trip) (simp add: list_all_iff)
  then show ?thesis
    using assms(1)
    by (cases "mp_items p") (simp_all add: parse_prepared_def marker_row_def asset_name_def row_list_def row_get_str_def dict_simps py_int_def)
qed

section \<open>Allocated identifiers\<close>

lemma first_unused_Inr:
  "first_unused hash candidate used i j widths = Inr a \<Longrightarrow> a \<notin> set used \<and> asset_name a"
  by (induction widths) (auto simp: Let_def split: if_splits dest: validated_name)

lemma deduplicate_Inr:
  "deduplicate_candidate sha candidate i j used = Inr a \<Longrightarrow> asset_name candidate \<Longrightarrow> a \<notin> set used \<and> asset_name a"
  by (auto simp: deduplicate_candidate_def simp del: first_unused.simps split: if_splits dest: first_unused_Inr)

lemma namespaced_Inr: "namespaced_asset_id sha i j = Inr a \<Longrightarrow> asset_name a"
  by (auto simp: namespaced_asset_id_def Let_def split: if_splits dest: validated_name)

lemma allocate_rows_Inr:
  "allocate_rows sha own used pairs = Inr al \<Longrightarrow> \<forall>(i, j) \<in> set pairs. asset_name j \<Longrightarrow>
     map fst al = pairs \<and> distinct (map snd al) \<and> set (map snd al) \<inter> set used = {} \<and> list_all asset_name (map snd al)"
proof (induction sha own used pairs arbitrary: al rule: allocate_rows.induct)
  case (2 sha own used i j pairs)
  then obtain c a rest where c: "(if own j then Inr j else namespaced_asset_id sha i j) = Inr c"
    and a: "deduplicate_candidate sha c i j used = Inr a" and rest: "allocate_rows sha own (a # used) pairs = Inr rest"
    and al: "al = ((i, j), a) # rest" by auto
  have "asset_name c" using c 2(3) namespaced_Inr by (auto split: if_splits)
  with deduplicate_Inr [OF a] 2(1) [OF c a rest] 2(3) show ?case by (auto simp: al)
qed auto

lemma set_sort_rows [simp]: "set (sort_rows pairs) = set pairs"
  by (simp add: sort_rows_def)

lemma item_name: "item_ok i \<Longrightarrow> asset_name (ri_id i)"
  by (cases i) (auto simp: item_ok_def item_init_def Let_def split: if_splits prod.splits intro: validated_name)

lemma project_rows_names: "list_all roadmap_ok rs \<Longrightarrow> (i, j) \<in> set (project_rows rs) \<Longrightarrow> asset_name j"
proof -
  assume "list_all roadmap_ok rs" and "(i, j) \<in> set (project_rows rs)"
  then show "asset_name j" by (auto simp: project_rows_def list_all_iff roadmap_ok_def intro: item_name)
qed

text \<open>No identifier is given twice, nor one that an asset has.\<close>

lemma identity_allocation_Inr:
  assumes "identity_allocation sha definition rs = Inr al" and "list_all roadmap_ok rs"
  shows "distinct (map snd al)" and "set (map snd al) \<inter> set (existing_asset_ids definition) = {}"
    and "map_of al k = Some a \<Longrightarrow> asset_name a"
proof -
  have "\<forall>(i, j) \<in> set (sort_rows (project_rows (filter (\<lambda>r. rm_schema_version r = 1) rs))). asset_name j"
    using project_rows_names [of "filter (\<lambda>r. rm_schema_version r = 1) rs"] assms(2) by (auto simp: list_all_iff)
  from allocate_rows_Inr [OF assms(1) [unfolded identity_allocation_def Let_def] this]
  show "distinct (map snd al)" and "set (map snd al) \<inter> set (existing_asset_ids definition) = {}"
    and "map_of al k = Some a \<Longrightarrow> asset_name a" by (auto simp: list_all_iff dest!: map_of_SomeD)
qed

lemma plan_items_facts:
  assumes "\<And>i a. map_of al i = Some a \<Longrightarrow> asset_name a"
  shows "plan_items k al items = (planned, []) \<Longrightarrow> list_all item_ok items \<Longrightarrow>
    map (\<lambda>m. (mg_item_id m, mg_kind m)) planned = map (\<lambda>i. (ri_id i, ri_kind i)) (filter (\<lambda>i. ri_kind i \<in> set project_kinds) items)
    \<and> list_all migration_item_ok planned"
proof (induction items arbitrary: planned)
  case (Cons i items)
  then show ?case using item_name [of i] assms
    by (auto simp: migration_item_ok_def split: prod.splits if_splits option.splits)
qed simp

section \<open>Undisturbed operations\<close>

lemma quiet_access:
  assumes "quiet_others env"
  obtains s' where "access env s = (Inr (), s')" and "co_files s' = co_files s"
  using assms by (cases s) (auto simp: access_def emit_def quiet_others_def intro: that)

lemma quiet_ops:
  assumes "quiet_others env"
  shows "load_roadmap env k s = (a, s') \<Longrightarrow> a = roadmap_load k (cf_roadmaps (co_files s)) \<and> co_files s' = co_files s"
    and "load_execution env s = (b, s') \<Longrightarrow> b = repository_load (ce_path env) (cf_definition (co_files s)) \<and> co_files s' = co_files s"
    and "load_execution_optional env s = (c, s')
      \<Longrightarrow> c = repository_load_optional (ce_path env) (cf_definition (co_files s)) \<and> co_files s' = co_files s"
    and "list_stored env s = (d, s') \<Longrightarrow> d = roadmap_list (cf_roadmaps (co_files s)) \<and> co_files s' = co_files s"
  by (rule quiet_access [OF assms, of s], force simp: load_roadmap_def load_execution_def load_execution_optional_def list_stored_def)+

lemma quiet_writes:
  assumes "quiet_others env"
  shows "save_roadmap env r n s = (Inr x, s') \<Longrightarrow> \<exists>dir. roadmap_save r n (cf_roadmaps (co_files s)) = Inr (x, dir)
      \<and> co_files s' = (co_files s)\<lparr>cf_roadmaps := dir\<rparr>"
    and "save_execution env d n s = (Inr y, s') \<Longrightarrow> \<exists>h. repository_save (ce_path env) d n (cf_definition (co_files s)) = Inr (y, h)
      \<and> co_files s' = (co_files s)\<lparr>cf_definition := h\<rparr>"
    and "create_execution env d s = (Inr y, s') \<Longrightarrow> \<exists>h. repository_create d (cf_definition (co_files s)) = Inr (y, h)
      \<and> co_files s' = (co_files s)\<lparr>cf_definition := h\<rparr>"
  by (rule quiet_access [OF assms, of s], auto simp: save_roadmap_def save_execution_def create_execution_def emit_def
      elim!: ebind_InrE split: prod.splits)+

lemma ensure_asset_returned:
  assumes "quiet_others env" and "ensure_asset env i a s = (Inr (), s')"
  shows "ensured (ce_path env) i a (cf_definition (co_files s)) (cf_definition (co_files s'))
    \<and> co_files s' = (co_files s)\<lparr>cf_definition := cf_definition (co_files s')\<rparr>"
proof -
  note ops = quiet_ops [OF assms(1)]
  from assms(2) obtain desired d s1 where desired: "v1_asset i a = Inr desired" and load: "load_execution env s = (Inr d, s1)"
    and rest: "(case asset_by_id d a of
         Some existing \<Rightarrow> if existing \<noteq> desired then eraise (RoadmapError (''prepared Roadmap migration conflicts with existing canonical ''
             @ ri_kind i @ '' '' @ a)) else ereturn ()
       | None \<Rightarrow> ebind (upsert_asset env desired (pd_revision d)) (\<lambda>_. ereturn ())) s1 = (Inr (), s')"
    unfolding ensure_asset_def by (fastforce elim!: ebind_InrE)
  have d: "repository_load (ce_path env) (cf_definition (co_files s)) = Inr d" "co_files s1 = co_files s"
    using ops(2) [OF load] by simp_all
  show ?thesis
  proof (cases "asset_by_id d a")
    case None
    with rest obtain y s2 d1 d' where "load_execution env s1 = (Inr d1, s2)" and d': "definition_with_asset d1 desired = Inr d'"
      and save: "save_execution env d' (pd_revision d) s2 = (Inr y, s')"
      by (fastforce simp: upsert_asset_def elim!: ebind_InrE)
    with ops(2) d have "d1 = d" "co_files s2 = co_files s" by force+
    with d' quiet_writes(2) [OF assms(1) save] desired d None show ?thesis by (auto simp: ensured_def)
  qed (use rest desired d in \<open>auto simp: ensured_def split: if_splits\<close>)
qed

lemma ensure_assets_returned:
  assumes "quiet_others env"
  shows "ensure_assets env plans items s = (Inr (), s') \<Longrightarrow>
    ensured_all (ce_path env) plans items (cf_definition (co_files s)) (cf_definition (co_files s'))
    \<and> co_files s' = (co_files s)\<lparr>cf_definition := cf_definition (co_files s')\<rparr>"
proof (induction items arbitrary: s)
  case (Cons i items)
  from Cons.prems obtain s1 where
    step: "(case map_of plans (ri_id i) of None \<Rightarrow> ereturn () | Some plan \<Rightarrow> ensure_asset env i (mg_asset_id plan)) s = (Inr (), s1)"
    and rest: "ensure_assets env plans items s1 = (Inr (), s')" by (auto elim!: ebind_InrE)
  have "case map_of plans (ri_id i) of None \<Rightarrow> cf_definition (co_files s1) = cf_definition (co_files s)
      | Some plan \<Rightarrow> ensured (ce_path env) i (mg_asset_id plan) (cf_definition (co_files s)) (cf_definition (co_files s1))"
    and "co_files s1 = (co_files s)\<lparr>cf_definition := cf_definition (co_files s1)\<rparr>"
    using step ensure_asset_returned [OF assms] by (auto split: option.splits)
  with Cons.IH [OF rest] show ?case
    by (metis coordination_files.update_convs(2) coordination_files.surjective ensured_all.simps(2) coordination_files.fold_congs(2))
qed simp

section \<open>What a migration that returns has done\<close>

definition file_digest :: "(pyval \<Rightarrow> string) \<Rightarrow> string \<Rightarrow> coordination_files \<Rightarrow> string" where
  "file_digest digest i f = (case map_of (cf_roadmaps f) i of None \<Rightarrow> [] | Some raw \<Rightarrow> digest raw)"

definition prepared_in :: "string \<Rightarrow> coordination_files \<Rightarrow> prepared_migration option res" where
  "prepared_in i f = (case map_of (cf_markers f) i of None \<Rightarrow> Inr None | Some raw \<Rightarrow> parse_prepared raw)"

lemma roadmap_name: "roadmap_ok r \<Longrightarrow> asset_name (rm_id r)"
  by (auto simp: roadmap_ok_def replace_roadmap_def roadmap_init_iff intro: validated_name)

lemma marker_name_ok: "asset_name i \<Longrightarrow> marker_name i = Inr i" "asset_name i \<Longrightarrow> roadmap_stem i = Inr i"
  by (simp_all add: marker_name_def roadmap_stem_def asset_name_def)

lemma quiet_marker_ops:
  assumes "quiet_others env" and "asset_name i"
  shows "roadmap_sha256 env digest i s = (a, s') \<Longrightarrow> a = Inr (file_digest digest i (co_files s)) \<and> co_files s' = co_files s"
    and "load_prepared i s = (b, s') \<Longrightarrow> b = prepared_in i (co_files s) \<and> s' = s"
    and "write_marker i x s = (c, s') \<Longrightarrow> c = Inr () \<and> co_files s' = (co_files s)\<lparr>cf_markers := dset i (PDict x) (cf_markers (co_files s))\<rparr>"
proof -
  show "roadmap_sha256 env digest i s = (a, s') \<Longrightarrow> a = Inr (file_digest digest i (co_files s)) \<and> co_files s' = co_files s"
    by (rule quiet_access [OF assms(1), of s]) (auto simp: roadmap_sha256_def marker_name_ok assms(2) file_digest_def)
  show "load_prepared i s = (b, s') \<Longrightarrow> b = prepared_in i (co_files s) \<and> s' = s"
    by (auto simp: load_prepared_def marker_name_ok assms(2) prepared_in_def ebind_def split: option.splits)
  show "write_marker i x s = (c, s') \<Longrightarrow> c = Inr () \<and> co_files s' = (co_files s)\<lparr>cf_markers := dset i (PDict x) (cf_markers (co_files s))\<rparr>"
    by (auto simp: write_marker_def marker_name_ok assms(2) emit_def ebind_def)
qed

text \<open>The plan of a preview: from what is stored, or from the marker that a migration has left.\<close>

definition planned_fresh :: "coordination_env \<Rightarrow> (pyval \<Rightarrow> string) \<Rightarrow> roadmap \<Rightarrow> coordination_files \<Rightarrow> migration_plan \<Rightarrow> bool" where
  "planned_fresh env digest r f p \<longleftrightarrow> (\<exists>definition rs al items conflicts.
     repository_load_optional (ce_path env) (cf_definition f) = Inr definition \<and> prepared_in (rm_id r) f = Inr None
     \<and> roadmap_list (cf_roadmaps f) = Inr rs \<and> identity_allocation (ce_sha env) definition rs = Inr al
     \<and> plan_items (rm_id r) al (rm_items r) = (items, conflicts)
     \<and> p = plan_for r definition (rm_revision r) (file_digest digest (rm_id r) f) items conflicts False)"

definition planned_again :: "coordination_env \<Rightarrow> (pyval \<Rightarrow> string) \<Rightarrow> roadmap \<Rightarrow> coordination_files \<Rightarrow> migration_plan \<Rightarrow> bool" where
  "planned_again env digest r f p \<longleftrightarrow> (\<exists>definition q.
     repository_load_optional (ce_path env) (cf_definition f) = Inr definition \<and> prepared_in (rm_id r) f = Inr (Some q)
     \<and> p = plan_for r definition (pr_source_revision q) (pr_source_digest q) (pr_items q)
         (prepared_conflicts r (file_digest digest (rm_id r) f) q) True)"

lemma preview_returned:
  assumes "quiet_others env" and run: "preview_migration env digest k s = (Inr p, s')"
    and r: "roadmap_load k (cf_roadmaps (co_files s)) = Inr r" "rm_schema_version r \<noteq> 2"
  shows "co_files s' = co_files s
    \<and> (planned_fresh env digest r (co_files s) p \<or> planned_again env digest r (co_files s) p)"
proof -
  note ops = quiet_ops [OF assms(1)] and name = roadmap_name [OF roadmap_load_facts(1) [OF r(1)]]
  note mops = quiet_marker_ops [OF assms(1) name]
  from run obtain r1 s1 x s2 where l: "load_roadmap env k s = (Inr r1, s1)" and x: "load_execution_optional env s1 = (Inr x, s2)"
    and rest: "(if rm_schema_version r1 = 2
     then ebind (roadmap_sha256 env digest (rm_id r1)) (\<lambda>h. ereturn (plan_for r1 x (rm_revision r1) h [] [] False))
     else ebind (load_prepared (rm_id r1)) (\<lambda>prepared. case prepared of
           Some p \<Rightarrow> preview_prepared env digest r1 x p | None \<Rightarrow> preview_fresh env digest r1 x)) s2 = (Inr p, s')"
    unfolding preview_migration_def by (elim ebind_InrE) (rule that)
  have r1: "r1 = r" and f: "co_files s2 = co_files s" and d: "repository_load_optional (ce_path env) (cf_definition (co_files s)) = Inr x"
    using ops(1) [OF l] ops(3) [OF x] r(1) by simp_all
  from rest r(2) obtain prepared s3 where pr: "load_prepared (rm_id r) s2 = (Inr prepared, s3)"
    and go: "(case prepared of Some p \<Rightarrow> preview_prepared env digest r x p | None \<Rightarrow> preview_fresh env digest r x) s3 = (Inr p, s')"
    by (auto simp: r1 elim!: ebind_InrE)
  have prepared: "prepared_in (rm_id r) (co_files s) = Inr prepared" "s3 = s2" using mops(2) [OF pr] f by simp_all
  show ?thesis
  proof (cases prepared)
    case None
    with go prepared(2) obtain rs s4 al items conflicts h where rs: "list_stored env s2 = (Inr rs, s4)"
      and al: "identity_allocation (ce_sha env) x rs = Inr al" "plan_items (rm_id r) al (rm_items r) = (items, conflicts)"
      and h: "roadmap_sha256 env digest (rm_id r) s4 = (Inr h, s')" and p: "p = plan_for r x (rm_revision r) h items conflicts False"
      by (auto simp: preview_fresh_def elim!: ebind_InrE split: prod.splits)
    have "roadmap_list (cf_roadmaps (co_files s)) = Inr rs" "co_files s4 = co_files s" using ops(4) [OF rs] f by simp_all
    then show ?thesis
      using d al None prepared(1) mops(1) [OF h] by (auto simp: p planned_fresh_def)
  next
    case (Some q)
    with go prepared(2) obtain h where h: "roadmap_sha256 env digest (rm_id r) s2 = (Inr h, s')"
      and p: "p = plan_for r x (pr_source_revision q) (pr_source_digest q) (pr_items q) (prepared_conflicts r h q) True"
      by (auto simp: preview_prepared_def elim!: ebind_InrE)
    show ?thesis using d mops(1) [OF h] prepared(1) f Some by (auto simp: p planned_again_def)
  qed
qed

text \<open>The definition's file once it exists, and what a promotion makes of both documents.\<close>

definition execution_file :: "coordination_env \<Rightarrow> pyval option \<Rightarrow> pyval option \<Rightarrow> bool" where
  "execution_file env h h0 \<longleftrightarrow> (case h of
      Some raw \<Rightarrow> h0 = h \<and> (\<exists>d. repository_load (ce_path env) h = Inr d)
    | None \<Rightarrow> (\<exists>empty created. definition_init 1 (PStr (ce_project env)) (PInt 1) (PStr (mode_value Mode_ASSISTED))
         default_policy [] [] [] [] = Inr empty \<and> repository_create empty None = Inr (created, h0)))"

definition promotes ::
    "coordination_env \<Rightarrow> migration_item pydict \<Rightarrow> roadmap \<Rightarrow> int \<Rightarrow> coordination_files \<Rightarrow> coordination_files \<Rightarrow> roadmap \<Rightarrow> bool" where
  "promotes env plans r n f f2 saved \<longleftrightarrow> (\<exists>h0 final r2 dir. execution_file env (cf_definition f) h0
     \<and> ensured_all (ce_path env) plans (rm_items r) h0 final \<and> migrated_roadmap plans r = Inr r2
     \<and> roadmap_save r2 n (cf_roadmaps f) = Inr (saved, dir) \<and> f2 = f\<lparr>cf_definition := final, cf_roadmaps := dir\<rparr>)"

definition marked :: "string \<Rightarrow> migration_plan \<Rightarrow> row \<Rightarrow> coordination_files \<Rightarrow> coordination_files" where
  "marked status p target f = f\<lparr>cf_markers := dset (mp_roadmap_id p) (PDict (marker_row status p target)) (cf_markers f)\<rparr>"

abbreviation completed :: "migration_plan \<Rightarrow> roadmap \<Rightarrow> coordination_files \<Rightarrow> coordination_files" where
  "completed p saved \<equiv> marked ''complete'' p [(''target_revision'', PInt (rm_revision saved))]"

lemma ensure_execution_returned:
  assumes "quiet_others env" and "ensure_execution env s = (Inr (), s')"
  shows "execution_file env (cf_definition (co_files s)) (cf_definition (co_files s'))
    \<and> co_files s' = (co_files s)\<lparr>cf_definition := cf_definition (co_files s')\<rparr>"
proof -
  from assms(2) obtain x s1 where x: "load_execution_optional env s = (Inr x, s1)"
    and rest: "(if x \<noteq> None then ereturn ()
     else ebind (elift (definition_init 1 (PStr (ce_project env)) (PInt 1) (PStr (mode_value Mode_ASSISTED))
         default_policy [] [] [] [])) (\<lambda>empty. ebind (create_execution env empty) (\<lambda>_. ereturn ()))) s1 = (Inr (), s')"
    unfolding ensure_execution_def by (elim ebind_InrE) (rule that)
  have f: "repository_load_optional (ce_path env) (cf_definition (co_files s)) = Inr x" "co_files s1 = co_files s"
    using quiet_ops(3) [OF assms(1) x] by simp_all
  show ?thesis
  proof (cases x)
    case None
    with f have "cf_definition (co_files s) = None" by (auto simp: repository_load_optional_def split: option.splits)
    with rest None show ?thesis using quiet_writes(3) [OF assms(1)] f(2)
      by (fastforce simp: execution_file_def elim!: ebind_InrE)
  next
    case (Some d)
    with f rest show ?thesis by (auto simp: execution_file_def repository_load_optional_def split: option.splits)
  qed
qed

lemma promote_items_returned:
  assumes quiet: "quiet_others env" and "asset_name (mp_roadmap_id p)" and "promote_items env r p n s = (Inr saved, s')"
  obtains f2 where "promotes env (plan_index (mp_items p)) r n (co_files s) f2 saved" and "co_files s' = completed p saved f2"
proof -
  from assms(3) obtain s1 s2 r2 s3 where e: "ensure_execution env s = (Inr (), s1)"
    and a: "ensure_assets env (plan_index (mp_items p)) (rm_items r) s1 = (Inr (), s2)"
    and m: "migrated_roadmap (plan_index (mp_items p)) r = Inr r2" and v: "save_roadmap env r2 n s2 = (Inr saved, s3)"
    and w: "write_complete p saved s3 = (Inr (), s')"
    by (auto simp: promote_items_def elim!: ebind_InrE)
  note e' = ensure_execution_returned [OF quiet e] and a' = ensure_assets_returned [OF quiet a]
  obtain dir where v': "roadmap_save r2 n (cf_roadmaps (co_files s2)) = Inr (saved, dir)"
    "co_files s3 = (co_files s2)\<lparr>cf_roadmaps := dir\<rparr>" using quiet_writes(1) [OF quiet v] by blast
  have same: "cf_roadmaps (co_files s2) = cf_roadmaps (co_files s)"
    "co_files s3 = (co_files s)\<lparr>cf_definition := cf_definition (co_files s2), cf_roadmaps := dir\<rparr>"
    using conjunct2 [OF e'] conjunct2 [OF a'] v'(2)
    by (metis coordination_files.select_convs(1) coordination_files.surjective coordination_files.update_convs(2))+
  have "promotes env (plan_index (mp_items p)) r n (co_files s) (co_files s3) saved"
    unfolding promotes_def using e' a' m v'(1) same by metis
  moreover have "co_files s' = completed p saved (co_files s3)"
    using quiet_marker_ops(3) [OF quiet assms(2) w [unfolded write_complete_def]] by (simp add: marked_def)
  ultimately show ?thesis by (rule that)
qed

lemma marked_simps [simp]:
  "cf_roadmaps (marked st p t f) = cf_roadmaps f" "cf_definition (marked st p t f) = cf_definition f"
  "cf_markers (marked st p t f) = dset (mp_roadmap_id p) (PDict (marker_row st p t)) (cf_markers f)"
  by (simp_all add: marked_def)

section \<open>Every step on the way\<close>

lemma repository_created:
  assumes "repository_create d None = Inr (created, h)" and "definition_ok d"
  shows "\<exists>x. repository_load path h = Inr x"
proof -
  have "definition_wf d None"
    using assms(1) by (intro validated_wf [OF assms(2)]) (auto simp: repository_create_def)
  moreover have ok: "definition_ok (d\<lparr>pd_revision := 1\<rparr>)" by (rule definition_ok_revision [OF assms(2)]) simp
  moreover have "h = Some (PDict (definition_as_mapping (d\<lparr>pd_revision := 1\<rparr>)))"
    using assms(1) by (auto simp: repository_create_def replace_definition_ok [OF ok] split: if_splits)
  ultimately show ?thesis using load_stored [of "d\<lparr>pd_revision := 1\<rparr>"] by auto
qed

lemma execution_file_loads: "execution_file env h h0 \<Longrightarrow> \<exists>d. repository_load (ce_path env) h0 = Inr d"
  by (auto simp: execution_file_def intro: repository_created new_definition_ok split: option.splits)

lemma execution_file_loaded: "repository_load (ce_path env) h = Inr d \<Longrightarrow> execution_file env h h"
  by (cases h) (auto simp: execution_file_def repository_load_def)

lemma ensured_all_loads:
  "ensured_all path plans items g g' \<Longrightarrow> plans_valid plans \<Longrightarrow> \<exists>d. repository_load path g = Inr d \<Longrightarrow> \<exists>d. repository_load path g' = Inr d"
proof (induction path plans items g g' rule: ensured_all.induct)
  case (2 path plans i items g g')
  then obtain mid where step: "case map_of plans (ri_id i) of None \<Rightarrow> mid = g
      | Some plan \<Rightarrow> ensured path i (mg_asset_id plan) g mid" and rest: "ensured_all path plans items mid g'" by auto
  have "\<exists>d. repository_load path mid = Inr d"
    using step 2(4) ensured_stores(2) plans_validD [OF 2(3)] by (auto split: option.splits)
  with 2(1) rest 2(3) show ?case by blast
qed simp

lemma load_execution_optional_triple:
  assumes "quiet_others env" and "repository_load_optional (ce_path env) (cf_definition f) = Inr x"
  shows "triple (stands P f0 f) (load_execution_optional env) (\<lambda>y s. y = x \<and> stands P f0 f s) E"
  unfolding load_execution_optional_def
  by (rule triple_bind [OF access_triple [OF assms(1)]])
    (rule read_triple [where g = "\<lambda>f. repository_load_optional (ce_path env) (cf_definition f)"], rule assms(2))

lemma ensure_execution_triple:
  assumes quiet: "quiet_others env" and h0: "execution_file env (cf_definition f) h0" and P: "P (f\<lparr>cf_definition := h0\<rparr>)"
  shows "triple (stands P f0 f) (ensure_execution env) (\<lambda>_. stands P f0 (f\<lparr>cf_definition := h0\<rparr>)) E"
proof (cases "cf_definition f")
  case None
  with h0 obtain empty created where empty: "definition_init 1 (PStr (ce_project env)) (PInt 1) (PStr (mode_value Mode_ASSISTED))
      default_policy [] [] [] [] = Inr empty" and created: "repository_create empty None = Inr (created, h0)"
    by (auto simp: execution_file_def)
  have "triple (stands P f0 f) (create_execution env empty) (\<lambda>_. stands P f0 (f\<lparr>cf_definition := h0\<rparr>)) E"
    unfolding create_execution_def
    by (rule triple_bind [OF access_triple [OF quiet]])
      (rule triple_weaken [OF write_triple [of "\<lambda>f. repository_create empty (cf_definition f)" f created h0 P Put_definition]],
       use None created P in simp_all)
  then have "triple (stands P f0 f) (ebind (create_execution env empty) (\<lambda>_. ereturn ())) (\<lambda>_. stands P f0 (f\<lparr>cf_definition := h0\<rparr>)) E"
    by (rule triple_bind) (simp add: triple_def)
  then show ?thesis
    unfolding ensure_execution_def empty ebind_elift
    by (intro triple_bind [OF load_execution_optional_triple [OF quiet, where x = None]] triple_conj_pre)
      (simp_all add: None repository_load_optional_def)
next
  case (Some raw)
  with h0 obtain d where d: "repository_load (ce_path env) (cf_definition f) = Inr d" "h0 = cf_definition f"
    by (auto simp: execution_file_def)
  have f: "f\<lparr>cf_definition := cf_definition f\<rparr> = f" by simp
  show ?thesis
    unfolding ensure_execution_def d(2) f
    by (rule triple_bind [OF load_execution_optional_triple [OF quiet, where x = "Some d"]])
      (use Some d(1) in \<open>auto simp: repository_load_optional_def triple_def\<close>)
qed

lemma ensure_asset_triple:
  fixes f :: coordination_files
  assumes quiet: "quiet_others env" and step: "ensured (ce_path env) i a (cf_definition f) h" and P: "P (f\<lparr>cf_definition := h\<rparr>)"
  shows "triple (stands P f0 f) (ensure_asset env i a) (\<lambda>_. stands P f0 (f\<lparr>cf_definition := h\<rparr>)) E"
proof -
  from step obtain desired d where desired: "v1_asset i a = Inr desired" and d: "repository_load (ce_path env) (cf_definition f) = Inr d"
    and step: "case asset_by_id d a of
          Some x \<Rightarrow> x = desired \<and> h = cf_definition f
        | None \<Rightarrow> (\<exists>d' saved. definition_with_asset d desired = Inr d'
            \<and> repository_save (ce_path env) d' (pd_revision d) (cf_definition f) = Inr (saved, h))" by (auto simp: ensured_def)
  have "triple (stands P f0 f) (case asset_by_id d a of
         Some existing \<Rightarrow> if existing \<noteq> desired then eraise (RoadmapError (''prepared Roadmap migration conflicts with existing canonical ''
             @ ri_kind i @ '' '' @ a)) else ereturn ()
       | None \<Rightarrow> ebind (upsert_asset env desired (pd_revision d)) (\<lambda>_. ereturn ())) (\<lambda>_. stands P f0 (f\<lparr>cf_definition := h\<rparr>)) E"
  proof (cases "asset_by_id d a")
    case None
    with step obtain d' saved where d': "definition_with_asset d desired = Inr d'"
      and save: "repository_save (ce_path env) d' (pd_revision d) (cf_definition f) = Inr (saved, h)" by auto
    have "triple (stands P f0 f) (upsert_asset env desired (pd_revision d)) (\<lambda>_. stands P f0 (f\<lparr>cf_definition := h\<rparr>)) E"
      unfolding upsert_asset_def
      by (rule triple_bind [OF load_execution_triple [OF quiet d]], rule triple_conj_pre)
        (auto simp: d' intro: triple_weaken [OF save_execution_triple [where P = P and f = f, OF quiet save P]])
    then show ?thesis by (simp add: None) (erule triple_bind, simp add: triple_def)
  next
    case (Some x)
    with step show ?thesis by (simp add: triple_def)
  qed
  then show ?thesis
    unfolding ensure_asset_def desired ebind_elift
    by (intro triple_bind [OF load_execution_triple [OF quiet d]] triple_conj_pre) (hypsubst, assumption)
qed

lemma ensure_assets_triple:
  fixes f :: coordination_files
  assumes quiet: "quiet_others env"
  shows "ensured_all (ce_path env) plans items (cf_definition f) final \<Longrightarrow>
    (\<And>us vs h. items = us @ vs \<Longrightarrow> ensured_all (ce_path env) plans us (cf_definition f) h \<Longrightarrow> P (f\<lparr>cf_definition := h\<rparr>)) \<Longrightarrow>
    triple (stands P f0 f) (ensure_assets env plans items) (\<lambda>_. stands P f0 (f\<lparr>cf_definition := final\<rparr>)) E"
proof (induction items arbitrary: f)
  case (Cons i items)
  from Cons.prems(1) obtain mid where step: "case map_of plans (ri_id i) of None \<Rightarrow> mid = cf_definition f
      | Some plan \<Rightarrow> ensured (ce_path env) i (mg_asset_id plan) (cf_definition f) mid"
    and rest: "ensured_all (ce_path env) plans items mid final" by auto
  have states: "P (f\<lparr>cf_definition := h\<rparr>)" if "items = us @ vs" "ensured_all (ce_path env) plans us mid h" for us vs h
    using Cons.prems(2) [of "i # us" vs h] that step by (auto split: option.splits)
  have "P (f\<lparr>cf_definition := mid\<rparr>)" by (rule states [of "[]" items]) simp_all
  then have "triple (stands P f0 f) (case map_of plans (ri_id i) of None \<Rightarrow> ereturn () | Some plan \<Rightarrow> ensure_asset env i (mg_asset_id plan))
      (\<lambda>_. stands P f0 (f\<lparr>cf_definition := mid\<rparr>)) E"
    using step ensure_asset_triple [OF quiet] by (auto simp: triple_def split: option.splits)
  moreover have "triple (stands P f0 (f\<lparr>cf_definition := mid\<rparr>)) (ensure_assets env plans items) (\<lambda>_. stands P f0 (f\<lparr>cf_definition := final\<rparr>)) E"
    using Cons.IH [of "f\<lparr>cf_definition := mid\<rparr>"] rest states by simp
  ultimately show ?case by (auto intro: triple_bind)
qed (simp add: triple_def)

section \<open>Previews and promotions, step by step\<close>

lemma sha256_triple:
  "quiet_others env \<Longrightarrow> asset_name i \<Longrightarrow>
     triple (stands P f0 f) (roadmap_sha256 env digest i) (\<lambda>x s. x = file_digest digest i f \<and> stands P f0 f s) E"
  unfolding roadmap_sha256_def marker_name_ok ebind_elift
  by (rule triple_bind [OF access_triple]) (auto simp: triple_def file_digest_def stands_def)

lemma load_prepared_triple:
  "asset_name i \<Longrightarrow> prepared_in i f = Inr x \<Longrightarrow> triple (stands P f0 f) (load_prepared i) (\<lambda>y s. y = x \<and> stands P f0 f s) E"
  unfolding load_prepared_def marker_name_ok ebind_elift
  by (auto simp: triple_def prepared_in_def stands_def ebind_def split: option.splits)

lemma list_stored_triple:
  "quiet_others env \<Longrightarrow> roadmap_list (cf_roadmaps f) = Inr rs \<Longrightarrow>
     triple (stands P f0 f) (list_stored env) (\<lambda>y s. y = rs \<and> stands P f0 f s) E"
  unfolding list_stored_def
  by (rule triple_bind [OF access_triple], assumption) (rule read_triple [where g = "\<lambda>f. roadmap_list (cf_roadmaps f)"])

lemma preview_triple:
  fixes f :: coordination_files
  assumes quiet: "quiet_others env" and r: "roadmap_load k (cf_roadmaps f) = Inr r" "rm_schema_version r \<noteq> 2"
    and p: "planned_fresh env digest r f p \<or> planned_again env digest r f p"
  shows "triple (stands P f0 f) (preview_migration env digest k) (\<lambda>y s. y = p \<and> stands P f0 f s) E"
proof -
  note name = roadmap_name [OF roadmap_load_facts(1) [OF r(1)]]
  note sha = sha256_triple [where P = P and ?f0.0 = f0 and f = f and digest = digest and E = E, OF quiet name]
  obtain x prepared where d: "repository_load_optional (ce_path env) (cf_definition f) = Inr x" "prepared_in (rm_id r) f = Inr prepared"
    and go: "triple (stands P f0 f) (case prepared of Some q \<Rightarrow> preview_prepared env digest r x q
      | None \<Rightarrow> preview_fresh env digest r x) (\<lambda>y s. y = p \<and> stands P f0 f s) E"
    using p
  proof
    assume "planned_fresh env digest r f p"
    then obtain x rs al items conflicts where d: "repository_load_optional (ce_path env) (cf_definition f) = Inr x"
      "prepared_in (rm_id r) f = Inr None" and rs: "roadmap_list (cf_roadmaps f) = Inr rs"
      and al: "identity_allocation (ce_sha env) x rs = Inr al" "plan_items (rm_id r) al (rm_items r) = (items, conflicts)"
      and p: "p = plan_for r x (rm_revision r) (file_digest digest (rm_id r) f) items conflicts False"
      unfolding planned_fresh_def by blast
    have "triple (stands P f0 f) (preview_fresh env digest r x) (\<lambda>y s. y = p \<and> stands P f0 f s) E"
      unfolding preview_fresh_def
      by (rule triple_bind [OF list_stored_triple [OF quiet rs]], rule triple_conj_pre)
        (simp add: al, rule triple_bind [OF sha], simp add: triple_def p)
    with d that [of x None] show ?thesis by simp
  next
    assume "planned_again env digest r f p"
    then obtain x q where d: "repository_load_optional (ce_path env) (cf_definition f) = Inr x"
      "prepared_in (rm_id r) f = Inr (Some q)"
      and p: "p = plan_for r x (pr_source_revision q) (pr_source_digest q) (pr_items q)
         (prepared_conflicts r (file_digest digest (rm_id r) f) q) True"
      unfolding planned_again_def by blast
    have "triple (stands P f0 f) (preview_prepared env digest r x q) (\<lambda>y s. y = p \<and> stands P f0 f s) E"
      unfolding preview_prepared_def by (rule triple_bind [OF sha]) (simp add: triple_def p)
    with d that [of x "Some q"] show ?thesis by simp
  qed
  have tail: "triple (stands P f0 f) (ebind (load_prepared (rm_id r)) (\<lambda>prepared. case prepared of
      Some q \<Rightarrow> preview_prepared env digest r x q | None \<Rightarrow> preview_fresh env digest r x)) (\<lambda>y s. y = p \<and> stands P f0 f s) E"
    by (rule triple_bind [OF load_prepared_triple [OF name d(2)]], rule triple_conj_pre) (hypsubst, rule go)
  show ?thesis
    unfolding preview_migration_def
    by (rule triple_bind [OF load_roadmap_triple [OF quiet r(1)]], rule triple_conj_pre, hypsubst,
        rule triple_bind [OF load_execution_optional_triple [OF quiet d(1)]], rule triple_conj_pre, hypsubst)
      (simp only: r(2) if_False tail)
qed

lemma write_marker_triple:
  fixes f :: coordination_files
  assumes "asset_name (mp_roadmap_id p)" and "P (marked st p t f)"
  shows "triple (stands P f0 f) (write_marker (mp_roadmap_id p) (marker_row st p t)) (\<lambda>_. stands P f0 (marked st p t f)) E"
  unfolding write_marker_def marker_name_ok [OF assms(1)] ebind_elift
  using emit_triple [where P = P and f = f and e = "Put_marker (mp_roadmap_id p) (PDict (marker_row st p t))"] assms(2)
  by (simp add: marked_def)

lemma promote_items_triple:
  fixes f :: coordination_files
  assumes quiet: "quiet_others env" and name: "asset_name (mp_roadmap_id p)" and valid: "plans_valid plans"
    and plans: "plans = plan_index (mp_items p)" and does: "promotes env plans r n f f2 saved"
    and P: "\<And>h. \<exists>d. repository_load (ce_path env) h = Inr d \<Longrightarrow>
        ensured_all (ce_path env) plans (rm_items r) h (cf_definition f2) \<Longrightarrow> P (f\<lparr>cf_definition := h\<rparr>)"
    and P2: "P f2" "P (completed p saved f2)"
  shows "triple (stands P f0 f) (promote_items env r p n) (\<lambda>x s. x = saved \<and> stands P f0 (completed p saved f2) s) E"
proof -
  from does obtain h0 final r2 dir where h0: "execution_file env (cf_definition f) h0"
    and all: "ensured_all (ce_path env) plans (rm_items r) h0 final" and r2: "migrated_roadmap plans r = Inr r2"
    and save: "roadmap_save r2 n (cf_roadmaps f) = Inr (saved, dir)" and f2: "f2 = f\<lparr>cf_definition := final, cf_roadmaps := dir\<rparr>"
    by (auto simp: promotes_def)
  note loads = execution_file_loads [OF h0]
  have states: "P (f\<lparr>cf_definition := h\<rparr>)" if split: "rm_items r = us @ vs" and us: "ensured_all (ce_path env) plans us h0 h" for us vs h
    using ensured_all_loads [OF us valid loads] ensured_all_resume [OF all [unfolded split] us valid]
    by (intro P) (simp_all add: split f2)
  have "P (f\<lparr>cf_definition := h0\<rparr>)" by (rule states [of "[]"]) simp_all
  then have e: "triple (stands P f0 f) (ensure_execution env) (\<lambda>_. stands P f0 (f\<lparr>cf_definition := h0\<rparr>)) E"
    by (rule ensure_execution_triple [where P = P, OF quiet h0])
  have a: "triple (stands P f0 (f\<lparr>cf_definition := h0\<rparr>)) (ensure_assets env plans (rm_items r))
      (\<lambda>_. stands P f0 (f\<lparr>cf_definition := final\<rparr>)) E"
    using ensure_assets_triple [where P = P and f = "f\<lparr>cf_definition := h0\<rparr>", OF quiet] all states by simp
  have f2': "f2 = f\<lparr>cf_definition := final\<rparr>\<lparr>cf_roadmaps := dir\<rparr>" by (simp add: f2)
  have v: "triple (stands P f0 (f\<lparr>cf_definition := final\<rparr>)) (save_roadmap env r2 n) (\<lambda>x s. x = saved \<and> stands P f0 f2 s) E"
    unfolding f2' by (rule save_roadmap_triple [where P = P and f = "f\<lparr>cf_definition := final\<rparr>", OF quiet])
      (use save P2(1) in \<open>simp_all add: f2\<close>)
  have w: "triple (stands P f0 f2) (write_complete p saved) (\<lambda>_. stands P f0 (completed p saved f2)) E"
    unfolding write_complete_def by (rule write_marker_triple [where P = P, OF name P2(2)])
  show ?thesis
    unfolding promote_items_def plans [symmetric] r2 ebind_elift
    by (rule triple_bind [OF e], rule triple_bind [OF a], rule triple_bind [OF v], rule triple_conj_pre, hypsubst,
        rule triple_bind [OF w]) (simp add: triple_def)
qed

section \<open>A migration and its resumption\<close>

definition migrating ::
    "coordination_env \<Rightarrow> (pyval \<Rightarrow> string) \<Rightarrow> string \<Rightarrow> coordination_files \<Rightarrow> roadmap \<Rightarrow> migration_plan \<Rightarrow> coordination_files
       \<Rightarrow> coordination_files \<Rightarrow> roadmap \<Rightarrow> bool" where
  "migrating env digest k f r p marker f2 saved \<longleftrightarrow> roadmap_load k (cf_roadmaps f) = Inr r \<and> rm_schema_version r \<noteq> 2
     \<and> (planned_fresh env digest r f p \<or> planned_again env digest r f p)
     \<and> mp_conflicts p = [] \<and> mp_source_revision p = rm_revision r
     \<and> marker = (if mp_resumed p then f else marked ''prepared'' p [] f)
     \<and> promotes env (plan_index (mp_items p)) r (rm_revision r) marker f2 saved"

lemma planned_id: "planned_fresh env digest r f p \<or> planned_again env digest r f p \<Longrightarrow> mp_roadmap_id p = rm_id r"
  by (auto simp: planned_fresh_def planned_again_def plan_for_def)

lemma apply_returned:
  assumes quiet: "quiet_others env" and run: "apply_migration env digest k n s = (Inr x, s')"
  shows "(\<exists>r. roadmap_load k (cf_roadmaps (co_files s)) = Inr r \<and> rm_schema_version r = 2 \<and> x = r \<and> co_files s' = co_files s)
    \<or> (\<exists>r p marker f2. migrating env digest k (co_files s) r p marker f2 x \<and> n = rm_revision r \<and> co_files s' = completed p x f2)"
proof -
  from run obtain r s1 where l: "load_roadmap env k s = (Inr r, s1)"
    and rest: "(if rm_schema_version r = 2 then ereturn r else if rm_revision r \<noteq> n
     then eraise (RoadmapConflictError (''roadmap revision conflict: expected '' @ py_str_int n
       @ '', current '' @ py_str_int (rm_revision r) @ ''; refresh before migrating''))
     else ebind (preview_migration env digest k) (\<lambda>p. if mp_conflicts p \<noteq> []
       then eraise (RoadmapError (''Roadmap migration has conflicts: '' @ py_join ''; '' (mp_conflicts p)))
       else if mp_source_revision p \<noteq> n
       then eraise (RoadmapConflictError ''prepared Roadmap migration targets a different source revision'')
       else apply_plan env r p n)) s1 = (Inr x, s')"
    unfolding apply_migration_def by (elim ebind_InrE) (rule that)
  have r: "roadmap_load k (cf_roadmaps (co_files s)) = Inr r" "co_files s1 = co_files s" using quiet_ops(1) [OF quiet l] by simp_all
  show ?thesis
  proof (cases "rm_schema_version r = 2")
    case False
    with rest have n: "rm_revision r = n" by (auto split: if_splits)
    with rest False obtain p s2 where p: "preview_migration env digest k s1 = (Inr p, s2)"
      and c: "mp_conflicts p = []" "mp_source_revision p = n" and go: "apply_plan env r p n s2 = (Inr x, s')"
      by (auto elim!: ebind_InrE split: if_splits)
    have planned: "co_files s2 = co_files s" "planned_fresh env digest r (co_files s) p \<or> planned_again env digest r (co_files s) p"
      using preview_returned [OF quiet p, of r] r False by simp_all
    have name: "asset_name (mp_roadmap_id p)"
      using planned_id [OF planned(2)] roadmap_name [OF roadmap_load_facts(1) [OF r(1)]] by simp
    from go obtain s3 where m: "ewhen (\<not> mp_resumed p) (write_prepared p) s2 = (Inr (), s3)"
      and go: "promote_items env r p n s3 = (Inr x, s')" by (auto simp: apply_plan_def elim!: ebind_InrE)
    have marker: "co_files s3 = (if mp_resumed p then co_files s else marked ''prepared'' p [] (co_files s))"
      using m planned(1) quiet_marker_ops(3) [OF quiet name, of "marker_row ''prepared'' p []"]
      by (auto simp: ewhen_def write_prepared_def marked_def split: if_splits)
    obtain f2 where "promotes env (plan_index (mp_items p)) r n (co_files s3) f2 x" "co_files s' = completed p x f2"
      by (rule promote_items_returned [OF quiet name go])
    with r(1) False planned(2) c n marker show ?thesis unfolding migrating_def by metis
  qed (use rest r in auto)
qed

lemma parsed_items_names: "parse_prepared raw = Inr (Some q) \<Longrightarrow> list_all (\<lambda>m. asset_name (mg_asset_id m)) (pr_items q)"
proof -
  assume "parse_prepared raw = Inr (Some q)"
  then obtain raws where items: "mapr migration_item_from_mapping raws = Inr (pr_items q)"
    by (auto simp: parse_prepared_def split: option.splits if_splits)
  show ?thesis
    by (rule mapr_all [OF items]) (auto simp: migration_item_from_mapping_def intro: validated_name split: option.splits)
qed

lemma roadmap_list_ok: "roadmap_list dir = Inr rs \<Longrightarrow> list_all roadmap_ok rs"
proof -
  assume "roadmap_list dir = Inr rs"
  then obtain docs where docs: "mapr (\<lambda>(stem, raw). load_document stem raw) (sort_key (\<lambda>(stem, raw). stem @ ''.yaml'') dir) = Inr docs"
    and rs: "rs = rev (sort_key (\<lambda>r. [rm_updated_at r, rm_title r, rm_id r]) (rev docs))" by (auto simp: roadmap_list_def)
  have "list_all roadmap_ok docs" by (rule mapr_all [OF docs]) (auto intro: load_document_Inr(1) split: prod.splits)
  then show ?thesis by (simp add: rs list_all_iff)
qed

lemma migrating_marker:
  assumes "migrating env digest k f r p marker f2 saved"
  obtains q where "prepared_in (rm_id r) marker = Inr (Some q)" and "prepared_conflicts r (file_digest digest (rm_id r) marker) q = []"
    and "pr_items q = mp_items p" and "pr_source_revision q = rm_revision r" and "pr_source_digest q = mp_source_digest p"
    and "plans_valid (plan_index (mp_items p))" and "mp_roadmap_id p = rm_id r" and "cf_roadmaps marker = cf_roadmaps f"
    and "cf_definition marker = cf_definition f"
proof -
  from assms have r: "roadmap_load k (cf_roadmaps f) = Inr r" and c: "mp_conflicts p = []" "mp_source_revision p = rm_revision r"
    and planned: "planned_fresh env digest r f p \<or> planned_again env digest r f p"
    and m: "marker = (if mp_resumed p then f else marked ''prepared'' p [] f)" by (auto simp: migrating_def)
  note id = planned_id [OF planned] and ok = roadmap_load_facts(1) [OF r]
  note name = roadmap_name [OF ok]
  have valid: "plans_valid (plan_index (mp_items p))" if "list_all (\<lambda>m. asset_name (mg_asset_id m)) (mp_items p)"
    using that set_py_dict_subset [of "map (\<lambda>i. (mg_item_id i, i)) (mp_items p)"]
    by (fastforce simp: plans_valid_def plan_index_def list_all_iff dest: asset_name_strip(1))
  have same: "cf_roadmaps marker = cf_roadmaps f" "cf_definition marker = cf_definition f" by (simp_all add: m)
  from planned show ?thesis
  proof
    assume "planned_fresh env digest r f p"
    then obtain x rs al items where rs: "roadmap_list (cf_roadmaps f) = Inr rs"
      and al: "identity_allocation (ce_sha env) x rs = Inr al" "plan_items (rm_id r) al (rm_items r) = (items, [])"
      and p: "p = plan_for r x (rm_revision r) (file_digest digest (rm_id r) f) items [] False"
      using c(1) unfolding planned_fresh_def by (auto simp: plan_for_def)
    have "list_all item_ok (rm_items r)" using ok by (simp add: roadmap_ok_def)
    moreover have "asset_name a" if "map_of al i = Some a" for i a
      using that by (rule identity_allocation_Inr(3) [OF al(1) roadmap_list_ok [OF rs]])
    ultimately have facts: "map (\<lambda>m. (mg_item_id m, mg_kind m)) items = map (\<lambda>i. (ri_id i, ri_kind i)) (filter (\<lambda>i. ri_kind i \<in> set project_kinds) (rm_items r))"
      "list_all migration_item_ok items" using plan_items_facts [OF _ al(2)] by blast+
    have items: "mp_items p = items" "mp_source_digest p = file_digest digest (rm_id r) f" "\<not> mp_resumed p" by (simp_all add: p plan_for_def)
    let ?q = "\<lparr>pr_roadmap_id = mp_roadmap_id p, pr_source_revision = mp_source_revision p,
      pr_source_digest = mp_source_digest p, pr_items = mp_items p\<rparr>"
    have "prepared_in (rm_id r) marker = Inr (Some ?q)"
      using marker_round_trip [of p] name facts(2) by (simp add: prepared_in_def m items id)
    moreover have "prepared_conflicts r (file_digest digest (rm_id r) marker) ?q = []"
      using facts(1) by (simp add: prepared_conflicts_def id c items file_digest_def same)
    moreover have "list_all (\<lambda>m. asset_name (mg_asset_id m)) (mp_items p)"
      using facts(2) by (simp add: items list_all_iff migration_item_ok_def)
    ultimately show ?thesis using valid id same c by (intro that [of ?q]) simp_all
  next
    assume "planned_again env digest r f p"
    then obtain x q where q: "prepared_in (rm_id r) f = Inr (Some q)"
      and p: "p = plan_for r x (pr_source_revision q) (pr_source_digest q) (pr_items q)
         (prepared_conflicts r (file_digest digest (rm_id r) f) q) True" unfolding planned_again_def by blast
    have "list_all (\<lambda>m. asset_name (mg_asset_id m)) (mp_items p)"
      using q parsed_items_names by (auto simp: prepared_in_def p plan_for_def split: option.splits)
    then show ?thesis using q c valid id by (intro that) (simp_all add: p plan_for_def m)
  qed
qed

text \<open>The migrated Roadmap.\<close>

lemma migrated_roadmap_ok:
  assumes "migrated_roadmap plans r = Inr r2" and "roadmap_ok r"
  shows "roadmap_ok r2" and "rm_id r2 = rm_id r" and "rm_schema_version r2 = 2" and "rm_relations r2 = rm_relations r"
    and "mapr (migrated_item plans) (rm_items r) = Inr (rm_items r2)" and "rm_title r2 = rm_title r"
    and "rm_description r2 = rm_description r"
proof -
  from assms(1) obtain items where items: "mapr (migrated_item plans) (rm_items r) = Inr items"
    and r2: "replace_roadmap (r\<lparr>rm_schema_version := 2, rm_items := items\<rparr>) = Inr r2" by (auto simp: migrated_roadmap_def)
  have "list_all item_ok items"
    unfolding list_all_iff
  proof
    fix y assume "y \<in> set items"
    with items obtain x where "x \<in> set (rm_items r)" "migrated_item plans x = Inr y"
      by (fastforce simp: mapr_Inr_iff list_all2_conv_all_nth in_set_conv_nth)
    moreover have "item_ok x" if "x \<in> set (rm_items r)" for x using assms(2) that by (simp add: roadmap_ok_def list_all_iff)
    ultimately show "item_ok y" by (auto simp: migrated_item_def split: option.splits intro: item_init_ok)
  qed
  from replace_roadmap_ok [OF r2] this show "roadmap_ok r2" using roadmap_ok_lists(2) [OF assms(2)] by simp
  have old: "roadmap_init (rm_schema_version r) (PStr (rm_id r)) (PStr (rm_title r)) (PStr (rm_description r)) (rm_revision r)
      (rm_created_at r) (rm_updated_at r) (rm_items r) (rm_relations r) = Inr r"
    using assms(2) by (simp add: roadmap_ok_def replace_roadmap_def)
  from r2 old items show "rm_id r2 = rm_id r" and "rm_schema_version r2 = 2" and "rm_relations r2 = rm_relations r"
    and "mapr (migrated_item plans) (rm_items r) = Inr (rm_items r2)" and "rm_title r2 = rm_title r"
    and "rm_description r2 = rm_description r"
    by (simp_all add: replace_roadmap_def roadmap_init_iff)
qed

lemma promotes_loads:
  assumes "promotes env plans r (rm_revision r) g f2 saved" and "roadmap_load k dir = Inr r" and "cf_roadmaps g = dir"
  shows "roadmap_load k (cf_roadmaps f2) = Inr saved" and "rm_schema_version saved = 2"
proof -
  note ok = roadmap_load_facts [OF assms(2)]
  from assms(1) obtain r2 dir' where r2: "migrated_roadmap plans r = Inr r2"
    and save: "roadmap_save r2 (rm_revision r) dir = Inr (saved, dir')" and f2: "cf_roadmaps f2 = dir'"
    using assms(3) by (auto simp: promotes_def)
  note m = migrated_roadmap_ok [OF r2 ok(1)]
  obtain x where "saved = r2\<lparr>rm_revision := rm_revision r + 1\<rparr>" "roadmap_load (rm_id r2) dir' = Inr saved"
    using roadmap_save_Inr [OF save m(1)] by metis
  then show "rm_schema_version saved = 2" "roadmap_load k (cf_roadmaps f2) = Inr saved"
    using m(2,3) ok(2) roadmap_stem_ok [OF ok(1)] by (auto simp: roadmap_load_def load_required_def f2 split: option.splits)
qed

text \<open>The files a migration can leave when it dies, and the migration that runs on them.\<close>

definition midway ::
    "coordination_env \<Rightarrow> coordination_files \<Rightarrow> roadmap \<Rightarrow> migration_plan \<Rightarrow> coordination_files \<Rightarrow> coordination_files
       \<Rightarrow> roadmap \<Rightarrow> coordination_files \<Rightarrow> bool" where
  "midway env f r p marker f2 saved g \<longleftrightarrow> g = f
     \<or> (\<exists>h. g = marker\<lparr>cf_definition := h\<rparr> \<and> (h = cf_definition f \<or> ((\<exists>d. repository_load (ce_path env) h = Inr d)
          \<and> ensured_all (ce_path env) (plan_index (mp_items p)) (rm_items r) h (cf_definition f2))))
     \<or> g = f2 \<or> g = completed p saved f2"

lemma midway_promotes:
  assumes "promotes env plans r n marker f2 saved" and "cf_definition marker = cf_definition f"
    and "h = cf_definition f \<or> ((\<exists>d. repository_load (ce_path env) h = Inr d) \<and> ensured_all (ce_path env) plans (rm_items r) h (cf_definition f2))"
  shows "promotes env plans r n (marker\<lparr>cf_definition := h\<rparr>) f2 saved"
proof -
  from assms(1) obtain h0 final r2 dir where parts: "execution_file env (cf_definition marker) h0"
    "ensured_all (ce_path env) plans (rm_items r) h0 final" "migrated_roadmap plans r = Inr r2"
    "roadmap_save r2 n (cf_roadmaps marker) = Inr (saved, dir)" "f2 = marker\<lparr>cf_definition := final, cf_roadmaps := dir\<rparr>"
    by (auto simp: promotes_def)
  have "\<exists>h0. execution_file env h h0 \<and> ensured_all (ce_path env) plans (rm_items r) h0 final"
    using assms(2,3) parts(1,2,5) execution_file_loaded by auto
  with parts(3-5) show ?thesis by (auto simp: promotes_def)
qed

lemma apply_plan_midway:
  fixes marker :: coordination_files
  assumes quiet: "quiet_others env" and m: "migrating env digest k f r p marker f2 saved"
    and h: "h = cf_definition f \<or> ((\<exists>d. repository_load (ce_path env) h = Inr d)
      \<and> ensured_all (ce_path env) (plan_index (mp_items p)) (rm_items r) h (cf_definition f2))"
    and p': "mp_items p' = mp_items p" "marker_row ''complete'' p' = marker_row ''complete'' p" "mp_roadmap_id p' = mp_roadmap_id p"
  shows "triple (stands (midway env f r p marker f2 saved) f0 (marker\<lparr>cf_definition := h\<rparr>)) (promote_items env r p' (rm_revision r))
    (\<lambda>x s. x = saved \<and> stands (midway env f r p marker f2 saved) f0 (completed p saved f2) s) E"
proof -
  obtain q where facts: "plans_valid (plan_index (mp_items p))" "mp_roadmap_id p = rm_id r" "cf_definition marker = cf_definition f"
    by (rule migrating_marker [OF m])
  have r: "roadmap_load k (cf_roadmaps f) = Inr r" and does: "promotes env (plan_index (mp_items p)) r (rm_revision r) marker f2 saved"
    using m unfolding migrating_def by blast+
  have "asset_name (mp_roadmap_id p')" using roadmap_name [OF roadmap_load_facts(1) [OF r]] facts(2) p'(3) by simp
  moreover have "completed p' saved f2 = completed p saved f2" using p' by (simp add: marked_def)
  ultimately show ?thesis
    using promote_items_triple [where P = "midway env f r p marker f2 saved" and f = "marker\<lparr>cf_definition := h\<rparr>" and p = p',
        OF quiet _ facts(1) _ midway_promotes [OF does facts(3) h]] p'(1)
    by (auto simp: midway_def)
qed

lemma apply_plan_resumed: "mp_resumed p \<Longrightarrow> apply_plan env r p n = promote_items env r p n"
  by (simp add: apply_plan_def ewhen_def ebind_def fun_eq_iff)

lemma resume_triple:
  fixes g :: coordination_files
  assumes quiet: "quiet_others env" and m: "migrating env digest k f r p marker f2 saved"
    and g: "midway env f r p marker f2 saved g"
  shows "triple (stands (midway env f r p marker f2 saved) f0 g) (apply_migration env digest k (rm_revision r))
    (\<lambda>x s. \<exists>g'. (x = saved \<and> cf_roadmaps g' = cf_roadmaps f2 \<and> cf_definition g' = cf_definition f2)
       \<and> stands (midway env f r p marker f2 saved) f0 g' s) E"
proof -
  let ?P = "midway env f r p marker f2 saved"
  from m have r: "roadmap_load k (cf_roadmaps f) = Inr r" "rm_schema_version r \<noteq> 2" and c: "mp_conflicts p = []" "mp_source_revision p = rm_revision r"
    and planned: "planned_fresh env digest r f p \<or> planned_again env digest r f p"
    and mk: "marker = (if mp_resumed p then f else marked ''prepared'' p [] f)"
    and does: "promotes env (plan_index (mp_items p)) r (rm_revision r) marker f2 saved"
    unfolding migrating_def by blast+
  obtain q where q: "prepared_in (rm_id r) marker = Inr (Some q)" "prepared_conflicts r (file_digest digest (rm_id r) marker) q = []"
    "pr_items q = mp_items p" "pr_source_revision q = rm_revision r" "pr_source_digest q = mp_source_digest p"
    and id: "mp_roadmap_id p = rm_id r" and same: "cf_roadmaps marker = cf_roadmaps f" "cf_definition marker = cf_definition f"
    by (rule migrating_marker [OF m])
  note name = roadmap_name [OF roadmap_load_facts(1) [OF r(1)]]
  have finished: "cf_roadmaps (completed p saved f2) = cf_roadmaps f2" "cf_definition (completed p saved f2) = cf_definition f2" by simp_all
  have runs: "triple (stands ?P f0 g) (apply_migration env digest k (rm_revision r))
    (\<lambda>x s. \<exists>g'. (x = saved \<and> cf_roadmaps g' = cf_roadmaps f2 \<and> cf_definition g' = cf_definition f2) \<and> stands ?P f0 g' s) E"
    if load: "roadmap_load k (cf_roadmaps g) = Inr r" and p': "planned_fresh env digest r g p' \<or> planned_again env digest r g p'"
      and ok: "mp_conflicts p' = []" "mp_source_revision p' = rm_revision r"
      and go: "triple (stands ?P f0 g) (apply_plan env r p' (rm_revision r)) (\<lambda>x s. x = saved \<and> stands ?P f0 (completed p saved f2) s) E"
    for p'
    unfolding apply_migration_def
    by (rule triple_bind [OF load_roadmap_triple [OF quiet load]], rule triple_conj_pre, hypsubst, simp add: r(2),
        rule triple_bind [OF preview_triple [OF quiet load r(2) p']], rule triple_conj_pre, hypsubst, simp add: ok,
        rule triple_weaken [OF go]) (use finished in blast)+
  have fresh: ?thesis if "g = f"
  proof -
    have "triple (stands ?P f0 f) (ewhen (\<not> mp_resumed p) (write_prepared p)) (\<lambda>_. stands ?P f0 marker) E"
    proof (cases "mp_resumed p")
      case False
      have "?P marker" by (auto simp: midway_def same intro: exI [of _ "cf_definition f"])
      with write_marker_triple [of p ?P "''prepared''" "[]" f] name id mk False show ?thesis
        by (simp add: ewhen_def write_prepared_def)
    qed (simp add: ewhen_def mk triple_def)
    moreover have "triple (stands ?P f0 marker) (promote_items env r p (rm_revision r)) (\<lambda>x s. x = saved \<and> stands ?P f0 (completed p saved f2) s) E"
      using apply_plan_midway [OF quiet m, of "cf_definition f" p] by (simp add: same [symmetric])
    ultimately have "triple (stands ?P f0 g) (apply_plan env r p (rm_revision r)) (\<lambda>x s. x = saved \<and> stands ?P f0 (completed p saved f2) s) E"
      unfolding apply_plan_def that by (rule triple_bind)
    then show ?thesis using r(1) planned c by (intro runs [of p]) (simp_all add: that)
  qed
  have resumed: ?thesis if "g = marker\<lparr>cf_definition := h\<rparr>" and h: "h = cf_definition f \<or> ((\<exists>d. repository_load (ce_path env) h = Inr d)
      \<and> ensured_all (ce_path env) (plan_index (mp_items p)) (rm_items r) h (cf_definition f2))" for h
  proof -
    have "\<exists>x. repository_load_optional (ce_path env) (cf_definition f) = Inr x"
      using planned unfolding planned_fresh_def planned_again_def by blast
    moreover have "\<exists>x. repository_load_optional (ce_path env) h = Inr x" if "repository_load (ce_path env) h = Inr d" for d
      using that by (cases h) (auto simp: repository_load_optional_def)
    ultimately obtain x where x: "repository_load_optional (ce_path env) h = Inr x" using h by blast
    define p' where "p' = plan_for r x (pr_source_revision q) (pr_source_digest q) (pr_items q) [] True"
    have "planned_again env digest r g p'"
      unfolding planned_again_def using q x by (auto simp: that(1) p'_def prepared_in_def file_digest_def)
    moreover have "mp_items p' = mp_items p" "marker_row ''complete'' p' = marker_row ''complete'' p" "mp_roadmap_id p' = mp_roadmap_id p"
      "mp_conflicts p' = []" "mp_source_revision p' = rm_revision r" "mp_resumed p'"
      using q c id by (auto simp: p'_def plan_for_def marker_row_def fun_eq_iff)
    moreover from this have "triple (stands ?P f0 g) (apply_plan env r p' (rm_revision r)) (\<lambda>x s. x = saved \<and> stands ?P f0 (completed p saved f2) s) E"
      using apply_plan_midway [OF quiet m h, of p'] by (simp add: apply_plan_resumed that(1))
    ultimately show ?thesis using r(1) by (intro runs [of p']) (simp_all add: that(1) same)
  qed
  have stored: ?thesis if "cf_roadmaps g = cf_roadmaps f2" "cf_definition g = cf_definition f2"
  proof -
    have "roadmap_load k (cf_roadmaps g) = Inr saved" "rm_schema_version saved = 2"
      using promotes_loads [OF does r(1) same(1)] that(1) by simp_all
    then show ?thesis
      unfolding apply_migration_def
      by (intro triple_bind [OF load_roadmap_triple [OF quiet]] triple_conj_pre) (use that in \<open>auto simp: triple_def\<close>)
  qed
  from g consider "g = f" | h where "g = marker\<lparr>cf_definition := h\<rparr>"
      "h = cf_definition f \<or> ((\<exists>d. repository_load (ce_path env) h = Inr d)
        \<and> ensured_all (ce_path env) (plan_index (mp_items p)) (rm_items r) h (cf_definition f2))"
    | "cf_roadmaps g = cf_roadmaps f2" "cf_definition g = cf_definition f2"
    unfolding midway_def using finished by blast
  then show ?thesis by cases (fact fresh, fact resumed, fact stored)
qed

end
