(* ===== verification/Road_Requests.thy ===== *)
theory Road_Requests
  imports Road_Promotion
begin

text \<open>
  The requests a project is served, the migration of its Roadmaps among them, each by a process that may
  die: whatever they are, the files stay readable.
\<close>

section \<open>The migration keeps documents readable\<close>

lemma safe_sha256 [safe_rules]: "tidy_others env \<Longrightarrow> safe f0 (roadmap_sha256 env digest i) (\<lambda>_. True)"
  unfolding roadmap_sha256_def by (rule TrueI safe_rules | assumption)+

lemma safe_load_prepared [safe_rules]: "safe f0 (load_prepared i) (\<lambda>_. True)"
  unfolding load_prepared_def by (rule TrueI safe_any [OF safe_elift] safe_rules)+

lemma safe_write_marker [safe_rules]: "safe f0 (write_marker i row) (\<lambda>_. True)"
  unfolding write_marker_def by (rule TrueI safe_rules safe_emit | simp add: readable_def)+

lemma safe_load_optional [safe_rules]: "tidy_others env \<Longrightarrow> safe f0 (load_execution_optional env) (\<lambda>_. True)"
  unfolding load_execution_optional_def
  by (rule safe_bind [OF safe_access], assumption)
    (rule safe_any [OF safe_read [where g = "\<lambda>f. repository_load_optional (ce_path env) (cf_definition f)"]])

lemma safe_preview [safe_rules]: "tidy_others env \<Longrightarrow> safe f0 (preview_migration env digest i) (\<lambda>_. True)"
  unfolding preview_migration_def preview_prepared_def preview_fresh_def by (rule TrueI safe_rules | assumption)+

lemma safe_upsert_asset:
  "tidy_others env \<Longrightarrow> asset_ok asset \<Longrightarrow> safe f0 (upsert_asset env asset n) (\<lambda>_. True)"
  unfolding upsert_asset_def
  by (rule TrueI safe_rules | assumption | (fastforce dest: definition_with_asset_valid(1))[1])+

lemma safe_ensure_asset [safe_rules]: "tidy_others env \<Longrightarrow> safe f0 (ensure_asset env i a) (\<lambda>_. True)"
  unfolding ensure_asset_def
  by (rule TrueI safe_upsert_asset safe_rules | assumption | erule v1_asset_ok)+

lemma safe_ensure_assets [safe_rules]: "tidy_others env \<Longrightarrow> safe f0 (ensure_assets env plans items) (\<lambda>_. True)"
proof (induction items)
  case (Cons i items)
  then show ?case unfolding ensure_assets.simps by (intro safe_bind [of _ _ "\<lambda>_. True"] safe_option safe_pure safe_ensure_asset TrueI)
qed (simp add: safe_pure)

lemma safe_ensure_execution [safe_rules]: "tidy_others env \<Longrightarrow> safe f0 (ensure_execution env) (\<lambda>_. True)"
  unfolding ensure_execution_def by (rule TrueI safe_rules | assumption | erule new_definition_ok)+

lemma safe_promote [safe_rules]: "tidy_others env \<Longrightarrow> roadmap_ok r \<Longrightarrow> safe f0 (promote_items env r p n) (\<lambda>_. True)"
  unfolding promote_items_def write_complete_def
  by (rule TrueI safe_rules | assumption | erule (1) migrated_roadmap_ok(1))+

lemma safe_apply_migration [safe_rules]: "tidy_others env \<Longrightarrow> safe f0 (apply_migration env digest i n) (\<lambda>_. True)"
  unfolding apply_migration_def apply_plan_def write_prepared_def by (rule TrueI safe_rules | assumption)+

lemma safe_migrations:
  assumes "tidy_others env"
  shows "safe f0 (migration_preview env digest i) (\<lambda>_. True)" "safe f0 (migrate_v1 env digest i n) (\<lambda>_. True)"
  unfolding migration_preview_def migrate_v1_def assert_coordination_clear_def
  by (rule TrueI safe_rules assms)+

section \<open>Serving requests\<close>

text \<open>What a project is asked, with what the browser sends; the answers are not needed here.\<close>

datatype roadmap_request =
    Get string | List_all | Create string string string | Metadata string int string string
  | Lane string int string string string
  | Move string int int string string string string string string
  | Upsert string int int row | Remove string string int
  | Link string int string string string string string int
  | Relate string int string string string | Unrelate string int string string string
  | Delete string int bool | References string | Resolve pyval | Reconcile
  | Preview_migration string | Migrate string int

definition silently :: "'a coordination \<Rightarrow> unit coordination" where
  "silently m = ebind m (\<lambda>_. ereturn ())"

fun serve :: "coordination_env \<Rightarrow> (pyval \<Rightarrow> string) \<Rightarrow> (string \<Rightarrow> bool) \<Rightarrow> roadmap_request \<Rightarrow> unit coordination" where
  "serve env digest linkable (Get i) = silently (get_roadmap env i)"
| "serve env digest linkable List_all = silently (list_roadmaps env)"
| "serve env digest linkable (Create title description i) = silently (create_roadmap env title description i)"
| "serve env digest linkable (Metadata i n title description) = silently (update_metadata env i n title description)"
| "serve env digest linkable (Lane i n lane target placement) = silently (move_lane env i n lane target placement)"
| "serve env digest linkable (Move i n m item lane start target target_id placement) =
     silently (move_item env i n m item lane start target target_id placement)"
| "serve env digest linkable (Upsert i n m raw) = silently (upsert_item env linkable i n m raw)"
| "serve env digest linkable (Remove i item n) = silently (remove_item env i item n)"
| "serve env digest linkable (Link i n task item lane start target order) =
     silently (link_task env linkable i n task item lane start target order)"
| "serve env digest linkable (Relate i n a b kind) = silently (upsert_relation env i n a b kind)"
| "serve env digest linkable (Unrelate i n a b kind) = silently (delete_relation env i n a b kind)"
| "serve env digest linkable (Delete i n acknowledged) = silently (delete_roadmap env i n acknowledged)"
| "serve env digest linkable (References task) = silently (task_references env task)"
| "serve env digest linkable (Resolve action) = silently (resolve env action)"
| "serve env digest linkable Reconcile = silently (reconcile_pending env)"
| "serve env digest linkable (Preview_migration i) = silently (migration_preview env digest i)"
| "serve env digest linkable (Migrate i n) = silently (migrate_v1 env digest i n)"

text \<open>One process after another, each with its environment, the digest of files, the Tasks that can be linked, its request and the effect it dies after.\<close>

type_synonym served = "coordination_env \<times> (pyval \<Rightarrow> string) \<times> (string \<Rightarrow> bool) \<times> roadmap_request \<times> nat"

definition serve_all :: "served list \<Rightarrow> coordination_files \<Rightarrow> coordination_files" where
  "serve_all steps f = foldl (\<lambda>f (env, digest, linkable, request, n). crash n (serve env digest linkable request) f) f steps"

lemma safe_silently [safe_rules]: "safe f0 m (\<lambda>_. True) \<Longrightarrow> safe f0 (silently m) (\<lambda>_. True)"
  unfolding silently_def by (rule TrueI safe_rules | assumption)+

lemma safe_list_roadmaps: "tidy_others env \<Longrightarrow> safe f0 (list_roadmaps env) (\<lambda>_. True)"
  unfolding list_roadmaps_def by (rule TrueI safe_rules | assumption)+

lemma safe_edits:
  assumes "tidy_others env"
  shows "safe f0 (update_metadata env i n title description) (\<lambda>_. True)" "safe f0 (remove_item env i item n) (\<lambda>_. True)"
    "safe f0 (upsert_relation env i n a b kind) (\<lambda>_. True)" "safe f0 (delete_relation env i n a b kind) (\<lambda>_. True)"
  unfolding update_metadata_def remove_item_def upsert_relation_def delete_relation_def
  by (rule safe_edit [OF assms]; blast intro: with_metadata_ok delete_item_ok relations_ok)+

lemma safe_serve: "tidy_others env \<Longrightarrow> safe f0 (serve env digest linkable request) (\<lambda>_. True)"
  by (cases request)
    (simp_all add: safe_silently safe_get safe_list_roadmaps safe_create safe_edits safe_move_lane safe_move safe_upsert
      safe_link safe_delete safe_references safe_resolve safe_reconcile safe_migrations)

lemma crash_readable:
  assumes "safe f m Q" and "readable f"
  shows "readable (crash n m f)"
proof -
  obtain result s where run: "m (boot f) = (result, s)" by (cases "m (boot f)")
  have "sound f (boot f)" using stands_boot [of readable f, OF assms(2)] by (simp add: sound_def boot_def)
  with assms(1) run have "sound f s"
    by (cases result) (auto simp: safe_def triple_def dest!: spec [of _ "boot f"])
  then show ?thesis by (auto simp: crash_def run sound_def stands_def intro: always_take)
qed

lemma serve_all_readable:
  "list_all (\<lambda>(env, digest, linkable, request, n). tidy_others env) steps \<Longrightarrow> readable f \<Longrightarrow> readable (serve_all steps f)"
proof (induction steps arbitrary: f)
  case (Cons step steps)
  obtain env digest linkable request n where step: "step = (env, digest, linkable, request, n)" by (cases step)
  with Cons.prems crash_readable [OF safe_serve] have "readable (crash n (serve env digest linkable request) f)" by simp
  from Cons.IH [OF _ this] Cons.prems(1) show ?case by (simp add: serve_all_def step)
qed (simp add: serve_all_def)

lemma documents_readable_list: "documents_readable dir file \<Longrightarrow> \<exists>rs. roadmap_list dir = Inr rs"
proof -
  assume "documents_readable dir file"
  then have "\<exists>y. (case p of (stem, raw) \<Rightarrow> load_document stem raw) = Inr y"
    if "p \<in> set (sort_key (\<lambda>(stem, raw). stem @ ''.yaml'') dir)" for p
    using that by (fastforce simp: documents_readable_def list_all_iff not_isl split: prod.splits)
  from mapr_total [where f = "\<lambda>(stem, raw). load_document stem raw", OF this] obtain rs where
    "mapr (\<lambda>(stem, raw). load_document stem raw) (sort_key (\<lambda>(stem, raw). stem @ ''.yaml'') dir) = Inr rs" by blast
  then show ?thesis by (simp add: roadmap_list_def)
qed

end
