(* ===== verification/Spec_Roadmap.thy ===== *)
theory Spec_Roadmap
  imports Road_Sample Road_Requests Road_Handlers
begin

text \<open>
  Properties of Roadmaps: which documents are accepted, that files give them back, what a move does,
  and the coordinated edit of a Roadmap and the Project Execution definition, which survives crashes
  and never overwrites what it did not expect.
\<close>

section \<open>Documents\<close>

text \<open>C18: the constructor of a Roadmap accepts exactly the well-formed documents: a supported schema,
  a valid identifier, a title, a revision from 1, distinct items, no Task linked twice, project items
  of the form the schema asks for, relations between items of the Roadmap without duplicates, and
  no cycle of \<open>blocks\<close> relations. It changes nothing but the space around the three texts.\<close>

theorem roadmap_accepts_exactly:
  "roadmap_init schema id0 title0 description0 revision created updated items relations = Inr r \<longleftrightarrow>
     validate_roadmap_id id0 ''roadmap id'' = Inr (rm_id r)
     \<and> road_text title0 ''roadmap title'' True 500 = Inr (rm_title r)
     \<and> road_text description0 ''roadmap description'' False 20000 = Inr (rm_description r)
     \<and> rm_schema_version r = schema \<and> rm_revision r = revision \<and> rm_created_at r = created
     \<and> rm_updated_at r = updated \<and> rm_items r = items \<and> rm_relations r = relations
     \<and> (schema = 1 \<or> schema = 2) \<and> 1 \<le> revision
     \<and> distinct (map ri_id items) \<and> distinct (linked_tasks items)
     \<and> list_all (project_item_wf schema) items
     \<and> relations_wf (map ri_id items) relations \<and> acyclic (blocks relations)"
  by (auto simp: roadmap_init_iff roadmap_wf_def list_all_iff)

text \<open>C31: a Roadmap read from a document is read back unchanged after it is written, and one saved
  over a stored Roadmap of the revision expected is loaded back with the next revision, every other
  Roadmap of the directory as before.\<close>

theorem roadmap_survives_file:
  assumes "roadmap_from_mapping raw = Inr r" and "roadmap_save r expected dir = Inr (saved, dir')"
  shows "roadmap_from_mapping (PDict (roadmap_as_mapping r)) = Inr r \<and> saved = r\<lparr>rm_revision := expected + 1\<rparr>
    \<and> roadmap_load (rm_id r) dir' = Inr saved
    \<and> (\<forall>i. if roadmap_stem i = Inr (rm_id r) then True else roadmap_load i dir' = roadmap_load i dir)"
proof -
  note ok = roadmap_from_mapping_ok [OF assms(1)]
  obtain current where "roadmap_load (rm_id r) dir = Inr current" and saved: "saved = r\<lparr>rm_revision := expected + 1\<rparr>"
    and sok: "roadmap_ok saved" and dir': "dir' = dset (rm_id r) (PDict (roadmap_as_mapping saved)) dir"
    using assms(2) ok by (rule roadmap_save_Inr)
  have "roadmap_load (rm_id saved) dir' = Inr saved"
    by (rule roadmap_load_stored [OF sok]) (simp add: dir' saved)
  moreover have "roadmap_load i dir' = roadmap_load i dir" if "roadmap_stem i \<noteq> Inr (rm_id r)" for i
    using that by (cases "roadmap_stem i") (simp_all add: roadmap_load_def load_required_def dir')
  ultimately show ?thesis using roadmap_round_trip [OF ok] saved by simp
qed

theorem roadmap_survives_file_witness:
  "\<exists>dir'. roadmap_save sample_roadmap 4 (cf_roadmaps sample_files) = Inr (sample_roadmap\<lparr>rm_revision := 5\<rparr>, dir')
    \<and> roadmap_load ''r'' dir' = Inr (sample_roadmap\<lparr>rm_revision := 5\<rparr>)"
proof -
  obtain dir' where run: "roadmap_save sample_roadmap 4 (cf_roadmaps sample_files)
      = Inr (sample_roadmap\<lparr>rm_revision := 5\<rparr>, dir')"
    using sample_saves [OF sample_roadmap_ok(1)] by (auto simp: sample_roadmap_def)
  have "rm_id sample_roadmap = ''r''" by (simp add: sample_roadmap_def)
  then have "roadmap_load ''r'' dir' = Inr (sample_roadmap\<lparr>rm_revision := 5\<rparr>)"
    using roadmap_survives_file [OF roadmap_round_trip [OF sample_roadmap_ok(1)] run] by metis
  with run show ?thesis by blast
qed

text \<open>C19: moving an item puts it where it was asked to be: with placement end, behind the last other
  item of the lane asked for, or last of all if there is none; with another item as the target, right
  before or after it and in its lane; and otherwise last of all, in the lane asked for. It leaves everything else as it was: the others keep their relative order, all their
  fields but the order number, which counts 10, 20 and so on along the new sequence, and the
  relations; the result is well-formed. The moved item keeps all but lane, number and window, and a
  Phase, Gate or Milestone keeps its window too, which lives in the Project Execution definition.\<close>

theorem move_item_moves_it:
  assumes "roadmap_ok r" and "move_item_in now r item_id lane start target target_id placement = Inr r'"
  shows "\<exists>before after moving moved.
      filter (\<lambda>i. ri_id i \<noteq> py_strip item_id) (order_items (rm_items r)) = before @ after
    \<and> moving \<in> set (rm_items r) \<and> ri_id moving = py_strip item_id
    \<and> moved = moving\<lparr>ri_lane := ri_lane moved, ri_schedule := ri_schedule moved\<rparr>
    \<and> (if ri_kind moving \<in> set project_kinds then ri_schedule moved = ri_schedule moving
       else road_schedule_init (PStr start) (PStr target) = Inr (ri_schedule moved))
    \<and> rm_items r' = map (\<lambda>(k, i). i\<lparr>ri_order := (int k + 1) * 10\<rparr>) (enumerate 0 (before @ moved # after))
    \<and> r' = r\<lparr>rm_items := rm_items r', rm_updated_at := now\<rparr> \<and> roadmap_wf r'
    \<and> placed_as_asked lane item_id target_id placement before moved after"
proof -
  obtain moving others n moved where
    plan: "plan_move r item_id lane target_id placement = Inr (moving, others, ri_lane moved, n)"
    and item: "moved_item moving (ri_lane moved) start target = Inr moved"
    and items: "renumber (insert_at n moved others) = Inr (rm_items r')" and ok: "list_all item_ok (insert_at n moved others)"
    and r': "r' = r\<lparr>rm_items := rm_items r', rm_updated_at := now\<rparr>" and rok: "roadmap_ok r'"
    using assms by (rule move_item_facts)
  note p = plan_move_Inr [OF plan assms(1)]
  have mok: "item_ok moving" using p(1) assms(1) by (auto simp: roadmap_ok_def list_all_iff)
  note m = moved_item_Inr [OF item mok p(4,5)]
  have split: "insert_at n moved others = take n others @ moved # drop n others" by (simp add: insert_at_def)
  have "roadmap_wf r'" by (rule roadmap_ok_wf [OF rok])
  moreover have "if ri_kind moving \<in> set project_kinds then ri_schedule moved = ri_schedule moving
       else road_schedule_init (PStr start) (PStr target) = Inr (ri_schedule moved)"
    using m(3,4) by simp
  ultimately show ?thesis
    using p(1,2) m(2) r' plan_move_placed [OF plan assms(1)] renumbered(1) [OF items ok] unfolding split p(3) [symmetric]
    by (intro exI [of _ "take n others"] exI [of _ "drop n others"] exI [of _ moving] exI [of _ moved] conjI)
      (assumption | rule append_take_drop_id [symmetric])+
qed

theorem move_item_moves_it_witness:
  "\<exists>before after. before @ after = [sample_planned_item] \<and> after \<noteq> [] \<and> ri_id (hd after) = ''a''"
proof -
  have rest: "filter (\<lambda>i. ri_id i \<noteq> ''b'') (order_items (rm_items sample_roadmap)) = [sample_planned_item]" by code_simp
  have strip: "py_strip ''a'' = ''a''" "py_strip ''b'' = ''b''" "py_lower (py_strip ''before'') = ''before''" by code_simp+
  from move_item_moves_it [OF sample_roadmap_ok(1) sample_moves] obtain before after
    where "before @ after = [sample_planned_item]" "after \<noteq> []" "ri_id (hd after) = ''a''"
    unfolding placed_as_asked_def Let_def strip rest by (auto simp: strip)
  then show ?thesis by blast
qed

section \<open>Edits of both documents\<close>

text \<open>C39: an edit of both documents, started on the documents as they are stored with no edit pending
  and undisturbed by other processes, succeeds: the Roadmap and the definition are stored as wanted,
  each with the next revision, are returned, and no intent is left pending.\<close>

theorem edit_commits:
  assumes "quiet_others env" and "edit_ready env f r0 r d0 d operation"
  shows "case coordinate env r0 r d0 d operation (boot f) of
      (Inl e, s) \<Rightarrow> False
    | (Inr (r', d'), s) \<Rightarrow> r' = r\<lparr>rm_revision := rm_revision r0 + 1\<rparr>
        \<and> d' = (sort_tasks d)\<lparr>pd_revision := pd_revision d0 + 1\<rparr>
        \<and> roadmap_load (rm_id r) (cf_roadmaps (co_files s)) = Inr r'
        \<and> repository_load (ce_path env) (cf_definition (co_files s)) = Inr d'
        \<and> cf_pending (co_files s) = None"
  by (rule edit_run [OF assms]) (simp add: rolled_def)

theorem edit_commits_witness:
  "\<exists>s. coordinate undisturbed sample_roadmap sample_wanted sample_current sample_window ''move'' (boot sample_files)
      = (Inr (sample_wanted\<lparr>rm_revision := 5\<rparr>, (sort_tasks sample_window)\<lparr>pd_revision := 4\<rparr>), s) \<and> cf_pending (co_files s) = None"
proof -
  have "rm_revision sample_roadmap = 4" "pd_revision sample_current = 3"
    by (simp_all add: sample_roadmap_def sample_current_def)
  then show ?thesis
    using edit_commits [OF undisturbed_quiet sample_edit_ready] by (auto split: prod.splits sum.splits)
qed

text \<open>C2: the edit survives crashes: the process may die after any of its durable writes, and so may
  every later process that tries to recover. Either nothing has happened, or the next recovery that is
  not interrupted returns, leaves nothing pending and both documents as wanted with the next revision.\<close>

theorem edit_survives_crashes:
  fixes n :: nat and ns :: "nat list"
  assumes "quiet_others env" and "edit_ready env f r0 r d0 d operation"
  defines "f' \<equiv> crashes env ns (crash n (coordinate env r0 r d0 d operation) f)"
  shows "f' = f \<or> (case reconcile_pending env (boot f') of
      (Inl e, s) \<Rightarrow> False
    | (Inr b, s) \<Rightarrow> cf_pending (co_files s) = None
        \<and> roadmap_load (rm_id r) (cf_roadmaps (co_files s)) = Inr (r\<lparr>rm_revision := rm_revision r0 + 1\<rparr>)
        \<and> repository_load (ce_path env) (cf_definition (co_files s))
            = Inr ((sort_tasks d)\<lparr>pd_revision := pd_revision d0 + 1\<rparr>))"
proof -
  obtain i where rep: "replayable env i r d" and ready: "roadmap_ready env i (cf_roadmaps f)"
    "execution_ready env i d (cf_definition f)"
    and loads: "roadmap_load (rm_id r) (rolled_roadmap env i r (cf_roadmaps f)) = Inr (r\<lparr>rm_revision := rm_revision r0 + 1\<rparr>)"
    "repository_load (ce_path env) (rolled_execution env i d (cf_definition f)) = Inr ((sort_tasks d)\<lparr>pd_revision := pd_revision d0 + 1\<rparr>)"
    and first: "\<And>n. crash n (coordinate env r0 r d0 d operation) f = f
        \<or> recoverable env i r d f (crash n (coordinate env r0 r d0 d operation) f)"
    by (rule edit_run [OF assms(1,2)], rule that)
  have "cf_pending f = None" using assms(2) by (simp add: edit_ready_def)
  then show ?thesis unfolding f'_def by (rule recovery_completes [OF assms(1) rep ready loads _ first])
qed

text \<open>The process dies after its last write.\<close>

abbreviation sample_change :: "coordination_env \<Rightarrow> (roadmap \<times> execution_definition) coordination" where
  "sample_change env \<equiv> coordinate env sample_roadmap sample_wanted sample_current sample_window ''move''"

lemma crashes_none: "crashes env [] f = f"
  by (simp add: crashes_def)

lemma undisturbed_orderly: "orderly undisturbed"
  by (simp add: orderly_def moved_on_def)

lemma sample_own: "own_pending sample_files" "rm_id sample_wanted = rm_id sample_roadmap"
  by (simp_all add: own_pending_def sample_files_def load_pending_def sample_wanted_def)

lemma sample_last:
  assumes "sample_change undisturbed (boot sample_files) = (Inr z, s)"
  shows "crash (length (co_trace s)) (sample_change undisturbed) sample_files = co_files s"
proof -
  have "on_track_own undisturbed sample_files (boot sample_files)"
    using sample_own by (simp add: on_track_own_def on_track_def boot_def)
  with assms have "on_track undisturbed sample_files s"
    using tripleD_Inr [OF coordinate_guarded [OF undisturbed_orderly sample_roadmap_ok(2) sample_own(2)]] by blast
  then show ?thesis by (simp add: crash_def assms on_track_def)
qed

theorem edit_survives_crashes_witness:
  "\<exists>n f'. f' = crash n (sample_change undisturbed) sample_files \<and> f' \<noteq> sample_files
     \<and> (\<exists>b s. reconcile_pending undisturbed (boot f') = (Inr b, s)
          \<and> roadmap_load ''r'' (cf_roadmaps (co_files s)) = Inr (sample_wanted\<lparr>rm_revision := 5\<rparr>))"
proof -
  have r: "rm_revision sample_roadmap = 4" "rm_id sample_wanted = ''r''"
    by (simp_all add: sample_roadmap_def sample_wanted_def)
  obtain z s where run: "sample_change undisturbed (boot sample_files) = (Inr z, s)"
    and load: "roadmap_load ''r'' (cf_roadmaps (co_files s)) = Inr (sample_wanted\<lparr>rm_revision := 5\<rparr>)"
    by (rule edit_run [OF undisturbed_quiet sample_edit_ready]) (use r in \<open>auto simp: rolled_def\<close>)
  let ?n = "length (co_trace s)"
  have "co_files s \<noteq> sample_files"
  proof
    assume "co_files s = sample_files"
    with load sample_loads(1) have "rm_revision sample_roadmap = rm_revision (sample_wanted\<lparr>rm_revision := 5\<rparr>)" by simp
    then show False by (simp add: r(1))
  qed
  with sample_last [OF run] edit_survives_crashes [OF undisturbed_quiet sample_edit_ready, of "[]" ?n] r
  show ?thesis by (intro exI [of _ ?n]) (auto simp: crashes_none split: prod.splits sum.splits)
qed

text \<open>C3: whatever orderly processes do to the two documents meanwhile, the coordinator overwrites the
  definition only while an intent is pending whose image from before is exactly the stored definition,
  by its revision and the fingerprint of its content, and the Roadmap only while an intent is pending
  that has recorded the definition as applied and whose image from before is, in the same sense,
  exactly the stored Roadmap: a document changed in between is never
  overwritten, by an edit, its recovery or the resolution a person or the GUI asks for.\<close>

theorem changed_documents_not_overwritten:
  assumes "orderly env" and "own_pending f" and "roadmap_ok r" and "rm_id r = rm_id r0"
  shows "effects_ok env f (co_trace (snd (coordinate env r0 r d0 d operation (boot f))))
    \<and> effects_ok env f (co_trace (snd (reconcile_pending env (boot f))))
    \<and> effects_ok env f (co_trace (snd (resolve env action (boot f))))
    \<and> effects_ok env f (co_trace (snd (reconcile_if_safe env (boot f))))"
  using guarded_run [OF coordinate_guarded [OF assms(1,3,4)] assms(2)] guarded_run [OF reconcile_guarded [OF assms(1)] assms(2)]
    guarded_run [OF resolve_guarded [OF assms(1)] assms(2)] guarded_run [OF reconcile_if_safe_guarded [OF assms(1)] assms(2)]
  by blast

text \<open>The edit of one process while another renames the Roadmap.\<close>

theorem changed_documents_not_overwritten_witness:
  "effects_ok (renaming 5) sample_files (co_trace (snd (coordinate (renaming 5) sample_roadmap sample_wanted
     sample_current sample_window ''move'' (boot sample_files))))"
  using changed_documents_not_overwritten [OF renaming_orderly sample_own(1) sample_roadmap_ok(2) sample_own(2)] by blast

text \<open>C20: an edit that raises has written neither document, or left the intent pending from which a
  later process finishes it, with both wanted documents in it: no edit is half done and forgotten.\<close>

theorem failed_edit_is_resumable:
  assumes "cf_pending f = None"
  shows "case coordinate env r0 r d0 d operation (boot f) of
      (Inr z, s) \<Rightarrow> True
    | (Inl e, s) \<Rightarrow> \<not> list_ex writes_document (co_trace s)
        \<or> (\<exists>i. load_pending (cf_pending (co_files s)) = Inr (Some i) \<and> ci_phase i \<in> set open_phases
           \<and> ci_desired_roadmap i = roadmap_as_mapping r \<and> ci_desired_execution i = definition_as_mapping d)"
proof (cases "coordinate env r0 r d0 d operation (boot f)")
  case (Pair result s)
  show ?thesis
  proof (cases result)
    case (Inl e)
    with Pair coordinate_excused [OF assms] show ?thesis by (auto simp: untouched_def)
  qed (simp add: Pair)
qed

lemma renaming_first:
  "\<exists>s. sample_change (renaming 0) (boot sample_files) = (Inl (RoadmapConflictError
     ''roadmap changed since it was loaded; refresh before saving (expected revision 4, current 5)''), s)"
proof -
  obtain dir where save: "roadmap_save renamed 4 (cf_roadmaps sample_files) = Inr (renamed\<lparr>rm_revision := 5\<rparr>, dir)"
    "roadmap_load ''r'' dir = Inr (renamed\<lparr>rm_revision := 5\<rparr>)"
    using sample_saves [OF renamed_ok] by (auto simp: renamed_def sample_roadmap_def)
  have r: "rm_id sample_roadmap = ''r''" "rm_revision sample_roadmap = 4" "cf_pending sample_files = None"
    by (simp_all add: sample_roadmap_def sample_files_def)
  have rec: "reconcile_pending (renaming 0) (boot sample_files) = (Inr False, boot sample_files)"
    by (simp add: reconcile_pending_def read_pending_def load_pending_def boot_def r)
  have others: "ce_others (renaming 0) 0 (cf_roadmaps sample_files, x) = (dir, x)"
    "ce_others (renaming 0) (Suc 0) (a, x) = (a, x)" for a x
    by (simp_all add: renaming_def sample_coordinator_def save(1))
  obtain s1 where s1: "load_roadmap (renaming 0) ''r'' (boot sample_files) = (Inr (renamed\<lparr>rm_revision := 5\<rparr>), s1)"
    "cf_definition (co_files s1) = cf_definition sample_files" "co_accesses s1 = Suc 0"
    by (simp add: load_roadmap_def access_def emit_def boot_def others(1) save(2))
  obtain s2 where s2: "load_execution (renaming 0) s1 = (Inr sample_current, s2)"
    by (simp add: load_execution_def access_def emit_def others(2) s1(2,3) sample_loads(2))
  have "py_str_int 4 = ''4''" "py_str_int 5 = ''5''" by code_simp+
  then have "check_current (renaming 0) (renamed\<lparr>rm_revision := 5\<rparr>) sample_roadmap sample_current sample_current
    = Inl (RoadmapConflictError
     ''roadmap changed since it was loaded; refresh before saving (expected revision 4, current 5)'')"
    by (simp add: check_current_def r(2))
  then show ?thesis using rec s1(1) s2 by (simp add: coordinate_def r(1) ebind_def)
qed

theorem failed_edit_is_resumable_witness:
  "\<exists>e s. sample_change (renaming 0) (boot sample_files) = (Inl e, s) \<and> (\<not> list_ex writes_document (co_trace s)
     \<or> (\<exists>i. load_pending (cf_pending (co_files s)) = Inr (Some i) \<and> ci_desired_roadmap i = roadmap_as_mapping sample_wanted))"
proof -
  have "cf_pending sample_files = None" by (simp add: sample_files_def)
  from failed_edit_is_resumable [OF this, where env = "renaming 0" and r = sample_wanted] renaming_first
  show ?thesis by (fastforce split: prod.splits sum.splits)
qed

text \<open>C22: every action that the status of a pending intent offers works: with the documents as the
  status saw them it is accepted, returns the status with nothing pending, and leaves either both
  documents as they were or, for \<open>retry_roll_forward\<close>, both rolled forward; it offers to abort only
  when neither document has been changed: both still have the revision and the fingerprint that
  the intent recorded.\<close>

theorem offered_actions_settle:
  assumes "quiet_others env" and "replayable env i r d" and "cf_pending f = Some (PDict (intent_as_mapping i))"
    and "\<And>x. repository_load (ce_path env) (cf_definition f) = Inr x \<Longrightarrow> pd_project x = pd_project d"
    and "coordination_status_of env (boot f) = (Inr st, s0)" and "action \<in> set (cs_safe_actions st)"
  shows "(case resolve env (PStr action) (boot f) of
      (Inl e, s) \<Rightarrow> False
    | (Inr st', s) \<Rightarrow> st' = nothing_pending (ce_project env) \<and> resolved env i r d action f (co_files s))
    \<and> (if action = ''abort''
       then (\<exists>x y. roadmap_load (ci_roadmap_id i) (cf_roadmaps f) = Inr x \<and> rm_revision x = ci_expected_roadmap i
             \<and> content_digest (ce_sha env) (roadmap_as_mapping x) = ci_before_roadmap i
             \<and> repository_load (ce_path env) (cf_definition f) = Inr y \<and> pd_revision y = ci_expected_execution i
             \<and> content_digest (ce_sha env) (definition_as_mapping y) = ci_before_execution i)
       else True)"
proof (rule resolve_settles [OF assms])
  fix s assume run: "resolve env (PStr action) (boot f) = (Inr (nothing_pending (ce_project env)), s)"
    "resolved env i r d action f (co_files s)"
  have "status_shows env i f st"
    using assms(2,3) tripleD_Inr [OF status_triple [OF assms(1)] stands_boot [of "\<lambda>_. True" f] assms(5), of i]
    by (simp add: replayable_def load_pending_stored)
  with assms(6) have "action \<in> set (fst (safe_actions (ci_phase i) (observed_roadmap env i f) (observed_execution env i f)))"
    by (simp add: status_shows_def)
  then have "action = ''abort'' \<Longrightarrow> observed_roadmap env i f = Doc_before \<and> observed_execution env i f = Doc_before"
    by (elim offered_cases) simp_all
  then show ?thesis using run unfolding observed_before by fastforce
qed

definition sample_intent :: coordination_intent where
  "sample_intent = \<lparr>ci_operation_id = ''o'', ci_project_id = ''d'', ci_roadmap_id = ''r'', ci_operation = ''move'',
     ci_expected_roadmap = 4, ci_expected_execution = 3,
     ci_before_roadmap = roadmap_digest undisturbed sample_roadmap,
     ci_before_execution = execution_digest undisturbed sample_current,
     ci_desired_roadmap = roadmap_as_mapping sample_wanted, ci_desired_execution = definition_as_mapping sample_window,
     ci_forensic = [], ci_phase = ''prepared'', ci_roadmap_revision = 0, ci_execution_revision = 0,
     ci_created_at = ''2'', ci_updated_at = ''2''\<rparr>"

definition sample_stalled :: coordination_files where
  "sample_stalled = sample_files\<lparr>cf_pending := Some (PDict (intent_as_mapping sample_intent))\<rparr>"

lemma sample_replayable: "replayable undisturbed sample_intent sample_wanted sample_window"
proof -
  have "validate_project_id (PStr ''d'') = Inr ''d''" "validate_roadmap_id (PStr ''r'') ''roadmap id'' = Inr ''r''"
    "py_strip ''o'' \<noteq> []" "py_strip ''move'' \<noteq> []" by code_simp+
  then have "intent_ok sample_intent" by (simp add: intent_ok_iff sample_intent_def intent_phases_def)
  then show ?thesis
    by (simp add: replayable_def sample_roadmap_ok sample_window_ok sample_window_wf)
      (simp add: sample_intent_def sample_wanted_def sample_roadmap_def)
qed

lemma sample_offered:
  obtains st s where "coordination_status_of undisturbed (boot sample_stalled) = (Inr st, s)"
    and "''abort'' \<in> set (cs_safe_actions st)"
proof -
  have ok: "intent_ok sample_intent" and own: "ci_project_id sample_intent = ce_project undisturbed"
    using sample_replayable by (simp_all add: replayable_def)
  have files: "cf_roadmaps sample_stalled = cf_roadmaps sample_files" "cf_definition sample_stalled = cf_definition sample_files"
    "load_pending (cf_pending sample_stalled) = Inr (Some sample_intent)"
    by (simp_all add: sample_stalled_def load_pending_stored ok)
  have load: "roadmap_load (ci_roadmap_id sample_intent) (cf_roadmaps sample_stalled) = Inr sample_roadmap"
    using sample_loads(1) by (simp add: files sample_intent_def)
  have revisions: "row_get (roadmap_as_mapping sample_roadmap) ''revision'' (PInt 0) = PInt 4"
    "row_get (definition_as_mapping sample_current) ''revision'' (PInt 0) = PInt 3"
    by code_simp+
  obtain fr where "intent_forensics undisturbed sample_intent (Some sample_roadmap) (Some sample_current) = Inr fr"
    by (simp add: intent_forensics_def forensic_comparison_def sample_intent_def py_int_def current_version_def
        revisions Let_def record_list_def current_roadmap_subjects_def current_project_subjects_def)
  then obtain st s where run: "coordination_status_of undisturbed (boot sample_stalled) = (Inr st, s)"
    and st: "status_shows undisturbed sample_intent sample_stalled st"
    using status_runs [OF undisturbed_quiet files(3) own load] sample_loads(2) files(2) by metis
  have "observed_roadmap undisturbed sample_intent sample_stalled = Doc_before"
    by (simp add: observed_roadmap_def load roadmap_state_def document_state_Doc_before)
      (simp add: sample_intent_def sample_roadmap_def roadmap_digest_def)
  moreover have "observed_execution undisturbed sample_intent sample_stalled = Doc_before"
    by (simp add: observed_execution_def files(2) sample_loads(2) execution_state_def document_state_Doc_before)
      (simp add: sample_intent_def sample_current_def execution_digest_def)
  moreover have "ci_phase sample_intent = ''prepared''" by (simp add: sample_intent_def)
  ultimately show ?thesis
    using run st by (intro that [of st s]) (auto simp: status_shows_def safe_actions_def settled_def)
qed

theorem offered_actions_settle_witness:
  "\<exists>s. resolve undisturbed (PStr ''abort'') (boot sample_stalled) = (Inr (nothing_pending ''d''), s)
     \<and> cf_pending (co_files s) = None \<and> cf_roadmaps (co_files s) = cf_roadmaps sample_files"
proof -
  obtain st s0 where status: "coordination_status_of undisturbed (boot sample_stalled) = (Inr st, s0)"
    "''abort'' \<in> set (cs_safe_actions st)" by (rule sample_offered)
  have "pd_project x = pd_project sample_window" if "repository_load (ce_path undisturbed) (cf_definition sample_stalled) = Inr x" for x
    using that sample_loads(2) by (simp add: sample_stalled_def) (simp add: sample_window_def)
  moreover have "cf_pending sample_stalled = Some (PDict (intent_as_mapping sample_intent))"
    "cf_roadmaps sample_stalled = cf_roadmaps sample_files" by (simp_all add: sample_stalled_def)
  ultimately show ?thesis
    using offered_actions_settle [OF undisturbed_quiet sample_replayable _ _ status]
    by (fastforce simp: resolved_def split: prod.splits sum.splits)
qed

section \<open>A move from end to end\<close>

text \<open>C4: moving a Phase, Gate or Milestone and giving it a window, as a whole handler on the revisions the
  caller has seen: undisturbed it answers with the moved Roadmap and a clear status, and both documents
  are stored with the next revision; and if the process dies after any of its effects, and so do any
  number of recoveries, nothing has happened or the next recovery stores both.\<close>

theorem asset_move_survives_crashes:
  fixes n :: nat and ns :: "nat list"
  assumes "quiet_others env"
    and "asset_move (ce_now env) r0 d0 item lane start target target_id placement r d kind"
    and "cf_pending f = None" and "roadmap_load k (cf_roadmaps f) = Inr r0"
    and "repository_load (ce_path env) (cf_definition f) = Inr d0" and "m = 0 \<or> m = pd_revision d0"
    and "validate_project_id (PStr (ce_project env)) = Inr p" and "py_strip (ce_uuid env 0) \<noteq> []"
  defines "handler \<equiv> move_item env k (rm_revision r0) m item lane start target target_id placement"
    and "r' \<equiv> r\<lparr>rm_revision := rm_revision r0 + 1\<rparr>"
    and "d' \<equiv> (sort_tasks d)\<lparr>pd_revision := pd_revision d0 + 1\<rparr>"
  shows "(case handler (boot f) of
      (Inl e, s) \<Rightarrow> False
    | (Inr answer, s) \<Rightarrow> answer = (r', nothing_pending (ce_project env)) \<and> cf_pending (co_files s) = None
        \<and> roadmap_load (rm_id r) (cf_roadmaps (co_files s)) = Inr r'
        \<and> repository_load (ce_path env) (cf_definition (co_files s)) = Inr d')
    \<and> (crashes env ns (crash n handler f) = f \<or> (case reconcile_pending env (boot (crashes env ns (crash n handler f))) of
      (Inl e, s) \<Rightarrow> False
    | (Inr b, s) \<Rightarrow> cf_pending (co_files s) = None
        \<and> roadmap_load (rm_id r) (cf_roadmaps (co_files s)) = Inr r'
        \<and> repository_load (ce_path env) (cf_definition (co_files s)) = Inr d'))"
proof -
  obtain i s where rep: "replayable env i r d" and ready: "roadmap_ready env i (cf_roadmaps f)"
    "execution_ready env i d (cf_definition f)"
    and loads: "roadmap_load (rm_id r) (rolled_roadmap env i r (cf_roadmaps f)) = Inr r'"
    "repository_load (ce_path env) (rolled_execution env i d (cf_definition f)) = Inr d'"
    and run: "handler (boot f) = (Inr (r', nothing_pending (ce_project env)), s)" "rolled env i r d f (co_files s)"
      "cf_pending (co_files s) = None"
    and dies: "\<And>n. crash n handler f = f \<or> recoverable env i r d f (crash n handler f)"
    by (rule asset_move_run [OF assms(1-8), folded handler_def r'_def d'_def], rule that)
  show ?thesis
    using run loads recovery_completes [OF assms(1) rep ready loads assms(3) dies]
    by (intro conjI) (simp_all add: rolled_def)
qed

theorem asset_move_survives_crashes_witness:
  "\<exists>s. move_item undisturbed ''r'' 4 3 ''b'' ''K'' ''2025-06-01'' ''2025-07-01'' ''a'' ''before'' (boot sample_files)
    = (Inr (sample_wanted\<lparr>rm_revision := 5\<rparr>, nothing_pending ''d''), s)"
proof -
  have plan: "plan_move sample_roadmap ''b'' ''K'' ''a'' ''before'' = Inr (sample_phase_item, [sample_planned_item], ''L'', 0)"
    by code_simp
  have "ce_now undisturbed = ''2''" by (simp add: undisturbed_def sample_coordinator_def)
  then have move: "asset_move (ce_now undisturbed) sample_roadmap sample_current ''b'' ''K'' ''2025-06-01'' ''2025-07-01'' ''a'' ''before''
      sample_wanted sample_window ''phase''"
    using sample_moves sample_schedules plan
    by (simp add: asset_move_def project_kinds_def) (simp add: sample_phase_item_def)
  have names: "validate_project_id (PStr (ce_project undisturbed)) = Inr ''d''" "py_strip (ce_uuid undisturbed 0) \<noteq> []" by code_simp+
  have revisions: "rm_revision sample_roadmap = 4" "(3::int) = 0 \<or> 3 = pd_revision sample_current" "cf_pending sample_files = None"
    by (simp_all add: sample_roadmap_def sample_current_def sample_files_def)
  show ?thesis
    using conjunct1 [OF asset_move_survives_crashes [OF undisturbed_quiet move revisions(3) sample_loads revisions(2) names]]
    by (auto simp: revisions(1) split: prod.splits sum.splits)
qed

section \<open>Whatever is asked\<close>

text \<open>C5: the files stay readable: after any sequence of requests, each served by a process that may die
  after any of its effects and beside any others that keep the two documents readable, every stored
  Roadmap, the definition and the pending intent can still be read, so that no edit, recovery or
  resolution ever stores a document that its own reader refuses.\<close>

theorem files_stay_readable:
  assumes "readable f" and "list_all (\<lambda>(env, digest, linkable, request, n). tidy_others env) steps"
  defines "f' \<equiv> serve_all steps f"
  shows "(\<forall>(stem, raw) \<in> set (cf_roadmaps f'). \<exists>r. load_document stem raw = Inr r \<and> roadmap_wf r)
    \<and> (\<exists>rs. roadmap_list (cf_roadmaps f') = Inr rs)
    \<and> (case cf_definition f' of None \<Rightarrow> True | Some raw \<Rightarrow> \<exists>d. repository_load path (Some raw) = Inr d \<and> definition_wf d None)
    \<and> (\<exists>p. load_pending (cf_pending f') = Inr p)"
proof -
  have ok: "readable f'" unfolding f'_def by (rule serve_all_readable [OF assms(2,1)])
  have "\<exists>r. load_document stem raw = Inr r \<and> roadmap_wf r" if "(stem, raw) \<in> set (cf_roadmaps f')" for stem raw
    using ok that roadmap_ok_wf [OF load_document_Inr(1)]
    by (fastforce simp: readable_def documents_readable_def list_all_iff not_isl)
  moreover have "\<exists>rs. roadmap_list (cf_roadmaps f') = Inr rs"
    using ok documents_readable_list by (auto simp: readable_def)
  moreover have "\<exists>d. repository_load path (Some raw) = Inr d \<and> definition_wf d None" if "cf_definition f' = Some raw" for raw
    using ok that definition_from_mapping_wf(2)
    by (fastforce simp: readable_def documents_readable_def repository_load_def not_isl)
  moreover have "\<exists>p. load_pending (cf_pending f') = Inr p" using ok by (simp add: readable_def not_isl)
  ultimately show ?thesis by (auto split: option.split)
qed

text \<open>The move of the sample dies after three effects, a process that another one disturbs recovers, a migration
  finds nothing to do, a Roadmap is created.\<close>

abbreviation sample_requests :: "served list" where
  "sample_requests \<equiv> [(undisturbed, json_dumps, \<lambda>_. True, Move ''r'' 4 3 ''b'' ''K'' ''2025-06-01'' ''2025-07-01'' ''a'' ''before'', 3),
     (renaming 1, json_dumps, \<lambda>_. True, Reconcile, 9),
     (undisturbed, json_dumps, \<lambda>_. True, Migrate ''r'' 5, 9), (undisturbed, json_dumps, \<lambda>_. True, Create ''R'' [] [], 9)]"

lemma sample_tidy: "tidy_others undisturbed" "tidy_others (renaming k)"
  using save_readable [OF _ renamed_ok]
  by (auto simp: tidy_others_def renaming_def sample_coordinator_def split: sum.split)

theorem files_stay_readable_witness:
  "\<exists>rs. roadmap_list (cf_roadmaps (serve_all sample_requests sample_files)) = Inr rs"
proof -
  have "documents_readable (cf_roadmaps sample_files) (cf_definition sample_files)"
    using put_roadmap_readable [OF _ sample_roadmap_ok(1), of "[]" None]
      put_definition_readable [of "[]" None, OF _ sample_window_ok(1) sample_window_wf(1)]
    by (simp add: documents_readable_def sample_files_def sample_roadmap_def dset_def)
  then have "readable sample_files" by (simp add: readable_def sample_files_def load_pending_def)
  then show ?thesis using files_stay_readable [of sample_files sample_requests] sample_tidy by simp
qed

end
