(* ===== verification/Road_Promoted.thy ===== *)
theory Road_Promoted
  imports Road_Promotion
begin

text \<open>
  The documents a migration leaves: which asset stands for which item, and what the items keep.
\<close>

section \<open>Assets that show items\<close>

text \<open>An asset shows an item of schema 1 when it has its kind, title, description and window, and asks for
  nothing: a Phase has neither Gates nor Tasks, a Milestone no prerequisite and no delivery, and a
  Gate waits for a person.\<close>

fun asset_shows :: "road_item \<Rightarrow> project_asset \<Rightarrow> bool" where
  "asset_shows i (Asset_phase p) \<longleftrightarrow> ri_kind i = ''phase''
     \<and> p = \<lparr>ph_id = ph_id p, ph_title = ri_title i, ph_description = ri_description i,
         ph_schedule = \<lparr>sched_start = rs_start (ri_schedule i), sched_target = rs_target (ri_schedule i)\<rparr>,
         ph_entry_gates = [], ph_exit_gates = [], ph_tasks = [], ph_milestones = []\<rparr>"
| "asset_shows i (Asset_gate g) \<longleftrightarrow> ri_kind i = ''gate''
     \<and> pg_title g = ri_title i \<and> pg_description g = ri_description i
     \<and> pg_schedule g = \<lparr>sched_start = rs_start (ri_schedule i), sched_target = rs_target (ri_schedule i)\<rparr>
     \<and> map gc_type (pg_criteria g) = [''human_approval'']"
| "asset_shows i (Asset_milestone m) \<longleftrightarrow> ri_kind i = ''milestone''
     \<and> m = \<lparr>pm_id = pm_id m, pm_title = ri_title i, pm_description = ri_description i,
         pm_start = rs_start (ri_schedule i), pm_target = rs_target (ri_schedule i),
         pm_requires = \<lparr>mreq_tasks = [], mreq_gates = [], mreq_milestones = []\<rparr>, pm_delivery_policy = Delivery_NONE\<rparr>"

lemma road_date_model: "road_date (PStr t) l = Inr t \<Longrightarrow> model_date (PStr t) l' = Inr t"
  by (auto simp: road_date_def model_date_def Let_def split: if_splits option.splits)

lemma model_text_kept: "py_strip t = t \<Longrightarrow> model_text (PStr t) l b n = Inr u \<longleftrightarrow> u = t \<and> (b \<longrightarrow> t \<noteq> []) \<and> length t \<le> n"
  by (auto simp: model_text_def Let_def)

lemma road_text_kept: "road_text (PStr t) l b n = Inr u \<Longrightarrow> u = py_strip t"
  by (auto simp: road_text_def Let_def split: if_splits)

lemma item_ok_facts:
  assumes "item_ok i"
  shows "py_strip (ri_title i) = ri_title i" and "py_strip (ri_description i) = ri_description i"
    and "road_date (PStr (rs_start (ri_schedule i))) ''schedule start'' = Inr (rs_start (ri_schedule i))"
    and "road_date (PStr (rs_target (ri_schedule i))) ''schedule target'' = Inr (rs_target (ri_schedule i))"
    and "py_lower (py_strip (ri_kind i)) = ri_kind i"
    and "validate_roadmap_id (PStr (ri_id i)) ''roadmap item id'' = Inr (ri_id i)"
    and "road_text (PStr (ri_lane i)) ''roadmap lane'' False 160 = Inr (ri_lane i)" and "ri_lane i \<noteq> []"
    and "order_init (PInt (ri_order i)) = Inr (ri_order i)" and "ri_kind i \<in> set roadmap_item_kinds"
    and "ri_kind i \<in> set project_kinds \<Longrightarrow> ri_task_id i = []"
proof -
  show "road_date (PStr (rs_start (ri_schedule i))) ''schedule start'' = Inr (rs_start (ri_schedule i))"
    and "road_date (PStr (rs_target (ri_schedule i))) ''schedule target'' = Inr (rs_target (ri_schedule i))"
    using assms by (cases "ri_schedule i"; auto simp: item_ok_def road_schedule_ok_def road_schedule_init_def rbind_Inr_iff split: if_splits)+
  have init: "item_init (PStr (ri_id i)) (PStr (ri_kind i)) (PStr (ri_title i)) (PStr (ri_description i))
     (PStr (ri_task_id i)) (PStr (ri_asset_id i)) (PStr (ri_lane i)) (PInt (ri_order i)) (ri_schedule i) = Inr i"
    using assms by (simp add: item_ok_def)
  then obtain k title description lane order title' description' task asset where
    id: "validate_roadmap_id (PStr (ri_id i)) ''roadmap item id'' = Inr k"
    and kind: "py_lower (py_strip (ri_kind i)) \<in> set roadmap_item_kinds"
    and title: "road_text (PStr (ri_title i)) ''roadmap item title'' False 500 = Inr title"
    and description: "road_text (PStr (ri_description i)) ''roadmap item description'' False 20000 = Inr description"
    and lane: "road_text (PStr (ri_lane i)) ''roadmap lane'' False 160 = Inr lane"
    and order: "order_init (PInt (ri_order i)) = Inr order"
    and ref: "item_reference (py_lower (py_strip (ri_kind i))) title description (py_strip (ri_task_id i)) (py_strip (ri_asset_id i))
      = Inr (title', description', task, asset)"
    and i: "i = \<lparr>ri_id = k, ri_kind = py_lower (py_strip (ri_kind i)), ri_title = title', ri_description = description',
      ri_task_id = task, ri_asset_id = asset, ri_lane = (if lane = [] then ''General'' else lane), ri_order = order, ri_schedule = ri_schedule i\<rparr>"
    by (auto simp: item_init_def Let_def split: if_splits prod.splits)
  have fields: "ri_id i = k" "ri_kind i = py_lower (py_strip (ri_kind i))" "ri_title i = title'" "ri_description i = description'"
    "ri_task_id i = task" "ri_lane i = (if lane = [] then ''General'' else lane)" "ri_order i = order"
    by (subst i; simp)+
  note texts = road_text_kept [OF title] road_text_kept [OF description] road_text_kept [OF lane]
  have new: "title' = [] \<or> road_text (PStr title) ''roadmap item title'' True 500 = Inr title'" "description' = [] \<or> description' = description"
    "ri_kind i \<in> set project_kinds \<Longrightarrow> task = py_strip (ri_task_id i) \<and> py_strip (ri_task_id i) = []"
    using ref fields(2) by (auto simp: item_reference_def project_kinds_def split: if_splits)
  show "py_strip (ri_title i) = ri_title i" "py_strip (ri_description i) = ri_description i"
    using new(1,2) texts fields(3,4) by (auto dest!: road_text_kept)
  show "py_lower (py_strip (ri_kind i)) = ri_kind i" using fields(2) by simp
  then show "ri_kind i \<in> set roadmap_item_kinds" using kind by simp
  show "validate_roadmap_id (PStr (ri_id i)) ''roadmap item id'' = Inr (ri_id i)" using id fields(1) by simp
  show "order_init (PInt (ri_order i)) = Inr (ri_order i)" using order fields(7) by simp
  show "ri_kind i \<in> set project_kinds \<Longrightarrow> ri_task_id i = []" using new(3) fields(5) by metis
  show "ri_lane i \<noteq> []" using fields(6) by (simp split: if_splits)
  have "py_strip ''General'' = ''General''" by code_simp
  with fields(6) lane show "road_text (PStr (ri_lane i)) ''roadmap lane'' False 160 = Inr (ri_lane i)"
    using texts(3) by (cases "lane = []") (simp_all add: road_text_def)
qed

lemma v1_asset_shows:
  assumes "v1_asset i a = Inr asset" and "item_ok i"
  shows "asset_shows i asset"
proof -
  note f = item_ok_facts [OF assms(2)]
  note dates = road_date_model [OF f(3)] road_date_model [OF f(4)] and texts = model_text_kept [OF f(1)] model_text_kept [OF f(2)]
  have approval: "py_lower (py_strip ''human_approval'') = ''human_approval''" by code_simp
  from assms(1) show ?thesis
    by (auto simp: v1_asset_def schedule_init_def phase_init_def gate_init_def milestone_init_def milestone_requirements_init_def
        dates texts delivery_of_value_def approval split: if_splits option.splits dest!: criterion_init_fields(1)) 
qed

section \<open>Items\<close>

lemma migrated_item_kept:
  assumes "item_ok i" and "ri_kind i \<in> set project_kinds" and "map_of plans (ri_id i) = Some plan"
    and "asset_name (mg_asset_id plan)" and "migrated_item plans i = Inr i'"
  shows "i' = i\<lparr>ri_title := [], ri_description := [], ri_asset_id := mg_asset_id plan, ri_schedule := unscheduled\<rparr>"
proof -
  note f = item_ok_facts [OF assms(1)] and a = asset_name_strip [OF assms(4)]
  show ?thesis
    using assms(2-5) f(5-11) a
    by (cases i) (auto simp: migrated_item_def item_init_def item_reference_def Let_def project_kinds_def asset_name_def)
qed

lemma plan_index_keys: "map_of (plan_index items) k = None \<longleftrightarrow> k \<notin> mg_item_id ` set items"
  by (auto simp: plan_index_def map_of_py_dict map_of_eq_None_iff rev_map image_image)

lemma plan_index_Some: "map_of (plan_index items) k = Some plan \<Longrightarrow> plan \<in> set items \<and> mg_item_id plan = k"
  using set_py_dict_subset [of "map (\<lambda>i. (mg_item_id i, i)) items"] by (auto simp: plan_index_def dest!: map_of_SomeD)

text \<open>A plan without conflicts promotes the Phases, Gates and Milestones, and no other item.\<close>

lemma plan_covers:
  assumes "set (map (\<lambda>i. (ri_id i, ri_kind i)) (filter (\<lambda>i. ri_kind i \<in> set project_kinds) (rm_items r)))
      = set (map (\<lambda>i. (mg_item_id i, mg_kind i)) items)"
    and "distinct (map ri_id (rm_items r))" and "i \<in> set (rm_items r)"
  shows "(\<exists>plan. map_of (plan_index items) (ri_id i) = Some plan) \<longleftrightarrow> ri_kind i \<in> set project_kinds"
proof
  assume "\<exists>plan. map_of (plan_index items) (ri_id i) = Some plan"
  then obtain plan where "plan \<in> set items" "mg_item_id plan = ri_id i" using plan_index_Some by blast
  then have "(ri_id i, mg_kind plan) \<in> set (map (\<lambda>i. (mg_item_id i, mg_kind i)) items)" by force
  then obtain j where "j \<in> set (rm_items r)" "ri_id j = ri_id i" "ri_kind j \<in> set project_kinds" unfolding assms(1) [symmetric] by auto
  with assms(2,3) show "ri_kind i \<in> set project_kinds" by (metis distinct_map inj_onD)
next
  assume "ri_kind i \<in> set project_kinds"
  then have "(ri_id i, ri_kind i) \<in> set (map (\<lambda>i. (mg_item_id i, mg_kind i)) items)" unfolding assms(1) [symmetric] using assms(3) by force
  then show "\<exists>plan. map_of (plan_index items) (ri_id i) = Some plan" using plan_index_keys [of items "ri_id i"] by force
qed

lemma ensured_all_stores:
  "ensured_all path plans items g g' \<Longrightarrow> plans_valid plans \<Longrightarrow> i \<in> set items \<Longrightarrow> map_of plans (ri_id i) = Some plan \<Longrightarrow>
     \<exists>asset. v1_asset i (mg_asset_id plan) = Inr asset \<and> stored_assets path g' (mg_asset_id plan) = Some asset"
proof (induction path plans items g g' rule: ensured_all.induct)
  case (2 path plans j items g g')
  then obtain mid where step: "case map_of plans (ri_id j) of None \<Rightarrow> mid = g
      | Some plan \<Rightarrow> ensured path j (mg_asset_id plan) g mid" and rest: "ensured_all path plans items mid g'" by auto
  show ?case
  proof (cases "i \<in> set items")
    case True
    with 2 rest show ?thesis by blast
  next
    case False
    then have "i = j" using 2(4) by simp
    with step 2(5) have "ensured path i (mg_asset_id plan) g mid" by simp
    from ensured_stores(1) [OF this plans_validD [OF 2(3,5)]] obtain x
      where "v1_asset i (mg_asset_id plan) = Inr x" "stored_assets path mid (mg_asset_id plan) = Some x" by auto
    with ensured_all_mono [OF rest 2(3)] show ?thesis by blast
  qed
qed simp

section \<open>What a migration leaves alone\<close>

text \<open>Everything of the definition but its revision and its assets, and so whatever decides on a Task.\<close>

definition control_kept :: "execution_definition \<Rightarrow> execution_definition \<Rightarrow> bool" where
  "control_kept d d' \<longleftrightarrow> pd_schema_version d' = pd_schema_version d \<and> pd_project d' = pd_project d
     \<and> pd_mode d' = pd_mode d \<and> pd_policy d' = pd_policy d \<and> mset (pd_tasks d') = mset (pd_tasks d)"

lemma control_kept_refl [simp]: "control_kept d d"
  by (simp add: control_kept_def)

lemma control_kept_trans: "control_kept a b \<Longrightarrow> control_kept b c \<Longrightarrow> control_kept a c"
  by (simp add: control_kept_def)

lemma stored_control: "control_kept d ((sort_tasks d)\<lparr>pd_revision := n\<rparr>)"
  by (simp add: control_kept_def sort_tasks_def)

lemma definition_init_control:
  "definition_init s p r (PStr (mode_value m)) pol ph ts gs ms = Inr d \<Longrightarrow>
     pd_schema_version d = s \<and> pd_mode d = m \<and> pd_policy d = pol \<and> pd_tasks d = ts"
  by (auto simp: definition_init_def Let_def split: if_splits sum.splits)

lemma with_asset_control:
  assumes "definition_with_asset d asset = Inr d'" and "definition_ok d" and "asset_ok asset"
  shows "control_kept d d'"
  using definition_with_asset_valid(3) [OF assms] assms(1)
  by (auto simp: definition_with_asset_def replace_definition_def control_kept_def
      dest!: definition_init_control split: project_asset.splits)

lemma ensured_control:
  assumes "ensured path i a g g'" and d: "repository_load path g = Inr d"
  shows "\<exists>d'. repository_load path g' = Inr d' \<and> control_kept d d'"
proof -
  from assms obtain desired where desired: "v1_asset i a = Inr desired"
    and step: "case asset_by_id d a of
          Some x \<Rightarrow> x = desired \<and> g' = g
        | None \<Rightarrow> (\<exists>d' saved. definition_with_asset d desired = Inr d'
            \<and> repository_save path d' (pd_revision d) g = Inr (saved, g'))"
    by (auto simp: ensured_def)
  note dok = repository_load_facts(1) [OF d]
  show ?thesis
  proof (cases "asset_by_id d a")
    case None
    with step obtain d' saved where d': "definition_with_asset d desired = Inr d'"
      and save: "repository_save path d' (pd_revision d) g = Inr (saved, g')" by auto
    note valid = definition_with_asset_valid [OF d' dok v1_asset_ok [OF desired]]
    have "control_kept d ((sort_tasks d')\<lparr>pd_revision := pd_revision d + 1\<rparr>)"
      using with_asset_control [OF d' dok v1_asset_ok [OF desired]] stored_control by (rule control_kept_trans)
    then show ?thesis using repository_saved(1) [OF save valid(1)] by blast
  next
    case (Some x)
    with step d show ?thesis by auto
  qed
qed

lemma ensured_all_control:
  "ensured_all path plans items g g' \<Longrightarrow> repository_load path g = Inr d \<Longrightarrow>
     \<exists>d'. repository_load path g' = Inr d' \<and> control_kept d d'"
proof (induction path plans items g g' arbitrary: d rule: ensured_all.induct)
  case (2 path plans i items g g')
  then obtain mid where step: "case map_of plans (ri_id i) of None \<Rightarrow> mid = g
      | Some plan \<Rightarrow> ensured path i (mg_asset_id plan) g mid" and rest: "ensured_all path plans items mid g'" by auto
  from step 2(3) obtain d1 where d1: "repository_load path mid = Inr d1" "control_kept d d1"
    using ensured_control [of path i _ g mid d] by (auto split: option.splits)
  from 2(1) [OF rest d1(1)] d1(2) show ?case using control_kept_trans by blast
qed auto

text \<open>The assets that are new are those of the items.\<close>

lemma ensured_all_only:
  "ensured_all path plans items g g' \<Longrightarrow> plans_valid plans \<Longrightarrow> stored_assets path g' a = Some x \<Longrightarrow>
     stored_assets path g a = Some x \<or> (\<exists>i \<in> set items. \<exists>plan. map_of plans (ri_id i) = Some plan \<and> mg_asset_id plan = a)"
proof (induction path plans items g g' rule: ensured_all.induct)
  case (2 path plans i items g g')
  then obtain mid where step: "case map_of plans (ri_id i) of None \<Rightarrow> mid = g
      | Some plan \<Rightarrow> ensured path i (mg_asset_id plan) g mid" and rest: "ensured_all path plans items mid g'" by auto
  have "stored_assets path g a = Some x \<or> (\<exists>plan. map_of plans (ri_id i) = Some plan \<and> mg_asset_id plan = a)"
    if "stored_assets path mid a = Some x"
    using step that ensured_stores(1) [OF _ plans_validD [OF 2(3)], of path i _ g mid]
    by (auto split: option.splits if_splits) fastforce
  with 2(1) [OF rest 2(3,4)] show ?case by auto
qed simp

text \<open>The definition an absent one is replaced by: assisted, with the default policy, and empty.\<close>

definition blank :: "string \<Rightarrow> execution_definition \<Rightarrow> bool" where
  "blank project d \<longleftrightarrow> pd_schema_version d = 1 \<and> validate_project_id (PStr project) = Inr (pd_project d)
     \<and> pd_mode d = Mode_ASSISTED \<and> pd_policy d = default_policy \<and> pd_tasks d = []"

lemma execution_file_blank:
  assumes "execution_file env None h0"
  shows "\<exists>d. repository_load (ce_path env) h0 = Inr d \<and> blank (ce_project env) d \<and> asset_by_id d = (\<lambda>_. None)"
proof -
  from assms obtain empty created where
    init: "definition_init 1 (PStr (ce_project env)) (PInt 1) (PStr (mode_value Mode_ASSISTED)) default_policy [] [] [] [] = Inr empty"
    and create: "repository_create empty None = Inr (created, h0)" by (auto simp: execution_file_def)
  note ok = new_definition_ok [OF init]
  have "validate_project_id (PStr (ce_project env)) = Inr (pd_project empty)"
    using init by (auto simp: definition_init_def Let_def split: if_splits sum.splits option.splits)
  then have fields: "blank (ce_project env) empty" "pd_phases empty = []" "pd_gates empty = []" "pd_milestones empty = []"
    using definition_init_control [OF init] definition_init_lists [OF init] by (simp_all add: blank_def)
  let ?d = "empty\<lparr>pd_revision := 1\<rparr>"
  have ok1: "definition_ok ?d" by (rule definition_ok_revision [OF ok]) simp
  have "definition_wf empty None"
    using create by (intro validated_wf [OF ok]) (auto simp: repository_create_def)
  moreover have "h0 = Some (PDict (definition_as_mapping ?d))"
    using create by (auto simp: repository_create_def replace_definition_ok [OF ok1] split: if_splits)
  ultimately have "repository_load (ce_path env) h0 = Inr (sort_tasks ?d)" using load_stored [OF ok1] by auto
  moreover have "blank (ce_project env) (sort_tasks ?d)" using fields(1) by (simp add: blank_def sort_tasks_def)
  moreover have "asset_by_id (sort_tasks ?d) = (\<lambda>_. None)"
    using fields(2-4) by (intro ext) (simp add: asset_by_id_def phase_index_def gate_index_def milestone_index_def sort_tasks_def py_dict_def)
  ultimately show ?thesis by blast
qed

lemma blank_control: "blank project d \<Longrightarrow> control_kept d d' \<Longrightarrow> blank project d'"
  by (simp add: blank_def control_kept_def)

text \<open>Whether a Task may start depends on nothing that a migration changes.\<close>

lemma same_eligibility:
  assumes c: "control_kept d d'" and d: "repository_load path g = Inr d" and d': "repository_load path' g' = Inr d'"
    and kept: "\<And>a x. asset_by_id d a = Some x \<Longrightarrow> asset_by_id d' a = Some x"
  shows "evaluate_task_eligibility t d' rt view = evaluate_task_eligibility t d rt view"
proof -
  note u = definition_ok_unique_ids [OF repository_load_facts(1) [OF d]]
    and u' = definition_ok_unique_ids [OF repository_load_facts(1) [OF d']]
  have tasks: "set (pd_tasks d') = set (pd_tasks d)" using c by (metis control_kept_def mset_eq_setD)
  have "map_of (task_index d') t = Some x \<longleftrightarrow> map_of (task_index d) t = Some x" for x
    by (simp add: task_index_Some [OF u] task_index_Some [OF u'] tasks)
  then have index: "map_of (task_index d') t = map_of (task_index d) t" by (metis option.exhaust)
  have phase: "map_of (phase_index d') (pt_phase x) = map_of (phase_index d) (pt_phase x)"
    if "map_of (task_index d) t = Some x" for x
  proof -
    have "x \<in> set (pd_tasks d)" using that task_index_Some [OF u] by simp
    then have "pt_phase x \<in> set (phase_ids d)"
      using repository_load_facts(2) [OF d] by (auto simp: definition_wf_def task_wf_def)
    then obtain p where p: "map_of (phase_index d) (pt_phase x) = Some p"
      using index_None(3) [of d "pt_phase x"] by fastforce
    then have "asset_by_id d' (pt_phase x) = Some (Asset_phase p)" by (intro kept) (simp add: asset_by_id_def)
    then show ?thesis using p by (auto simp: asset_by_id_def split: option.splits)
  qed
  have "required_task_failed d' view = required_task_failed d view"
    by (simp add: required_task_failed_def list_ex_iff tasks)
  moreover have "pd_policy d' = pd_policy d" using c by (simp add: control_kept_def)
  ultimately show ?thesis
    unfolding evaluate_task_eligibility_def index
    by (cases "map_of (task_index d) t") (simp_all add: phase cong: option.case_cong)
qed

section \<open>The documents a migration leaves\<close>

text \<open>The items before and after, beside the definition that is stored.\<close>

definition promoted :: "execution_definition \<Rightarrow> road_item \<Rightarrow> road_item \<Rightarrow> bool" where
  "promoted d i i' \<longleftrightarrow> (if ri_kind i \<notin> set project_kinds then i' = i
     else i' = i\<lparr>ri_title := [], ri_description := [], ri_asset_id := ri_asset_id i', ri_schedule := unscheduled\<rparr>
       \<and> (\<exists>asset. asset_by_id d (ri_asset_id i') = Some asset \<and> asset_shows i asset))"

lemma migrated_roadmap_fields:
  assumes "migrated_roadmap plans r = Inr r2" and "roadmap_ok r"
  shows "r2 = r\<lparr>rm_schema_version := 2, rm_items := rm_items r2\<rparr>"
proof -
  note m = migrated_roadmap_ok [OF assms]
  from assms(1) obtain items where "replace_roadmap (r\<lparr>rm_schema_version := 2, rm_items := items\<rparr>) = Inr r2"
    by (auto simp: migrated_roadmap_def)
  then have "rm_revision r2 = rm_revision r" "rm_created_at r2 = rm_created_at r" "rm_updated_at r2 = rm_updated_at r"
    by (simp_all add: replace_roadmap_def roadmap_init_iff)
  then show ?thesis using m(2-4,6,7) by (simp add: roadmap.equality)
qed

lemma roadmap_ok_items: "roadmap_ok r \<Longrightarrow> distinct (map ri_id (rm_items r)) \<and> list_all item_ok (rm_items r)"
  using roadmap_ok_wf [of r] by (simp add: roadmap_ok_def roadmap_wf_def)

lemma migrating_promotes:
  assumes "migrating env digest k f r p marker f2 saved"
  obtains d' where "repository_load (ce_path env) (cf_definition f2) = Inr d'"
    and "saved = r\<lparr>rm_schema_version := 2, rm_revision := rm_revision r + 1, rm_items := rm_items saved\<rparr>"
    and "list_all2 (promoted d') (rm_items r) (rm_items saved)"
    and "\<And>i i'. (i, i') \<in> set (zip (rm_items r) (rm_items saved)) \<Longrightarrow> ri_kind i \<in> set project_kinds \<Longrightarrow>
       \<exists>m. map_of (plan_index (mp_items p)) (ri_id i) = Some m \<and> ri_asset_id i' = mg_asset_id m"
    and "\<And>d a x. repository_load (ce_path env) (cf_definition f) = Inr d \<Longrightarrow> asset_by_id d a = Some x \<Longrightarrow> asset_by_id d' a = Some x"
    and "\<And>d. repository_load (ce_path env) (cf_definition f) = Inr d \<Longrightarrow> control_kept d d'"
    and "cf_definition f = None \<Longrightarrow> blank (ce_project env) d'"
    and "\<And>a x. asset_by_id d' a = Some x \<Longrightarrow> a \<notin> set (map ri_asset_id (rm_items saved)) \<Longrightarrow>
       \<exists>d. repository_load (ce_path env) (cf_definition f) = Inr d \<and> asset_by_id d a = Some x"
proof -
  let ?plans = "plan_index (mp_items p)"
  from assms have r: "roadmap_load k (cf_roadmaps f) = Inr r" and does: "promotes env ?plans r (rm_revision r) marker f2 saved"
    unfolding migrating_def by blast+
  obtain q where q: "prepared_conflicts r (file_digest digest (rm_id r) marker) q = []" "pr_items q = mp_items p"
    and valid: "plans_valid ?plans" and same: "cf_roadmaps marker = cf_roadmaps f" "cf_definition marker = cf_definition f"
    and names: "list_all (\<lambda>m. asset_name (mg_asset_id m)) (mp_items p)"
    by (rule migrating_marker [OF assms], rule that) (auto dest: parsed_items_names simp: prepared_in_def split: option.splits)
  note ok = roadmap_load_facts(1) [OF r]
  have cover: "set (map (\<lambda>i. (ri_id i, ri_kind i)) (filter (\<lambda>i. ri_kind i \<in> set project_kinds) (rm_items r)))
      = set (map (\<lambda>i. (mg_item_id i, mg_kind i)) (mp_items p))"
    using q by (simp add: prepared_conflicts_def split: if_splits)
  from does obtain h0 r2 dir where h0: "execution_file env (cf_definition f) h0"
    and all: "ensured_all (ce_path env) ?plans (rm_items r) h0 (cf_definition f2)" and r2: "migrated_roadmap ?plans r = Inr r2"
    and save: "roadmap_save r2 (rm_revision r) (cf_roadmaps f) = Inr (saved, dir)"
    by (auto simp: promotes_def same)
  note m = migrated_roadmap_ok [OF r2 ok] and fields = migrated_roadmap_fields [OF r2 ok]
  have new: "saved = r2\<lparr>rm_revision := rm_revision r + 1\<rparr>" using roadmap_save_Inr [OF save m(1)] by metis
  have saved: "saved = r\<lparr>rm_schema_version := 2, rm_revision := rm_revision r + 1, rm_items := rm_items saved\<rparr>"
    "rm_items saved = rm_items r2"
    using arg_cong [OF fields, of "\<lambda>x. x\<lparr>rm_revision := rm_revision r + 1\<rparr>"] by (simp_all add: new)
  obtain d' where d': "repository_load (ce_path env) (cf_definition f2) = Inr d'"
    using ensured_all_loads [OF all valid execution_file_loads [OF h0]] by blast
  have stored: "stored_assets (ce_path env) (cf_definition f2) = asset_by_id d'" by (simp add: stored_assets_def d')
  have each: "promoted d' i i' \<and> (ri_kind i \<in> set project_kinds \<longrightarrow>
      (\<exists>m. map_of ?plans (ri_id i) = Some m \<and> ri_asset_id i' = mg_asset_id m))"
    if i: "i \<in> set (rm_items r)" and i': "migrated_item ?plans i = Inr i'" for i i'
  proof -
    have iok: "item_ok i" using roadmap_ok_items [OF ok] i by (simp add: list_all_iff)
    note covered = plan_covers [OF cover conjunct1 [OF roadmap_ok_items [OF ok]] i]
    show ?thesis
    proof (cases "ri_kind i \<in> set project_kinds")
      case True
      with covered obtain plan where plan: "map_of ?plans (ri_id i) = Some plan" by blast
      have "asset_name (mg_asset_id plan)" using names plan_index_Some [OF plan] by (auto simp: list_all_iff)
      from migrated_item_kept [OF iok True plan this i'] ensured_all_stores [OF all valid i plan] plan True
      show ?thesis by (auto simp: promoted_def stored v1_asset_shows iok)
    next
      case False
      with covered have "map_of ?plans (ri_id i) = None" by (cases "map_of ?plans (ri_id i)") auto
      with i' False show ?thesis by (simp add: promoted_def migrated_item_def)
    qed
  qed
  have pairs: "list_all2 (\<lambda>i i'. migrated_item ?plans i = Inr i') (rm_items r) (rm_items saved)"
    using m(5) by (simp add: mapr_Inr_iff saved(2))
  have kept: "h0 = cf_definition f" if "repository_load (ce_path env) (cf_definition f) = Inr d" for d
    using h0 that by (cases "cf_definition f") (auto simp: execution_file_def repository_load_def)
  have control: "control_kept d d'" if "repository_load (ce_path env) h0 = Inr d" for d
    using ensured_all_control [OF all that] d' by simp
  show ?thesis
  proof (rule that [OF d' saved(1)])
    show "control_kept d d'" if "repository_load (ce_path env) (cf_definition f) = Inr d" for d
      using control kept [OF that] that by simp
    show "blank (ce_project env) d'" if "cf_definition f = None"
      using execution_file_blank h0 that control blank_control by metis
    show "\<exists>d. repository_load (ce_path env) (cf_definition f) = Inr d \<and> asset_by_id d a = Some x"
      if a: "asset_by_id d' a = Some x" "a \<notin> set (map ri_asset_id (rm_items saved))" for a x
    proof -
      have "\<not> (\<exists>i \<in> set (rm_items r). \<exists>plan. map_of ?plans (ri_id i) = Some plan \<and> mg_asset_id plan = a)"
      proof
        assume "\<exists>i \<in> set (rm_items r). \<exists>plan. map_of ?plans (ri_id i) = Some plan \<and> mg_asset_id plan = a"
        then obtain i plan where i: "i \<in> set (rm_items r)" "map_of ?plans (ri_id i) = Some plan" "mg_asset_id plan = a" by blast
        then have kind: "ri_kind i \<in> set project_kinds"
          using plan_covers [OF cover conjunct1 [OF roadmap_ok_items [OF ok]] i(1)] by blast
        from i(1) obtain k where k: "k < length (rm_items r)" "rm_items r ! k = i" by (auto simp: in_set_conv_nth)
        define i' where "i' = rm_items saved ! k"
        have i': "i' \<in> set (rm_items saved)" "migrated_item ?plans i = Inr i'"
          using list_all2_nthD [OF pairs k(1)] list_all2_lengthD [OF pairs] k by (simp_all add: i'_def)
        have "ri_asset_id i' = a" using each [OF i(1) i'(2)] kind i(2,3) by auto
        with i'(1) have "a \<in> set (map ri_asset_id (rm_items saved))" by auto
        with a(2) show False by contradiction
      qed
      then have s: "stored_assets (ce_path env) h0 a = Some x"
        using ensured_all_only [OF all valid, of a x] a(1) by (auto simp: stored)
      have "cf_definition f \<noteq> None"
      proof
        assume "cf_definition f = None"
        then have "execution_file env None h0" using h0 by simp
        from execution_file_blank [OF this] s show False by (auto simp: stored_assets_def)
      qed
      then have "h0 = cf_definition f" using h0 by (auto simp: execution_file_def)
      then show ?thesis using s by (auto simp: stored_assets_def split: sum.splits)
    qed
    show "list_all2 (promoted d') (rm_items r) (rm_items saved)"
      by (rule list.rel_mono_strong [OF pairs]) (use each in blast)
    show "\<exists>m. map_of ?plans (ri_id i) = Some m \<and> ri_asset_id i' = mg_asset_id m"
      if "(i, i') \<in> set (zip (rm_items r) (rm_items saved))" "ri_kind i \<in> set project_kinds" for i i'
      using pairs that each [of i i'] by (auto simp: list_all2_iff dest: set_zip_leftD)
    show "asset_by_id d' a = Some x" if d: "repository_load (ce_path env) (cf_definition f) = Inr d" "asset_by_id d a = Some x" for d a x
    proof -
      show ?thesis using kept [OF d(1)] ensured_all_mono [OF all valid, of a x] d by (simp add: stored_assets_def d')
    qed
  qed
qed

section \<open>New identifiers\<close>

lemma plan_items_allocated:
  "plan_items k al items = (planned, conflicts) \<Longrightarrow> m \<in> set planned \<Longrightarrow> map_of al (k, mg_item_id m) = Some (mg_asset_id m)"
  by (induction items arbitrary: planned conflicts) (auto split: prod.splits if_splits option.splits)

lemma distinct_values: "distinct (map snd al) \<Longrightarrow> map_of al x = Some v \<Longrightarrow> map_of al y = Some v \<Longrightarrow> x = y"
  by (induction al) (force dest: map_of_SomeD split: if_splits)+

lemma asset_by_id_existing: "asset_by_id d a = Some x \<Longrightarrow> a \<in> set (asset_ids d)"
  by (auto simp: asset_by_id_def asset_ids_def phase_index_def gate_index_def milestone_index_def
      split: option.splits dest!: map_of_SomeD set_mp [OF set_py_dict_subset])

text \<open>A migration that was never prepared before gives every item an asset of its own, which did not exist.\<close>

lemma fresh_identifiers:
  assumes "planned_fresh env digest r f p" and "map_of (plan_index (mp_items p)) i = Some m" and "map_of (plan_index (mp_items p)) j = Some m'"
  shows "mg_asset_id m = mg_asset_id m' \<Longrightarrow> i = j"
    and "repository_load (ce_path env) (cf_definition f) = Inr d \<Longrightarrow> asset_by_id d (mg_asset_id m) = None"
proof -
  from assms(1) obtain x0 rs al items conflicts where
    d: "repository_load_optional (ce_path env) (cf_definition f) = Inr x0" and rs: "roadmap_list (cf_roadmaps f) = Inr rs"
    and al: "identity_allocation (ce_sha env) x0 rs = Inr al" "plan_items (rm_id r) al (rm_items r) = (items, conflicts)"
    and p: "mp_items p = items" unfolding planned_fresh_def by (auto simp: plan_for_def)
  note ids = identity_allocation_Inr [OF al(1) roadmap_list_ok [OF rs]]
  have look: "map_of al (rm_id r, c) = Some (mg_asset_id x)" if "map_of (plan_index (mp_items p)) c = Some x" for c x
    using plan_index_Some [OF that] plan_items_allocated [OF al(2)] p by auto
  show "mg_asset_id m = mg_asset_id m' \<Longrightarrow> i = j" using distinct_values [OF ids(1) look [OF assms(2)]] look [OF assms(3)] by auto
  have "mg_asset_id m \<in> set (map snd al)" using look [OF assms(2)] by (force dest: map_of_SomeD)
  with ids(2) have "mg_asset_id m \<notin> set (existing_asset_ids x0)" by blast
  then show "asset_by_id d (mg_asset_id m) = None" if "repository_load (ce_path env) (cf_definition f) = Inr d"
    using that d asset_by_id_existing
    by (cases "cf_definition f"; cases "asset_by_id d (mg_asset_id m)")
      (auto simp: repository_load_def repository_load_optional_def existing_asset_ids_def split: sum.splits)
qed

end
