(* ===== verification/Spec_Migration.thy ===== *)
theory Spec_Migration
  imports Road_Promoted Road_Sample
begin

text \<open>
  Properties of the migration of Roadmaps of schema 1: what it makes of the two documents, and that it
  can be continued after any number of crashes.
\<close>

section \<open>Resumption\<close>

lemma midway_run:
  assumes "quiet_others env" and "migrating env digest k f r p marker f2 saved" and "midway env f r p marker f2 saved g"
  obtains s where "apply_migration env digest k (rm_revision r) (boot g) = (Inr saved, s)"
    and "cf_roadmaps (co_files s) = cf_roadmaps f2" and "cf_definition (co_files s) = cf_definition f2"
    and "\<And>c. midway env f r p marker f2 saved (crash c (apply_migration env digest k (rm_revision r)) g)"
proof -
  let ?P = "midway env f r p marker f2 saved" and ?m = "apply_migration env digest k (rm_revision r)"
  have t: "triple (stands ?P g g) ?m (\<lambda>x s. \<exists>g'. (x = saved \<and> cf_roadmaps g' = cf_roadmaps f2
      \<and> cf_definition g' = cf_definition f2) \<and> stands ?P g g' s) (\<lambda>_. False)"
    by (rule resume_triple [OF assms])
  have boot: "stands ?P g g (boot g)" using assms(3) by (rule stands_boot)
  obtain a s where run: "?m (boot g) = (a, s)" by (cases "?m (boot g)")
  then obtain x where a: "a = Inr x" using tripleD_Inl [OF t boot] by (cases a) auto
  then obtain g' where g': "x = saved" "cf_roadmaps g' = cf_roadmaps f2" "cf_definition g' = cf_definition f2" "stands ?P g g' s"
    using tripleD_Inr [OF t boot] run by blast
  have "?P (crash c ?m g)" for c using g'(4) by (auto simp: crash_def run stands_def intro: always_take)
  with run a g' show ?thesis by (intro that) (auto simp: stands_def)
qed

lemma crash_read_only:
  assumes "roadmap_load k (cf_roadmaps f) = Inr r" and "rm_schema_version r = 2" and "quiet_others env"
  shows "apply_migration env digest k n (boot f) = (Inr r, snd (apply_migration env digest k n (boot f)))"
    and "co_files (snd (apply_migration env digest k n (boot f))) = f"
    and "crash c (apply_migration env digest k n) f = f"
proof -
  have t: "triple (stands (\<lambda>g. g = f) f f) (apply_migration env digest k n) (\<lambda>x s. x = r \<and> stands (\<lambda>g. g = f) f f s) (\<lambda>_. False)"
    unfolding apply_migration_def
    by (rule triple_bind [OF load_roadmap_triple [OF assms(3,1)]], rule triple_conj_pre) (simp add: assms(2) triple_def)
  have boot: "stands (\<lambda>g. g = f) f f (boot f)" by (rule stands_boot) simp
  obtain a s where run: "apply_migration env digest k n (boot f) = (a, s)" by (cases "apply_migration env digest k n (boot f)")
  then obtain x where a: "a = Inr x" using tripleD_Inl [OF t boot] by (cases a) auto
  then have "x = r" "stands (\<lambda>g. g = f) f f s" using tripleD_Inr [OF t boot] run by blast+
  then show "apply_migration env digest k n (boot f) = (Inr r, snd (apply_migration env digest k n (boot f)))"
    and "co_files (snd (apply_migration env digest k n (boot f))) = f"
    and "crash c (apply_migration env digest k n) f = f"
    by (auto simp: run a stands_def crash_def dest: always_take [where n = c])
qed

text \<open>C6: a migration can be continued: if it would succeed undisturbed, the process may die after any of
  its effects, and so may each of any number of later attempts; the next attempt that is not
  interrupted succeeds with the same answer and leaves the same Roadmaps and the same definition
  as the migration that was never interrupted: no asset is created twice.\<close>

theorem migration_resumes:
  fixes ns :: "nat list" and digest :: "pyval \<Rightarrow> string" and k :: string and n :: int
  assumes "quiet_others env"
  defines "migrate \<equiv> apply_migration env digest k n"
  assumes "migrate (boot f) = (Inr saved, s)"
  defines "g \<equiv> foldl (\<lambda>g c. crash c migrate g) f ns"
  shows "case migrate (boot g) of
      (Inl e, s') \<Rightarrow> False
    | (Inr answer, s') \<Rightarrow> answer = saved \<and> cf_roadmaps (co_files s') = cf_roadmaps (co_files s)
        \<and> cf_definition (co_files s') = cf_definition (co_files s)"
proof -
  have boot: "co_files (boot f) = f" by (simp add: boot_def)
  from apply_returned [OF assms(1) assms(3) [unfolded migrate_def], unfolded boot] show ?thesis
  proof (elim disjE exE conjE)
    fix r assume r: "roadmap_load k (cf_roadmaps f) = Inr r" "rm_schema_version r = 2" "saved = r" "co_files s = f"
    note still = crash_read_only [OF r(1,2) assms(1), where digest = digest and n = n, folded migrate_def]
    have "foldl (\<lambda>g c. crash c migrate g) f ns = f" by (induction ns) (simp_all add: still(3))
    then have "g = f" by (simp add: g_def)
    show ?thesis unfolding \<open>g = f\<close> assms(3) by simp
  next
    fix r p marker f2
    assume m: "migrating env digest k f r p marker f2 saved" and n: "n = rm_revision r" and s: "co_files s = completed p saved f2"
    have "midway env f r p marker f2 saved (foldl (\<lambda>g c. crash c migrate g) x ns)" if "midway env f r p marker f2 saved x" for x
      using that
    proof (induction ns arbitrary: x)
      case (Cons c ns)
      then show ?case using midway_run [OF assms(1) m Cons.prems] by (simp add: migrate_def n) metis
    qed simp
    then have "midway env f r p marker f2 saved g" by (simp add: g_def midway_def)
    then obtain s' where "migrate (boot g) = (Inr saved, s')" "cf_roadmaps (co_files s') = cf_roadmaps f2"
      "cf_definition (co_files s') = cf_definition f2"
      unfolding migrate_def n by (rule midway_run [OF assms(1) m])
    then show ?thesis by (simp add: s)
  qed
qed

text \<open>A Roadmap of schema 1 with a planned Task, a Phase, whose identifier is taken, and a Gate.\<close>

definition legacy_roadmap :: roadmap where
  "legacy_roadmap = sample_roadmap\<lparr>rm_schema_version := 1, rm_items := [sample_planned_item,
     sample_planned_item\<lparr>ri_id := ''p'', ri_kind := ''phase'', ri_order := 20\<rparr>,
     sample_planned_item\<lparr>ri_id := ''g'', ri_kind := ''gate'', ri_order := 30\<rparr>],
     rm_relations := [\<lparr>rr_source = ''a'', rr_target = ''p'', rr_kind = ''blocks''\<rparr>]\<rparr>"

definition legacy_files :: coordination_files where
  "legacy_files = sample_files\<lparr>cf_roadmaps := [(''r'', PDict (roadmap_as_mapping legacy_roadmap))]\<rparr>"

abbreviation legacy_run :: "roadmap coordination" where
  "legacy_run \<equiv> apply_migration undisturbed json_dumps ''r'' 4"

lemma legacy_migrates:
  "case legacy_run (boot legacy_files) of (Inl e, s) \<Rightarrow> False
   | (Inr r, s) \<Rightarrow> map ri_asset_id (rm_items r) = [[], ''r-p'', ''g''] \<and> 3 < length (co_trace s)"
  by code_simp

lemma legacy_returns:
  obtains r s where "legacy_run (boot legacy_files) = (Inr r, s)" and "map ri_asset_id (rm_items r) = [[], ''r-p'', ''g'']"
  using legacy_migrates by (auto split: prod.splits sum.splits)

lemma legacy_load: "roadmap_load ''r'' (cf_roadmaps legacy_files) = Inr legacy_roadmap" "rm_schema_version legacy_roadmap = 1"
proof -
  have "roadmap_ok legacy_roadmap" by code_simp
  from roadmap_load_stored [OF this, of "cf_roadmaps legacy_files"]
  show "roadmap_load ''r'' (cf_roadmaps legacy_files) = Inr legacy_roadmap" by (simp add: legacy_files_def legacy_roadmap_def sample_roadmap_def)
qed (simp add: legacy_roadmap_def)

text \<open>The process dies after the marker and the access before the assets, and the next one after more effects.\<close>

theorem migration_resumes_witness:
  "\<exists>r s. legacy_run (boot (crash 9 legacy_run (crash 7 legacy_run legacy_files))) = (Inr r, s)
    \<and> map ri_asset_id (rm_items r) = [[], ''r-p'', ''g'']"
proof -
  obtain r s where run: "legacy_run (boot legacy_files) = (Inr r, s)" and ids: "map ri_asset_id (rm_items r) = [[], ''r-p'', ''g'']"
    by (rule legacy_returns)
  from migration_resumes [OF undisturbed_quiet run, of "[7, 9]"] ids show ?thesis by (auto split: prod.splits sum.splits)
qed

section \<open>The documents\<close>

text \<open>C7: what a migration that succeeds has done: the Roadmap, on the revision the caller has seen, is
  stored with schema 2 and the next revision, its title, text and relations as before; its Phases, Gates and
  Milestones, and no other items, have become references to assets of the stored definition that show
  what the items showed and ask for nothing but, of a Gate, the decision of a person; lane and order stay.
  The definition, if there was one, still has every asset it had, its Project, mode, policy and Tasks,
  and no assets were added but those of the items; the eligibility of every Task, in every state of the runtime and
  of the Tasks, is what it was, so that the migration lets no Task start. If there was none, the new one is in assisted
  mode, with the default policy and without Tasks. When no migration had been prepared before, each of
  these items has an asset of its own, which is new.\<close>

theorem migration_promotes:
  assumes "quiet_others env" and "roadmap_load k (cf_roadmaps f) = Inr r" and "rm_schema_version r = 1"
    and "apply_migration env digest k n (boot f) = (Inr r', s)"
  shows "n = rm_revision r \<and> roadmap_load k (cf_roadmaps (co_files s)) = Inr r'
    \<and> r' = r\<lparr>rm_schema_version := 2, rm_revision := n + 1, rm_items := rm_items r'\<rparr>
    \<and> (\<exists>d'. repository_load (ce_path env) (cf_definition (co_files s)) = Inr d'
        \<and> list_all2 (promoted d') (rm_items r) (rm_items r')
        \<and> (\<forall>a x. asset_by_id d' a = Some x \<longrightarrow> a \<notin> set (map ri_asset_id (rm_items r')) \<longrightarrow>
            (\<exists>d. repository_load (ce_path env) (cf_definition f) = Inr d \<and> asset_by_id d a = Some x))
        \<and> (\<forall>d. repository_load (ce_path env) (cf_definition f) = Inr d \<longrightarrow>
            pd_project d' = pd_project d \<and> pd_mode d' = pd_mode d \<and> pd_policy d' = pd_policy d
            \<and> mset (pd_tasks d') = mset (pd_tasks d)
            \<and> (\<forall>a x. asset_by_id d a = Some x \<longrightarrow> asset_by_id d' a = Some x)
            \<and> (\<forall>t rt view. evaluate_task_eligibility t d' rt view = evaluate_task_eligibility t d rt view))
        \<and> (cf_definition f = None \<longrightarrow>
            pd_mode d' = Mode_ASSISTED \<and> pd_policy d' = default_policy \<and> pd_tasks d' = []))
    \<and> (map_of (cf_markers f) (rm_id r) = None \<longrightarrow>
        distinct (map ri_asset_id (filter (\<lambda>i. ri_kind i \<in> set project_kinds) (rm_items r')))
        \<and> (\<forall>d. repository_load (ce_path env) (cf_definition f) = Inr d \<longrightarrow>
            (\<forall>i \<in> set (rm_items r'). ri_kind i \<in> set project_kinds \<longrightarrow> asset_by_id d (ri_asset_id i) = None)))"
proof -
  have boot: "co_files (boot f) = f" by (simp add: boot_def)
  obtain r0 p marker f2 where m: "migrating env digest k f r0 p marker f2 r'" and n: "n = rm_revision r0"
    and s: "co_files s = completed p r' f2"
    using apply_returned [OF assms(1,4), unfolded boot] assms(2,3) by auto
  have "r0 = r" using m assms(2) by (simp add: migrating_def)
  note m = m [unfolded this] and n = n [unfolded this]
  from m have does: "promotes env (plan_index (mp_items p)) r (rm_revision r) marker f2 r'"
    and planned: "planned_fresh env digest r f p \<or> planned_again env digest r f p" unfolding migrating_def by blast+
  obtain d' where d': "repository_load (ce_path env) (cf_definition f2) = Inr d'"
    and r': "r' = r\<lparr>rm_schema_version := 2, rm_revision := rm_revision r + 1, rm_items := rm_items r'\<rparr>"
    and items: "list_all2 (promoted d') (rm_items r) (rm_items r')"
    and plans: "\<And>i i'. (i, i') \<in> set (zip (rm_items r) (rm_items r')) \<Longrightarrow> ri_kind i \<in> set project_kinds \<Longrightarrow>
       \<exists>m. map_of (plan_index (mp_items p)) (ri_id i) = Some m \<and> ri_asset_id i' = mg_asset_id m"
    and kept: "\<And>d a x. repository_load (ce_path env) (cf_definition f) = Inr d \<Longrightarrow> asset_by_id d a = Some x \<Longrightarrow> asset_by_id d' a = Some x"
    and control: "\<And>d. repository_load (ce_path env) (cf_definition f) = Inr d \<Longrightarrow> control_kept d d'"
    and blank: "cf_definition f = None \<Longrightarrow> blank (ce_project env) d'"
    and only: "\<And>a x. asset_by_id d' a = Some x \<Longrightarrow> a \<notin> set (map ri_asset_id (rm_items r')) \<Longrightarrow>
       \<exists>d. repository_load (ce_path env) (cf_definition f) = Inr d \<and> asset_by_id d a = Some x"
    by (rule migrating_promotes [OF m], rule that)
  have stored: "repository_load (ce_path env) (cf_definition (co_files s)) = Inr d'" by (simp add: s d')
  have same: "pd_project d' = pd_project d \<and> pd_mode d' = pd_mode d \<and> pd_policy d' = pd_policy d
      \<and> mset (pd_tasks d') = mset (pd_tasks d)
      \<and> (\<forall>a x. asset_by_id d a = Some x \<longrightarrow> asset_by_id d' a = Some x)
      \<and> (\<forall>t rt view. evaluate_task_eligibility t d' rt view = evaluate_task_eligibility t d rt view)"
    if d: "repository_load (ce_path env) (cf_definition f) = Inr d" for d
    using control [OF d] same_eligibility [OF control [OF d] d d' kept [OF d]] kept [OF d]
    unfolding control_kept_def by blast
  have "cf_roadmaps marker = cf_roadmaps f" by (rule migrating_marker [OF m])
  then have load: "roadmap_load k (cf_roadmaps (co_files s)) = Inr r'"
    using promotes_loads(1) [OF does assms(2)] by (simp add: s)
  have "distinct (map ri_asset_id (filter (\<lambda>i. ri_kind i \<in> set project_kinds) (rm_items r')))
      \<and> (\<forall>d. repository_load (ce_path env) (cf_definition f) = Inr d \<longrightarrow>
          (\<forall>i \<in> set (rm_items r'). ri_kind i \<in> set project_kinds \<longrightarrow> asset_by_id d (ri_asset_id i) = None))"
    if none: "map_of (cf_markers f) (rm_id r) = None"
  proof -
    have fresh: "planned_fresh env digest r f p" using planned none by (auto simp: planned_again_def prepared_in_def)
    have source: "\<exists>m. map_of (plan_index (mp_items p)) (ri_id i') = Some m \<and> ri_asset_id i' = mg_asset_id m"
      if i': "i' \<in> set (rm_items r')" "ri_kind i' \<in> set project_kinds" for i'
    proof -
      have len: "length (rm_items r) = length (rm_items r')" using items by (rule list_all2_lengthD)
      with i'(1) obtain i where i: "(i, i') \<in> set (zip (rm_items r) (rm_items r'))" by (auto simp: in_set_conv_nth set_zip)
      then have "promoted d' i i'" using items by (auto simp: list_all2_iff)
      then have same: "ri_id i' = ri_id i" "ri_kind i' = ri_kind i" by (cases i; cases i'; auto simp: promoted_def split: if_splits)+
      with plans [OF i] i'(2) show ?thesis by simp
    qed
    have ids: "distinct (map ri_id (rm_items r'))" using roadmap_ok_items [OF roadmap_load_facts(1) [OF load]] by simp
    have "i = j" if "i \<in> set (rm_items r')" "ri_kind i \<in> set project_kinds" "j \<in> set (rm_items r')" "ri_kind j \<in> set project_kinds"
        "ri_asset_id i = ri_asset_id j" for i j
    proof -
      note ij = that
      obtain m m' where "map_of (plan_index (mp_items p)) (ri_id i) = Some m" "ri_asset_id i = mg_asset_id m"
        "map_of (plan_index (mp_items p)) (ri_id j) = Some m'" "ri_asset_id j = mg_asset_id m'"
        using source ij(1-4) by meson
      then have "ri_id i = ri_id j" using fresh_identifiers(1) [OF fresh] that(5) by simp
      with ids that show ?thesis by (auto simp: distinct_map dest: inj_onD)
    qed
    moreover have "asset_by_id d (ri_asset_id i) = None" if "i \<in> set (rm_items r')" "ri_kind i \<in> set project_kinds"
        "repository_load (ce_path env) (cf_definition f) = Inr d" for d i
      using source that fresh_identifiers(2) [OF fresh] by metis
    ultimately show ?thesis using ids by (auto simp: distinct_map inj_on_def)
  qed
  then show ?thesis
    using n load r' stored items same only blank [unfolded blank_def] by (intro conjI exI [of _ d']) auto
qed

theorem migration_promotes_witness:
  "\<exists>r s. legacy_run (boot legacy_files) = (Inr r, s) \<and> roadmap_load ''r'' (cf_roadmaps (co_files s)) = Inr r \<and> rm_schema_version r = 2"
proof -
  obtain r s where run: "legacy_run (boot legacy_files) = (Inr r, s)" by (rule legacy_returns)
  note does = migration_promotes [OF undisturbed_quiet legacy_load run]
  from does have "r = legacy_roadmap\<lparr>rm_schema_version := 2, rm_revision := 4 + 1, rm_items := rm_items r\<rparr>" by blast
  then have "rm_schema_version r = 2" by (rule ssubst) simp
  with run does show ?thesis by blast
qed

section \<open>Edits in between\<close>

text \<open>C21: a Roadmap that was edited after its migration was prepared is never migrated behind the editor's back:
  when the marker names another revision or another content of the file than the stored one, the migration
  raises and changes nothing, neither the documents nor the marker, whatever revision the caller names.\<close>

theorem edited_roadmap_not_migrated:
  assumes "quiet_others env" and "roadmap_load k (cf_roadmaps f) = Inr r" and "rm_schema_version r = 1"
    and "map_of (cf_markers f) (rm_id r) = Some raw" and "parse_prepared raw = Inr (Some q)"
    and "pr_source_revision q \<noteq> rm_revision r \<or> pr_source_digest q \<noteq> file_digest digest (rm_id r) f"
  shows "case apply_migration env digest k n (boot f) of (Inr r', s) \<Rightarrow> False | (Inl e, s) \<Rightarrow> co_files s = f"
proof -
  let ?P = "\<lambda>g. g = f"
  have q: "prepared_in (rm_id r) f = Inr (Some q)" "prepared_conflicts r (file_digest digest (rm_id r) f) q \<noteq> []"
    using assms(4-6) by (auto simp: prepared_in_def prepared_conflicts_def)
  have preview: "triple (stands ?P f f) (preview_migration env digest k) (\<lambda>p s. mp_conflicts p \<noteq> [] \<and> stands ?P f f s) (\<lambda>s. co_files s = f)"
  proof (cases "repository_load_optional (ce_path env) (cf_definition f)")
    case (Inl e)
    have "triple (stands ?P f f) (load_execution_optional env) (\<lambda>_ _. False) (\<lambda>s. co_files s = f)"
      unfolding load_execution_optional_def
      by (rule triple_bind [OF access_triple [OF assms(1)]]) (auto simp: triple_def stands_def Inl eget_def elift_def ebind_def)
    then show ?thesis unfolding preview_migration_def
      by (intro triple_bind [OF load_roadmap_triple [OF assms(1,2)]] triple_conj_pre) (rule triple_bind, assumption, simp add: triple_def)
  next
    case (Inr x)
    then have "planned_again env digest r f (plan_for r x (pr_source_revision q) (pr_source_digest q) (pr_items q)
        (prepared_conflicts r (file_digest digest (rm_id r) f) q) True)" using q(1) by (auto simp: planned_again_def)
    from preview_triple [OF assms(1,2) _ disjI2 [OF this], where P = ?P] show ?thesis
      by (rule triple_weaken) (use assms(3) q(2) in \<open>auto simp: plan_for_def\<close>)
  qed
  have raises: "triple (stands ?P f f) (eraise x) (\<lambda>_ _. False) (\<lambda>s. co_files s = f)" for x
    by (simp add: triple_def stands_def)
  have tail: "triple (stands ?P f f) (ebind (preview_migration env digest k) (\<lambda>p. if mp_conflicts p \<noteq> [] then eraise (a p) else b p))
      (\<lambda>_ _. False) (\<lambda>s. co_files s = f)" for a b
    by (rule triple_bind [OF preview], rule triple_conj_pre) (simp add: raises)
  have body: "triple (stands ?P f f) (if rm_schema_version r = 2 then c else if rm_revision r \<noteq> n then eraise x
      else ebind (preview_migration env digest k) (\<lambda>p. if mp_conflicts p \<noteq> [] then eraise (a p) else b p))
      (\<lambda>_ _. False) (\<lambda>s. co_files s = f)" for a b c x
    by (simp add: assms(3) raises tail)
  have "triple (stands ?P f f) (apply_migration env digest k n) (\<lambda>_ _. False) (\<lambda>s. co_files s = f)"
    unfolding apply_migration_def
    by (rule triple_bind [OF load_roadmap_triple [OF assms(1,2)]], rule triple_conj_pre, hypsubst, rule body)
  moreover have "stands ?P f f (boot f)" by (rule stands_boot) simp
  ultimately show ?thesis by (rule triple_def [THEN iffD1, THEN spec, THEN mp])
qed

text \<open>The marker of the sample was prepared on revision 3.\<close>

definition outdated_marker :: pyval where
  "outdated_marker = PDict (marker_row ''prepared'' (plan_for legacy_roadmap None 3 ''h'' [] [] False) [])"

theorem edited_roadmap_not_migrated_witness:
  "\<exists>e s. apply_migration undisturbed json_dumps ''r'' 4 (boot (legacy_files\<lparr>cf_markers := [(''r'', outdated_marker)]\<rparr>)) = (Inl e, s)"
proof -
  let ?f = "legacy_files\<lparr>cf_markers := [(''r'', outdated_marker)]\<rparr>"
  have load: "roadmap_load ''r'' (cf_roadmaps ?f) = Inr legacy_roadmap" using legacy_load(1) by simp
  have r: "rm_id legacy_roadmap = ''r''" "rm_revision legacy_roadmap = 4" by (simp_all add: legacy_roadmap_def sample_roadmap_def)
  have "\<forall>label. validate_roadmap_id (PStr ''r'') label = Inr ''r''"
    using validate_roadmap_id_fixed [of "PStr ''r''" "[]" "''r''"] by (rule allI) code_simp
  then have "parse_prepared outdated_marker = Inr (Some \<lparr>pr_roadmap_id = ''r'', pr_source_revision = 3, pr_source_digest = ''h'', pr_items = []\<rparr>)"
    unfolding outdated_marker_def using marker_round_trip [of "plan_for legacy_roadmap None 3 ''h'' [] [] False"]
    by (simp add: asset_name_def plan_for_def r)
  from edited_roadmap_not_migrated [OF undisturbed_quiet load legacy_load(2) _ this, of json_dumps 4]
  show ?thesis by (auto simp: r split: prod.splits sum.splits)
qed

section \<open>The order of migrations\<close>

text \<open>Two Roadmaps of schema 1: \<open>a\<close> has a Phase \<open>x\<close>, \<open>b\<close> has Phases \<open>x\<close> and \<open>a-x\<close>. The Phase \<open>a-x\<close> of \<open>b\<close> is given one
  identifier as long as \<open>a\<close> has not been migrated, and another one afterwards, when the Phase \<open>x\<close> of \<open>a\<close>
  has become \<open>a-x\<close>.\<close>

definition legacy_phases :: "string \<Rightarrow> string list \<Rightarrow> roadmap" where
  "legacy_phases i ids = legacy_roadmap\<lparr>rm_id := i, rm_relations := [],
     rm_items := map (\<lambda>k. sample_planned_item\<lparr>ri_id := k, ri_kind := ''phase''\<rparr>) ids\<rparr>"

definition allocated :: "execution_definition option \<Rightarrow> roadmap list \<Rightarrow> string \<times> string \<Rightarrow> string option" where
  "allocated d rs k = (case identity_allocation (\<lambda>_. ''0123456789abcdef0123456789abcdef'') d rs of
     Inl e \<Rightarrow> None | Inr al \<Rightarrow> map_of al k)"

lemma allocation_depends_on_order:
  "allocated None [legacy_phases ''a'' [''x''], legacy_phases ''b'' [''x'', ''a-x'']] (''a'', ''x'') = Some ''a-x''"
  "allocated None [legacy_phases ''a'' [''x''], legacy_phases ''b'' [''x'', ''a-x'']] (''b'', ''a-x'') = Some ''a-x-01234567''"
  "allocated (Some (sample_current\<lparr>pd_phases := map (\<lambda>p. p\<lparr>ph_id := ''a-x''\<rparr>) (pd_phases sample_current)\<rparr>))
     [(legacy_phases ''a'' [''x''])\<lparr>rm_schema_version := 2\<rparr>, legacy_phases ''b'' [''x'', ''a-x'']] (''b'', ''a-x'') = Some ''b-a-x''"
  by code_simp+

end
