(* ===== verification/Exec_Judged.thy ===== *)
theory Exec_Judged
  imports Exec_Starts
begin

text \<open>
  The record of a start: immediately before each start an operation makes, it saved a runtime
  whose Gates, hold and cancelled Phases are those the decision was made with. So what
  eligibility required of the Task can be read off the durable state that precedes the start.
\<close>

section \<open>Control state and traces\<close>

definition same_control :: "runtime_state \<Rightarrow> runtime_state \<Rightarrow> bool" where
  "same_control rt rt' \<longleftrightarrow> rt_gates rt' = rt_gates rt \<and> rt_held rt' = rt_held rt
     \<and> rt_hold_reason rt' = rt_hold_reason rt \<and> rt_cancelled_phases rt' = rt_cancelled_phases rt"

lemma same_control_refl [simp]: "same_control rt rt"
  by (simp add: same_control_def)

lemma same_control_trans: "same_control rt rt' \<Longrightarrow> same_control rt' rt'' \<Longrightarrow> same_control rt rt''"
  by (simp add: same_control_def)

lemma same_control_may_start:
  assumes "same_control rt rt'" shows "may_start d rt' view task phase = may_start d rt view task phase"
proof -
  have "gate_satisfied rt' = gate_satisfied rt"
    using assms by (intro ext) (simp add: gate_satisfied_def same_control_def)
  then show ?thesis using assms by (simp add: may_start_def same_control_def)
qed

text \<open>The saved runtime, then only events.\<close>

definition saved_last :: "runtime_state \<Rightarrow> effect list \<Rightarrow> bool" where
  "saved_last rt es \<longleftrightarrow> (\<exists>c rt' ev. es = c @ Saved rt' # map Appended ev \<and> same_control rt rt')"

definition covered :: "runtime_state \<Rightarrow> effect list \<Rightarrow> bool" where
  "covered rt es \<longleftrightarrow> (\<forall>b t a. es = b @ Started t # a \<longrightarrow> saved_last rt b)"

lemma covered_nostart: "starts_of es = [] \<Longrightarrow> covered rt es"
  unfolding covered_def by auto

lemma covered_append:
  assumes "covered rt es" and "starts_of es' = []" shows "covered rt (es @ es')"
  unfolding covered_def
proof (intro allI impI)
  fix b t a assume e: "es @ es' = b @ Started t # a"
  then consider us where "es = b @ us" "us @ es' = Started t # a"
    | us where "es' = us @ Started t # a"
    by (auto simp: append_eq_append_conv2)
  then show "saved_last rt b"
  proof cases
    case 1
    then show ?thesis using assms by (cases us) (auto simp: covered_def)
  next
    case 2
    then show ?thesis using assms(2) by simp
  qed
qed

lemma saved_last_prepend: "saved_last rt es \<Longrightarrow> saved_last rt (es0 @ es)"
  unfolding saved_last_def by (metis append.assoc)

lemma covered_prepend:
  assumes "covered rt es" and "starts_of es0 = []" shows "covered rt (es0 @ es)"
  unfolding covered_def
proof (intro allI impI)
  fix b t a assume "es0 @ es = b @ Started t # a"
  then consider us where "es0 = b @ us" "us @ es = Started t # a"
    | us where "b = es0 @ us" "es = us @ Started t # a"
    by (auto simp: append_eq_append_conv2)
  then show "saved_last rt b"
  proof cases
    case 1
    then show ?thesis using assms(2) assms(1) saved_last_prepend [of rt "[]" b]
      by (cases us) (auto simp: covered_def)
  next
    case 2
    then show ?thesis using assms(1) saved_last_prepend by (auto simp: covered_def)
  qed
qed

lemma covered_start:
  assumes "covered rt es" and "saved_last rt es" shows "covered rt (es @ [Started t])"
  unfolding covered_def
proof (intro allI impI)
  fix b u a assume "es @ [Started t] = b @ Started u # a"
  then show "saved_last rt b"
    using assms by (cases a rule: rev_cases) (auto simp: covered_def)
qed

lemma covered_member:
  assumes "covered rt es" and "t \<in> set (starts_of es)"
  obtains b a where "es = b @ Started t # a" and "saved_last rt b"
proof -
  have "Started t \<in> set es"
    using assms(2) by (auto simp: starts_of_def List.map_filter_def split: effect.splits)
  then obtain b a where "es = b @ Started t # a" by (auto simp: in_set_conv_decomp)
  with assms(1) show ?thesis by (intro that) (auto simp: covered_def)
qed

section \<open>Operations that start nothing extend the trace\<close>

definition still_step :: "'w engine \<Rightarrow> 'w engine \<Rightarrow> bool" where
  "still_step s s' \<longleftrightarrow> (\<exists>es. en_trace s' = en_trace s @ es \<and> starts_of es = [])"

interpretation still: engine_frame still_step
proof
  show "still_step s s" for s by (simp add: still_step_def)
  show "still_step s s' \<Longrightarrow> still_step s' s'' \<Longrightarrow> still_step s s''" for s s' s''
    unfolding still_step_def by (metis append.assoc append_Nil2 starts_of_append)
qed

lemma quiet_still: "quiet.keeps m \<Longrightarrow> still.keeps m"
  unfolding quiet.keeps_def still.keeps_def quiet_step_def still_step_def
  by (metis starts_of_Appended)

text \<open>Such steps that also leave the control state alone.\<close>

definition inert_step :: "'w engine \<Rightarrow> 'w engine \<Rightarrow> bool" where
  "inert_step s s' \<longleftrightarrow> still_step s s' \<and> same_control (en_runtime s) (en_runtime s')"

interpretation inert: engine_frame inert_step
  unfolding inert_step_def
  by unfold_locales (auto intro: still.R_trans same_control_trans)

lemma save_runtime_inert [simp, intro]: "inert.keeps (save_runtime env)"
  unfolding inert.keeps_def
proof
  fix s :: "'a engine"
  show "inert_step s (snd (save_runtime env s))"
    using save_runtime_run [of env s "fst (save_runtime env s)" "snd (save_runtime env s)"]
    by (auto simp: inert_step_def still_step_def)
qed

lemma append_event_inert [simp, intro]: "inert.keeps (append_event env e)"
proof -
  have "inert.keeps (put_journal e j)" for j
    by (simp add: inert.keeps_def put_journal_def inert_step_def still_step_def)
  then show ?thesis unfolding append_event_def
    by (intro inert.keeps_ebind inert.keeps_pure inert.keeps_option)
qed

lemma eruntime_inert [intro]: "(\<And>rt. same_control rt (f rt)) \<Longrightarrow> inert.keeps (eruntime f)"
  by (simp add: inert.keeps_def inert_step_def still_step_def)

lemma next_uuid_inert [simp, intro]: "inert.keeps (next_uuid env)"
  by (simp add: inert.keeps_def next_uuid_def inert_step_def still_step_def)

lemma update_intent_inert [simp, intro]: "inert.keeps (update_intent k kvs)"
  unfolding update_intent_def by (rule eruntime_inert) (simp add: same_control_def)

lemma add_intent_inert: "inert.keeps (eruntime (add_intent k t now retry_of))"
  by (rule eruntime_inert) (simp add: same_control_def add_intent_def Let_def split: option.splits)

lemmas inert_parts = save_runtime_inert append_event_inert next_uuid_inert update_intent_inert
  inert.keeps_pure inert.keeps_observe inert.keeps_if inert.keeps_ewhen

lemma record_started_inert [simp, intro]: "inert.keeps (record_started env t k)"
  unfolding record_started_def Let_def by (intro inert.keeps_ebind inert_parts)

lemma start_failed_inert [simp, intro]: "inert.keeps (start_failed env cid f)"
  unfolding start_failed_def by (rule append_event_inert)

lemma resolve_start_result_inert [simp, intro]: "inert.keeps (resolve_start_result env t k result)"
  unfolding resolve_start_result_def Let_def by (intro inert.keeps_ebind inert_parts)

lemma reconcile_start_exception_inert [simp, intro]: "inert.keeps (reconcile_start_exception env t k e)"
  unfolding reconcile_start_exception_def Let_def by (intro inert.keeps_ebind inert_parts)

section \<open>Starts within one operation\<close>

lemma triple_conj:
  "triple P m Q F \<Longrightarrow> triple P' m Q' F' \<Longrightarrow>
     triple (\<lambda>s. P s \<and> P' s) m (\<lambda>x s. Q x s \<and> Q' x s) (\<lambda>s. F s \<and> F' s)"
  by (fastforce simp: triple_def split: prod.splits sum.splits)

text \<open>Since the trace \<open>X\<close>: starts only behind a save with the control state of \<open>rt\<close>.\<close>

definition tracked :: "runtime_state \<Rightarrow> effect list \<Rightarrow> 'w engine \<Rightarrow> bool" where
  "tracked rt X s \<longleftrightarrow> same_control rt (en_runtime s) \<and> (\<exists>es. en_trace s = X @ es \<and> covered rt es)"

definition primed :: "runtime_state \<Rightarrow> effect list \<Rightarrow> 'w engine \<Rightarrow> bool" where
  "primed rt X s \<longleftrightarrow> same_control rt (en_runtime s)
     \<and> (\<exists>es. en_trace s = X @ es \<and> covered rt es \<and> saved_last rt es)"

lemma primed_tracked: "primed rt X s \<Longrightarrow> tracked rt X s"
  by (auto simp: primed_def tracked_def)

lemma tracked_inert: "tracked rt X s \<Longrightarrow> inert_step s s' \<Longrightarrow> tracked rt X s'"
  unfolding tracked_def inert_step_def still_step_def
  using covered_append same_control_trans by (metis append.assoc)

lemma inert_tracked:
  "inert.keeps m \<Longrightarrow> triple (tracked rt X) m (\<lambda>_. tracked rt X) (tracked rt X)"
  by (rule tripleI) (use inert.keepsD tracked_inert in \<open>fastforce split: sum.splits\<close>)

lemma save_primed: "triple (tracked rt X) (save_runtime env) (\<lambda>_. primed rt X) (tracked rt X)"
proof (rule tripleI)
  fix s :: "'a engine" and r s' assume t: "tracked rt X s" and run: "save_runtime env s = (r, s')"
  have t': "tracked rt X s'" by (rule tracked_inert [OF t inert.keepsD [OF save_runtime_inert run]])
  moreover have "primed rt X s'" if "r = Inr x" for x
  proof -
    have tr: "en_trace s' = en_trace s @ [Saved (en_runtime s)]" and rt: "en_runtime s' = en_runtime s"
      using save_runtime_run [OF run] that by auto
    obtain es where es: "en_trace s = X @ es" "covered rt es" and c: "same_control rt (en_runtime s)"
      using t by (auto simp: tracked_def)
    have "saved_last rt (es @ [Saved (en_runtime s)])"
      unfolding saved_last_def by (intro exI [of _ es] exI [of _ "en_runtime s"] exI [of _ "[]"]) (simp add: c)
    moreover have "covered rt (es @ [Saved (en_runtime s)])" by (rule covered_append [OF es(2)]) simp
    ultimately show ?thesis using tr es(1) c rt by (simp add: primed_def)
  qed
  ultimately show "case r of Inl e \<Rightarrow> tracked rt X s' | Inr x \<Rightarrow> primed rt X s'" by (cases r) auto
qed

lemma saved_last_events: "saved_last rt es \<Longrightarrow> saved_last rt (es @ map Appended ev)"
  unfolding saved_last_def by (metis append.assoc append_Cons map_append)

lemma append_event_primed:
  "triple (primed rt X) (append_event env e) (\<lambda>_. primed rt X) (tracked rt X)"
proof (rule tripleI)
  fix s :: "'a engine" and r s' assume p: "primed rt X s" and run: "append_event env e s = (r, s')"
  obtain es where es: "en_trace s = X @ es" "covered rt es" "saved_last rt es"
    and c: "same_control rt (en_runtime s)"
    using p by (auto simp: primed_def)
  have c': "same_control (en_runtime s) (en_runtime s')"
    using inert.keepsD [OF append_event_inert run] by (simp add: inert_step_def)
  obtain ev where "en_trace s' = en_trace s @ map Appended ev"
    using quiet.keepsD [OF append_event_quiet run] by (auto simp: quiet_step_def)
  then have "en_trace s' = X @ (es @ map Appended ev)" by (simp add: es(1))
  then have "primed rt X s'"
    unfolding primed_def using covered_append [OF es(2)] saved_last_events [OF es(3)] same_control_trans [OF c c']
    by (metis starts_of_Appended)
  then show "case r of Inl e \<Rightarrow> tracked rt X s' | Inr x \<Rightarrow> primed rt X s'"
    by (cases r) (auto intro: primed_tracked)
qed

lemma call_start_tracked:
  "triple (primed rt X) (call_start env t) (\<lambda>_. tracked rt X) (tracked rt X)"
proof (rule tripleI)
  fix s :: "'a engine" and r s' assume p: "primed rt X s" and run: "call_start env t s = (r, s')"
  have s': "en_trace s' = en_trace s @ [Started t]" "en_runtime s' = en_runtime s"
    using run by (auto simp: call_start_def port_action_def ebind_def split: prod.splits sum.splits)
  have "tracked rt X s'"
    using p s' covered_start by (auto simp: primed_def tracked_def)
  then show "case r of Inl e \<Rightarrow> tracked rt X s' | Inr x \<Rightarrow> tracked rt X s'" by (cases r) auto
qed

lemma perform_start_tracked:
  "triple (primed rt X) (perform_start env t k) (\<lambda>_. tracked rt X) (tracked rt X)"
  unfolding perform_start_def
  by (rule triple_bind [OF triple_attempt [of _ _ "\<lambda>_. tracked rt X", OF call_start_tracked]], assumption)
    (intro inert_tracked inert.keeps_sum inert.keeps_ebind inert_parts resolve_start_result_inert
      reconcile_start_exception_inert)

lemma start_with_intent_tracked:
  "triple (tracked rt X) (start_with_intent env t retry_of) (\<lambda>_. tracked rt X) (tracked rt X)"
  unfolding start_with_intent_def Let_def
  by (rule triple_bind [OF inert_tracked [OF next_uuid_inert]],
      rule triple_bind [OF inert_tracked [OF add_intent_inert]],
      rule triple_bind [OF save_primed], rule triple_bind [OF append_event_primed],
      rule triple_bind [OF perform_start_tracked], rule inert_tracked)
    (intro inert.keeps_ebind inert_parts record_started_inert)

lemma start_loop_tracked:
  "triple (tracked rt X) (start_loop env cid ts acc) (\<lambda>_. tracked rt X) (tracked rt X)"
proof (induction ts arbitrary: acc)
  case Nil
  show ?case unfolding start_loop.simps by (rule triple_pure)
next
  case (Cons t ts)
  have stop: "triple (tracked rt X) (ebind (start_failed env cid f) (\<lambda>_. ereturn x)) (\<lambda>_. tracked rt X) (tracked rt X)"
    for f and x :: automatic_outcome
    by (intro inert_tracked inert.keeps_ebind start_failed_inert inert_parts)
  have rest: "triple (tracked rt X) (case r of
      Inl e \<Rightarrow> ebind (start_failed env cid (t, py_error_text e)) (\<lambda>_.
          ereturn \<lparr>ao_started = acc, ao_failures = [(t, py_error_text e)]\<rparr>)
      | Inr result \<Rightarrow>
          if sr_accepted result \<or> sr_already_started result
          then start_loop env cid ts (acc @ [t])
          else (let msg = (if sr_message result \<noteq> [] then sr_message result
                           else ''Task start was rejected'')
                in ebind (start_failed env cid (t, msg)) (\<lambda>_.
                   ereturn \<lparr>ao_started = acc, ao_failures = [(t, msg)]\<rparr>)))
      (\<lambda>_. tracked rt X) (tracked rt X)" for r :: "start_result res"
    by (cases r) (simp_all only: sum.case Let_def stop, rule triple_if [OF Cons.IH stop])
  show ?case unfolding start_loop.simps
    by (rule triple_bind [OF triple_attempt [of _ _ "\<lambda>_. tracked rt X", OF start_with_intent_tracked]],
        assumption, rule rest)
qed

section \<open>The record of a cycle\<close>

lemma inert_still: "inert.keeps m \<Longrightarrow> still.keeps m"
  by (simp add: inert.keeps_def still.keeps_def inert_step_def)

lemma eruntime_still [simp, intro]: "still.keeps (eruntime f)"
  by (simp add: still.keeps_def still_step_def)

lemma load_runtime_still [simp, intro]: "still.keeps (load_runtime env)"
  unfolding load_runtime_def by (intro still.keeps_ebind still.keeps_pure eruntime_still)

lemma on_runtime_still [simp, intro]: "still.keeps (on_runtime env f)"
  unfolding on_runtime_def
  by (intro still.keeps_ebind still.keeps_pure still.keeps_observe still.keeps_prod
      still.keeps_eeach eruntime_still inert_still [OF append_event_inert])

lemmas still_parts = quiet_still [OF load_definition_quiet] quiet_still [OF sync_definition_quiet]
  quiet_still [OF evaluate_gates_frames(1)] quiet_still [OF evaluate_milestones_frames(1)]
  quiet_still [OF observe_tasks_quiet] quiet_still [OF apply_failure_policy_frames(1)]
  quiet_still [OF refresh_frames(1)] quiet_still [OF stamp_executor_frames(1)]
  inert_still [OF save_runtime_inert] inert_still [OF append_event_inert] inert_still [OF next_uuid_inert]
  load_runtime_still eruntime_still on_runtime_still still.keeps_pure still.keeps_observe

lemma plan_cycle_still: "still.keeps (plan_cycle env d)"
  unfolding plan_cycle_def reconcile_intents_def
  by (intro still.keeps_ebind still.keeps_prod still_parts)

lemma finish_cycle_still: "still.keeps (finish_cycle env d cid plan oc)"
  unfolding finish_cycle_def by (intro still.keeps_ebind still.keeps_prod still_parts)

definition calm_since :: "effect list \<Rightarrow> 'w engine \<Rightarrow> bool" where
  "calm_since X s \<longleftrightarrow> (\<exists>es. en_trace s = X @ es \<and> starts_of es = [])"

lemma still_calm_since: "still.keeps m \<Longrightarrow> triple (calm_since X) m (\<lambda>_. calm_since X) (calm_since X)"
proof (rule tripleI)
  fix s r s' assume k: "still.keeps m" and c: "calm_since X s" and run: "m s = (r, s')"
  have "calm_since X s'"
    using still.keepsD [OF k run] c unfolding calm_since_def still_step_def
    by (metis append.assoc append_Nil2 starts_of_append)
  then show "case r of Inl e \<Rightarrow> calm_since X s' | Inr x \<Rightarrow> calm_since X s'" by (cases r) auto
qed

text \<open>The decision the starts of a cycle come from, and its trace in what was saved.\<close>

definition decided :: "'w engine_env \<Rightarrow> execution_definition \<Rightarrow> 'w \<Rightarrow> runtime_state \<Rightarrow> start_plan \<Rightarrow> bool" where
  "decided env d w rt plan \<longleftrightarrow> \<not> rt_held rt \<and> (\<exists>results phases.
     all_eligibility d rt (port_view (env_port env) w) = Inr results
     \<and> automatic_plan d rt results phases = Inr plan)"

definition cycle_record :: "'w engine_env \<Rightarrow> execution_definition \<Rightarrow> effect list \<Rightarrow> 'w \<Rightarrow> 'w engine \<Rightarrow> bool" where
  "cycle_record env d X w s \<longleftrightarrow> (\<exists>es. en_trace s = X @ es \<and> (starts_of es = [] \<or>
     (\<exists>rt plan. decided env d w rt plan \<and> prefix (starts_of es) (sp_task_ids plan) \<and> covered rt es)))"

lemma calm_record: "calm_since X s \<Longrightarrow> cycle_record env d X w s"
  by (auto simp: calm_since_def cycle_record_def)

lemma still_record:
  "still.keeps m \<Longrightarrow> triple (cycle_record env d X w) m (\<lambda>_. cycle_record env d X w) (cycle_record env d X w)"
proof (rule tripleI)
  fix s r s' assume k: "still.keeps m" and c: "cycle_record env d X w s" and run: "m s = (r, s')"
  obtain es where es: "en_trace s = X @ es" "starts_of es = [] \<or>
     (\<exists>rt plan. decided env d w rt plan \<and> prefix (starts_of es) (sp_task_ids plan) \<and> covered rt es)"
    using c by (auto simp: cycle_record_def)
  obtain es' where es': "en_trace s' = X @ (es @ es')" "starts_of es' = []"
    using still.keepsD [OF k run] es(1) by (auto simp: still_step_def)
  have "starts_of (es @ es') = [] \<or> (\<exists>rt plan. decided env d w rt plan
      \<and> prefix (starts_of (es @ es')) (sp_task_ids plan) \<and> covered rt (es @ es'))"
    using es(2) es'(2) covered_append [of _ es es'] by (simp, blast)
  then have "cycle_record env d X w s'" unfolding cycle_record_def using es'(1) by blast
  then show "case r of Inl e \<Rightarrow> cycle_record env d X w s' | Inr x \<Rightarrow> cycle_record env d X w s'"
    by (cases r) auto
qed

lemma start_loop_record:
  assumes p: "planned env d Y w plan s" and c: "calm_since X s" and h: "\<not> rt_held (en_runtime s)"
    and run: "start_loop env cid (sp_task_ids plan) [] s = (r, s')"
  shows "cycle_record env d X w s'"
proof -
  obtain es0 where es0: "en_trace s = X @ es0" "starts_of es0 = []" using c by (auto simp: calm_since_def)
  have "tracked (en_runtime s) (en_trace s) s" by (simp add: tracked_def covered_nostart)
  then have "tracked (en_runtime s) (en_trace s) s'"
    using start_loop_tracked [of "en_runtime s" "en_trace s" env cid "sp_task_ids plan" "[]"] run
    by (cases r) (auto simp: triple_def)
  then obtain es where es: "en_trace s' = en_trace s @ es" "covered (en_runtime s) es"
    by (auto simp: tracked_def)
  have "\<exists>ys. prefix ys (sp_task_ids plan) \<and> started s' = started s @ ys"
    using start_loop_started [of "started s" env cid "sp_task_ids plan" "[]"] run
    by (cases r) (auto simp: triple_def)
  then have pre: "prefix (starts_of (es0 @ es)) (sp_task_ids plan)"
    using es(1) es0(2) by (auto simp: started_def)
  have "decided env d w (en_runtime s) plan"
    using p h by (auto simp: planned_def judged_def here_def decided_def)
  then show ?thesis
    unfolding cycle_record_def using pre covered_prepend [OF es(2) es0(2)] es(1) es0(1)
    by (intro exI [of _ "es0 @ es"]) auto
qed

lemma run_cycle_record:
  "triple (\<lambda>s. here Y w s \<and> calm_since X s) (run_cycle env d)
     (\<lambda>_. cycle_record env d X w) (cycle_record env d X w)"
proof -
  let ?R = "cycle_record env d X w"
  have weak: "triple P m Q ?R" if "triple P m Q (\<lambda>s. here Y w s \<and> calm_since X s)"
    for P Q and m :: "('a, 'b) eng"
    by (rule triple_weaken [OF that]) (auto intro: calm_record)
  have load: "triple (\<lambda>s. here Y w s \<and> calm_since X s) (load_runtime env)
      (\<lambda>_ s. here Y w s \<and> calm_since X s) (\<lambda>s. here Y w s \<and> calm_since X s)"
    by (rule triple_conj [OF nostart_here [OF load_runtime_nostart] still_calm_since [OF load_runtime_still]])
  have plan: "triple (\<lambda>s. here Y w s \<and> calm_since X s) (plan_cycle env d)
      (\<lambda>plan s. planned env d Y w plan s \<and> calm_since X s) (\<lambda>s. here Y w s \<and> calm_since X s)"
    by (rule triple_conj [OF plan_cycle_planned still_calm_since [OF plan_cycle_still]])
  have keep: "triple (\<lambda>s. planned env d Y w plan s \<and> calm_since X s) m
      (\<lambda>_ s. planned env d Y w plan s \<and> calm_since X s) (\<lambda>s. here Y w s \<and> calm_since X s)"
    if "\<And>s. en_runtime (snd (m s)) = en_runtime s" and "nostart.keeps m" and "still.keeps m"
    for plan and m :: "('a, 'c) eng"
  proof (rule triple_conj [OF _ still_calm_since [OF that(3)]], rule tripleI)
    fix s r s' assume p: "planned env d Y w plan s" and run: "m s = (r, s')"
    have "here Y w s'" using nostart.keepsD [OF that(2) run] p
      by (simp add: planned_def here_def starts_nothing_def started_def)
    moreover have "en_runtime s' = en_runtime s" using that(1) [of s] run by simp
    ultimately show "case r of Inl e \<Rightarrow> here Y w s' | Inr x \<Rightarrow> planned env d Y w plan s'"
      using p by (cases r) (auto simp: planned_def judged_def here_def)
  qed
  have loop: "triple (\<lambda>s. (planned env d Y w plan s \<and> calm_since X s) \<and> rt = en_runtime s)
      (if rt_held rt then ereturn \<lparr>ao_started = [], ao_failures = []\<rparr>
       else start_loop env cid (sp_task_ids plan) []) (\<lambda>_. ?R) ?R" for plan rt cid
  proof (cases "rt_held rt")
    case True
    then show ?thesis by (auto simp: triple_def intro: calm_record)
  next
    case False
    have "triple (\<lambda>s. (planned env d Y w plan s \<and> calm_since X s) \<and> rt = en_runtime s)
        (start_loop env cid (sp_task_ids plan) []) (\<lambda>_. ?R) ?R"
    proof (rule tripleI, elim conjE)
      fix s r s' assume "planned env d Y w plan s" "calm_since X s" "rt = en_runtime s"
        "start_loop env cid (sp_task_ids plan) [] s = (r, s')"
      then have "?R s'" using False by (intro start_loop_record) simp_all
      then show "case r of Inl e \<Rightarrow> ?R s' | Inr x \<Rightarrow> ?R s'" by (cases r) auto
    qed
    with False show ?thesis by simp
  qed
  have uuid: "triple (\<lambda>s. planned env d Y w plan s \<and> calm_since X s) (next_uuid env)
      (\<lambda>_ s. planned env d Y w plan s \<and> calm_since X s) (\<lambda>s. here Y w s \<and> calm_since X s)" for plan
    by (rule keep [OF _ next_uuid_nostart inert_still [OF next_uuid_inert]]) (simp add: next_uuid_def)
  have app: "triple (\<lambda>s. planned env d Y w plan s \<and> calm_since X s) (append_event env e)
      (\<lambda>_ s. planned env d Y w plan s \<and> calm_since X s) (\<lambda>s. here Y w s \<and> calm_since X s)" for plan e
    by (rule keep [OF _ append_event_nostart inert_still [OF append_event_inert]])
      (auto simp: append_event_def ebind_def put_journal_def split: option.splits sum.splits)
  show ?thesis
    unfolding run_cycle_def Let_def
    by (rule triple_bind [OF weak [OF load]], rule triple_bind [OF weak [OF plan]],
        rule triple_bind [OF weak [OF uuid]], rule triple_bind [OF weak [OF app]],
        rule triple_bind [OF triple_eget], rule triple_bind [OF loop],
        rule still_record [OF finish_cycle_still])
qed

lemma automatic_cycle_record:
  assumes "automatic_cycle env s = (r, s')"
  shows "\<exists>es. en_trace s' = en_trace s @ es \<and> (starts_of es = [] \<or>
    (\<exists>d rt plan. repository_load (env_path env) (en_definition_file s) = Inr d \<and> pd_mode d = Mode_AUTOMATIC
      \<and> decided env d (en_world s) rt plan \<and> prefix (starts_of es) (sp_task_ids plan) \<and> covered rt es))"
proof (cases "repository_load (env_path env) (en_definition_file s)")
  case (Inl e)
  then show ?thesis using assms by (auto simp: automatic_cycle_def load_definition_def ebind_def)
next
  case (Inr d)
  show ?thesis
  proof (cases "pd_mode d = Mode_AUTOMATIC")
    case False
    then show ?thesis using assms Inr by (auto simp: automatic_cycle_def load_definition_def ebind_def)
  next
    case True
    then have run: "run_cycle env d s = (r, s')"
      using assms Inr by (simp add: automatic_cycle_def load_definition_def ebind_def)
    have "cycle_record env d (en_trace s) (en_world s) s'"
      using run_cycle_record [of "started s" "en_world s" "en_trace s" env d] run
      by (cases r) (auto simp: triple_def here_def calm_since_def)
    then show ?thesis using Inr True unfolding cycle_record_def by blast
  qed
qed

lemma decided_may_start:
  assumes "decided env d w rt plan" and t: "t \<in> set (sp_task_ids plan)"
    and ok: "definition_ok d" and wf: "definition_wf d e"
  obtains task phase where "task \<in> set (pd_tasks d)" and "pt_task_id task = t"
    and "phase \<in> set (pd_phases d)" and "ph_id phase = pt_phase task"
    and "may_start d rt (port_view (env_port env) w) task phase"
proof -
  have u: "unique_ids d" by (rule definition_ok_unique_ids [OF ok])
  obtain results phases where el: "all_eligibility d rt (port_view (env_port env) w) = Inr results"
    and plan: "automatic_plan d rt results phases = Inr plan"
    using assms(1) by (auto simp: decided_def)
  have st: "startable d (occupied_tasks d rt) results phases t" by (rule automatic_plan_startable [OF plan t])
  obtain r where r: "evaluate_task_eligibility t d rt (port_view (env_port env) w) = Inr r" "el_eligible r"
    using all_eligibility_lookup [OF el u] st unfolding startable_def by blast
  then show ?thesis using eligible_task [OF u wf] that by blast
qed

lemma automatic_start_judged:
  assumes run: "automatic_cycle env s = (r, s')"
    and tr: "en_trace s' = en_trace s @ before @ Started t # after"
  obtains d task phase earlier rt evs
  where "repository_load (env_path env) (en_definition_file s) = Inr d" and "pd_mode d = Mode_AUTOMATIC"
    and "task \<in> set (pd_tasks d)" and "pt_task_id task = t"
    and "phase \<in> set (pd_phases d)" and "ph_id phase = pt_phase task"
    and "before = earlier @ Saved rt # map Appended evs"
    and "may_start d rt (port_view (env_port env) (en_world s)) task phase"
proof -
  obtain d rt plan where d: "repository_load (env_path env) (en_definition_file s) = Inr d" "pd_mode d = Mode_AUTOMATIC"
    and dec: "decided env d (en_world s) rt plan"
    and pre: "prefix (starts_of (before @ Started t # after)) (sp_task_ids plan)"
    and cov: "covered rt (before @ Started t # after)"
    using automatic_cycle_record [OF run] tr by auto
  have "t \<in> set (sp_task_ids plan)" using set_mono_prefix [OF pre] by auto
  then obtain task phase where task: "task \<in> set (pd_tasks d)" "pt_task_id task = t"
    "phase \<in> set (pd_phases d)" "ph_id phase = pt_phase task"
    and may: "may_start d rt (port_view (env_port env) (en_world s)) task phase"
    by (rule decided_may_start [OF dec _ repository_load_facts(1,2) [OF d(1)]])
  obtain earlier rt' evs where b: "before = earlier @ Saved rt' # map Appended evs" and c: "same_control rt rt'"
    using cov unfolding covered_def saved_last_def by blast
  have "may_start d rt' (port_view (env_port env) (en_world s)) task phase"
    using may by (simp add: same_control_may_start [OF c])
  then show ?thesis by (rule that [OF d task b])
qed

section \<open>The record of an assisted start\<close>

definition task_record ::
    "'w engine_env \<Rightarrow> execution_definition \<Rightarrow> string \<Rightarrow> bool \<Rightarrow> effect list \<Rightarrow> 'w \<Rightarrow> 'w engine \<Rightarrow> bool" where
  "task_record env d t retry X w s \<longleftrightarrow> (\<exists>es. en_trace s = X @ es \<and> (starts_of es = [] \<or>
     (\<exists>rt result. evaluate_task_eligibility t d rt (port_view (env_port env) w) = Inr result
        \<and> el_eligible result \<and> (retry \<or> pending_start_intent rt t = None)
        \<and> starts_of es = [t] \<and> covered rt es)))"

lemma calm_task_record: "calm_since X s \<Longrightarrow> task_record env d t retry X w s"
  by (auto simp: calm_since_def task_record_def)

text \<open>In the world \<open>w\<close>, with nothing started since \<open>X\<close>.\<close>

definition waiting :: "effect list \<Rightarrow> 'w \<Rightarrow> 'w engine \<Rightarrow> bool" where
  "waiting X w s \<longleftrightarrow> en_world s = w \<and> calm_since X s"

lemma waiting_triple:
  assumes "nostart.keeps m" and "still.keeps m"
  shows "triple (waiting X w) m (\<lambda>_. waiting X w) (waiting X w)"
proof (rule tripleI)
  fix s r s' assume p: "waiting X w s" and run: "m s = (r, s')"
  have "waiting X w s'"
    using nostart.keepsD [OF assms(1) run] still_calm_since [OF assms(2), of X] run p
    by (cases r) (auto simp: waiting_def starts_nothing_def triple_def)
  then show "case r of Inl e \<Rightarrow> waiting X w s' | Inr x \<Rightarrow> waiting X w s'" by (cases r) auto
qed

lemma start_with_intent_record:
  assumes "waiting X w s" and "rt = en_runtime s"
    and "evaluate_task_eligibility t d rt (port_view (env_port env) w) = Inr result" and "el_eligible result"
    and "retry \<or> pending_start_intent rt t = None" and run: "start_with_intent env t retry_of s = (r, s')"
  shows "task_record env d t retry X w s'"
proof -
  obtain es0 where es0: "en_trace s = X @ es0" "starts_of es0 = []"
    using assms(1) by (auto simp: waiting_def calm_since_def)
  have "tracked rt (en_trace s) s" by (simp add: assms(2) tracked_def covered_nostart)
  then have "tracked rt (en_trace s) s'"
    using start_with_intent_tracked [of rt "en_trace s" env t retry_of] run by (cases r) (auto simp: triple_def)
  then obtain es where es: "en_trace s' = en_trace s @ es" "covered rt es" by (auto simp: tracked_def)
  have "started s' = started s \<or> started s' = started s @ [t]"
    using start_with_intent_started [of "started s" env t retry_of] run by (cases r) (auto simp: triple_def)
  then have "starts_of (es0 @ es) = [] \<or> starts_of (es0 @ es) = [t]" using es(1) es0(2) by (auto simp: started_def)
  moreover have "en_trace s' = X @ (es0 @ es)" using es(1) es0(1) by simp
  ultimately show ?thesis
    unfolding task_record_def using covered_prepend [OF es(2) es0(2)] assms(3-5) by blast
qed

text \<open>What \<open>start_task\<close> does in assisted mode once the definition and the runtime are loaded.\<close>

definition assisted_start ::
    "'w engine_env \<Rightarrow> execution_definition \<Rightarrow> string \<Rightarrow> bool \<Rightarrow> ('w, start_result) eng" where
  "assisted_start env d t retry =
     ebind (sync_definition env d) (\<lambda>_. ebind (evaluate_gates env d) (\<lambda>_.
     if t \<notin> set (keys (task_index d))
     then eraise (ProjectExecutionError (''Task '' @ py_repr_str t @ '' is not part of Project Execution''))
     else ebind (eget en_runtime) (\<lambda>rt. ebind (observe env) (\<lambda>view.
     ebind (elift (evaluate_task_eligibility t d rt view)) (\<lambda>result.
     if \<not> el_eligible result
     then eraise (ProjectExecutionError
            (''Task is not eligible: '' @ py_join ''; '' (map er_message (el_reasons result))))
     else (let pending = pending_start_intent rt t in
        if pending \<noteq> None \<and> \<not> retry
        then eraise (ProjectExecutionError
               (''Task '' @ t @ '' has an unresolved start intent; reconcile or explicitly retry it''))
        else start_with_intent env t pending))))))"

lemma assisted_start_record:
  "triple (waiting X w) (assisted_start env d t retry)
     (\<lambda>_. task_record env d t retry X w) (task_record env d t retry X w)"
proof -
  let ?R = "task_record env d t retry X w"
  let ?v = "port_view (env_port env) w"
  let ?seen = "\<lambda>rt view result s. waiting X w s \<and> rt = en_runtime s \<and> evaluate_task_eligibility t d rt ?v = Inr result"
  have weak: "triple P m Q ?R" if "triple P m Q (waiting X w)" for P Q and m :: "('a, 'b) eng"
    by (rule triple_weaken [OF that]) (auto simp: waiting_def intro: calm_task_record)
  have fail: "triple (waiting X w) (eraise e) (\<lambda>_. ?R) ?R" for e :: py_error
    by (rule triple_pure(2)) (simp add: waiting_def calm_task_record)
  have start: "triple (?seen rt view result) (if \<not> el_eligible result then eraise e
      else (let pending = pending_start_intent rt t in
        if pending \<noteq> None \<and> \<not> retry then eraise e' else start_with_intent env t pending)) (\<lambda>_. ?R) ?R"
    for rt view result e e'
  proof (rule tripleI)
    fix s r s' assume s: "?seen rt view result s" and run: "(if \<not> el_eligible result then eraise e
      else (let pending = pending_start_intent rt t in
        if pending \<noteq> None \<and> \<not> retry then eraise e' else start_with_intent env t pending)) s = (r, s')"
    have "?R s'"
    proof (cases "el_eligible result \<and> (retry \<or> pending_start_intent rt t = None)")
      case True
      with run have "start_with_intent env t (pending_start_intent rt t) s = (r, s')"
        by (auto simp: Let_def)
      with True s show ?thesis by (intro start_with_intent_record) auto
    next
      case False
      then have "s' = s" using run by (auto simp: Let_def split: if_splits)
      with s show ?thesis by (simp add: waiting_def calm_task_record)
    qed
    then show "case r of Inl e \<Rightarrow> ?R s' | Inr x \<Rightarrow> ?R s'" by (cases r) auto
  qed
  have obs: "triple (\<lambda>s. waiting X w s \<and> rt = en_runtime s) (observe env)
      (\<lambda>v s. (waiting X w s \<and> rt = en_runtime s) \<and> v = ?v) ?R" for rt
    by (auto simp: triple_def observe_def waiting_def)
  have read: "triple (\<lambda>s. (waiting X w s \<and> rt = en_runtime s) \<and> view = ?v)
      (elift (evaluate_task_eligibility t d rt view)) (?seen rt view) ?R" for rt view
    by (auto simp: triple_def waiting_def calm_task_record split: sum.splits)
  show ?thesis
    unfolding assisted_start_def
    by (rule triple_bind [OF weak [OF waiting_triple [OF nostart_parts(2) still_parts(2)]]],
        rule triple_bind [OF weak [OF waiting_triple [OF nostart_parts(3) still_parts(3)]]],
        rule triple_if [OF fail], rule triple_bind [OF triple_eget],
        rule triple_bind [OF obs], rule triple_bind [OF read], rule start)
qed

lemma start_task_record:
  assumes run: "start_task env t retry s = (r, s')"
  shows "calm_since (en_trace s) s' \<or> (\<exists>d. repository_load (env_path env) (en_definition_file s) = Inr d
    \<and> pd_mode d = Mode_ASSISTED \<and> task_record env d t retry (en_trace s) (en_world s) s')"
proof (cases "calm_since (en_trace s) s'")
  case False
  have calm: "waiting (en_trace s) (en_world s) (snd (load_runtime env s))"
    using nostart.keepsD [OF load_runtime_nostart, of env s] still.keepsD [OF load_runtime_still, of env s]
    by (cases "load_runtime env s") (simp add: waiting_def calm_since_def starts_nothing_def still_step_def)
  have c0: "calm_since (en_trace s) s" by (simp add: calm_since_def)
  obtain d where d: "repository_load (env_path env) (en_definition_file s) = Inr d"
    using False run c0 by (cases "repository_load (env_path env) (en_definition_file s)")
      (auto simp: start_task_def load_definition_def ebind_def)
  obtain s1 where l: "load_runtime env s = (Inr (), s1)"
    using False run d calm by (cases "load_runtime env s"; cases "fst (load_runtime env s)")
      (auto simp: start_task_def load_definition_def ebind_def waiting_def)
  have m: "pd_mode d = Mode_ASSISTED"
    using False run d l calm by (cases "pd_mode d")
      (auto simp: start_task_def load_definition_def ebind_def waiting_def)
  have "assisted_start env d t retry s1 = (r, s')"
    using run d l m by (simp add: start_task_def load_definition_def ebind_def assisted_start_def)
  then have "task_record env d t retry (en_trace s) (en_world s) s'"
    using assisted_start_record [of "en_trace s" "en_world s" env d t retry] calm l
    by (cases r) (auto simp: triple_def)
  with d m show ?thesis by blast
qed simp

lemma assisted_start_judged:
  assumes run: "start_task env t retry s = (r, s')"
    and tr: "en_trace s' = en_trace s @ before @ Started u # after"
  obtains d task phase earlier rt evs
  where "u = t \<and> starts_of before = [] \<and> starts_of after = []"
    and "repository_load (env_path env) (en_definition_file s) = Inr d" and "pd_mode d = Mode_ASSISTED"
    and "task \<in> set (pd_tasks d)" and "pt_task_id task = t"
    and "phase \<in> set (pd_phases d)" and "ph_id phase = pt_phase task"
    and "before = earlier @ Saved rt # map Appended evs"
    and "may_start d rt (port_view (env_port env) (en_world s)) task phase"
proof -
  have "\<not> calm_since (en_trace s) s'" using tr by (auto simp: calm_since_def)
  then obtain d where d: "repository_load (env_path env) (en_definition_file s) = Inr d" "pd_mode d = Mode_ASSISTED"
    and rec: "task_record env d t retry (en_trace s) (en_world s) s'"
    using start_task_record [OF run] by blast
  obtain rt result where
    el: "evaluate_task_eligibility t d rt (port_view (env_port env) (en_world s)) = Inr result" "el_eligible result"
    and st: "starts_of (before @ Started u # after) = [t]" and cov: "covered rt (before @ Started u # after)"
    using rec tr by (auto simp: task_record_def)
  have u: "u = t \<and> starts_of before = [] \<and> starts_of after = []"
    using st by (cases "starts_of before") auto
  note facts = repository_load_facts [OF d(1)]
  obtain task phase where task: "task \<in> set (pd_tasks d)" "pt_task_id task = t"
    "phase \<in> set (pd_phases d)" "ph_id phase = pt_phase task"
    and may: "may_start d rt (port_view (env_port env) (en_world s)) task phase"
    by (rule eligible_task [OF definition_ok_unique_ids [OF facts(1)] facts(2) el])
  obtain earlier rt' evs where b: "before = earlier @ Saved rt' # map Appended evs" and c: "same_control rt rt'"
    using cov unfolding covered_def saved_last_def by blast
  have "may_start d rt' (port_view (env_port env) (en_world s)) task phase"
    using may by (simp add: same_control_may_start [OF c])
  then show ?thesis by (rule that [OF u d task b])
qed

section \<open>An unresolved intent blocks an assisted start\<close>

definition idle :: "effect list \<Rightarrow> row pydict \<Rightarrow> 'w engine \<Rightarrow> bool" where
  "idle X I s \<longleftrightarrow> calm_since X s \<and> rt_intents (en_runtime s) = I"

lemma quiet_idle: "quiet.keeps m \<Longrightarrow> triple (idle X I) m (\<lambda>_. idle X I) (calm_since X)"
proof (rule tripleI)
  fix s r s' assume q: "quiet.keeps m" and i: "idle X I s" and run: "m s = (r, s')"
  have "calm_since X s'"
    using still_calm_since [OF quiet_still [OF q], of X] i run by (cases r) (auto simp: triple_def idle_def)
  moreover have "rt_intents (en_runtime s') = I"
    using quiet.keepsD [OF q run] i by (simp add: quiet_step_def idle_def)
  ultimately show "case r of Inl e \<Rightarrow> calm_since X s' | Inr x \<Rightarrow> idle X I s'"
    by (cases r) (auto simp: idle_def)
qed

lemma pending_start_intent_intents:
  "rt_intents rt' = rt_intents rt \<Longrightarrow> pending_start_intent rt' t = pending_start_intent rt t"
  by (simp add: pending_start_intent_def)

lemma assisted_start_pending:
  assumes "pending_start_intent rt t \<noteq> None"
  shows "triple (idle X (rt_intents rt)) (assisted_start env d t False) (\<lambda>_. calm_since X) (calm_since X)"
proof -
  have fail: "triple (idle X (rt_intents rt)) (eraise e) (\<lambda>_. calm_since X) (calm_since X)" for e :: py_error
    by (rule triple_pure(2)) (simp add: idle_def)
  have stop: "triple (\<lambda>s. idle X (rt_intents rt) s \<and> rt' = en_runtime s) (if \<not> el_eligible result then eraise e
      else (let pending = pending_start_intent rt' t in
        if pending \<noteq> None \<and> \<not> False then eraise e' else start_with_intent env t pending))
      (\<lambda>_. calm_since X) (calm_since X)" for rt' result e e'
    using assms by (auto simp: triple_def idle_def Let_def dest!: pending_start_intent_intents [of _ _ t])
  have keep: "triple (\<lambda>s. idle X (rt_intents rt) s \<and> rt' = en_runtime s) m
      (\<lambda>_ s. idle X (rt_intents rt) s \<and> rt' = en_runtime s) (calm_since X)"
    if "\<And>s. snd (m s) = s" for rt' and m :: "('a, 'b) eng"
  proof (rule tripleI)
    fix s r s' assume "idle X (rt_intents rt) s \<and> rt' = en_runtime s" and "m s = (r, s')"
    then show "case r of Inl e \<Rightarrow> calm_since X s' | Inr x \<Rightarrow> idle X (rt_intents rt) s' \<and> rt' = en_runtime s'"
      using that [of s] by (cases r) (auto simp: idle_def)
  qed
  show ?thesis
    unfolding assisted_start_def
    by (rule triple_bind [OF quiet_idle [OF sync_definition_quiet]],
        rule triple_bind [OF quiet_idle [OF evaluate_gates_frames(1)]],
        rule triple_if [OF fail], rule triple_bind [OF triple_eget],
        rule triple_bind [OF keep], simp add: observe_def,
        rule triple_bind [OF keep], simp, rule stop)
qed

lemma start_task_pending:
  assumes load: "runtime_load (env_dir env) (en_runtime_file s) = Inr rt"
    and pending: "pending_start_intent rt t \<noteq> None"
  shows "started (snd (start_task env t False s)) = started s"
proof -
  let ?s1 = "s\<lparr>en_runtime := rt\<rparr>"
  have l: "load_runtime env s = (Inr (), ?s1)" using load by (simp add: load_runtime_def)
  have i: "idle (en_trace s) (rt_intents rt) ?s1" by (simp add: idle_def calm_since_def)
  have calm: "calm_since (en_trace s) (snd (assisted_start env d t False ?s1))" for d
    using assisted_start_pending [OF pending, of "en_trace s" env d] i
    by (cases "assisted_start env d t False ?s1"; cases "fst (assisted_start env d t False ?s1)")
      (auto simp: triple_def)
  have "started (snd (assisted_start env d t False ?s1)) = started s" for d
    using calm [of d] by (auto simp: calm_since_def started_def)
  moreover have "snd (start_task env t False s) \<in> {s, ?s1}
      \<or> (\<exists>d. snd (start_task env t False s) = snd (assisted_start env d t False ?s1))"
  proof (cases "repository_load (env_path env) (en_definition_file s)")
    case (Inr d)
    then show ?thesis
      by (cases "pd_mode d")
        (auto simp: start_task_def load_definition_def ebind_run_Inr [of "load_runtime env", OF l] assisted_start_def)
  qed (simp add: start_task_def load_definition_def)
  moreover have "started ?s1 = started s" by (simp add: started_def)
  ultimately show ?thesis by auto
qed

end
