(* ===== verification/Exec_Sample_Run.thy ===== *)
theory Exec_Sample_Run
  imports Exec_Sample
begin

text \<open>
  An automatic cycle and an assisted start of the sample project, evaluated by the kernel: each
  starts the Task.
\<close>

lemma sample_cycle: "started (snd (automatic_cycle sample_env (sample_engine Mode_AUTOMATIC))) = [''t'']"
  by code_simp

lemma sample_assisted: "started (snd (start_task sample_env ''t'' False (sample_engine Mode_ASSISTED))) = [''t'']"
  by code_simp

lemma sample_trace [simp]: "en_trace (sample_engine mode) = []" "started (sample_engine mode) = []"
  by (simp_all add: sample_engine_def started_def)

lemma started_split:
  assumes "started s = [t]"
  obtains before after where "en_trace s = before @ Started t # after"
proof -
  have "t \<in> set (starts_of (en_trace s))" using assms by (simp add: started_def)
  then have "Started t \<in> set (en_trace s)"
    by (auto simp: starts_of_def List.map_filter_def split: effect.splits)
  then show ?thesis using that by (auto simp: in_set_conv_decomp)
qed

end
