(* ===== verification/Spec2Isabelle.thy ===== *)
theory Spec2Isabelle
  imports Spec_Definition Spec_Control Spec_Execution Spec_Delivery Spec_Roadmap Spec_Migration Road_Sound Exec_Judged Exec_Sample_Run
begin

text \<open>
  A model of the two parts of Execraft that plan and coordinate whole Tasks: Project Execution
  (\<open>src/src/execraft/project_execution/\<close>) and the Roadmaps of a project (\<open>src/src/execraft/roadmap/\<close>).

  \<^bold>\<open>The program.\<close> A Project has a versioned \<^emph>\<open>definition\<close>: Phases that contain Tasks, Gates made of
  criteria, and Milestones, with dependencies between them. A separate \<^emph>\<open>runtime\<close> file holds what was
  observed and decided: Gate rows, achieved baselines, observed Tasks, and the \<^emph>\<open>start intents\<close> that
  are written before a Task is started. The engine reads both, observes the Tasks through a port,
  evaluates Gates, Milestones and eligibility, and starts Tasks: one at a time when a person asks
  for it (assisted mode), or as a bounded plan (automatic mode). An achieved Milestone can become a
  delivery candidate that is handed to an external provider, again with an intent written first.
  A \<^emph>\<open>Roadmap\<close> arranges planned and linked Tasks and the canonical Phases, Gates and Milestones in lanes; an
  edit that changes a Roadmap and the definition writes an intent that names both wanted documents,
  then the definition, then the Roadmap, and every later process finishes what a crash interrupted.

  \<^bold>\<open>Theories and code.\<close>
    \<^item> \<open>Exec_Prelude\<close>: errors as a sum type (\<open>py_error + 'a\<close>), loops that may raise, Python dicts as
      association lists in insertion order. \<open>Py_Strings\<close>, \<open>Py_Value\<close>: the string methods, \<open>str\<close>,
      \<open>int\<close>, truth, equality and JSON text of dynamic values that the code uses.
    \<^item> \<open>Exec_Identity\<close>, \<open>Exec_Policy\<close>, \<open>Exec_Model\<close>: \<open>models.py\<close>, \<open>policy.py\<close> and the identifier
      validators of \<open>project.py\<close> and \<open>workspace/task_git.py\<close>. A dataclass is a record, its
      \<open>__post_init__\<close> a function \<open>X_init\<close> that returns the normalised record or raises, \<open>as_mapping\<close> and
      \<open>from_mapping\<close> are \<open>X_as_mapping\<close> and \<open>X_from_mapping\<close>. \<open>Exec_RoundTrip\<close>: the invariants \<open>X_ok\<close>
      the constructors establish, and the round trips.
    \<^item> \<open>Exec_Graph\<close>: \<open>graph.py\<close>. \<open>Exec_Validation\<close>: \<open>validation.py\<close>, with the declarative
      \<open>definition_wf\<close> it decides. \<open>Exec_Repository\<close>, \<open>Exec_Service\<close>: \<open>repository.py\<close>, \<open>service.py\<close>.
    \<^item> \<open>Exec_Runtime\<close>: \<open>task_port.py\<close>, \<open>runtime_repository.py\<close>, \<open>events.py\<close>. The Task port is a record
      over a type of worlds: observations are functions of the world, \<open>start\<close> may change it. The locale
      \<open>task_reader\<close> holds what the engine relies on: what a port describes as a Task's outcome is what
      it reports as its outcome.
    \<^item> \<open>Exec_Eligibility\<close>, \<open>Exec_Gates\<close>, \<open>Exec_Phases\<close>, \<open>Exec_Milestones\<close>, \<open>Exec_Automatic\<close>:
      \<open>eligibility.py\<close>, \<open>gates/\<close>, \<open>phases.py\<close>, \<open>milestones.py\<close> and \<open>baseline.py\<close>, \<open>automatic.py\<close>, each
      with the condition it decides, written without the code's functions: \<open>may_start\<close> for a Task,
      \<open>criterion_holds\<close>, \<open>approved_on\<close> and \<open>row_stands\<close> for the criteria of a Gate.
    \<^item> \<open>Exec_State\<close>, \<open>Exec_Engine\<close>: \<open>engine.py\<close> and \<open>recovery.py\<close>. An operation is a function from the
      engine's state (files, journal, loaded runtime, world) to its result or exception and the new
      state, which also logs the durable effects: a saved runtime, a journal entry, a started Task.
    \<^item> \<open>Exec_Safety\<close>, \<open>Exec_Starts\<close>, \<open>Exec_Judged\<close>: the proofs about starts. A triple carries an
      invariant through returning and raising; frames say which part of the state a step leaves
      alone. \<open>engine_step\<close> is the step relation over operations, crashes that keep a prefix of an
      operation's effects, and changes from outside.
    \<^item> \<open>Exec_Runner\<close>: \<open>runner.py\<close>. The loop has fuel; for a run with \<open>max_cycles = n\<close> the fuel \<open>n\<close> is
      enough (C32), an unbounded run may go on for ever and is then None at every fuel.
    \<^item> \<open>Exec_Task_Projection\<close>: \<open>task_projection.py\<close> over a store of parsed Task files.
    \<^item> \<open>Exec_Action\<close>: operations that return or raise and keep their effects, frames and triples; the
      engine and the delivery service are written with it.
    \<^item> \<open>Exec_Timestamp\<close>, \<open>Exec_Delivery_Model\<close>: \<open>delivery/models.py\<close>. \<open>Exec_Delivery_Repository\<close>:
      \<open>delivery/repository.py\<close>, each operation on the content of \<open>delivery.json\<close>. \<open>Exec_Delivery_Ledger\<close>: the
      abstract ledger of attempts and the proof that the repository implements it.
      \<open>Exec_Delivery\<close>: \<open>delivery/service.py\<close> and \<open>delivery/ports.py\<close>; before each access to the file other
      processes may have changed it. \<open>Exec_Delivery_Sample\<close>: two concrete processes.
    \<^item> \<open>Road_Model\<close>: \<open>roadmap/models.py\<close>; \<open>Road_RoundTrip\<close>: its invariants and round trips. \<open>Road_Repository\<close>:
      \<open>roadmap/repository.py\<close> over a directory of parsed files. \<open>Road_Diagnostics\<close>:
      \<open>coordination_diagnostics.py\<close>. \<open>Road_Intent\<close>, \<open>Road_Coordination\<close>: \<open>coordination.py\<close>; every durable write
      is an effect in a trace, and before each access other processes may change the two documents.
      \<open>Road_Recovery\<close>: a crash keeps a prefix of the trace, and reconciling rolls both documents forward.
      \<open>Road_Guard\<close>: what may be overwritten. \<open>Road_Failure\<close>: what a failed edit leaves. \<open>Road_Resolution\<close>: the
      offered actions.
    \<^item> \<open>Road_Edit\<close>: the edits of \<open>roadmap/service.py\<close> as functions on documents; \<open>Road_Moves\<close>: what moving does,
      with the place an item is asked to take (\<open>placed_as_asked\<close>).
      \<open>Road_Service\<close>: its handlers. \<open>Road_Sound\<close>: valid documents stay valid. \<open>Road_Readable\<close>: a judgement
      on the code, that it keeps the files readable; \<open>Road_Requests\<close>: any sequence of requests does. \<open>Road_Handlers\<close>: the move of a
      canonical asset as a whole. \<open>Road_Sample\<close>: two documents, an edit of both and a rival process.
    \<^item> \<open>Road_Migration\<close>: \<open>roadmap/migration.py\<close> and its two handlers, which promote the inline Phases, Gates and
      Milestones of a Roadmap of schema 1 to assets of the definition. \<open>Road_Promotion\<close>: promoting an item
      again changes nothing, so a migration continues from whatever another one left; \<open>Road_Promoted\<close>: the
      documents it leaves, and what of the definition it leaves alone.
    \<^item> \<open>Exec_Sample\<close>, \<open>Exec_Sample_Run\<close>: a concrete Project on which the hypotheses of the properties
      hold. \<open>Spec_Definition\<close>, \<open>Spec_Control\<close>, \<open>Spec_Execution\<close>, \<open>Spec_Delivery\<close>,
      \<open>Spec_Roadmap\<close>, \<open>Spec_Migration\<close> and this theory: the properties.

  \<^bold>\<open>What is shown.\<close> Here: every start is written ahead and can be recognised after a crash
  (C1), the runtime never holds two open starts of a Task (C11), only
  Tasks that may start are started (C10, C17), nothing else starts
  anything (C34), an open intent blocks a second start
  (C33). In \<open>Spec_Control\<close>: Gates, decisions and waivers are bound to their evidence
  (C15, C23, C24),
  eligibility is exactly its declarative condition (C14), Phase states (C26), Milestones (C27, C28), the plan's bounds
  (C12). In \<open>Spec_Definition\<close>: the dependency order (C29), validation
  (C13), round trips (C30,
  C36), edits and revisions (C25,
  C37). In \<open>Spec_Execution\<close>: the runner (C32), the
  filesystem port (C35) and the recovery of interrupted starts. In \<open>Spec_Delivery\<close>: the
  provider is called on a fresh recorded attempt (C8), the shared file implements the
  ledger (C9) and keeps its history (C16), reconciling never delivers (C38).
  C8 and C16 together mean that no identifier of an attempt is delivered
  twice; C40 shows that a candidate can be, when a rival finishes first. In
  \<open>Spec_Roadmap\<close>: which Roadmaps are accepted (C18) and read back (C31),
  where a move puts an item (C19), and the edit of both documents: it commits (C39), survives any
  number of crashes (C2), overwrites nothing it did not expect
  (C3), is resumable when it fails (C20), and whatever its
  status offers works (C22). The same holds of a whole handler
  (C4), and no sequence of requests and crashes ever leaves a file that cannot be read
  (C5). In \<open>Spec_Migration\<close>: a migration that dies can be continued and ends in the same
  documents (C6), what these are and that no Task becomes eligible by it (C7), and that a Roadmap edited in between is
  not migrated (C21).

  \<^bold>\<open>Parameters.\<close> SHA-256 (\<open>digest\<close> for that of a file that holds a document), the clock, fresh identifiers, the Task port, and the content of files after
  YAML or JSON parsing are arguments (\<open>engine_env\<close>, the port record, \<open>pyval option\<close> for a file). One
  operation reads the clock once and sees one observation of the Tasks per call of \<open>observe\<close>; between
  operations both change arbitrarily. Observations of the port are total: an exception of the port
  while observing is not modelled, an exception of \<open>start\<close> is.

  \<^bold>\<open>Not modelled.\<close> File locks, file modes, symlink checks and directory creation: an operation runs alone, a save
  is atomic, and what can go wrong is a crash between two effects. Strings have 8-bit characters, so
  identifiers with other letters are outside the model. Floating-point numbers do not occur in the
  values (the runner's \<open>poll_seconds\<close> is a number of any ordered type). The line reader of the journal and KeyboardInterrupt in the runner
  are left out, and so are the browser projections of both parts, the interfaces around them (command
  line, GUI), and the orchestration inside one Task, which Project Execution sees only through the port.
  The coordinator's lock is taken as held, also in \<open>reconcile_if_safe\<close>, where the code releases it between the
  status and the resolution: another coordinator that changes the pending intent just there is not modelled (other
  processes that change the documents are). A Roadmap deleted and created again under its name, with
  the same revision as before, is outside what \<open>orderly\<close> allows the other processes.

\<close>

section \<open>Every start is written ahead\<close>

text \<open>
  The states the Project Executor can reach: operations that return, raise or crash at any of
  their effects, in any order, with any definition and any progress of the Tasks in between.
\<close>

definition executor_reaches :: "string \<Rightarrow> 'w task_port \<Rightarrow> 'w engine \<Rightarrow> bool" where
  "executor_reaches dir port s \<longleftrightarrow> (\<exists>s0. en_trace s0 = [] \<and> en_runtime_file s0 = None
     \<and> (engine_step dir port)\<^sup>*\<^sup>* s0 s)"

lemma reached_safe:
  assumes "executor_reaches dir port s" and "\<And>w. task_reader (port_view port w)"
  shows "safe_state dir s"
proof -
  obtain s0 where s0: "en_trace s0 = []" "en_runtime_file s0 = None" "(engine_step dir port)\<^sup>*\<^sup>* s0 s"
    using assms(1) by (auto simp: executor_reaches_def)
  have "safe_state dir s0"
    using s0(1,2) by (simp add: safe_state_def write_ahead_def runtime_load_def exclusive_def
        unresolved_def initial_runtime_def)
  with engine_steps_safe [OF s0(3) assms(2)] show ?thesis by blast
qed




text \<open>C11: in every reachable state the runtime file, if it can be read, has at most one open start
  intent per Task.\<close>

theorem runtime_file_exclusive:
  assumes "executor_reaches dir port s" and "\<And>w. task_reader (port_view port w)"
    and "runtime_load dir (en_runtime_file s) = Inr rt"
  shows "distinct (keys (rt_intents rt))
    \<and> (\<forall>t k k'. unresolved rt t k \<longrightarrow> unresolved rt t k' \<longrightarrow> k = k')"
  using reached_safe [OF assms(1,2)] assms(3) by (auto simp: safe_state_def exclusive_def)

theorem runtime_file_exclusive_witness: "distinct (keys (rt_intents sample_runtime))"
proof -
  have "executor_reaches ''d'' sample_port (sample_engine Mode_AUTOMATIC)"
    unfolding executor_reaches_def
    by (intro exI [of _ "sample_engine Mode_AUTOMATIC"]) (simp add: sample_engine_def)
  moreover have "runtime_load ''d'' (en_runtime_file (sample_engine Mode_AUTOMATIC)) = Inr sample_runtime"
    by (simp add: runtime_load_def sample_engine_def sample_runtime_def)
  ultimately show ?thesis using runtime_file_exclusive sample_port_reader by blast
qed

section \<open>Only eligible Tasks are started\<close>



text \<open>C17: \<open>start_task\<close> starts nothing but the Task it is asked for, at most once, only in assisted
  mode, and only if that Task may be started, by the runtime it saved just before the start and
  the Tasks as observed at the call.\<close>

theorem assisted_start_may_start:
  assumes "start_task env t retry s = (r, s')"
    and "en_trace s' = en_trace s @ before @ Started u # after"
  shows "u = t \<and> starts_of before = [] \<and> starts_of after = []
    \<and> (\<exists>d task phase earlier rt events.
        repository_load (env_path env) (en_definition_file s) = Inr d \<and> pd_mode d = Mode_ASSISTED
        \<and> task \<in> set (pd_tasks d) \<and> pt_task_id task = t
        \<and> phase \<in> set (pd_phases d) \<and> ph_id phase = pt_phase task
        \<and> before = earlier @ Saved rt # map Appended events
        \<and> may_start d rt (port_view (env_port env) (en_world s)) task phase)"
  by (rule assisted_start_judged [OF assms]) blast

theorem assisted_start_may_start_witness:
  "\<exists>d task phase rt. pd_mode d = Mode_ASSISTED \<and> pt_task_id task = ''t''
     \<and> may_start d rt (sample_view False) task phase"
proof -
  obtain r s' where run: "start_task sample_env ''t'' False (sample_engine Mode_ASSISTED) = (r, s')" by fastforce
  obtain before after where "en_trace s' = before @ Started ''t'' # after"
    by (rule started_split [of s' "''t''"]) (use sample_assisted run in simp)
  then have "en_trace s' = en_trace (sample_engine Mode_ASSISTED) @ before @ Started ''t'' # after" by simp
  from assisted_start_may_start [OF run this] show ?thesis
    by (auto simp: sample_engine_def sample_port_def)
qed

text \<open>C33: an unresolved start intent in the stored runtime blocks \<open>start_task\<close> unless the caller
  asks to retry it.\<close>

theorem unresolved_intent_blocks_start:
  assumes "runtime_load (env_dir env) (en_runtime_file s) = Inr rt"
    and "pending_start_intent rt t \<noteq> None"
  shows "started (snd (start_task env t False s)) = started s"
  by (rule start_task_pending [OF assms])

theorem unresolved_intent_blocks_start_witness:
  "started (snd (start_task sample_env ''t'' False ((sample_engine Mode_ASSISTED)
     \<lparr>en_runtime_file := Some (PDict (runtime_as_mapping sample_pending))\<rparr>))) = []"
proof -
  let ?s = "(sample_engine Mode_ASSISTED)\<lparr>en_runtime_file := Some (PDict (runtime_as_mapping sample_pending))\<rparr>"
  have "rt_schema_version sample_pending = 1" "rt_project_id sample_pending = ''d''"
    by (simp_all add: sample_pending_def add_intent_def sample_runtime_def initial_runtime_def)
  then have "runtime_load (env_dir sample_env) (en_runtime_file ?s) = Inr sample_pending"
    by (simp add: runtime_load_def runtime_mapping_round_trip)
  moreover have "pending_start_intent sample_pending ''t'' \<noteq> None" by code_simp
  ultimately show ?thesis using unresolved_intent_blocks_start [of sample_env ?s] by (simp add: started_def sample_engine_def)
qed

text \<open>C34: reconciling, deciding, waiving, pausing and resuming start nothing and leave the Tasks
  alone, whether they return or raise.\<close>

theorem other_operations_start_nothing:
  "started (snd (reconcile env s)) = started s \<and> en_world (snd (reconcile env s)) = en_world s
   \<and> started (snd (decide_gate env g actor decision why s)) = started s
   \<and> en_world (snd (decide_gate env g actor decision why s)) = en_world s
   \<and> started (snd (waive_gate env g actor why s)) = started s
   \<and> en_world (snd (waive_gate env g actor why s)) = en_world s
   \<and> started (snd (pause env why s)) = started s \<and> en_world (snd (pause env why s)) = en_world s
   \<and> started (snd (resume env s)) = started s \<and> en_world (snd (resume env s)) = en_world s"
  using reconcile_nostart [of env] decide_gate_nostart [of env g actor decision why]
    waive_gate_nostart [of env g actor why] pause_nostart [of env why] resume_nostart [of env]
  by (simp add: nostart.keeps_def starts_nothing_def started_def)

end
